(* ===== verification/Py_Prelude.thy ===== *)
theory Py_Prelude
  imports Main "HOL-Library.Word" "HOL-Library.Product_Lexorder"
    "HOL-Library.List_Lexorder" "HOL-Library.Char_ord"
begin

text \<open>
  The shared vocabulary of the development: the exceptions the Python code raises, results
  and effectful computations that may raise, and the list idioms of the sources
  (\<open>next(...)\<close>, \<open>dict.fromkeys\<close>, dictionaries built by a comprehension).
\<close>

section \<open>Exceptions\<close>

text \<open>
  One constructor per exception class the modelled modules raise or catch; the argument is
  the message \<open>str(error)\<close>.  Every class here is a subclass of Python's \<open>Exception\<close>.
  \<open>StationNotFoundError\<close> stands for two classes of this name, of \<open>application/stations.py\<close> and
  \<open>application/preflight.py\<close>: no caller sees both.
\<close>

datatype exn =
    ValueError string
  | KeyError string
  | IndexError string
  | RuntimeError string
  | ConnectionError string
  | TimeoutError string
  | UnboundLocalError string
  | AssertionError string
  | MultipleResultsFound string
  | IntegrityError string
  | EnrollmentRejectedError string
  | ProvisioningRejectedError string
  | ProvisioningConflictError string
  | StationRegistrationConflictError string
  | AgentUnauthorizedError string
  | HeartbeatRejectedError string
  | AgentCommandIssueError string
  | AgentCommandAgentNotFoundError string
  | AgentCommandUnauthorizedError string
  | AgentCommandAcknowledgementRejectedError string
  | StationNotFoundError string
  | PublishDraftValidationError string
  | PublishIdempotencyConflictError string
  | PublishJobNotFoundError string
  | PublishTaskPayloadMismatchError string
  | PublishConfirmationStateError string
  | PublishDispatchStateError string
  | PublishPreconditionError string
  | UnknownStorageOutcome string
  | PublishExecutorStateError string
  | PublishTaskStateError string
  | TrueNASPublishError string
  | DatasetSelectionError string
  | DatasetStorageSyncError string
  | OSError string
  | EOFError string
  | TypeError string
  | CommandSigningError string
  | InvalidAgentCommand string
  | HeartbeatTransportError string
  | EnrollmentError string
  | AgentConfigError string
  | TrueNASAdapterError string
  | UnsupportedTrueNASVersion string
  | UnsupportedTrueNASOperation string
  | JSONRPCConnectionError string
  | JSONRPCTimeoutError string
  | JSONRPCProtocolError string
  | JSONRPCRemoteError string
  | TrueNASRuntimeConfigError string
  | TrueNASAuthenticationError string
  | WorkerRuntimeConfigError string
  | CredentialStoreError string
  | AttributeError string
  | HTTPError string
  | InstallerError string
  | CalledProcessError int string
  | WindowsServiceError string
  | PyWinError int string

primrec exn_message :: "exn \<Rightarrow> string" where
  "exn_message (ValueError m) = m"
| "exn_message (KeyError m) = m"
| "exn_message (IndexError m) = m"
| "exn_message (RuntimeError m) = m"
| "exn_message (ConnectionError m) = m"
| "exn_message (TimeoutError m) = m"
| "exn_message (UnboundLocalError m) = m"
| "exn_message (AssertionError m) = m"
| "exn_message (MultipleResultsFound m) = m"
| "exn_message (IntegrityError m) = m"
| "exn_message (EnrollmentRejectedError m) = m"
| "exn_message (ProvisioningRejectedError m) = m"
| "exn_message (ProvisioningConflictError m) = m"
| "exn_message (StationRegistrationConflictError m) = m"
| "exn_message (AgentUnauthorizedError m) = m"
| "exn_message (HeartbeatRejectedError m) = m"
| "exn_message (AgentCommandIssueError m) = m"
| "exn_message (AgentCommandAgentNotFoundError m) = m"
| "exn_message (AgentCommandUnauthorizedError m) = m"
| "exn_message (AgentCommandAcknowledgementRejectedError m) = m"
| "exn_message (StationNotFoundError m) = m"
| "exn_message (PublishDraftValidationError m) = m"
| "exn_message (PublishIdempotencyConflictError m) = m"
| "exn_message (PublishJobNotFoundError m) = m"
| "exn_message (PublishTaskPayloadMismatchError m) = m"
| "exn_message (PublishConfirmationStateError m) = m"
| "exn_message (PublishDispatchStateError m) = m"
| "exn_message (PublishPreconditionError m) = m"
| "exn_message (UnknownStorageOutcome m) = m"
| "exn_message (PublishExecutorStateError m) = m"
| "exn_message (PublishTaskStateError m) = m"
| "exn_message (TrueNASPublishError m) = m"
| "exn_message (DatasetSelectionError m) = m"
| "exn_message (DatasetStorageSyncError m) = m"
| "exn_message (OSError m) = m"
| "exn_message (EOFError m) = m"
| "exn_message (TypeError m) = m"
| "exn_message (CommandSigningError m) = m"
| "exn_message (InvalidAgentCommand m) = m"
| "exn_message (HeartbeatTransportError m) = m"
| "exn_message (EnrollmentError m) = m"
| "exn_message (AgentConfigError m) = m"
| "exn_message (TrueNASAdapterError m) = m"
| "exn_message (UnsupportedTrueNASVersion m) = m"
| "exn_message (UnsupportedTrueNASOperation m) = m"
| "exn_message (JSONRPCConnectionError m) = m"
| "exn_message (JSONRPCTimeoutError m) = m"
| "exn_message (JSONRPCProtocolError m) = m"
| "exn_message (JSONRPCRemoteError m) = m"
| "exn_message (TrueNASRuntimeConfigError m) = m"
| "exn_message (TrueNASAuthenticationError m) = m"
| "exn_message (WorkerRuntimeConfigError m) = m"
| "exn_message (CredentialStoreError m) = m"
| "exn_message (AttributeError m) = m"
| "exn_message (HTTPError m) = m"
| "exn_message (InstallerError m) = m"
| "exn_message (CalledProcessError n m) = m"
| "exn_message (WindowsServiceError m) = m"
| "exn_message (PyWinError n m) = m"

text \<open>The class name, used where the code falls back on \<open>error.__class__.__name__\<close>.\<close>

primrec exn_class :: "exn \<Rightarrow> string" where
  "exn_class (ValueError m) = ''ValueError''"
| "exn_class (KeyError m) = ''KeyError''"
| "exn_class (IndexError m) = ''IndexError''"
| "exn_class (RuntimeError m) = ''RuntimeError''"
| "exn_class (ConnectionError m) = ''ConnectionError''"
| "exn_class (TimeoutError m) = ''TimeoutError''"
| "exn_class (UnboundLocalError m) = ''UnboundLocalError''"
| "exn_class (AssertionError m) = ''AssertionError''"
| "exn_class (MultipleResultsFound m) = ''MultipleResultsFound''"
| "exn_class (IntegrityError m) = ''IntegrityError''"
| "exn_class (EnrollmentRejectedError m) = ''EnrollmentRejectedError''"
| "exn_class (ProvisioningRejectedError m) = ''ProvisioningRejectedError''"
| "exn_class (ProvisioningConflictError m) = ''ProvisioningConflictError''"
| "exn_class (StationRegistrationConflictError m) = ''StationRegistrationConflictError''"
| "exn_class (AgentUnauthorizedError m) = ''AgentUnauthorizedError''"
| "exn_class (HeartbeatRejectedError m) = ''HeartbeatRejectedError''"
| "exn_class (AgentCommandIssueError m) = ''AgentCommandIssueError''"
| "exn_class (AgentCommandAgentNotFoundError m) = ''AgentCommandAgentNotFoundError''"
| "exn_class (AgentCommandUnauthorizedError m) = ''AgentCommandUnauthorizedError''"
| "exn_class (AgentCommandAcknowledgementRejectedError m) =
     ''AgentCommandAcknowledgementRejectedError''"
| "exn_class (StationNotFoundError m) = ''StationNotFoundError''"
| "exn_class (PublishDraftValidationError m) = ''PublishDraftValidationError''"
| "exn_class (PublishIdempotencyConflictError m) = ''PublishIdempotencyConflictError''"
| "exn_class (PublishJobNotFoundError m) = ''PublishJobNotFoundError''"
| "exn_class (PublishTaskPayloadMismatchError m) = ''PublishTaskPayloadMismatchError''"
| "exn_class (PublishConfirmationStateError m) = ''PublishConfirmationStateError''"
| "exn_class (PublishDispatchStateError m) = ''PublishDispatchStateError''"
| "exn_class (PublishPreconditionError m) = ''PublishPreconditionError''"
| "exn_class (UnknownStorageOutcome m) = ''UnknownStorageOutcome''"
| "exn_class (PublishExecutorStateError m) = ''PublishExecutorStateError''"
| "exn_class (PublishTaskStateError m) = ''PublishTaskStateError''"
| "exn_class (TrueNASPublishError m) = ''TrueNASPublishError''"
| "exn_class (DatasetSelectionError m) = ''DatasetSelectionError''"
| "exn_class (DatasetStorageSyncError m) = ''DatasetStorageSyncError''"
| "exn_class (OSError m) = ''OSError''"
| "exn_class (EOFError m) = ''EOFError''"
| "exn_class (TypeError m) = ''TypeError''"
| "exn_class (CommandSigningError m) = ''CommandSigningError''"
| "exn_class (InvalidAgentCommand m) = ''InvalidAgentCommand''"
| "exn_class (HeartbeatTransportError m) = ''HeartbeatTransportError''"
| "exn_class (EnrollmentError m) = ''EnrollmentError''"
| "exn_class (AgentConfigError m) = ''AgentConfigError''"
| "exn_class (TrueNASAdapterError m) = ''TrueNASAdapterError''"
| "exn_class (UnsupportedTrueNASVersion m) = ''UnsupportedTrueNASVersion''"
| "exn_class (UnsupportedTrueNASOperation m) = ''UnsupportedTrueNASOperation''"
| "exn_class (JSONRPCConnectionError m) = ''JSONRPCConnectionError''"
| "exn_class (JSONRPCTimeoutError m) = ''JSONRPCTimeoutError''"
| "exn_class (JSONRPCProtocolError m) = ''JSONRPCProtocolError''"
| "exn_class (JSONRPCRemoteError m) = ''JSONRPCRemoteError''"
| "exn_class (TrueNASRuntimeConfigError m) = ''TrueNASRuntimeConfigError''"
| "exn_class (TrueNASAuthenticationError m) = ''TrueNASAuthenticationError''"
| "exn_class (WorkerRuntimeConfigError m) = ''WorkerRuntimeConfigError''"
| "exn_class (CredentialStoreError m) = ''CredentialStoreError''"
| "exn_class (AttributeError m) = ''AttributeError''"
| "exn_class (HTTPError m) = ''HTTPError''"
| "exn_class (InstallerError m) = ''InstallerError''"
| "exn_class (CalledProcessError n m) = ''CalledProcessError''"
| "exn_class (WindowsServiceError m) = ''WindowsServiceError''"
| "exn_class (PyWinError n m) = ''error''"

section \<open>Results and computations\<close>

type_synonym 'a result = "exn + 'a"

text \<open>A computation over a state that returns a value or raises; the state survives a raise.\<close>

type_synonym ('s, 'a) sx = "'s \<Rightarrow> 'a result \<times> 's"

definition bindR :: "'a result \<Rightarrow> ('a \<Rightarrow> 'b result) \<Rightarrow> 'b result" where
  "bindR m f = (case m of Inl e \<Rightarrow> Inl e | Inr x \<Rightarrow> f x)"

fun mapR :: "('a \<Rightarrow> 'b result) \<Rightarrow> 'a list \<Rightarrow> 'b list result" where
  "mapR f [] = Inr []"
| "mapR f (x # xs) = bindR (f x) (\<lambda>y. bindR (mapR f xs) (\<lambda>ys. Inr (y # ys)))"

definition returnS :: "'a \<Rightarrow> ('s, 'a) sx" where
  "returnS x = (\<lambda>s. (Inr x, s))"

definition raiseS :: "exn \<Rightarrow> ('s, 'a) sx" where
  "raiseS e = (\<lambda>s. (Inl e, s))"

definition bindS :: "('s, 'a) sx \<Rightarrow> ('a \<Rightarrow> ('s, 'b) sx) \<Rightarrow> ('s, 'b) sx" where
  "bindS m f = (\<lambda>s. case m s of (Inl e, s') \<Rightarrow> (Inl e, s') | (Inr x, s') \<Rightarrow> f x s')"

text \<open>\<open>try: m except Exception as e: h(e)\<close>.\<close>

definition catchS :: "('s, 'a) sx \<Rightarrow> (exn \<Rightarrow> ('s, 'a) sx) \<Rightarrow> ('s, 'a) sx" where
  "catchS m h = (\<lambda>s. case m s of (Inl e, s') \<Rightarrow> h e s' | (Inr x, s') \<Rightarrow> (Inr x, s'))"

definition liftR :: "'a result \<Rightarrow> ('s, 'a) sx" where
  "liftR r = (\<lambda>s. (r, s))"

definition getS :: "('s \<Rightarrow> 'a) \<Rightarrow> ('s, 'a) sx" where
  "getS f = (\<lambda>s. (Inr (f s), s))"

definition modifyS :: "('s \<Rightarrow> 's) \<Rightarrow> ('s, unit) sx" where
  "modifyS f = (\<lambda>s. (Inr (), f s))"

text \<open>A \<open>for\<close> loop that collects one value per element, in order.\<close>

fun mapS :: "('a \<Rightarrow> ('s, 'b) sx) \<Rightarrow> 'a list \<Rightarrow> ('s, 'b list) sx" where
  "mapS f [] = returnS []"
| "mapS f (x # xs) = bindS (f x) (\<lambda>y. bindS (mapS f xs) (\<lambda>ys. returnS (y # ys)))"

text \<open>A \<open>for\<close> loop run for its effects.\<close>

fun forS :: "('a \<Rightarrow> ('s, unit) sx) \<Rightarrow> 'a list \<Rightarrow> ('s, unit) sx" where
  "forS f [] = returnS ()"
| "forS f (x # xs) = bindS (f x) (\<lambda>_. forS f xs)"

text \<open>\<open>sx_simps\<close> unfolds the combinators; \<open>frame\<close> collects facts that an operation leaves
  a part of the state alone.\<close>

named_theorems sx_simps
named_theorems frame

lemma bindR_simps [simp]:
  "bindR (Inl e) f = Inl e" "bindR (Inr x) f = f x"
  by (simp_all add: bindR_def)

lemma bindR_Inr_iff: "bindR m f = Inr y \<longleftrightarrow> (\<exists>x. m = Inr x \<and> f x = Inr y)"
  by (cases m) auto

lemma bindR_Inl_iff: "bindR m f = Inl e \<longleftrightarrow> m = Inl e \<or> (\<exists>x. m = Inr x \<and> f x = Inl e)"
  by (cases m) auto

lemma mapR_Inr_iff: "mapR f xs = Inr ys \<longleftrightarrow> list_all2 (\<lambda>x y. f x = Inr y) xs ys"
  by (induction xs arbitrary: ys) (auto simp: bindR_Inr_iff list_all2_Cons1)

lemma mapR_Inr_length: "mapR f xs = Inr ys \<Longrightarrow> length ys = length xs"
  by (auto simp: mapR_Inr_iff dest: list_all2_lengthD)

lemma mapR_element: "mapR f xs = Inr ys \<Longrightarrow> y \<in> set ys \<Longrightarrow> \<exists>x \<in> set xs. f x = Inr y"
  by (induction xs arbitrary: ys) (auto simp: bindR_Inr_iff)

lemma mapR_map_eq:
  "mapR f xs = Inr ys \<Longrightarrow> (\<And>x y. f x = Inr y \<Longrightarrow> g y = h x) \<Longrightarrow> map g ys = map h xs"
  by (induction xs arbitrary: ys) (auto simp: bindR_Inr_iff)

lemma mapR_total: "(\<And>x. x \<in> set xs \<Longrightarrow> f x = Inr (g x)) \<Longrightarrow> mapR f xs = Inr (map g xs)"
  by (induction xs) auto

lemma mapR_Inl: "x \<in> set xs \<Longrightarrow> f x = Inl e \<Longrightarrow> \<exists>e'. mapR f xs = Inl e'"
proof (induction xs)
  case (Cons a xs)
  then show ?case by (cases "f a") auto
qed simp

lemma returnS_apply [sx_simps]: "returnS x s = (Inr x, s)"
  by (simp add: returnS_def)

lemma raiseS_apply [sx_simps]: "raiseS e s = (Inl e, s)"
  by (simp add: raiseS_def)

lemma liftR_apply [sx_simps]: "liftR r s = (r, s)"
  by (simp add: liftR_def)

lemma getS_apply [sx_simps]: "getS f s = (Inr (f s), s)"
  by (simp add: getS_def)

lemma modifyS_apply [sx_simps]: "modifyS f s = (Inr (), f s)"
  by (simp add: modifyS_def)

lemma bindS_apply [sx_simps]:
  "bindS m f s = (case m s of (Inl e, s') \<Rightarrow> (Inl e, s') | (Inr x, s') \<Rightarrow> f x s')"
  by (simp add: bindS_def)

lemma catchS_apply [sx_simps]:
  "catchS m h s = (case m s of (Inl e, s') \<Rightarrow> h e s' | (Inr x, s') \<Rightarrow> (Inr x, s'))"
  by (simp add: catchS_def)

lemma bindS_Inr_iff:
  "bindS m f s = (Inr y, t) \<longleftrightarrow> (\<exists>x s'. m s = (Inr x, s') \<and> f x s' = (Inr y, t))"
  by (cases "m s") (auto simp: bindS_def split: sum.splits)

lemma bindS_Inr_E:
  assumes "bindS m f s = (Inr y, t)"
  obtains x s' where "m s = (Inr x, s')" and "f x s' = (Inr y, t)"
  using assms by (auto simp: bindS_Inr_iff)

lemma mapS_Inr_length: "mapS f xs s = (Inr ys, t) \<Longrightarrow> length ys = length xs"
  by (induction xs arbitrary: s ys) (auto simp: returnS_def bindS_Inr_iff)

text \<open>An invariant kept by the body is kept by the loop, whether it ends or raises.\<close>

lemma mapS_invariant:
  assumes "\<And>x s. x \<in> set xs \<Longrightarrow> P s \<Longrightarrow> P (snd (f x s))" and "P s"
  shows "P (snd (mapS f xs s))"
  using assms
proof (induction xs arbitrary: s)
  case Nil
  then show ?case by (simp add: returnS_def)
next
  case (Cons x xs)
  obtain r s1 where f: "f x s = (r, s1)" by fastforce
  with Cons.prems have P1: "P s1" by (metis list.set_intros(1) snd_conv)
  then have "P (snd (mapS f xs s1))" using Cons by simp
  with f P1 show ?case
    by (auto simp: bindS_def returnS_def split: sum.splits prod.splits)
qed

lemma forS_invariant:
  assumes "\<And>x s. x \<in> set xs \<Longrightarrow> P s \<Longrightarrow> P (snd (f x s))" and "P s"
  shows "P (snd (forS f xs s))"
  using assms
proof (induction xs arbitrary: s)
  case Nil
  then show ?case by (simp add: returnS_def)
next
  case (Cons x xs)
  obtain r s1 where f: "f x s = (r, s1)" by fastforce
  with Cons.prems have P1: "P s1" by (metis list.set_intros(1) snd_conv)
  then have "P (snd (forS f xs s1))" using Cons by simp
  with f P1 show ?case
    by (auto simp: bindS_def split: sum.splits prod.splits)
qed

section \<open>List idioms of the sources\<close>

text \<open>\<open>tuple(dict.fromkeys(xs))\<close>: the first occurrence of each element, in order.\<close>

definition dict_fromkeys :: "'a list \<Rightarrow> 'a list" where
  "dict_fromkeys xs = rev (remdups (rev xs))"

lemma set_dict_fromkeys [simp]: "set (dict_fromkeys xs) = set xs"
  by (simp add: dict_fromkeys_def)

lemma distinct_dict_fromkeys [simp]: "distinct (dict_fromkeys xs)"
  by (simp add: dict_fromkeys_def)

lemma dict_fromkeys_distinct [simp]: "distinct xs \<Longrightarrow> dict_fromkeys xs = xs"
  by (simp add: dict_fromkeys_def distinct_remdups_id)

lemma dict_fromkeys_Nil_iff [simp]: "dict_fromkeys xs = [] \<longleftrightarrow> xs = []"
  by (simp add: dict_fromkeys_def)

text \<open>\<open>{key(x): x for x in xs}\<close>: a later element overwrites an earlier one.\<close>

definition dict_by :: "('a \<Rightarrow> 'k) \<Rightarrow> 'a list \<Rightarrow> ('k \<rightharpoonup> 'a)" where
  "dict_by key xs = map_of (rev (map (\<lambda>x. (key x, x)) xs))"

lemma dom_dict_by [simp]: "dom (dict_by key xs) = key ` set xs"
  by (auto simp: dict_by_def dom_map_of_conv_image_fst image_image)

lemma dict_by_SomeD: "dict_by key xs k = Some x \<Longrightarrow> x \<in> set xs \<and> key x = k"
  by (auto simp: dict_by_def dest!: map_of_SomeD)

lemma dict_by_None_iff: "dict_by key xs k = None \<longleftrightarrow> k \<notin> key ` set xs"
  by (metis dom_dict_by domIff)

lemma dict_by_distinct:
  assumes "distinct (map key xs)" and "x \<in> set xs"
  shows "dict_by key xs (key x) = Some x"
proof -
  have "distinct (map fst (rev (map (\<lambda>x. (key x, x)) xs)))"
    using assms(1) by (simp add: rev_map [symmetric] comp_def)
  moreover have "(key x, x) \<in> set (rev (map (\<lambda>x. (key x, x)) xs))"
    using assms(2) by auto
  ultimately show ?thesis unfolding dict_by_def by (rule map_of_is_SomeI)
qed

text \<open>\<open>row.field = v\<close> on the rows a query selects.\<close>

definition update_where :: "('a \<Rightarrow> bool) \<Rightarrow> ('a \<Rightarrow> 'a) \<Rightarrow> 'a list \<Rightarrow> 'a list" where
  "update_where P f xs = map (\<lambda>x. if P x then f x else x) xs"

lemma set_update_where: "set (update_where P f xs) = (\<lambda>x. if P x then f x else x) ` set xs"
  by (simp add: update_where_def)

lemma in_update_where:
  "x \<in> set (update_where P f xs) \<longleftrightarrow> (\<exists>y \<in> set xs. x = (if P y then f y else y))"
  unfolding update_where_def set_map by blast

lemma bex_update_where:
  "(\<exists>x \<in> set (update_where P f xs). Q x) \<longleftrightarrow> (\<exists>x \<in> set xs. Q (if P x then f x else x))"
  unfolding update_where_def set_map by blast

lemma ball_update_where:
  "(\<forall>x \<in> set (update_where P f xs). Q x) \<longleftrightarrow> (\<forall>x \<in> set xs. Q (if P x then f x else x))"
  unfolding update_where_def set_map by blast

lemma length_update_where [simp]: "length (update_where P f xs) = length xs"
  by (simp add: update_where_def)

lemma map_update_where:
  "(\<And>x. P x \<Longrightarrow> g (f x) = g x) \<Longrightarrow> map g (update_where P f xs) = map g xs"
  by (simp add: update_where_def)

lemma image_update_where:
  "(\<And>x. P x \<Longrightarrow> g (f x) = g x) \<Longrightarrow> g ` set (update_where P f xs) = g ` set xs"
  by (metis list.set_map map_update_where)

lemma update_where_id: "(\<And>x. x \<in> set xs \<Longrightarrow> \<not> P x) \<Longrightarrow> update_where P f xs = xs"
  by (simp add: update_where_def map_idI)

lemma find_update_where:
  assumes "\<And>x. Q (if P x then f x else x) = Q x"
  shows "find Q (update_where P f xs) = map_option (\<lambda>x. if P x then f x else x) (find Q xs)"
  using assms by (induction xs) (auto simp: update_where_def)

lemma filter_update_where:
  assumes "\<And>x. Q (if P x then f x else x) = Q x"
  shows "filter Q (update_where P f xs) = update_where P f (filter Q xs)"
  using assms by (induction xs) (auto simp: update_where_def)

lemma find_SomeD: "find P xs = Some x \<Longrightarrow> x \<in> set xs \<and> P x"
  by (auto simp: find_Some_iff)

lemma find_None_D: "find P xs = None \<Longrightarrow> x \<in> set xs \<Longrightarrow> \<not> P x"
  by (auto simp: find_None_iff)

lemma find_append: "find P (xs @ ys) = (case find P xs of None \<Rightarrow> find P ys | Some x \<Rightarrow> Some x)"
  by (induction xs) auto

text \<open>In a table with a unique key, the row found by key is the row.\<close>

lemma find_unique:
  assumes "distinct (map key xs)" and "x \<in> set xs"
  shows "find (\<lambda>y. key y = key x) xs = Some x"
  using assms by (induction xs) (auto simp: rev_image_eqI)

lemma find_key_and:
  assumes "distinct (map key xs)"
  shows "find (\<lambda>r. key r = k \<and> P r) xs =
    (case find (\<lambda>r. key r = k) xs of None \<Rightarrow> None | Some r \<Rightarrow> if P r then Some r else None)"
  using assms
proof (induction xs)
  case (Cons x xs)
  show ?case
  proof (cases "key x = k")
    case True
    with Cons.prems have "find (\<lambda>r. key r = k \<and> P r) xs = None"
      by (auto simp: find_None_iff image_iff dest: sym)
    with True show ?thesis by simp
  next
    case False
    with Cons show ?thesis by simp
  qed
qed simp

lemma filter_unique:
  assumes "distinct (map key xs)" and "x \<in> set xs"
  shows "filter (\<lambda>y. key y = key x) xs = [x]"
  using assms
proof (induction xs)
  case (Cons a xs)
  show ?case
  proof (cases "x = a")
    case True
    with Cons.prems have "filter (\<lambda>y. key y = key a) xs = []"
      by (auto simp: filter_empty_conv image_iff dest: sym)
    with True show ?thesis by simp
  next
    case False
    with Cons show ?thesis by (auto simp: image_iff)
  qed
qed simp

lemma concat_map_single: "(\<And>x. x \<in> set xs \<Longrightarrow> f x = [x]) \<Longrightarrow> concat (map f xs) = xs"
  by (induction xs) auto

lemma concat_map_single_key:
  assumes "distinct (map key xs)" and "x \<in> set xs" and "f x = [y]" and "Q y"
    and "\<And>z w. z \<in> set xs \<Longrightarrow> w \<in> set (f z) \<Longrightarrow> Q w \<Longrightarrow> key z = key x"
  shows "filter Q (concat (map f xs)) = [y]"
  using assms
proof (induction xs)
  case (Cons a xs)
  show ?case
  proof (cases "a = x")
    case True
    have "filter Q (concat (map f xs)) = []"
    proof -
      have False if "z \<in> set xs" "w \<in> set (f z)" "Q w" for z w
        using Cons.prems(1) Cons.prems(5) [of z w] that True by (auto simp: image_iff)
      then show ?thesis by (auto simp: filter_empty_conv)
    qed
    with True Cons.prems(3,4) show ?thesis by simp
  next
    case False
    with Cons.prems have x: "x \<in> set xs" by simp
    then have "key a \<noteq> key x" using Cons.prems(1) by (auto simp: image_iff)
    then have "filter Q (f a) = []" using Cons.prems(5) [of a] by (auto simp: filter_empty_conv)
    moreover have "filter Q (concat (map f xs)) = [y]"
    proof (rule Cons.IH [OF _ x Cons.prems(3,4)])
      show "distinct (map key xs)" using Cons.prems(1) by simp
      show "key z = key x" if "z \<in> set xs" "w \<in> set (f z)" "Q w" for z w
        using Cons.prems(5) [of z w] that by simp
    qed
    ultimately show ?thesis by simp
  qed
qed simp

lemma distinct_map_eq_iff:
  "distinct (map key xs) \<Longrightarrow> x \<in> set xs \<Longrightarrow> y \<in> set xs \<Longrightarrow> key x = key y \<longleftrightarrow> x = y"
  by (auto simp: distinct_map inj_on_def)

text \<open>\<open>one_or_none()\<close> of SQLAlchemy.\<close>

definition one_or_none :: "'a list \<Rightarrow> 'a option result" where
  "one_or_none xs =
     (case xs of [] \<Rightarrow> Inr None
      | [x] \<Rightarrow> Inr (Some x)
      | _ \<Rightarrow> Inl (MultipleResultsFound ''Multiple rows were found when one or none was required''))"

lemma one_or_none_simps [simp]:
  "one_or_none [] = Inr None" "one_or_none [x] = Inr (Some x)"
  by (simp_all add: one_or_none_def)

lemma one_or_none_Some: "one_or_none xs = Inr (Some x) \<longleftrightarrow> xs = [x]"
  by (auto simp: one_or_none_def split: list.splits)

lemma one_or_none_None: "one_or_none xs = Inr None \<longleftrightarrow> xs = []"
  by (auto simp: one_or_none_def split: list.splits)

end
