(* ===== verification/Py_Text.thy ===== *)
theory Py_Text
  imports Py_Prelude
begin

text \<open>
  The \<open>str\<close> methods, \<open>re\<close> patterns and conversions the sources use, on Isabelle's
  \<^typ>\<open>string\<close>: one \<^typ>\<open>char\<close> is one code point, so the model ranges over the code
  points 0 to 255.  On them \<open>strip\<close>, \<open>split\<close>, \<open>casefold\<close> and \<open>upper\<close> are Python's, but
  for the three letters whose fold or upper case lies outside the range
  (micro sign, y with diaeresis): they are left as they are, which changes no comparison
  between two strings of the range.
\<close>

section \<open>Characters\<close>

definition code :: "char \<Rightarrow> nat" where
  "code c = of_char c"

definition chr_of :: "nat \<Rightarrow> char" where
  "chr_of n = char_of n"

text \<open>\<open>c.isspace()\<close>\<close>

definition py_space :: "char \<Rightarrow> bool" where
  "py_space c = (code c \<in> {9, 10, 11, 12, 13, 28, 29, 30, 31, 32, 133, 160})"

definition is_digit :: "char \<Rightarrow> bool" where
  "is_digit c = (48 \<le> code c \<and> code c \<le> 57)"

definition is_upper :: "char \<Rightarrow> bool" where
  "is_upper c = (65 \<le> code c \<and> code c \<le> 90)"

definition is_lower :: "char \<Rightarrow> bool" where
  "is_lower c = (97 \<le> code c \<and> code c \<le> 122)"

definition is_alnum :: "char \<Rightarrow> bool" where
  "is_alnum c = (is_digit c \<or> is_upper c \<or> is_lower c)"

definition is_upper_hex :: "char \<Rightarrow> bool" where
  "is_upper_hex c = (is_digit c \<or> (65 \<le> code c \<and> code c \<le> 70))"

section \<open>strip, split, join\<close>

definition lstrip_with :: "(char \<Rightarrow> bool) \<Rightarrow> string \<Rightarrow> string" where
  "lstrip_with p s = dropWhile p s"

definition strip_with :: "(char \<Rightarrow> bool) \<Rightarrow> string \<Rightarrow> string" where
  "strip_with p s = rev (dropWhile p (rev (dropWhile p s)))"

definition strip :: "string \<Rightarrow> string" where
  "strip s = strip_with py_space s"

text \<open>\<open>s.split()\<close> (runs of white space) and \<open>s.split(c)\<close> (one separator character).\<close>

fun split_space :: "string \<Rightarrow> string \<Rightarrow> string list" where
  "split_space w [] = (if w = [] then [] else [rev w])"
| "split_space w (c # cs) =
     (if py_space c then (if w = [] then split_space [] cs else rev w # split_space [] cs)
      else split_space (c # w) cs)"

definition py_split :: "string \<Rightarrow> string list" where
  "py_split s = split_space [] s"

fun split_char :: "char \<Rightarrow> string \<Rightarrow> string list" where
  "split_char d [] = [[]]"
| "split_char d (c # cs) =
     (if c = d then [] # split_char d cs
      else (case split_char d cs of [] \<Rightarrow> [[c]] | w # ws \<Rightarrow> (c # w) # ws))"

fun join_with :: "string \<Rightarrow> string list \<Rightarrow> string" where
  "join_with sep [] = []"
| "join_with sep [w] = w"
| "join_with sep (w # v # ws) = w @ sep @ join_with sep (v # ws)"

section \<open>Prefixes, case\<close>

definition starts_with :: "string \<Rightarrow> string \<Rightarrow> bool" where
  "starts_with p s = (take (length p) s = p)"

definition removeprefix :: "string \<Rightarrow> string \<Rightarrow> string" where
  "removeprefix p s = (if starts_with p s then drop (length p) s else s)"

text \<open>Lower case of the letters that have one in the range: A to Z, and 192 to 222 but the
  multiplication sign.\<close>

definition fold_char :: "char \<Rightarrow> string" where
  "fold_char c =
     (if is_upper c \<or> (192 \<le> code c \<and> code c \<le> 222 \<and> code c \<noteq> 215) then [chr_of (code c + 32)]
      else if code c = 223 then ''ss''
      else [c])"

definition casefold :: "string \<Rightarrow> string" where
  "casefold s = concat (map fold_char s)"

text \<open>\<open>str.isascii\<close> and \<open>str.lower\<close>\<close>

definition ascii :: "string \<Rightarrow> bool" where
  "ascii s = list_all (\<lambda>c. code c < 128) s"

definition lower_char :: "char \<Rightarrow> char" where
  "lower_char c =
     (if is_upper c \<or> (192 \<le> code c \<and> code c \<le> 222 \<and> code c \<noteq> 215) then chr_of (code c + 32) else c)"

definition lower :: "string \<Rightarrow> string" where
  "lower s = map lower_char s"

definition upper_char :: "char \<Rightarrow> string" where
  "upper_char c =
     (if is_lower c \<or> (224 \<le> code c \<and> code c \<le> 254 \<and> code c \<noteq> 247) then [chr_of (code c - 32)]
      else if code c = 223 then ''SS''
      else [c])"

definition py_upper :: "string \<Rightarrow> string" where
  "py_upper s = concat (map upper_char s)"

section \<open>Numbers and quoting in messages\<close>

definition digit_char :: "nat \<Rightarrow> char" where
  "digit_char d = (if d < 10 then chr_of (48 + d) else chr_of (87 + d))"

fun str_nat :: "nat \<Rightarrow> string" where
  "str_nat n = (if n < 10 then [digit_char n] else str_nat (n div 10) @ [digit_char (n mod 10)])"

declare str_nat.simps [simp del]

definition str_int :: "int \<Rightarrow> string" where
  "str_int i = (if i < 0 then CHR ''-'' # str_nat (nat (- i)) else str_nat (nat i))"

text \<open>\<open>repr(s)\<close>, as \<open>{value!r}\<close> prints it.\<close>

definition repr_char :: "char \<Rightarrow> char \<Rightarrow> string" where
  "repr_char q c =
     (if c = q \<or> c = CHR 0x5C then [CHR 0x5C, c]
      else if code c = 9 then [CHR 0x5C, CHR ''t'']
      else if code c = 10 then [CHR 0x5C, CHR ''n'']
      else if code c = 13 then [CHR 0x5C, CHR ''r'']
      else if code c < 32 \<or> (127 \<le> code c \<and> code c \<le> 160) \<or> code c = 173
        then [CHR 0x5C, CHR ''x'', digit_char (code c div 16), digit_char (code c mod 16)]
      else [c])"

definition py_repr :: "string \<Rightarrow> string" where
  "py_repr s =
     (let q = (if CHR 0x27 \<in> set s \<and> CHR 0x22 \<notin> set s then CHR 0x22 else CHR 0x27)
      in [q] @ concat (map (repr_char q) s) @ [q])"

section \<open>Patterns\<close>

text \<open>\<open>re.sub(r"[^...]+", "-", s)\<close>: each maximal run of characters outside \<open>ok\<close> becomes
  one \<open>-\<close>; the flag says the previous character was in such a run.\<close>

fun sub_runs :: "(char \<Rightarrow> bool) \<Rightarrow> bool \<Rightarrow> string \<Rightarrow> string" where
  "sub_runs ok inrun [] = []"
| "sub_runs ok inrun (c # cs) =
     (if ok c then c # sub_runs ok False cs
      else if inrun then sub_runs ok True cs
      else CHR ''-'' # sub_runs ok True cs)"

section \<open>Lemmas\<close>

lemma strip_Nil [simp]: "strip [] = []"
  by (simp add: strip_def strip_with_def)

lemma dropWhile_idem_rev:
  "dropWhile p (rev (dropWhile p (rev (dropWhile p s)))) = rev (dropWhile p (rev (dropWhile p s)))"
proof (cases "dropWhile p s")
  case (Cons c cs)
  then have c: "\<not> p c" by (metis hd_dropWhile list.discI list.sel(1))
  have "rev (dropWhile p (rev (c # cs))) = c # rev (dropWhile p (rev cs))"
    using c by (cases "dropWhile p (rev cs) = []") (auto simp: dropWhile_append)
  with Cons c show ?thesis by simp
next
  case Nil
  show ?thesis unfolding Nil by simp
qed

lemma strip_with_idem: "strip_with p (strip_with p s) = strip_with p s"
  by (simp add: strip_with_def dropWhile_idem_rev)

lemma strip_idem [simp]: "strip (strip s) = strip s"
  by (simp add: strip_def strip_with_idem)

lemma set_strip_with: "set (strip_with p s) \<subseteq> set s"
  unfolding strip_with_def
  by (metis set_dropWhileD set_rev subsetI)

lemma strip_with_hd:
  assumes "strip_with p s \<noteq> []" shows "\<not> p (hd (strip_with p s))"
  by (metis assms dropWhile_idem_rev hd_dropWhile strip_with_def)

lemma strip_with_last:
  assumes "strip_with p s \<noteq> []" shows "\<not> p (last (strip_with p s))"
  using assms unfolding strip_with_def
  by (metis hd_dropWhile last_rev rev_is_Nil_conv)

lemma length_strip_le: "length (strip s) \<le> length s"
  by (simp add: strip_def strip_with_def) (metis length_dropWhile_le length_rev order_trans)

lemma starts_with_append [simp]: "starts_with p (p @ s)"
  by (simp add: starts_with_def)

lemma removeprefix_append [simp]: "removeprefix p (p @ s) = s"
  by (simp add: removeprefix_def)

lemma starts_with_iff: "starts_with p s \<longleftrightarrow> (\<exists>t. s = p @ t)"
  by (metis append_eq_conv_conj append_take_drop_id starts_with_def)

lemma sub_runs_chars: "c \<in> set (sub_runs ok r s) \<Longrightarrow> ok c \<or> c = CHR ''-''"
  by (induction ok r s rule: sub_runs.induct) (auto split: if_splits)

lemma length_sub_runs: "length (sub_runs ok r s) \<le> length s"
  by (induction ok r s rule: sub_runs.induct) auto

text \<open>White-space splitting leaves non-empty words without white space.\<close>

lemma split_space_words:
  assumes "\<forall>c \<in> set w. \<not> py_space c" and "v \<in> set (split_space w s)"
  shows "v \<noteq> [] \<and> (\<forall>c \<in> set v. \<not> py_space c)"
  using assms
proof (induction s arbitrary: w)
  case Nil
  then show ?case by (simp split: if_splits)
next
  case (Cons c cs)
  show ?case
  proof (cases "py_space c")
    case True
    with Cons.prems Cons.IH [of "[]"] show ?thesis by (cases "w = []") auto
  next
    case False
    with Cons.prems(1) have "\<forall>d \<in> set (c # w). \<not> py_space d" by simp
    moreover from False Cons.prems(2) have "v \<in> set (split_space (c # w) cs)" by simp
    ultimately show ?thesis by (rule Cons.IH)
  qed
qed

lemma py_split_words: "v \<in> set (py_split s) \<Longrightarrow> v \<noteq> [] \<and> (\<forall>c \<in> set v. \<not> py_space c)"
  unfolding py_split_def by (rule split_space_words) auto

end
