(* ===== verification/Py_Values.thy ===== *)
theory Py_Values
  imports Py_Text
begin

text \<open>
  Python's \<open>datetime\<close> and \<open>UUID\<close>.  A datetime is naive or aware; times are counted in
  microseconds, and an aware value carries its offset from UTC.  The calendar and the limits
  of the years 1 and 9999 are not modelled.  A UUID is its 128-bit value; \<open>str\<close>, \<open>hex\<close> and the
  parser \<open>UUID(text)\<close> are the standard library's.
\<close>

section \<open>Datetimes\<close>

datatype datetime = Naive int | Aware int int

text \<open>\<open>domain/time.py\<close>: a naive value is taken as UTC, an aware one is converted.\<close>

fun ensure_utc :: "datetime \<Rightarrow> datetime" where
  "ensure_utc (Naive t) = Aware t 0"
| "ensure_utc (Aware t off) = Aware (t - off) 0"

text \<open>The point in time a value denotes, as the database and comparisons of aware values see it.\<close>

fun instant :: "datetime \<Rightarrow> int" where
  "instant (Naive t) = t"
| "instant (Aware t off) = t - off"

fun dt_plus :: "datetime \<Rightarrow> int \<Rightarrow> datetime" where
  "dt_plus (Naive t) d = Naive (t + d)"
| "dt_plus (Aware t off) d = Aware (t + d) off"

definition seconds :: "int \<Rightarrow> int" where
  "seconds n = n * 1000000"

definition minutes :: "int \<Rightarrow> int" where
  "minutes n = seconds (60 * n)"

definition days :: "int \<Rightarrow> int" where
  "days n = seconds (86400 * n)"

lemma ensure_utc_eq: "ensure_utc d = Aware (instant d) 0"
  by (cases d) simp_all

lemma instant_ensure_utc [simp]: "instant (ensure_utc d) = instant d"
  by (cases d) simp_all

lemma ensure_utc_idem [simp]: "ensure_utc (ensure_utc d) = ensure_utc d"
  by (cases d) simp_all

lemma instant_dt_plus [simp]: "instant (dt_plus d k) = instant d + k"
  by (cases d) simp_all

lemma ensure_utc_dt_plus: "ensure_utc (dt_plus d k) = dt_plus (ensure_utc d) k"
  by (cases d) simp_all

section \<open>UUIDs\<close>

type_synonym uuid = "128 word"

text \<open>The \<open>k\<close> hexadecimal digits of \<open>n\<close>, most significant first.\<close>

fun hex_digits :: "nat \<Rightarrow> nat \<Rightarrow> string" where
  "hex_digits 0 n = []"
| "hex_digits (Suc k) n = hex_digits k (n div 16) @ [digit_char (n mod 16)]"

definition uuid_hex :: "uuid \<Rightarrow> string" where
  "uuid_hex u = hex_digits 32 (unat u)"

definition uuid_str :: "uuid \<Rightarrow> string" where
  "uuid_str u =
     (let h = uuid_hex u
      in take 8 h @ ''-'' @ take 4 (drop 8 h) @ ''-'' @ take 4 (drop 12 h) @ ''-''
         @ take 4 (drop 16 h) @ ''-'' @ drop 20 h)"

definition digit_value :: "char \<Rightarrow> nat option" where
  "digit_value c =
     (if is_digit c then Some (code c - 48)
      else if 65 \<le> code c \<and> code c \<le> 70 then Some (code c - 55)
      else if 97 \<le> code c \<and> code c \<le> 102 then Some (code c - 87)
      else None)"

text \<open>\<open>int(s, 16)\<close>: digits with single underscores between them.\<close>

fun hex_scan :: "nat \<Rightarrow> bool \<Rightarrow> string \<Rightarrow> nat option" where
  "hex_scan acc after [] = (if after then Some acc else None)"
| "hex_scan acc after (c # cs) =
     (if c = CHR ''_'' then (if after then hex_scan acc False cs else None)
      else (case digit_value c of None \<Rightarrow> None | Some d \<Rightarrow> hex_scan (16 * acc + d) True cs))"

definition drop_hex_prefix :: "string \<Rightarrow> string" where
  "drop_hex_prefix s =
     (if starts_with ''0x'' s \<or> starts_with ''0X'' s then removeprefix ''_'' (drop 2 s) else s)"

definition py_int16 :: "string \<Rightarrow> int option" where
  "py_int16 s =
     (let t = strip s in
      if starts_with ''-'' t then map_option (\<lambda>n. - int n) (hex_scan 0 False (drop_hex_prefix (drop 1 t)))
      else if starts_with ''+'' t then map_option int (hex_scan 0 False (drop_hex_prefix (drop 1 t)))
      else map_option int (hex_scan 0 False (drop_hex_prefix t)))"

text \<open>\<open>s.replace(sub, "")\<close> for a non-empty \<open>sub\<close>.\<close>

function remove_all :: "string \<Rightarrow> string \<Rightarrow> string" where
  "remove_all sub [] = []"
| "remove_all sub (c # cs) =
     (if starts_with sub (c # cs) \<and> sub \<noteq> [] then remove_all sub (drop (length sub - 1) cs)
      else c # remove_all sub cs)"
  by pat_completeness auto
termination
  by (relation "measure (\<lambda>(sub, s). length s)") auto

definition uuid_parse :: "string \<Rightarrow> uuid result" where
  "uuid_parse text =
     (let h = remove_all ''uuid:'' (remove_all ''urn:'' text);
          h = remove_all ''-'' (strip_with (\<lambda>c. c = CHR ''{'' \<or> c = CHR ''}'') h)
      in if length h \<noteq> 32 then Inl (ValueError ''badly formed hexadecimal UUID string'')
         else (case py_int16 h of
             None \<Rightarrow> Inl (ValueError (''invalid literal for int() with base 16: '' @ py_repr h))
           | Some i \<Rightarrow> if 0 \<le> i \<and> i < 2 ^ 128 then Inr (word_of_int i)
                       else Inl (ValueError ''int is out of range (need a 128-bit value)'')))"

subsection \<open>Printing and parsing\<close>

lemma code_chr_of: "n < 256 \<Longrightarrow> code (chr_of n) = n"
  by (simp add: code_def chr_of_def)

lemma code_digit_char: "d < 16 \<Longrightarrow> code (digit_char d) = (if d < 10 then 48 + d else 87 + d)"
  by (simp add: digit_char_def code_chr_of)

lemma digit_value_digit_char [simp]: "d < 16 \<Longrightarrow> digit_value (digit_char d) = Some d"
  by (auto simp: digit_value_def is_digit_def code_digit_char)

lemma code_inject: "code c = code d \<longleftrightarrow> c = d"
  by (simp add: code_def)

text \<open>A hexadecimal digit is none of the characters the parser treats specially.\<close>

definition plain_hex :: "char \<Rightarrow> bool" where
  "plain_hex c = (is_digit c \<or> (97 \<le> code c \<and> code c \<le> 102))"

lemma plain_hex_digit_char: "d < 16 \<Longrightarrow> plain_hex (digit_char d)"
  by (auto simp: plain_hex_def is_digit_def code_digit_char)

lemma plain_hex_digits: "c \<in> set (hex_digits k n) \<Longrightarrow> plain_hex c"
  by (induction k n rule: hex_digits.induct) (auto simp: plain_hex_digit_char)

lemma plain_hex_neq:
  assumes "plain_hex c"
  shows "c \<noteq> CHR ''-''" "c \<noteq> CHR ''+''" "c \<noteq> CHR ''_''" "c \<noteq> CHR ''x''" "c \<noteq> CHR ''X''"
    "c \<noteq> CHR ''u''" "c \<noteq> CHR ''{''" "c \<noteq> CHR ''}''" "\<not> py_space c"
  using assms by (auto simp: plain_hex_def is_digit_def py_space_def code_def)

lemma length_hex_digits [simp]: "length (hex_digits k n) = k"
  by (induction k n rule: hex_digits.induct) auto

lemma hex_scan_append_digit:
  assumes "hex_scan acc b s = Some v" and "plain_hex c" and "digit_value c = Some d"
  shows "hex_scan acc b (s @ [c]) = Some (16 * v + d)"
  using assms(1)
proof (induction s arbitrary: acc b)
  case Nil
  then show ?case using assms(2,3) by (auto simp: plain_hex_neq split: if_splits)
next
  case (Cons a s)
  then show ?case by (auto split: if_splits option.splits)
qed

lemma hex_scan_digits: "hex_scan 0 True (hex_digits k n) = Some (n mod 16 ^ k)"
proof (induction k n rule: hex_digits.induct)
  case (2 k n)
  have "16 * (n div 16 mod 16 ^ k) + n mod 16 = n mod 16 ^ Suc k"
    by (simp add: mod_mult2_eq)
  with 2 show ?case
    by (simp add: hex_scan_append_digit plain_hex_digit_char)
qed simp

lemma hex_scan_flag: "s \<noteq> [] \<Longrightarrow> hd s \<noteq> CHR ''_'' \<Longrightarrow> hex_scan acc b s = hex_scan acc b' s"
  by (cases s) auto

lemma remove_all_absent: "c \<in> set sub \<Longrightarrow> c \<notin> set s \<Longrightarrow> remove_all sub s = s"
proof (induction s)
  case (Cons a s)
  have "\<not> starts_with sub (a # s)"
  proof
    assume "starts_with sub (a # s)"
    then obtain t where "a # s = sub @ t" by (auto simp: starts_with_iff)
    then have "c \<in> set (a # s)" using Cons.prems(1) by simp
    with Cons.prems(2) show False by simp
  qed
  with Cons show ?case by simp
qed simp

lemma starts_with_single [simp]: "starts_with [d] (c # cs) \<longleftrightarrow> c = d"
  by (auto simp: starts_with_def)

lemma remove_dashes: "remove_all ''-'' s = filter (\<lambda>c. c \<noteq> CHR ''-'') s"
  by (induction s) simp_all

lemma dropWhile_none: "\<forall>c \<in> set s. \<not> p c \<Longrightarrow> dropWhile p s = s"
  by (cases s) simp_all

lemma strip_with_none: "\<forall>c \<in> set s. \<not> p c \<Longrightarrow> strip_with p s = s"
  by (simp add: strip_with_def dropWhile_none)

lemma plain_hex_starts:
  assumes "\<forall>c \<in> set s. plain_hex c"
  shows "\<not> starts_with ''-'' s" "\<not> starts_with ''+'' s" "\<not> starts_with ''0x'' s"
    "\<not> starts_with ''0X'' s"
proof -
  have "\<not> starts_with p s" if "d \<in> set p" and "\<not> plain_hex d" for d p
  proof
    assume "starts_with p s"
    then obtain t where "s = p @ t" by (auto simp: starts_with_iff)
    with that assms show False by simp
  qed
  note absent = this
  have special: "\<not> plain_hex CHR ''-''" "\<not> plain_hex CHR ''+''" "\<not> plain_hex CHR ''x''"
    "\<not> plain_hex CHR ''X''"
    by (simp_all add: plain_hex_def is_digit_def code_def)
  show "\<not> starts_with ''-'' s" by (rule absent [OF _ special(1)]) simp
  show "\<not> starts_with ''+'' s" by (rule absent [OF _ special(2)]) simp
  show "\<not> starts_with ''0x'' s" by (rule absent [OF _ special(3)]) simp
  show "\<not> starts_with ''0X'' s" by (rule absent [OF _ special(4)]) simp
qed

lemma py_int16_digits:
  assumes "0 < k"
  shows "py_int16 (hex_digits k n) = Some (int (n mod 16 ^ k))"
proof -
  let ?s = "hex_digits k n"
  have plain: "\<forall>c \<in> set ?s. plain_hex c" by (simp add: plain_hex_digits)
  have "strip ?s = ?s"
    unfolding strip_def by (rule strip_with_none) (use plain plain_hex_neq(9) in blast)
  moreover have "drop_hex_prefix ?s = ?s"
    using plain_hex_starts [OF plain] by (simp add: drop_hex_prefix_def)
  moreover have "?s \<noteq> []" using assms length_hex_digits [of k n] by (cases ?s) simp_all
  then have "hd ?s \<noteq> CHR ''_''" using plain plain_hex_neq(3) by (metis list.set_sel(1))
  with \<open>?s \<noteq> []\<close> have "hex_scan 0 False ?s = hex_scan 0 True ?s" by (rule hex_scan_flag)
  then have "hex_scan 0 False ?s = Some (n mod 16 ^ k)" by (simp only: hex_scan_digits)
  ultimately show ?thesis
    using plain_hex_starts [OF plain] by (simp add: py_int16_def Let_def)
qed

lemma uuid_str_chars: "c \<in> set (uuid_str u) \<Longrightarrow> plain_hex c \<or> c = CHR ''-''"
  by (auto simp: uuid_str_def uuid_hex_def Let_def
      dest!: in_set_takeD in_set_dropD plain_hex_digits)

lemma uuid_str_undashed: "filter (\<lambda>c. c \<noteq> CHR ''-'') (uuid_str u) = uuid_hex u"
proof -
  let ?h = "uuid_hex u"
  have plain: "\<forall>c \<in> set ?h. c \<noteq> CHR ''-''"
    by (simp add: uuid_hex_def) (use plain_hex_digits plain_hex_neq(1) in blast)
  then have keep: "filter (\<lambda>c. c \<noteq> CHR ''-'') (take n (drop m ?h)) = take n (drop m ?h)"
    and keep': "filter (\<lambda>c. c \<noteq> CHR ''-'') (take n ?h) = take n ?h"
    and keep'': "filter (\<lambda>c. c \<noteq> CHR ''-'') (drop m ?h) = drop m ?h" for n m
    by (auto intro!: filter_True dest!: in_set_takeD in_set_dropD)
  have "filter (\<lambda>c. c \<noteq> CHR ''-'') (uuid_str u) =
      take 8 ?h @ take 4 (drop 8 ?h) @ take 4 (drop 12 ?h) @ take 4 (drop 16 ?h) @ drop 20 ?h"
    by (simp add: uuid_str_def Let_def keep keep' keep'')
  also have "\<dots> = ?h"
    using append_take_drop_id [of 4 "drop 16 ?h"] append_take_drop_id [of 4 "drop 12 ?h"]
      append_take_drop_id [of 4 "drop 8 ?h"] append_take_drop_id [of 8 ?h]
    by simp
  finally show ?thesis .
qed

text \<open>\<open>UUID(str(u)) == u\<close>\<close>

lemma uuid_parse_str [simp]: "uuid_parse (uuid_str u) = Inr u"
proof -
  have unat_lt: "unat u < 340282366920938463463374607431768211456"
    using unsigned_less [of u] by simp
  have no_u: "CHR ''u'' \<notin> set (uuid_str u)"
    using uuid_str_chars plain_hex_neq(6) by fastforce
  have "remove_all ''urn:'' (uuid_str u) = uuid_str u"
    "remove_all ''uuid:'' (uuid_str u) = uuid_str u"
    using no_u by (auto intro: remove_all_absent)
  moreover have "strip_with (\<lambda>c. c = CHR ''{'' \<or> c = CHR ''}'') (uuid_str u) = uuid_str u"
    by (rule strip_with_none) (use uuid_str_chars plain_hex_neq(7,8) in fastforce)
  moreover have "py_int16 (uuid_hex u) = Some (int (unat u))"
    using unat_lt by (simp add: uuid_hex_def py_int16_digits)
  moreover have "length (uuid_hex u) = 32" by (simp add: uuid_hex_def)
  moreover have "int (unat u) < 2 ^ 128"
    using unsigned_less [of u] by simp
  ultimately show ?thesis
    by (simp add: uuid_parse_def Let_def remove_dashes uuid_str_undashed)
qed

lemma uuid_str_inject [simp]: "uuid_str u = uuid_str v \<longleftrightarrow> u = v"
  by (metis Inr_inject uuid_parse_str)

lemma uuid_hex_inject: "uuid_hex u = uuid_hex v \<longleftrightarrow> u = v"
proof
  assume "uuid_hex u = uuid_hex v"
  then have "uuid_str u = uuid_str v" by (simp add: uuid_str_def)
  then show "u = v" by simp
qed simp

lemma length_uuid_hex [simp]: "length (uuid_hex u) = 32"
  by (simp add: uuid_hex_def)

end
