(* ===== verification/Domain_Station.thy ===== *)
theory Domain_Station
  imports Py_Values
begin

text \<open>
  \<open>domain/station.py\<close>, \<open>domain/agent.py\<close>, \<open>domain/enrollment.py\<close>, \<open>domain/provisioning.py\<close>,
  \<open>domain/agent_command.py\<close> and \<open>domain/outbox.py\<close>: the entities of the registry with the
  invariants their constructors check.  \<open>__post_init__\<close> raising is \<^const>\<open>Inl\<close>.
\<close>

section \<open>Stations\<close>

datatype station_role = ADMIN | CLIENT

datatype station_status = ONLINE | STALE | OFFLINE | DISABLED

record station =
  st_id :: uuid
  st_station_id :: uuid
  st_display_name :: string
  st_hostname :: string
  st_role :: station_role
  st_status :: station_status
  st_enabled :: bool
  st_deleted_at :: "datetime option"
  st_target_name :: "string option"
  st_target_iqn :: "string option"
  st_initiator_iqn :: "string option"
  st_last_update_at :: "datetime option"

definition blank :: "string \<Rightarrow> bool" where
  "blank s = (strip s = [])"

definition blank_opt :: "string option \<Rightarrow> bool" where
  "blank_opt v = (case v of None \<Rightarrow> False | Some s \<Rightarrow> blank s)"

text \<open>\<open>Station.__post_init__\<close>: the constructor and \<open>dataclasses.replace\<close> run it.\<close>

definition mk_station :: "station \<Rightarrow> station result" where
  "mk_station s =
     (if blank (st_display_name s) then Inl (ValueError ''display_name must not be blank'')
      else if blank (st_hostname s) then Inl (ValueError ''hostname must not be blank'')
      else if blank_opt (st_target_name s)
        then Inl (ValueError ''target_name must not be blank when provided'')
      else if blank_opt (st_target_iqn s)
        then Inl (ValueError ''target_iqn must not be blank when provided'')
      else if blank_opt (st_initiator_iqn s)
        then Inl (ValueError ''initiator_iqn must not be blank when provided'')
      else if st_deleted_at s \<noteq> None \<and> st_enabled s
        then Inl (ValueError ''deleted station must be disabled'')
      else if \<not> st_enabled s \<and> st_status s \<noteq> DISABLED
        then Inl (ValueError ''disabled station must have disabled status'')
      else if st_enabled s \<and> st_status s = DISABLED
        then Inl (ValueError ''disabled status requires a disabled station'')
      else Inr s)"

definition is_available :: "station \<Rightarrow> bool" where
  "is_available s = (st_enabled s \<and> st_deleted_at s = None \<and> st_status s \<noteq> OFFLINE)"

text \<open>The invariant of a constructed station.\<close>

definition station_wf :: "station \<Rightarrow> bool" where
  "station_wf s \<longleftrightarrow>
     \<not> blank (st_display_name s) \<and> \<not> blank (st_hostname s)
     \<and> \<not> blank_opt (st_target_name s) \<and> \<not> blank_opt (st_target_iqn s)
     \<and> \<not> blank_opt (st_initiator_iqn s)
     \<and> (st_deleted_at s \<noteq> None \<longrightarrow> \<not> st_enabled s)
     \<and> (st_enabled s \<longleftrightarrow> st_status s \<noteq> DISABLED)"

lemma mk_station_Inr_iff: "mk_station s = Inr t \<longleftrightarrow> t = s \<and> station_wf s"
  by (auto simp: mk_station_def station_wf_def)

lemma mk_station_wf [simp]: "station_wf s \<Longrightarrow> mk_station s = Inr s"
  by (simp add: mk_station_Inr_iff)

lemma mk_station_cases: "mk_station s = Inr s \<or> (\<exists>m. mk_station s = Inl (ValueError m))"
  by (auto simp: mk_station_def)

section \<open>Agents, tokens, commands, outbox events\<close>

record agent_binding =
  ab_id :: uuid
  ab_station_id :: uuid
  ab_agent_uuid :: uuid
  ab_agent_version :: string
  ab_credential_hash :: string
  ab_credential_created_at :: "datetime option"
  ab_revoked_at :: "datetime option"
  ab_station_enabled :: bool
  ab_station_deleted_at :: "datetime option"
  ab_last_ip_addresses :: "string list"
  ab_last_mac_addresses :: "string list"

definition can_accept_heartbeat :: "agent_binding \<Rightarrow> bool" where
  "can_accept_heartbeat a =
     (ab_revoked_at a = None \<and> ab_station_enabled a \<and> ab_station_deleted_at a = None)"

record enrollment_token =
  et_id :: uuid
  et_station_id :: uuid
  et_token_hash :: string
  et_expires_at :: datetime
  et_used_at :: "datetime option"
  et_revoked_at :: "datetime option"

definition enrollment_is_usable :: "enrollment_token \<Rightarrow> datetime \<Rightarrow> bool" where
  "enrollment_is_usable t now =
     (et_used_at t = None \<and> et_revoked_at t = None
      \<and> instant (ensure_utc now) < instant (ensure_utc (et_expires_at t)))"

record provisioning_token =
  pt_id :: uuid
  pt_token_hash :: string
  pt_expires_at :: datetime
  pt_used_at :: "datetime option"
  pt_revoked_at :: "datetime option"

definition provisioning_is_usable :: "provisioning_token \<Rightarrow> datetime \<Rightarrow> bool" where
  "provisioning_is_usable t now =
     (pt_used_at t = None \<and> pt_revoked_at t = None
      \<and> instant (ensure_utc now) < instant (ensure_utc (pt_expires_at t)))"

text \<open>\<open>AgentCommandName\<close> has one member; \<open>value\<close> is its wire name.\<close>

datatype agent_command_name = REFRESH_PROCESS_SNAPSHOT

definition command_name_value :: "agent_command_name \<Rightarrow> string" where
  "command_name_value n = ''refresh_process_snapshot''"

definition command_name_of :: "string \<Rightarrow> agent_command_name result" where
  "command_name_of s =
     (if s = ''refresh_process_snapshot'' then Inr REFRESH_PROCESS_SNAPSHOT
      else Inl (ValueError (py_repr s @ '' is not a valid AgentCommandName'')))"

datatype agent_command_status = CMD_PENDING | CMD_LEASED | CMD_ACKNOWLEDGED | CMD_EXPIRED

record agent_command =
  ac_id :: uuid
  ac_agent_id :: uuid
  ac_name :: agent_command_name
  ac_expires_at :: datetime
  ac_signature :: string
  ac_status :: agent_command_status
  ac_lease_until :: "datetime option"
  ac_attempts :: int

datatype outbox_status = OB_PENDING | OB_DISPATCHED | OB_FAILED

text \<open>A JSON payload value: the code stores strings in it; \<open>JOther\<close> is any other JSON value.\<close>

datatype json_value = JStr string | JOther

record outbox_event =
  oe_id :: uuid
  oe_aggregate_id :: uuid
  oe_event_type :: string
  oe_payload :: "(string \<times> json_value) list"
  oe_correlation_id :: uuid
  oe_status :: outbox_status
  oe_attempts :: int
  oe_available_at :: "datetime option"
  oe_created_at :: "datetime option"

end
