(* ===== verification/Domain_Preflight.thy ===== *)
theory Domain_Preflight
  imports Domain_Station
begin

text \<open>
  \<open>domain/snapshot.py\<close>, \<open>domain/preflight.py\<close> and \<open>domain/wizard.py\<close>: the preflight
  evaluation of one station and the wizard gate over several.  The human-readable
  \<open>message\<close> of a check is not modelled: no decision reads it.
\<close>

section \<open>Snapshots, rules, reports\<close>

record process_info =
  pi_name :: string
  pi_pid :: "int option"
  pi_path :: "string option"

record drive_info =
  di_letter :: string
  di_present :: bool
  di_free_bytes :: "int option"

record process_snapshot =
  ps_station_id :: uuid
  ps_captured_at :: datetime
  ps_agent_version :: string
  ps_processes :: "process_info list"
  ps_drives :: "drive_info list"
  ps_received_at :: "datetime option"

datatype check_status = PASS | BLOCK | UNKNOWN | WARNING

datatype rule_severity = SEV_BLOCKING | SEV_WARNING

fun check_status_value :: "check_status \<Rightarrow> string" where
  "check_status_value PASS = ''pass''"
| "check_status_value BLOCK = ''block''"
| "check_status_value UNKNOWN = ''unknown''"
| "check_status_value WARNING = ''warning''"

record process_rule =
  pr_id :: "uuid option"
  pr_name :: string
  pr_role :: "station_role option"
  pr_required_closed :: bool
  pr_severity :: rule_severity
  pr_enabled :: bool
  pr_persistent_policy :: bool

definition rule_matches :: "process_rule \<Rightarrow> station \<Rightarrow> string \<Rightarrow> bool" where
  "rule_matches rule st process_name =
     (pr_enabled rule
      \<and> (pr_role rule = None \<or> pr_role rule = Some (st_role st))
      \<and> casefold (pr_name rule) = casefold process_name)"

record preflight_policy =
  pp_max_snapshot_age :: int
  pp_required_drive_letter :: string
  pp_min_free_bytes :: int

record check_result =
  cr_status :: check_status
  cr_code :: string
  cr_observed_at :: datetime
  cr_source_snapshot_id :: "uuid option"
  cr_matched_processes :: "process_info list"

record preflight_report =
  rep_station_id :: uuid
  rep_status :: check_status
  rep_checks :: "check_result list"
  rep_evaluated_at :: datetime

definition can_publish :: "preflight_report \<Rightarrow> bool" where
  "can_publish r = (rep_status r \<in> {PASS, WARNING})"

section \<open>The three checks\<close>

definition mk_check :: "check_status \<Rightarrow> string \<Rightarrow> datetime \<Rightarrow> process_info list \<Rightarrow> check_result" where
  "mk_check status c observed matched =
     \<lparr>cr_status = status, cr_code = c, cr_observed_at = observed,
      cr_source_snapshot_id = None, cr_matched_processes = matched\<rparr>"

definition freshness_check ::
    "process_snapshot \<Rightarrow> preflight_policy \<Rightarrow> datetime \<Rightarrow> check_result" where
  "freshness_check snapshot policy observed_at =
     (let snapshot_age = instant observed_at - instant (ensure_utc (ps_captured_at snapshot))
      in if snapshot_age < 0 then mk_check UNKNOWN ''snapshot_clock_skew'' observed_at []
         else if snapshot_age > pp_max_snapshot_age policy
           then mk_check UNKNOWN ''snapshot_stale'' observed_at []
         else mk_check PASS ''snapshot_fresh'' observed_at [])"

definition drive_check ::
    "process_snapshot \<Rightarrow> preflight_policy \<Rightarrow> datetime \<Rightarrow> check_result" where
  "drive_check snapshot policy observed_at =
     (let expected = casefold (pp_required_drive_letter policy)
      in case find (\<lambda>item. casefold (di_letter item) = expected) (ps_drives snapshot) of
           None \<Rightarrow> mk_check BLOCK ''drive_missing'' observed_at []
         | Some drive \<Rightarrow>
             if \<not> di_present drive then mk_check BLOCK ''drive_missing'' observed_at []
             else (case di_free_bytes drive of
                 None \<Rightarrow> mk_check UNKNOWN ''drive_free_space_unknown'' observed_at []
               | Some free \<Rightarrow>
                   if free < pp_min_free_bytes policy
                   then mk_check BLOCK ''drive_low_space'' observed_at []
                   else mk_check PASS ''drive_ready'' observed_at []))"

definition process_check ::
    "station \<Rightarrow> process_snapshot \<Rightarrow> process_rule list \<Rightarrow> datetime \<Rightarrow> check_result" where
  "process_check st snapshot rules observed_at =
     (let required_rules = filter pr_required_closed rules;
          matched = filter (\<lambda>p. list_ex (\<lambda>r. rule_matches r st (pi_name p)) required_rules)
                      (ps_processes snapshot);
          violations = filter (\<lambda>r. list_ex (\<lambda>p. rule_matches r st (pi_name p))
                                 (ps_processes snapshot)) required_rules
      in if violations = [] then mk_check PASS ''processes_closed'' observed_at matched
         else if list_ex (\<lambda>r. pr_severity r = SEV_BLOCKING) violations
           then mk_check BLOCK ''blocking_process'' observed_at matched
         else mk_check WARNING ''warning_process'' observed_at matched)"

definition aggregate_status :: "check_result list \<Rightarrow> check_status" where
  "aggregate_status checks =
     (let statuses = map cr_status checks
      in if BLOCK \<in> set statuses then BLOCK
         else if UNKNOWN \<in> set statuses then UNKNOWN
         else if WARNING \<in> set statuses then WARNING
         else PASS)"

definition evaluate_preflight ::
    "station \<Rightarrow> process_snapshot option \<Rightarrow> process_rule list \<Rightarrow> preflight_policy \<Rightarrow> datetime
     \<Rightarrow> preflight_report" where
  "evaluate_preflight st snapshot rules policy now =
     (let evaluated_at = ensure_utc now;
          report = (\<lambda>status checks. \<lparr>rep_station_id = st_station_id st, rep_status = status,
                      rep_checks = checks, rep_evaluated_at = evaluated_at\<rparr>)
      in if \<not> st_enabled st \<or> st_deleted_at st \<noteq> None
         then report BLOCK [mk_check BLOCK ''station_disabled'' evaluated_at []]
         else (case snapshot of
             None \<Rightarrow> report UNKNOWN [mk_check UNKNOWN ''snapshot_missing'' evaluated_at []]
           | Some snap \<Rightarrow>
               if ps_station_id snap \<noteq> st_station_id st
               then report BLOCK [mk_check BLOCK ''snapshot_station_mismatch'' evaluated_at []]
               else (let checks = [freshness_check snap policy evaluated_at,
                                   drive_check snap policy evaluated_at,
                                   process_check st snap rules evaluated_at]
                     in report (aggregate_status checks) checks)))"

section \<open>The wizard gate\<close>

datatype wizard_gate_status = GATE_READY | GATE_BLOCKED

record wizard_gate_input =
  wi_admin_report :: "preflight_report option"
  wi_client_reports :: "uuid \<rightharpoonup> preflight_report"
  wi_selected_station_ids :: "uuid list"
  wi_confirmation :: "bool option"

record wizard_gate_result =
  wr_status :: wizard_gate_status
  wr_selected_station_ids :: "uuid list"
  wr_reasons :: "string list"

definition can_advance :: "wizard_gate_result \<Rightarrow> bool" where
  "can_advance g = (wr_status g = GATE_READY)"

definition station_reasons :: "(uuid \<rightharpoonup> preflight_report) \<Rightarrow> uuid \<Rightarrow> string list" where
  "station_reasons reports sid =
     (case reports sid of
        None \<Rightarrow> [''missing_preflight:'' @ uuid_str sid]
      | Some report \<Rightarrow>
          if \<not> can_publish report then [''client_preflight_blocked:'' @ uuid_str sid] else [])"

definition gate_reasons :: "wizard_gate_input \<Rightarrow> string list" where
  "gate_reasons data =
     (case wi_admin_report data of
        None \<Rightarrow> []
      | Some report \<Rightarrow> if \<not> can_publish report then [''admin_preflight_blocked''] else [])
     @ (if wi_confirmation data \<noteq> Some True then [''operator_confirmation_required''] else [])
     @ (if wi_selected_station_ids data = [] then [''station_selection_required''] else [])
     @ concat (map (station_reasons (wi_client_reports data)) (wi_selected_station_ids data))"

definition evaluate_wizard_gate :: "wizard_gate_input \<Rightarrow> wizard_gate_result" where
  "evaluate_wizard_gate data =
     (let reasons = gate_reasons data
      in \<lparr>wr_status = (if reasons = [] then GATE_READY else GATE_BLOCKED),
          wr_selected_station_ids = wi_selected_station_ids data,
          wr_reasons = reasons\<rparr>)"

section \<open>What a passing report means\<close>

lemma mk_check_sels [simp]:
  "cr_status (mk_check s c o' m) = s" "cr_code (mk_check s c o' m) = c"
  "cr_observed_at (mk_check s c o' m) = o'" "cr_matched_processes (mk_check s c o' m) = m"
  by (simp_all add: mk_check_def)

text \<open>The three conditions, as an operator would state them.\<close>

definition snapshot_fresh :: "process_snapshot \<Rightarrow> preflight_policy \<Rightarrow> datetime \<Rightarrow> bool" where
  "snapshot_fresh snap policy now \<longleftrightarrow>
     (let age = instant now - instant (ps_captured_at snap)
      in 0 \<le> age \<and> age \<le> pp_max_snapshot_age policy)"

definition drive_usable :: "process_snapshot \<Rightarrow> preflight_policy \<Rightarrow> bool" where
  "drive_usable snap policy \<longleftrightarrow>
     (\<exists>drive free.
        find (\<lambda>item. casefold (di_letter item) = casefold (pp_required_drive_letter policy))
          (ps_drives snap) = Some drive
        \<and> di_present drive \<and> di_free_bytes drive = Some free \<and> pp_min_free_bytes policy \<le> free)"

definition rule_violated :: "process_rule \<Rightarrow> station \<Rightarrow> process_snapshot \<Rightarrow> bool" where
  "rule_violated rule st snap \<longleftrightarrow>
     pr_required_closed rule \<and> (\<exists>p \<in> set (ps_processes snap). rule_matches rule st (pi_name p))"

lemma freshness_status:
  "cr_status (freshness_check snap policy now) =
     (if snapshot_fresh snap policy now then PASS else UNKNOWN)"
  by (auto simp: freshness_check_def snapshot_fresh_def Let_def)

lemma drive_status_PASS_iff:
  "cr_status (drive_check snap policy now) = PASS \<longleftrightarrow> drive_usable snap policy"
  by (auto simp: drive_check_def drive_usable_def Let_def split: option.splits)

lemma drive_status_cases: "cr_status (drive_check snap policy now) \<in> {PASS, BLOCK, UNKNOWN}"
  by (auto simp: drive_check_def Let_def split: option.splits)

lemma process_status:
  "cr_status (process_check st snap rules now) =
     (if \<exists>r \<in> set rules. rule_violated r st snap \<and> pr_severity r = SEV_BLOCKING then BLOCK
      else if \<exists>r \<in> set rules. rule_violated r st snap then WARNING else PASS)"
  by (auto simp: process_check_def rule_violated_def Let_def list_ex_iff filter_empty_conv)

lemma passing_iff: "x \<in> {PASS, WARNING} \<longleftrightarrow> x \<noteq> BLOCK \<and> x \<noteq> UNKNOWN"
  by (cases x) auto

lemma aggregate_passes_iff:
  "aggregate_status checks \<in> {PASS, WARNING} \<longleftrightarrow>
     (\<forall>c \<in> set checks. cr_status c \<in> {PASS, WARNING})"
proof -
  have "aggregate_status checks \<in> {PASS, WARNING} \<longleftrightarrow>
      BLOCK \<notin> cr_status ` set checks \<and> UNKNOWN \<notin> cr_status ` set checks"
    by (simp add: aggregate_status_def Let_def)
  also have "\<dots> \<longleftrightarrow> (\<forall>c \<in> set checks. cr_status c \<noteq> BLOCK \<and> cr_status c \<noteq> UNKNOWN)"
    by (metis imageE imageI)
  finally show ?thesis by (simp only: passing_iff)
qed

lemma can_publish_iff:
  "can_publish (evaluate_preflight st snapshot rules policy now) \<longleftrightarrow>
     st_enabled st \<and> st_deleted_at st = None
     \<and> (\<exists>snap. snapshot = Some snap
          \<and> ps_station_id snap = st_station_id st
          \<and> snapshot_fresh snap policy now
          \<and> drive_usable snap policy
          \<and> \<not> (\<exists>r \<in> set rules. rule_violated r st snap \<and> pr_severity r = SEV_BLOCKING))"
proof (cases "st_enabled st \<and> st_deleted_at st = None")
  case True
  show ?thesis
  proof (cases snapshot)
    case None
    with True show ?thesis by (simp add: evaluate_preflight_def can_publish_def Let_def)
  next
    case (Some snap)
    have fresh: "snapshot_fresh snap policy (ensure_utc now) = snapshot_fresh snap policy now"
      by (simp add: snapshot_fresh_def)
    have drive: "cr_status (drive_check snap policy (ensure_utc now)) \<in> {PASS, WARNING}
        \<longleftrightarrow> drive_usable snap policy"
      using drive_status_cases [of snap policy "ensure_utc now"]
        drive_status_PASS_iff [of snap policy "ensure_utc now"] by auto
    have "can_publish (evaluate_preflight st snapshot rules policy now) \<longleftrightarrow>
        ps_station_id snap = st_station_id st
        \<and> aggregate_status [freshness_check snap policy (ensure_utc now),
              drive_check snap policy (ensure_utc now),
              process_check st snap rules (ensure_utc now)] \<in> {PASS, WARNING}"
      using True Some by (simp add: evaluate_preflight_def can_publish_def Let_def)
    also have "\<dots> \<longleftrightarrow> ps_station_id snap = st_station_id st
        \<and> snapshot_fresh snap policy now \<and> drive_usable snap policy
        \<and> \<not> (\<exists>r \<in> set rules. rule_violated r st snap \<and> pr_severity r = SEV_BLOCKING)"
      unfolding aggregate_passes_iff using drive
      by (auto simp: freshness_status process_status fresh)
    finally show ?thesis using True Some by simp
  qed
next
  case False
  then show ?thesis by (auto simp: evaluate_preflight_def can_publish_def Let_def)
qed

lemma can_publish_value_iff:
  "can_publish r \<longleftrightarrow> check_status_value (rep_status r) \<in> {''pass'', ''warning''}"
  by (cases "rep_status r") (simp_all add: can_publish_def)

lemma report_station [simp]:
  "rep_station_id (evaluate_preflight st snapshot rules policy now) = st_station_id st"
  by (simp add: evaluate_preflight_def Let_def split: option.split)

lemma report_evaluated_at [simp]:
  "rep_evaluated_at (evaluate_preflight st snapshot rules policy now) = ensure_utc now"
  by (simp add: evaluate_preflight_def Let_def split: option.split)

section \<open>What an open gate means\<close>

lemma station_reasons_Nil_iff:
  "station_reasons reports sid = [] \<longleftrightarrow> (\<exists>r. reports sid = Some r \<and> can_publish r)"
  by (simp add: station_reasons_def split: option.split)

lemma gate_ready_iff:
  "can_advance (evaluate_wizard_gate data) \<longleftrightarrow>
     (\<forall>r. wi_admin_report data = Some r \<longrightarrow> can_publish r)
     \<and> wi_confirmation data = Some True
     \<and> wi_selected_station_ids data \<noteq> []
     \<and> (\<forall>sid \<in> set (wi_selected_station_ids data).
          \<exists>r. wi_client_reports data sid = Some r \<and> can_publish r)"
  by (auto simp: can_advance_def evaluate_wizard_gate_def gate_reasons_def Let_def
      station_reasons_Nil_iff split: option.splits if_splits)

lemma gate_selected [simp]:
  "wr_selected_station_ids (evaluate_wizard_gate data) = wi_selected_station_ids data"
  by (simp add: evaluate_wizard_gate_def Let_def)

lemma gate_reasons_of [simp]: "wr_reasons (evaluate_wizard_gate data) = gate_reasons data"
  by (simp add: evaluate_wizard_gate_def Let_def)

lemma can_advance_reasons: "can_advance (evaluate_wizard_gate data) \<longleftrightarrow> gate_reasons data = []"
  by (simp add: can_advance_def evaluate_wizard_gate_def Let_def)

end
