(* ===== verification/Domain_Publish.thy ===== *)
theory Domain_Publish
  imports Domain_Preflight
begin

text \<open>
  \<open>domain/publish.py\<close>: publish jobs with their state machine, targets, target results and
  artifacts; the state machine also as a step relation, with its reachability and the rank
  that bounds every run.
\<close>

section \<open>Statuses\<close>

datatype job_status =
    DRAFT | PREFLIGHT | AWAITING_CONFIRMATION | PUBLISHING | SWITCHING | VERIFYING
  | COMPLETED | PARTIAL_FAILURE | FAILED

fun job_status_value :: "job_status \<Rightarrow> string" where
  "job_status_value DRAFT = ''draft''"
| "job_status_value PREFLIGHT = ''preflight''"
| "job_status_value AWAITING_CONFIRMATION = ''awaiting_confirmation''"
| "job_status_value PUBLISHING = ''publishing''"
| "job_status_value SWITCHING = ''switching''"
| "job_status_value VERIFYING = ''verifying''"
| "job_status_value COMPLETED = ''completed''"
| "job_status_value PARTIAL_FAILURE = ''partial_failure''"
| "job_status_value FAILED = ''failed''"

datatype target_status = SIMULATED | VERIFIED | TARGET_ERROR | RECOVERY_REQUIRED

fun target_status_value :: "target_status \<Rightarrow> string" where
  "target_status_value SIMULATED = ''simulated''"
| "target_status_value VERIFIED = ''verified''"
| "target_status_value TARGET_ERROR = ''error''"
| "target_status_value RECOVERY_REQUIRED = ''recovery_required''"

datatype artifact_status = ART_CURRENT | ART_RETIRED | ART_DELETED | ART_CLEANUP_FAILED

text \<open>\<open>ALLOWED_TRANSITIONS\<close>\<close>

fun allowed_transitions :: "job_status \<Rightarrow> job_status list" where
  "allowed_transitions DRAFT = [PREFLIGHT]"
| "allowed_transitions PREFLIGHT = [AWAITING_CONFIRMATION]"
| "allowed_transitions AWAITING_CONFIRMATION = [PUBLISHING]"
| "allowed_transitions PUBLISHING = [SWITCHING, COMPLETED, FAILED]"
| "allowed_transitions SWITCHING = [VERIFYING, PARTIAL_FAILURE, FAILED]"
| "allowed_transitions VERIFYING = [COMPLETED, PARTIAL_FAILURE, FAILED]"
| "allowed_transitions COMPLETED = []"
| "allowed_transitions PARTIAL_FAILURE = []"
| "allowed_transitions FAILED = []"

section \<open>Jobs, targets, results, artifacts\<close>

record publish_job =
  pj_id :: uuid
  pj_idempotency_key :: string
  pj_correlation_id :: uuid
  pj_label :: string
  pj_source_dataset :: string
  pj_dry_run :: bool
  pj_allow_hot_switch :: bool
  pj_status :: job_status
  pj_description :: "string option"
  pj_status_reason :: "string option"
  pj_operator_id :: "uuid option"
  pj_client_confirmation :: "bool option"
  pj_client_confirmation_at :: "datetime option"
  pj_created_at :: "datetime option"
  pj_started_at :: "datetime option"
  pj_completed_at :: "datetime option"

definition transition :: "publish_job \<Rightarrow> job_status \<Rightarrow> publish_job result" where
  "transition job target =
     (if target \<notin> set (allowed_transitions (pj_status job))
      then Inl (ValueError (''illegal publish transition: '' @ job_status_value (pj_status job)
                            @ '' -> '' @ job_status_value target))
      else Inr (job\<lparr>pj_status := target\<rparr>))"

record publish_job_history =
  jh_id :: uuid
  jh_label :: string
  jh_source_dataset :: string
  jh_status :: job_status
  jh_status_reason :: "string option"
  jh_dry_run :: bool
  jh_created_at :: datetime
  jh_completed_at :: "datetime option"

type_synonym json_object = "(string \<times> json_value) list"

text \<open>\<open>preflight_result\<close> holds the report that \<open>_serialize_report\<close> turns into JSON: nothing
  reads the rendered text back.\<close>

record publish_target =
  tg_id :: uuid
  tg_job_id :: uuid
  tg_station_id :: uuid
  tg_selected :: bool
  tg_preflight_status :: "string option"
  tg_preflight_result :: "preflight_report option"
  tg_old_version_id :: "uuid option"
  tg_new_version_id :: "uuid option"
  tg_old_mapping :: "json_object option"
  tg_new_mapping :: "json_object option"
  tg_switch_status :: "string option"
  tg_verify_status :: "string option"
  tg_error_code :: "string option"
  tg_error_message :: "string option"
  tg_progress_percent :: int

text \<open>\<open>PublishTarget.__post_init__\<close>\<close>

definition mk_target :: "publish_target \<Rightarrow> publish_target result" where
  "mk_target t =
     (if \<not> (0 \<le> tg_progress_percent t \<and> tg_progress_percent t \<le> 100)
      then Inl (ValueError ''progress_percent must be between 0 and 100'')
      else Inr t)"

record target_result =
  tr_station_id :: uuid
  tr_status :: target_status
  tr_old_mapping :: "string option"
  tr_new_mapping :: "string option"
  tr_error_code :: "string option"
  tr_error_message :: "string option"
  tr_storage_created :: bool

record publish_artifact =
  pa_id :: uuid
  pa_job_id :: uuid
  pa_station_id :: uuid
  pa_source_dataset :: string
  pa_dataset_name :: string
  pa_snapshot_ref :: string
  pa_mapping_ref :: string
  pa_created_at :: datetime
  pa_status :: artifact_status
  pa_is_current :: bool
  pa_deleted_at :: "datetime option"
  pa_last_error :: "string option"

section \<open>Transitions\<close>

definition terminal :: "job_status \<Rightarrow> bool" where
  "terminal s = (s \<in> {COMPLETED, PARTIAL_FAILURE, FAILED})"

lemma transition_Inr_iff:
  "transition job target = Inr job' \<longleftrightarrow>
     target \<in> set (allowed_transitions (pj_status job)) \<and> job' = job\<lparr>pj_status := target\<rparr>"
  by (auto simp: transition_def)

lemma transition_status: "transition job target = Inr job' \<Longrightarrow> pj_status job' = target"
  by (simp add: transition_Inr_iff)

lemma terminal_iff: "terminal s \<longleftrightarrow> allowed_transitions s = []"
  by (cases s) (simp_all add: terminal_def)

lemma terminal_value_iff:
  "job_status_value s \<in> {''completed'', ''partial_failure'', ''failed''} \<longleftrightarrow> terminal s"
  by (cases s) (simp_all add: terminal_def)

lemma job_status_value_inject [simp]: "job_status_value s = job_status_value t \<longleftrightarrow> s = t"
  by (cases s; cases t) simp_all

text \<open>One legal status change, and the statuses a fresh draft can reach.\<close>

inductive status_step :: "job_status \<Rightarrow> job_status \<Rightarrow> bool" where
  step: "t \<in> set (allowed_transitions s) \<Longrightarrow> status_step s t"

inductive_simps status_step_from:
  "status_step DRAFT t" "status_step PREFLIGHT t" "status_step AWAITING_CONFIRMATION t"
  "status_step PUBLISHING t" "status_step SWITCHING t" "status_step VERIFYING t"

inductive_cases status_step_terminalE:
  "status_step COMPLETED t" "status_step PARTIAL_FAILURE t" "status_step FAILED t"

inductive status_run :: "job_status list \<Rightarrow> bool" where
  one: "status_run [s]"
| more: "status_step s t \<Longrightarrow> status_run (t # ts) \<Longrightarrow> status_run (s # t # ts)"

inductive_cases status_run_ConsE: "status_run (s # ts)"

fun rank :: "job_status \<Rightarrow> nat" where
  "rank DRAFT = 6"
| "rank PREFLIGHT = 5"
| "rank AWAITING_CONFIRMATION = 4"
| "rank PUBLISHING = 3"
| "rank SWITCHING = 2"
| "rank VERIFYING = 1"
| "rank COMPLETED = 0"
| "rank PARTIAL_FAILURE = 0"
| "rank FAILED = 0"

lemma status_step_rank: "status_step s t \<Longrightarrow> rank t < rank s"
  by (cases s) (auto simp: status_step.simps)

lemma status_run_length: "status_run ts \<Longrightarrow> length ts \<le> rank (hd ts) + 1"
  by (induction rule: status_run.induct) (auto dest: status_step_rank)

lemma status_run_sorted: "status_run ts \<Longrightarrow> sorted_wrt (\<lambda>s t. rank t < rank s) ts"
proof (induction rule: status_run.induct)
  case (more s t ts)
  then have "rank t < rank s" by (simp add: status_step_rank)
  with more.IH show ?case by auto
qed simp

lemma status_run_distinct: "status_run ts \<Longrightarrow> distinct ts"
  by (drule status_run_sorted, induction ts) auto

lemma status_step_total: "\<not> terminal s \<Longrightarrow> \<exists>t. status_step s t"
  by (cases s) (auto simp: terminal_def status_step.simps)

text \<open>A job that reaches a status after publishing went through the confirmed gate.\<close>

lemma status_run_through:
  assumes "status_run ts" and "hd ts \<in> {DRAFT, PREFLIGHT, AWAITING_CONFIRMATION}"
    and "rank (last ts) \<le> 3"
  shows "AWAITING_CONFIRMATION \<in> set ts \<and> PUBLISHING \<in> set ts"
  using assms
proof (induction rule: status_run.induct)
  case (one s)
  then show ?case by (cases s) auto
next
  case (more s t ts)
  show ?case
  proof (cases "s = AWAITING_CONFIRMATION")
    case True
    with more.hyps(1) show ?thesis by (simp add: status_step_from)
  next
    case False
    with more.prems have "s \<in> {DRAFT, PREFLIGHT}" by simp
    with more.hyps(1) have "t \<in> {DRAFT, PREFLIGHT, AWAITING_CONFIRMATION}"
      by (auto simp: status_step_from)
    with more.IH more.prems show ?thesis by simp
  qed
qed

lemma mk_target_Inr_iff:
  "mk_target t = Inr u \<longleftrightarrow> u = t \<and> 0 \<le> tg_progress_percent t \<and> tg_progress_percent t \<le> 100"
  by (auto simp: mk_target_def)

end
