(* ===== verification/Tables.thy ===== *)
theory Tables
  imports Domain_Publish "HOL-Library.Multiset"
begin

text \<open>
  \<open>repository/models.py\<close>, \<open>repository/database.py\<close> and \<open>repository/uow.py\<close>: the tables with
  their constraints, and the unit of work.  A table is the list of its rows in insertion order.
  The columns that no modelled statement reads or writes are left out (tags, version ids of a
  station, \<open>created_at\<close> where nothing sorts by it, \<open>updated_at\<close>), and so are the lengths of the
  \<open>VARCHAR\<close> columns.  A query sees the rows staged in its session (autoflush); the constraints
  are checked when the session commits.  Text sorts by code point; \<open>NULL\<close> sorts last.
\<close>

section \<open>Rows\<close>

record station_row =
  sr_id :: uuid
  sr_station_id :: uuid
  sr_display_name :: string
  sr_hostname :: string
  sr_role :: station_role
  sr_state :: station_status
  sr_enabled :: bool
  sr_deleted_at :: "datetime option"
  sr_state_reason :: "string option"
  sr_target_name :: "string option"
  sr_target_iqn :: "string option"
  sr_initiator_iqn :: "string option"
  sr_last_update_at :: "datetime option"

record agent_row =
  ar_id :: uuid
  ar_station_id :: uuid
  ar_agent_uuid :: uuid
  ar_agent_version :: string
  ar_credential_hash :: "string option"
  ar_credential_created_at :: "datetime option"
  ar_revoked_at :: "datetime option"
  ar_last_seen_at :: "datetime option"
  ar_last_heartbeat_at :: "datetime option"
  ar_last_process_snapshot_at :: "datetime option"
  ar_last_drive_snapshot_at :: "datetime option"
  ar_last_ip_addresses :: "string list"
  ar_last_mac_addresses :: "string list"
  ar_status :: string

record command_row =
  cm_id :: uuid
  cm_agent_id :: uuid
  cm_name :: string
  cm_expires_at :: datetime
  cm_signature :: string
  cm_status :: string
  cm_lease_until :: "datetime option"
  cm_attempts :: int
  cm_acknowledged_at :: "datetime option"
  cm_created_at :: datetime

record enrollment_row =
  er_id :: uuid
  er_station_id :: uuid
  er_token_hash :: string
  er_expires_at :: datetime
  er_used_at :: "datetime option"
  er_revoked_at :: "datetime option"

record provisioning_row =
  vr_id :: uuid
  vr_token_hash :: string
  vr_expires_at :: datetime
  vr_used_at :: "datetime option"
  vr_revoked_at :: "datetime option"

record snapshot_row =
  nr_station_id :: uuid
  nr_captured_at :: datetime
  nr_received_at :: datetime
  nr_processes :: "process_info list"
  nr_drives :: "drive_info list"
  nr_agent_version :: string
  nr_freshness_status :: string

record rule_row =
  rr_id :: uuid
  rr_name :: string
  rr_role :: "station_role option"
  rr_required_closed :: bool
  rr_severity :: rule_severity
  rr_enabled :: bool
  rr_persistent_policy :: bool

record job_row =
  jr_id :: uuid
  jr_idempotency_key :: string
  jr_label :: string
  jr_description :: "string option"
  jr_source_dataset :: string
  jr_dry_run :: bool
  jr_allow_hot_switch :: bool
  jr_step :: string
  jr_status :: job_status
  jr_status_reason :: "string option"
  jr_operator_id :: "uuid option"
  jr_created_at :: datetime
  jr_started_at :: "datetime option"
  jr_completed_at :: "datetime option"
  jr_client_confirmation :: "bool option"
  jr_client_confirmation_at :: "datetime option"
  jr_correlation_id :: uuid

record target_row =
  gr_id :: uuid
  gr_job_id :: uuid
  gr_station_id :: uuid
  gr_selected_at :: "datetime option"
  gr_deselected_at :: "datetime option"
  gr_preflight_status :: "string option"
  gr_preflight_result :: "preflight_report option"
  gr_old_version_id :: "uuid option"
  gr_new_version_id :: "uuid option"
  gr_old_mapping :: "json_object option"
  gr_new_mapping :: "json_object option"
  gr_switch_status :: "string option"
  gr_verify_status :: "string option"
  gr_error_code :: "string option"
  gr_error_message :: "string option"
  gr_progress_percent :: int

text \<open>The columns of \<open>publish_artifacts\<close> are the fields of the domain's \<open>PublishArtifact\<close>.\<close>

type_synonym artifact_row = publish_artifact

record outbox_row =
  xr_id :: uuid
  xr_aggregate_id :: uuid
  xr_event_type :: string
  xr_payload :: json_object
  xr_correlation_id :: uuid
  xr_status :: outbox_status
  xr_attempts :: int
  xr_available_at :: datetime
  xr_locked_at :: "datetime option"
  xr_locked_by :: "string option"
  xr_lease_expires_at :: "datetime option"
  xr_dispatched_at :: "datetime option"
  xr_last_error :: "string option"
  xr_created_at :: datetime

record db =
  stations :: "station_row list"
  agents :: "agent_row list"
  agent_commands :: "command_row list"
  enrollment_tokens :: "enrollment_row list"
  provisioning_tokens :: "provisioning_row list"
  process_snapshots :: "snapshot_row list"
  process_rules :: "rule_row list"
  publish_jobs :: "job_row list"
  publish_targets :: "target_row list"
  publish_artifacts :: "artifact_row list"
  outbox_events :: "outbox_row list"

definition empty_db :: db where
  "empty_db = \<lparr>stations = [], agents = [], agent_commands = [], enrollment_tokens = [],
     provisioning_tokens = [], process_snapshots = [], process_rules = [], publish_jobs = [],
     publish_targets = [], publish_artifacts = [], outbox_events = []\<rparr>"

section \<open>Constraints\<close>

definition stations_ok :: "db \<Rightarrow> bool" where
  "stations_ok d \<longleftrightarrow>
     distinct (map sr_id (stations d)) \<and> distinct (map sr_station_id (stations d))
     \<and> (\<forall>s \<in> set (stations d). sr_enabled s \<longleftrightarrow> sr_state s \<noteq> DISABLED)"

definition agents_ok :: "db \<Rightarrow> bool" where
  "agents_ok d \<longleftrightarrow>
     distinct (map ar_id (agents d)) \<and> distinct (map ar_station_id (agents d))
     \<and> distinct (map ar_agent_uuid (agents d))
     \<and> ar_station_id ` set (agents d) \<subseteq> sr_id ` set (stations d)"

definition commands_ok :: "db \<Rightarrow> bool" where
  "commands_ok d \<longleftrightarrow>
     distinct (map cm_id (agent_commands d))
     \<and> cm_agent_id ` set (agent_commands d) \<subseteq> ar_id ` set (agents d)"

definition tokens_ok :: "db \<Rightarrow> bool" where
  "tokens_ok d \<longleftrightarrow>
     distinct (map er_id (enrollment_tokens d)) \<and> distinct (map er_token_hash (enrollment_tokens d))
     \<and> er_station_id ` set (enrollment_tokens d) \<subseteq> sr_id ` set (stations d)
     \<and> distinct (map vr_id (provisioning_tokens d))
     \<and> distinct (map vr_token_hash (provisioning_tokens d))"

definition snapshots_rules_ok :: "db \<Rightarrow> bool" where
  "snapshots_rules_ok d \<longleftrightarrow>
     nr_station_id ` set (process_snapshots d) \<subseteq> sr_id ` set (stations d)
     \<and> distinct (map rr_id (process_rules d))"

definition publish_ok :: "db \<Rightarrow> bool" where
  "publish_ok d \<longleftrightarrow>
     distinct (map jr_id (publish_jobs d)) \<and> distinct (map jr_idempotency_key (publish_jobs d))
     \<and> distinct (map gr_id (publish_targets d))
     \<and> distinct (map (\<lambda>t. (gr_job_id t, gr_station_id t)) (publish_targets d))
     \<and> gr_job_id ` set (publish_targets d) \<subseteq> jr_id ` set (publish_jobs d)
     \<and> gr_station_id ` set (publish_targets d) \<subseteq> sr_id ` set (stations d)
     \<and> distinct (map pa_id (publish_artifacts d))
     \<and> distinct (map (\<lambda>a. (pa_job_id a, pa_station_id a)) (publish_artifacts d))
     \<and> pa_job_id ` set (publish_artifacts d) \<subseteq> jr_id ` set (publish_jobs d)
     \<and> pa_station_id ` set (publish_artifacts d) \<subseteq> sr_station_id ` set (stations d)
     \<and> distinct (map xr_id (outbox_events d))
     \<and> xr_aggregate_id ` set (outbox_events d) \<subseteq> jr_id ` set (publish_jobs d)"

text \<open>The unique, foreign-key and check constraints of the schema.\<close>

definition integrity :: "db \<Rightarrow> bool" where
  "integrity d \<longleftrightarrow>
     stations_ok d \<and> agents_ok d \<and> commands_ok d \<and> tokens_ok d \<and> snapshots_rules_ok d
     \<and> publish_ok d"

lemmas constraint_defs =
  stations_ok_def agents_ok_def commands_ok_def tokens_ok_def snapshots_rules_ok_def publish_ok_def

lemma integrity_empty: "integrity empty_db"
  by (simp add: integrity_def constraint_defs empty_db_def)

lemma integrityD:
  assumes "integrity d"
  shows "distinct (map sr_id (stations d))" "distinct (map sr_station_id (stations d))"
    "distinct (map ar_id (agents d))" "distinct (map ar_station_id (agents d))"
    "distinct (map ar_agent_uuid (agents d))"
    "distinct (map cm_id (agent_commands d))"
    "distinct (map er_token_hash (enrollment_tokens d))"
    "distinct (map vr_token_hash (provisioning_tokens d))"
    "distinct (map jr_id (publish_jobs d))" "distinct (map jr_idempotency_key (publish_jobs d))"
    "distinct (map gr_id (publish_targets d))" "distinct (map pa_id (publish_artifacts d))"
    "distinct (map xr_id (outbox_events d))"
  using assms by (auto simp: integrity_def constraint_defs)

section \<open>Unit of work\<close>

record uow =
  committed :: db
  session :: db

text \<open>A repository call works on the session.\<close>

definition sess :: "(db, 'a) sx \<Rightarrow> (uow, 'a) sx" where
  "sess m = (\<lambda>u. case m (session u) of (r, s) \<Rightarrow> (r, u\<lparr>session := s\<rparr>))"

definition commit :: "(uow, unit) sx" where
  "commit = (\<lambda>u. if integrity (session u) then (Inr (), u\<lparr>committed := session u\<rparr>)
                  else (Inl (IntegrityError ''constraint failed''), u))"

definition rollback :: "(uow, unit) sx" where
  "rollback = (\<lambda>u. (Inr (), u\<lparr>session := committed u\<rparr>))"

text \<open>\<open>async with uow_factory() as uow: body\<close>: \<open>__aexit__\<close> rolls back on an exception and closes
  the session in every case, so only what was committed stays.\<close>

definition with_uow :: "(uow, 'a) sx \<Rightarrow> (db, 'a) sx" where
  "with_uow body = (\<lambda>d. case body \<lparr>committed = d, session = d\<rparr> of (r, u) \<Rightarrow> (r, committed u))"

lemma sess_apply [sx_simps]:
  "sess m u = (case m (session u) of (r, s) \<Rightarrow> (r, u\<lparr>session := s\<rparr>))"
  by (simp add: sess_def)

lemma commit_apply [sx_simps]:
  "commit u = (if integrity (session u) then (Inr (), u\<lparr>committed := session u\<rparr>)
               else (Inl (IntegrityError ''constraint failed''), u))"
  by (simp add: commit_def)

lemma with_uow_apply [sx_simps]:
  "with_uow body d = (case body \<lparr>committed = d, session = d\<rparr> of (r, u) \<Rightarrow> (r, committed u))"
  by (simp add: with_uow_def)

subsection \<open>What a transaction keeps\<close>

text \<open>\<open>keeps P m\<close>: \<open>m\<close> preserves \<open>P\<close> on the state, whether it returns or raises.\<close>

definition keeps :: "('s \<Rightarrow> bool) \<Rightarrow> ('s, 'a) sx \<Rightarrow> bool" where
  "keeps P m \<longleftrightarrow> (\<forall>s. P s \<longrightarrow> P (snd (m s)))"

named_theorems keeps_intros

lemma keepsD: "keeps P m \<Longrightarrow> P s \<Longrightarrow> P (snd (m s))"
  by (simp add: keeps_def)

lemma keeps_return [keeps_intros]: "keeps P (returnS x)"
  by (simp add: keeps_def returnS_def)

lemma keeps_raise [keeps_intros]: "keeps P (raiseS e)"
  by (simp add: keeps_def raiseS_def)

lemma keeps_lift [keeps_intros]: "keeps P (liftR r)"
  by (simp add: keeps_def liftR_def)

lemma keeps_get [keeps_intros]: "keeps P (getS f)"
  by (simp add: keeps_def getS_def)

lemma keeps_bind [keeps_intros]:
  "keeps P m \<Longrightarrow> (\<And>x. keeps P (f x)) \<Longrightarrow> keeps P (bindS m f)"
  unfolding keeps_def bindS_def by (fastforce split: sum.splits prod.splits)

lemma keeps_catch [keeps_intros]:
  "keeps P m \<Longrightarrow> (\<And>e. keeps P (h e)) \<Longrightarrow> keeps P (catchS m h)"
  unfolding keeps_def catchS_def by (fastforce split: sum.splits prod.splits)

lemma keeps_if [keeps_intros]:
  "(c \<Longrightarrow> keeps P m) \<Longrightarrow> (\<not> c \<Longrightarrow> keeps P n) \<Longrightarrow> keeps P (if c then m else n)"
  by simp

lemma keeps_option [keeps_intros]:
  "keeps P m \<Longrightarrow> (\<And>x. keeps P (f x)) \<Longrightarrow> keeps P (case v of None \<Rightarrow> m | Some x \<Rightarrow> f x)"
  by (simp split: option.split)

lemma keeps_let [keeps_intros]: "(\<And>x. keeps P (f x)) \<Longrightarrow> keeps P (let x = v in f x)"
  by simp

lemma keeps_prod [keeps_intros]:
  "(\<And>x y. keeps P (f x y)) \<Longrightarrow> keeps P (case v of (x, y) \<Rightarrow> f x y)"
  by (simp split: prod.split)

lemma keeps_sum [keeps_intros]:
  "(\<And>e. keeps P (f e)) \<Longrightarrow> (\<And>x. keeps P (g x)) \<Longrightarrow>
    keeps P (case v of Inl e \<Rightarrow> f e | Inr x \<Rightarrow> g x)"
  by (simp split: sum.split)

lemma keeps_mapS [keeps_intros]: "(\<And>x. keeps P (f x)) \<Longrightarrow> keeps P (mapS f xs)"
  by (induction xs) (auto intro: keeps_intros)

lemma keeps_forS [keeps_intros]: "(\<And>x. keeps P (f x)) \<Longrightarrow> keeps P (forS f xs)"
  by (induction xs) (auto intro: keeps_intros)

text \<open>Only a commit changes the committed tables, and it checks the constraints.\<close>

abbreviation sound_uow :: "uow \<Rightarrow> bool" where
  "sound_uow u \<equiv> integrity (committed u)"

lemma keeps_sess [keeps_intros]: "keeps sound_uow (sess m)"
  by (simp add: keeps_def sess_def split: prod.split)

lemma keeps_commit [keeps_intros]: "keeps sound_uow commit"
  by (simp add: keeps_def commit_def)

lemma keeps_with_uow [keeps_intros]: "keeps sound_uow body \<Longrightarrow> keeps integrity (with_uow body)"
  unfolding keeps_def with_uow_def
  by (metis (mono_tags, lifting) case_prod_beta snd_conv uow.select_convs(1))

text \<open>A body that never commits leaves the database alone.\<close>

lemma keeps_sess_committed: "keeps (\<lambda>u. committed u = d) (sess m)"
  by (simp add: keeps_def sess_def split: prod.split)

lemma with_uow_readonly:
  assumes "keeps (\<lambda>u. committed u = d) body"
  shows "snd (with_uow body d) = d"
  using keepsD [OF assms, of "\<lparr>committed = d, session = d\<rparr>"]
  by (simp add: with_uow_def case_prod_beta)

section \<open>Sorting\<close>

text \<open>\<open>ORDER BY\<close> an increasing key; rows with equal keys keep their insertion order.\<close>

definition order_by :: "('a \<Rightarrow> 'k :: linorder) \<Rightarrow> 'a list \<Rightarrow> 'a list" where
  "order_by key xs = sort_key key xs"

definition nulls_last :: "datetime option \<Rightarrow> int \<times> int" where
  "nulls_last v = (case v of None \<Rightarrow> (1, 0) | Some t \<Rightarrow> (0, instant t))"

lemma set_order_by [simp]: "set (order_by key xs) = set xs"
  by (simp add: order_by_def)

lemma distinct_order_by [simp]: "distinct (order_by key xs) = distinct xs"
  by (simp add: order_by_def)

lemma length_order_by [simp]: "length (order_by key xs) = length xs"
  by (simp add: order_by_def)

lemma order_by_simps [simp]:
  "order_by key [] = []" "order_by key [x] = [x]"
  by (simp_all add: order_by_def)

lemma sorted_order_by: "sorted (map key (order_by key xs))"
  by (simp add: order_by_def)

lemma mset_order_by [simp]: "mset (order_by key xs) = mset xs"
  by (simp add: order_by_def)

lemma distinct_map_order_by [simp]: "distinct (map g (order_by key xs)) = distinct (map g xs)"
  by (simp add: distinct_map)

end
