(* ===== verification/Station_Repo.thy ===== *)
theory Station_Repo
  imports Tables
begin

text \<open>
  \<open>repository/stations.py\<close>.  A call is a computation over the session's tables;
  \<open>row.field = v\<close> updates the row with the record's primary key.
\<close>

section \<open>Rows and entities\<close>

definition row_station :: "station_row \<Rightarrow> station" where
  "row_station r =
     \<lparr>st_id = sr_id r, st_station_id = sr_station_id r, st_display_name = sr_display_name r,
      st_hostname = sr_hostname r, st_role = sr_role r, st_status = sr_state r,
      st_enabled = sr_enabled r, st_deleted_at = map_option ensure_utc (sr_deleted_at r),
      st_target_name = sr_target_name r, st_target_iqn = sr_target_iqn r,
      st_initiator_iqn = sr_initiator_iqn r,
      st_last_update_at = map_option ensure_utc (sr_last_update_at r)\<rparr>"

definition station_to_domain :: "station_row \<Rightarrow> station result" where
  "station_to_domain r = mk_station (row_station r)"

definition station_record :: "station \<Rightarrow> station_row" where
  "station_record s =
     \<lparr>sr_id = st_id s, sr_station_id = st_station_id s, sr_display_name = st_display_name s,
      sr_hostname = st_hostname s, sr_role = st_role s, sr_state = st_status s,
      sr_enabled = st_enabled s, sr_deleted_at = st_deleted_at s, sr_state_reason = None,
      sr_target_name = st_target_name s, sr_target_iqn = st_target_iqn s,
      sr_initiator_iqn = st_initiator_iqn s, sr_last_update_at = st_last_update_at s\<rparr>"

text \<open>\<open>select(StationRecord).where(station_id == sid)\<close>, and the same with
  \<open>deleted_at IS NULL\<close>.\<close>

definition station_by :: "db \<Rightarrow> uuid \<Rightarrow> station_row option" where
  "station_by d sid = find (\<lambda>r. sr_station_id r = sid) (stations d)"

definition active_station_by :: "db \<Rightarrow> uuid \<Rightarrow> station_row option" where
  "active_station_by d sid =
     find (\<lambda>r. sr_station_id r = sid \<and> sr_deleted_at r = None) (stations d)"

definition set_station :: "uuid \<Rightarrow> (station_row \<Rightarrow> station_row) \<Rightarrow> db \<Rightarrow> db" where
  "set_station rid f d = d\<lparr>stations := update_where (\<lambda>r. sr_id r = rid) f (stations d)\<rparr>"

section \<open>Operations\<close>

definition stations_get :: "uuid \<Rightarrow> (db, station option) sx" where
  "stations_get sid = (\<lambda>d.
     (case station_by d sid of
        None \<Rightarrow> Inr None
      | Some r \<Rightarrow> bindR (station_to_domain r) (\<lambda>s. Inr (Some s)), d))"

definition stations_list :: "bool \<Rightarrow> (db, station list) sx" where
  "stations_list include_disabled = (\<lambda>d.
     (mapR station_to_domain
        (order_by (\<lambda>r. (sr_display_name r, sr_station_id r))
          (filter (\<lambda>r. sr_deleted_at r = None \<and> (include_disabled \<or> sr_enabled r)) (stations d))),
      d))"

definition stations_add :: "station \<Rightarrow> (db, unit) sx" where
  "stations_add s = (\<lambda>d. (Inr (), d\<lparr>stations := stations d @ [station_record s]\<rparr>))"

definition restored_row :: "station \<Rightarrow> station_row \<Rightarrow> station_row" where
  "restored_row s r =
     r\<lparr>sr_display_name := st_display_name s, sr_hostname := st_hostname s, sr_role := st_role s,
       sr_state := st_status s, sr_enabled := st_enabled s, sr_deleted_at := st_deleted_at s,
       sr_target_name := st_target_name s, sr_target_iqn := st_target_iqn s,
       sr_initiator_iqn := st_initiator_iqn s, sr_state_reason := None\<rparr>"

definition stations_restore :: "station \<Rightarrow> (db, unit) sx" where
  "stations_restore s = (\<lambda>d.
     case station_by d (st_station_id s) of
       None \<Rightarrow> (Inl (ValueError ''deleted station not found''), d)
     | Some r \<Rightarrow>
         if sr_deleted_at r = None then (Inl (ValueError ''deleted station not found''), d)
         else (Inr (), set_station (sr_id r) (restored_row s) d))"

definition stations_update_hostname :: "uuid \<Rightarrow> string \<Rightarrow> (db, unit) sx" where
  "stations_update_hostname sid hostname = (\<lambda>d.
     case station_by d sid of
       None \<Rightarrow> (Inl (ValueError ''station not found''), d)
     | Some r \<Rightarrow> (Inr (), set_station (sr_id r) (\<lambda>r. r\<lparr>sr_hostname := hostname\<rparr>) d))"

definition mapped_row ::
    "string option \<Rightarrow> string option \<Rightarrow> string option \<Rightarrow> station_row \<Rightarrow> station_row" where
  "mapped_row target_name target_iqn initiator_iqn r =
     r\<lparr>sr_target_name := target_name, sr_target_iqn := target_iqn,
       sr_initiator_iqn := initiator_iqn\<rparr>"

definition stations_update_storage_mapping ::
    "uuid \<Rightarrow> string option \<Rightarrow> string option \<Rightarrow> string option \<Rightarrow> (db, station option) sx" where
  "stations_update_storage_mapping sid target_name target_iqn initiator_iqn = (\<lambda>d.
     case active_station_by d sid of
       None \<Rightarrow> (Inr None, d)
     | Some r \<Rightarrow>
         (let r' = mapped_row target_name target_iqn initiator_iqn r
          in (bindR (station_to_domain r') (\<lambda>s. Inr (Some s)),
              set_station (sr_id r) (mapped_row target_name target_iqn initiator_iqn) d)))"

definition detailed_row ::
    "string \<Rightarrow> string \<Rightarrow> station_role \<Rightarrow> bool \<Rightarrow> station_row \<Rightarrow> station_row" where
  "detailed_row display_name hostname role enabled r =
     r\<lparr>sr_display_name := display_name, sr_hostname := hostname, sr_role := role,
       sr_enabled := enabled,
       sr_state := (if enabled \<and> sr_state r = DISABLED then OFFLINE
                    else if \<not> enabled then DISABLED else sr_state r)\<rparr>"

definition stations_update_details ::
    "uuid \<Rightarrow> string \<Rightarrow> string \<Rightarrow> station_role \<Rightarrow> bool \<Rightarrow> (db, station option) sx" where
  "stations_update_details sid display_name hostname role enabled = (\<lambda>d.
     case active_station_by d sid of
       None \<Rightarrow> (Inr None, d)
     | Some r \<Rightarrow>
         (let r' = detailed_row display_name hostname role enabled r
          in (bindR (station_to_domain r') (\<lambda>s. Inr (Some s)),
              set_station (sr_id r) (detailed_row display_name hostname role enabled) d)))"

definition stations_update_last_update :: "uuid \<Rightarrow> datetime \<Rightarrow> (db, unit) sx" where
  "stations_update_last_update sid updated_at = (\<lambda>d.
     case active_station_by d sid of
       None \<Rightarrow> (Inl (ValueError ''station not found''), d)
     | Some r \<Rightarrow> (Inr (), set_station (sr_id r) (\<lambda>r. r\<lparr>sr_last_update_at := Some updated_at\<rparr>) d))"

definition removed_row :: "datetime \<Rightarrow> station_row \<Rightarrow> station_row" where
  "removed_row deleted_at r =
     r\<lparr>sr_enabled := False, sr_state := DISABLED, sr_state_reason := Some ''removed by operator'',
       sr_deleted_at := Some deleted_at\<rparr>"

definition stations_delete :: "uuid \<Rightarrow> datetime \<Rightarrow> (db, bool) sx" where
  "stations_delete sid deleted_at = (\<lambda>d.
     case active_station_by d sid of
       None \<Rightarrow> (Inr False, d)
     | Some r \<Rightarrow>
         (let agent_ids = map ar_id (filter (\<lambda>a. ar_station_id a = sr_id r) (agents d));
              d1 = d\<lparr>agent_commands :=
                       filter (\<lambda>c. cm_agent_id c \<notin> set agent_ids) (agent_commands d)\<rparr>;
              d2 = d1\<lparr>agents := filter (\<lambda>a. ar_station_id a \<noteq> sr_id r) (agents d1)\<rparr>;
              d3 = d2\<lparr>enrollment_tokens :=
                        update_where (\<lambda>t. er_station_id t = sr_id r \<and> er_revoked_at t = None)
                          (\<lambda>t. t\<lparr>er_revoked_at := Some deleted_at\<rparr>) (enrollment_tokens d2)\<rparr>
          in (Inr True, set_station (sr_id r) (removed_row deleted_at) d3)))"

section \<open>Lookups\<close>

lemma row_station_sels [simp]:
  "st_id (row_station r) = sr_id r" "st_station_id (row_station r) = sr_station_id r"
  "st_display_name (row_station r) = sr_display_name r"
  "st_hostname (row_station r) = sr_hostname r" "st_role (row_station r) = sr_role r"
  "st_status (row_station r) = sr_state r" "st_enabled (row_station r) = sr_enabled r"
  "st_deleted_at (row_station r) = map_option ensure_utc (sr_deleted_at r)"
  "st_target_name (row_station r) = sr_target_name r"
  "st_target_iqn (row_station r) = sr_target_iqn r"
  "st_initiator_iqn (row_station r) = sr_initiator_iqn r"
  "st_last_update_at (row_station r) = map_option ensure_utc (sr_last_update_at r)"
  by (simp_all add: row_station_def)

lemma station_to_domain_Inr_iff:
  "station_to_domain r = Inr s \<longleftrightarrow> s = row_station r \<and> station_wf (row_station r)"
  by (auto simp: station_to_domain_def mk_station_Inr_iff)

lemma station_by_SomeD: "station_by d sid = Some r \<Longrightarrow> r \<in> set (stations d) \<and> sr_station_id r = sid"
  by (auto simp: station_by_def dest: find_SomeD)

lemma active_station_by_SomeD:
  "active_station_by d sid = Some r \<Longrightarrow>
     r \<in> set (stations d) \<and> sr_station_id r = sid \<and> sr_deleted_at r = None"
  by (auto simp: active_station_by_def dest!: find_SomeD)

lemma station_by_unique:
  "integrity d \<Longrightarrow> r \<in> set (stations d) \<Longrightarrow> station_by d (sr_station_id r) = Some r"
  unfolding station_by_def by (rule find_unique [where key = sr_station_id]) (auto dest: integrityD)

lemma active_station_by_eq:
  assumes "integrity d"
  shows "active_station_by d sid =
    (case station_by d sid of None \<Rightarrow> None
       | Some r \<Rightarrow> if sr_deleted_at r = None then Some r else None)"
  unfolding active_station_by_def station_by_def
  by (rule find_key_and) (use assms in \<open>rule integrityD\<close>)

lemma stations_set_station [simp]:
  "stations (set_station rid f d) = update_where (\<lambda>r. sr_id r = rid) f (stations d)"
  by (simp add: set_station_def)

lemma set_station_frame [simp]:
  "agents (set_station rid f d) = agents d"
  "agent_commands (set_station rid f d) = agent_commands d"
  "enrollment_tokens (set_station rid f d) = enrollment_tokens d"
  "provisioning_tokens (set_station rid f d) = provisioning_tokens d"
  "process_snapshots (set_station rid f d) = process_snapshots d"
  "process_rules (set_station rid f d) = process_rules d"
  "publish_jobs (set_station rid f d) = publish_jobs d"
  "publish_targets (set_station rid f d) = publish_targets d"
  "publish_artifacts (set_station rid f d) = publish_artifacts d"
  "outbox_events (set_station rid f d) = outbox_events d"
  by (simp_all add: set_station_def)

text \<open>A row update that keeps both identifiers and is applied to the row of station \<open>sid\<close> is
  seen by the next lookup of \<open>sid\<close> and by no other.\<close>

lemma station_by_set_station:
  assumes "integrity d" and "station_by d sid = Some r"
    and "\<And>x. sr_station_id (f x) = sr_station_id x"
  shows "station_by (set_station (sr_id r) f d) sid' =
    (if sid' = sid then Some (f r) else station_by d sid')"
proof -
  have r: "r \<in> set (stations d)" "sr_station_id r = sid"
    using assms(2) by (auto dest: station_by_SomeD)
  have "sr_id x = sr_id r \<longleftrightarrow> x = r" if "x \<in> set (stations d)" for x
    using distinct_map_eq_iff [OF integrityD(1) [OF assms(1)] that r(1)] .
  moreover have "sr_station_id x = sid \<longleftrightarrow> x = r" if "x \<in> set (stations d)" for x
    using distinct_map_eq_iff [OF integrityD(2) [OF assms(1)] that r(1)] r(2) by simp
  moreover have "station_by (set_station (sr_id r) f d) sid' =
      map_option (\<lambda>x. if sr_id x = sr_id r then f x else x) (station_by d sid')"
    unfolding station_by_def stations_set_station
    by (rule find_update_where) (simp add: assms(3))
  ultimately show ?thesis
    using assms(2) by (cases "station_by d sid'") (auto dest: station_by_SomeD)
qed

text \<open>Restoring and deleting are inverse on visibility.\<close>

lemma station_by_add:
  "station_by (d\<lparr>stations := stations d @ [station_record s]\<rparr>) sid =
     (case station_by d sid of Some r \<Rightarrow> Some r
      | None \<Rightarrow> if st_station_id s = sid then Some (station_record s) else None)"
  by (simp add: station_by_def find_append station_record_def split: option.split)

section \<open>The registry stays readable\<close>

text \<open>Every stored station can be turned into its entity again.\<close>

definition readable :: "db \<Rightarrow> bool" where
  "readable d \<longleftrightarrow> (\<forall>r \<in> set (stations d). station_wf (row_station r))"

lemma station_wf_record [simp]: "station_wf (row_station (station_record s)) = station_wf s"
  by (auto simp: station_wf_def station_record_def)

lemma readable_set_station:
  "readable d \<Longrightarrow> (\<And>r. sr_id r = rid \<Longrightarrow> r \<in> set (stations d) \<Longrightarrow> station_wf (row_station r) \<Longrightarrow>
     station_wf (row_station (f r))) \<Longrightarrow> readable (set_station rid f d)"
  by (auto simp: readable_def set_update_where)

lemma station_wf_restored:
  "station_wf s \<Longrightarrow> station_wf (row_station (restored_row s r))"
  by (auto simp add: station_wf_def restored_row_def)

lemma stations_list_total:
  assumes "readable d"
  shows "fst (stations_list b d) =
    Inr (map row_station (order_by (\<lambda>r. (sr_display_name r, sr_station_id r))
      (filter (\<lambda>r. sr_deleted_at r = None \<and> (b \<or> sr_enabled r)) (stations d))))"
  using assms
  by (auto simp: stations_list_def readable_def station_to_domain_Inr_iff intro!: mapR_total)

lemma stations_get_total:
  "readable d \<Longrightarrow> stations_get sid d = (Inr (map_option row_station (station_by d sid)), d)"
  by (auto simp: stations_get_def readable_def station_to_domain_def split: option.split
      dest: station_by_SomeD)

lemma stations_get_state [simp]: "snd (stations_get sid d) = d"
  by (simp add: stations_get_def)

lemma stations_get_Inr:
  "stations_get sid d = (Inr v, d') \<Longrightarrow> d' = d \<and> v = map_option row_station (station_by d sid)"
  by (auto simp: stations_get_def bindR_Inr_iff station_to_domain_Inr_iff split: option.splits)

lemma stations_list_state [simp]: "snd (stations_list b d) = d"
  by (simp add: stations_list_def)


section \<open>Constraints\<close>

lemma integrity_set_station:
  assumes "integrity d"
    and "\<And>r. (sr_enabled r \<longleftrightarrow> sr_state r \<noteq> DISABLED) \<Longrightarrow>
      sr_id (f r) = sr_id r \<and> sr_station_id (f r) = sr_station_id r
      \<and> (sr_enabled (f r) \<longleftrightarrow> sr_state (f r) \<noteq> DISABLED)"
  shows "integrity (set_station rid f d)"
proof -
  have rows: "\<forall>r \<in> set (stations d). sr_id (f r) = sr_id r \<and> sr_station_id (f r) = sr_station_id r
      \<and> (sr_enabled (f r) \<longleftrightarrow> sr_state (f r) \<noteq> DISABLED)"
    using assms by (auto simp: integrity_def stations_ok_def)
  then have ids: "map sr_id (stations (set_station rid f d)) = map sr_id (stations d)"
    "map sr_station_id (stations (set_station rid f d)) = map sr_station_id (stations d)"
    by (auto simp: update_where_def)
  then have sets: "sr_id ` set (stations (set_station rid f d)) = sr_id ` set (stations d)"
    "sr_station_id ` set (stations (set_station rid f d)) = sr_station_id ` set (stations d)"
    by (metis list.set_map)+
  have "stations_ok (set_station rid f d)"
    unfolding stations_ok_def ids
    using assms(1) rows by (auto simp: integrity_def stations_ok_def ball_update_where)
  with assms(1) show ?thesis
    by (simp add: integrity_def agents_ok_def commands_ok_def tokens_ok_def snapshots_rules_ok_def
        publish_ok_def sets del: stations_set_station)
qed

end
