(* ===== verification/Token_Repo.thy ===== *)
theory Token_Repo
  imports Station_Repo
begin

text \<open>
  \<open>repository/enrollment_tokens.py\<close> and \<open>repository/provisioning_tokens.py\<close>, and the contract
  both stores keep: a token is claimed at most once.
\<close>

section \<open>The contract of a token store\<close>

locale token_store =
  fixes consume :: "string \<Rightarrow> datetime \<Rightarrow> ('s, 'tok option) sx"
    and ok :: "'s \<Rightarrow> bool"
    and spent :: "'s \<Rightarrow> string \<Rightarrow> bool"
  assumes consume_ok: "ok s \<Longrightarrow> ok (snd (consume h now s))"
    and claim_spends: "ok s \<Longrightarrow> consume h now s = (Inr (Some t), s') \<Longrightarrow> spent s' h"
    and spent_refused: "ok s \<Longrightarrow> spent s h \<Longrightarrow> consume h now s = (Inr None, s)"
    and spent_stays: "ok s \<Longrightarrow> spent s h \<Longrightarrow> spent (snd (consume h' now s)) h"
begin

text \<open>The outcomes of a sequence of claims, each by its hash and its time.\<close>

fun claims :: "(string \<times> datetime) list \<Rightarrow> 's \<Rightarrow> bool list" where
  "claims [] s = []"
| "claims ((h, now) # rest) s =
     (case consume h now s of (r, s') \<Rightarrow>
        (case r of Inr (Some t) \<Rightarrow> True | _ \<Rightarrow> False) # claims rest s')"

definition successes :: "string \<Rightarrow> (string \<times> datetime) list \<Rightarrow> 's \<Rightarrow> nat" where
  "successes h cs s = length (filter (\<lambda>((h', _), b). h' = h \<and> b) (zip cs (claims cs s)))"

lemma no_success_when_spent: "ok s \<Longrightarrow> spent s h \<Longrightarrow> successes h cs s = 0"
proof (induction cs s rule: claims.induct)
  case (2 h' now rest s)
  obtain r s' where c: "consume h' now s = (r, s')" by fastforce
  with 2 consume_ok [of s h' now] spent_stays [of s h h' now]
  have s': "ok s'" "spent s' h" by simp_all
  have "h' = h \<Longrightarrow> r = Inr None" using c spent_refused [of s h now] 2(2,3) by simp
  with 2(1) [OF c [symmetric]] s' c show ?case
    by (auto simp: successes_def split: sum.splits option.splits)
qed (simp add: successes_def)

lemma at_most_one_success: "ok s \<Longrightarrow> successes h cs s \<le> 1"
proof (induction cs s rule: claims.induct)
  case (2 h' now rest s)
  obtain r s' where c: "consume h' now s = (r, s')" by fastforce
  with 2(2) consume_ok [of s h' now] have ok': "ok s'" by simp
  show ?case
  proof (cases "h' = h \<and> (\<exists>t. r = Inr (Some t))")
    case True
    with claim_spends [OF 2(2)] c have "spent s' h" by blast
    from no_success_when_spent [OF ok' this, of rest] c show ?thesis
      by (auto simp: successes_def split: sum.splits option.splits)
  next
    case False
    with 2(1) [OF c [symmetric] ok'] c show ?thesis
      by (auto simp: successes_def split: sum.splits option.splits)
  qed
qed (simp add: successes_def)

end

section \<open>Enrollment tokens\<close>

definition enrollment_add :: "enrollment_token \<Rightarrow> (db, unit) sx" where
  "enrollment_add t = (\<lambda>d.
     case station_by d (et_station_id t) of
       None \<Rightarrow> (Inl (ValueError ''station not found''), d)
     | Some st \<Rightarrow>
         (Inr (), d\<lparr>enrollment_tokens := enrollment_tokens d @
            [\<lparr>er_id = et_id t, er_station_id = sr_id st, er_token_hash = et_token_hash t,
              er_expires_at = et_expires_at t, er_used_at = et_used_at t,
              er_revoked_at = et_revoked_at t\<rparr>]\<rparr>))"

definition enrollment_join :: "db \<Rightarrow> (enrollment_row \<times> station_row) list" where
  "enrollment_join d =
     concat (map (\<lambda>t. map (Pair t) (filter (\<lambda>s. sr_id s = er_station_id t) (stations d)))
       (enrollment_tokens d))"

definition row_enrollment :: "enrollment_row \<Rightarrow> station_row \<Rightarrow> enrollment_token" where
  "row_enrollment record station =
     \<lparr>et_id = er_id record, et_station_id = sr_station_id station,
      et_token_hash = er_token_hash record, et_expires_at = er_expires_at record,
      et_used_at = er_used_at record, et_revoked_at = er_revoked_at record\<rparr>"

definition enrollment_consume :: "string \<Rightarrow> datetime \<Rightarrow> (db, enrollment_token option) sx" where
  "enrollment_consume token_hash now = (\<lambda>d.
     case one_or_none (filter (\<lambda>(t, s). er_token_hash t = token_hash) (enrollment_join d)) of
       Inl e \<Rightarrow> (Inl e, d)
     | Inr None \<Rightarrow> (Inr None, d)
     | Inr (Some (record, station)) \<Rightarrow>
         (let token = row_enrollment record station
          in if \<not> enrollment_is_usable token now then (Inr None, d)
             else (Inr (Some token),
                   d\<lparr>enrollment_tokens :=
                       update_where (\<lambda>t. er_id t = er_id record)
                         (\<lambda>t. t\<lparr>er_used_at := Some now\<rparr>) (enrollment_tokens d)\<rparr>)))"

section \<open>Provisioning tokens\<close>

definition provisioning_add :: "provisioning_token \<Rightarrow> (db, unit) sx" where
  "provisioning_add t = (\<lambda>d.
     (Inr (), d\<lparr>provisioning_tokens := provisioning_tokens d @
        [\<lparr>vr_id = pt_id t, vr_token_hash = pt_token_hash t, vr_expires_at = pt_expires_at t,
          vr_used_at = pt_used_at t, vr_revoked_at = pt_revoked_at t\<rparr>]\<rparr>))"

definition row_provisioning :: "provisioning_row \<Rightarrow> provisioning_token" where
  "row_provisioning record =
     \<lparr>pt_id = vr_id record, pt_token_hash = vr_token_hash record,
      pt_expires_at = vr_expires_at record, pt_used_at = vr_used_at record,
      pt_revoked_at = vr_revoked_at record\<rparr>"

definition provisioning_consume :: "string \<Rightarrow> datetime \<Rightarrow> (db, provisioning_token option) sx" where
  "provisioning_consume token_hash now = (\<lambda>d.
     case find (\<lambda>t. vr_token_hash t = token_hash) (provisioning_tokens d) of
       None \<Rightarrow> (Inr None, d)
     | Some record \<Rightarrow>
         (let token = row_provisioning record
          in if \<not> provisioning_is_usable token now then (Inr None, d)
             else (Inr (Some token),
                   d\<lparr>provisioning_tokens :=
                       update_where (\<lambda>t. vr_id t = vr_id record)
                         (\<lambda>t. t\<lparr>vr_used_at := Some now\<rparr>) (provisioning_tokens d)\<rparr>)))"

section \<open>Rows found by their hash\<close>

definition enrollment_by :: "db \<Rightarrow> string \<Rightarrow> enrollment_row option" where
  "enrollment_by d h = find (\<lambda>t. er_token_hash t = h) (enrollment_tokens d)"

lemma enrollment_station:
  assumes "integrity d" and "t \<in> set (enrollment_tokens d)"
  obtains s where "s \<in> set (stations d)" and "sr_id s = er_station_id t"
    and "filter (\<lambda>s. sr_id s = er_station_id t) (stations d) = [s]"
proof -
  from assms have "er_station_id t \<in> sr_id ` set (stations d)"
    by (auto simp: integrity_def tokens_ok_def)
  then obtain s where s: "s \<in> set (stations d)" "sr_id s = er_station_id t" by auto
  with filter_unique [OF integrityD(1) [OF assms(1)] s(1)] that show ?thesis by simp
qed

text \<open>With the constraints, the join finds the one row of a hash and its station.\<close>

lemma enrollment_lookup:
  assumes "integrity d" and "enrollment_by d h = Some t"
  obtains s where "s \<in> set (stations d)" and "sr_id s = er_station_id t"
    and "filter (\<lambda>(t, s). er_token_hash t = h) (enrollment_join d) = [(t, s)]"
proof -
  from assms(2) have t: "t \<in> set (enrollment_tokens d)" "er_token_hash t = h"
    by (auto simp: enrollment_by_def dest: find_SomeD)
  obtain s where s: "s \<in> set (stations d)" "sr_id s = er_station_id t"
    "filter (\<lambda>s. sr_id s = er_station_id t) (stations d) = [s]"
    using enrollment_station [OF assms(1) t(1)] by blast
  have "filter (\<lambda>(t, s). er_token_hash t = h) (enrollment_join d) = [(t, s)]"
    unfolding enrollment_join_def
  proof (rule concat_map_single_key [where key = er_token_hash and x = t])
    show "distinct (map er_token_hash (enrollment_tokens d))" by (rule integrityD [OF assms(1)])
    show "t \<in> set (enrollment_tokens d)" by (rule t(1))
    show "map (Pair t) (filter (\<lambda>s. sr_id s = er_station_id t) (stations d)) = [(t, s)]"
      by (simp add: s(3))
  qed (use t(2) in auto)
  with s(1,2) that show ?thesis by blast
qed

lemma enrollment_lookup_None:
  "enrollment_by d h = None \<Longrightarrow> filter (\<lambda>(t, s). er_token_hash t = h) (enrollment_join d) = []"
  by (auto simp: enrollment_by_def enrollment_join_def filter_empty_conv find_None_iff)

lemma enrollment_consume_None:
  "enrollment_by d h = None \<Longrightarrow> enrollment_consume h now d = (Inr None, d)"
  by (simp add: enrollment_consume_def enrollment_lookup_None)

lemma enrollment_usable_row:
  "enrollment_is_usable (row_enrollment t s) now \<longleftrightarrow>
     er_used_at t = None \<and> er_revoked_at t = None
     \<and> instant now < instant (er_expires_at t)"
  by (simp add: enrollment_is_usable_def row_enrollment_def)

lemma enrollment_consume_Some:
  assumes "integrity d" and "enrollment_by d h = Some t"
  obtains s where "s \<in> set (stations d)" and "sr_id s = er_station_id t"
    and "enrollment_consume h now d =
      (if enrollment_is_usable (row_enrollment t s) now
       then (Inr (Some (row_enrollment t s)),
             d\<lparr>enrollment_tokens := update_where (\<lambda>t'. er_id t' = er_id t)
                 (\<lambda>t'. t'\<lparr>er_used_at := Some now\<rparr>) (enrollment_tokens d)\<rparr>)
       else (Inr None, d))"
proof -
  obtain s where s: "s \<in> set (stations d)" "sr_id s = er_station_id t"
    "filter (\<lambda>(t, s). er_token_hash t = h) (enrollment_join d) = [(t, s)]"
    using enrollment_lookup [OF assms] by blast
  then show ?thesis using that [of s] by (simp add: enrollment_consume_def Let_def)
qed

lemma enrollment_by_use:
  assumes "enrollment_by d h = Some t"
  shows "enrollment_by (d\<lparr>enrollment_tokens := update_where (\<lambda>t'. er_id t' = er_id u)
      (\<lambda>t'. t'\<lparr>er_used_at := Some now\<rparr>) (enrollment_tokens d)\<rparr>) h =
    Some (if er_id t = er_id u then t\<lparr>er_used_at := Some now\<rparr> else t)"
proof -
  have "find (\<lambda>t. er_token_hash t = h) (update_where (\<lambda>t'. er_id t' = er_id u)
      (\<lambda>t'. t'\<lparr>er_used_at := Some now\<rparr>) (enrollment_tokens d)) =
    map_option (\<lambda>t'. if er_id t' = er_id u then t'\<lparr>er_used_at := Some now\<rparr> else t')
      (enrollment_by d h)"
    unfolding enrollment_by_def by (rule find_update_where) simp
  with assms show ?thesis by (simp add: enrollment_by_def)
qed

lemma tokens_used_integrity:
  "integrity d \<Longrightarrow> integrity (d\<lparr>enrollment_tokens :=
     update_where P (\<lambda>t. t\<lparr>er_used_at := v\<rparr>) (enrollment_tokens d)\<rparr>)"
  "integrity d \<Longrightarrow> integrity (d\<lparr>provisioning_tokens :=
     update_where Q (\<lambda>t. t\<lparr>vr_used_at := v\<rparr>) (provisioning_tokens d)\<rparr>)"
  by (simp_all add: integrity_def constraint_defs map_update_where image_update_where)

section \<open>Both stores keep the contract\<close>

definition enrollment_spent :: "db \<Rightarrow> string \<Rightarrow> bool" where
  "enrollment_spent d h \<longleftrightarrow> (\<exists>t. enrollment_by d h = Some t \<and> er_used_at t \<noteq> None)"

definition provisioning_spent :: "db \<Rightarrow> string \<Rightarrow> bool" where
  "provisioning_spent d h \<longleftrightarrow>
     (\<exists>t. find (\<lambda>t. vr_token_hash t = h) (provisioning_tokens d) = Some t
        \<and> vr_used_at t \<noteq> None)"

text \<open>What a claim of an enrollment token does to the tables.\<close>

lemma enrollment_consume_cases:
  assumes "integrity d"
  shows "enrollment_consume h now d = (Inr None, d) \<or>
    (\<exists>t s. enrollment_by d h = Some t \<and> s \<in> set (stations d) \<and> sr_id s = er_station_id t
       \<and> er_used_at t = None \<and> er_revoked_at t = None \<and> instant now < instant (er_expires_at t)
       \<and> enrollment_consume h now d = (Inr (Some (row_enrollment t s)),
             d\<lparr>enrollment_tokens := update_where (\<lambda>t'. er_id t' = er_id t)
                 (\<lambda>t'. t'\<lparr>er_used_at := Some now\<rparr>) (enrollment_tokens d)\<rparr>))"
proof (cases "enrollment_by d h")
  case None
  then show ?thesis by (simp add: enrollment_consume_None)
next
  case (Some t)
  obtain s where s: "s \<in> set (stations d)" "sr_id s = er_station_id t"
    and c: "enrollment_consume h now d =
      (if enrollment_is_usable (row_enrollment t s) now
       then (Inr (Some (row_enrollment t s)),
             d\<lparr>enrollment_tokens := update_where (\<lambda>t'. er_id t' = er_id t)
                 (\<lambda>t'. t'\<lparr>er_used_at := Some now\<rparr>) (enrollment_tokens d)\<rparr>)
       else (Inr None, d))"
    using enrollment_consume_Some [OF assms Some] by blast
  show ?thesis
  proof (cases "enrollment_is_usable (row_enrollment t s) now")
    case True
    with c Some s show ?thesis unfolding enrollment_usable_row by auto
  next
    case False
    with c show ?thesis by simp
  qed
qed

interpretation enrollment: token_store enrollment_consume integrity enrollment_spent
proof
  fix d h h' now t d'
  assume ok: "integrity d"
  show "integrity (snd (enrollment_consume h now d))"
    using enrollment_consume_cases [OF ok, of h now] ok by (auto simp: tokens_used_integrity)
  show "enrollment_spent d' h" if "enrollment_consume h now d = (Inr (Some t), d')"
    using enrollment_consume_cases [OF ok, of h now] that
    by (auto simp: enrollment_spent_def enrollment_by_use)
  show "enrollment_consume h now d = (Inr None, d)" if "enrollment_spent d h"
    using enrollment_consume_cases [OF ok, of h now] that by (auto simp: enrollment_spent_def)
  show "enrollment_spent (snd (enrollment_consume h' now d)) h" if "enrollment_spent d h"
    using enrollment_consume_cases [OF ok, of h' now] that
    by (auto simp: enrollment_spent_def enrollment_by_use)
qed

lemma provisioning_consume_cases:
  "provisioning_consume h now d = (Inr None, d) \<or>
    (\<exists>t. find (\<lambda>t. vr_token_hash t = h) (provisioning_tokens d) = Some t
       \<and> vr_used_at t = None \<and> vr_revoked_at t = None \<and> instant now < instant (vr_expires_at t)
       \<and> provisioning_consume h now d = (Inr (Some (row_provisioning t)),
             d\<lparr>provisioning_tokens := update_where (\<lambda>t'. vr_id t' = vr_id t)
                 (\<lambda>t'. t'\<lparr>vr_used_at := Some now\<rparr>) (provisioning_tokens d)\<rparr>))"
  by (auto simp: provisioning_consume_def Let_def provisioning_is_usable_def row_provisioning_def
      split: option.split)

lemma provisioning_by_use:
  assumes "find (\<lambda>t. vr_token_hash t = h) ts = Some t"
  shows "find (\<lambda>t. vr_token_hash t = h)
      (update_where (\<lambda>t'. vr_id t' = vr_id u) (\<lambda>t'. t'\<lparr>vr_used_at := Some now\<rparr>) ts) =
    Some (if vr_id t = vr_id u then t\<lparr>vr_used_at := Some now\<rparr> else t)"
proof -
  have "find (\<lambda>t. vr_token_hash t = h)
      (update_where (\<lambda>t'. vr_id t' = vr_id u) (\<lambda>t'. t'\<lparr>vr_used_at := Some now\<rparr>) ts) =
    map_option (\<lambda>t'. if vr_id t' = vr_id u then t'\<lparr>vr_used_at := Some now\<rparr> else t')
      (find (\<lambda>t. vr_token_hash t = h) ts)"
    by (rule find_update_where) simp
  with assms show ?thesis by simp
qed

interpretation provisioning: token_store provisioning_consume integrity provisioning_spent
proof
  fix d h h' now t d'
  assume ok: "integrity d"
  show "integrity (snd (provisioning_consume h now d))"
    using provisioning_consume_cases [of h now d] ok by (auto simp: tokens_used_integrity)
  show "provisioning_spent d' h" if "provisioning_consume h now d = (Inr (Some t), d')"
    using provisioning_consume_cases [of h now d] that
    by (auto simp: provisioning_spent_def provisioning_by_use)
  show "provisioning_consume h now d = (Inr None, d)" if "provisioning_spent d h"
    using provisioning_consume_cases [of h now d] that by (auto simp: provisioning_spent_def)
  show "provisioning_spent (snd (provisioning_consume h' now d)) h" if "provisioning_spent d h"
    using provisioning_consume_cases [of h' now d] that
    by (auto simp: provisioning_spent_def provisioning_by_use)
qed

end
