(* ===== verification/Agent_Repo.thy ===== *)
theory Agent_Repo
  imports Station_Repo
begin

text \<open>
  \<open>repository/agents.py\<close> and \<open>repository/snapshots.py\<close>: agent bindings, heartbeats, and the
  latest snapshot of a station.
\<close>

section \<open>Bindings\<close>

text \<open>\<open>select(AgentRecord, StationRecord).join(...)\<close>\<close>

definition agent_join :: "db \<Rightarrow> (agent_row \<times> station_row) list" where
  "agent_join d =
     concat (map (\<lambda>a. map (Pair a) (filter (\<lambda>s. sr_id s = ar_station_id a) (stations d)))
       (agents d))"

definition binding_of :: "agent_row \<times> station_row \<Rightarrow> agent_binding" where
  "binding_of row =
     (case row of (record, station) \<Rightarrow>
       \<lparr>ab_id = ar_id record, ab_station_id = sr_station_id station,
        ab_agent_uuid = ar_agent_uuid record, ab_agent_version = ar_agent_version record,
        ab_credential_hash = (case ar_credential_hash record of None \<Rightarrow> [] | Some h \<Rightarrow> h),
        ab_credential_created_at = ar_credential_created_at record,
        ab_revoked_at = ar_revoked_at record,
        ab_station_enabled = sr_enabled station, ab_station_deleted_at = sr_deleted_at station,
        ab_last_ip_addresses = ar_last_ip_addresses record,
        ab_last_mac_addresses = ar_last_mac_addresses record\<rparr>)"

definition agents_get_where ::
    "(agent_row \<times> station_row \<Rightarrow> bool) \<Rightarrow> (db, agent_binding option) sx" where
  "agents_get_where P = (\<lambda>d.
     (bindR (one_or_none (filter P (agent_join d))) (\<lambda>v. Inr (map_option binding_of v)), d))"

definition agents_get_by_credential_hash :: "string \<Rightarrow> (db, agent_binding option) sx" where
  "agents_get_by_credential_hash h =
     agents_get_where (\<lambda>(a, s). ar_credential_hash a = Some h)"

definition agents_get_by_agent_uuid :: "uuid \<Rightarrow> (db, agent_binding option) sx" where
  "agents_get_by_agent_uuid u = agents_get_where (\<lambda>(a, s). ar_agent_uuid a = u)"

definition agents_get_by_station_id :: "uuid \<Rightarrow> (db, agent_binding option) sx" where
  "agents_get_by_station_id sid = agents_get_where (\<lambda>(a, s). sr_station_id s = sid)"

definition agent_record :: "agent_binding \<Rightarrow> uuid \<Rightarrow> agent_row" where
  "agent_record a station_pk =
     \<lparr>ar_id = ab_id a, ar_station_id = station_pk, ar_agent_uuid = ab_agent_uuid a,
      ar_agent_version = ab_agent_version a, ar_credential_hash = Some (ab_credential_hash a),
      ar_credential_created_at = ab_credential_created_at a, ar_revoked_at = ab_revoked_at a,
      ar_last_seen_at = None, ar_last_heartbeat_at = None, ar_last_process_snapshot_at = None,
      ar_last_drive_snapshot_at = None, ar_last_ip_addresses = ab_last_ip_addresses a,
      ar_last_mac_addresses = ab_last_mac_addresses a, ar_status = ''enrolled''\<rparr>"

definition agents_add :: "agent_binding \<Rightarrow> (db, unit) sx" where
  "agents_add a = (\<lambda>d.
     case station_by d (ab_station_id a) of
       None \<Rightarrow> (Inl (ValueError ''station not found''), d)
     | Some st \<Rightarrow> (Inr (), d\<lparr>agents := agents d @ [agent_record a (sr_id st)]\<rparr>))"

section \<open>Heartbeats\<close>

definition seen_row ::
    "process_snapshot \<Rightarrow> datetime \<Rightarrow> string list option \<Rightarrow> string list option
     \<Rightarrow> agent_row \<Rightarrow> agent_row" where
  "seen_row snapshot received_at ips macs a =
     a\<lparr>ar_agent_version := ps_agent_version snapshot,
       ar_last_seen_at := Some received_at, ar_last_heartbeat_at := Some received_at,
       ar_last_process_snapshot_at := Some (ps_captured_at snapshot),
       ar_last_drive_snapshot_at := Some (ps_captured_at snapshot),
       ar_last_ip_addresses := (case ips of None \<Rightarrow> ar_last_ip_addresses a | Some v \<Rightarrow> v),
       ar_last_mac_addresses := (case macs of None \<Rightarrow> ar_last_mac_addresses a | Some v \<Rightarrow> v),
       ar_status := ''online''\<rparr>"

definition online_row :: "string option \<Rightarrow> station_row \<Rightarrow> station_row" where
  "online_row hostname s =
     s\<lparr>sr_hostname := (case hostname of None \<Rightarrow> sr_hostname s | Some h \<Rightarrow> h),
       sr_state := (if sr_enabled s \<and> sr_deleted_at s = None then ONLINE else sr_state s)\<rparr>"

definition snapshot_record :: "process_snapshot \<Rightarrow> uuid \<Rightarrow> datetime \<Rightarrow> snapshot_row" where
  "snapshot_record snapshot station_pk received_at =
     \<lparr>nr_station_id = station_pk, nr_captured_at = ps_captured_at snapshot,
      nr_received_at = received_at, nr_processes = ps_processes snapshot,
      nr_drives = ps_drives snapshot, nr_agent_version = ps_agent_version snapshot,
      nr_freshness_status = ''fresh''\<rparr>"

definition agents_record_heartbeat ::
    "uuid \<Rightarrow> process_snapshot \<Rightarrow> datetime \<Rightarrow> string option \<Rightarrow> string list option
     \<Rightarrow> string list option \<Rightarrow> (db, unit) sx" where
  "agents_record_heartbeat agent_id snapshot received_at hostname ips macs = (\<lambda>d.
     case one_or_none (filter (\<lambda>(a, s). ar_id a = agent_id
                         \<and> sr_station_id s = ps_station_id snapshot) (agent_join d)) of
       Inl e \<Rightarrow> (Inl e, d)
     | Inr None \<Rightarrow> (Inl (ValueError ''agent/station binding not found''), d)
     | Inr (Some (agent, st)) \<Rightarrow>
         (let d1 = d\<lparr>agents := update_where (\<lambda>a. ar_id a = ar_id agent)
                                (seen_row snapshot received_at ips macs) (agents d)\<rparr>;
              d2 = set_station (sr_id st) (online_row hostname) d1
          in (Inr (), d2\<lparr>process_snapshots :=
                           process_snapshots d2 @ [snapshot_record snapshot (sr_id st) received_at]\<rparr>)))"

section \<open>The latest snapshot\<close>

definition snapshot_join :: "db \<Rightarrow> (snapshot_row \<times> station_row) list" where
  "snapshot_join d =
     concat (map (\<lambda>n. map (Pair n) (filter (\<lambda>s. sr_id s = nr_station_id n) (stations d)))
       (process_snapshots d))"

definition row_snapshot :: "snapshot_row \<times> station_row \<Rightarrow> process_snapshot" where
  "row_snapshot row =
     (case row of (record, station) \<Rightarrow>
       \<lparr>ps_station_id = sr_station_id station, ps_captured_at = nr_captured_at record,
        ps_agent_version = nr_agent_version record, ps_processes = nr_processes record,
        ps_drives = nr_drives record, ps_received_at = Some (nr_received_at record)\<rparr>)"

definition snapshot_order :: "snapshot_row \<times> station_row \<Rightarrow> int \<times> int" where
  "snapshot_order row =
     (- instant (nr_received_at (fst row)), - instant (nr_captured_at (fst row)))"

definition snapshots_latest :: "uuid \<Rightarrow> (db, process_snapshot option) sx" where
  "snapshots_latest sid = (\<lambda>d.
     (bindR (one_or_none (take 1 (order_by snapshot_order
         (filter (\<lambda>(n, s). sr_station_id s = sid) (snapshot_join d)))))
        (\<lambda>v. Inr (map_option row_snapshot v)), d))"

section \<open>Lemmas\<close>

lemma set_agent_join:
  "(a, s) \<in> set (agent_join d) \<longleftrightarrow>
     a \<in> set (agents d) \<and> s \<in> set (stations d) \<and> sr_id s = ar_station_id a"
  by (auto simp: agent_join_def)

lemma set_snapshot_join:
  "(n, s) \<in> set (snapshot_join d) \<longleftrightarrow>
     n \<in> set (process_snapshots d) \<and> s \<in> set (stations d) \<and> sr_id s = nr_station_id n"
  by (auto simp: snapshot_join_def)

lemma binding_sels [simp]:
  "ab_id (binding_of (a, s)) = ar_id a" "ab_station_id (binding_of (a, s)) = sr_station_id s"
  "ab_agent_uuid (binding_of (a, s)) = ar_agent_uuid a"
  by (simp_all add: binding_of_def)

lemma can_accept_binding:
  "can_accept_heartbeat (binding_of (a, s)) \<longleftrightarrow>
     ar_revoked_at a = None \<and> sr_enabled s \<and> sr_deleted_at s = None"
  by (simp add: can_accept_heartbeat_def binding_of_def)

lemma agents_get_where_state [simp]: "snd (agents_get_where P d) = d"
  by (simp add: agents_get_where_def)

lemma agents_get_state [simp]:
  "snd (agents_get_by_credential_hash h d) = d" "snd (agents_get_by_agent_uuid u d) = d"
  "snd (agents_get_by_station_id sid d) = d"
  by (simp_all add: agents_get_by_credential_hash_def agents_get_by_agent_uuid_def
      agents_get_by_station_id_def)

lemma snapshots_latest_state [simp]: "snd (snapshots_latest sid d) = d"
  by (simp add: snapshots_latest_def)

lemma agents_get_where_Some:
  assumes "agents_get_where P d = (Inr (Some b), d')"
  obtains a s where "d' = d" and "b = binding_of (a, s)" and "P (a, s)"
    and "a \<in> set (agents d)" and "s \<in> set (stations d)" and "sr_id s = ar_station_id a"
    and "filter P (agent_join d) = [(a, s)]"
proof -
  from assms have d': "d' = d"
    and r: "bindR (one_or_none (filter P (agent_join d))) (\<lambda>v. Inr (map_option binding_of v))
      = Inr (Some b)"
    by (auto simp: agents_get_where_def)
  from r obtain v where v: "one_or_none (filter P (agent_join d)) = Inr v"
    and b: "map_option binding_of v = Some b"
    unfolding bindR_Inr_iff by blast
  from b obtain row where row: "v = Some row" "b = binding_of row" by auto
  obtain a s where as: "row = (a, s)" by fastforce
  with v row have f: "filter P (agent_join d) = [(a, s)]" by (simp add: one_or_none_Some)
  then have "(a, s) \<in> set (filter P (agent_join d))" by simp
  then have "P (a, s)" "(a, s) \<in> set (agent_join d)" by auto
  then show ?thesis using that d' row as f unfolding set_agent_join by blast
qed

text \<open>The foreign key gives each agent its one station.\<close>

lemma agent_station_filter:
  assumes "integrity d" and "a \<in> set (agents d)"
  obtains s where "s \<in> set (stations d)" and "sr_id s = ar_station_id a"
    and "filter (\<lambda>s. sr_id s = ar_station_id a) (stations d) = [s]"
proof -
  from assms have "ar_station_id a \<in> sr_id ` set (stations d)"
    by (auto simp: integrity_def agents_ok_def)
  then obtain s where s: "s \<in> set (stations d)" "sr_id s = ar_station_id a" by auto
  with filter_unique [OF integrityD(1) [OF assms(1)] s(1)] that show ?thesis by simp
qed

lemma agent_join_eq:
  assumes "integrity d"
  shows "map fst (agent_join d) = agents d"
proof -
  have "map fst (map (Pair a) (filter (\<lambda>s. sr_id s = ar_station_id a) (stations d))) = [a]"
    if "a \<in> set (agents d)" for a
    using agent_station_filter [OF assms that] by (metis list.map(1,2) fst_conv)
  then show ?thesis
    unfolding agent_join_def by (simp only: map_concat map_map comp_def concat_map_single)
qed

lemma distinct_agent_join: "integrity d \<Longrightarrow> distinct (map (ar_id \<circ> fst) (agent_join d))"
  by (simp add: agent_join_eq integrityD flip: map_map)

text \<open>At most one binding has a given agent UUID; a credential hash held by one agent finds it.\<close>

lemma filter_at_most_one:
  "distinct (map key xs) \<Longrightarrow> (\<And>x. P x \<Longrightarrow> key x = k) \<Longrightarrow> length (filter P xs) \<le> 1"
proof (induction xs)
  case (Cons x xs)
  show ?case
  proof (cases "P x")
    case True
    with Cons.prems have "filter P xs = []" by (force simp: filter_empty_conv)
    then show ?thesis by simp
  next
    case False
    with Cons show ?thesis by simp
  qed
qed simp

lemma one_or_none_at_most_one:
  "length xs \<le> 1 \<Longrightarrow> one_or_none xs = Inr (case xs of [] \<Rightarrow> None | x # _ \<Rightarrow> Some x)"
  by (cases xs; cases "tl xs") auto


lemma agent_join_single:
  assumes "integrity d" and "a \<in> set (agents d)" and "s \<in> set (stations d)"
    and "sr_id s = ar_station_id a" and "P (a, s)"
    and "\<And>b t. b \<in> set (agents d) \<Longrightarrow> P (b, t) \<Longrightarrow> b = a"
  shows "filter P (agent_join d) = [(a, s)]"
  unfolding agent_join_def
proof (rule concat_map_single_key [where key = ar_id and x = a])
  show "distinct (map ar_id (agents d))" by (rule integrityD [OF assms(1)])
  show "map (Pair a) (filter (\<lambda>s. sr_id s = ar_station_id a) (stations d)) = [(a, s)]"
    using filter_unique [OF integrityD(1) [OF assms(1)] assms(3)] assms(4) by simp
  show "ar_id z = ar_id a"
    if "z \<in> set (agents d)" "w \<in> set (map (Pair z) (filter (\<lambda>s. sr_id s = ar_station_id z)
      (stations d)))" "P w" for z w
    using that assms(6) by (metis (no_types, lifting) imageE list.set_map)
qed (use assms(2,5) in simp_all)

section \<open>Constraints\<close>

lemma integrity_update_agents:
  assumes "integrity d"
    and "\<And>a. ar_id (f a) = ar_id a \<and> ar_station_id (f a) = ar_station_id a
           \<and> ar_agent_uuid (f a) = ar_agent_uuid a"
  shows "integrity (d\<lparr>agents := update_where P f (agents d)\<rparr>)"
  using assms
  by (simp add: integrity_def constraint_defs map_update_where image_update_where)

lemma integrity_add_snapshot:
  "integrity d \<Longrightarrow> nr_station_id n \<in> sr_id ` set (stations d) \<Longrightarrow>
     integrity (d\<lparr>process_snapshots := process_snapshots d @ [n]\<rparr>)"
  by (simp add: integrity_def constraint_defs)

text \<open>What a recorded heartbeat does.\<close>

definition heartbeat_db ::
    "agent_row \<Rightarrow> station_row \<Rightarrow> process_snapshot \<Rightarrow> datetime \<Rightarrow> string option \<Rightarrow> string list option
     \<Rightarrow> string list option \<Rightarrow> db \<Rightarrow> db" where
  "heartbeat_db a s snapshot received_at hostname ips macs d =
     (let d1 = d\<lparr>agents := update_where (\<lambda>x. ar_id x = ar_id a)
                            (seen_row snapshot received_at ips macs) (agents d)\<rparr>;
          d2 = set_station (sr_id s) (online_row hostname) d1
      in d2\<lparr>process_snapshots :=
              process_snapshots d2 @ [snapshot_record snapshot (sr_id s) received_at]\<rparr>)"

lemma record_heartbeat_ok:
  assumes "integrity d" and "a \<in> set (agents d)" and "s \<in> set (stations d)"
    and "sr_id s = ar_station_id a" and "sr_station_id s = ps_station_id snapshot"
  shows "agents_record_heartbeat (ar_id a) snapshot received_at hostname ips macs d =
    (Inr (), heartbeat_db a s snapshot received_at hostname ips macs d)"
proof -
  have "filter (\<lambda>(x, t). ar_id x = ar_id a \<and> sr_station_id t = ps_station_id snapshot)
      (agent_join d) = [(a, s)]"
    using assms distinct_map_eq_iff [OF integrityD(3) [OF assms(1)]]
    by (intro agent_join_single) auto
  then show ?thesis by (simp add: agents_record_heartbeat_def heartbeat_db_def Let_def)
qed

lemma heartbeat_db_sels [simp]:
  "stations (heartbeat_db a s n t h i m d) =
     update_where (\<lambda>r. sr_id r = sr_id s) (online_row h) (stations d)"
  "agents (heartbeat_db a s n t h i m d) =
     update_where (\<lambda>x. ar_id x = ar_id a) (seen_row n t i m) (agents d)"
  "process_snapshots (heartbeat_db a s n t h i m d) =
     process_snapshots d @ [snapshot_record n (sr_id s) t]"
  "agent_commands (heartbeat_db a s n t h i m d) = agent_commands d"
  "enrollment_tokens (heartbeat_db a s n t h i m d) = enrollment_tokens d"
  "provisioning_tokens (heartbeat_db a s n t h i m d) = provisioning_tokens d"
  "process_rules (heartbeat_db a s n t h i m d) = process_rules d"
  "publish_jobs (heartbeat_db a s n t h i m d) = publish_jobs d"
  "publish_targets (heartbeat_db a s n t h i m d) = publish_targets d"
  "publish_artifacts (heartbeat_db a s n t h i m d) = publish_artifacts d"
  "outbox_events (heartbeat_db a s n t h i m d) = outbox_events d"
  by (simp_all add: heartbeat_db_def Let_def)

lemma integrity_heartbeat_db:
  assumes "integrity d" and "s \<in> set (stations d)"
  shows "integrity (heartbeat_db a s n t h i m d)"
proof -
  let ?d1 = "d\<lparr>agents := update_where (\<lambda>x. ar_id x = ar_id a) (seen_row n t i m) (agents d)\<rparr>"
  let ?d2 = "set_station (sr_id s) (online_row h) ?d1"
  have "integrity ?d1" using assms(1) by (rule integrity_update_agents) (simp add: seen_row_def)
  then have "integrity ?d2" by (rule integrity_set_station) (simp add: online_row_def)
  then show ?thesis
    unfolding heartbeat_db_def Let_def using assms(2)
    by (intro integrity_add_snapshot) (simp_all add: snapshot_record_def image_update_where online_row_def)
qed

end
