(* ===== verification/Lease_Repo.thy ===== *)
theory Lease_Repo
  imports Tables
begin

text \<open>
  \<open>repository/agent_commands.py\<close> and \<open>repository/outbox.py\<close>: both hand out rows under a lease.
  The contract of leasing is a locale; both repositories keep it.
\<close>

section \<open>The contract of a leased queue\<close>

text \<open>\<open>claim who now\<close> hands out the items \<open>ident\<close> names; \<open>due s t i\<close> says that item \<open>i\<close> could be
  handed out at instant \<open>t\<close>; a lease lasts \<open>lease\<close>.\<close>

locale lease_queue =
  fixes claim :: "'w \<Rightarrow> int \<Rightarrow> ('s, 'item list) sx"
    and ident :: "'item \<Rightarrow> 'id"
    and due :: "'s \<Rightarrow> int \<Rightarrow> 'id \<Rightarrow> bool"
    and ok :: "'s \<Rightarrow> bool"
    and lease :: int
  assumes claim_keeps_ok: "ok s \<Longrightarrow> claim w now s = (Inr xs, s') \<Longrightarrow> ok s'"
    and claim_distinct: "ok s \<Longrightarrow> claim w now s = (Inr xs, s') \<Longrightarrow> distinct (map ident xs)"
    and claim_due: "ok s \<Longrightarrow> claim w now s = (Inr xs, s') \<Longrightarrow> x \<in> set xs \<Longrightarrow> due s now (ident x)"
    and claim_leases: "ok s \<Longrightarrow> claim w now s = (Inr xs, s') \<Longrightarrow> x \<in> set xs \<Longrightarrow>
      t < now + lease \<Longrightarrow> \<not> due s' t (ident x)"
    and claim_frame: "ok s \<Longrightarrow> claim w now s = (Inr xs, s') \<Longrightarrow> due s' t i \<Longrightarrow> due s t i"
begin

text \<open>What a sequence of successful claims hands out.\<close>

fun handed :: "('w \<times> int) list \<Rightarrow> 's \<Rightarrow> 'id list" where
  "handed [] s = []"
| "handed ((w, now) # rest) s =
     (case claim w now s of
        (Inr xs, s') \<Rightarrow> map ident xs @ handed rest s'
      | (Inl e, s') \<Rightarrow> [])"

lemma handed_due:
  "ok s \<Longrightarrow> i \<in> set (handed cs s) \<Longrightarrow> \<exists>(w, now) \<in> set cs. due s now i"
proof (induction cs s rule: handed.induct)
  case (2 w now rest s)
  obtain xs s' where c: "claim w now s = (Inr xs, s')"
    using 2(3) by (cases "claim w now s"; cases "fst (claim w now s)") auto
  with 2(3) consider "i \<in> ident ` set xs" | "i \<in> set (handed rest s')" by auto
  then show ?case
  proof cases
    case 1
    then show ?thesis using claim_due [OF 2(2) c] by auto
  next
    case 2
    from "2.IH" [OF c [symmetric] refl claim_keeps_ok [OF \<open>ok s\<close> c] 2]
    show ?thesis using claim_frame [OF \<open>ok s\<close> c] by fastforce
  qed
qed simp

text \<open>While the leases last, no item is handed out twice, whoever asks.\<close>

lemma handed_once:
  assumes "ok s" and "\<And>w t. (w, t) \<in> set cs \<Longrightarrow> t0 \<le> t \<and> t < t0 + lease"
  shows "distinct (handed cs s)"
  using assms
proof (induction cs s rule: handed.induct)
  case (2 w now rest s)
  show ?case
  proof (cases "\<exists>xs s'. claim w now s = (Inr xs, s')")
    case True
    then obtain xs s' where c: "claim w now s = (Inr xs, s')" by blast
    have ok': "ok s'" using claim_keeps_ok [OF 2(2) c] .
    have "distinct (handed rest s')"
      by (rule "2.IH" [OF c [symmetric] refl ok']) (use 2(3) in auto)
    moreover have "\<not> due s' t (ident x)" if "x \<in> set xs" "(v, t) \<in> set rest" for x v t
      using claim_leases [OF 2(2) c that(1), of t] 2(3) [of w now] 2(3) [of v t] that(2) by simp
    then have "set (map ident xs) \<inter> set (handed rest s') = {}"
      using handed_due [OF ok'] by fastforce
    moreover have "distinct (map ident xs)" using claim_distinct [OF 2(2) c] .
    ultimately show ?thesis using c by simp
  next
    case False
    then show ?thesis by (auto split: sum.splits prod.splits)
  qed
qed simp

end

section \<open>Agent commands\<close>

definition command_status_value :: "agent_command_status \<Rightarrow> string" where
  "command_status_value s =
     (case s of CMD_PENDING \<Rightarrow> ''pending'' | CMD_LEASED \<Rightarrow> ''leased''
      | CMD_ACKNOWLEDGED \<Rightarrow> ''acknowledged'' | CMD_EXPIRED \<Rightarrow> ''expired'')"

definition command_status_of :: "string \<Rightarrow> agent_command_status result" where
  "command_status_of s =
     (if s = ''pending'' then Inr CMD_PENDING
      else if s = ''leased'' then Inr CMD_LEASED
      else if s = ''acknowledged'' then Inr CMD_ACKNOWLEDGED
      else if s = ''expired'' then Inr CMD_EXPIRED
      else Inl (ValueError (py_repr s @ '' is not a valid AgentCommandStatus'')))"

definition command_to_domain :: "command_row \<Rightarrow> agent_command result" where
  "command_to_domain r =
     (case (command_name_of (cm_name r), command_status_of (cm_status r)) of
        (Inr name, Inr status) \<Rightarrow>
          Inr \<lparr>ac_id = cm_id r, ac_agent_id = cm_agent_id r, ac_name = name,
               ac_expires_at = ensure_utc (cm_expires_at r), ac_signature = cm_signature r,
               ac_status = status, ac_lease_until = map_option ensure_utc (cm_lease_until r),
               ac_attempts = cm_attempts r\<rparr>
      | _ \<Rightarrow> Inl (ValueError ''stored agent command is invalid''))"

text \<open>\<open>created_at\<close> is the default of the column, the clock at insertion.\<close>

definition commands_add :: "datetime \<Rightarrow> agent_command \<Rightarrow> (db, unit) sx" where
  "commands_add clock c = (\<lambda>d.
     (Inr (), d\<lparr>agent_commands := agent_commands d @
        [\<lparr>cm_id = ac_id c, cm_agent_id = ac_agent_id c, cm_name = command_name_value (ac_name c),
          cm_expires_at = ac_expires_at c, cm_signature = ac_signature c,
          cm_status = command_status_value (ac_status c), cm_lease_until = ac_lease_until c,
          cm_attempts = ac_attempts c, cm_acknowledged_at = None, cm_created_at = clock\<rparr>]\<rparr>))"

definition command_due :: "int \<Rightarrow> command_row \<Rightarrow> bool" where
  "command_due now r =
     (now < instant (cm_expires_at r)
      \<and> (cm_status r = ''pending''
         \<or> (cm_status r = ''leased''
            \<and> (case cm_lease_until r of None \<Rightarrow> False | Some t \<Rightarrow> instant t \<le> now))))"

definition leased_command :: "datetime \<Rightarrow> command_row \<Rightarrow> command_row" where
  "leased_command lease_until r =
     r\<lparr>cm_status := ''leased'', cm_lease_until := Some lease_until,
       cm_attempts := cm_attempts r + 1\<rparr>"

definition claimable_commands :: "uuid \<Rightarrow> int \<Rightarrow> int \<Rightarrow> db \<Rightarrow> command_row list" where
  "claimable_commands agent_id now limit d =
     take (nat limit) (order_by (\<lambda>r. instant (cm_created_at r))
       (filter (\<lambda>r. cm_agent_id r = agent_id \<and> command_due now r) (agent_commands d)))"

definition commands_claim_for_agent ::
    "uuid \<Rightarrow> datetime \<Rightarrow> int \<Rightarrow> int \<Rightarrow> (db, agent_command list) sx" where
  "commands_claim_for_agent agent_id now lease_for limit = (\<lambda>d.
     if limit \<le> 0 then (Inl (ValueError ''command claim limit must be positive''), d)
     else if lease_for \<le> 0 then (Inl (ValueError ''command lease must be positive''), d)
     else (let records = claimable_commands agent_id (instant now) limit d;
               lease_until = dt_plus now lease_for
           in (mapR command_to_domain (map (leased_command lease_until) records),
               d\<lparr>agent_commands := update_where (\<lambda>r. cm_id r \<in> set (map cm_id records))
                  (leased_command lease_until) (agent_commands d)\<rparr>)))"

definition set_command :: "uuid \<Rightarrow> (command_row \<Rightarrow> command_row) \<Rightarrow> db \<Rightarrow> db" where
  "set_command cid f d =
     d\<lparr>agent_commands := update_where (\<lambda>r. cm_id r = cid) f (agent_commands d)\<rparr>"

definition commands_acknowledge :: "uuid \<Rightarrow> uuid \<Rightarrow> datetime \<Rightarrow> (db, bool) sx" where
  "commands_acknowledge agent_id command_id now = (\<lambda>d.
     case find (\<lambda>r. cm_id r = command_id \<and> cm_agent_id r = agent_id) (agent_commands d) of
       None \<Rightarrow> (Inr False, d)
     | Some record \<Rightarrow>
         if cm_status record = ''acknowledged'' then (Inr True, d)
         else if instant (cm_expires_at record) \<le> instant now
           then (Inr False, set_command (cm_id record)
                   (\<lambda>r. r\<lparr>cm_status := ''expired'', cm_lease_until := None\<rparr>) d)
         else if cm_status record \<noteq> ''leased'' then (Inr False, d)
         else if (case cm_lease_until record of None \<Rightarrow> False | Some t \<Rightarrow> instant t < instant now)
           then (Inr False, d)
         else (Inr True, set_command (cm_id record)
                 (\<lambda>r. r\<lparr>cm_status := ''acknowledged'', cm_acknowledged_at := Some now,
                       cm_lease_until := None\<rparr>) d))"

section \<open>Outbox events\<close>

definition row_event :: "outbox_row \<Rightarrow> outbox_event" where
  "row_event r =
     \<lparr>oe_id = xr_id r, oe_aggregate_id = xr_aggregate_id r, oe_event_type = xr_event_type r,
      oe_payload = xr_payload r, oe_correlation_id = xr_correlation_id r,
      oe_status = xr_status r, oe_attempts = xr_attempts r,
      oe_available_at = Some (ensure_utc (xr_available_at r)),
      oe_created_at = Some (ensure_utc (xr_created_at r))\<rparr>"

definition outbox_add :: "datetime \<Rightarrow> outbox_event \<Rightarrow> (db, unit) sx" where
  "outbox_add clock e = (\<lambda>d.
     (Inr (), d\<lparr>outbox_events := outbox_events d @
        [\<lparr>xr_id = oe_id e, xr_aggregate_id = oe_aggregate_id e, xr_event_type = oe_event_type e,
          xr_payload = oe_payload e, xr_correlation_id = oe_correlation_id e,
          xr_status = oe_status e, xr_attempts = oe_attempts e,
          xr_available_at = (case oe_available_at e of None \<Rightarrow> clock | Some t \<Rightarrow> t),
          xr_locked_at = None, xr_locked_by = None, xr_lease_expires_at = None,
          xr_dispatched_at = None, xr_last_error = None,
          xr_created_at = (case oe_created_at e of None \<Rightarrow> clock | Some t \<Rightarrow> t)\<rparr>]\<rparr>))"

definition event_due :: "int \<Rightarrow> outbox_row \<Rightarrow> bool" where
  "event_due now r =
     (xr_status r = OB_PENDING \<and> instant (xr_available_at r) \<le> now
      \<and> (xr_locked_at r = None
         \<or> (case xr_lease_expires_at r of None \<Rightarrow> False | Some t \<Rightarrow> instant t \<le> now)))"

definition locked_event :: "datetime \<Rightarrow> string \<Rightarrow> int \<Rightarrow> outbox_row \<Rightarrow> outbox_row" where
  "locked_event now worker_id lease_for r =
     r\<lparr>xr_locked_at := Some now, xr_locked_by := Some worker_id,
       xr_lease_expires_at := Some (dt_plus now lease_for)\<rparr>"

definition claimable_events :: "int \<Rightarrow> int \<Rightarrow> db \<Rightarrow> outbox_row list" where
  "claimable_events now limit d =
     take (nat limit) (order_by (\<lambda>r. (instant (xr_created_at r), xr_id r))
       (filter (event_due now) (outbox_events d)))"

definition outbox_claim_pending ::
    "int \<Rightarrow> string \<Rightarrow> datetime \<Rightarrow> int \<Rightarrow> (db, outbox_event list) sx" where
  "outbox_claim_pending limit worker_id now lease_for = (\<lambda>d.
     if limit < 1 then (Inr [], d)
     else (let records = claimable_events (instant now) limit d
           in (Inr (map (row_event \<circ> locked_event now worker_id lease_for) records),
               d\<lparr>outbox_events := update_where (\<lambda>r. xr_id r \<in> set (map xr_id records))
                  (locked_event now worker_id lease_for) (outbox_events d)\<rparr>)))"

definition set_event :: "uuid \<Rightarrow> (outbox_row \<Rightarrow> outbox_row) \<Rightarrow> db \<Rightarrow> db" where
  "set_event eid f d = d\<lparr>outbox_events := update_where (\<lambda>r. xr_id r = eid) f (outbox_events d)\<rparr>"

definition outbox_mark_dispatched :: "uuid \<Rightarrow> datetime \<Rightarrow> (db, unit) sx" where
  "outbox_mark_dispatched event_id dispatched_at = (\<lambda>d.
     case find (\<lambda>r. xr_id r = event_id) (outbox_events d) of
       None \<Rightarrow> (Inl (ValueError ''outbox event not found''), d)
     | Some record \<Rightarrow>
         (Inr (), set_event event_id
            (\<lambda>r. r\<lparr>xr_status := OB_DISPATCHED, xr_dispatched_at := Some dispatched_at,
                  xr_locked_at := None, xr_locked_by := None, xr_lease_expires_at := None\<rparr>) d))"

definition failed_event :: "string \<Rightarrow> datetime \<Rightarrow> int \<Rightarrow> outbox_row \<Rightarrow> outbox_row" where
  "failed_event error retry_at max_attempts r =
     r\<lparr>xr_attempts := xr_attempts r + 1,
       xr_status := (if xr_attempts r + 1 \<ge> max_attempts then OB_FAILED else OB_PENDING),
       xr_available_at := retry_at, xr_last_error := Some (take 1000 error),
       xr_locked_at := None, xr_locked_by := None, xr_lease_expires_at := None\<rparr>"

definition outbox_mark_failed :: "uuid \<Rightarrow> string \<Rightarrow> datetime \<Rightarrow> int \<Rightarrow> (db, unit) sx" where
  "outbox_mark_failed event_id error retry_at max_attempts = (\<lambda>d.
     case find (\<lambda>r. xr_id r = event_id) (outbox_events d) of
       None \<Rightarrow> (Inl (ValueError ''outbox event not found''), d)
     | Some record \<Rightarrow> (Inr (), set_event event_id (failed_event error retry_at max_attempts) d))"

section \<open>Both repositories keep the contract\<close>

definition command_due_in :: "db \<Rightarrow> int \<Rightarrow> uuid \<Rightarrow> bool" where
  "command_due_in d t cid \<longleftrightarrow> (\<exists>r \<in> set (agent_commands d). cm_id r = cid \<and> command_due t r)"

definition event_due_in :: "db \<Rightarrow> int \<Rightarrow> uuid \<Rightarrow> bool" where
  "event_due_in d t eid \<longleftrightarrow> (\<exists>r \<in> set (outbox_events d). xr_id r = eid \<and> event_due t r)"

lemma claimable_commands_set:
  "r \<in> set (claimable_commands agent_id now limit d) \<Longrightarrow>
     r \<in> set (agent_commands d) \<and> cm_agent_id r = agent_id \<and> command_due now r"
  by (auto simp: claimable_commands_def dest!: in_set_takeD)

lemma distinct_claimable_commands:
  "integrity d \<Longrightarrow> distinct (map cm_id (claimable_commands agent_id now limit d))"
  unfolding claimable_commands_def take_map [symmetric]
  by (intro distinct_take) (simp add: distinct_map_filter integrityD)

lemma claimable_events_set:
  "r \<in> set (claimable_events now limit d) \<Longrightarrow> r \<in> set (outbox_events d) \<and> event_due now r"
  by (auto simp: claimable_events_def dest!: in_set_takeD)

lemma distinct_claimable_events:
  "integrity d \<Longrightarrow> distinct (map xr_id (claimable_events now limit d))"
  unfolding claimable_events_def take_map [symmetric]
  by (intro distinct_take) (simp add: distinct_map_filter integrityD)

lemma leased_command_sels [simp]:
  "cm_id (leased_command t r) = cm_id r" "cm_agent_id (leased_command t r) = cm_agent_id r"
  "cm_status (leased_command t r) = ''leased''" "cm_lease_until (leased_command t r) = Some t"
  "cm_expires_at (leased_command t r) = cm_expires_at r" "cm_name (leased_command t r) = cm_name r"
  "cm_attempts (leased_command t r) = cm_attempts r + 1"
  by (simp_all add: leased_command_def)

lemma locked_event_sels [simp]:
  "xr_id (locked_event now w l r) = xr_id r" "xr_status (locked_event now w l r) = xr_status r"
  "xr_aggregate_id (locked_event now w l r) = xr_aggregate_id r"
  "xr_available_at (locked_event now w l r) = xr_available_at r"
  "xr_locked_at (locked_event now w l r) = Some now"
  "xr_lease_expires_at (locked_event now w l r) = Some (dt_plus now l)"
  "xr_attempts (locked_event now w l r) = xr_attempts r"
  by (simp_all add: locked_event_def)

lemma row_event_sels [simp]:
  "oe_id (row_event r) = xr_id r" "oe_aggregate_id (row_event r) = xr_aggregate_id r"
  "oe_event_type (row_event r) = xr_event_type r" "oe_payload (row_event r) = xr_payload r"
  "oe_correlation_id (row_event r) = xr_correlation_id r" "oe_attempts (row_event r) = xr_attempts r"
  by (simp_all add: row_event_def)

lemma command_to_domain_id: "command_to_domain r = Inr c \<Longrightarrow> ac_id c = cm_id r"
  by (auto simp: command_to_domain_def split: sum.splits)

lemma mapR_command_ids: "mapR command_to_domain rs = Inr cs \<Longrightarrow> map ac_id cs = map cm_id rs"
  by (auto simp: mapR_Inr_iff list_all2_conv_all_nth command_to_domain_id intro: nth_equalityI)

lemma update_commands_integrity:
  assumes "integrity d" and "\<And>r. cm_id (f r) = cm_id r \<and> cm_agent_id (f r) = cm_agent_id r"
  shows "integrity (d\<lparr>agent_commands := update_where P f (agent_commands d)\<rparr>)"
  using assms
  by (simp_all add: integrity_def constraint_defs map_update_where image_update_where)

lemma update_events_integrity:
  assumes "integrity d"
    and "\<And>r. xr_id (f r) = xr_id r \<and> xr_aggregate_id (f r) = xr_aggregate_id r"
  shows "integrity (d\<lparr>outbox_events := update_where P f (outbox_events d)\<rparr>)"
  using assms
  by (simp_all add: integrity_def constraint_defs map_update_where image_update_where)

lemma claim_command_Inr:
  assumes "commands_claim_for_agent agent_id now lease_for limit d = (Inr cs, d')"
  shows "0 < limit" and "0 < lease_for"
    and "map ac_id cs = map cm_id (claimable_commands agent_id (instant now) limit d)"
    and "d' = d\<lparr>agent_commands :=
      update_where (\<lambda>r. cm_id r \<in> cm_id ` set (claimable_commands agent_id (instant now) limit d))
        (leased_command (dt_plus now lease_for)) (agent_commands d)\<rparr>"
  using assms
  by (auto simp: commands_claim_for_agent_def Let_def comp_def dest!: mapR_command_ids
      split: if_splits)

lemma command_due_leased: "command_due t (leased_command l r) \<Longrightarrow> instant l \<le> t"
  by (simp add: command_due_def)

lemma command_due_leased_mono:
  "command_due now r \<Longrightarrow> command_due t (leased_command l r) \<Longrightarrow> now \<le> instant l \<Longrightarrow> command_due t r"
  by (auto simp: command_due_def split: option.splits)

text \<open>The agent is part of who asks; the clock is the UTC instant.\<close>

abbreviation claim_commands :: "int \<Rightarrow> int \<Rightarrow> uuid \<Rightarrow> int \<Rightarrow> (db, agent_command list) sx" where
  "claim_commands lease_for limit \<equiv>
     (\<lambda>agent_id now. commands_claim_for_agent agent_id (Aware now 0) lease_for limit)"

lemma commands_lease:
  "lease_queue (claim_commands lease_for limit) ac_id command_due_in integrity lease_for"
proof
  fix d w now cs d'
  assume ok: "integrity d" and c: "claim_commands lease_for limit w now d = (Inr cs, d')"
  let ?rs = "claimable_commands w now limit d"
  let ?l = "dt_plus (Aware now 0) lease_for"
  have ids: "map ac_id cs = map cm_id ?rs" and pos: "0 < lease_for"
    and d': "d' = d\<lparr>agent_commands := update_where (\<lambda>r. cm_id r \<in> cm_id ` set ?rs)
      (leased_command ?l) (agent_commands d)\<rparr>"
    using claim_command_Inr [OF c] by simp_all
  have after: "agent_commands d' = update_where (\<lambda>r. cm_id r \<in> cm_id ` set ?rs)
      (leased_command ?l) (agent_commands d)"
    unfolding d' by simp
  have leased: "command_due_in d' t i \<longleftrightarrow>
      (\<exists>r \<in> set (agent_commands d). cm_id r = i
        \<and> command_due t (if cm_id r \<in> cm_id ` set ?rs then leased_command ?l r else r))" for t i
    unfolding command_due_in_def after bex_update_where by (rule bex_cong [OF refl]) simp
  show "integrity d'" unfolding d' by (rule update_commands_integrity [OF ok]) simp
  show "distinct (map ac_id cs)" unfolding ids by (rule distinct_claimable_commands [OF ok])
  have id_in: "ac_id c \<in> cm_id ` set ?rs" if "c \<in> set cs" for c
    using that ids by (metis image_eqI list.set_map)
  show "command_due_in d now (ac_id c)" if "c \<in> set cs" for c
    using id_in [OF that] by (auto simp: command_due_in_def dest: claimable_commands_set)
  show "\<not> command_due_in d' t (ac_id c)" if "c \<in> set cs" "t < now + lease_for" for c t
    using id_in [OF that(1)] that(2) by (auto simp: leased dest!: command_due_leased)
  show "command_due_in d t i" if due: "command_due_in d' t i" for t i
  proof -
    from due leased obtain r where r: "r \<in> set (agent_commands d)" "cm_id r = i"
      "command_due t (if cm_id r \<in> cm_id ` set ?rs then leased_command ?l r else r)" by blast
    have "command_due t r"
    proof (cases "cm_id r \<in> cm_id ` set ?rs")
      case True
      then obtain q where q: "q \<in> set ?rs" "cm_id q = cm_id r" by auto
      with distinct_map_eq_iff [OF integrityD(6) [OF ok]] r(1) claimable_commands_set [OF q(1)]
      have "command_due now r" by metis
      with True r(3) pos show ?thesis by (auto dest: command_due_leased_mono)
    qed (use r(3) in simp)
    with r show ?thesis by (auto simp: command_due_in_def)
  qed
qed

text \<open>The interpretation for heartbeats: a lease of 30 seconds, 16 commands at a time.\<close>

interpretation heartbeat_commands:
  lease_queue "claim_commands (seconds 30) 16" ac_id command_due_in integrity "seconds 30"
  by (rule commands_lease)

lemma claim_event_Inr:
  assumes "outbox_claim_pending limit worker_id now lease_for d = (Inr es, d')"
  shows "map oe_id es = map xr_id (claimable_events (instant now) limit d)"
    and "d' = d\<lparr>outbox_events :=
      update_where (\<lambda>r. xr_id r \<in> xr_id ` set (claimable_events (instant now) limit d))
        (locked_event now worker_id lease_for) (outbox_events d)\<rparr>"
proof -
  have "limit < 1 \<Longrightarrow> claimable_events (instant now) limit d = []"
    by (simp add: claimable_events_def)
  then show "map oe_id es = map xr_id (claimable_events (instant now) limit d)"
    and "d' = d\<lparr>outbox_events :=
      update_where (\<lambda>r. xr_id r \<in> xr_id ` set (claimable_events (instant now) limit d))
        (locked_event now worker_id lease_for) (outbox_events d)\<rparr>"
    using assms
    by (auto simp: outbox_claim_pending_def Let_def comp_def update_where_id split: if_splits)
qed

lemma event_due_locked: "event_due t (locked_event now w l r) \<Longrightarrow> instant now + l \<le> t"
  by (simp add: event_due_def)

lemma event_due_locked_mono:
  "event_due now r \<Longrightarrow> event_due t (locked_event (Aware now 0) w l r) \<Longrightarrow> 0 < l \<Longrightarrow> event_due t r"
  by (auto simp: event_due_def split: option.splits)

abbreviation claim_events :: "int \<Rightarrow> int \<Rightarrow> string \<Rightarrow> int \<Rightarrow> (db, outbox_event list) sx" where
  "claim_events lease_for limit \<equiv>
     (\<lambda>worker now. outbox_claim_pending limit worker (Aware now 0) lease_for)"

lemma outbox_lease:
  assumes "0 < lease_for"
  shows "lease_queue (claim_events lease_for limit) oe_id event_due_in integrity lease_for"
proof
  fix d w now es d'
  assume ok: "integrity d" and c: "claim_events lease_for limit w now d = (Inr es, d')"
  let ?rs = "claimable_events now limit d"
  let ?f = "locked_event (Aware now 0) w lease_for"
  have ids: "map oe_id es = map xr_id ?rs"
    and d': "d' = d\<lparr>outbox_events := update_where (\<lambda>r. xr_id r \<in> xr_id ` set ?rs)
      ?f (outbox_events d)\<rparr>"
    using claim_event_Inr [OF c] by simp_all
  have after: "outbox_events d' = update_where (\<lambda>r. xr_id r \<in> xr_id ` set ?rs)
      ?f (outbox_events d)"
    unfolding d' by simp
  have locked: "event_due_in d' t i \<longleftrightarrow>
      (\<exists>r \<in> set (outbox_events d). xr_id r = i
        \<and> event_due t (if xr_id r \<in> xr_id ` set ?rs then ?f r else r))" for t i
    unfolding event_due_in_def after bex_update_where by (rule bex_cong [OF refl]) simp
  show "integrity d'" unfolding d' by (rule update_events_integrity [OF ok]) simp
  show "distinct (map oe_id es)" unfolding ids by (rule distinct_claimable_events [OF ok])
  have id_in: "oe_id e \<in> xr_id ` set ?rs" if "e \<in> set es" for e
    using that ids by (metis image_eqI list.set_map)
  show "event_due_in d now (oe_id e)" if "e \<in> set es" for e
    using id_in [OF that] by (auto simp: event_due_in_def dest: claimable_events_set)
  show "\<not> event_due_in d' t (oe_id e)" if "e \<in> set es" "t < now + lease_for" for e t
    using id_in [OF that(1)] that(2) by (auto simp: locked dest!: event_due_locked)
  show "event_due_in d t i" if due: "event_due_in d' t i" for t i
  proof -
    from due locked obtain r where r: "r \<in> set (outbox_events d)" "xr_id r = i"
      "event_due t (if xr_id r \<in> xr_id ` set ?rs then ?f r else r)" by blast
    have "event_due t r"
    proof (cases "xr_id r \<in> xr_id ` set ?rs")
      case True
      then obtain q where q: "q \<in> set ?rs" "xr_id q = xr_id r" by auto
      with distinct_map_eq_iff [OF integrityD(13) [OF ok]] r(1) claimable_events_set [OF q(1)]
      have "event_due now r" by metis
      with True r(3) assms show ?thesis by (auto dest: event_due_locked_mono)
    qed (use r(3) in simp)
    with r show ?thesis by (auto simp: event_due_in_def)
  qed
qed

text \<open>The relay's defaults: ten events under a lease of a minute.\<close>

interpretation relay_events:
  lease_queue "claim_events (seconds 60) 10" oe_id event_due_in integrity "seconds 60"
  by (rule outbox_lease) (simp add: seconds_def)

end
