(* ===== verification/Addresses.thy ===== *)
theory Addresses
  imports Py_Text
begin

text \<open>
  The normalisers of \<open>application/lifecycle.py\<close> (\<open>_normalize_hostname\<close>,
  \<open>_normalize_ip_addresses\<close>, \<open>_normalize_mac_addresses\<close>) with what they use of the standard
  library: \<open>ipaddress.ip_address\<close> as the predicate \<open>ip_valid\<close> (whether it returns or raises)
  and the MAC pattern.
\<close>

section \<open>ipaddress\<close>

text \<open>\<open>IPv4Address._parse_octet\<close> and \<open>_ip_int_from_string\<close>.\<close>

fun decimal :: "nat \<Rightarrow> string \<Rightarrow> nat" where
  "decimal acc [] = acc"
| "decimal acc (c # cs) = decimal (10 * acc + (code c - 48)) cs"

definition octet_ok :: "string \<Rightarrow> bool" where
  "octet_ok s =
     (s \<noteq> [] \<and> list_all is_digit s \<and> length s \<le> 3
      \<and> (s = ''0'' \<or> hd s \<noteq> CHR ''0'') \<and> decimal 0 s \<le> 255)"

definition ipv4_ok :: "string \<Rightarrow> bool" where
  "ipv4_ok s =
     (CHR ''/'' \<notin> set s \<and> s \<noteq> []
      \<and> (let octets = split_char CHR ''.'' s in length octets = 4 \<and> list_all octet_ok octets))"

definition is_hex :: "char \<Rightarrow> bool" where
  "is_hex c = (is_digit c \<or> (65 \<le> code c \<and> code c \<le> 70) \<or> (97 \<le> code c \<and> code c \<le> 102))"

definition hextet_ok :: "string \<Rightarrow> bool" where
  "hextet_ok s = (s \<noteq> [] \<and> list_all is_hex s \<and> length s \<le> 4)"

text \<open>The colon-separated parts after a dotted suffix was replaced by two hextets; \<open>skips\<close> are
  the indices of the empty parts strictly inside.\<close>

definition ipv6_parts_ok :: "string list \<Rightarrow> bool" where
  "ipv6_parts_ok parts =
     (let n = length parts;
          skips = filter (\<lambda>i. parts ! i = []) [1..<n - 1]
      in if n > 9 then False
         else (case skips of
             [] \<Rightarrow> n = 8 \<and> list_all hextet_ok parts
           | [skip] \<Rightarrow>
               (let hi = (if hd parts = [] then skip - 1 else skip);
                    lo0 = n - skip - 1;
                    lo = (if last parts = [] then lo0 - 1 else lo0)
                in \<not> (hd parts = [] \<and> hi \<noteq> 0) \<and> \<not> (last parts = [] \<and> lo \<noteq> 0)
                   \<and> hi + lo < 8
                   \<and> list_all hextet_ok (take hi parts) \<and> list_all hextet_ok (drop (n - lo) parts))
           | _ \<Rightarrow> False))"

definition ipv6_address_ok :: "string \<Rightarrow> bool" where
  "ipv6_address_ok s =
     (let parts = split_char CHR '':'' s
      in s \<noteq> [] \<and> 3 \<le> length parts
         \<and> (if CHR ''.'' \<in> set (last parts)
            then ipv4_ok (last parts) \<and> ipv6_parts_ok (butlast parts @ [''0'', ''0''])
            else ipv6_parts_ok parts))"

definition ipv6_ok :: "string \<Rightarrow> bool" where
  "ipv6_ok s =
     (CHR ''/'' \<notin> set s
      \<and> (let addr = takeWhile (\<lambda>c. c \<noteq> CHR ''%'') s;
             rest = drop (length addr) s
         in (rest = [] \<or> (tl rest \<noteq> [] \<and> CHR ''%'' \<notin> set (tl rest))) \<and> ipv6_address_ok addr))"

definition ip_valid :: "string \<Rightarrow> bool" where
  "ip_valid s = (ipv4_ok s \<or> ipv6_ok s)"

section \<open>The MAC pattern\<close>

text \<open>\<open>[0-9A-F]{2}([:-][0-9A-F]{2}){5}\<close>\<close>

fun mac_groups :: "nat \<Rightarrow> string \<Rightarrow> bool" where
  "mac_groups 0 s = (s = [])"
| "mac_groups (Suc k) (sep # a # b # s) =
     ((sep = CHR '':'' \<or> sep = CHR ''-'') \<and> is_upper_hex a \<and> is_upper_hex b \<and> mac_groups k s)"
| "mac_groups (Suc k) s = False"

fun mac_valid :: "string \<Rightarrow> bool" where
  "mac_valid (a # b # s) = (is_upper_hex a \<and> is_upper_hex b \<and> mac_groups 5 s)"
| "mac_valid s = False"

section \<open>The normalisers\<close>

definition normalize_hostname :: "string option \<Rightarrow> string option result" where
  "normalize_hostname value =
     (case value of
        None \<Rightarrow> Inr None
      | Some v \<Rightarrow>
          (let normalized = strip v
           in if normalized = [] \<or> length normalized > 255
              then Inl (HeartbeatRejectedError ''agent hostname is invalid'')
              else Inr (Some normalized)))"

text \<open>The loop shared by both list normalisers: \<open>clean\<close> prepares a candidate, \<open>valid\<close> accepts
  it, \<open>bad\<close> is the exception raised otherwise.\<close>

fun collect :: "(string \<Rightarrow> string) \<Rightarrow> (string \<Rightarrow> bool) \<Rightarrow> exn \<Rightarrow> string list \<Rightarrow> string list
    \<Rightarrow> string list result" where
  "collect clean valid bad acc [] = Inr acc"
| "collect clean valid bad acc (v # vs) =
     (let candidate = clean v
      in if \<not> valid candidate then Inl bad
         else collect clean valid bad
           (if candidate \<in> set acc then acc else acc @ [candidate]) vs)"

definition normalize_list ::
    "(string \<Rightarrow> string) \<Rightarrow> (string \<Rightarrow> bool) \<Rightarrow> exn \<Rightarrow> exn \<Rightarrow> string list option
     \<Rightarrow> string list option result" where
  "normalize_list clean valid bad many values =
     (case values of
        None \<Rightarrow> Inr None
      | Some vs \<Rightarrow>
          bindR (collect clean valid bad [] vs) (\<lambda>normalized.
            if length normalized > 16 then Inl many else Inr (Some normalized)))"

definition normalize_ip_addresses :: "string list option \<Rightarrow> string list option result" where
  "normalize_ip_addresses values =
     normalize_list strip ip_valid
       (HeartbeatRejectedError ''agent IP address is invalid'')
       (HeartbeatRejectedError ''too many agent IP addresses'') values"

definition normalize_mac_addresses :: "string list option \<Rightarrow> string list option result" where
  "normalize_mac_addresses values =
     normalize_list (\<lambda>v. py_upper (strip v)) mac_valid
       (HeartbeatRejectedError ''agent MAC address is invalid'')
       (HeartbeatRejectedError ''too many agent MAC addresses'') values"

section \<open>Lemmas\<close>

lemma collect_spec:
  "distinct acc \<Longrightarrow>
   collect clean valid bad acc vs =
     (if \<forall>v \<in> set vs. valid (clean v)
      then Inr (acc @ filter (\<lambda>c. c \<notin> set acc) (dict_fromkeys (map clean vs)))
      else Inl bad)"
proof (induction vs arbitrary: acc)
  case Nil
  then show ?case by (simp add: dict_fromkeys_def)
next
  case (Cons v vs)
  let ?c = "clean v"
  have step: "dict_fromkeys (map clean (v # vs)) =
      ?c # filter (\<lambda>c. c \<noteq> ?c) (dict_fromkeys (map clean vs))"
  proof -
    have "remdups (xs @ [x]) = filter (\<lambda>c. c \<noteq> x) (remdups xs) @ [x]" for x :: string and xs
      by (induction xs) auto
    then show ?thesis by (simp add: dict_fromkeys_def rev_filter [symmetric])
  qed
  show ?case
  proof (cases "?c \<in> set acc")
    case True
    have "filter (\<lambda>c. c \<notin> set acc) (dict_fromkeys (map clean (v # vs))) =
        filter (\<lambda>c. c \<notin> set acc) (dict_fromkeys (map clean vs))"
      unfolding step using True by (auto intro: filter_cong)
    with Cons True show ?thesis by (simp add: Let_def)
  next
    case False
    have "filter (\<lambda>c. c \<notin> set acc) (dict_fromkeys (map clean (v # vs))) =
        ?c # filter (\<lambda>c. c \<notin> set (acc @ [?c])) (dict_fromkeys (map clean vs))"
      unfolding step using False by (auto intro: filter_cong)
    with Cons.IH [of "acc @ [?c]"] Cons.prems False show ?thesis by (simp add: Let_def)
  qed
qed

text \<open>The normalised list is the cleaned candidates without repetition, in order of appearance.\<close>

lemma normalize_list_Some:
  "normalize_list clean valid bad many (Some vs) =
     (if \<not> (\<forall>v \<in> set vs. valid (clean v)) then Inl bad
      else if length (dict_fromkeys (map clean vs)) > 16 then Inl many
      else Inr (Some (dict_fromkeys (map clean vs))))"
  by (simp add: normalize_list_def collect_spec)

lemma normalize_list_SomeD:
  assumes "normalize_list clean valid bad many values = Inr (Some ys)"
  obtains vs where "values = Some vs" and "ys = dict_fromkeys (map clean vs)"
    and "\<forall>y \<in> set ys. valid y" and "length ys \<le> 16"
proof (cases "values")
  case None
  with assms show ?thesis by (simp add: normalize_list_def)
next
  case (Some vs)
  with assms that [of vs] show ?thesis by (simp add: normalize_list_Some split: if_splits)
qed

lemma normalize_list_idem:
  assumes "normalize_list clean valid bad many values = Inr (Some ys)"
    and "\<And>v. valid (clean v) \<Longrightarrow> clean (clean v) = clean v"
  shows "normalize_list clean valid bad many (Some ys) = Inr (Some ys)"
proof -
  obtain vs where vs: "ys = dict_fromkeys (map clean vs)" "\<forall>y \<in> set ys. valid y" "length ys \<le> 16"
    using normalize_list_SomeD [OF assms(1)] by blast
  have "map clean ys = ys"
    using vs assms(2) by (intro map_idI) auto
  moreover have "distinct ys" using vs(1) by simp
  moreover have "\<forall>y \<in> set ys. clean y = y"
    using \<open>map clean ys = ys\<close> by (metis map_eq_conv map_ident)
  ultimately show ?thesis using vs(2,3) by (simp add: normalize_list_Some)
qed

lemma mac_groups_chars:
  "mac_groups k s \<Longrightarrow> c \<in> set s \<Longrightarrow> is_upper_hex c \<or> c = CHR '':'' \<or> c = CHR ''-''"
  by (induction k s rule: mac_groups.induct) auto

lemma mac_valid_chars:
  "mac_valid s \<Longrightarrow> c \<in> set s \<Longrightarrow> is_upper_hex c \<or> c = CHR '':'' \<or> c = CHR ''-''"
  by (cases s rule: mac_valid.cases) (auto dest: mac_groups_chars)

lemma upper_id:
  assumes "\<forall>c \<in> set s. upper_char c = [c]" shows "py_upper s = s"
  using assms unfolding py_upper_def by (induction s) auto

lemma mac_char_upper:
  assumes "is_upper_hex c \<or> c = CHR '':'' \<or> c = CHR ''-''"
  shows "upper_char c = [c] \<and> \<not> py_space c"
proof -
  from assms consider "48 \<le> code c \<and> code c \<le> 58" | "65 \<le> code c \<and> code c \<le> 70" | "code c = 45"
    by (auto simp: is_upper_hex_def is_digit_def code_def)
  then show ?thesis by cases (simp_all add: upper_char_def is_lower_def py_space_def)
qed

lemma strip_none: "\<forall>c \<in> set s. \<not> py_space c \<Longrightarrow> strip s = s"
  unfolding strip_def strip_with_def
  by (metis dropWhile_eq_self_iff hd_in_set rev_rev_ident set_rev)

lemma mac_clean_idem:
  assumes "mac_valid s" shows "py_upper (strip s) = s"
proof -
  have "\<forall>c \<in> set s. upper_char c = [c] \<and> \<not> py_space c"
    using assms mac_valid_chars mac_char_upper by blast
  then show ?thesis by (simp add: strip_none upper_id)
qed

lemma length_mac_groups: "mac_groups k s \<Longrightarrow> length s = 3 * k"
  by (induction k s rule: mac_groups.induct) auto

lemma length_mac: "mac_valid s \<Longrightarrow> length s = 17"
  by (cases s rule: mac_valid.cases) (auto dest: length_mac_groups)

lemma normalize_hostname_Some:
  "normalize_hostname v = Inr (Some h) \<Longrightarrow>
     h \<noteq> [] \<and> length h \<le> 255 \<and> strip h = h \<and> normalize_hostname (Some h) = Inr (Some h)"
  by (auto simp: normalize_hostname_def Let_def split: option.splits if_splits)

end
