(* ===== verification/Lifecycle.thy ===== *)
theory Lifecycle
  imports Token_Repo Agent_Repo Lease_Repo Addresses
begin

text \<open>
  \<open>application/lifecycle.py\<close>: station registration, enrollment, bootstrap, heartbeats.
  \<open>H\<close> stands for \<open>hash_secret\<close> (SHA-256 of the value); the UUIDs of \<open>uuid4()\<close>, the secrets of
  \<open>secrets.token_urlsafe\<close> and the time (\<open>now\<close> or the clock) are arguments, in the order the
  code draws them.
\<close>

section \<open>Use cases\<close>

definition ENROLLMENT_TOKEN_TTL :: int where
  "ENROLLMENT_TOKEN_TTL = minutes 10"

definition PROVISIONING_TOKEN_TTL :: int where
  "PROVISIONING_TOKEN_TTL = minutes 15"

definition HEARTBEAT_CLOCK_SKEW :: int where
  "HEARTBEAT_CLOCK_SKEW = minutes 5"

definition AGENT_COMMAND_LEASE :: int where
  "AGENT_COMMAND_LEASE = seconds 30"

definition AGENT_COMMAND_BATCH_SIZE :: int where
  "AGENT_COMMAND_BATCH_SIZE = 16"

record station_registration =
  sg_station :: station
  sg_enrollment_token :: string
  sg_enrollment_expires_at :: datetime

record provisioning_registration =
  pg_token :: string
  pg_expires_at :: datetime

record enrollment_result =
  en_station_id :: uuid
  en_credential :: string
  en_server_time :: datetime

record heartbeat_result =
  hb_station_id :: uuid
  hb_received_at :: datetime
  hb_commands :: "agent_command list"

text \<open>\<open>Station(...)\<close> with the defaults of the dataclass.\<close>

definition new_station ::
    "uuid \<Rightarrow> uuid \<Rightarrow> string \<Rightarrow> string \<Rightarrow> station_role \<Rightarrow> string option \<Rightarrow> string option
     \<Rightarrow> string option \<Rightarrow> station" where
  "new_station pk sid display_name hostname role target_name target_iqn initiator_iqn =
     \<lparr>st_id = pk, st_station_id = sid, st_display_name = display_name, st_hostname = hostname,
      st_role = role, st_status = OFFLINE, st_enabled = True, st_deleted_at = None,
      st_target_name = target_name, st_target_iqn = target_iqn,
      st_initiator_iqn = initiator_iqn, st_last_update_at = None\<rparr>"

definition new_enrollment_token ::
    "(string \<Rightarrow> string) \<Rightarrow> uuid \<Rightarrow> uuid \<Rightarrow> string \<Rightarrow> datetime \<Rightarrow> enrollment_token" where
  "new_enrollment_token H token_id sid raw_token created_at =
     \<lparr>et_id = token_id, et_station_id = sid, et_token_hash = H raw_token,
      et_expires_at = dt_plus created_at ENROLLMENT_TOKEN_TTL, et_used_at = None,
      et_revoked_at = None\<rparr>"

text \<open>\<open>CreateStationUseCase.execute\<close>; \<open>draft\<close> holds the request's fields under the drawn ids.\<close>

definition create_station ::
    "(string \<Rightarrow> string) \<Rightarrow> uuid \<Rightarrow> string \<Rightarrow> datetime \<Rightarrow> station \<Rightarrow> (db, station_registration) sx" where
  "create_station H token_id raw_token now draft =
     (let created_at = ensure_utc now
      in bindS (liftR (mk_station draft)) (\<lambda>station.
         let token = new_enrollment_token H token_id (st_station_id station) raw_token created_at
         in with_uow
              (bindS (sess (stations_get (st_station_id station))) (\<lambda>existing.
               bindS (case existing of
                   None \<Rightarrow> bindS (sess (stations_add station)) (\<lambda>_. returnS station)
                 | Some old \<Rightarrow>
                     if st_deleted_at old = None
                     then raiseS (StationRegistrationConflictError
                            ''station with this stable UUID is already registered'')
                     else bindS (liftR (mk_station (station\<lparr>st_id := st_id old\<rparr>))) (\<lambda>station.
                          bindS (sess (stations_restore station)) (\<lambda>_. returnS station)))
                (\<lambda>station.
               bindS (sess (enrollment_add token)) (\<lambda>_.
               bindS commit (\<lambda>_.
               returnS \<lparr>sg_station = station, sg_enrollment_token = raw_token,
                        sg_enrollment_expires_at = et_expires_at token\<rparr>)))))))"

definition create_provisioning_token ::
    "(string \<Rightarrow> string) \<Rightarrow> uuid \<Rightarrow> string \<Rightarrow> datetime \<Rightarrow> (db, provisioning_registration) sx" where
  "create_provisioning_token H token_id raw_token now =
     (let created_at = ensure_utc now;
          expires_at = dt_plus created_at PROVISIONING_TOKEN_TTL;
          token = \<lparr>pt_id = token_id, pt_token_hash = H raw_token, pt_expires_at = expires_at,
                   pt_used_at = None, pt_revoked_at = None\<rparr>
      in with_uow
           (bindS (sess (provisioning_add token)) (\<lambda>_.
            bindS commit (\<lambda>_.
            returnS \<lparr>pg_token = raw_token, pg_expires_at = expires_at\<rparr>))))"

definition delete_station :: "uuid \<Rightarrow> datetime \<Rightarrow> (db, bool) sx" where
  "delete_station sid now =
     with_uow
       (bindS (sess (stations_delete sid (ensure_utc now))) (\<lambda>deleted.
        if \<not> deleted then returnS False
        else bindS commit (\<lambda>_. returnS True)))"

definition new_binding ::
    "uuid \<Rightarrow> uuid \<Rightarrow> uuid \<Rightarrow> string \<Rightarrow> string \<Rightarrow> datetime \<Rightarrow> string list \<Rightarrow> string list
     \<Rightarrow> agent_binding" where
  "new_binding aid sid agent_uuid agent_version credential_hash enrolled_at ips macs =
     \<lparr>ab_id = aid, ab_station_id = sid, ab_agent_uuid = agent_uuid,
      ab_agent_version = agent_version, ab_credential_hash = credential_hash,
      ab_credential_created_at = Some enrolled_at, ab_revoked_at = None,
      ab_station_enabled = True, ab_station_deleted_at = None,
      ab_last_ip_addresses = ips, ab_last_mac_addresses = macs\<rparr>"

definition enroll_agent ::
    "(string \<Rightarrow> string) \<Rightarrow> string \<Rightarrow> uuid \<Rightarrow> datetime \<Rightarrow> string \<Rightarrow> uuid \<Rightarrow> string \<Rightarrow> string
     \<Rightarrow> string list \<Rightarrow> string list \<Rightarrow> (db, enrollment_result) sx" where
  "enroll_agent H raw_credential aid now token agent_uuid hostname agent_version ips macs =
     (let enrolled_at = ensure_utc now
      in with_uow
           (bindS (sess (enrollment_consume (H token) enrolled_at)) (\<lambda>claimed.
            case claimed of
              None \<Rightarrow> raiseS (EnrollmentRejectedError ''enrollment token is invalid or expired'')
            | Some t \<Rightarrow>
                bindS (sess (stations_update_hostname (et_station_id t) hostname)) (\<lambda>_.
                bindS (sess (agents_add (new_binding aid (et_station_id t) agent_uuid agent_version
                               (H raw_credential) enrolled_at ips macs))) (\<lambda>_.
                bindS commit (\<lambda>_.
                returnS \<lparr>en_station_id = et_station_id t, en_credential = raw_credential,
                         en_server_time = enrolled_at\<rparr>))))))"

text \<open>The three ways \<open>BootstrapAgentUseCase\<close> gets a station.\<close>

definition bootstrap_station ::
    "uuid \<Rightarrow> uuid \<Rightarrow> string \<Rightarrow> string \<Rightarrow> station_role \<Rightarrow> station option \<Rightarrow> (uow, unit) sx" where
  "bootstrap_station pk sid display_name hostname role existing =
     (case existing of
        None \<Rightarrow>
          bindS (liftR (mk_station (new_station pk sid display_name hostname role None None None)))
            (\<lambda>station. sess (stations_add station))
      | Some station \<Rightarrow>
          if st_deleted_at station \<noteq> None
          then bindS (liftR (mk_station (station\<lparr>st_display_name := display_name,
                   st_hostname := hostname, st_role := role, st_status := OFFLINE,
                   st_enabled := True, st_deleted_at := None\<rparr>)))
                 (\<lambda>station. sess (stations_restore station))
          else if st_role station \<noteq> role
          then raiseS (ProvisioningConflictError ''station exists with a different role'')
          else bindS (sess (agents_get_by_station_id sid)) (\<lambda>agent.
                 if agent \<noteq> None
                 then raiseS (ProvisioningConflictError ''station already has an enrolled agent'')
                 else sess (stations_update_hostname sid hostname)))"

definition bootstrap_agent ::
    "(string \<Rightarrow> string) \<Rightarrow> string \<Rightarrow> uuid \<Rightarrow> uuid \<Rightarrow> datetime \<Rightarrow> string \<Rightarrow> uuid \<Rightarrow> string \<Rightarrow> string
     \<Rightarrow> station_role \<Rightarrow> uuid \<Rightarrow> string \<Rightarrow> string list \<Rightarrow> string list
     \<Rightarrow> (db, enrollment_result) sx" where
  "bootstrap_agent H raw_credential pk aid now token sid display_name hostname role agent_uuid
       agent_version ips macs =
     (let enrolled_at = ensure_utc now
      in if role \<noteq> CLIENT
         then raiseS (ProvisioningRejectedError
                ''automatic bootstrap is allowed only for client stations'')
         else if sid \<noteq> agent_uuid
         then raiseS (ProvisioningRejectedError
                ''station_id and agent_uuid must be the same stable UUID'')
         else with_uow
           (bindS (sess (provisioning_consume (H token) enrolled_at)) (\<lambda>claimed.
            if claimed = None
            then raiseS (ProvisioningRejectedError ''provisioning token is invalid or expired'')
            else
              bindS (sess (agents_get_by_agent_uuid agent_uuid)) (\<lambda>existing_agent.
              if existing_agent \<noteq> None
              then raiseS (ProvisioningConflictError ''agent UUID is already enrolled'')
              else
                bindS (sess (stations_get sid)) (\<lambda>existing.
                bindS (bootstrap_station pk sid display_name hostname role existing) (\<lambda>_.
                bindS (sess (agents_add (new_binding aid sid agent_uuid agent_version
                               (H raw_credential) enrolled_at ips macs))) (\<lambda>_.
                bindS commit (\<lambda>_.
                returnS \<lparr>en_station_id = sid, en_credential = raw_credential,
                         en_server_time = enrolled_at\<rparr>))))))))"

definition receive_heartbeat ::
    "(string \<Rightarrow> string) \<Rightarrow> datetime \<Rightarrow> string \<Rightarrow> process_snapshot \<Rightarrow> string option
     \<Rightarrow> string list option \<Rightarrow> string list option \<Rightarrow> (db, heartbeat_result) sx" where
  "receive_heartbeat H now credential snapshot hostname ips macs =
     (let accepted_at = ensure_utc now;
          snap = snapshot\<lparr>ps_captured_at := ensure_utc (ps_captured_at snapshot)\<rparr>
      in bindS (liftR (normalize_hostname hostname)) (\<lambda>hostname.
         bindS (liftR (normalize_ip_addresses ips)) (\<lambda>ips.
         bindS (liftR (normalize_mac_addresses macs)) (\<lambda>macs.
         if \<bar>instant accepted_at - instant (ps_captured_at snap)\<bar> > HEARTBEAT_CLOCK_SKEW
         then raiseS (HeartbeatRejectedError
                ''heartbeat timestamp is outside the allowed clock skew'')
         else with_uow
           (bindS (sess (agents_get_by_credential_hash (H credential))) (\<lambda>found.
            case found of
              None \<Rightarrow> raiseS (AgentUnauthorizedError
                        ''agent credential or station binding is invalid'')
            | Some agent \<Rightarrow>
                if \<not> can_accept_heartbeat agent
                then raiseS (AgentUnauthorizedError
                       ''agent credential or station binding is invalid'')
                else if ab_station_id agent \<noteq> ps_station_id snap
                then raiseS (AgentUnauthorizedError ''agent is bound to another station'')
                else
                  bindS (sess (agents_record_heartbeat (ab_id agent) snap accepted_at
                                 hostname ips macs)) (\<lambda>_.
                  bindS (sess (commands_claim_for_agent (ab_id agent) accepted_at
                                 AGENT_COMMAND_LEASE AGENT_COMMAND_BATCH_SIZE)) (\<lambda>commands.
                  bindS commit (\<lambda>_.
                  returnS \<lparr>hb_station_id = ps_station_id snap, hb_received_at = accepted_at,
                           hb_commands = commands\<rparr>)))))))))"

section \<open>Every use case keeps the constraints\<close>

lemma lifecycle_keeps [keeps_intros]:
  "keeps integrity (create_station H token_id raw_token now draft)"
  "keeps integrity (create_provisioning_token H token_id raw_token now)"
  "keeps integrity (delete_station sid now)"
  "keeps integrity (enroll_agent H raw_credential aid now token agent_uuid hostname agent_version ips macs)"
  "keeps integrity (bootstrap_agent H raw_credential pk aid now token sid display_name hostname
     role agent_uuid agent_version ips macs)"
  "keeps integrity (receive_heartbeat H now credential snapshot hostname' ips' macs')"
  unfolding create_station_def create_provisioning_token_def delete_station_def enroll_agent_def
    bootstrap_agent_def bootstrap_station_def receive_heartbeat_def
  by (intro keeps_intros)+


section \<open>Enrollment\<close>

definition enrolled_db ::
    "enrollment_row \<Rightarrow> station_row \<Rightarrow> string \<Rightarrow> agent_binding \<Rightarrow> datetime \<Rightarrow> db \<Rightarrow> db" where
  "enrolled_db t s hostname agent enrolled_at d =
     (let d1 = d\<lparr>enrollment_tokens := update_where (\<lambda>x. er_id x = er_id t)
                   (\<lambda>x. x\<lparr>er_used_at := Some enrolled_at\<rparr>) (enrollment_tokens d)\<rparr>;
          d2 = set_station (sr_id s) (\<lambda>r. r\<lparr>sr_hostname := hostname\<rparr>) d1
      in d2\<lparr>agents := agents d2 @ [agent_record agent (sr_id s)]\<rparr>)"

lemma enrolled_db_sels [simp]:
  "stations (enrolled_db t s h b now d) =
     update_where (\<lambda>r. sr_id r = sr_id s) (\<lambda>r. r\<lparr>sr_hostname := h\<rparr>) (stations d)"
  "agents (enrolled_db t s h b now d) = agents d @ [agent_record b (sr_id s)]"
  "enrollment_tokens (enrolled_db t s h b now d) =
     update_where (\<lambda>x. er_id x = er_id t) (\<lambda>x. x\<lparr>er_used_at := Some now\<rparr>) (enrollment_tokens d)"
  "agent_commands (enrolled_db t s h b now d) = agent_commands d"
  by (simp_all add: enrolled_db_def Let_def)

lemma enroll_agent_claimed:
  fixes aid u v raw ips macs
  assumes ok: "integrity d" and t: "enrollment_by d (H token) = Some t"
    and s: "s \<in> set (stations d)" "sr_id s = er_station_id t"
    and free: "er_used_at t = None" "er_revoked_at t = None" "instant now < instant (er_expires_at t)"
  defines "agent \<equiv> new_binding aid (sr_station_id s) u v (H raw) (ensure_utc now) ips macs"
  shows "enroll_agent H raw aid now token u hostname v ips macs d =
    (if integrity (enrolled_db t s hostname agent (ensure_utc now) d)
     then (Inr \<lparr>en_station_id = sr_station_id s, en_credential = raw,
                en_server_time = ensure_utc now\<rparr>,
           enrolled_db t s hostname agent (ensure_utc now) d)
     else (Inl (IntegrityError ''constraint failed''), d))"
proof -
  let ?d1 = "d\<lparr>enrollment_tokens := update_where (\<lambda>x. er_id x = er_id t)
    (\<lambda>x. x\<lparr>er_used_at := Some (ensure_utc now)\<rparr>) (enrollment_tokens d)\<rparr>"
  obtain s' where s': "s' \<in> set (stations d)" "sr_id s' = er_station_id t"
    and consume: "enrollment_consume (H token) (ensure_utc now) d =
      (if enrollment_is_usable (row_enrollment t s') (ensure_utc now)
       then (Inr (Some (row_enrollment t s')), ?d1) else (Inr None, d))"
    using enrollment_consume_Some [OF ok t] by blast
  have "s' = s" using distinct_map_eq_iff [OF integrityD(1) [OF ok] s'(1) s(1)] s' s by simp
  with consume free have c: "enrollment_consume (H token) (ensure_utc now) d =
      (Inr (Some (row_enrollment t s)), ?d1)"
    by (simp add: enrollment_usable_row)
  have sid: "et_station_id (row_enrollment t s) = sr_station_id s"
    by (simp add: row_enrollment_def)
  have ok1: "integrity ?d1" using tokens_used_integrity(1) [OF ok] by simp
  have by_s: "station_by ?d1 (sr_station_id s) = Some s"
    using station_by_unique [OF ok1, of s] s(1) by simp
  let ?f = "\<lambda>r. r\<lparr>sr_hostname := hostname\<rparr>"
  have hn: "stations_update_hostname (sr_station_id s) hostname ?d1 =
      (Inr (), set_station (sr_id s) ?f ?d1)"
    by (simp add: stations_update_hostname_def by_s)
  have "station_by (set_station (sr_id s) ?f ?d1) (sr_station_id s) = Some (?f s)"
    using station_by_set_station [OF ok1 by_s, of ?f] by simp
  then have add: "agents_add agent (set_station (sr_id s) ?f ?d1) =
      (Inr (), enrolled_db t s hostname agent (ensure_utc now) d)"
    by (simp add: agents_add_def agent_def new_binding_def enrolled_db_def Let_def)
  show ?thesis
    by (simp add: enroll_agent_def Let_def sx_simps c sid hn add [unfolded agent_def] agent_def)
qed

lemma enroll_agent_rejected:
  assumes "enrollment_consume (H token) (ensure_utc now) d = (Inr None, d)"
  shows "enroll_agent H raw aid now token u hostname v ips macs d =
    (Inl (EnrollmentRejectedError ''enrollment token is invalid or expired''), d)"
  using assms by (simp add: enroll_agent_def Let_def sx_simps)

lemma enroll_agent_Inr:
  assumes ok: "integrity d"
    and run: "enroll_agent H raw aid now token u hostname v ips macs d = (Inr r, d')"
  obtains t s where "enrollment_by d (H token) = Some t" and "s \<in> set (stations d)"
    and "sr_id s = er_station_id t" and "er_used_at t = None" and "er_revoked_at t = None"
    and "instant now < instant (er_expires_at t)"
    and "r = \<lparr>en_station_id = sr_station_id s, en_credential = raw,
              en_server_time = ensure_utc now\<rparr>"
    and "d' = enrolled_db t s hostname
      (new_binding aid (sr_station_id s) u v (H raw) (ensure_utc now) ips macs) (ensure_utc now) d"
    and "integrity d'"
  using enrollment_consume_cases [OF ok, of "H token" "ensure_utc now"]
proof (elim disjE exE conjE)
  assume "enrollment_consume (H token) (ensure_utc now) d = (Inr None, d)"
  with run show thesis by (simp add: enroll_agent_rejected)
next
  fix t s
  assume t: "enrollment_by d (H token) = Some t" "s \<in> set (stations d)" "sr_id s = er_station_id t"
    "er_used_at t = None" "er_revoked_at t = None"
    "instant (ensure_utc now) < instant (er_expires_at t)"
  then have "instant now < instant (er_expires_at t)" by simp
  note claimed = enroll_agent_claimed [where H = H and token = token and raw = raw and aid = aid
    and u = u and v = v and ips = ips and macs = macs and hostname = hostname, OF ok t(1-5) this]
  show thesis
    by (rule that [of t s]) (use t run claimed in \<open>auto split: if_splits\<close>)
qed

lemma enrolled_agent_found:
  assumes "integrity (enrolled_db t s hostname b now d)" and "s \<in> set (stations d)"
    and "ar_credential_hash (agent_record b (sr_id s)) = Some h"
    and "\<forall>a \<in> set (agents d). ar_credential_hash a \<noteq> Some h"
  shows "filter (\<lambda>(a, s). ar_credential_hash a = Some h)
      (agent_join (enrolled_db t s hostname b now d)) =
    [(agent_record b (sr_id s), s\<lparr>sr_hostname := hostname\<rparr>)]"
proof (rule agent_join_single [OF assms(1)])
  show "s\<lparr>sr_hostname := hostname\<rparr> \<in> set (stations (enrolled_db t s hostname b now d))"
    using assms(2) by (auto simp: set_update_where)
qed (use assms in \<open>auto simp: agent_record_def\<close>)

section \<open>Heartbeats\<close>

text \<open>Every stored command can be read back.\<close>

definition commands_readable :: "db \<Rightarrow> bool" where
  "commands_readable d \<longleftrightarrow>
     (\<forall>c \<in> set (agent_commands d). \<forall>l. \<exists>x. command_to_domain (leased_command l c) = Inr x)"

lemma claim_total:
  assumes "commands_readable d" and "0 < limit" and "0 < lease_for"
  obtains cs where "commands_claim_for_agent aid now lease_for limit d =
    (Inr cs, d\<lparr>agent_commands := update_where
        (\<lambda>r. cm_id r \<in> cm_id ` set (claimable_commands aid (instant now) limit d))
        (leased_command (dt_plus now lease_for)) (agent_commands d)\<rparr>)"
proof -
  let ?rs = "map (leased_command (dt_plus now lease_for)) (claimable_commands aid (instant now) limit d)"
  have "\<forall>r \<in> set ?rs. \<exists>x. command_to_domain r = Inr x"
    using assms(1) by (auto simp: commands_readable_def dest!: claimable_commands_set)
  then have "mapR command_to_domain ?rs = Inr (map (\<lambda>r. projr (command_to_domain r)) ?rs)"
    by (intro mapR_total) (metis sum.sel(2))
  with assms(2,3) that show ?thesis by (simp add: commands_claim_for_agent_def Let_def)
qed

lemma claim_keeps_integrity:
  assumes "integrity d" and "commands_claim_for_agent aid now l n d = (Inr cs, d')"
  shows "integrity d'"
  unfolding claim_command_Inr(4) [OF assms(2)]
  by (rule update_commands_integrity [OF assms(1)]) simp

lemma heartbeat_ok:
  assumes ok: "integrity d" and cmds: "commands_readable d"
    and norm: "normalize_hostname hostname = Inr hn" "normalize_ip_addresses ips = Inr ns"
      "normalize_mac_addresses macs = Inr ms"
    and skew: "\<bar>instant now - instant (ps_captured_at snapshot)\<bar> \<le> HEARTBEAT_CLOCK_SKEW"
    and found: "filter (\<lambda>(a, s). ar_credential_hash a = Some (H credential)) (agent_join d) = [(a, s)]"
    and live: "ar_revoked_at a = None" "sr_enabled s" "sr_deleted_at s = None"
    and bound: "sr_station_id s = ps_station_id snapshot"
  defines "snap \<equiv> snapshot\<lparr>ps_captured_at := ensure_utc (ps_captured_at snapshot)\<rparr>"
  obtains cs d' where
    "commands_claim_for_agent (ar_id a) (ensure_utc now) AGENT_COMMAND_LEASE
       AGENT_COMMAND_BATCH_SIZE (heartbeat_db a s snap (ensure_utc now) hn ns ms d) = (Inr cs, d')"
    and "receive_heartbeat H now credential snapshot hostname ips macs d =
      (Inr \<lparr>hb_station_id = sr_station_id s, hb_received_at = ensure_utc now, hb_commands = cs\<rparr>, d')"
    and "integrity d'"
proof -
  let ?d1 = "heartbeat_db a s snap (ensure_utc now) hn ns ms d"
  have "(a, s) \<in> set (filter (\<lambda>(a, s). ar_credential_hash a = Some (H credential)) (agent_join d))"
    by (simp add: found)
  then have mem: "a \<in> set (agents d)" "s \<in> set (stations d)" "sr_id s = ar_station_id a"
    by (auto simp: set_agent_join)
  have get: "agents_get_by_credential_hash (H credential) d = (Inr (Some (binding_of (a, s))), d)"
    by (simp add: agents_get_by_credential_hash_def agents_get_where_def found)
  have rec: "agents_record_heartbeat (ar_id a) snap (ensure_utc now) hn ns ms d = (Inr (), ?d1)"
    using record_heartbeat_ok [OF ok mem] bound by (simp add: snap_def)
  have ok1: "integrity ?d1" by (rule integrity_heartbeat_db [OF ok mem(2)])
  have cmds1: "commands_readable ?d1" using cmds by (simp add: commands_readable_def)
  obtain cs d' where claim: "commands_claim_for_agent (ar_id a) (ensure_utc now)
      AGENT_COMMAND_LEASE AGENT_COMMAND_BATCH_SIZE ?d1 = (Inr cs, d')"
    by (rule claim_total [OF cmds1, of AGENT_COMMAND_BATCH_SIZE AGENT_COMMAND_LEASE "ar_id a"
          "ensure_utc now"])
      (simp_all add: AGENT_COMMAND_BATCH_SIZE_def AGENT_COMMAND_LEASE_def seconds_def)
  have ok': "integrity d'" by (rule claim_keeps_integrity [OF ok1 claim])
  have "receive_heartbeat H now credential snapshot hostname ips macs d =
      (Inr \<lparr>hb_station_id = sr_station_id s, hb_received_at = ensure_utc now, hb_commands = cs\<rparr>, d')"
    using skew norm live bound ok'
    by (simp add: receive_heartbeat_def Let_def sx_simps get can_accept_binding
        rec [unfolded snap_def] claim [unfolded snap_def])
  with claim ok' that show ?thesis by blast
qed


lemma heartbeat_accepted:
  assumes "integrity d" and "commands_readable d"
    and "normalize_hostname hostname = Inr hn" "normalize_ip_addresses ips = Inr ns"
      "normalize_mac_addresses macs = Inr ms"
    and "\<bar>instant now - instant (ps_captured_at snapshot)\<bar> \<le> HEARTBEAT_CLOCK_SKEW"
    and "filter (\<lambda>(a, s). ar_credential_hash a = Some (H credential)) (agent_join d) = [(a, s)]"
    and "ar_revoked_at a = None" "sr_enabled s" "sr_deleted_at s = None"
    and "sr_station_id s = ps_station_id snapshot"
  shows "\<exists>cs d'. receive_heartbeat H now credential snapshot hostname ips macs d =
    (Inr \<lparr>hb_station_id = sr_station_id s, hb_received_at = ensure_utc now, hb_commands = cs\<rparr>, d')"
  using heartbeat_ok [where H = H and credential = credential, OF assms] by blast


text \<open>A heartbeat that is accepted passed every guard, and did exactly this.\<close>

lemma heartbeat_Inr:
  assumes ok: "integrity d"
    and run: "receive_heartbeat H now credential snapshot hostname ips macs d = (Inr r, d')"
  defines "snap \<equiv> snapshot\<lparr>ps_captured_at := ensure_utc (ps_captured_at snapshot)\<rparr>"
  obtains a s hn ns ms where
    "normalize_hostname hostname = Inr hn" and "normalize_ip_addresses ips = Inr ns"
    and "normalize_mac_addresses macs = Inr ms"
    and "\<bar>instant now - instant (ps_captured_at snapshot)\<bar> \<le> HEARTBEAT_CLOCK_SKEW"
    and "filter (\<lambda>(a, s). ar_credential_hash a = Some (H credential)) (agent_join d) = [(a, s)]"
    and "a \<in> set (agents d)" and "s \<in> set (stations d)" and "sr_id s = ar_station_id a"
    and "ar_revoked_at a = None" and "sr_enabled s" and "sr_deleted_at s = None"
    and "sr_station_id s = ps_station_id snapshot"
    and "hb_station_id r = sr_station_id s" and "hb_received_at r = ensure_utc now"
    and "commands_claim_for_agent (ar_id a) (ensure_utc now) AGENT_COMMAND_LEASE
       AGENT_COMMAND_BATCH_SIZE (heartbeat_db a s snap (ensure_utc now) hn ns ms d)
       = (Inr (hb_commands r), d')"
    and "integrity d'"
proof -
  from run obtain hn ns ms where
    norm: "normalize_hostname hostname = Inr hn" "normalize_ip_addresses ips = Inr ns"
      "normalize_mac_addresses macs = Inr ms"
    by (auto simp: receive_heartbeat_def Let_def sx_simps split: sum.splits)
  have skew: "\<bar>instant now - instant (ps_captured_at snapshot)\<bar> \<le> HEARTBEAT_CLOCK_SKEW"
    using run norm by (auto simp: receive_heartbeat_def Let_def sx_simps split: if_splits)
  let ?get = "agents_get_by_credential_hash (H credential) d"
  obtain b where get: "?get = (Inr (Some b), d)"
    and acc: "can_accept_heartbeat b" and bound: "ab_station_id b = ps_station_id snapshot"
    using run norm skew agents_get_state(1) [of "H credential" d]
    by (cases ?get) (auto simp: receive_heartbeat_def Let_def sx_simps
        split: sum.splits option.splits if_splits)
  obtain a s where as: "b = binding_of (a, s)" "a \<in> set (agents d)" "s \<in> set (stations d)"
    "sr_id s = ar_station_id a"
    "filter (\<lambda>(a, s). ar_credential_hash a = Some (H credential)) (agent_join d) = [(a, s)]"
    using agents_get_where_Some [OF get [unfolded agents_get_by_credential_hash_def]] by metis
  have live: "ar_revoked_at a = None" "sr_enabled s" "sr_deleted_at s = None"
    using acc as(1) by (simp_all add: can_accept_binding)
  have sid: "sr_station_id s = ps_station_id snapshot" using bound as(1) by simp
  let ?d1 = "heartbeat_db a s snap (ensure_utc now) hn ns ms d"
  have rec: "agents_record_heartbeat (ar_id a) snap (ensure_utc now) hn ns ms d = (Inr (), ?d1)"
    using record_heartbeat_ok [OF ok as(2-4)] sid by (simp add: snap_def)
  obtain rs d2 where claim: "commands_claim_for_agent (ar_id a) (ensure_utc now)
      AGENT_COMMAND_LEASE AGENT_COMMAND_BATCH_SIZE ?d1 = (rs, d2)" by fastforce
  have fin: "rs = Inr (hb_commands r)" "d2 = d'" "integrity d'"
    "hb_station_id r = sr_station_id s" "hb_received_at r = ensure_utc now"
    using run norm skew get as(1) live sid rec claim
    by (auto simp: receive_heartbeat_def Let_def sx_simps snap_def can_accept_binding
        split: sum.splits if_splits)
  show ?thesis
    by (rule that [OF norm skew as(5,2-4) live sid fin(4,5) _ fin(3)])
      (use claim fin in simp)
qed

section \<open>Deletion\<close>

definition deleted_db :: "station_row \<Rightarrow> datetime \<Rightarrow> db \<Rightarrow> db" where
  "deleted_db s deleted_at d = snd (stations_delete (sr_station_id s) deleted_at d)"

lemma deleted_db_eq:
  assumes "active_station_by d (sr_station_id s) = Some s"
  shows "agents (deleted_db s t d) = filter (\<lambda>a. ar_station_id a \<noteq> sr_id s) (agents d)"
    and "stations (deleted_db s t d) =
      update_where (\<lambda>r. sr_id r = sr_id s) (removed_row t) (stations d)"
    and "enrollment_tokens (deleted_db s t d) =
      update_where (\<lambda>x. er_station_id x = sr_id s \<and> er_revoked_at x = None)
        (\<lambda>x. x\<lparr>er_revoked_at := Some t\<rparr>) (enrollment_tokens d)"
    and "agent_commands (deleted_db s t d) =
      filter (\<lambda>c. cm_agent_id c \<notin> ar_id ` {a \<in> set (agents d). ar_station_id a = sr_id s})
        (agent_commands d)"
  using assms by (simp_all add: deleted_db_def stations_delete_def Let_def)

lemma delete_station_Inr:
  assumes "delete_station sid now d = (Inr b, d')"
  shows "(b \<longrightarrow> (\<exists>s. active_station_by d sid = Some s \<and> sr_station_id s = sid
            \<and> d' = deleted_db s (ensure_utc now) d \<and> integrity d'))
    \<and> (\<not> b \<longrightarrow> active_station_by d sid = None \<and> d' = d)"
proof (cases "active_station_by d sid")
  case None
  with assms show ?thesis by (auto simp: delete_station_def sx_simps stations_delete_def)
next
  case (Some s)
  then have sid: "sr_station_id s = sid" by (auto dest: active_station_by_SomeD)
  have "stations_delete sid (ensure_utc now) d = (Inr True, deleted_db s (ensure_utc now) d)"
    using Some sid by (simp add: deleted_db_def stations_delete_def Let_def)
  with assms have "b" "d' = deleted_db s (ensure_utc now) d" "integrity d'"
    by (auto simp: delete_station_def sx_simps split: if_splits)
  with Some sid show ?thesis by blast
qed

end
