(* ===== verification/Samples.thy ===== *)
theory Samples
  imports Lifecycle
begin

text \<open>
  Concrete tables on which the properties are instantiated: one enabled client station with an
  unused enrollment token, and the same station after its agent was enrolled.
\<close>

definition sample_station :: station_row where
  "sample_station =
     \<lparr>sr_id = 1, sr_station_id = 2, sr_display_name = ''PC 1'', sr_hostname = ''pc-1'',
      sr_role = CLIENT, sr_state = OFFLINE, sr_enabled = True, sr_deleted_at = None,
      sr_state_reason = None, sr_target_name = Some ''pc1'', sr_target_iqn = None,
      sr_initiator_iqn = None, sr_last_update_at = None\<rparr>"

definition sample_token :: enrollment_row where
  "sample_token =
     \<lparr>er_id = 3, er_station_id = 1, er_token_hash = ''token'', er_expires_at = Aware 600000000 0,
      er_used_at = None, er_revoked_at = None\<rparr>"

definition sample_provisioning :: provisioning_row where
  "sample_provisioning =
     \<lparr>vr_id = 4, vr_token_hash = ''ticket'', vr_expires_at = Aware 900000000 0,
      vr_used_at = None, vr_revoked_at = None\<rparr>"

definition sample_db :: db where
  "sample_db = empty_db\<lparr>stations := [sample_station], enrollment_tokens := [sample_token],
     provisioning_tokens := [sample_provisioning]\<rparr>"

definition sample_agent :: agent_row where
  "sample_agent =
     \<lparr>ar_id = 5, ar_station_id = 1, ar_agent_uuid = 6, ar_agent_version = ''1.0'',
      ar_credential_hash = Some ''secret'', ar_credential_created_at = Some (Aware 0 0),
      ar_revoked_at = None, ar_last_seen_at = None, ar_last_heartbeat_at = None,
      ar_last_process_snapshot_at = None, ar_last_drive_snapshot_at = None,
      ar_last_ip_addresses = [], ar_last_mac_addresses = [], ar_status = ''enrolled''\<rparr>"

definition sample_command :: command_row where
  "sample_command =
     \<lparr>cm_id = 7, cm_agent_id = 5, cm_name = ''refresh_process_snapshot'',
      cm_expires_at = Aware 300000000 0, cm_signature = ''sig'', cm_status = ''pending'',
      cm_lease_until = None, cm_attempts = 0, cm_acknowledged_at = None,
      cm_created_at = Aware 0 0\<rparr>"

definition enrolled_sample_db :: db where
  "enrolled_sample_db = sample_db\<lparr>agents := [sample_agent], agent_commands := [sample_command]\<rparr>"

definition sample_snapshot :: process_snapshot where
  "sample_snapshot =
     \<lparr>ps_station_id = 2, ps_captured_at = Naive 1000000, ps_agent_version = ''1.1'',
      ps_processes = [], ps_drives = [\<lparr>di_letter = ''d:'', di_present = True, di_free_bytes = Some 9\<rparr>],
      ps_received_at = None\<rparr>"

lemmas sample_defs =
  sample_station_def sample_token_def sample_provisioning_def sample_db_def sample_agent_def
  sample_command_def enrolled_sample_db_def sample_snapshot_def empty_db_def

lemma integrity_sample_db: "integrity sample_db"
  by (simp add: integrity_def constraint_defs sample_defs)

lemma integrity_enrolled_sample_db: "integrity enrolled_sample_db"
  by (simp add: integrity_def constraint_defs sample_defs)

lemma sample_readable: "readable sample_db" "readable enrolled_sample_db"
  by (simp_all add: readable_def station_wf_def row_station_def sample_defs blank_opt_def)
    (simp_all add: blank_def strip_def strip_with_def py_space_def code_def)

lemma commands_readable_samples: "commands_readable sample_db" "commands_readable enrolled_sample_db"
  by (simp_all add: commands_readable_def sample_defs command_to_domain_def leased_command_def
      command_name_of_def command_status_of_def)


lemma sample_bounds:
  "agents sample_db = []" "station_by sample_db 2 = Some sample_station"
  "sr_enabled sample_station" "sr_deleted_at sample_station = None"
  "ps_station_id sample_snapshot = 2"
  "instant (ps_captured_at sample_snapshot) = 1000000"
  by (simp_all add: sample_defs station_by_def)

lemma sample_addresses:
  "normalize_hostname (Some '' pc-1 '') = Inr (Some ''pc-1'')"
  "normalize_ip_addresses (Some [''10.0.0.7'']) = Inr (Some [''10.0.0.7''])"
  "normalize_mac_addresses None = Inr None"
  by (code_simp, code_simp, code_simp)

text \<open>The sample station's agent enrolls; the digest is the identity.\<close>

definition sample_enrollment :: "enrollment_result result \<times> db" where
  "sample_enrollment =
     enroll_agent (\<lambda>x. x) ''secret'' 5 (Aware 0 0) ''token'' 6 ''pc-1'' ''1.0'' [] [] sample_db"

lemma sample_enrollment_eq:
  "sample_enrollment =
     (Inr \<lparr>en_station_id = 2, en_credential = ''secret'', en_server_time = Aware 0 0\<rparr>,
      enrolled_db sample_token sample_station ''pc-1''
        (new_binding 5 2 6 ''1.0'' ''secret'' (Aware 0 0) [] []) (Aware 0 0) sample_db)"
proof -
  have "integrity (enrolled_db sample_token sample_station ''pc-1''
      (new_binding 5 2 6 ''1.0'' ''secret'' (Aware 0 0) [] []) (Aware 0 0) sample_db)"
    by (simp add: integrity_def constraint_defs enrolled_db_def sample_defs set_station_def
        update_where_def agent_record_def new_binding_def)
  moreover have "enrollment_by sample_db ''token'' = Some sample_token"
    by (simp add: enrollment_by_def sample_defs)
  ultimately show ?thesis
    unfolding sample_enrollment_def
    by (subst enroll_agent_claimed [OF integrity_sample_db, where t = sample_token and s = sample_station])
      (simp_all add: sample_defs)
qed

section \<open>A job to publish\<close>

text \<open>The enrolled station, a fresh snapshot of its processes, and a draft that selects it.\<close>

definition sample_job :: job_row where
  "sample_job =
     \<lparr>jr_id = 20, jr_idempotency_key = ''key'', jr_label = ''spring'', jr_description = None,
      jr_source_dataset = ''tank/golden'', jr_dry_run = False, jr_allow_hot_switch = False,
      jr_step = ''draft'', jr_status = DRAFT, jr_status_reason = None, jr_operator_id = None,
      jr_created_at = Aware 0 0, jr_started_at = None, jr_completed_at = None,
      jr_client_confirmation = None, jr_client_confirmation_at = None, jr_correlation_id = 21\<rparr>"

definition sample_target :: target_row where
  "sample_target =
     \<lparr>gr_id = 22, gr_job_id = 20, gr_station_id = 1, gr_selected_at = Some (Aware 0 0),
      gr_deselected_at = None, gr_preflight_status = None, gr_preflight_result = None,
      gr_old_version_id = None, gr_new_version_id = None, gr_old_mapping = None,
      gr_new_mapping = None, gr_switch_status = None, gr_verify_status = None,
      gr_error_code = None, gr_error_message = None, gr_progress_percent = 0\<rparr>"

definition sample_reading :: snapshot_row where
  "sample_reading =
     \<lparr>nr_station_id = 1, nr_captured_at = Aware 1000000 0, nr_received_at = Aware 1000000 0,
      nr_processes = [], nr_drives = [\<lparr>di_letter = ''D:'', di_present = True, di_free_bytes = Some 9\<rparr>],
      nr_agent_version = ''1.0'', nr_freshness_status = ''fresh''\<rparr>"

definition draft_db :: db where
  "draft_db = enrolled_sample_db\<lparr>process_snapshots := [sample_reading],
     publish_jobs := [sample_job], publish_targets := [sample_target]\<rparr>"

definition sample_policy :: preflight_policy where
  "sample_policy = \<lparr>pp_max_snapshot_age = 120000000, pp_required_drive_letter = ''D:'',
     pp_min_free_bytes = 5\<rparr>"

lemmas draft_defs =
  sample_job_def sample_target_def sample_reading_def draft_db_def sample_policy_def

lemma integrity_draft_db: "integrity draft_db"
  by (simp add: integrity_def constraint_defs sample_defs draft_defs)

end
