(* ===== verification/Lifecycle_Properties.thy ===== *)
theory Lifecycle_Properties
  imports Samples
begin

text \<open>
  What registration, enrollment and heartbeats guarantee together.
\<close>

section \<open>Enrollment\<close>

text \<open>Enrollment opens the door it promises: once an enrollment succeeded, the returned
  credential is accepted in a heartbeat of the returned station, whatever valid identity data
  the heartbeat carries, as long as the station is enabled, its clock is within the allowed skew
  and no other agent shares the credential's digest.\<close>

lemma enrolled_agent_accepted:
  assumes "integrity d"
    and "enroll_agent H raw aid now token agent_uuid hostname version ips macs d = (Inr r, d')"
    and "\<forall>a \<in> set (agents d). ar_credential_hash a \<noteq> Some (H raw)"
    and "station_by d (en_station_id r) = Some s" and "sr_enabled s" and "sr_deleted_at s = None"
    and "commands_readable d"
    and "normalize_hostname hostname' = Inr hn" and "normalize_ip_addresses ips' = Inr ns"
    and "normalize_mac_addresses macs' = Inr ms"
    and "\<bar>instant now' - instant (ps_captured_at snapshot)\<bar> \<le> HEARTBEAT_CLOCK_SKEW"
    and "ps_station_id snapshot = en_station_id r"
  shows "\<exists>cs d''. receive_heartbeat H now' (en_credential r) snapshot hostname' ips' macs' d' =
    (Inr \<lparr>hb_station_id = en_station_id r, hb_received_at = ensure_utc now', hb_commands = cs\<rparr>, d'')"
proof -
  obtain t s' where s': "s' \<in> set (stations d)"
    and r: "r = \<lparr>en_station_id = sr_station_id s', en_credential = raw, en_server_time = ensure_utc now\<rparr>"
    and d': "d' = enrolled_db t s' hostname
      (new_binding aid (sr_station_id s') agent_uuid version (H raw) (ensure_utc now) ips macs)
      (ensure_utc now) d"
    and ok': "integrity d'"
    using enroll_agent_Inr [OF assms(1,2)] by metis
  have "s' = s" using station_by_unique [OF assms(1) s'] assms(4) r by simp
  let ?b = "new_binding aid (sr_station_id s') agent_uuid version (H raw) (ensure_utc now) ips macs"
  have "filter (\<lambda>(a, s). ar_credential_hash a = Some (H raw)) (agent_join d') =
      [(agent_record ?b (sr_id s'), s'\<lparr>sr_hostname := hostname\<rparr>)]"
    unfolding d' by (rule enrolled_agent_found)
      (use ok' [unfolded d'] s' assms(3) in \<open>simp_all add: agent_record_def new_binding_def\<close>)
  moreover have "commands_readable d'" using assms(7) by (simp add: d' commands_readable_def)
  ultimately have "\<exists>cs d''. receive_heartbeat H now' raw snapshot hostname' ips' macs' d' =
      (Inr \<lparr>hb_station_id = sr_station_id (s'\<lparr>sr_hostname := hostname\<rparr>),
           hb_received_at = ensure_utc now', hb_commands = cs\<rparr>, d'')"
    using assms(5,6,12) \<open>s' = s\<close> r
    by (intro heartbeat_accepted [where H = H and credential = raw
          and a = "agent_record ?b (sr_id s')", OF ok' _ assms(8-11)])
      (simp_all add: agent_record_def new_binding_def)
  then show ?thesis using r by simp
qed

lemma enrolled_agent_accepted_witness:
  "\<exists>cs d''. receive_heartbeat (\<lambda>x. x) (Aware 2000000 0) ''secret'' sample_snapshot (Some '' pc-1 '')
      (Some [''10.0.0.7'']) None
      (snd sample_enrollment) =
    (Inr \<lparr>hb_station_id = 2, hb_received_at = Aware 2000000 0, hb_commands = cs\<rparr>, d'')"
  using enrolled_agent_accepted [OF integrity_sample_db
      sample_enrollment_eq [unfolded sample_enrollment_def], where s = sample_station
        and now' = "Aware 2000000 0" and snapshot = sample_snapshot
        and hostname' = "Some '' pc-1 ''" and ips' = "Some [''10.0.0.7'']" and macs' = None
        and hn = "Some ''pc-1''" and ns = "Some [''10.0.0.7'']" and ms = None]
  by (simp add: sample_enrollment_eq commands_readable_samples sample_addresses sample_bounds
      HEARTBEAT_CLOCK_SKEW_def minutes_def seconds_def)


section \<open>Tokens are claimed once\<close>

text \<open>An enrollment token works once: after a successful enrollment every further attempt
  with the same token, by whatever agent and at whatever time, is rejected and changes nothing.\<close>

lemma used_token_rejected:
  assumes "integrity d"
    and "enroll_agent H raw aid now token agent_uuid hostname version ips macs d = (Inr r, d')"
  shows "enroll_agent H raw' aid' now' token agent_uuid' hostname' version' ips' macs' d' =
    (Inl (EnrollmentRejectedError ''enrollment token is invalid or expired''), d')"
proof -
  obtain t where t: "enrollment_by d (H token) = Some t" and ok': "integrity d'"
    and d': "enrollment_tokens d' = update_where (\<lambda>x. er_id x = er_id t)
      (\<lambda>x. x\<lparr>er_used_at := Some (ensure_utc now)\<rparr>) (enrollment_tokens d)"
    using enroll_agent_Inr [OF assms] enrolled_db_sels(3) by metis
  have "enrollment_spent d' (H token)"
    using enrollment_by_use [OF t, of t "ensure_utc now"]
    by (simp add: enrollment_spent_def enrollment_by_def d')
  then show ?thesis
    by (intro enroll_agent_rejected enrollment.spent_refused [OF ok'])
qed

lemma used_token_rejected_witness:
  "enroll_agent (\<lambda>x. x) ''other'' 8 (Aware 5 0) ''token'' 9 ''pc-9'' ''1.0'' [] [] (snd sample_enrollment)
   = (Inl (EnrollmentRejectedError ''enrollment token is invalid or expired''), snd sample_enrollment)"
  using used_token_rejected [OF integrity_sample_db
      sample_enrollment_eq [unfolded sample_enrollment_def]]
  by (simp add: sample_enrollment_eq)

text \<open>C33. Both token stores are one-time: in any sequence of claims, at any times and with any
  other claims in between, each digest is granted at most once.\<close>

theorem tokens_granted_once:
  assumes "integrity d"
  shows "token_store.successes enrollment_consume h claims d \<le> 1
    \<and> token_store.successes provisioning_consume h claims d \<le> 1"
  using enrollment.at_most_one_success [OF assms] provisioning.at_most_one_success [OF assms]
  by blast

theorem tokens_granted_once_witness:
  "token_store.successes enrollment_consume ''token''
     [(''token'', Aware 1 0), (''x'', Aware 2 0), (''token'', Aware 3 0)] sample_db \<le> 1"
  by (rule conjunct1 [OF tokens_granted_once [OF integrity_sample_db]])

section \<open>Deletion\<close>

lemma deleted_station_row:
  assumes "integrity d" and "active_station_by d (sr_station_id s) = Some s"
    and "r \<in> set (stations (deleted_db s t d))" and "sr_station_id r = sr_station_id s"
  shows "r = removed_row t s"
proof -
  have s: "s \<in> set (stations d)" using assms(2) by (auto dest: active_station_by_SomeD)
  from assms(3) obtain x where x: "x \<in> set (stations d)"
    "r = (if sr_id x = sr_id s then removed_row t x else x)"
    unfolding deleted_db_eq [OF assms(2)] in_update_where by blast
  have "sr_station_id x = sr_station_id r" using x(2) by (simp add: removed_row_def)
  with assms(4) distinct_map_eq_iff [OF integrityD(2) [OF assms(1)] x(1) s] have "x = s" by simp
  with x(2) show ?thesis by simp
qed

text \<open>A deleted station is locked out: it is in no station list, no heartbeat for it is
  accepted whatever credential is presented, and no token enrolls an agent on it.\<close>

lemma deleted_station_locked_out:
  assumes "integrity d" and "delete_station sid now d = (Inr True, d')"
  shows "(stations_list b d' = (Inr xs, d1) \<longrightarrow> sid \<notin> st_station_id ` set xs)
    \<and> (receive_heartbeat H t credential snapshot hostname ips macs d' = (Inr hb, d1) \<longrightarrow>
         ps_station_id snapshot \<noteq> sid)
    \<and> (enroll_agent H raw aid t token agent_uuid hostname' version ips' macs' d' = (Inr en, d1) \<longrightarrow>
         en_station_id en \<noteq> sid)"
proof -
  obtain s where s: "active_station_by d sid = Some s" "sr_station_id s = sid"
    and d': "d' = deleted_db s (ensure_utc now) d" and ok': "integrity d'"
    using delete_station_Inr [OF assms(2)] by blast
  then have act: "active_station_by d (sr_station_id s) = Some s" by simp
  have row: "r = removed_row (ensure_utc now) s"
    if "r \<in> set (stations d')" "sr_station_id r = sid" for r
    using deleted_station_row [OF assms(1) act] that s(2) d' by simp
  then have gone: "sr_deleted_at r \<noteq> None" if "r \<in> set (stations d')" "sr_station_id r = sid" for r
    using that by (fastforce simp: removed_row_def)
  have lists: "sid \<notin> st_station_id ` set xs" if list: "stations_list b d' = (Inr xs, d1)"
  proof
    assume "sid \<in> st_station_id ` set xs"
    then obtain x where "x \<in> set xs" "st_station_id x = sid" by auto
    moreover have "mapR station_to_domain (order_by (\<lambda>r. (sr_display_name r, sr_station_id r))
          (filter (\<lambda>r. sr_deleted_at r = None \<and> (b \<or> sr_enabled r)) (stations d'))) = Inr xs"
      using list by (auto simp: stations_list_def)
    ultimately obtain r where "r \<in> set (stations d')" "sr_deleted_at r = None"
      "station_to_domain r = Inr x"
      using mapR_element by fastforce
    moreover from this \<open>st_station_id x = sid\<close> have "sr_station_id r = sid"
      by (auto simp: station_to_domain_Inr_iff)
    ultimately show False using gone by blast
  qed
  have heartbeats: "ps_station_id snapshot \<noteq> sid"
    if "receive_heartbeat H t credential snapshot hostname ips macs d' = (Inr hb, d1)"
    using heartbeat_Inr [OF ok' that] gone by metis
  have enrollments: "en_station_id en \<noteq> sid"
    if run: "enroll_agent H raw aid t token agent_uuid hostname' version ips' macs' d' = (Inr en, d1)"
  proof
    assume sid: "en_station_id en = sid"
    from enroll_agent_Inr [OF ok' run] obtain e s' where e: "enrollment_by d' (H token) = Some e"
      "s' \<in> set (stations d')" "sr_id s' = er_station_id e" "er_revoked_at e = None"
      "en_station_id en = sr_station_id s'"
      by (metis enrollment_result.select_convs(1))
    with row sid have "er_station_id e = sr_id s" by (fastforce simp: removed_row_def)
    moreover have "e \<in> set (enrollment_tokens d')"
      using e(1) by (auto simp: enrollment_by_def dest: find_SomeD)
    then obtain x where "e = (if er_station_id x = sr_id s \<and> er_revoked_at x = None
        then x\<lparr>er_revoked_at := Some (ensure_utc now)\<rparr> else x)"
      unfolding d' deleted_db_eq(3) [OF act] in_update_where by blast
    ultimately show False using e(4) by (auto split: if_splits)
  qed
  from lists heartbeats enrollments show ?thesis by blast
qed

lemma deleted_station_locked_out_witness:
  "2 \<notin> st_station_id ` set (projr (fst (stations_list True (snd (delete_station 2 (Aware 7 0) sample_db)))))"
proof -
  let ?r = "delete_station 2 (Aware 7 0) sample_db"
  have r: "?r = (Inr True, snd ?r)" and l: "stations_list True (snd ?r) = (Inr [], snd ?r)"
    by (simp_all add: delete_station_def sx_simps stations_delete_def active_station_by_def
        sample_defs integrity_def constraint_defs set_station_def update_where_def removed_row_def
        stations_list_def)
  show ?thesis using deleted_station_locked_out [OF integrity_sample_db r] l by simp
qed


section \<open>Heartbeats\<close>

lemma claimed_commands:
  assumes "commands_claim_for_agent aid now lease_for limit d = (Inr cs, d')" and "c \<in> set cs"
  obtains q where "q \<in> set (agent_commands d)" and "cm_agent_id q = aid"
    and "command_due (instant now) q" and "ac_id c = cm_id q" and "ac_agent_id c = aid"
    and "ac_status c = CMD_LEASED" and "ac_lease_until c = Some (ensure_utc (dt_plus now lease_for))"
    and "ac_expires_at c = ensure_utc (cm_expires_at q)" and "ac_attempts c = cm_attempts q + 1"
proof -
  have "mapR command_to_domain (map (leased_command (dt_plus now lease_for))
      (claimable_commands aid (instant now) limit d)) = Inr cs"
    using assms(1) by (auto simp: commands_claim_for_agent_def Let_def split: if_splits)
  from mapR_element [OF this assms(2)] obtain q where
    q: "q \<in> set (claimable_commands aid (instant now) limit d)"
    "command_to_domain (leased_command (dt_plus now lease_for) q) = Inr c" by auto
  from claimable_commands_set [OF q(1)] q(2) that show ?thesis
    by (auto simp: command_to_domain_def command_status_of_def split: sum.splits)
qed

text \<open>C34. A heartbeat is accepted only from the station's own agent with a live credential and a
  sane clock; it hands out at most 16 commands, every one a command of this agent that had not
  expired and was free, now leased for 30 seconds.\<close>

theorem heartbeat_authenticated:
  assumes "integrity d"
    and "receive_heartbeat H now credential snapshot hostname ips macs d = (Inr r, d')"
  shows "(\<exists>a \<in> set (agents d). \<exists>s \<in> set (stations d).
      ar_credential_hash a = Some (H credential) \<and> ar_station_id a = sr_id s
      \<and> ar_revoked_at a = None \<and> sr_enabled s \<and> sr_deleted_at s = None
      \<and> sr_station_id s = ps_station_id snapshot \<and> hb_station_id r = sr_station_id s
      \<and> (\<forall>c \<in> set (hb_commands r).
            ac_agent_id c = ar_id a \<and> ac_status c = CMD_LEASED
            \<and> ac_lease_until c = Some (dt_plus (ensure_utc now) (seconds 30))
            \<and> (\<exists>q \<in> set (agent_commands d). cm_id q = ac_id c \<and> command_due (instant now) q)))
    \<and> length (hb_commands r) \<le> 16 \<and> distinct (map ac_id (hb_commands r))
    \<and> \<bar>instant now - instant (ps_captured_at snapshot)\<bar> \<le> minutes 5"
proof -
  obtain a s hn ns ms where
    skew: "\<bar>instant now - instant (ps_captured_at snapshot)\<bar> \<le> HEARTBEAT_CLOCK_SKEW"
    and f: "filter (\<lambda>(a, s). ar_credential_hash a = Some (H credential)) (agent_join d) = [(a, s)]"
    and mem: "a \<in> set (agents d)" "s \<in> set (stations d)" "sr_id s = ar_station_id a"
    and live: "ar_revoked_at a = None" "sr_enabled s" "sr_deleted_at s = None"
    and sid: "sr_station_id s = ps_station_id snapshot" "hb_station_id r = sr_station_id s"
    and claim: "commands_claim_for_agent (ar_id a) (ensure_utc now) AGENT_COMMAND_LEASE
       AGENT_COMMAND_BATCH_SIZE (heartbeat_db a s
         (snapshot\<lparr>ps_captured_at := ensure_utc (ps_captured_at snapshot)\<rparr>)
         (ensure_utc now) hn ns ms d) = (Inr (hb_commands r), d')"
    by (rule heartbeat_Inr [OF assms]) blast
  let ?d1 = "heartbeat_db a s (snapshot\<lparr>ps_captured_at := ensure_utc (ps_captured_at snapshot)\<rparr>)
         (ensure_utc now) hn ns ms d"
  have ids: "map ac_id (hb_commands r) =
      map cm_id (claimable_commands (ar_id a) (instant now) AGENT_COMMAND_BATCH_SIZE ?d1)"
    using claim_command_Inr(3) [OF claim] by simp
  have "length (hb_commands r) \<le> 16"
    using arg_cong [OF ids, of length]
    by (simp add: claimable_commands_def AGENT_COMMAND_BATCH_SIZE_def)
  moreover have "distinct (map ac_id (hb_commands r))"
    unfolding ids
    by (rule distinct_claimable_commands [OF integrity_heartbeat_db [OF assms(1) mem(2)]])
  moreover have "ar_credential_hash a = Some (H credential)"
    using arg_cong [OF f, of "\<lambda>l. (a, s) \<in> set l"] by simp
  moreover have "ac_agent_id c = ar_id a \<and> ac_status c = CMD_LEASED
      \<and> ac_lease_until c = Some (dt_plus (ensure_utc now) (seconds 30))
      \<and> (\<exists>q \<in> set (agent_commands d). cm_id q = ac_id c \<and> command_due (instant now) q)"
    if "c \<in> set (hb_commands r)" for c
    using claimed_commands [OF claim that]
    by (metis AGENT_COMMAND_LEASE_def ensure_utc_dt_plus ensure_utc_idem heartbeat_db_sels(4)
        instant_ensure_utc)
  ultimately show ?thesis
    using mem live sid skew by (metis HEARTBEAT_CLOCK_SKEW_def)
qed

text \<open>The enrolled sample station sends a heartbeat and receives its one command.\<close>

lemma sample_heartbeat:
  "\<exists>r d'. receive_heartbeat (\<lambda>x. x) (Aware 2000000 0) ''secret'' sample_snapshot None None None
     enrolled_sample_db = (Inr r, d') \<and> hb_station_id r = 2"
proof -
  have "filter (\<lambda>(a, s). ar_credential_hash a = Some ''secret'') (agent_join enrolled_sample_db) =
      [(sample_agent, sample_station)]"
    by (simp add: agent_join_def sample_defs)
  from heartbeat_accepted [where H = "\<lambda>x. x" and credential = "''secret''",
      OF integrity_enrolled_sample_db commands_readable_samples(2) _ _ _ _ this,
      of None None None None None None "Aware 2000000 0" sample_snapshot]
  show ?thesis
    by (auto simp: normalize_hostname_def normalize_ip_addresses_def normalize_mac_addresses_def
        normalize_list_def sample_bounds HEARTBEAT_CLOCK_SKEW_def minutes_def seconds_def)
      (auto simp: sample_defs)
qed

theorem heartbeat_authenticated_witness:
  "\<exists>r d'. receive_heartbeat (\<lambda>x. x) (Aware 2000000 0) ''secret'' sample_snapshot None None None
     enrolled_sample_db = (Inr r, d') \<and> length (hb_commands r) \<le> 16"
  using sample_heartbeat heartbeat_authenticated [OF integrity_enrolled_sample_db] by blast


lemma take_one_order_by:
  assumes "\<And>y. y \<in> set xs \<Longrightarrow> key x < key y"
  shows "take 1 (order_by key (xs @ [x])) = [x]"
proof -
  let ?s = "order_by key (xs @ [x])"
  have ne: "?s \<noteq> []" by (metis length_0_conv length_order_by append_is_Nil_conv not_Cons_self2)
  have le: "key (hd ?s) \<le> key y" if "y \<in> set ?s" for y
  proof -
    have "sorted (map key (hd ?s # tl ?s))" using sorted_order_by [of key "xs @ [x]"] ne by simp
    moreover have "y = hd ?s \<or> y \<in> set (tl ?s)" using that ne by (cases ?s) auto
    ultimately show ?thesis by auto
  qed
  have "hd ?s \<in> set (xs @ [x])" using ne by (metis hd_in_set set_order_by)
  moreover have "hd ?s \<notin> set xs" using le [of x] assms [of "hd ?s"] by auto
  ultimately have "hd ?s = x" by simp
  with ne show ?thesis by (cases ?s) simp_all
qed

lemma snapshot_join_append:
  assumes "integrity d'" and "process_snapshots d' = ns @ [n]" and "s \<in> set (stations d')"
    and "sr_id s = nr_station_id n"
  shows "snapshot_join d' = snapshot_join (d'\<lparr>process_snapshots := ns\<rparr>) @ [(n, s)]"
  using filter_unique [OF integrityD(1) [OF assms(1)] assms(3)] assms(2,4)
  by (simp add: snapshot_join_def)

text \<open>The snapshot of an accepted heartbeat is the one that preflight reads: if it was
  received after every stored snapshot of the station, \<open>latest\<close> returns exactly what the agent
  sent, with the capture time in UTC and the time of receipt.\<close>

lemma heartbeat_becomes_latest:
  assumes "integrity d"
    and "receive_heartbeat H now credential snapshot hostname ips macs d = (Inr r, d')"
    and "\<forall>(n, s) \<in> set (snapshot_join d). sr_station_id s = ps_station_id snapshot
           \<longrightarrow> instant (nr_received_at n) < instant now"
  shows "fst (snapshots_latest (ps_station_id snapshot) d') =
    Inr (Some (snapshot\<lparr>ps_captured_at := ensure_utc (ps_captured_at snapshot),
                        ps_received_at := Some (ensure_utc now)\<rparr>))"
proof -
  let ?snap = "snapshot\<lparr>ps_captured_at := ensure_utc (ps_captured_at snapshot)\<rparr>"
  obtain a s hn ns ms where s: "s \<in> set (stations d)" "sr_station_id s = ps_station_id snapshot"
    and claim: "commands_claim_for_agent (ar_id a) (ensure_utc now) AGENT_COMMAND_LEASE
       AGENT_COMMAND_BATCH_SIZE (heartbeat_db a s ?snap (ensure_utc now) hn ns ms d)
       = (Inr (hb_commands r), d')"
    and ok': "integrity d'"
    by (rule heartbeat_Inr [OF assms(1,2)]) blast
  let ?n = "snapshot_record ?snap (sr_id s) (ensure_utc now)"
  let ?P = "\<lambda>(n, s). sr_station_id s = ps_station_id snapshot"
  have snaps: "process_snapshots d' = process_snapshots d @ [?n]"
    and sts: "stations d' = update_where (\<lambda>r. sr_id r = sr_id s) (online_row hn) (stations d)"
    using claim_command_Inr(4) [OF claim] by simp_all
  have s': "online_row hn s \<in> set (stations d')"
    using s(1) unfolding sts in_update_where by (intro bexI [of _ s]) simp_all
  have join: "snapshot_join d' =
      snapshot_join (d'\<lparr>process_snapshots := process_snapshots d\<rparr>) @ [(?n, online_row hn s)]"
    by (rule snapshot_join_append [OF ok' snaps s'])
      (simp add: online_row_def snapshot_record_def)
  have older: "snapshot_order (?n, online_row hn s) < snapshot_order row"
    if "row \<in> set (filter ?P (snapshot_join (d'\<lparr>process_snapshots := process_snapshots d\<rparr>)))" for row
  proof -
    obtain n t where row: "row = (n, t)" by fastforce
    with that have n: "n \<in> set (process_snapshots d)" "t \<in> set (stations d')"
      "sr_id t = nr_station_id n" "sr_station_id t = ps_station_id snapshot"
      by (auto simp: set_snapshot_join)
    from n(2) obtain u where u: "u \<in> set (stations d)"
      "t = (if sr_id u = sr_id s then online_row hn u else u)"
      unfolding sts in_update_where by blast
    then have "sr_id u = sr_id t" "sr_station_id u = sr_station_id t"
      by (auto simp: online_row_def)
    with u(1) n have "(n, u) \<in> set (snapshot_join d)" "sr_station_id u = ps_station_id snapshot"
      by (simp_all add: set_snapshot_join)
    with assms(3) have "instant (nr_received_at n) < instant now" by blast
    then show ?thesis by (simp add: row snapshot_order_def snapshot_record_def)
  qed
  have "?P (?n, online_row hn s)" using s(2) by (simp add: online_row_def)
  then have "take 1 (order_by snapshot_order (filter ?P (snapshot_join d'))) = [(?n, online_row hn s)]"
    unfolding join filter_append using take_one_order_by [where key = snapshot_order and
        xs = "filter ?P (snapshot_join (d'\<lparr>process_snapshots := process_snapshots d\<rparr>))", OF older]
    by simp
  then show ?thesis
    using s(2) by (simp add: snapshots_latest_def row_snapshot_def snapshot_record_def online_row_def)
qed

lemma heartbeat_becomes_latest_witness:
  "\<exists>r d'. receive_heartbeat (\<lambda>x. x) (Aware 2000000 0) ''secret'' sample_snapshot None None None
     enrolled_sample_db = (Inr r, d')
   \<and> fst (snapshots_latest (ps_station_id sample_snapshot) d') =
     Inr (Some (sample_snapshot\<lparr>ps_captured_at := ensure_utc (ps_captured_at sample_snapshot),
                               ps_received_at := Some (ensure_utc (Aware 2000000 0))\<rparr>))"
proof -
  have "snapshot_join enrolled_sample_db = []" by (simp add: snapshot_join_def sample_defs)
  moreover obtain r d' where run: "receive_heartbeat (\<lambda>x. x) (Aware 2000000 0) ''secret''
      sample_snapshot None None None enrolled_sample_db = (Inr r, d')"
    using sample_heartbeat by blast
  ultimately have "fst (snapshots_latest (ps_station_id sample_snapshot) d') =
     Inr (Some (sample_snapshot\<lparr>ps_captured_at := ensure_utc (ps_captured_at sample_snapshot),
                               ps_received_at := Some (ensure_utc (Aware 2000000 0))\<rparr>))"
    by (intro heartbeat_becomes_latest [OF integrity_enrolled_sample_db run]) simp
  with run show ?thesis by blast
qed

section \<open>Addresses\<close>

text \<open>What a heartbeat stores as addresses is normalised: the cleaned candidates in order
  without repetition, all valid, at most 16 (a MAC address has exactly 17 characters), and
  normalising them again changes nothing; the input is refused only for an invalid candidate or
  for more than 16 different ones.\<close>

lemma addresses_normalised:
  "(case normalize_ip_addresses (Some vs) of
      Inr ys \<Rightarrow> ys = Some (dict_fromkeys (map strip vs)) \<and> normalize_ip_addresses ys = Inr ys
        \<and> (\<forall>y \<in> set (the ys). ip_valid y) \<and> length (the ys) \<le> 16
    | Inl e \<Rightarrow> (\<exists>v \<in> set vs. \<not> ip_valid (strip v)) \<or> 16 < card (strip ` set vs))
   \<and> (case normalize_mac_addresses (Some vs) of
      Inr ys \<Rightarrow> ys = Some (dict_fromkeys (map (py_upper \<circ> strip) vs)) \<and> normalize_mac_addresses ys = Inr ys
        \<and> (\<forall>y \<in> set (the ys). mac_valid y \<and> length y = 17) \<and> length (the ys) \<le> 16
    | Inl e \<Rightarrow> (\<exists>v \<in> set vs. \<not> mac_valid (py_upper (strip v)))
        \<or> 16 < card ((py_upper \<circ> strip) ` set vs))"
proof -
  have len: "length (dict_fromkeys xs) = card (set xs)" for xs :: "string list"
    by (metis distinct_card distinct_dict_fromkeys set_dict_fromkeys)
  have ip: "normalize_ip_addresses (Some ys) = Inr (Some ys)"
    if "normalize_ip_addresses vals = Inr (Some ys)" for vals ys
    using that unfolding normalize_ip_addresses_def by (rule normalize_list_idem) simp
  have mac: "normalize_mac_addresses (Some ys) = Inr (Some ys)"
    if "normalize_mac_addresses vals = Inr (Some ys)" for vals ys
    using that unfolding normalize_mac_addresses_def
    by (rule normalize_list_idem) (simp add: mac_clean_idem)
  have "normalize_ip_addresses (Some vs) =
      (if \<not> (\<forall>v \<in> set vs. ip_valid (strip v))
       then Inl (HeartbeatRejectedError ''agent IP address is invalid'')
       else if card (strip ` set vs) > 16
       then Inl (HeartbeatRejectedError ''too many agent IP addresses'')
       else Inr (Some (dict_fromkeys (map strip vs))))"
    by (simp add: normalize_ip_addresses_def normalize_list_Some len)
  moreover have "normalize_mac_addresses (Some vs) =
      (if \<not> (\<forall>v \<in> set vs. mac_valid (py_upper (strip v)))
       then Inl (HeartbeatRejectedError ''agent MAC address is invalid'')
       else if card ((py_upper \<circ> strip) ` set vs) > 16
       then Inl (HeartbeatRejectedError ''too many agent MAC addresses'')
       else Inr (Some (dict_fromkeys (map (py_upper \<circ> strip) vs))))"
    by (simp add: normalize_mac_addresses_def normalize_list_Some len comp_def)
  ultimately show ?thesis
    using ip [of "Some vs"] mac [of "Some vs"]
    by (auto simp: len length_mac split: if_splits)
qed

lemma addresses_normalised_witness:
  "normalize_mac_addresses (Some [''aa-bb-cc-00-11-22'', '' AA-BB-CC-00-11-22'']) =
     Inr (Some [''AA-BB-CC-00-11-22''])
   \<and> mac_valid ''AA-BB-CC-00-11-22''"
proof -
  have r: "normalize_mac_addresses (Some [''aa-bb-cc-00-11-22'', '' AA-BB-CC-00-11-22'']) =
     Inr (Some [''AA-BB-CC-00-11-22''])" by code_simp
  from conjunct2 [OF addresses_normalised [of "[''aa-bb-cc-00-11-22'', '' AA-BB-CC-00-11-22'']"]]
  have "\<forall>y \<in> set (the (Some [''AA-BB-CC-00-11-22''])). mac_valid y \<and> length y = 17"
    unfolding r sum.case by blast
  with r show ?thesis by simp
qed

end
