(* ===== verification/Publish_Repo.thy ===== *)
theory Publish_Repo
  imports Station_Repo
begin

text \<open>
  \<open>repository/rules.py\<close>, \<open>repository/publish_jobs.py\<close>, \<open>repository/publish_targets.py\<close> and
  \<open>repository/publish_artifacts.py\<close>, with the registry invariant of artifacts: a station has at
  most one current artifact and a deleted one is not current.  \<open>clock\<close> is what \<open>utc_now()\<close>
  returns in the call.
\<close>

section \<open>Process rules\<close>

definition row_rule :: "rule_row \<Rightarrow> process_rule" where
  "row_rule r =
     \<lparr>pr_id = Some (rr_id r), pr_name = rr_name r, pr_role = rr_role r,
      pr_required_closed = rr_required_closed r, pr_severity = rr_severity r,
      pr_enabled = rr_enabled r, pr_persistent_policy = rr_persistent_policy r\<rparr>"

definition rules_list_all :: "(db, process_rule list) sx" where
  "rules_list_all = (\<lambda>d.
     (Inr (map row_rule (order_by (\<lambda>r. (rr_name r, rr_id r)) (process_rules d))), d))"

definition rules_list_for_role :: "station_role \<Rightarrow> (db, process_rule list) sx" where
  "rules_list_for_role role = (\<lambda>d.
     (Inr (map row_rule (order_by (\<lambda>r. (rr_name r, rr_id r))
        (filter (\<lambda>r. rr_enabled r \<and> (rr_role r = None \<or> rr_role r = Some role))
          (process_rules d)))), d))"

text \<open>\<open>fresh\<close> is the column default for a rule without an id.\<close>

definition rules_add :: "uuid \<Rightarrow> process_rule \<Rightarrow> (db, unit) sx" where
  "rules_add fresh r = (\<lambda>d.
     (Inr (), d\<lparr>process_rules := process_rules d @
        [\<lparr>rr_id = (case pr_id r of None \<Rightarrow> fresh | Some i \<Rightarrow> i), rr_name = pr_name r,
          rr_role = pr_role r, rr_required_closed = pr_required_closed r,
          rr_severity = pr_severity r, rr_enabled = pr_enabled r,
          rr_persistent_policy = pr_persistent_policy r\<rparr>]\<rparr>))"

definition rules_delete :: "uuid \<Rightarrow> (db, bool) sx" where
  "rules_delete rule_id = (\<lambda>d.
     (Inr (length (filter (\<lambda>r. rr_id r = rule_id) (process_rules d)) = 1),
      d\<lparr>process_rules := filter (\<lambda>r. rr_id r \<noteq> rule_id) (process_rules d)\<rparr>))"

section \<open>Jobs\<close>

definition row_job :: "job_row \<Rightarrow> publish_job" where
  "row_job r =
     \<lparr>pj_id = jr_id r, pj_idempotency_key = jr_idempotency_key r,
      pj_correlation_id = jr_correlation_id r, pj_label = jr_label r,
      pj_source_dataset = jr_source_dataset r, pj_dry_run = jr_dry_run r,
      pj_allow_hot_switch = jr_allow_hot_switch r, pj_status = jr_status r,
      pj_description = jr_description r, pj_status_reason = jr_status_reason r,
      pj_operator_id = jr_operator_id r, pj_client_confirmation = jr_client_confirmation r,
      pj_client_confirmation_at = map_option ensure_utc (jr_client_confirmation_at r),
      pj_created_at = Some (ensure_utc (jr_created_at r)),
      pj_started_at = map_option ensure_utc (jr_started_at r),
      pj_completed_at = map_option ensure_utc (jr_completed_at r)\<rparr>"

definition row_history :: "job_row \<Rightarrow> publish_job_history" where
  "row_history r =
     \<lparr>jh_id = jr_id r, jh_label = jr_label r, jh_source_dataset = jr_source_dataset r,
      jh_status = jr_status r, jh_status_reason = jr_status_reason r, jh_dry_run = jr_dry_run r,
      jh_created_at = ensure_utc (jr_created_at r),
      jh_completed_at = map_option ensure_utc (jr_completed_at r)\<rparr>"

definition job_by :: "db \<Rightarrow> uuid \<Rightarrow> job_row option" where
  "job_by d jid = find (\<lambda>r. jr_id r = jid) (publish_jobs d)"

definition jobs_get :: "uuid \<Rightarrow> (db, publish_job option) sx" where
  "jobs_get jid = (\<lambda>d. (Inr (map_option row_job (job_by d jid)), d))"

definition jobs_get_by_idempotency_key :: "string \<Rightarrow> (db, publish_job option) sx" where
  "jobs_get_by_idempotency_key key = (\<lambda>d.
     (Inr (map_option row_job (find (\<lambda>r. jr_idempotency_key r = key) (publish_jobs d))), d))"

definition jobs_list_recent :: "int \<Rightarrow> (db, publish_job_history list) sx" where
  "jobs_list_recent limit = (\<lambda>d.
     (Inr (map row_history (take (nat limit)
        (order_by (\<lambda>r. (- instant (jr_created_at r), - uint (jr_id r))) (publish_jobs d)))), d))"

definition job_record :: "datetime \<Rightarrow> publish_job \<Rightarrow> job_row" where
  "job_record clock j =
     \<lparr>jr_id = pj_id j, jr_idempotency_key = pj_idempotency_key j, jr_label = pj_label j,
      jr_description = pj_description j, jr_source_dataset = pj_source_dataset j,
      jr_dry_run = pj_dry_run j, jr_allow_hot_switch = pj_allow_hot_switch j,
      jr_step = job_status_value (pj_status j), jr_status = pj_status j,
      jr_status_reason = pj_status_reason j, jr_operator_id = pj_operator_id j,
      jr_created_at = (case pj_created_at j of None \<Rightarrow> clock | Some t \<Rightarrow> t),
      jr_started_at = None, jr_completed_at = None,
      jr_client_confirmation = pj_client_confirmation j,
      jr_client_confirmation_at = pj_client_confirmation_at j,
      jr_correlation_id = pj_correlation_id j\<rparr>"

definition jobs_add :: "datetime \<Rightarrow> publish_job \<Rightarrow> (db, unit) sx" where
  "jobs_add clock j = (\<lambda>d. (Inr (), d\<lparr>publish_jobs := publish_jobs d @ [job_record clock j]\<rparr>))"

definition updated_job_row :: "datetime \<Rightarrow> publish_job \<Rightarrow> job_row \<Rightarrow> job_row" where
  "updated_job_row clock j r =
     (let changed = jr_status r \<noteq> pj_status j
      in r\<lparr>jr_label := pj_label j, jr_description := pj_description j,
           jr_source_dataset := pj_source_dataset j, jr_dry_run := pj_dry_run j,
           jr_allow_hot_switch := pj_allow_hot_switch j,
           jr_step := job_status_value (pj_status j), jr_status := pj_status j,
           jr_status_reason := pj_status_reason j, jr_operator_id := pj_operator_id j,
           jr_client_confirmation := pj_client_confirmation j,
           jr_client_confirmation_at := pj_client_confirmation_at j,
           jr_started_at :=
             (if changed \<and> pj_status j = PUBLISHING \<and> jr_started_at r = None
              then Some clock else jr_started_at r),
           jr_completed_at :=
             (if changed \<and> pj_status j \<in> {COMPLETED, PARTIAL_FAILURE, FAILED}
              then Some clock else jr_completed_at r)\<rparr>)"

definition jobs_update :: "datetime \<Rightarrow> publish_job \<Rightarrow> (db, unit) sx" where
  "jobs_update clock j = (\<lambda>d.
     case job_by d (pj_id j) of
       None \<Rightarrow> (Inl (ValueError ''publish job not found''), d)
     | Some r \<Rightarrow>
         (Inr (), d\<lparr>publish_jobs :=
            update_where (\<lambda>r. jr_id r = pj_id j) (updated_job_row clock j) (publish_jobs d)\<rparr>))"

section \<open>Targets\<close>

definition target_join :: "db \<Rightarrow> (target_row \<times> station_row) list" where
  "target_join d =
     concat (map (\<lambda>t. map (Pair t) (filter (\<lambda>s. sr_id s = gr_station_id t) (stations d)))
       (publish_targets d))"

definition row_target :: "target_row \<times> station_row \<Rightarrow> publish_target" where
  "row_target row =
     (case row of (r, station) \<Rightarrow>
       \<lparr>tg_id = gr_id r, tg_job_id = gr_job_id r, tg_station_id = sr_station_id station,
        tg_selected = (gr_deselected_at r = None),
        tg_preflight_status = gr_preflight_status r, tg_preflight_result = gr_preflight_result r,
        tg_old_version_id = gr_old_version_id r, tg_new_version_id = gr_new_version_id r,
        tg_old_mapping = gr_old_mapping r, tg_new_mapping = gr_new_mapping r,
        tg_switch_status = gr_switch_status r, tg_verify_status = gr_verify_status r,
        tg_error_code = gr_error_code r, tg_error_message = gr_error_message r,
        tg_progress_percent = gr_progress_percent r\<rparr>)"

definition target_order :: "target_row \<times> station_row \<Rightarrow> (int \<times> int) \<times> uuid" where
  "target_order row = (nulls_last (gr_selected_at (fst row)), sr_station_id (snd row))"

definition targets_list_for_job :: "uuid \<Rightarrow> (db, publish_target list) sx" where
  "targets_list_for_job jid = (\<lambda>d.
     (mapR (\<lambda>row. mk_target (row_target row))
        (order_by target_order (filter (\<lambda>(t, s). gr_job_id t = jid) (target_join d))), d))"

definition target_record :: "datetime \<Rightarrow> publish_target \<Rightarrow> uuid \<Rightarrow> target_row" where
  "target_record clock t station_pk =
     \<lparr>gr_id = tg_id t, gr_job_id = tg_job_id t, gr_station_id = station_pk,
      gr_selected_at = (if tg_selected t then Some clock else None),
      gr_deselected_at = (if tg_selected t then None else Some clock),
      gr_preflight_status = tg_preflight_status t, gr_preflight_result = tg_preflight_result t,
      gr_old_version_id = tg_old_version_id t, gr_new_version_id = tg_new_version_id t,
      gr_old_mapping = tg_old_mapping t, gr_new_mapping = tg_new_mapping t,
      gr_switch_status = tg_switch_status t, gr_verify_status = tg_verify_status t,
      gr_error_code = tg_error_code t, gr_error_message = tg_error_message t,
      gr_progress_percent = tg_progress_percent t\<rparr>"

definition targets_add :: "datetime \<Rightarrow> publish_target \<Rightarrow> (db, unit) sx" where
  "targets_add clock t = (\<lambda>d.
     case station_by d (tg_station_id t) of
       None \<Rightarrow> (Inl (ValueError ''station not found''), d)
     | Some st \<Rightarrow>
         (Inr (), d\<lparr>publish_targets := publish_targets d @ [target_record clock t (sr_id st)]\<rparr>))"

text \<open>One reading of the clock stands for the \<open>utc_now()\<close> of each target: targets added together have
  the same selection time, so they are listed in the order of their stations, where readings that
  differ would list them in the order they were added.\<close>

definition targets_add_many :: "datetime \<Rightarrow> publish_target list \<Rightarrow> (db, unit) sx" where
  "targets_add_many clock ts = forS (targets_add clock) ts"

definition updated_target_row :: "publish_target \<Rightarrow> target_row \<Rightarrow> target_row" where
  "updated_target_row t r =
     r\<lparr>gr_preflight_status := tg_preflight_status t, gr_preflight_result := tg_preflight_result t,
       gr_old_version_id := tg_old_version_id t, gr_new_version_id := tg_new_version_id t,
       gr_old_mapping := tg_old_mapping t, gr_new_mapping := tg_new_mapping t,
       gr_switch_status := tg_switch_status t, gr_verify_status := tg_verify_status t,
       gr_error_code := tg_error_code t, gr_error_message := tg_error_message t,
       gr_progress_percent := tg_progress_percent t\<rparr>"

definition targets_update :: "publish_target \<Rightarrow> (db, unit) sx" where
  "targets_update t = (\<lambda>d.
     case find (\<lambda>r. gr_id r = tg_id t) (publish_targets d) of
       None \<Rightarrow> (Inl (ValueError ''publish target not found''), d)
     | Some r \<Rightarrow>
         if gr_job_id r \<noteq> tg_job_id t
         then (Inl (ValueError ''publish target not found''), d)
         else (Inr (), d\<lparr>publish_targets :=
                 update_where (\<lambda>r. gr_id r = tg_id t) (updated_target_row t)
                   (publish_targets d)\<rparr>))"

section \<open>Artifacts\<close>

definition artifact_to_domain :: "artifact_row \<Rightarrow> publish_artifact" where
  "artifact_to_domain r =
     r\<lparr>pa_created_at := ensure_utc (pa_created_at r),
       pa_deleted_at := map_option ensure_utc (pa_deleted_at r)\<rparr>"

definition artifacts_list_for_job :: "uuid \<Rightarrow> (db, publish_artifact list) sx" where
  "artifacts_list_for_job jid = (\<lambda>d.
     (Inr (map artifact_to_domain (order_by (\<lambda>r. (instant (pa_created_at r), pa_station_id r))
        (filter (\<lambda>r. pa_job_id r = jid) (publish_artifacts d)))), d))"

definition artifacts_list_all :: "bool \<Rightarrow> (db, publish_artifact list) sx" where
  "artifacts_list_all include_deleted = (\<lambda>d.
     (Inr (map artifact_to_domain (order_by (\<lambda>r. (- instant (pa_created_at r), pa_station_id r))
        (filter (\<lambda>r. include_deleted \<or> pa_status r \<noteq> ART_DELETED) (publish_artifacts d)))), d))"

definition artifacts_list_by_ids :: "uuid list \<Rightarrow> (db, publish_artifact list) sx" where
  "artifacts_list_by_ids ids = (\<lambda>d.
     (Inr (if ids = [] then []
           else map artifact_to_domain (filter (\<lambda>r. pa_id r \<in> set ids) (publish_artifacts d))), d))"

definition saved_artifact_row :: "publish_artifact \<Rightarrow> artifact_row \<Rightarrow> artifact_row" where
  "saved_artifact_row a r =
     r\<lparr>pa_source_dataset := pa_source_dataset a, pa_dataset_name := pa_dataset_name a,
       pa_snapshot_ref := pa_snapshot_ref a, pa_mapping_ref := pa_mapping_ref a,
       pa_status := pa_status a, pa_is_current := pa_is_current a,
       pa_deleted_at := pa_deleted_at a, pa_last_error := pa_last_error a\<rparr>"

definition artifacts_save :: "publish_artifact \<Rightarrow> (db, unit) sx" where
  "artifacts_save a = (\<lambda>d.
     case find (\<lambda>r. pa_job_id r = pa_job_id a \<and> pa_station_id r = pa_station_id a)
            (publish_artifacts d) of
       None \<Rightarrow> (Inr (), d\<lparr>publish_artifacts := publish_artifacts d @ [a]\<rparr>)
     | Some record \<Rightarrow>
         (Inr (), d\<lparr>publish_artifacts :=
            update_where (\<lambda>r. pa_id r = pa_id record) (saved_artifact_row a)
              (publish_artifacts d)\<rparr>))"

definition artifacts_retire_station_artifacts :: "uuid \<Rightarrow> uuid \<Rightarrow> (db, unit) sx" where
  "artifacts_retire_station_artifacts sid except_id = (\<lambda>d.
     (Inr (), d\<lparr>publish_artifacts :=
        update_where (\<lambda>r. pa_station_id r = sid \<and> pa_id r \<noteq> except_id \<and> pa_is_current r)
          (\<lambda>r. r\<lparr>pa_is_current := False, pa_status := ART_RETIRED\<rparr>) (publish_artifacts d)\<rparr>))"

definition current_artifact_row :: "uuid option \<Rightarrow> artifact_row \<Rightarrow> artifact_row" where
  "current_artifact_row artifact_id r =
     (if pa_status r = ART_DELETED then r\<lparr>pa_is_current := False\<rparr>
      else if Some (pa_id r) = artifact_id
        then r\<lparr>pa_is_current := True, pa_status := ART_CURRENT, pa_deleted_at := None,
               pa_last_error := None\<rparr>
      else r\<lparr>pa_is_current := False,
             pa_status := (if pa_status r = ART_CURRENT then ART_RETIRED else pa_status r)\<rparr>)"

definition artifacts_set_current :: "uuid \<Rightarrow> uuid option \<Rightarrow> (db, unit) sx" where
  "artifacts_set_current sid artifact_id = (\<lambda>d.
     (Inr (), d\<lparr>publish_artifacts :=
        update_where (\<lambda>r. pa_station_id r = sid) (current_artifact_row artifact_id)
          (publish_artifacts d)\<rparr>))"

definition cleanup_candidate :: "int \<Rightarrow> artifact_row \<Rightarrow> bool" where
  "cleanup_candidate before r =
     (\<not> pa_is_current r \<and> pa_status r \<in> {ART_RETIRED, ART_CLEANUP_FAILED}
      \<and> pa_dataset_name r \<noteq> pa_source_dataset r \<and> instant (pa_created_at r) \<le> before)"

definition artifacts_list_cleanup_candidates ::
    "datetime \<Rightarrow> int \<Rightarrow> (db, publish_artifact list) sx" where
  "artifacts_list_cleanup_candidates before limit = (\<lambda>d.
     (Inr (map artifact_to_domain (take (nat limit) (order_by (\<lambda>r. instant (pa_created_at r))
        (filter (cleanup_candidate (instant before)) (publish_artifacts d))))), d))"

definition artifacts_mark_deleted :: "uuid \<Rightarrow> datetime \<Rightarrow> (db, unit) sx" where
  "artifacts_mark_deleted aid deleted_at = (\<lambda>d.
     case find (\<lambda>r. pa_id r = aid) (publish_artifacts d) of
       None \<Rightarrow> (Inl (ValueError ''publish artifact not found''), d)
     | Some record \<Rightarrow>
         (Inr (), d\<lparr>publish_artifacts :=
            update_where (\<lambda>r. pa_id r = aid)
              (\<lambda>r. r\<lparr>pa_status := ART_DELETED, pa_is_current := False,
                    pa_deleted_at := Some deleted_at, pa_last_error := None\<rparr>)
              (publish_artifacts d)\<rparr>))"

definition artifacts_mark_cleanup_failed :: "uuid \<Rightarrow> string \<Rightarrow> (db, unit) sx" where
  "artifacts_mark_cleanup_failed aid error = (\<lambda>d.
     case find (\<lambda>r. pa_id r = aid) (publish_artifacts d) of
       None \<Rightarrow> (Inl (ValueError ''publish artifact not found''), d)
     | Some record \<Rightarrow>
         (Inr (), d\<lparr>publish_artifacts :=
            update_where (\<lambda>r. pa_id r = aid)
              (\<lambda>r. r\<lparr>pa_status := ART_CLEANUP_FAILED,
                    pa_last_error := Some (take 1000 (join_with '' '' (py_split error)))\<rparr>)
              (publish_artifacts d)\<rparr>))"

section \<open>One current artifact per station\<close>

definition artifacts_ok :: "artifact_row list \<Rightarrow> bool" where
  "artifacts_ok rows \<longleftrightarrow>
     (\<forall>a \<in> set rows. \<forall>b \<in> set rows.
        pa_is_current a \<and> pa_is_current b \<and> pa_station_id a = pa_station_id b
        \<longrightarrow> pa_id a = pa_id b)
     \<and> (\<forall>a \<in> set rows. pa_is_current a \<longrightarrow> pa_status a \<noteq> ART_DELETED)"

definition current_ok :: "db \<Rightarrow> bool" where
  "current_ok d \<longleftrightarrow> artifacts_ok (publish_artifacts d)"

lemma artifacts_ok_live:
  "artifacts_ok rows \<Longrightarrow> r \<in> set rows \<Longrightarrow> pa_is_current r \<Longrightarrow> pa_status r \<noteq> ART_DELETED"
  unfolding artifacts_ok_def by blast

text \<open>An update that changes no identity and makes nothing current.\<close>

lemma artifacts_ok_map:
  assumes "artifacts_ok rows"
    and "\<And>r. pa_id (g r) = pa_id r" and "\<And>r. pa_station_id (g r) = pa_station_id r"
    and "\<And>r. pa_is_current (g r) \<Longrightarrow> pa_is_current r"
    and "\<And>r. pa_is_current (g r) \<Longrightarrow> pa_status r \<noteq> ART_DELETED \<Longrightarrow> pa_status (g r) \<noteq> ART_DELETED"
  shows "artifacts_ok (map g rows)"
  unfolding artifacts_ok_def set_map
proof (intro conjI ballI impI)
  fix a b
  assume "a \<in> g ` set rows" "b \<in> g ` set rows"
    and c: "pa_is_current a \<and> pa_is_current b \<and> pa_station_id a = pa_station_id b"
  then obtain x y where "x \<in> set rows" "y \<in> set rows" "a = g x" "b = g y" by blast
  with c assms(1-4) show "pa_id a = pa_id b" unfolding artifacts_ok_def by metis
next
  fix a assume "a \<in> g ` set rows" "pa_is_current a"
  with assms(1,4,5) show "pa_status a \<noteq> ART_DELETED" unfolding artifacts_ok_def by blast
qed

lemma artifacts_ok_update:
  assumes "artifacts_ok rows"
    and "\<And>r. pa_id (f r) = pa_id r" and "\<And>r. pa_station_id (f r) = pa_station_id r"
    and "\<And>r. pa_is_current (f r) \<Longrightarrow> pa_is_current r"
    and "\<And>r. pa_is_current (f r) \<Longrightarrow> pa_status (f r) \<noteq> ART_DELETED"
  shows "artifacts_ok (update_where P f rows)"
  unfolding update_where_def
  by (rule artifacts_ok_map [OF assms(1)])
    (simp_all add: assms(2,3) split: if_splits, (use assms(4,5) in blast)+)

text \<open>A station without a current artifact can get one.\<close>

lemma artifacts_ok_append:
  "artifacts_ok rows \<Longrightarrow> (\<And>r. r \<in> set rows \<Longrightarrow> pa_station_id r = pa_station_id a \<Longrightarrow> \<not> pa_is_current r)
   \<Longrightarrow> (pa_is_current a \<Longrightarrow> pa_status a \<noteq> ART_DELETED) \<Longrightarrow> artifacts_ok (rows @ [a])"
  unfolding artifacts_ok_def by (metis Un_iff empty_iff insert_iff list.set(1) list.set(2) set_append)

lemma artifacts_ok_image:
  assumes "\<And>x y. x \<in> set rows \<Longrightarrow> y \<in> set rows \<Longrightarrow> pa_is_current (g x) \<Longrightarrow> pa_is_current (g y) \<Longrightarrow>
      pa_station_id (g x) = pa_station_id (g y) \<Longrightarrow> pa_id (g x) = pa_id (g y)"
    and "\<And>x. x \<in> set rows \<Longrightarrow> pa_is_current (g x) \<Longrightarrow> pa_status (g x) \<noteq> ART_DELETED"
  shows "artifacts_ok (map g rows)"
  unfolding artifacts_ok_def set_map using assms by blast

lemma artifacts_ok_replace:
  assumes "artifacts_ok rows"
    and none: "\<And>r. r \<in> set rows \<Longrightarrow> pa_station_id r = sid \<Longrightarrow> \<not> pa_is_current r"
    and at: "\<And>r. r \<in> set rows \<Longrightarrow> pa_id r = rid \<Longrightarrow> pa_station_id r = sid"
    and f: "\<And>r. pa_id (f r) = pa_id r" "\<And>r. pa_station_id (f r) = pa_station_id r"
    and live: "\<And>r. pa_is_current (f r) \<Longrightarrow> pa_status (f r) \<noteq> ART_DELETED"
  shows "artifacts_ok (update_where (\<lambda>r. pa_id r = rid) f rows)"
proof -
  let ?g = "\<lambda>r. if pa_id r = rid then f r else r"
  have cur: "pa_id x = rid" if "x \<in> set rows" "pa_station_id x = sid" "pa_is_current (?g x)" for x
    using none [OF that(1,2)] that(3) by (simp split: if_splits)
  have id: "pa_id (?g x) = pa_id x" "pa_station_id (?g x) = pa_station_id x" for x
    using f by simp_all
  have main: "pa_id x = pa_id y"
    if "x \<in> set rows" "y \<in> set rows" "pa_is_current (?g x)" "pa_is_current (?g y)"
      "pa_station_id x = pa_station_id y" for x y
  proof (cases "pa_station_id x = sid")
    case True
    with cur [of x] cur [of y] that show ?thesis by simp
  next
    case False
    then have "pa_id x \<noteq> rid" "pa_id y \<noteq> rid" using at that(1,2,5) by metis+
    then have "pa_is_current x" "pa_is_current y" using that(3,4) by simp_all
    with assms(1) that show ?thesis unfolding artifacts_ok_def by blast
  qed
  have "pa_status (?g x) \<noteq> ART_DELETED" if "x \<in> set rows" "pa_is_current (?g x)" for x
    using artifacts_ok_live [OF assms(1), of x] live [of x] that
    by (cases "pa_id x = rid") simp_all
  note status = this
  show ?thesis
    unfolding update_where_def
    by (rule artifacts_ok_image; (unfold id)?; (erule (4) main | erule (1) status))
qed

lemma retired_none_current:
  assumes "except_id \<notin> pa_id ` set (publish_artifacts d)"
    and "r \<in> set (publish_artifacts (snd (artifacts_retire_station_artifacts sid except_id d)))"
    and "pa_station_id r = sid"
  shows "\<not> pa_is_current r"
proof -
  from assms(2) obtain x where x: "x \<in> set (publish_artifacts d)"
    and r: "r = (if pa_station_id x = sid \<and> pa_id x \<noteq> except_id \<and> pa_is_current x
                 then x\<lparr>pa_is_current := False, pa_status := ART_RETIRED\<rparr> else x)"
    unfolding artifacts_retire_station_artifacts_def update_where_def by auto
  from x assms(1) have "pa_id x \<noteq> except_id" by blast
  with r assms(3) show ?thesis
    by (cases "pa_station_id x = sid"; cases "pa_is_current x") simp_all
qed

lemma retire_current_ok:
  "current_ok d \<Longrightarrow> current_ok (snd (artifacts_retire_station_artifacts sid except_id d))"
  unfolding current_ok_def artifacts_retire_station_artifacts_def
  by simp (rule artifacts_ok_update; simp)

lemma set_current_current_ok:
  assumes "current_ok d"
  shows "current_ok (snd (artifacts_set_current sid aid d))"
proof -
  let ?rows = "publish_artifacts d"
  let ?g = "\<lambda>r. if pa_station_id r = sid then current_artifact_row aid r else r"
  have ids: "pa_id (?g r) = pa_id r" "pa_station_id (?g r) = pa_station_id r" for r
    by (simp_all add: current_artifact_row_def)
  have cur: "Some (pa_id r) = aid"
    if "pa_station_id r = sid" "pa_is_current (?g r)" for r
    using that by (simp add: current_artifact_row_def split: if_splits)
  have main: "pa_id x = pa_id y"
    if "x \<in> set ?rows" "y \<in> set ?rows" "pa_is_current (?g x)" "pa_is_current (?g y)"
      "pa_station_id x = pa_station_id y" for x y
  proof (cases "pa_station_id x = sid")
    case True
    with cur [of x] cur [of y] that(3-5) have "Some (pa_id x) = Some (pa_id y)" by metis
    then show ?thesis by simp
  next
    case False
    with that(5) have "?g x = x" "?g y = y" by simp_all
    with that(3,4) have "pa_is_current x" "pa_is_current y" by metis+
    with assms that(1,2,5) show ?thesis unfolding current_ok_def artifacts_ok_def by blast
  qed
  have "pa_status (?g r) \<noteq> ART_DELETED" if "r \<in> set ?rows" "pa_is_current (?g r)" for r
    using artifacts_ok_live [OF assms [unfolded current_ok_def], of r] that
    by (cases "pa_station_id r = sid") (simp_all add: current_artifact_row_def split: if_splits)
  note status = this
  have "artifacts_ok (map ?g ?rows)"
    by (rule artifacts_ok_image; (unfold ids)?; (erule (4) main | erule (1) status))
  then show ?thesis by (simp add: current_ok_def artifacts_set_current_def update_where_def)
qed

lemma mark_deleted_current_ok:
  "current_ok d \<Longrightarrow> current_ok (snd (artifacts_mark_deleted aid t d))"
  unfolding current_ok_def artifacts_mark_deleted_def
  by (auto split: option.split intro!: artifacts_ok_update)

lemma mark_cleanup_failed_current_ok:
  "current_ok d \<Longrightarrow> current_ok (snd (artifacts_mark_cleanup_failed aid e d))"
  unfolding current_ok_def artifacts_mark_cleanup_failed_def
  by (auto split: option.split intro!: artifacts_ok_update)


section \<open>Reading targets and jobs\<close>

lemma set_target_join:
  "(t, s) \<in> set (target_join d) \<longleftrightarrow>
     t \<in> set (publish_targets d) \<and> s \<in> set (stations d) \<and> sr_id s = gr_station_id t"
  by (auto simp: target_join_def)

lemma row_target_sels [simp]:
  "tg_id (row_target (r, s)) = gr_id r" "tg_job_id (row_target (r, s)) = gr_job_id r"
  "tg_station_id (row_target (r, s)) = sr_station_id s"
  "tg_selected (row_target (r, s)) \<longleftrightarrow> gr_deselected_at r = None"
  "tg_preflight_status (row_target (r, s)) = gr_preflight_status r"
  "tg_progress_percent (row_target (r, s)) = gr_progress_percent r"
  by (simp_all add: row_target_def)

definition job_target_rows :: "uuid \<Rightarrow> db \<Rightarrow> (target_row \<times> station_row) list" where
  "job_target_rows jid d = order_by target_order (filter (\<lambda>(t, s). gr_job_id t = jid) (target_join d))"

lemma set_job_target_rows:
  "(t, s) \<in> set (job_target_rows jid d) \<longleftrightarrow>
     t \<in> set (publish_targets d) \<and> gr_job_id t = jid \<and> s \<in> set (stations d)
     \<and> sr_id s = gr_station_id t"
  by (auto simp: job_target_rows_def set_target_join)

text \<open>Every stored progress lies in the range its constructor accepts.\<close>

definition targets_readable :: "db \<Rightarrow> bool" where
  "targets_readable d \<longleftrightarrow>
     (\<forall>t \<in> set (publish_targets d). 0 \<le> gr_progress_percent t \<and> gr_progress_percent t \<le> 100)"

lemma mapR_mk_target: "mapR (\<lambda>x. mk_target (f x)) rows = Inr ts \<Longrightarrow> ts = map f rows"
  by (induction rows arbitrary: ts) (auto simp: bindR_Inr_iff mk_target_Inr_iff)

lemma targets_list_Inr:
  "targets_list_for_job jid d = (Inr ts, d') \<Longrightarrow> d' = d \<and> ts = map row_target (job_target_rows jid d)"
  by (auto simp: targets_list_for_job_def job_target_rows_def dest: mapR_mk_target)

lemma targets_list_total:
  assumes "targets_readable d"
  shows "targets_list_for_job jid d = (Inr (map row_target (job_target_rows jid d)), d)"
  using assms
  by (auto simp: targets_list_for_job_def job_target_rows_def [symmetric] targets_readable_def
      mk_target_Inr_iff set_job_target_rows intro!: mapR_total)

lemma jobs_get_apply [sx_simps]: "jobs_get jid d = (Inr (map_option row_job (job_by d jid)), d)"
  by (simp add: jobs_get_def)

lemma job_by_SomeD: "job_by d jid = Some r \<Longrightarrow> r \<in> set (publish_jobs d) \<and> jr_id r = jid"
  by (auto simp: job_by_def dest: find_SomeD)

lemma job_by_unique: "integrity d \<Longrightarrow> r \<in> set (publish_jobs d) \<Longrightarrow> job_by d (jr_id r) = Some r"
  unfolding job_by_def by (rule find_unique [where key = jr_id]) (auto dest: integrityD)

lemma row_job_sels [simp]:
  "pj_id (row_job r) = jr_id r" "pj_idempotency_key (row_job r) = jr_idempotency_key r"
  "pj_correlation_id (row_job r) = jr_correlation_id r" "pj_status (row_job r) = jr_status r"
  "pj_client_confirmation (row_job r) = jr_client_confirmation r"
  "pj_dry_run (row_job r) = jr_dry_run r"
  by (simp_all add: row_job_def)

definition set_job :: "datetime \<Rightarrow> publish_job \<Rightarrow> db \<Rightarrow> db" where
  "set_job clock j d =
     d\<lparr>publish_jobs := update_where (\<lambda>r. jr_id r = pj_id j) (updated_job_row clock j) (publish_jobs d)\<rparr>"

lemma jobs_update_eq:
  "jobs_update clock j d =
     (case job_by d (pj_id j) of
        None \<Rightarrow> (Inl (ValueError ''publish job not found''), d)
      | Some r \<Rightarrow> (Inr (), set_job clock j d))"
  by (simp add: jobs_update_def set_job_def split: option.split)

lemma set_job_frame [simp]:
  "stations (set_job clock j d) = stations d" "agents (set_job clock j d) = agents d"
  "publish_targets (set_job clock j d) = publish_targets d"
  "publish_artifacts (set_job clock j d) = publish_artifacts d"
  "outbox_events (set_job clock j d) = outbox_events d"
  by (simp_all add: set_job_def)

lemma updated_job_row_sels [simp]:
  "jr_id (updated_job_row clock j r) = jr_id r"
  "jr_idempotency_key (updated_job_row clock j r) = jr_idempotency_key r"
  "jr_status (updated_job_row clock j r) = pj_status j"
  "jr_correlation_id (updated_job_row clock j r) = jr_correlation_id r"
  "jr_client_confirmation (updated_job_row clock j r) = pj_client_confirmation j"
  "jr_dry_run (updated_job_row clock j r) = pj_dry_run j"
  by (simp_all add: updated_job_row_def Let_def)

lemma job_by_set_job:
  "job_by (set_job clock j d) jid =
     map_option (\<lambda>r. if jr_id r = pj_id j then updated_job_row clock j r else r) (job_by d jid)"
  unfolding job_by_def set_job_def db.simps
  by (simp add: find_update_where)

lemma integrity_set_job: "integrity d \<Longrightarrow> integrity (set_job clock j d)"
  by (simp add: set_job_def integrity_def constraint_defs map_update_where image_update_where)

end
