(* ===== verification/Registry_Cases.thy ===== *)
theory Registry_Cases
  imports Lifecycle Publish_Repo
begin

text \<open>
  \<open>application/stations.py\<close>, \<open>application/agent_commands.py\<close>, \<open>application/process_rules.py\<close>
  and \<open>application/preflight.py\<close>: the operator's use cases on the registry.  \<open>sign\<close> is the
  signing port, which may raise.
\<close>

section \<open>Stations\<close>

definition list_stations :: "bool \<Rightarrow> (db, station list) sx" where
  "list_stations include_disabled = with_uow (sess (stations_list include_disabled))"

definition update_station ::
    "uuid \<Rightarrow> string \<Rightarrow> string \<Rightarrow> station_role \<Rightarrow> bool \<Rightarrow> (db, station) sx" where
  "update_station sid display_name hostname role enabled =
     with_uow
       (bindS (sess (stations_get sid)) (\<lambda>found.
        case found of
          None \<Rightarrow> raiseS (StationNotFoundError ''station not found'')
        | Some station \<Rightarrow>
            if st_deleted_at station \<noteq> None
            then raiseS (StationNotFoundError ''station not found'')
            else
              (let next_status =
                     (if \<not> enabled then DISABLED
                      else if st_status station = DISABLED then OFFLINE
                      else st_status station)
               in bindS (liftR (mk_station (station\<lparr>st_display_name := display_name,
                          st_hostname := hostname, st_role := role, st_enabled := enabled,
                          st_status := next_status\<rparr>))) (\<lambda>updated.
                  bindS (sess (stations_update_details sid (st_display_name updated)
                          (st_hostname updated) (st_role updated) (st_enabled updated))) (\<lambda>result.
                  case result of
                    None \<Rightarrow> raiseS (StationNotFoundError ''station not found'')
                  | Some s \<Rightarrow> bindS commit (\<lambda>_. returnS s))))))"

definition update_station_storage_mapping ::
    "uuid \<Rightarrow> string option \<Rightarrow> string option \<Rightarrow> string option \<Rightarrow> (db, station) sx" where
  "update_station_storage_mapping sid target_name target_iqn initiator_iqn =
     with_uow
       (bindS (sess (stations_update_storage_mapping sid target_name target_iqn initiator_iqn))
         (\<lambda>result.
        case result of
          None \<Rightarrow> raiseS (StationNotFoundError ''station not found'')
        | Some s \<Rightarrow> bindS commit (\<lambda>_. returnS s)))"

section \<open>Agent commands\<close>

definition COMMAND_TTL :: int where
  "COMMAND_TTL = minutes 5"

definition MAX_COMMAND_TTL :: int where
  "MAX_COMMAND_TTL = minutes 15"

definition issue_agent_command ::
    "(uuid \<Rightarrow> string \<Rightarrow> datetime \<Rightarrow> string result) \<Rightarrow> uuid \<Rightarrow> datetime \<Rightarrow> datetime \<Rightarrow> uuid \<Rightarrow> string
     \<Rightarrow> int \<Rightarrow> (db, agent_command) sx" where
  "issue_agent_command sign command_id now clock agent_uuid name ttl =
     (if name \<noteq> command_name_value REFRESH_PROCESS_SNAPSHOT
      then raiseS (AgentCommandIssueError ''unsupported agent command'')
      else if ttl \<le> 0 \<or> ttl > MAX_COMMAND_TTL
      then raiseS (AgentCommandIssueError ''agent command TTL is outside the allowed range'')
      else
        (let issued_at = ensure_utc now;
             expires_at = dt_plus issued_at ttl
         in with_uow
              (bindS (sess (agents_get_by_agent_uuid agent_uuid)) (\<lambda>found.
               case found of
                 None \<Rightarrow> raiseS (AgentCommandAgentNotFoundError ''active agent binding was not found'')
               | Some agent \<Rightarrow>
                   if \<not> can_accept_heartbeat agent
                   then raiseS (AgentCommandAgentNotFoundError
                          ''active agent binding was not found'')
                   else
                     bindS (liftR (sign command_id (command_name_value REFRESH_PROCESS_SNAPSHOT)
                                     expires_at)) (\<lambda>signature.
                     (let command = \<lparr>ac_id = command_id, ac_agent_id = ab_id agent,
                            ac_name = REFRESH_PROCESS_SNAPSHOT, ac_expires_at = expires_at,
                            ac_signature = signature, ac_status = CMD_PENDING,
                            ac_lease_until = None, ac_attempts = 0\<rparr>
                      in bindS (sess (commands_add clock command)) (\<lambda>_.
                         bindS commit (\<lambda>_.
                         returnS command))))))))"

definition acknowledge_agent_command ::
    "(string \<Rightarrow> string) \<Rightarrow> datetime \<Rightarrow> string \<Rightarrow> uuid \<Rightarrow> (db, unit) sx" where
  "acknowledge_agent_command H now credential command_id =
     (let acknowledged_at = ensure_utc now
      in with_uow
           (bindS (sess (agents_get_by_credential_hash (H credential))) (\<lambda>found.
            case found of
              None \<Rightarrow> raiseS (AgentCommandUnauthorizedError ''agent credential is invalid'')
            | Some agent \<Rightarrow>
                if \<not> can_accept_heartbeat agent
                then raiseS (AgentCommandUnauthorizedError ''agent credential is invalid'')
                else
                  bindS (sess (commands_acknowledge (ab_id agent) command_id acknowledged_at))
                    (\<lambda>acknowledged.
                  if \<not> acknowledged
                  then raiseS (AgentCommandAcknowledgementRejectedError
                         ''agent command acknowledgement was rejected'')
                  else commit))))"

section \<open>Process rules\<close>

definition list_process_rules :: "(db, process_rule list) sx" where
  "list_process_rules = with_uow (sess rules_list_all)"

definition create_process_rule ::
    "uuid \<Rightarrow> string \<Rightarrow> station_role option \<Rightarrow> bool \<Rightarrow> rule_severity \<Rightarrow> bool \<Rightarrow> bool
     \<Rightarrow> (db, process_rule) sx" where
  "create_process_rule rule_id name role required_closed severity enabled persistent_policy =
     (let normalized_name = strip name
      in if normalized_name = []
         then raiseS (ValueError ''process rule name cannot be empty'')
         else
           (let rule = \<lparr>pr_id = Some rule_id, pr_name = normalized_name, pr_role = role,
                        pr_required_closed = required_closed, pr_severity = severity,
                        pr_enabled = enabled, pr_persistent_policy = persistent_policy\<rparr>
            in with_uow
                 (bindS (sess (rules_add rule_id rule)) (\<lambda>_.
                  bindS commit (\<lambda>_.
                  returnS rule)))))"

definition delete_process_rule :: "uuid \<Rightarrow> (db, bool) sx" where
  "delete_process_rule rule_id =
     with_uow
       (bindS (sess (rules_delete rule_id)) (\<lambda>deleted.
        if deleted then bindS commit (\<lambda>_. returnS deleted) else returnS deleted))"

section \<open>Preflight of a station\<close>

definition evaluate_station_preflight ::
    "preflight_policy \<Rightarrow> datetime \<Rightarrow> uuid \<Rightarrow> (db, preflight_report) sx" where
  "evaluate_station_preflight policy now sid =
     bindS (with_uow
       (bindS (sess (stations_get sid)) (\<lambda>found.
        case found of
          None \<Rightarrow> raiseS (StationNotFoundError ''station not found'')
        | Some station \<Rightarrow>
            bindS (sess (snapshots_latest sid)) (\<lambda>snapshot.
            bindS (sess (rules_list_for_role (st_role station))) (\<lambda>rules.
            returnS (station, snapshot, rules))))))
       (\<lambda>(station, snapshot, rules).
         returnS (evaluate_preflight station snapshot rules policy now))"

section \<open>Constraints\<close>

lemma registry_keeps [keeps_intros]:
  "keeps integrity (list_stations include_disabled)"
  "keeps integrity (update_station sid display_name hostname role enabled)"
  "keeps integrity (update_station_storage_mapping sid target_name target_iqn initiator_iqn)"
  "keeps integrity (issue_agent_command sign command_id now clock agent_uuid name ttl)"
  "keeps integrity (acknowledge_agent_command H now credential command_id)"
  "keeps integrity list_process_rules"
  "keeps integrity (create_process_rule rule_id rname rrole required_closed severity renabled policy)"
  "keeps integrity (delete_process_rule rule_id)"
  unfolding list_stations_def update_station_def update_station_storage_mapping_def
    issue_agent_command_def acknowledge_agent_command_def list_process_rules_def
    create_process_rule_def delete_process_rule_def
  by (intro keeps_intros)+

text \<open>Evaluating a preflight never changes the database.\<close>

lemma preflight_readonly [simp]: "snd (evaluate_station_preflight policy now sid d) = d"
proof -
  have "snd (with_uow
       (bindS (sess (stations_get sid)) (\<lambda>found.
        case found of
          None \<Rightarrow> raiseS (StationNotFoundError ''station not found'')
        | Some station \<Rightarrow>
            bindS (sess (snapshots_latest sid)) (\<lambda>snapshot.
            bindS (sess (rules_list_for_role (st_role station))) (\<lambda>rules.
            returnS (station, snapshot, rules))))) d) = d"
    by (rule with_uow_readonly) (intro keeps_intros keeps_sess_committed)
  then show ?thesis
    by (auto simp: evaluate_station_preflight_def bindS_def returnS_def split: sum.splits prod.splits)
qed

lemma preflight_Inr:
  assumes "evaluate_station_preflight policy now sid d = (Inr report, d')"
  obtains r snapshot where "station_by d sid = Some r" and "station_wf (row_station r)"
    and "snapshots_latest sid d = (Inr snapshot, d)"
    and "report = evaluate_preflight (row_station r) snapshot
      (map row_rule (order_by (\<lambda>r. (rr_name r, rr_id r))
        (filter (\<lambda>x. rr_enabled x \<and> (rr_role x = None \<or> rr_role x = Some (sr_role r)))
          (process_rules d)))) policy now"
proof (cases "station_by d sid")
  case None
  with assms show ?thesis
    by (simp add: evaluate_station_preflight_def sx_simps stations_get_def)
next
  case (Some r)
  obtain v where v: "snapshots_latest sid d = (v, d)"
    by (metis prod.collapse snapshots_latest_state)
  from assms Some v show ?thesis
    using that [OF Some]
    by (auto simp: evaluate_station_preflight_def sx_simps stations_get_def bindR_def
        rules_list_for_role_def station_to_domain_Inr_iff split: sum.splits)
qed

end
