(* ===== verification/Py_Hoare.thy ===== *)
theory Py_Hoare
  imports Py_Prelude
begin

text \<open>
  Loops with a local state, \<open>try\<close> blocks whose exception is inspected, and postconditions of
  computations whose environment is abstract: \<open>after m Q E s\<close> says that \<open>m\<close> started in \<open>s\<close>
  ends in a state and value that satisfy \<open>Q\<close>, or raises in a state that satisfies \<open>E\<close>.
\<close>

section \<open>Trying and folding\<close>

definition tryS :: "('s, 'a) sx \<Rightarrow> ('s, 'a result) sx" where
  "tryS m = (\<lambda>s. case m s of (r, t) \<Rightarrow> (Inr r, t))"

text \<open>A \<open>for\<close> loop over the local variables \<open>b\<close>.\<close>

fun foldS :: "('b \<Rightarrow> 'x \<Rightarrow> ('s, 'b) sx) \<Rightarrow> 'b \<Rightarrow> 'x list \<Rightarrow> ('s, 'b) sx" where
  "foldS f b [] = returnS b"
| "foldS f b (x # xs) = bindS (f b x) (\<lambda>b'. foldS f b' xs)"

lemma tryS_apply [sx_simps]: "tryS m s = (case m s of (r, t) \<Rightarrow> (Inr r, t))"
  by (simp add: tryS_def)

text \<open>\<open>try: m finally: cleanup\<close>; an exception of the cleanup replaces the outcome.\<close>

definition finallyS :: "('s, 'a) sx \<Rightarrow> ('s, unit) sx \<Rightarrow> ('s, 'a) sx" where
  "finallyS m cleanup =
     bindS (tryS m) (\<lambda>outcome. bindS cleanup (\<lambda>_. liftR outcome))"

text \<open>A state made of the database and an external store: a call works on one of them.\<close>

definition on_db :: "('s, 'a) sx \<Rightarrow> ('s \<times> 'q, 'a) sx" where
  "on_db m = (\<lambda>(s, q). case m s of (r, s') \<Rightarrow> (r, (s', q)))"

definition on_ext :: "('q, 'a) sx \<Rightarrow> ('s \<times> 'q, 'a) sx" where
  "on_ext m = (\<lambda>(s, q). case m q of (r, q') \<Rightarrow> (r, (s, q')))"

lemma on_apply [sx_simps]:
  "on_db m (d, q) = (case m d of (r, d') \<Rightarrow> (r, (d', q)))"
  "on_ext n (d, q) = (case n q of (r, q') \<Rightarrow> (r, (d, q')))"
  by (simp_all add: on_db_def on_ext_def)

lemma finallyS_apply [sx_simps]:
  "finallyS m cleanup s =
     (case m s of (r, t) \<Rightarrow> (case cleanup t of (Inl e, u) \<Rightarrow> (Inl e, u) | (Inr _, u) \<Rightarrow> (r, u)))"
  by (simp add: finallyS_def bindS_def tryS_def liftR_def split: prod.split sum.split)

section \<open>Postconditions\<close>

definition after ::
    "('s, 'a) sx \<Rightarrow> ('a \<Rightarrow> 's \<Rightarrow> bool) \<Rightarrow> (exn \<Rightarrow> 's \<Rightarrow> bool) \<Rightarrow> 's \<Rightarrow> bool" where
  "after m Q E s = (case m s of (Inl e, t) \<Rightarrow> E e t | (Inr x, t) \<Rightarrow> Q x t)"

named_theorems after_simps

lemma after_return [after_simps]: "after (returnS x) Q E s = Q x s"
  by (simp add: after_def returnS_def)

lemma after_raise [after_simps]: "after (raiseS e) Q E s = E e s"
  by (simp add: after_def raiseS_def)

lemma after_lift [after_simps]:
  "after (liftR r) Q E s = (case r of Inl e \<Rightarrow> E e s | Inr x \<Rightarrow> Q x s)"
  by (simp add: after_def liftR_def split: sum.split)

lemma after_get [after_simps]: "after (getS f) Q E s = Q (f s) s"
  by (simp add: after_def getS_def)

lemma after_bind [after_simps]: "after (bindS m f) Q E s = after m (\<lambda>x. after (f x) Q E) E s"
  by (simp add: after_def bindS_def split: sum.split prod.split)

lemma after_catch [after_simps]:
  "after (catchS m h) Q E s = after m Q (\<lambda>e. after (h e) Q E) s"
  by (simp add: after_def catchS_def split: sum.split prod.split)

lemma after_try [after_simps]:
  "after (tryS m) Q E s = after m (\<lambda>x. Q (Inr x)) (\<lambda>e. Q (Inl e)) s"
  by (cases "m s"; cases "fst (m s)") (simp_all add: after_def tryS_def)

lemma after_on [after_simps]:
  "after (on_db m) Q E (d, q) = after m (\<lambda>x d. Q x (d, q)) (\<lambda>e d. E e (d, q)) d"
  "after (on_ext n) Q E (d, q) = after n (\<lambda>x q. Q x (d, q)) (\<lambda>e q. E e (d, q)) q"
  by (simp_all add: after_def on_db_def on_ext_def split: sum.split prod.split)

lemma after_finally [after_simps]:
  "after (finallyS m cleanup) Q E s =
     after m (\<lambda>x. after cleanup (\<lambda>_. Q x) E) (\<lambda>e. after cleanup (\<lambda>_. E e) E) s"
  by (cases "m s"; cases "fst (m s)") (auto simp: after_def finallyS_apply split: sum.split prod.split)

lemma after_if [after_simps]:
  "after (if c then m else n) Q E s = (if c then after m Q E s else after n Q E s)"
  by simp

lemma after_mono:
  assumes "after m Q E s" and "\<And>x t. Q x t \<Longrightarrow> Q' x t" and "\<And>e t. E e t \<Longrightarrow> E' e t"
  shows "after m Q' E' s"
  using assms by (auto simp: after_def split: sum.splits prod.splits)

lemma after_Inr: "after m Q E s \<Longrightarrow> m s = (Inr x, t) \<Longrightarrow> Q x t"
  by (simp add: after_def)

lemma after_Inl: "after m Q E s \<Longrightarrow> m s = (Inl e, t) \<Longrightarrow> E e t"
  by (simp add: after_def)

lemma after_total: "after m Q (\<lambda>e t. False) s \<Longrightarrow> \<exists>x t. m s = (Inr x, t) \<and> Q x t"
  by (cases "m s"; cases "fst (m s)") (simp_all add: after_def)

text \<open>The loop rule: the invariant speaks of the elements already done.\<close>

lemma after_foldS_prefix:
  assumes "\<And>ys x zs b s. xs = ys @ x # zs \<Longrightarrow> I ys b s \<Longrightarrow> after (f b x) (I (ys @ [x])) E s"
    and "I [] b s"
  shows "after (foldS f b xs) (I xs) E s"
proof -
  have "after (foldS f b zs) (I xs) E s" if "xs = ys @ zs" "I ys b s" for ys zs b s
    using that
  proof (induction zs arbitrary: ys b s)
    case Nil
    then show ?case by (simp add: after_simps)
  next
    case (Cons z zs)
    have "after (f b z) (I (ys @ [z])) E s" by (rule assms(1) [OF Cons.prems])
    moreover have "after (foldS f b' zs) (I xs) E t" if "I (ys @ [z]) b' t" for b' t
      using Cons.IH [of "ys @ [z]"] Cons.prems(1) that by simp
    ultimately show ?case by (auto simp: after_simps intro: after_mono)
  qed
  from this [of "[]"] assms(2) show ?thesis by simp
qed

lemma after_foldS:
  assumes "\<And>ys x zs b s. xs = ys @ x # zs \<Longrightarrow> I ys b s \<Longrightarrow> after (f b x) (I (ys @ [x])) E s"
    and "I [] b s" and "\<And>b s. I xs b s \<Longrightarrow> Q b s"
  shows "after (foldS f b xs) Q E s"
  using after_foldS_prefix [OF assms(1,2)] assms(3) by (rule after_mono)

lemma after_mapS:
  assumes "\<And>x s. x \<in> set xs \<Longrightarrow> P s \<Longrightarrow> after (f x) (\<lambda>y t. P t \<and> R x y) E s" and "P s"
  shows "after (mapS f xs) (\<lambda>ys t. P t \<and> list_all2 R xs ys) E s"
  using assms
proof (induction xs arbitrary: s)
  case Nil
  then show ?case by (simp add: after_simps)
next
  case (Cons x xs)
  have "after (f x) (\<lambda>y t. P t \<and> R x y) E s" using Cons.prems by simp
  then show ?case
    unfolding mapS.simps after_bind
  proof (rule after_mono)
    fix y t assume y: "P t \<and> R x y"
    show "after (mapS f xs) (\<lambda>ys. after (returnS (y # ys)) (\<lambda>ys t. P t \<and> list_all2 R (x # xs) ys) E) E t"
      by (rule after_mono [OF Cons.IH]) (use Cons.prems y in \<open>auto simp: after_simps\<close>)
  qed
qed

lemma after_conj:
  "after m Q E s \<Longrightarrow> after m Q' E' s \<Longrightarrow> after m (\<lambda>x t. Q x t \<and> Q' x t) (\<lambda>e t. E e t \<and> E' e t) s"
  by (auto simp: after_def split: sum.splits prod.splits)

end
