(* ===== verification/Publish_Cases.thy ===== *)
theory Publish_Cases
  imports Registry_Cases Py_Hoare
begin

text \<open>
  \<open>application/publish_commands.py\<close>, \<open>application/publish_confirmation.py\<close>,
  \<open>application/publish_dispatch.py\<close> and \<open>application/publish_queries.py\<close>: a publish job from its
  draft to the outbox.  \<open>clock\<close> is \<open>datetime.now(UTC)\<close>; \<open>query\<close> is the preflight port.
\<close>

section \<open>Creating a job\<close>

record publish_request =
  rq_label :: string
  rq_source_dataset :: string
  rq_station_ids :: "uuid list"
  rq_idempotency_key :: string
  rq_correlation_id :: uuid
  rq_description :: "string option"
  rq_dry_run :: bool
  rq_allow_hot_switch :: bool
  rq_operator_id :: "uuid option"

definition validate_request :: "publish_request \<Rightarrow> unit result" where
  "validate_request q =
     (if strip (rq_label q) = []
      then Inl (PublishDraftValidationError ''label must not be blank'')
      else if strip (rq_source_dataset q) = []
      then Inl (PublishDraftValidationError ''source_dataset must not be blank'')
      else if rq_station_ids q = []
      then Inl (PublishDraftValidationError ''at least one station is required'')
      else if \<not> distinct (rq_station_ids q)
      then Inl (PublishDraftValidationError ''station selection must be unique'')
      else if rq_idempotency_key q = [] \<or> length (rq_idempotency_key q) > 200
      then Inl (PublishDraftValidationError ''invalid idempotency key'')
      else Inr ())"

definition same_request :: "publish_job \<Rightarrow> publish_target list \<Rightarrow> publish_request \<Rightarrow> bool" where
  "same_request job targets q =
     (pj_label job = rq_label q \<and> pj_source_dataset job = rq_source_dataset q
      \<and> pj_description job = rq_description q \<and> pj_dry_run job = rq_dry_run q
      \<and> pj_allow_hot_switch job = rq_allow_hot_switch q
      \<and> pj_operator_id job = rq_operator_id q
      \<and> pj_correlation_id job = rq_correlation_id q
      \<and> set (map tg_station_id targets) = set (rq_station_ids q))"

definition check_station :: "uuid \<Rightarrow> (uow, unit) sx" where
  "check_station sid =
     bindS (sess (stations_get sid)) (\<lambda>found.
     case found of
       None \<Rightarrow> raiseS (PublishDraftValidationError (''station not found: '' @ uuid_str sid))
     | Some station \<Rightarrow>
         if \<not> st_enabled station \<or> st_deleted_at station \<noteq> None
         then raiseS (PublishDraftValidationError (''station is disabled: '' @ uuid_str sid))
         else returnS ())"

definition draft_job :: "uuid \<Rightarrow> datetime \<Rightarrow> publish_request \<Rightarrow> publish_job" where
  "draft_job job_id clock q =
     \<lparr>pj_id = job_id, pj_idempotency_key = rq_idempotency_key q,
      pj_correlation_id = rq_correlation_id q, pj_label = rq_label q,
      pj_source_dataset = rq_source_dataset q, pj_dry_run = rq_dry_run q,
      pj_allow_hot_switch = rq_allow_hot_switch q, pj_status = DRAFT,
      pj_description = rq_description q, pj_status_reason = None,
      pj_operator_id = rq_operator_id q, pj_client_confirmation = None,
      pj_client_confirmation_at = None, pj_created_at = Some clock, pj_started_at = None,
      pj_completed_at = None\<rparr>"

definition draft_target :: "uuid \<Rightarrow> uuid \<Rightarrow> uuid \<Rightarrow> publish_target" where
  "draft_target target_id job_id sid =
     \<lparr>tg_id = target_id, tg_job_id = job_id, tg_station_id = sid, tg_selected = True,
      tg_preflight_status = None, tg_preflight_result = None, tg_old_version_id = None,
      tg_new_version_id = None, tg_old_mapping = None, tg_new_mapping = None,
      tg_switch_status = None, tg_verify_status = None, tg_error_code = None,
      tg_error_message = None, tg_progress_percent = 0\<rparr>"

text \<open>\<open>fresh i\<close> is the id drawn for the target of the \<open>i\<close>-th station.\<close>

definition draft_targets :: "(nat \<Rightarrow> uuid) \<Rightarrow> uuid \<Rightarrow> uuid list \<Rightarrow> publish_target list" where
  "draft_targets fresh job_id sids =
     map (\<lambda>(i, sid). draft_target (fresh i) job_id sid) (enumerate 0 sids)"

definition create_publish_job ::
    "uuid \<Rightarrow> (nat \<Rightarrow> uuid) \<Rightarrow> datetime \<Rightarrow> publish_request
     \<Rightarrow> (db, publish_job \<times> publish_target list) sx" where
  "create_publish_job job_id fresh clock q =
     bindS (liftR (validate_request q)) (\<lambda>_.
     with_uow
       (bindS (sess (jobs_get_by_idempotency_key (rq_idempotency_key q))) (\<lambda>existing.
        case existing of
          Some job \<Rightarrow>
            bindS (sess (targets_list_for_job (pj_id job))) (\<lambda>existing_targets.
            if same_request job existing_targets q then returnS (job, existing_targets)
            else raiseS (PublishIdempotencyConflictError
                   ''idempotency key is already used by another publish request''))
        | None \<Rightarrow>
            bindS (forS check_station (rq_station_ids q)) (\<lambda>_.
            (let job = draft_job job_id clock q;
                 targets = draft_targets fresh (pj_id job) (rq_station_ids q)
             in bindS (sess (jobs_add clock job)) (\<lambda>_.
                bindS (sess (targets_add_many clock targets)) (\<lambda>_.
                bindS commit (\<lambda>_.
                returnS (job, targets)))))))))"

section \<open>Enqueueing directly\<close>

definition enqueue_publish_job ::
    "(uuid \<Rightarrow> uuid \<Rightarrow> string \<Rightarrow> ('q, unit) sx) \<Rightarrow> uuid \<Rightarrow> uuid \<Rightarrow> string \<Rightarrow> (db \<times> 'q, unit) sx" where
  "enqueue_publish_job enqueue job_id correlation_id idempotency_key =
     bindS (on_db (with_uow
       (bindS (sess (jobs_get job_id)) (\<lambda>found.
        case found of
          None \<Rightarrow> raiseS (PublishJobNotFoundError ''publish job not found'')
        | Some job \<Rightarrow>
            if pj_correlation_id job \<noteq> correlation_id
            then raiseS (PublishTaskPayloadMismatchError
                   ''correlation ID does not match publish job'')
            else if pj_idempotency_key job \<noteq> idempotency_key
            then raiseS (PublishTaskPayloadMismatchError
                   ''idempotency key does not match publish job'')
            else returnS ()))))
       (\<lambda>_. on_ext (enqueue job_id correlation_id idempotency_key))"

section \<open>Preflight and confirmation\<close>

definition validate_prepare_status :: "publish_job \<Rightarrow> unit result" where
  "validate_prepare_status job =
     (if pj_status job \<notin> {DRAFT, PREFLIGHT, AWAITING_CONFIRMATION}
      then Inl (PublishConfirmationStateError
             (''job cannot accept preflight in state '' @ job_status_value (pj_status job)))
      else Inr ())"

definition update_prepared_job ::
    "datetime \<Rightarrow> publish_job \<Rightarrow> wizard_gate_result \<Rightarrow> bool option \<Rightarrow> publish_job result" where
  "update_prepared_job clock job gate confirmation =
     bindR (if pj_status job = DRAFT then transition job PREFLIGHT else Inr job) (\<lambda>updated.
     (let preflight_ready =
            (can_advance gate
             \<or> list_all (\<lambda>reason. reason = ''operator_confirmation_required'') (wr_reasons gate))
      in bindR (if preflight_ready \<and> pj_status updated = PREFLIGHT
                then transition updated AWAITING_CONFIRMATION else Inr updated) (\<lambda>updated.
         Inr (updated\<lparr>
           pj_status_reason :=
             (if can_advance gate then None else Some (join_with '';'' (wr_reasons gate))),
           pj_client_confirmation :=
             (case confirmation of None \<Rightarrow> pj_client_confirmation updated | Some b \<Rightarrow> Some b),
           pj_client_confirmation_at :=
             (case confirmation of None \<Rightarrow> pj_client_confirmation_at updated
              | Some b \<Rightarrow> Some clock)\<rparr>))))"

definition preflighted_target ::
    "(uuid \<rightharpoonup> preflight_report) \<Rightarrow> publish_target \<Rightarrow> publish_target result" where
  "preflighted_target reports target =
     (if tg_selected target
      then (case reports (tg_station_id target) of
          None \<Rightarrow> Inl (KeyError (''UUID('' @ py_repr (uuid_str (tg_station_id target)) @ '')''))
        | Some report \<Rightarrow>
            mk_target (target\<lparr>tg_preflight_status := Some (check_status_value (rep_status report)),
                              tg_preflight_result := Some report\<rparr>))
      else mk_target (target\<lparr>tg_preflight_status := None, tg_preflight_result := None\<rparr>))"

record prepare_result =
  pp_job :: publish_job
  pp_gate :: wizard_gate_result
  pp_admin_report :: "preflight_report option"
  pp_client_reports :: "uuid \<rightharpoonup> preflight_report"

definition load_job_targets :: "uuid \<Rightarrow> (uow, publish_job \<times> publish_target list) sx" where
  "load_job_targets job_id =
     bindS (sess (jobs_get job_id)) (\<lambda>found.
     case found of
       None \<Rightarrow> raiseS (PublishJobNotFoundError ''publish job not found'')
     | Some job \<Rightarrow>
         bindS (sess (targets_list_for_job (pj_id job))) (\<lambda>targets. returnS (job, targets)))"

text \<open>The second transaction: the selection and the status are checked again before the reports
  and the new job state are written.\<close>

definition persist_prepared ::
    "datetime \<Rightarrow> uuid \<Rightarrow> publish_target list \<Rightarrow> (uuid \<rightharpoonup> preflight_report) \<Rightarrow> wizard_gate_result
     \<Rightarrow> bool option \<Rightarrow> (uow, publish_job) sx" where
  "persist_prepared clock job_id targets reports gate confirmation =
     bindS (load_job_targets job_id) (\<lambda>(current_job, current_targets).
     if set (map tg_station_id current_targets) \<noteq> set (map tg_station_id targets)
     then raiseS (PublishConfirmationStateError
            ''publish target selection changed during preflight'')
     else
       bindS (liftR (validate_prepare_status current_job)) (\<lambda>_.
       bindS (liftR (mapR (preflighted_target reports) current_targets)) (\<lambda>updated_targets.
       bindS (liftR (update_prepared_job clock current_job gate confirmation)) (\<lambda>updated_job.
       bindS (forS (\<lambda>t. sess (targets_update t)) updated_targets) (\<lambda>_.
       bindS (sess (jobs_update clock updated_job)) (\<lambda>_.
       bindS commit (\<lambda>_.
       returnS updated_job)))))))"

definition prepare_publish_job ::
    "(uuid \<Rightarrow> (db, preflight_report) sx) \<Rightarrow> datetime \<Rightarrow> uuid \<Rightarrow> uuid option \<Rightarrow> bool option
     \<Rightarrow> (db, prepare_result) sx" where
  "prepare_publish_job query clock job_id admin_station_id confirmation =
     bindS (with_uow (load_job_targets job_id)) (\<lambda>(job, targets).
     bindS (liftR (validate_prepare_status job)) (\<lambda>_.
     (let selected = map tg_station_id (filter tg_selected targets)
      in bindS (case admin_station_id of
             None \<Rightarrow> returnS None
           | Some sid \<Rightarrow> bindS (query sid) (\<lambda>r. returnS (Some r))) (\<lambda>admin_report.
         bindS (mapS query selected) (\<lambda>reports.
         (let client_reports = map_of (rev (zip selected reports));
              gate = evaluate_wizard_gate
                \<lparr>wi_admin_report = admin_report, wi_client_reports = client_reports,
                 wi_selected_station_ids = selected, wi_confirmation = confirmation\<rparr>
          in bindS (with_uow (persist_prepared clock job_id targets client_reports gate
                                confirmation)) (\<lambda>updated_job.
             returnS \<lparr>pp_job = updated_job, pp_gate = gate, pp_admin_report = admin_report,
                      pp_client_reports = client_reports\<rparr>)))))))"

section \<open>Dispatch\<close>

definition validate_dispatch :: "publish_job \<Rightarrow> publish_target list \<Rightarrow> unit result" where
  "validate_dispatch job targets =
     (let selected_targets = filter tg_selected targets
      in if pj_status job \<noteq> AWAITING_CONFIRMATION
         then Inl (PublishDispatchStateError
                (''job must await confirmation before dispatch: ''
                 @ job_status_value (pj_status job)))
         else if pj_client_confirmation job \<noteq> Some True
         then Inl (PublishDispatchStateError ''explicit operator confirmation is required'')
         else if selected_targets = []
         then Inl (PublishDispatchStateError ''at least one selected target is required'')
         else if list_ex (\<lambda>t. tg_preflight_status t \<notin> {Some ''pass'', Some ''warning''})
                selected_targets
         then Inl (PublishDispatchStateError
                ''all selected targets require passing preflight'')
         else Inr ())"

definition dispatch_event :: "uuid \<Rightarrow> publish_job \<Rightarrow> outbox_event" where
  "dispatch_event event_id job =
     \<lparr>oe_id = event_id, oe_aggregate_id = pj_id job, oe_event_type = ''publish.dispatch'',
      oe_payload = [(''job_id'', JStr (uuid_str (pj_id job))),
                    (''correlation_id'', JStr (uuid_str (pj_correlation_id job))),
                    (''idempotency_key'', JStr (pj_idempotency_key job))],
      oe_correlation_id = pj_correlation_id job, oe_status = OB_PENDING, oe_attempts = 0,
      oe_available_at = None, oe_created_at = None\<rparr>"

definition dispatch_publish_job :: "uuid \<Rightarrow> datetime \<Rightarrow> uuid \<Rightarrow> (db, publish_job) sx" where
  "dispatch_publish_job event_id clock job_id =
     with_uow
       (bindS (load_job_targets job_id) (\<lambda>(job, targets).
        bindS (liftR (validate_dispatch job targets)) (\<lambda>_.
        bindS (liftR (transition job PUBLISHING)) (\<lambda>publishing.
        (let updated_job = publishing\<lparr>pj_status_reason := None\<rparr>
         in bindS (sess (jobs_update clock updated_job)) (\<lambda>_.
            bindS (sess (outbox_add clock (dispatch_event event_id updated_job))) (\<lambda>_.
            bindS commit (\<lambda>_.
            returnS updated_job))))))))"

section \<open>Queries\<close>

record publish_job_view =
  pv_job :: publish_job
  pv_targets :: "publish_target list"
  pv_artifacts :: "publish_artifact list"

definition get_publish_job :: "uuid \<Rightarrow> (db, publish_job_view) sx" where
  "get_publish_job job_id =
     with_uow
       (bindS (load_job_targets job_id) (\<lambda>(job, targets).
        bindS (sess (artifacts_list_for_job (pj_id job))) (\<lambda>artifacts.
        returnS \<lparr>pv_job = job, pv_targets = targets, pv_artifacts = artifacts\<rparr>)))"

definition list_publish_jobs :: "int \<Rightarrow> (db, publish_job_history list) sx" where
  "list_publish_jobs limit = with_uow (sess (jobs_list_recent (max 1 (min limit 100))))"

section \<open>Constraints\<close>

lemma publish_cases_keep [keeps_intros]:
  "keeps integrity (create_publish_job job_id fresh clock q)"
  "(\<And>sid. keeps integrity (query sid)) \<Longrightarrow>
     keeps integrity (prepare_publish_job query clock job_id admin confirmation)"
  "keeps integrity (dispatch_publish_job event_id clock job_id)"
  "keeps integrity (get_publish_job job_id)"
  "keeps integrity (list_publish_jobs limit)"
  unfolding create_publish_job_def check_station_def prepare_publish_job_def persist_prepared_def
    load_job_targets_def dispatch_publish_job_def get_publish_job_def list_publish_jobs_def
    split_def
  by (intro keeps_intros | assumption)+


section \<open>Dispatching\<close>

definition dispatched_db :: "uuid \<Rightarrow> datetime \<Rightarrow> publish_job \<Rightarrow> db \<Rightarrow> db" where
  "dispatched_db event_id clock job d =
     snd (outbox_add clock (dispatch_event event_id job) (set_job clock job d))"

lemma dispatched_db_sels [simp]:
  "stations (dispatched_db e clock j d) = stations d"
  "publish_targets (dispatched_db e clock j d) = publish_targets d"
  "publish_jobs (dispatched_db e clock j d) =
     update_where (\<lambda>r. jr_id r = pj_id j) (updated_job_row clock j) (publish_jobs d)"
  "job_by (dispatched_db e clock j d) jid = job_by (set_job clock j d) jid"
  by (simp_all add: dispatched_db_def outbox_add_def set_job_def job_by_def)

lemma integrity_dispatched_db:
  assumes "integrity d" and "pj_id j \<in> jr_id ` set (publish_jobs d)"
    and "e \<notin> xr_id ` set (outbox_events d)"
  shows "integrity (dispatched_db e clock j d)"
proof -
  have "integrity (set_job clock j d)" by (rule integrity_set_job [OF assms(1)])
  moreover have "pj_id j \<in> jr_id ` set (publish_jobs (set_job clock j d))"
    using assms(2) by (simp add: set_job_def image_update_where)
  ultimately show ?thesis
    using assms(3)
    by (simp add: dispatched_db_def outbox_add_def dispatch_event_def integrity_def constraint_defs)
qed

text \<open>The dispatch as a function of the stored job and its targets.\<close>

lemma dispatch_eq:
  assumes "job_by d job_id = Some r"
    and "targets_list_for_job job_id d = (Inr ts, d)"
  shows "dispatch_publish_job event_id clock job_id d =
    (case validate_dispatch (row_job r) ts of
       Inl e \<Rightarrow> (Inl e, d)
     | Inr _ \<Rightarrow>
         (let job = (row_job r)\<lparr>pj_status := PUBLISHING, pj_status_reason := None\<rparr>
          in if integrity (dispatched_db event_id clock job d)
             then (Inr job, dispatched_db event_id clock job d)
             else (Inl (IntegrityError ''constraint failed''), d)))"
proof -
  have "jr_id r = job_id" using assms(1) by (auto dest: job_by_SomeD)
  with assms show ?thesis
    by (auto simp: dispatch_publish_job_def load_job_targets_def sx_simps validate_dispatch_def
        transition_def jobs_update_eq dispatched_db_def Let_def outbox_add_def split: if_splits)
qed

lemma validate_dispatch_Inr_iff:
  "validate_dispatch job ts = Inr u \<longleftrightarrow>
     pj_status job = AWAITING_CONFIRMATION \<and> pj_client_confirmation job = Some True
     \<and> (\<exists>t \<in> set ts. tg_selected t)
     \<and> (\<forall>t \<in> set ts. tg_selected t \<longrightarrow> tg_preflight_status t \<in> {Some ''pass'', Some ''warning''})"
  by (auto simp: validate_dispatch_def Let_def list_ex_iff filter_empty_conv)

lemma dispatch_Inr:
  assumes "dispatch_publish_job event_id clock job_id d = (Inr job, d')"
  obtains r ts where "job_by d job_id = Some r" and "targets_list_for_job job_id d = (Inr ts, d)"
    and "jr_status r = AWAITING_CONFIRMATION" and "jr_client_confirmation r = Some True"
    and "\<exists>t \<in> set ts. tg_selected t"
    and "\<forall>t \<in> set ts. tg_selected t \<longrightarrow> tg_preflight_status t \<in> {Some ''pass'', Some ''warning''}"
    and "job = (row_job r)\<lparr>pj_status := PUBLISHING, pj_status_reason := None\<rparr>"
    and "d' = dispatched_db event_id clock job d" and "integrity d'"
proof -
  obtain r where r: "job_by d job_id = Some r"
    using assms
    by (cases "job_by d job_id")
      (auto simp: dispatch_publish_job_def load_job_targets_def sx_simps)
  then have id: "jr_id r = job_id" by (auto dest: job_by_SomeD)
  obtain v where v: "targets_list_for_job job_id d = (v, d)"
    by (auto simp: targets_list_for_job_def)
  obtain ts where ts: "targets_list_for_job job_id d = (Inr ts, d)"
    using assms r id v
    by (cases v) (auto simp: dispatch_publish_job_def load_job_targets_def sx_simps)
  note eq = dispatch_eq [OF r ts, of event_id clock]
  from assms eq obtain u where "validate_dispatch (row_job r) ts = Inr u"
    by (auto split: sum.splits)
  with assms eq have "job = (row_job r)\<lparr>pj_status := PUBLISHING, pj_status_reason := None\<rparr>"
    "d' = dispatched_db event_id clock job d" "integrity d'"
    by (auto simp: Let_def split: if_splits)
  with that [OF r ts] \<open>validate_dispatch (row_job r) ts = Inr u\<close> show ?thesis
    unfolding validate_dispatch_Inr_iff by simp
qed

end
