(* ===== verification/Publish_Gate.thy ===== *)
theory Publish_Gate
  imports Publish_Cases
begin

text \<open>
  What preparing a job writes, as a function of what it read: the lemmas behind the guarantees of
  the confirmation gate.
\<close>

section \<open>Target rows\<close>

lemma target_join_fst:
  assumes "integrity d"
  shows "map fst (target_join d) = publish_targets d"
proof -
  have "map fst (map (Pair t) (filter (\<lambda>s. sr_id s = gr_station_id t) (stations d))) = [t]"
    if t: "t \<in> set (publish_targets d)" for t
  proof -
    from assms t have "gr_station_id t \<in> sr_id ` set (stations d)"
      by (auto simp: integrity_def publish_ok_def)
    then obtain s where s: "s \<in> set (stations d)" "sr_id s = gr_station_id t" by auto
    with filter_unique [OF integrityD(1) [OF assms] s(1)] show ?thesis by simp
  qed
  then show ?thesis
    unfolding target_join_def by (simp only: map_concat map_map comp_def concat_map_single)
qed

lemma distinct_job_target_rows:
  assumes "integrity d"
  shows "distinct (map (gr_id \<circ> fst) (job_target_rows jid d))"
proof -
  have "distinct (map (gr_id \<circ> fst) (target_join d))"
    using integrityD(11) [OF assms] target_join_fst [OF assms] by (metis map_map)
  then show ?thesis by (simp add: job_target_rows_def distinct_map_filter)
qed

text \<open>The rows after a sequence of target updates.\<close>

definition apply_targets :: "publish_target list \<Rightarrow> target_row list \<Rightarrow> target_row list" where
  "apply_targets uts rows =
     map (\<lambda>g. case find (\<lambda>t. tg_id t = gr_id g) uts of
            None \<Rightarrow> g | Some t \<Rightarrow> updated_target_row t g) rows"

lemma updated_target_row_sels [simp]:
  "gr_id (updated_target_row t g) = gr_id g" "gr_job_id (updated_target_row t g) = gr_job_id g"
  "gr_station_id (updated_target_row t g) = gr_station_id g"
  "gr_selected_at (updated_target_row t g) = gr_selected_at g"
  "gr_deselected_at (updated_target_row t g) = gr_deselected_at g"
  "gr_preflight_status (updated_target_row t g) = tg_preflight_status t"
  "gr_progress_percent (updated_target_row t g) = tg_progress_percent t"
  by (simp_all add: updated_target_row_def)

definition with_targets :: "publish_target list \<Rightarrow> db \<Rightarrow> db" where
  "with_targets uts d = d\<lparr>publish_targets := apply_targets uts (publish_targets d)\<rparr>"

lemma with_targets_frame [simp]:
  "stations (with_targets uts d) = stations d" "publish_jobs (with_targets uts d) = publish_jobs d"
  "publish_targets (with_targets uts d) = apply_targets uts (publish_targets d)"
  "outbox_events (with_targets uts d) = outbox_events d"
  "publish_artifacts (with_targets uts d) = publish_artifacts d"
  "agents (with_targets uts d) = agents d"
  "job_by (with_targets uts d) jid = job_by d jid"
  "station_by (with_targets uts d) sid = station_by d sid"
  by (simp_all add: with_targets_def job_by_def station_by_def)

lemma apply_targets_keys:
  "map gr_id (apply_targets uts rows) = map gr_id rows"
  "map (\<lambda>t. (gr_job_id t, gr_station_id t)) (apply_targets uts rows) =
     map (\<lambda>t. (gr_job_id t, gr_station_id t)) rows"
  "gr_job_id ` set (apply_targets uts rows) = gr_job_id ` set rows"
  "gr_station_id ` set (apply_targets uts rows) = gr_station_id ` set rows"
proof -
  have "gr_id (case find (\<lambda>t. tg_id t = gr_id g) uts of None \<Rightarrow> g | Some t \<Rightarrow> updated_target_row t g)
      = gr_id g"
    "gr_job_id (case find (\<lambda>t. tg_id t = gr_id g) uts of None \<Rightarrow> g | Some t \<Rightarrow> updated_target_row t g)
      = gr_job_id g"
    "gr_station_id (case find (\<lambda>t. tg_id t = gr_id g) uts of None \<Rightarrow> g | Some t \<Rightarrow> updated_target_row t g)
      = gr_station_id g" for g
    by (simp_all split: option.split)
  then show "map gr_id (apply_targets uts rows) = map gr_id rows"
    "map (\<lambda>t. (gr_job_id t, gr_station_id t)) (apply_targets uts rows) =
     map (\<lambda>t. (gr_job_id t, gr_station_id t)) rows"
    "gr_job_id ` set (apply_targets uts rows) = gr_job_id ` set rows"
    "gr_station_id ` set (apply_targets uts rows) = gr_station_id ` set rows"
    by (simp_all add: apply_targets_def image_image)
qed

lemma integrity_with_targets: "integrity d \<Longrightarrow> integrity (with_targets uts d)"
  by (simp add: with_targets_def integrity_def constraint_defs apply_targets_keys)

text \<open>Updating the targets one by one, each with an id of its own.\<close>

lemma targets_update_ok:
  assumes "g \<in> set (publish_targets d)" and "gr_id g = tg_id t" and "gr_job_id g = tg_job_id t"
    and "distinct (map gr_id (publish_targets d))"
  shows "targets_update t d = (Inr (), with_targets [t] d)"
proof -
  have "find (\<lambda>r. gr_id r = tg_id t) (publish_targets d) = Some g"
    using find_unique [OF assms(4,1)] assms(2) by simp
  moreover have "update_where (\<lambda>r. gr_id r = tg_id t) (updated_target_row t) (publish_targets d) =
      apply_targets [t] (publish_targets d)"
    by (auto simp: update_where_def apply_targets_def)
  ultimately show ?thesis using assms(3) by (simp add: targets_update_def with_targets_def)
qed

lemma apply_targets_Cons:
  assumes "tg_id t \<notin> tg_id ` set uts"
  shows "apply_targets uts (apply_targets [t] rows) = apply_targets (t # uts) rows"
proof -
  have none: "find (\<lambda>u. tg_id u = tg_id t) uts = None"
    unfolding find_None_iff using assms by (metis image_eqI)
  have "(case find (\<lambda>u. tg_id u = gr_id h) uts of None \<Rightarrow> h | Some u \<Rightarrow> updated_target_row u h) =
      (case find (\<lambda>u. tg_id u = gr_id g) (t # uts) of None \<Rightarrow> g | Some u \<Rightarrow> updated_target_row u g)"
    if "h = (case find (\<lambda>u. tg_id u = gr_id g) [t] of None \<Rightarrow> g | Some u \<Rightarrow> updated_target_row u g)"
    for g h
    using that none by (cases "tg_id t = gr_id g") (simp_all split: option.split)
  then show ?thesis by (simp add: apply_targets_def)
qed

lemma targets_update_all:
  assumes "distinct (map tg_id uts)" and "distinct (map gr_id (publish_targets d))"
    and "\<And>t. t \<in> set uts \<Longrightarrow> \<exists>g \<in> set (publish_targets d). gr_id g = tg_id t \<and> gr_job_id g = tg_job_id t"
  shows "forS (\<lambda>t. sess (targets_update t)) uts \<lparr>committed = c, session = d\<rparr> =
    (Inr (), \<lparr>committed = c, session = with_targets uts d\<rparr>)"
  using assms
proof (induction uts arbitrary: d)
  case Nil
  then show ?case by (simp add: sx_simps with_targets_def apply_targets_def)
next
  case (Cons t uts)
  from Cons.prems(3) [of t] obtain g where g: "g \<in> set (publish_targets d)" "gr_id g = tg_id t"
    "gr_job_id g = tg_job_id t" by auto
  have first: "targets_update t d = (Inr (), with_targets [t] d)"
    by (rule targets_update_ok [OF g Cons.prems(2)])
  have rest: "\<exists>h \<in> set (publish_targets (with_targets [t] d)). gr_id h = tg_id u \<and> gr_job_id h = tg_job_id u"
    if "u \<in> set uts" for u
  proof -
    from Cons.prems(3) [of u] that obtain h where h: "h \<in> set (publish_targets d)"
      "gr_id h = tg_id u" "gr_job_id h = tg_job_id u" by auto
    let ?h = "case find (\<lambda>u. tg_id u = gr_id h) [t] of None \<Rightarrow> h | Some u \<Rightarrow> updated_target_row u h"
    have "?h \<in> set (publish_targets (with_targets [t] d))"
      using h(1) unfolding with_targets_frame apply_targets_def set_map by (rule imageI)
    moreover have "gr_id ?h = tg_id u" "gr_job_id ?h = tg_job_id u" using h by simp_all
    ultimately show ?thesis by blast
  qed
  have ids: "distinct (map gr_id (publish_targets (with_targets [t] d)))"
    using Cons.prems(2) by (simp add: apply_targets_keys)
  have "distinct (map tg_id uts)" using Cons.prems(1) by simp
  from Cons.IH [OF this ids rest] have "forS (\<lambda>t. sess (targets_update t)) uts
      \<lparr>committed = c, session = with_targets [t] d\<rparr> =
      (Inr (), \<lparr>committed = c, session = with_targets uts (with_targets [t] d)\<rparr>)" .
  moreover have "with_targets uts (with_targets [t] d) = with_targets (t # uts) d"
    using Cons.prems(1) apply_targets_Cons [of t uts "publish_targets d"]
    by (simp add: with_targets_def)
  moreover have "sess (targets_update t) \<lparr>committed = c, session = d\<rparr> =
      (Inr (), \<lparr>committed = c, session = with_targets [t] d\<rparr>)"
    by (simp add: sess_apply first)
  ultimately show ?case by (simp add: bindS_apply)
qed

section \<open>Preparing\<close>

lemma preflighted_target_Inr:
  assumes "preflighted_target reports t = Inr u"
  shows "tg_id u = tg_id t" and "tg_job_id u = tg_job_id t" and "tg_selected u = tg_selected t"
    and "tg_progress_percent u = tg_progress_percent t"
    and "tg_selected t \<Longrightarrow> \<exists>r. reports (tg_station_id t) = Some r
      \<and> tg_preflight_status u = Some (check_status_value (rep_status r))
      \<and> tg_preflight_result u = Some r"
  using assms
  by (auto simp: preflighted_target_def mk_target_Inr_iff split: if_splits option.splits)

lemma mapR_preflighted:
  assumes "mapR (preflighted_target reports) ts = Inr us"
  shows "map tg_id us = map tg_id ts" and "map tg_job_id us = map tg_job_id ts"
proof -
  show "map tg_id us = map tg_id ts"
    by (rule mapR_map_eq [OF assms]) (rule preflighted_target_Inr(1))
  show "map tg_job_id us = map tg_job_id ts"
    by (rule mapR_map_eq [OF assms]) (rule preflighted_target_Inr(2))
qed

definition prepared_db ::
    "datetime \<Rightarrow> publish_target list \<Rightarrow> publish_job \<Rightarrow> db \<Rightarrow> db" where
  "prepared_db clock uts job d = set_job clock job (with_targets uts d)"

lemma load_job_targets_eq:
  assumes "job_by d job_id = Some r"
  shows "load_job_targets job_id \<lparr>committed = c, session = d\<rparr> =
    (case targets_list_for_job job_id d of (v, _) \<Rightarrow>
       (bindR v (\<lambda>ts. Inr (row_job r, ts)), \<lparr>committed = c, session = d\<rparr>))"
proof -
  have "jr_id r = job_id" using assms by (auto dest: job_by_SomeD)
  moreover have "snd (targets_list_for_job job_id d) = d" by (simp add: targets_list_for_job_def)
  ultimately show ?thesis
    using assms
    by (cases "targets_list_for_job job_id d")
      (auto simp: load_job_targets_def sx_simps bindR_def split: sum.split)
qed

lemma update_prepared_job_Inr:
  assumes "update_prepared_job clock job gate confirmation = Inr job'"
    and "pj_status job \<in> {DRAFT, PREFLIGHT, AWAITING_CONFIRMATION}"
  shows "pj_id job' = pj_id job"
    and "pj_status job' =
      (if pj_status job = AWAITING_CONFIRMATION \<or> can_advance gate
          \<or> (\<forall>reason \<in> set (wr_reasons gate). reason = ''operator_confirmation_required'')
       then AWAITING_CONFIRMATION else PREFLIGHT)"
    and "pj_client_confirmation job' =
      (case confirmation of None \<Rightarrow> pj_client_confirmation job | Some b \<Rightarrow> Some b)"
proof -
  define ready where "ready \<longleftrightarrow> can_advance gate
    \<or> (\<forall>reason \<in> set (wr_reasons gate). reason = ''operator_confirmation_required'')"
  have eq: "update_prepared_job clock job gate confirmation =
     bindR (if pj_status job = DRAFT then transition job PREFLIGHT else Inr job) (\<lambda>updated.
       bindR (if ready \<and> pj_status updated = PREFLIGHT
              then transition updated AWAITING_CONFIRMATION else Inr updated) (\<lambda>updated.
         Inr (updated\<lparr>
           pj_status_reason := (if can_advance gate then None else Some (join_with '';'' (wr_reasons gate))),
           pj_client_confirmation :=
             (case confirmation of None \<Rightarrow> pj_client_confirmation updated | Some b \<Rightarrow> Some b),
           pj_client_confirmation_at :=
             (case confirmation of None \<Rightarrow> pj_client_confirmation_at updated | Some b \<Rightarrow> Some clock)\<rparr>)))"
    by (simp only: update_prepared_job_def Let_def list_all_iff ready_def)
  have "pj_id job' = pj_id job
    \<and> pj_status job' = (if pj_status job = AWAITING_CONFIRMATION \<or> ready then AWAITING_CONFIRMATION else PREFLIGHT)
    \<and> pj_client_confirmation job' =
      (case confirmation of None \<Rightarrow> pj_client_confirmation job | Some b \<Rightarrow> Some b)"
    using assms unfolding eq
    by (cases "pj_status job"; cases ready) (auto simp: transition_def split: option.split)
  then show "pj_id job' = pj_id job"
    and "pj_status job' =
      (if pj_status job = AWAITING_CONFIRMATION \<or> can_advance gate
          \<or> (\<forall>reason \<in> set (wr_reasons gate). reason = ''operator_confirmation_required'')
       then AWAITING_CONFIRMATION else PREFLIGHT)"
    and "pj_client_confirmation job' =
      (case confirmation of None \<Rightarrow> pj_client_confirmation job | Some b \<Rightarrow> Some b)"
    by (simp_all add: ready_def)
qed

text \<open>Everything a successful preparation read and wrote.\<close>

lemma prepare_Inr:
  assumes ok: "integrity d"
    and run: "prepare_publish_job query clock job_id admin confirmation d = (Inr res, d')"
    and ro: "\<And>sid d. snd (query sid d) = d"
  obtains r uts reports where "job_by d job_id = Some r"
    and "jr_status r \<in> {DRAFT, PREFLIGHT, AWAITING_CONFIRMATION}"
    and "targets_list_for_job job_id d = (Inr (map row_target (job_target_rows job_id d)), d)"
    and "pp_gate res = evaluate_wizard_gate
      \<lparr>wi_admin_report = pp_admin_report res, wi_client_reports = pp_client_reports res,
       wi_selected_station_ids = map tg_station_id (filter tg_selected
         (map row_target (job_target_rows job_id d))), wi_confirmation = confirmation\<rparr>"
    and "(case admin of None \<Rightarrow> pp_admin_report res = None
          | Some sid \<Rightarrow> \<exists>rep. query sid d = (Inr rep, d) \<and> pp_admin_report res = Some rep)"
    and "mapR (preflighted_target (pp_client_reports res))
      (map row_target (job_target_rows job_id d)) = Inr uts"
    and "update_prepared_job clock (row_job r) (pp_gate res) confirmation = Inr (pp_job res)"
    and "d' = prepared_db clock uts (pp_job res) d" and "integrity d'"
proof -
  let ?rows = "map row_target (job_target_rows job_id d)"
  let ?load = "with_uow (load_job_targets job_id) d"
  obtain r where r: "job_by d job_id = Some r"
    using run
    by (cases "job_by d job_id")
      (auto simp: prepare_publish_job_def load_job_targets_def sx_simps)
  have id: "jr_id r = job_id" using r by (auto dest: job_by_SomeD)
  obtain v where v: "targets_list_for_job job_id d = (v, d)"
    by (auto simp: targets_list_for_job_def)
  have load: "load_job_targets job_id \<lparr>committed = c, session = d\<rparr> =
      (bindR v (\<lambda>ts. Inr (row_job r, ts)), \<lparr>committed = c, session = d\<rparr>)" for c
    using load_job_targets_eq [OF r] v by simp
  obtain ts where ts: "v = Inr ts"
    using run load by (cases v) (auto simp: prepare_publish_job_def sx_simps)
  have rows: "ts = ?rows" using targets_list_Inr v ts by blast
  have status: "jr_status r \<in> {DRAFT, PREFLIGHT, AWAITING_CONFIRMATION}"
    using run load ts
    by (auto simp: prepare_publish_job_def sx_simps validate_prepare_status_def split: if_splits)
  have loaded: "?load = (Inr (row_job r, ?rows), d)"
    using load ts rows by (simp add: sx_simps)
  let ?sel = "map tg_station_id (filter tg_selected ?rows)"
  obtain ar where admin: "(case admin of None \<Rightarrow> returnS None
      | Some sid \<Rightarrow> bindS (query sid) (\<lambda>r. returnS (Some r))) d = (Inr ar, d)"
    and admin': "(case admin of None \<Rightarrow> ar = None
      | Some sid \<Rightarrow> \<exists>rep. query sid d = (Inr rep, d) \<and> ar = Some rep)"
  proof (cases admin)
    case None
    then show ?thesis using that [of None] by (simp add: sx_simps)
  next
    case (Some sid)
    obtain q where q: "query sid d = (q, d)" using ro [of sid d] by (cases "query sid d") simp
    obtain rep where "q = Inr rep"
      using run status q Some
      by (cases q) (auto simp: prepare_publish_job_def loaded bindS_apply raiseS_apply
          liftR_apply validate_prepare_status_def Let_def split: if_splits)
    with q Some that [of "Some rep"] show ?thesis by (simp add: sx_simps)
  qed
  have valid: "validate_prepare_status (row_job r) = Inr ()"
    using status by (simp add: validate_prepare_status_def)
  have "snd (mapS query xs d) = d" for xs
    using mapS_invariant [where P = "\<lambda>x. x = d" and f = query and xs = xs and s = d] ro by simp
  then obtain q where q: "mapS query ?sel d = (q, d)" by (metis prod.collapse)
  obtain reports where reports: "q = Inr reports"
    using run valid q admin
    by (cases q) (auto simp: prepare_publish_job_def loaded bindS_apply raiseS_apply
        liftR_apply Let_def split: if_splits)
  define rm where "rm = map_of (rev (zip ?sel reports))"
  define gate where "gate = evaluate_wizard_gate \<lparr>wi_admin_report = ar, wi_client_reports = rm,
    wi_selected_station_ids = ?sel, wi_confirmation = confirmation\<rparr>"
  obtain p d1 where p: "with_uow (persist_prepared clock job_id ?rows rm gate confirmation) d = (p, d1)"
    by fastforce
  have res: "p = Inr (pp_job res)" "d1 = d'"
    "res = \<lparr>pp_job = pp_job res, pp_gate = gate, pp_admin_report = ar, pp_client_reports = rm\<rparr>"
    using run p
    by (auto simp: prepare_publish_job_def loaded bindS_apply raiseS_apply liftR_apply Let_def
        valid admin q reports rm_def [symmetric] gate_def [symmetric] returnS_apply
        split: sum.splits)
  obtain uts where uts: "mapR (preflighted_target rm) ?rows = Inr uts"
    using p res(1) load ts rows valid
    by (cases "mapR (preflighted_target rm) ?rows")
      (auto simp: persist_prepared_def with_uow_def bindS_apply liftR_apply raiseS_apply image_image)
  obtain job' where job': "update_prepared_job clock (row_job r) gate confirmation = Inr job'"
    using p res(1) load ts rows valid uts
    by (cases "update_prepared_job clock (row_job r) gate confirmation")
      (auto simp: persist_prepared_def with_uow_def bindS_apply liftR_apply raiseS_apply image_image)
  have uts_ids: "distinct (map tg_id uts)"
  proof -
    have "map tg_id uts = map (gr_id \<circ> fst) (job_target_rows job_id d)"
      using mapR_preflighted(1) [OF uts] by (auto simp: comp_def)
    then show ?thesis using distinct_job_target_rows [OF ok] by simp
  qed
  have uts_rows: "\<exists>g \<in> set (publish_targets d). gr_id g = tg_id t \<and> gr_job_id g = tg_job_id t"
    if "t \<in> set uts" for t
  proof -
    from mapR_element [OF uts that] obtain g s where
      "(g, s) \<in> set (job_target_rows job_id d)" "preflighted_target rm (row_target (g, s)) = Inr t"
      by auto
    then show ?thesis
      using preflighted_target_Inr(1,2) by (metis row_target_sels(1,2) set_job_target_rows)
  qed
  have jid: "pj_id job' = job_id"
    using update_prepared_job_Inr(1) [OF job'] status id by simp
  have upd: "forS (\<lambda>t. sess (targets_update t)) uts \<lparr>committed = d, session = d\<rparr> =
      (Inr (), \<lparr>committed = d, session = with_targets uts d\<rparr>)"
    by (rule targets_update_all [OF uts_ids integrityD(11) [OF ok] uts_rows])
  have fin: "job' = pp_job res \<and> d' = prepared_db clock uts job' d \<and> integrity d'"
    using p res(1,2) load ts rows valid uts job' upd r jid
    by (auto simp: persist_prepared_def with_uow_def bindS_apply liftR_apply raiseS_apply image_image
        sess_apply jobs_update_eq commit_apply returnS_apply prepared_db_def split: if_splits)
  have sels: "pp_gate res = gate" "pp_admin_report res = ar" "pp_client_reports res = rm"
    by (subst res(3), simp)+
  show ?thesis
  proof (rule that [OF r status])
    show "targets_list_for_job job_id d = (Inr ?rows, d)" using v ts rows by simp
    show "pp_gate res = evaluate_wizard_gate \<lparr>wi_admin_report = pp_admin_report res,
        wi_client_reports = pp_client_reports res, wi_selected_station_ids = ?sel,
        wi_confirmation = confirmation\<rparr>"
      unfolding sels gate_def by (rule refl)
    show "case admin of None \<Rightarrow> pp_admin_report res = None
        | Some sid \<Rightarrow> \<exists>rep. query sid d = (Inr rep, d) \<and> pp_admin_report res = Some rep"
      unfolding sels by (rule admin')
    show "mapR (preflighted_target (pp_client_reports res)) ?rows = Inr uts"
      unfolding sels by (rule uts)
    show "update_prepared_job clock (row_job r) (pp_gate res) confirmation = Inr (pp_job res)"
      unfolding sels using job' fin by simp
    show "d' = prepared_db clock uts (pp_job res) d" using fin by blast
    show "integrity d'" using fin by blast
  qed
qed

end
