(* ===== verification/Publish_Properties.thy ===== *)
theory Publish_Properties
  imports Publish_Gate Samples
begin

text \<open>
  What the publish pipeline guarantees between a draft and the outbox.
\<close>

section \<open>After a preparation\<close>

lemma in_apply_targets:
  "g \<in> set (apply_targets uts rows) \<Longrightarrow>
     \<exists>h \<in> set rows. g = (case find (\<lambda>t. tg_id t = gr_id h) uts of None \<Rightarrow> h
                         | Some t \<Rightarrow> updated_target_row t h)"
  by (auto simp: apply_targets_def)

lemma prepared_db_frame [simp]:
  "stations (prepared_db clock uts j d) = stations d"
  "outbox_events (prepared_db clock uts j d) = outbox_events d"
  "publish_targets (prepared_db clock uts j d) = apply_targets uts (publish_targets d)"
  "job_by (prepared_db clock uts j d) jid =
     map_option (\<lambda>r. if jr_id r = pj_id j then updated_job_row clock j r else r) (job_by d jid)"
  by (simp_all add: prepared_db_def job_by_set_job)

lemma mapR_element': "mapR f xs = Inr ys \<Longrightarrow> x \<in> set xs \<Longrightarrow> \<exists>y \<in> set ys. f x = Inr y"
  by (induction xs arbitrary: ys) (auto simp: bindR_Inr_iff)

lemma find_preflighted:
  assumes "integrity d"
    and uts: "mapR (preflighted_target reports) (map row_target (job_target_rows job_id d)) = Inr uts"
    and row: "(h, s) \<in> set (job_target_rows job_id d)"
  obtains u where "find (\<lambda>t. tg_id t = gr_id h) uts = Some u"
    and "preflighted_target reports (row_target (h, s)) = Inr u"
proof -
  have "row_target (h, s) \<in> set (map row_target (job_target_rows job_id d))"
    using row by force
  then obtain u where u: "u \<in> set uts" "preflighted_target reports (row_target (h, s)) = Inr u"
    using mapR_element' [OF uts] by blast
  have "map tg_id uts = map (gr_id \<circ> fst) (job_target_rows job_id d)"
    using mapR_preflighted(1) [OF uts] by (auto simp: comp_def)
  then have "distinct (map tg_id uts)" using distinct_job_target_rows [OF assms(1)] by simp
  from find_unique [OF this u(1)] have "find (\<lambda>t. tg_id t = gr_id h) uts = Some u"
    using preflighted_target_Inr(1) [OF u(2)] by simp
  with u(2) that show ?thesis by blast
qed

text \<open>The stored targets of the job after a preparation are those before it, each with the
  verdict of its report.\<close>

lemma prepared_rows:
  assumes "integrity d"
    and uts: "mapR (preflighted_target reports) (map row_target (job_target_rows job_id d)) = Inr uts"
  shows "(g, s) \<in> set (job_target_rows job_id (prepared_db clock uts j d)) \<longleftrightarrow>
    (\<exists>h u. (h, s) \<in> set (job_target_rows job_id d) \<and> g = updated_target_row u h
       \<and> preflighted_target reports (row_target (h, s)) = Inr u)"
    (is "?new \<longleftrightarrow> ?old")
proof
  assume ?new
  then have g: "g \<in> set (apply_targets uts (publish_targets d))" "gr_job_id g = job_id"
      "s \<in> set (stations d)" "sr_id s = gr_station_id g"
    by (auto simp: set_job_target_rows)
  from in_apply_targets [OF g(1)] obtain h where h: "h \<in> set (publish_targets d)"
    "g = (case find (\<lambda>t. tg_id t = gr_id h) uts of None \<Rightarrow> h | Some t \<Rightarrow> updated_target_row t h)"
    by blast
  have "gr_job_id g = gr_job_id h" "gr_station_id g = gr_station_id h"
    using h(2) by (simp_all split: option.splits)
  with g h have row: "(h, s) \<in> set (job_target_rows job_id d)"
    by (simp add: set_job_target_rows)
  from find_preflighted [OF assms row] h(2) row show ?old by (metis option.simps(5))
next
  assume ?old
  then obtain h u where row: "(h, s) \<in> set (job_target_rows job_id d)"
    and u: "g = updated_target_row u h" "preflighted_target reports (row_target (h, s)) = Inr u"
    by blast
  from find_preflighted [OF assms row] u have
    "find (\<lambda>t. tg_id t = gr_id h) uts = Some u" by (metis Inr_inject)
  then have "(case find (\<lambda>t. tg_id t = gr_id h) uts of None \<Rightarrow> h | Some t \<Rightarrow> updated_target_row t h) = g"
    using u(1) by simp
  with row u(1) show ?new by (force simp: set_job_target_rows apply_targets_def)
qed

lemma prepared_targets:
  fixes clock :: datetime and j :: publish_job
  assumes "integrity d"
    and uts: "mapR (preflighted_target reports) (map row_target (job_target_rows job_id d)) = Inr uts"
    and list: "targets_list_for_job job_id d = (Inr (map row_target (job_target_rows job_id d)), d)"
  defines "d' \<equiv> prepared_db clock uts j d"
  shows "targets_list_for_job job_id d' = (Inr (map row_target (job_target_rows job_id d')), d')"
    and "t \<in> set (map row_target (job_target_rows job_id d')) \<Longrightarrow> tg_selected t \<Longrightarrow>
      \<exists>rep. reports (tg_station_id t) = Some rep
           \<and> tg_preflight_status t = Some (check_status_value (rep_status rep))"
    and "set (map tg_station_id (filter tg_selected (map row_target (job_target_rows job_id d')))) =
      set (map tg_station_id (filter tg_selected (map row_target (job_target_rows job_id d))))"
proof -
  have rows: "(g, s) \<in> set (job_target_rows job_id d') \<longleftrightarrow>
      (\<exists>h u. (h, s) \<in> set (job_target_rows job_id d) \<and> g = updated_target_row u h
         \<and> preflighted_target reports (row_target (h, s)) = Inr u)" for g s
    unfolding d'_def by (rule prepared_rows [OF assms(1,2)])
  have "0 \<le> tg_progress_percent (row_target (h, s)) \<and> tg_progress_percent (row_target (h, s)) \<le> 100"
    if "(h, s) \<in> set (job_target_rows job_id d)" for h s
  proof -
    have "mapR (\<lambda>row. mk_target (row_target row)) (job_target_rows job_id d) =
        Inr (map row_target (job_target_rows job_id d))"
      using list by (simp add: targets_list_for_job_def job_target_rows_def)
    from mapR_element' [OF this that] show ?thesis by (auto simp: mk_target_Inr_iff)
  qed
  then have "mk_target (row_target (g, s)) = Inr (row_target (g, s))"
    if "(g, s) \<in> set (job_target_rows job_id d')" for g s
    using that rows preflighted_target_Inr(4) by (fastforce simp: mk_target_Inr_iff)
  then have "mapR (\<lambda>row. mk_target (row_target row)) (job_target_rows job_id d') =
      Inr (map row_target (job_target_rows job_id d'))"
    by (intro mapR_total) auto
  then show "targets_list_for_job job_id d' = (Inr (map row_target (job_target_rows job_id d')), d')"
    by (simp add: targets_list_for_job_def job_target_rows_def)
  show "\<exists>rep. reports (tg_station_id t) = Some rep
      \<and> tg_preflight_status t = Some (check_status_value (rep_status rep))"
    if "t \<in> set (map row_target (job_target_rows job_id d'))" "tg_selected t"
  proof -
    from that(1) obtain g s where gs: "(g, s) \<in> set (job_target_rows job_id d')" "t = row_target (g, s)"
      by auto
    then obtain h u where hu: "g = updated_target_row u h"
      "preflighted_target reports (row_target (h, s)) = Inr u" using rows by blast
    from that(2) gs(2) hu(1) have "tg_selected (row_target (h, s))" by simp
    from preflighted_target_Inr(5) [OF hu(2) this] gs(2) hu(1) show ?thesis by auto
  qed
  have "(\<exists>g. (g, s) \<in> set (job_target_rows job_id d') \<and> gr_deselected_at g = None) \<longleftrightarrow>
      (\<exists>h. (h, s) \<in> set (job_target_rows job_id d) \<and> gr_deselected_at h = None)" for s
    unfolding rows using find_preflighted [OF assms(1,2)]
    by (metis updated_target_row_sels(5))
  then show "set (map tg_station_id (filter tg_selected (map row_target (job_target_rows job_id d')))) =
      set (map tg_station_id (filter tg_selected (map row_target (job_target_rows job_id d))))"
    by (auto simp: image_iff) (metis row_target_sels(3,4))+
qed

section \<open>A dispatch that passes its checks\<close>

lemma dispatch_ok:
  assumes "integrity d" and "job_by d job_id = Some r"
    and "targets_list_for_job job_id d = (Inr ts, d)"
    and "validate_dispatch (row_job r) ts = Inr ()"
    and "event_id \<notin> xr_id ` set (outbox_events d)"
  defines "job \<equiv> (row_job r)\<lparr>pj_status := PUBLISHING, pj_status_reason := None\<rparr>"
  shows "dispatch_publish_job event_id clock job_id d = (Inr job, dispatched_db event_id clock job d)"
proof -
  from job_by_SomeD [OF assms(2)] have "pj_id job \<in> jr_id ` set (publish_jobs d)"
    by (force simp: job_def)
  then have "integrity (dispatched_db event_id clock job d)"
    by (rule integrity_dispatched_db [OF assms(1) _ assms(5)])
  then show ?thesis
    using assms(4) by (simp add: dispatch_eq [OF assms(2,3)] Let_def job_def)
qed

section \<open>A preparation, then a dispatch\<close>

text \<open>What the dispatch reads after a preparation: the job as it was updated, and one target per
  selected station with the verdict of the report it was given.\<close>

lemma after_preparation:
  assumes "integrity d"
    and run: "prepare_publish_job query clock job_id admin confirmation d = (Inr res, d')"
    and "\<And>sid d. snd (query sid d) = d"
  obtains r' ts where "integrity d'" and "job_by d' job_id = Some r'" and "jr_id r' = job_id"
    and "jr_status r' = pj_status (pp_job res)"
    and "jr_client_confirmation r' = pj_client_confirmation (pp_job res)"
    and "targets_list_for_job job_id d' = (Inr ts, d')"
    and "outbox_events d' = outbox_events d"
    and "pp_gate res = evaluate_wizard_gate
      \<lparr>wi_admin_report = pp_admin_report res, wi_client_reports = pp_client_reports res,
       wi_selected_station_ids = map tg_station_id (filter tg_selected
         (map row_target (job_target_rows job_id d))), wi_confirmation = confirmation\<rparr>"
    and "\<And>t. t \<in> set ts \<Longrightarrow> tg_selected t \<Longrightarrow> \<exists>rep. pp_client_reports res (tg_station_id t) = Some rep
           \<and> tg_preflight_status t = Some (check_status_value (rep_status rep))"
    and "tg_station_id ` {t \<in> set ts. tg_selected t} =
      set (map tg_station_id (filter tg_selected (map row_target (job_target_rows job_id d))))"
proof -
  obtain r uts where r: "job_by d job_id = Some r"
    and st: "jr_status r \<in> {DRAFT, PREFLIGHT, AWAITING_CONFIRMATION}"
    and list: "targets_list_for_job job_id d = (Inr (map row_target (job_target_rows job_id d)), d)"
    and gate: "pp_gate res = evaluate_wizard_gate
      \<lparr>wi_admin_report = pp_admin_report res, wi_client_reports = pp_client_reports res,
       wi_selected_station_ids = map tg_station_id (filter tg_selected
         (map row_target (job_target_rows job_id d))), wi_confirmation = confirmation\<rparr>"
    and uts: "mapR (preflighted_target (pp_client_reports res))
      (map row_target (job_target_rows job_id d)) = Inr uts"
    and upd: "update_prepared_job clock (row_job r) (pp_gate res) confirmation = Inr (pp_job res)"
    and d': "d' = prepared_db clock uts (pp_job res) d" and ok': "integrity d'"
    by (rule prepare_Inr [OF assms]) blast
  have id: "jr_id r = job_id" using r by (auto dest: job_by_SomeD)
  have jid: "pj_id (pp_job res) = job_id"
    using update_prepared_job_Inr(1) [OF upd] st id by simp
  note after = prepared_targets [OF assms(1) uts list, where clock = clock and j = "pp_job res", folded d']
  show ?thesis
  proof (rule that [OF ok' _ _ _ _ after(1) _ gate after(2)])
    show "job_by d' job_id = Some (updated_job_row clock (pp_job res) r)"
      using r id jid by (simp add: d')
    show "tg_station_id ` {t \<in> set (map row_target (job_target_rows job_id d')). tg_selected t} =
        set (map tg_station_id (filter tg_selected (map row_target (job_target_rows job_id d))))"
      using after(3) by simp
  qed (use id in \<open>simp_all add: d'\<close>)
qed

lemma prepared_dispatches:
  assumes "integrity d"
    and "prepare_publish_job query clock job_id admin confirmation d = (Inr res, d')"
    and "\<And>sid d. snd (query sid d) = d"
    and state: "pj_status (pp_job res) = AWAITING_CONFIRMATION"
      "pj_client_confirmation (pp_job res) = Some True"
    and selected: "filter tg_selected (map row_target (job_target_rows job_id d)) \<noteq> []"
      "\<forall>t \<in> set (filter tg_selected (map row_target (job_target_rows job_id d))).
        \<exists>rep. pp_client_reports res (tg_station_id t) = Some rep \<and> can_publish rep"
    and "event_id \<notin> xr_id ` set (outbox_events d)"
  shows "\<exists>job d''. dispatch_publish_job event_id clock' job_id d' = (Inr job, d'')
    \<and> pj_id job = job_id \<and> pj_status job = PUBLISHING
    \<and> map_option jr_status (job_by d'' job_id) = Some PUBLISHING
    \<and> event_id \<in> xr_id ` set (outbox_events d'')"
proof -
  obtain r' ts where ok': "integrity d'" and r': "job_by d' job_id = Some r'"
    and id: "jr_id r' = job_id" and st: "jr_status r' = pj_status (pp_job res)"
    and conf: "jr_client_confirmation r' = pj_client_confirmation (pp_job res)"
    and list: "targets_list_for_job job_id d' = (Inr ts, d')"
    and out: "outbox_events d' = outbox_events d"
    and verdict: "\<And>t. t \<in> set ts \<Longrightarrow> tg_selected t \<Longrightarrow>
      \<exists>rep. pp_client_reports res (tg_station_id t) = Some rep
           \<and> tg_preflight_status t = Some (check_status_value (rep_status rep))"
    and sel: "tg_station_id ` {t \<in> set ts. tg_selected t} =
      set (map tg_station_id (filter tg_selected (map row_target (job_target_rows job_id d))))"
    by (rule after_preparation [OF assms(1-3)]) blast
  have "tg_preflight_status t \<in> {Some ''pass'', Some ''warning''}" if "t \<in> set ts" "tg_selected t" for t
  proof -
    have "tg_station_id t \<in> tg_station_id ` {t \<in> set ts. tg_selected t}" using that by blast
    then obtain u where u: "u \<in> set (filter tg_selected (map row_target (job_target_rows job_id d)))"
      "tg_station_id u = tg_station_id t" unfolding sel by (metis image_iff list.set_map)
    from bspec [OF selected(2) u(1)] u(2) verdict [OF that] show ?thesis
      by (auto simp: can_publish_value_iff)
  qed
  moreover have "\<exists>t \<in> set ts. tg_selected t"
  proof -
    have "tg_station_id ` {t \<in> set ts. tg_selected t} \<noteq> {}"
      unfolding sel using selected(1) by (simp only: set_empty map_is_Nil_conv) simp
    then show ?thesis by blast
  qed
  ultimately have "validate_dispatch (row_job r') ts = Inr ()"
    unfolding validate_dispatch_Inr_iff using st conf state by simp
  moreover have "event_id \<notin> xr_id ` set (outbox_events d')" using assms(8) by (simp add: out)
  ultimately have run: "dispatch_publish_job event_id clock' job_id d' =
      (Inr ((row_job r')\<lparr>pj_status := PUBLISHING, pj_status_reason := None\<rparr>),
       dispatched_db event_id clock' ((row_job r')\<lparr>pj_status := PUBLISHING, pj_status_reason := None\<rparr>) d')"
    by (rule dispatch_ok [OF ok' r' list])
  show ?thesis
    unfolding run using r' id by (simp add: job_by_set_job) (simp add: dispatched_db_def outbox_add_def dispatch_event_def)
qed

section \<open>The gate and the dispatch\<close>

text \<open>C12. The gate keeps its word: when a preparation reports that the job can advance, the
  dispatch that follows succeeds; the job is publishing and its event waits in the outbox.\<close>

theorem ready_gate_dispatches:
  assumes "integrity d"
    and "prepare_publish_job query clock job_id admin confirmation d = (Inr res, d')"
    and "\<And>sid d. snd (query sid d) = d"
    and "can_advance (pp_gate res)"
    and "event_id \<notin> xr_id ` set (outbox_events d)"
  shows "\<exists>job d''. dispatch_publish_job event_id clock' job_id d' = (Inr job, d'')
    \<and> pj_id job = job_id \<and> pj_status job = PUBLISHING
    \<and> map_option jr_status (job_by d'' job_id) = Some PUBLISHING
    \<and> event_id \<in> xr_id ` set (outbox_events d'')"
proof -
  obtain r where st: "jr_status r \<in> {DRAFT, PREFLIGHT, AWAITING_CONFIRMATION}"
    and gate: "pp_gate res = evaluate_wizard_gate
      \<lparr>wi_admin_report = pp_admin_report res, wi_client_reports = pp_client_reports res,
       wi_selected_station_ids = map tg_station_id (filter tg_selected
         (map row_target (job_target_rows job_id d))), wi_confirmation = confirmation\<rparr>"
    and upd: "update_prepared_job clock (row_job r) (pp_gate res) confirmation = Inr (pp_job res)"
    by (rule prepare_Inr [OF assms(1-3)]) blast
  from assms(4) have ready: "confirmation = Some True"
    "filter tg_selected (map row_target (job_target_rows job_id d)) \<noteq> []"
    "\<forall>t \<in> set (filter tg_selected (map row_target (job_target_rows job_id d))).
      \<exists>rep. pp_client_reports res (tg_station_id t) = Some rep \<and> can_publish rep"
    unfolding gate gate_ready_iff by simp_all
  have "pj_status (pp_job res) = AWAITING_CONFIRMATION"
    "pj_client_confirmation (pp_job res) = Some True"
    using update_prepared_job_Inr(2,3) [OF upd] st assms(4) ready(1) by simp_all
  from prepared_dispatches [OF assms(1-3) this ready(2,3) assms(5)] show ?thesis .
qed

text \<open>A client that did not pass holds the job back: after a preparation in which the report of
  a selected station does not permit publishing, whatever the job's status and the operator's
  confirmation, a dispatch is rejected and changes nothing.\<close>

lemma blocked_client_holds:
  assumes "integrity d"
    and "prepare_publish_job query clock job_id admin confirmation d = (Inr res, d')"
    and "\<And>sid d. snd (query sid d) = d"
    and "t \<in> set (map row_target (job_target_rows job_id d))" and "tg_selected t"
    and "pp_client_reports res (tg_station_id t) = Some rep" and "\<not> can_publish rep"
  shows "\<not> can_advance (pp_gate res)
    \<and> (\<exists>e. dispatch_publish_job event_id clock' job_id d' = (Inl e, d'))"
proof -
  obtain r' ts where ok': "integrity d'" and r': "job_by d' job_id = Some r'"
    and list: "targets_list_for_job job_id d' = (Inr ts, d')"
    and gate: "pp_gate res = evaluate_wizard_gate
      \<lparr>wi_admin_report = pp_admin_report res, wi_client_reports = pp_client_reports res,
       wi_selected_station_ids = map tg_station_id (filter tg_selected
         (map row_target (job_target_rows job_id d))), wi_confirmation = confirmation\<rparr>"
    and verdict: "\<And>t. t \<in> set ts \<Longrightarrow> tg_selected t \<Longrightarrow>
      \<exists>rep. pp_client_reports res (tg_station_id t) = Some rep
           \<and> tg_preflight_status t = Some (check_status_value (rep_status rep))"
    and sel: "tg_station_id ` {t \<in> set ts. tg_selected t} =
      set (map tg_station_id (filter tg_selected (map row_target (job_target_rows job_id d))))"
    by (rule after_preparation [OF assms(1-3)]) blast
  have in_sel: "tg_station_id t \<in> set (map tg_station_id (filter tg_selected
      (map row_target (job_target_rows job_id d))))"
    using assms(4,5) by simp
  then obtain u where u: "u \<in> set ts" "tg_selected u" "tg_station_id u = tg_station_id t"
    unfolding sel [symmetric] by auto
  have "tg_preflight_status u \<notin> {Some ''pass'', Some ''warning''}"
    using verdict [OF u(1,2)] u(3) assms(6,7) by (auto simp: can_publish_value_iff)
  with u have "validate_dispatch (row_job r') ts \<noteq> Inr ()"
    unfolding validate_dispatch_Inr_iff by blast
  then obtain e where "validate_dispatch (row_job r') ts = Inl e"
    by (cases "validate_dispatch (row_job r') ts") auto
  then have "dispatch_publish_job event_id clock' job_id d' = (Inl e, d')"
    by (simp add: dispatch_eq [OF r' list])
  moreover have "\<not> can_advance (pp_gate res)"
    unfolding gate gate_ready_iff using in_sel assms(6,7) by fastforce
  ultimately show ?thesis by blast
qed

text \<open>An administrator station that does not pass holds back only a job that was not yet
  awaiting confirmation.  When an awaiting job is prepared again, its clients pass, the operator
  confirms and the administrator's report blocks, the gate says that the job cannot advance, yet a
  dispatch succeeds: the dispatch reads the targets and the confirmation, not the gate.\<close>

lemma blocked_admin_dispatches:
  assumes "integrity d"
    and "prepare_publish_job query clock job_id admin (Some True) d = (Inr res, d')"
    and "\<And>sid d. snd (query sid d) = d"
    and "map_option jr_status (job_by d job_id) = Some AWAITING_CONFIRMATION"
    and "pp_admin_report res = Some admin_report" and "\<not> can_publish admin_report"
    and "filter tg_selected (map row_target (job_target_rows job_id d)) \<noteq> []"
    and "\<forall>t \<in> set (filter tg_selected (map row_target (job_target_rows job_id d))).
        \<exists>rep. pp_client_reports res (tg_station_id t) = Some rep \<and> can_publish rep"
    and "event_id \<notin> xr_id ` set (outbox_events d)"
  shows "\<not> can_advance (pp_gate res)
    \<and> (\<exists>job d''. dispatch_publish_job event_id clock' job_id d' = (Inr job, d'')
          \<and> pj_status job = PUBLISHING)"
proof -
  obtain r where r: "job_by d job_id = Some r"
    and gate: "pp_gate res = evaluate_wizard_gate
      \<lparr>wi_admin_report = pp_admin_report res, wi_client_reports = pp_client_reports res,
       wi_selected_station_ids = map tg_station_id (filter tg_selected
         (map row_target (job_target_rows job_id d))), wi_confirmation = Some True\<rparr>"
    and upd: "update_prepared_job clock (row_job r) (pp_gate res) (Some True) = Inr (pp_job res)"
    by (rule prepare_Inr [OF assms(1-3)]) blast
  have "pj_status (pp_job res) = AWAITING_CONFIRMATION"
    "pj_client_confirmation (pp_job res) = Some True"
    using update_prepared_job_Inr(2,3) [OF upd] r assms(4) by simp_all
  note prepared_dispatches [OF assms(1-3) this assms(7-9), of clock']
  moreover have "\<not> can_advance (pp_gate res)"
    unfolding gate gate_ready_iff using assms(5,6) by simp
  ultimately show ?thesis by blast
qed

abbreviation sample_query :: "uuid \<Rightarrow> (db, preflight_report) sx" where
  "sample_query \<equiv> evaluate_station_preflight sample_policy (Aware 2000000 0)"

definition confirmed_run :: "prepare_result result \<times> db" where
  "confirmed_run =
     prepare_publish_job sample_query (Aware 2000000 0) 20 None (Some True) draft_db"

lemma confirmed_run_ready:
  obtains res d where "confirmed_run = (Inr res, d)" and "can_advance (pp_gate res)"
proof -
  have "case confirmed_run of (Inr res, d) \<Rightarrow> can_advance (pp_gate res) | _ \<Rightarrow> False"
    unfolding confirmed_run_def by code_simp
  then show ?thesis using that by (auto split: prod.splits sum.splits)
qed

theorem ready_gate_dispatches_witness:
  "\<exists>res d' job d''. prepare_publish_job sample_query (Aware 2000000 0) 20 None (Some True) draft_db
       = (Inr res, d')
     \<and> dispatch_publish_job 30 (Aware 3000000 0) 20 d' = (Inr job, d'')
     \<and> pj_status job = PUBLISHING"
proof -
  obtain res d where run: "confirmed_run = (Inr res, d)" and ready: "can_advance (pp_gate res)"
    by (rule confirmed_run_ready)
  have fresh: "(30::uuid) \<notin> xr_id ` set (outbox_events draft_db)"
    by (simp add: sample_defs draft_defs)
  show ?thesis
    using ready_gate_dispatches [OF integrity_draft_db run [unfolded confirmed_run_def]
        preflight_readonly ready fresh, of "Aware 3000000 0"] run
    unfolding confirmed_run_def by blast
qed

section \<open>What a dispatch requires and does\<close>

lemma dispatch_unchanged: "dispatch_publish_job event_id clock job_id d = (Inl e, d') \<Longrightarrow> d' = d"
  unfolding dispatch_publish_job_def
  by (auto simp: load_job_targets_def sx_simps validate_dispatch_def transition_def Let_def
      split: if_splits sum.splits option.splits prod.splits)

text \<open>C13. A dispatch succeeds only for a job that awaits confirmation, was explicitly confirmed and
  has at least one selected target, all of whose selected targets passed or only warned.  It then
  moves the job to \<open>publishing\<close> and adds exactly one outbox event, pending, due at once, for this
  job; targets, stations and artifacts stay as they are.\<close>

theorem dispatch_guarded:
  assumes "dispatch_publish_job event_id clock job_id d = (Inr job, d')"
  shows "\<exists>r ts e. job_by d job_id = Some r \<and> jr_status r = AWAITING_CONFIRMATION
    \<and> jr_client_confirmation r = Some True \<and> targets_list_for_job job_id d = (Inr ts, d)
    \<and> filter tg_selected ts \<noteq> []
    \<and> list_all (\<lambda>t. tg_preflight_status t \<in> {Some ''pass'', Some ''warning''}) (filter tg_selected ts)
    \<and> pj_status job = PUBLISHING \<and> map_option jr_status (job_by d' job_id) = Some PUBLISHING
    \<and> outbox_events d' = outbox_events d @ [e] \<and> xr_aggregate_id e = job_id
    \<and> xr_status e = OB_PENDING \<and> event_due (instant clock) e
    \<and> publish_targets d' = publish_targets d \<and> stations d' = stations d
    \<and> publish_artifacts d' = publish_artifacts d"
proof -
  obtain r ts where r: "job_by d job_id = Some r"
    and ts: "targets_list_for_job job_id d = (Inr ts, d)"
    and state: "jr_status r = AWAITING_CONFIRMATION" "jr_client_confirmation r = Some True"
    and selected: "\<exists>t \<in> set ts. tg_selected t"
      "\<forall>t \<in> set ts. tg_selected t \<longrightarrow> tg_preflight_status t \<in> {Some ''pass'', Some ''warning''}"
    and job: "job = (row_job r)\<lparr>pj_status := PUBLISHING, pj_status_reason := None\<rparr>"
    and d': "d' = dispatched_db event_id clock job d"
    by (rule dispatch_Inr [OF assms]) blast
  have id: "jr_id r = job_id" using r by (auto dest: job_by_SomeD)
  let ?e = "last (outbox_events d')"
  have e: "outbox_events d' = outbox_events d @ [?e]" "xr_aggregate_id ?e = job_id"
    "xr_status ?e = OB_PENDING" "event_due (instant clock) ?e"
    using id by (simp_all add: d' dispatched_db_def outbox_add_def dispatch_event_def set_job_def
        job event_due_def)
  have "map_option jr_status (job_by d' job_id) = Some PUBLISHING"
    using r id by (simp add: d' job_by_set_job job)
  moreover have "filter tg_selected ts \<noteq> []" using selected(1) by (auto simp: filter_empty_conv)
  moreover have "list_all (\<lambda>t. tg_preflight_status t \<in> {Some ''pass'', Some ''warning''})
      (filter tg_selected ts)"
    using selected(2) by (auto simp: list_all_iff)
  moreover have "publish_artifacts d' = publish_artifacts d"
    by (simp add: d' dispatched_db_def outbox_add_def set_job_def)
  moreover have "publish_targets d' = publish_targets d" "stations d' = stations d"
    by (simp_all add: d')
  moreover have "pj_status job = PUBLISHING" by (simp add: job)
  ultimately show ?thesis using r state ts e by blast
qed

text \<open>A job is dispatched at most once: after a dispatch every later one, with any event id and
  at any time, is rejected and changes nothing, so no second outbox event is written.\<close>

lemma dispatched_once:
  assumes "dispatch_publish_job event_id clock job_id d = (Inr job, d')"
  shows "\<exists>e. dispatch_publish_job event_id' clock' job_id d' = (Inl e, d')"
proof -
  obtain r ts where r: "job_by d job_id = Some r"
    and ts: "targets_list_for_job job_id d = (Inr ts, d)"
    and job: "job = (row_job r)\<lparr>pj_status := PUBLISHING, pj_status_reason := None\<rparr>"
    and d': "d' = dispatched_db event_id clock job d"
    by (rule dispatch_Inr [OF assms]) blast
  have id: "jr_id r = job_id" using r by (auto dest: job_by_SomeD)
  have "job_by d' job_id = Some (updated_job_row clock job r)"
    using r id by (simp add: d' job_by_set_job job)
  moreover have "targets_list_for_job job_id d' = (Inr ts, d')"
    using ts by (simp add: d' targets_list_for_job_def target_join_def)
  ultimately have "dispatch_publish_job event_id' clock' job_id d' =
      (Inl (PublishDispatchStateError
        (''job must await confirmation before dispatch: '' @ job_status_value PUBLISHING)), d')"
    by (simp add: dispatch_eq validate_dispatch_def Let_def job)
  then show ?thesis by blast
qed

text \<open>The sample job once its gate was confirmed.\<close>

definition confirmed_db :: db where
  "confirmed_db = draft_db\<lparr>
     publish_jobs := [sample_job\<lparr>jr_status := AWAITING_CONFIRMATION,
       jr_client_confirmation := Some True, jr_client_confirmation_at := Some (Aware 2000000 0)\<rparr>],
     publish_targets := [sample_target\<lparr>gr_preflight_status := Some ''pass''\<rparr>]\<rparr>"

lemma dispatched_run:
  obtains job d' where "dispatch_publish_job 30 (Aware 3000000 0) 20 confirmed_db = (Inr job, d')"
proof -
  have "integrity confirmed_db"
    by (simp add: integrity_def constraint_defs sample_defs draft_defs confirmed_db_def)
  moreover have "\<exists>r. job_by confirmed_db 20 = Some r \<and> validate_dispatch (row_job r)
      (map row_target (job_target_rows 20 confirmed_db)) = Inr ()"
    by (simp add: confirmed_db_def draft_defs job_by_def validate_dispatch_def job_target_rows_def
        target_join_def sample_defs row_target_def row_job_def)
  moreover have "targets_list_for_job 20 confirmed_db =
      (Inr (map row_target (job_target_rows 20 confirmed_db)), confirmed_db)"
    by (rule targets_list_total)
      (simp add: confirmed_db_def draft_defs sample_defs targets_readable_def)
  moreover have "(30::uuid) \<notin> xr_id ` set (outbox_events confirmed_db)"
    by (simp add: confirmed_db_def sample_defs draft_defs)
  ultimately show ?thesis using that dispatch_ok by blast
qed

theorem dispatch_guarded_witness:
  "\<exists>job d' e. dispatch_publish_job 30 (Aware 3000000 0) 20 confirmed_db = (Inr job, d')
     \<and> outbox_events d' = outbox_events confirmed_db @ [e]"
proof -
  obtain job d' where run:
    "dispatch_publish_job 30 (Aware 3000000 0) 20 confirmed_db = (Inr job, d')"
    by (rule dispatched_run)
  with dispatch_guarded [OF run] show ?thesis by blast
qed

lemma dispatched_once_witness:
  "\<exists>job d' e. dispatch_publish_job 30 (Aware 3000000 0) 20 confirmed_db = (Inr job, d')
     \<and> dispatch_publish_job 31 (Aware 4000000 0) 20 d' = (Inl e, d')"
proof -
  obtain job d' where run:
    "dispatch_publish_job 30 (Aware 3000000 0) 20 confirmed_db = (Inr job, d')"
    by (rule dispatched_run)
  with dispatched_once [OF run, of 31 "Aware 4000000 0"] show ?thesis by blast
qed

section \<open>Instances\<close>

text \<open>The same snapshot two hours later is stale: the preflight of the client is unknown.\<close>

abbreviation late_query :: "uuid \<Rightarrow> (db, preflight_report) sx" where
  "late_query \<equiv> evaluate_station_preflight sample_policy (Aware 7200000000 0)"

text \<open>A preflight port under which only the administrator's station 40 is missing its snapshot.\<close>

definition admin_query :: "uuid \<Rightarrow> (db, preflight_report) sx" where
  "admin_query sid =
     returnS \<lparr>rep_station_id = sid, rep_status = (if sid = 40 then UNKNOWN else PASS),
       rep_checks = [], rep_evaluated_at = Aware 0 0\<rparr>"

lemma integrity_confirmed_db: "integrity confirmed_db"
  by (simp add: integrity_def constraint_defs sample_defs draft_defs confirmed_db_def)

lemma late_run:
  obtains res d' rep where
    "prepare_publish_job late_query (Aware 7200000000 0) 20 None (Some True) confirmed_db = (Inr res, d')"
    and "pp_client_reports res 2 = Some rep" and "\<not> can_publish rep"
proof -
  have "case prepare_publish_job late_query (Aware 7200000000 0) 20 None (Some True) confirmed_db of
      (Inr res, d') \<Rightarrow> (case pp_client_reports res 2 of Some rep \<Rightarrow> \<not> can_publish rep | None \<Rightarrow> False)
    | _ \<Rightarrow> False"
    by code_simp
  then show ?thesis using that by (auto split: prod.splits sum.splits option.splits)
qed

lemma admin_run:
  obtains res d' rep rep' where
    "prepare_publish_job admin_query (Aware 0 0) 20 (Some 40) (Some True) confirmed_db = (Inr res, d')"
    and "pp_admin_report res = Some rep" and "\<not> can_publish rep"
    and "pp_client_reports res 2 = Some rep'" and "can_publish rep'"
proof -
  have "case prepare_publish_job admin_query (Aware 0 0) 20 (Some 40) (Some True) confirmed_db of
      (Inr res, d') \<Rightarrow> (case pp_admin_report res of Some rep \<Rightarrow> \<not> can_publish rep | None \<Rightarrow> False)
        \<and> (case pp_client_reports res 2 of Some rep \<Rightarrow> can_publish rep | None \<Rightarrow> False)
    | _ \<Rightarrow> False"
    by code_simp
  then show ?thesis using that by (auto split: prod.splits sum.splits option.splits)
qed

lemma confirmed_targets:
  "filter tg_selected (map row_target (job_target_rows 20 confirmed_db)) =
     [row_target (sample_target\<lparr>gr_preflight_status := Some ''pass''\<rparr>, sample_station)]"
  "map row_target (job_target_rows 20 confirmed_db) =
     [row_target (sample_target\<lparr>gr_preflight_status := Some ''pass''\<rparr>, sample_station)]"
  "tg_station_id (row_target (sample_target\<lparr>gr_preflight_status := Some ''pass''\<rparr>, sample_station)) = 2"
  "tg_selected (row_target (sample_target\<lparr>gr_preflight_status := Some ''pass''\<rparr>, sample_station))"
  by (simp_all add: confirmed_db_def draft_defs job_target_rows_def target_join_def sample_defs
      row_target_def)

lemma blocked_client_holds_witness:
  "\<exists>res d' e. prepare_publish_job late_query (Aware 7200000000 0) 20 None (Some True) confirmed_db
       = (Inr res, d')
     \<and> dispatch_publish_job 30 (Aware 7200000000 0) 20 d' = (Inl e, d')"
proof -
  obtain res d' rep where run:
    "prepare_publish_job late_query (Aware 7200000000 0) 20 None (Some True) confirmed_db = (Inr res, d')"
    and rep: "pp_client_reports res 2 = Some rep" "\<not> can_publish rep"
    by (rule late_run)
  have "row_target (sample_target\<lparr>gr_preflight_status := Some ''pass''\<rparr>, sample_station) \<in>
      set (map row_target (job_target_rows 20 confirmed_db))"
    by (simp add: confirmed_targets)
  from blocked_client_holds [OF integrity_confirmed_db run preflight_readonly this confirmed_targets(4)
      _ rep(2), of 30 "Aware 7200000000 0"] rep(1) run
  show ?thesis by (metis confirmed_targets(3))
qed

lemma blocked_admin_dispatches_witness:
  "\<exists>res d' job d''. prepare_publish_job admin_query (Aware 0 0) 20 (Some 40) (Some True) confirmed_db
       = (Inr res, d') \<and> \<not> can_advance (pp_gate res)
     \<and> dispatch_publish_job 30 (Aware 0 0) 20 d' = (Inr job, d'')"
proof -
  obtain res d' rep rep' where run:
    "prepare_publish_job admin_query (Aware 0 0) 20 (Some 40) (Some True) confirmed_db = (Inr res, d')"
    and rep: "pp_admin_report res = Some rep" "\<not> can_publish rep"
    and client: "pp_client_reports res 2 = Some rep'" "can_publish rep'"
    by (rule admin_run)
  have "map_option jr_status (job_by confirmed_db 20) = Some AWAITING_CONFIRMATION"
    by (simp add: confirmed_db_def draft_defs job_by_def)
  moreover have "snd (admin_query sid d) = d" for sid d by (simp add: admin_query_def sx_simps)
  moreover have "(30::uuid) \<notin> xr_id ` set (outbox_events confirmed_db)"
    by (simp add: confirmed_db_def sample_defs draft_defs)
  moreover have "filter tg_selected (map row_target (job_target_rows 20 confirmed_db)) \<noteq> []"
    unfolding confirmed_targets(1) by simp
  moreover have "\<forall>t \<in> set (filter tg_selected (map row_target (job_target_rows 20 confirmed_db))).
      \<exists>rep. pp_client_reports res (tg_station_id t) = Some rep \<and> can_publish rep"
    unfolding confirmed_targets(1) using client by (simp add: sample_station_def)
  ultimately show ?thesis
    using blocked_admin_dispatches [OF integrity_confirmed_db run _ _ rep, of 30 "Aware 0 0"] run
    by blast
qed

end
