(* ===== verification/Publish_Creation.thy ===== *)
theory Publish_Creation
  imports Publish_Gate Samples
begin

text \<open>
  Creating a publish job is idempotent in its key: what the first request stored, and what every
  later request with the same key gets.
\<close>

section \<open>Adding targets\<close>

definition target_row_of :: "datetime \<Rightarrow> db \<Rightarrow> publish_target \<Rightarrow> target_row" where
  "target_row_of clock d t =
     target_record clock t (case station_by d (tg_station_id t) of None \<Rightarrow> 0 | Some s \<Rightarrow> sr_id s)"

lemma targets_add_many_Inr:
  assumes "targets_add_many clock ts d = (Inr u, d')"
  shows "d' = d\<lparr>publish_targets := publish_targets d @ map (target_row_of clock d) ts\<rparr>"
    and "\<forall>t \<in> set ts. \<exists>s. station_by d (tg_station_id t) = Some s"
proof -
  have "d' = d\<lparr>publish_targets := publish_targets d @ map (target_row_of clock d) ts\<rparr>
      \<and> (\<forall>t \<in> set ts. \<exists>s. station_by d (tg_station_id t) = Some s)"
    using assms unfolding targets_add_many_def
  proof (induction ts arbitrary: d)
    case Nil
    then show ?case by (simp add: sx_simps)
  next
    case (Cons t ts)
    from Cons.prems obtain s where s: "station_by d (tg_station_id t) = Some s"
      by (auto simp: sx_simps targets_add_def split: option.splits)
    let ?d = "d\<lparr>publish_targets := publish_targets d @ [target_row_of clock d t]\<rparr>"
    have "targets_add clock t d = (Inr (), ?d)"
      using s by (simp add: targets_add_def target_row_of_def)
    with Cons.prems have "forS (targets_add clock) ts ?d = (Inr u, d')" by (simp add: sx_simps)
    from Cons.IH [OF this] s show ?case by (simp add: target_row_of_def station_by_def)
  qed
  then show "d' = d\<lparr>publish_targets := publish_targets d @ map (target_row_of clock d) ts\<rparr>"
    and "\<forall>t \<in> set ts. \<exists>s. station_by d (tg_station_id t) = Some s" by blast+
qed

lemma target_row_of_sels [simp]:
  "gr_id (target_row_of clock d t) = tg_id t" "gr_job_id (target_row_of clock d t) = tg_job_id t"
  "gr_progress_percent (target_row_of clock d t) = tg_progress_percent t"
  "gr_deselected_at (target_row_of clock d t) = (if tg_selected t then None else Some clock)"
  by (simp_all add: target_row_of_def target_record_def)

lemma draft_targets_sels:
  "map tg_station_id (draft_targets fresh jid sids) = sids"
  "t \<in> set (draft_targets fresh jid sids) \<Longrightarrow>
     tg_job_id t = jid \<and> tg_progress_percent t = 0 \<and> tg_selected t"
proof -
  show "map tg_station_id (draft_targets fresh jid sids) = sids"
    by (simp add: draft_targets_def draft_target_def comp_def split_def)
  show "t \<in> set (draft_targets fresh jid sids) \<Longrightarrow>
     tg_job_id t = jid \<and> tg_progress_percent t = 0 \<and> tg_selected t"
    by (auto simp: draft_targets_def draft_target_def)
qed

section \<open>What a creation stores\<close>

definition created_db :: "datetime \<Rightarrow> publish_job \<Rightarrow> publish_target list \<Rightarrow> db \<Rightarrow> db" where
  "created_db clock job ts d =
     d\<lparr>publish_jobs := publish_jobs d @ [job_record clock job],
       publish_targets := publish_targets d @ map (target_row_of clock d) ts\<rparr>"

lemma check_stations_state:
  "snd (forS check_station sids u) = u"
  by (rule forS_invariant [where P = "\<lambda>x. x = u"])
    (auto simp: check_station_def sx_simps stations_get_def split: option.splits if_splits sum.splits)

lemma job_record_back: "row_job (job_record clock (draft_job jid (Aware t 0) q)) = draft_job jid (Aware t 0) q"
  by (simp add: row_job_def job_record_def draft_job_def)

abbreviation job_by_key :: "db \<Rightarrow> string \<Rightarrow> job_row option" where
  "job_by_key d key \<equiv> find (\<lambda>r. jr_idempotency_key r = key) (publish_jobs d)"

lemma create_valid:
  "create_publish_job jid fresh clock q d = (Inr res, d') \<Longrightarrow> validate_request q = Inr ()"
  by (cases "validate_request q") (simp_all add: create_publish_job_def sx_simps)

lemma create_new:
  assumes "job_by_key d (rq_idempotency_key q) = None"
    and run: "create_publish_job jid fresh clock q d = (Inr (job, ts), d')"
  shows "job = draft_job jid clock q" and "ts = draft_targets fresh jid (rq_station_ids q)"
    and "d' = created_db clock job ts d" and "integrity d'"
    and "\<forall>t \<in> set ts. \<exists>s. station_by d (tg_station_id t) = Some s"
proof -
  let ?u = "\<lparr>committed = d, session = d\<rparr>"
  let ?job = "draft_job jid clock q" and ?ts = "draft_targets fresh jid (rq_station_ids q)"
  obtain c where c: "forS check_station (rq_station_ids q) ?u = (c, ?u)"
    by (metis check_stations_state prod.collapse)
  have jid: "pj_id ?job = jid" by (simp add: draft_job_def)
  obtain a d1 where a: "targets_add_many clock ?ts
      (d\<lparr>publish_jobs := publish_jobs d @ [job_record clock ?job]\<rparr>) = (a, d1)"
    by fastforce
  have valid: "validate_request q = Inr ()" by (rule create_valid [OF run])
  have res: "a = Inr ()" "integrity d1" "job = ?job" "ts = ?ts" "d' = d1"
    using run assms(1) c a jid valid
    by (auto simp: create_publish_job_def sx_simps Let_def jobs_get_by_idempotency_key_def jobs_add_def
        split: sum.splits if_splits)
  note added = targets_add_many_Inr [OF a [unfolded res(1)]]
  show "job = ?job" "ts = ?ts" "integrity d'" using res by simp_all
  show "d' = created_db clock job ts d"
    using added(1) res by (simp add: created_db_def target_row_of_def station_by_def)
  show "\<forall>t \<in> set ts. \<exists>s. station_by d (tg_station_id t) = Some s"
    using added(2) res by (simp add: station_by_def)
qed

text \<open>The targets read back for a new job are those of the request.\<close>

lemma created_targets:
  assumes ok: "integrity d" and ok': "integrity d'"
    and d': "d' = created_db clock job ts d"
    and ts: "ts = draft_targets fresh (pj_id job) sids"
    and known: "\<forall>t \<in> set ts. \<exists>s. station_by d (tg_station_id t) = Some s"
  shows "\<exists>ts'. targets_list_for_job (pj_id job) d' = (Inr ts', d')
    \<and> set (map tg_station_id ts') = set sids"
proof -
  have new: "pj_id job \<notin> jr_id ` set (publish_jobs d)"
    using integrityD(9) [OF ok'] by (auto simp: d' created_db_def job_record_def)
  then have old: "gr_job_id g \<noteq> pj_id job" if "g \<in> set (publish_targets d)" for g
  proof -
    have "gr_job_id ` set (publish_targets d) \<subseteq> jr_id ` set (publish_jobs d)"
      using ok by (simp add: integrity_def publish_ok_def)
    then show ?thesis using that new by (metis image_eqI subset_iff)
  qed
  have rows: "(g, s) \<in> set (job_target_rows (pj_id job) d') \<longleftrightarrow>
      (\<exists>t \<in> set ts. g = target_row_of clock d t \<and> s \<in> set (stations d) \<and> sr_id s = gr_station_id g)"
    for g s
    using draft_targets_sels(2) old
    by (auto simp: set_job_target_rows d' created_db_def ts)
  have same: "s = r" if "station_by d sid = Some r" "s \<in> set (stations d)" "sr_id s = sr_id r" for s r sid
    using integrityD(1) [OF ok] that by (auto simp: station_by_def distinct_map_eq_iff dest!: find_SomeD)
  have prog: "mk_target (row_target (g, s)) = Inr (row_target (g, s))"
    if "(g, s) \<in> set (job_target_rows (pj_id job) d')" for g s
    using that draft_targets_sels(2) by (auto simp: rows mk_target_Inr_iff ts)
  then have "mapR (\<lambda>row. mk_target (row_target row)) (job_target_rows (pj_id job) d') =
      Inr (map row_target (job_target_rows (pj_id job) d'))"
    by (intro mapR_total) auto
  then have "targets_list_for_job (pj_id job) d' =
      (Inr (map row_target (job_target_rows (pj_id job) d')), d')"
    by (simp add: targets_list_for_job_def job_target_rows_def)
  moreover have "tg_station_id ` set (map row_target (job_target_rows (pj_id job) d')) = tg_station_id ` set ts"
  proof (intro equalityI subsetI)
    fix x assume "x \<in> tg_station_id ` set (map row_target (job_target_rows (pj_id job) d'))"
    then obtain g s where gs: "(g, s) \<in> set (job_target_rows (pj_id job) d')" "x = sr_station_id s"
      by auto
    from gs(1) obtain t where t: "t \<in> set ts" "g = target_row_of clock d t" "s \<in> set (stations d)"
      "sr_id s = gr_station_id g" unfolding rows by blast
    from known t(1) obtain r where r: "station_by d (tg_station_id t) = Some r" by blast
    then have "s = r" using same [OF r t(3)] t by (simp add: target_row_of_def target_record_def)
    moreover have "sr_station_id r = tg_station_id t"
      using find_SomeD [OF r [unfolded station_by_def]] by simp
    ultimately show "x \<in> tg_station_id ` set ts" using gs(2) t(1) by simp
  next
    fix x assume "x \<in> tg_station_id ` set ts"
    then obtain t where t: "t \<in> set ts" "x = tg_station_id t" by blast
    then obtain r where r: "station_by d x = Some r" using known by blast
    then have "r \<in> set (stations d)" "sr_station_id r = x" by (auto simp: station_by_def dest!: find_SomeD)
    moreover have "sr_id r = gr_station_id (target_row_of clock d t)"
      using r by (simp add: t(2) target_row_of_def target_record_def)
    ultimately have "(target_row_of clock d t, r) \<in> set (job_target_rows (pj_id job) d')"
      unfolding rows using t(1) by blast
    with \<open>sr_station_id r = x\<close>
    show "x \<in> tg_station_id ` set (map row_target (job_target_rows (pj_id job) d'))"
      by (metis image_eqI list.set_map row_target_sels(3))
  qed
  moreover have "tg_station_id ` set ts = set sids"
    unfolding ts using draft_targets_sels(1) by (metis list.set_map)
  ultimately show ?thesis by auto
qed

section \<open>The second request\<close>

definition same_content :: "publish_request \<Rightarrow> publish_request \<Rightarrow> bool" where
  "same_content q q' \<longleftrightarrow>
     q'\<lparr>rq_station_ids := []\<rparr> = q\<lparr>rq_station_ids := []\<rparr> \<and> set (rq_station_ids q') = set (rq_station_ids q)"

lemma create_again:
  assumes "job_by_key d (rq_idempotency_key q) = Some r"
    and "validate_request q = Inr ()"
    and "targets_list_for_job (jr_id r) d = (Inr ts, d)"
  shows "create_publish_job jid fresh clock q d =
    (if same_request (row_job r) ts q then Inr (row_job r, ts)
     else Inl (PublishIdempotencyConflictError
            ''idempotency key is already used by another publish request''), d)"
  using assms
  by (simp add: create_publish_job_def sx_simps jobs_get_by_idempotency_key_def)

lemma created_state:
  assumes ok: "integrity d"
    and run: "create_publish_job jid fresh (Aware now 0) q d = (Inr (job, ts), d')"
  obtains r ts' where "job_by_key d' (rq_idempotency_key q) = Some r" and "row_job r = job"
    and "targets_list_for_job (jr_id r) d' = (Inr ts', d')" and "same_request job ts' q"
proof (cases "job_by_key d (rq_idempotency_key q)")
  case None
  note new = create_new [OF None run]
  have "\<not> (\<exists>x. x \<in> set (publish_jobs d) \<and> jr_idempotency_key x = rq_idempotency_key q)"
    using None by (auto simp: find_None_iff)
  then have "job_by_key d' (rq_idempotency_key q) = Some (job_record (Aware now 0) job)"
    using None new by (simp add: created_db_def find_append job_record_def draft_job_def)
  moreover have "row_job (job_record (Aware now 0) job) = job"
    unfolding new(1) by (rule job_record_back)
  moreover have jid: "pj_id job = jid" by (simp add: new(1) draft_job_def)
  moreover obtain ts' where ts': "targets_list_for_job jid d' = (Inr ts', d')"
    "set (map tg_station_id ts') = set (rq_station_ids q)"
    using created_targets [OF ok new(4,3) _ new(5), unfolded jid, OF new(2)] by blast
  moreover have "same_request job ts' q"
    using ts'(2) unfolding same_request_def new(1) draft_job_def by simp
  moreover have "jr_id (job_record (Aware now 0) job) = jid" by (simp add: job_record_def jid)
  ultimately show ?thesis using that by metis
next
  case (Some r)
  obtain v where v: "targets_list_for_job (jr_id r) d = (v, d)" by (auto simp: targets_list_for_job_def)
  have "v = Inr ts \<and> job = row_job r \<and> d' = d \<and> same_request job ts q"
    using run Some v create_valid [OF run]
    by (cases v) (auto simp: create_publish_job_def sx_simps jobs_get_by_idempotency_key_def
        split: if_splits)
  with that Some v show ?thesis by blast
qed

text \<open>C17. The idempotency key decides: once a request created or found its job, every later valid
  request with the same key, whatever ids and clock it draws, returns that very job with the same
  set of stations when its content is the same (the order of the stations apart), and otherwise
  raises the conflict error.  In both cases the database does not change.\<close>

theorem create_idempotent:
  assumes "integrity d"
    and "create_publish_job jid fresh (Aware now 0) q d = (Inr (job, ts), d')"
    and "rq_idempotency_key q' = rq_idempotency_key q" and "validate_request q' = Inr ()"
  shows "\<exists>ts'. set (map tg_station_id ts') = set (rq_station_ids q)
    \<and> create_publish_job jid' fresh' clock' q' d' =
        (if same_content q q' then Inr (job, ts')
         else Inl (PublishIdempotencyConflictError
                ''idempotency key is already used by another publish request''), d')"
proof -
  obtain r ts' where r: "job_by_key d' (rq_idempotency_key q) = Some r" and job: "row_job r = job"
    and list: "targets_list_for_job (jr_id r) d' = (Inr ts', d')" and same: "same_request job ts' q"
    by (rule created_state [OF assms(1,2)])
  have "same_request job ts' q' \<longleftrightarrow> same_content q q'"
    using same assms(3) unfolding same_request_def same_content_def
    by (cases q; cases q') auto
  moreover have "set (map tg_station_id ts') = set (rq_station_ids q)"
    using same by (simp add: same_request_def)
  ultimately show ?thesis
    using create_again [OF r [folded assms(3)] assms(4) list, unfolded job] by auto
qed

definition sample_request :: publish_request where
  "sample_request =
     \<lparr>rq_label = ''spring'', rq_source_dataset = ''tank/golden'', rq_station_ids = [2],
      rq_idempotency_key = ''key'', rq_correlation_id = 21, rq_description = None,
      rq_dry_run = False, rq_allow_hot_switch = False, rq_operator_id = None\<rparr>"

theorem create_idempotent_witness:
  "\<exists>job ts ts' d'. create_publish_job 20 (\<lambda>i. 22) (Aware 0 0) sample_request enrolled_sample_db
       = (Inr (job, ts), d')
     \<and> create_publish_job 50 (\<lambda>i. 51) (Aware 9 0) sample_request d' = (Inr (job, ts'), d')
     \<and> (\<exists>e. create_publish_job 50 (\<lambda>i. 51) (Aware 9 0)
              (sample_request\<lparr>rq_label := ''autumn''\<rparr>) d' = (Inl e, d'))"
proof -
  have "case create_publish_job 20 (\<lambda>i. 22) (Aware 0 0) sample_request enrolled_sample_db of
      (Inr p, d') \<Rightarrow> True | _ \<Rightarrow> False"
    by code_simp
  then obtain job ts d' where run: "create_publish_job 20 (\<lambda>i. 22) (Aware 0 0) sample_request
      enrolled_sample_db = (Inr (job, ts), d')"
    by (auto split: prod.splits sum.splits)
  have same: "same_content sample_request sample_request"
    "\<not> same_content sample_request (sample_request\<lparr>rq_label := ''autumn''\<rparr>)"
    by (simp_all add: same_content_def sample_request_def)
  have valid: "validate_request sample_request = Inr ()"
    "validate_request (sample_request\<lparr>rq_label := ''autumn''\<rparr>) = Inr ()"
    by code_simp+
  have key: "rq_idempotency_key (sample_request\<lparr>rq_label := ''autumn''\<rparr>) = rq_idempotency_key sample_request"
    by simp
  from create_idempotent [OF integrity_enrolled_sample_db run refl valid(1), of 50 "\<lambda>i. 51" "Aware 9 0"]
    create_idempotent [OF integrity_enrolled_sample_db run key valid(2), of 50 "\<lambda>i. 51" "Aware 9 0"]
    same run show ?thesis by auto
qed

end
