(* ===== verification/Storage_Port.thy ===== *)
theory Storage_Port
  imports Py_Hoare Domain_Publish
begin

text \<open>
  The storage port of the fake publish workflow (\<open>PublishStorageAdapter\<close> in
  \<open>application/ports.py\<close>), what its clients rely on as the locale \<open>storage_port\<close>, and the
  in-memory adapter \<open>truenas_adapter/mock_client.py\<close>, on which the locale is interpreted.
\<close>

section \<open>The port\<close>

record 's storage_adapter =
  sa_create_master :: "uuid \<Rightarrow> string \<Rightarrow> ('s, string) sx"
  sa_create_clone :: "string \<Rightarrow> uuid \<Rightarrow> ('s, string) sx"
  sa_read_mapping :: "uuid \<Rightarrow> ('s, string option) sx"
  sa_switch_mapping :: "uuid \<Rightarrow> string \<Rightarrow> ('s, unit) sx"
  sa_verify_mapping :: "uuid \<Rightarrow> string \<Rightarrow> ('s, bool) sx"

text \<open>The laws: only a switch changes a mapping, and only the one of its station, which it leaves
  as it was or sets to the clone; a switch that returns has set it.  Reading returns the live
  mapping, and a positive verification has seen the clone.\<close>

locale storage_port =
  fixes A :: "'s storage_adapter"
    and live :: "'s \<Rightarrow> uuid \<Rightarrow> string option"
  assumes create_master_frame:
      "after (sa_create_master A jid label) (\<lambda>_ t. live t = live s) (\<lambda>_ t. live t = live s) s"
    and create_clone_frame:
      "after (sa_create_clone A master sid) (\<lambda>_ t. live t = live s) (\<lambda>_ t. live t = live s) s"
    and read_mapping:
      "after (sa_read_mapping A sid) (\<lambda>v t. live t = live s \<and> v = live s sid) (\<lambda>_ t. live t = live s) s"
    and switch_mapping:
      "after (sa_switch_mapping A sid c) (\<lambda>_ t. live t = (live s)(sid \<mapsto> c))
         (\<lambda>_ t. live t = live s \<or> live t = (live s)(sid \<mapsto> c)) s"
    and verify_mapping:
      "after (sa_verify_mapping A sid c) (\<lambda>v t. live t = live s \<and> (v \<longrightarrow> live s sid = Some c))
         (\<lambda>_ t. live t = live s) s"

section \<open>The in-memory adapter\<close>

record mock_state =
  mk_masters :: "uuid \<rightharpoonup> string"
  mk_clones :: "uuid \<times> uuid \<rightharpoonup> string"
  mk_mappings :: "uuid \<rightharpoonup> string"
  mk_fail_clone_for :: "uuid set"
  mk_fail_switch_for :: "uuid set"
  mk_unknown_switch_for :: "uuid set"
  mk_fail_verify_for :: "uuid set"
  mk_create_master_calls :: int
  mk_create_clone_calls :: int

definition mock_new :: "(uuid \<rightharpoonup> string) \<Rightarrow> mock_state" where
  "mock_new initial_mappings =
     \<lparr>mk_masters = Map.empty, mk_clones = Map.empty, mk_mappings = initial_mappings,
      mk_fail_clone_for = {}, mk_fail_switch_for = {}, mk_unknown_switch_for = {},
      mk_fail_verify_for = {}, mk_create_master_calls = 0, mk_create_clone_calls = 0\<rparr>"

definition mock_create_master :: "uuid \<Rightarrow> string \<Rightarrow> (mock_state, string) sx" where
  "mock_create_master job_id label = (\<lambda>s.
     let s = s\<lparr>mk_create_master_calls := mk_create_master_calls s + 1\<rparr>
     in case mk_masters s job_id of
          Some master \<Rightarrow> (Inr master, s)
        | None \<Rightarrow>
            (Inr (''master:'' @ uuid_str job_id),
             s\<lparr>mk_masters := (mk_masters s)(job_id \<mapsto> ''master:'' @ uuid_str job_id)\<rparr>))"

text \<open>\<open>text.split(":", maxsplit=1)[1]\<close>: what follows the first colon.\<close>

definition after_colon :: "string \<Rightarrow> string result" where
  "after_colon text =
     (case dropWhile (\<lambda>c. c \<noteq> CHR '':'') text of
        [] \<Rightarrow> Inl (IndexError ''list index out of range'')
      | _ # rest \<Rightarrow> Inr rest)"

definition mock_create_clone :: "string \<Rightarrow> uuid \<Rightarrow> (mock_state, string) sx" where
  "mock_create_clone master_mapping station_id = (\<lambda>s.
     let s = s\<lparr>mk_create_clone_calls := mk_create_clone_calls s + 1\<rparr>
     in if station_id \<in> mk_fail_clone_for s
        then (Inl (RuntimeError ''injected clone failure''), s)
        else case bindR (after_colon master_mapping) uuid_parse of
          Inl e \<Rightarrow> (Inl e, s)
        | Inr job_id \<Rightarrow>
            (case mk_clones s (job_id, station_id) of
               Some clone \<Rightarrow> (Inr clone, s)
             | None \<Rightarrow>
                 (let clone = ''clone:'' @ uuid_str job_id @ '':'' @ uuid_str station_id
                  in (Inr clone,
                      s\<lparr>mk_clones := (mk_clones s)((job_id, station_id) \<mapsto> clone)\<rparr>))))"

definition mock_mapping :: "mock_state \<Rightarrow> uuid \<Rightarrow> string" where
  "mock_mapping s station_id =
     (case mk_mappings s station_id of None \<Rightarrow> ''old:'' @ uuid_str station_id | Some m \<Rightarrow> m)"

definition mock_read_mapping :: "uuid \<Rightarrow> (mock_state, string option) sx" where
  "mock_read_mapping station_id = (\<lambda>s. (Inr (Some (mock_mapping s station_id)), s))"

definition mock_switch_mapping :: "uuid \<Rightarrow> string \<Rightarrow> (mock_state, unit) sx" where
  "mock_switch_mapping station_id clone_mapping = (\<lambda>s.
     if station_id \<in> mk_fail_switch_for s
     then (Inl (RuntimeError ''injected switch failure''), s)
     else let s = s\<lparr>mk_mappings := (mk_mappings s)(station_id \<mapsto> clone_mapping)\<rparr>
          in if station_id \<in> mk_unknown_switch_for s
             then (Inl (UnknownStorageOutcome ''switch request outcome is unknown''),
                   s\<lparr>mk_unknown_switch_for := mk_unknown_switch_for s - {station_id}\<rparr>)
             else (Inr (), s))"

definition mock_verify_mapping :: "uuid \<Rightarrow> string \<Rightarrow> (mock_state, bool) sx" where
  "mock_verify_mapping station_id clone_mapping = (\<lambda>s.
     if station_id \<in> mk_fail_verify_for s then (Inr False, s)
     else (Inr (mk_mappings s station_id = Some clone_mapping), s))"

definition mock_adapter :: "mock_state storage_adapter" where
  "mock_adapter =
     \<lparr>sa_create_master = mock_create_master, sa_create_clone = mock_create_clone,
      sa_read_mapping = mock_read_mapping, sa_switch_mapping = mock_switch_mapping,
      sa_verify_mapping = mock_verify_mapping\<rparr>"

lemmas mock_defs =
  mock_create_master_def mock_create_clone_def mock_read_mapping_def mock_switch_mapping_def
  mock_verify_mapping_def

lemma mock_adapter_sels [simp]:
  "sa_create_master mock_adapter = mock_create_master"
  "sa_create_clone mock_adapter = mock_create_clone"
  "sa_read_mapping mock_adapter = mock_read_mapping"
  "sa_switch_mapping mock_adapter = mock_switch_mapping"
  "sa_verify_mapping mock_adapter = mock_verify_mapping"
  by (simp_all add: mock_adapter_def)

definition mock_live :: "mock_state \<Rightarrow> uuid \<Rightarrow> string option" where
  "mock_live s = (\<lambda>sid. Some (mock_mapping s sid))"

lemma mock_live_cong: "mk_mappings t = mk_mappings s \<Longrightarrow> mock_live t = mock_live s"
  by (simp add: mock_live_def mock_mapping_def)

lemma mock_live_upd:
  "mk_mappings t = (mk_mappings s)(sid \<mapsto> c) \<Longrightarrow> mock_live t = (mock_live s)(sid \<mapsto> c)"
  by (auto simp: mock_live_def mock_mapping_def)

interpretation mock: storage_port mock_adapter mock_live
proof
  show "after (sa_create_master mock_adapter jid label) (\<lambda>_ t. mock_live t = mock_live s)
      (\<lambda>_ t. mock_live t = mock_live s) s" for jid label s
    by (auto simp: after_def mock_defs Let_def split: option.split intro!: mock_live_cong)
  show "after (sa_create_clone mock_adapter master sid) (\<lambda>_ t. mock_live t = mock_live s)
      (\<lambda>_ t. mock_live t = mock_live s) s" for master sid s
    by (auto simp: after_def mock_defs Let_def split: option.split sum.split intro!: mock_live_cong)
  show "after (sa_read_mapping mock_adapter sid) (\<lambda>v t. mock_live t = mock_live s \<and> v = mock_live s sid)
      (\<lambda>_ t. mock_live t = mock_live s) s" for sid s
    by (simp add: after_def mock_defs mock_live_def)
  show "after (sa_switch_mapping mock_adapter sid c) (\<lambda>_ t. mock_live t = (mock_live s)(sid \<mapsto> c))
      (\<lambda>_ t. mock_live t = mock_live s \<or> mock_live t = (mock_live s)(sid \<mapsto> c)) s" for sid c s
    by (auto simp: after_def mock_defs Let_def intro!: mock_live_upd)
  show "after (sa_verify_mapping mock_adapter sid c)
      (\<lambda>v t. mock_live t = mock_live s \<and> (v \<longrightarrow> mock_live s sid = Some c))
      (\<lambda>_ t. mock_live t = mock_live s) s" for sid c s
    by (auto simp: after_def mock_defs mock_live_def mock_mapping_def)
qed

end
