(* ===== verification/Fake_Workflow.thy ===== *)
theory Fake_Workflow
  imports Storage_Port
begin

text \<open>
  \<open>application/publish.py\<close>: the fake publish workflow over a storage adapter.  The loop's Python
  variables are a record; \<open>clone_mapping\<close> is an option because the exception handler may read it
  before it was ever assigned, or see the value a previous station left in it.
\<close>

section \<open>The workflow\<close>

record workflow_result =
  wf_job :: publish_job
  wf_master_mapping :: "string option"
  wf_targets :: "target_result list"

definition mk_result :: "uuid \<Rightarrow> target_status \<Rightarrow> string option \<Rightarrow> target_result" where
  "mk_result sid status old =
     \<lparr>tr_station_id = sid, tr_status = status, tr_old_mapping = old, tr_new_mapping = None,
      tr_error_code = None, tr_error_message = None, tr_storage_created = False\<rparr>"

definition enter_fake :: "publish_job \<Rightarrow> publish_job result" where
  "enter_fake job =
     (case pj_status job of
        DRAFT \<Rightarrow>
          bindR (transition job PREFLIGHT) (\<lambda>current.
          bindR (transition current AWAITING_CONFIRMATION) (\<lambda>current.
          transition current PUBLISHING))
      | PUBLISHING \<Rightarrow> Inr job
      | _ \<Rightarrow> Inl (PublishPreconditionError ''job must be draft or publishing''))"

definition simulate_target ::
    "'s storage_adapter \<Rightarrow> uuid \<Rightarrow> uuid \<Rightarrow> ('s, target_result) sx" where
  "simulate_target A job_id sid =
     bindS (sa_read_mapping A sid) (\<lambda>old.
     returnS ((mk_result sid SIMULATED old)\<lparr>tr_new_mapping :=
       Some (''clone:'' @ uuid_str job_id @ '':'' @ uuid_str sid)\<rparr>))"

record fake_loop =
  fl_results :: "uuid \<rightharpoonup> target_result"
  fl_pending :: "(uuid \<times> string option \<times> string) list"
  fl_clone :: "string option"

definition put_result :: "target_result \<Rightarrow> fake_loop \<Rightarrow> fake_loop" where
  "put_result r l = l\<lparr>fl_results := (fl_results l)(tr_station_id r \<mapsto> r)\<rparr>"

text \<open>What the handler of an unknown switch decides from the mapping it reads back.\<close>

definition settle_unknown ::
    "uuid \<Rightarrow> string option \<Rightarrow> fake_loop \<Rightarrow> string option \<Rightarrow> fake_loop result" where
  "settle_unknown sid old l read_back =
     (case fl_clone l of
        None \<Rightarrow> Inl (UnboundLocalError
          ''cannot access local variable 'clone_mapping' where it is not associated with a value'')
      | Some clone_mapping \<Rightarrow>
          if read_back = Some clone_mapping
          then Inr (put_result ((mk_result sid VERIFIED old)\<lparr>tr_new_mapping := read_back\<rparr>) l)
          else Inr (put_result ((mk_result sid RECOVERY_REQUIRED old)\<lparr>
            tr_error_code := Some ''switch_unknown'',
            tr_error_message := Some ''switch outcome requires manual recovery''\<rparr>) l))"

text \<open>The two \<open>except\<close> clauses of the switching loop.\<close>

definition switch_failed ::
    "'s storage_adapter \<Rightarrow> uuid \<Rightarrow> string option \<Rightarrow> fake_loop \<Rightarrow> exn \<Rightarrow> ('s, fake_loop) sx" where
  "switch_failed A sid old l error =
     (case error of
        UnknownStorageOutcome _ \<Rightarrow>
          bindS (sa_read_mapping A sid) (\<lambda>read_back. liftR (settle_unknown sid old l read_back))
      | _ \<Rightarrow>
          returnS (put_result ((mk_result sid TARGET_ERROR old)\<lparr>
            tr_error_code := Some ''target_failed'',
            tr_error_message := Some (exn_message error)\<rparr>) l))"

definition switch_station ::
    "'s storage_adapter \<Rightarrow> string \<Rightarrow> fake_loop \<Rightarrow> uuid \<Rightarrow> ('s, fake_loop) sx" where
  "switch_station A master l sid =
     bindS (sa_read_mapping A sid) (\<lambda>old.
     bindS (tryS (sa_create_clone A master sid)) (\<lambda>cloned.
     case cloned of
       Inl error \<Rightarrow> switch_failed A sid old l error
     | Inr clone_mapping \<Rightarrow>
         (let l = l\<lparr>fl_clone := Some clone_mapping\<rparr>
          in bindS (tryS (sa_switch_mapping A sid clone_mapping)) (\<lambda>switched.
             case switched of
               Inl error \<Rightarrow> switch_failed A sid old l error
             | Inr _ \<Rightarrow>
                 returnS (l\<lparr>fl_pending := fl_pending l @ [(sid, old, clone_mapping)]\<rparr>)))))"

definition verify_station ::
    "'s storage_adapter \<Rightarrow> fake_loop \<Rightarrow> uuid \<times> string option \<times> string \<Rightarrow> ('s, fake_loop) sx" where
  "verify_station A l = (\<lambda>(sid, old, clone_mapping).
     bindS (tryS (bindS (sa_verify_mapping A sid clone_mapping) (\<lambda>verified.
        if \<not> verified then raiseS (ValueError ''mapping verification failed'') else returnS ())))
       (\<lambda>outcome.
     case outcome of
       Inr _ \<Rightarrow>
         returnS (put_result ((mk_result sid VERIFIED old)\<lparr>tr_new_mapping := Some clone_mapping\<rparr>) l)
     | Inl error \<Rightarrow>
         returnS (put_result ((mk_result sid TARGET_ERROR old)\<lparr>
           tr_new_mapping := Some clone_mapping, tr_error_code := Some ''verify_failed'',
           tr_error_message := Some (exn_message error)\<rparr>) l)))"

definition final_status :: "target_result list \<Rightarrow> job_status" where
  "final_status results =
     (let verified_count = length (filter (\<lambda>r. tr_status r = VERIFIED) results)
      in if verified_count = length results then COMPLETED
         else if verified_count = 0 then FAILED
         else PARTIAL_FAILURE)"

definition result_of :: "(uuid \<rightharpoonup> target_result) \<Rightarrow> uuid \<Rightarrow> target_result result" where
  "result_of results sid =
     (case results sid of None \<Rightarrow> Inl (KeyError (uuid_str sid)) | Some r \<Rightarrow> Inr r)"

definition run_fake ::
    "'s storage_adapter \<Rightarrow> publish_job \<Rightarrow> string \<Rightarrow> uuid list \<Rightarrow> ('s, workflow_result) sx" where
  "run_fake A current master station_ids =
     bindS (liftR (transition current SWITCHING)) (\<lambda>current.
     bindS (foldS (switch_station A master)
       \<lparr>fl_results = Map.empty, fl_pending = [], fl_clone = None\<rparr> station_ids) (\<lambda>l.
     bindS (liftR (transition current VERIFYING)) (\<lambda>current.
     bindS (foldS (verify_station A) l (fl_pending l)) (\<lambda>l.
     bindS (liftR (mapR (result_of (fl_results l)) station_ids)) (\<lambda>results.
     bindS (liftR (transition current (final_status results))) (\<lambda>current.
     returnS \<lparr>wf_job = current, wf_master_mapping = Some master, wf_targets = results\<rparr>))))))"

definition fake_execute ::
    "'s storage_adapter \<Rightarrow> publish_job \<Rightarrow> uuid list \<Rightarrow> bool \<Rightarrow> ('s, workflow_result) sx" where
  "fake_execute A job station_ids confirmed =
     (if station_ids = []
      then raiseS (PublishPreconditionError ''at least one station is required'')
      else if \<not> confirmed
      then raiseS (PublishPreconditionError ''explicit confirmation is required'')
      else bindS (liftR (enter_fake job)) (\<lambda>current.
        if pj_dry_run job
        then bindS (mapS (simulate_target A (pj_id job)) station_ids) (\<lambda>targets.
             bindS (liftR (transition current COMPLETED)) (\<lambda>simulated.
             returnS \<lparr>wf_job = simulated\<lparr>pj_status_reason := Some ''dry_run_simulation''\<rparr>,
               wf_master_mapping = Some (''master:'' @ uuid_str (pj_id job)),
               wf_targets = targets\<rparr>))
        else bindS (sa_create_master A (pj_id job) (pj_label job)) (\<lambda>master.
             run_fake A current master station_ids)))"

section \<open>Results and transitions\<close>

lemma length_filter_conv_all: "length (filter P xs) = length xs \<longleftrightarrow> (\<forall>x \<in> set xs. P x)"
  by (metis filter_True length_filter_less less_irrefl)

lemma mk_result_sels [simp]:
  "tr_station_id (mk_result sid st old) = sid" "tr_status (mk_result sid st old) = st"
  "tr_old_mapping (mk_result sid st old) = old" "tr_new_mapping (mk_result sid st old) = None"
  "tr_storage_created (mk_result sid st old) = False"
  by (simp_all add: mk_result_def)

lemma final_status_iff:
  "final_status rs =
     (if \<forall>r \<in> set rs. tr_status r = VERIFIED then COMPLETED
      else if \<exists>r \<in> set rs. tr_status r = VERIFIED then PARTIAL_FAILURE else FAILED)"
proof -
  have "length (filter (\<lambda>r. tr_status r = VERIFIED) rs) = length rs \<longleftrightarrow>
      (\<forall>r \<in> set rs. tr_status r = VERIFIED)"
    by (rule length_filter_conv_all)
  moreover have "length (filter (\<lambda>r. tr_status r = VERIFIED) rs) = 0 \<longleftrightarrow>
      (\<forall>r \<in> set rs. tr_status r \<noteq> VERIFIED)"
    by (simp add: filter_empty_conv)
  ultimately show ?thesis by (auto simp: final_status_def Let_def)
qed

lemma transitions_run:
  assumes "pj_status job = PUBLISHING"
  shows "transition job SWITCHING = Inr (job\<lparr>pj_status := SWITCHING\<rparr>)"
    and "transition (job\<lparr>pj_status := SWITCHING\<rparr>) VERIFYING = Inr (job\<lparr>pj_status := VERIFYING\<rparr>)"
    and "transition (job\<lparr>pj_status := VERIFYING\<rparr>) (final_status rs) = Inr (job\<lparr>pj_status := final_status rs\<rparr>)"
  using assms by (simp_all add: transition_def final_status_def Let_def)

end
