(* ===== verification/Fake_Run.thy ===== *)
theory Fake_Run
  imports Fake_Workflow
begin

text \<open>
  What a run of the fake workflow leaves in storage, proved once against the port's contract.
\<close>

lemma put_result_sels [simp]:
  "fl_results (put_result r l) = (fl_results l)(tr_station_id r \<mapsto> r)"
  "fl_pending (put_result r l) = fl_pending l" "fl_clone (put_result r l) = fl_clone l"
  by (simp_all add: put_result_def)

context storage_port
begin

text \<open>A result reports the mapping it found, and says verified only of a mapping that is live.\<close>

definition honest :: "'s \<Rightarrow> 's \<Rightarrow> target_result \<Rightarrow> bool" where
  "honest s t r \<longleftrightarrow>
     tr_old_mapping r = live s (tr_station_id r)
     \<and> tr_status r \<in> {VERIFIED, TARGET_ERROR, RECOVERY_REQUIRED}
     \<and> (tr_status r = VERIFIED \<longrightarrow>
          tr_new_mapping r \<noteq> None \<and> live t (tr_station_id r) = tr_new_mapping r)"

definition switched :: "'s \<Rightarrow> uuid list \<Rightarrow> fake_loop \<Rightarrow> 's \<Rightarrow> bool" where
  "switched s ys l t \<longleftrightarrow>
     (\<forall>sid. sid \<notin> set ys \<longrightarrow> live t sid = live s sid)
     \<and> (\<forall>(sid, old, c) \<in> set (fl_pending l). live t sid = Some c \<and> old = live s sid)
     \<and> (\<forall>sid r. fl_results l sid = Some r \<longrightarrow> tr_station_id r = sid \<and> honest s t r)
     \<and> dom (fl_results l) \<union> fst ` set (fl_pending l) = set ys
     \<and> dom (fl_results l) \<inter> fst ` set (fl_pending l) = {}
     \<and> distinct (map fst (fl_pending l))"

lemma switched_put:
  assumes "switched s ys l t" and "sid \<notin> set ys" and "tr_station_id r = sid" and "honest s t' r"
    and "live t' = live t \<or> live t' = (live t)(sid \<mapsto> c)"
    and "fl_results l' = fl_results l" and "fl_pending l' = fl_pending l"
  shows "switched s (ys @ [sid]) (put_result r l') t'"
proof -
  have same: "live t' x = live t x" if "x \<noteq> sid" for x using assms(5) that by auto
  have in_ys: "x \<in> set ys" if "x \<in> dom (fl_results l) \<union> fst ` set (fl_pending l)" for x
    using assms(1) that by (simp add: switched_def)
  have pend: "live t' x = Some k \<and> old = live s x" if "(x, old, k) \<in> set (fl_pending l)" for x old k
  proof -
    have "x \<in> set ys" using in_ys [of x] that by force
    then have "x \<noteq> sid" using assms(2) by auto
    then show ?thesis using assms(1) that same by (auto simp: switched_def)
  qed
  have res: "tr_station_id q = x \<and> honest s t' q" if "fl_results l x = Some q" for x q
  proof -
    have "x \<noteq> sid" using in_ys [of x] that assms(2) by auto
    then show ?thesis using assms(1) that same [of x] by (auto simp: switched_def honest_def)
  qed
  have "sid \<notin> fst ` set (fl_pending l)" using in_ys assms(2) by auto
  then show ?thesis
    using assms(1-4,6,7) same pend res
    by (auto simp: switched_def)
qed

lemma switched_pending:
  assumes "switched s ys l t" and "sid \<notin> set ys" and "live t' = (live t)(sid \<mapsto> c)"
    and "old = live s sid" and "fl_results l' = fl_results l"
    and "fl_pending l' = fl_pending l @ [(sid, old, c)]"
  shows "switched s (ys @ [sid]) l' t'"
proof -
  have in_ys: "x \<in> set ys" if "x \<in> dom (fl_results l) \<union> fst ` set (fl_pending l)" for x
    using assms(1) that by (simp add: switched_def)
  have pend: "live t' x = Some k \<and> o' = live s x" if "(x, o', k) \<in> set (fl_pending l)" for x o' k
  proof -
    have "x \<in> set ys" using in_ys [of x] that by force
    then have "x \<noteq> sid" using assms(2) by auto
    then show ?thesis using assms(1,3) that by (auto simp: switched_def)
  qed
  have res: "tr_station_id q = x \<and> honest s t' q" if "fl_results l x = Some q" for x q
  proof -
    have "x \<noteq> sid" using in_ys [of x] that assms(2) by auto
    then show ?thesis using assms(1,3) that by (auto simp: switched_def honest_def)
  qed
  have "sid \<notin> fst ` set (fl_pending l)" "sid \<notin> dom (fl_results l)" using in_ys assms(2) by auto
  then show ?thesis
    using assms pend res by (auto simp: switched_def)
qed

definition untouched :: "uuid list \<Rightarrow> 's \<Rightarrow> 's \<Rightarrow> bool" where
  "untouched sids s t \<longleftrightarrow> (\<forall>sid. sid \<notin> set sids \<longrightarrow> live t sid = live s sid)"

lemma untouched_refl [simp]: "untouched sids s s"
  by (simp add: untouched_def)

lemma untouched_switched:
  assumes "switched s ys l t" and "live t' = live t \<or> live t' = (live t)(sid \<mapsto> c)"
    and "set ys \<subseteq> set sids" and "sid \<in> set sids"
  shows "untouched sids s t'"
  using assms by (auto simp: switched_def untouched_def)

lemma switch_failed_after:
  assumes sw: "switched s ys l t" and new: "sid \<notin> set ys"
    and live: "live t' = live t \<or> live t' = (live t)(sid \<mapsto> c)"
    and l': "fl_results l' = fl_results l" "fl_pending l' = fl_pending l"
    and ys: "set ys \<subseteq> set sids" "sid \<in> set sids"
  shows "after (switch_failed A sid (live s sid) l' error) (switched s (ys @ [sid]))
    (\<lambda>_. untouched sids s) t'"
proof -
  have err: "switched s (ys @ [sid]) (put_result r l') t''"
    if "live t'' = live t'" "tr_station_id r = sid" "tr_old_mapping r = live s sid"
      "tr_status r = TARGET_ERROR \<or> tr_status r = RECOVERY_REQUIRED \<or>
       tr_status r = VERIFIED \<and> tr_new_mapping r \<noteq> None \<and> live t'' sid = tr_new_mapping r"
    for r t''
    by (rule switched_put [OF sw new that(2) _ _ l', where c = c])
      (use that live in \<open>auto simp: honest_def\<close>)
  show ?thesis
  proof (cases "\<exists>m. error = UnknownStorageOutcome m")
    case True
    have settled: "case settle_unknown sid (live s sid) l' v of
        Inl e \<Rightarrow> untouched sids s t'' | Inr l'' \<Rightarrow> switched s (ys @ [sid]) l'' t''"
      if v: "live t'' = live t' \<and> v = live t' sid" for v t''
    proof -
      have "untouched sids s t''"
        using untouched_switched [OF sw _ ys, of t'' c] live v by simp
      then show ?thesis
        using v by (auto simp: settle_unknown_def split: option.split intro!: err)
    qed
    have raised: "untouched sids s t''" if "live t'' = live t'" for t''
      using untouched_switched [OF sw _ ys, of t'' c] live that by simp
    have "after (bindS (sa_read_mapping A sid) (\<lambda>v. liftR (settle_unknown sid (live s sid) l' v)))
        (switched s (ys @ [sid])) (\<lambda>_. untouched sids s) t'"
      unfolding after_bind
      by (rule after_mono [OF read_mapping])
        (use settled raised in \<open>auto simp: after_lift split: sum.splits\<close>)
    with True show ?thesis by (auto simp: switch_failed_def)
  next
    case False
    then have "switch_failed A sid (live s sid) l' error =
        returnS (put_result ((mk_result sid TARGET_ERROR (live s sid))\<lparr>
            tr_error_code := Some ''target_failed'',
            tr_error_message := Some (exn_message error)\<rparr>) l')"
      by (cases error) (simp_all add: switch_failed_def)
    then show ?thesis by (simp add: after_simps err)
  qed
qed

lemma switch_station_after:
  assumes sw: "switched s ys l t" and new: "sid \<notin> set ys"
    and ys: "set ys \<subseteq> set sids" "sid \<in> set sids"
  shows "after (switch_station A master l sid) (switched s (ys @ [sid])) (\<lambda>_. untouched sids s) t"
proof -
  have here: "live t sid = live s sid" using sw new by (simp add: switched_def)
  have un: "untouched sids s t'" if "live t' = live t" for t'
    using untouched_switched [OF sw _ ys] that by blast
  have failed: "after (switch_failed A sid (live s sid) l' error) (switched s (ys @ [sid]))
      (\<lambda>_. untouched sids s) t'"
    if "live t' = live t \<or> live t' = (live t)(sid \<mapsto> c)"
      "fl_results l' = fl_results l" "fl_pending l' = fl_pending l" for l' t' error c
    by (rule switch_failed_after [OF sw new that ys])
  have switching: "after (bindS (tryS (sa_switch_mapping A sid c)) (\<lambda>switched.
        case switched of Inl error \<Rightarrow> switch_failed A sid (live s sid) (l\<lparr>fl_clone := Some c\<rparr>) error
        | Inr _ \<Rightarrow> returnS (l\<lparr>fl_clone := Some c, fl_pending := fl_pending l @ [(sid, live s sid, c)]\<rparr>)))
      (switched s (ys @ [sid])) (\<lambda>_. untouched sids s) t'"
    if "live t' = live t" for t' c
    unfolding after_bind after_try
  proof (rule after_mono [OF switch_mapping])
    fix u t'' assume "live t'' = (live t')(sid \<mapsto> c)"
    then have "live t'' = (live t)(sid \<mapsto> c)" using that by simp
    then show "after (case Inr u of Inl error \<Rightarrow> switch_failed A sid (live s sid) (l\<lparr>fl_clone := Some c\<rparr>) error
        | Inr _ \<Rightarrow> returnS (l\<lparr>fl_clone := Some c, fl_pending := fl_pending l @ [(sid, live s sid, c)]\<rparr>))
        (switched s (ys @ [sid])) (\<lambda>_. untouched sids s) t''"
      by (simp add: after_simps switched_pending [OF sw new])
  next
    fix e t'' assume "live t'' = live t' \<or> live t'' = (live t')(sid \<mapsto> c)"
    then have "live t'' = live t \<or> live t'' = (live t)(sid \<mapsto> c)" using that by simp
    then show "after (case Inl e of Inl error \<Rightarrow> switch_failed A sid (live s sid) (l\<lparr>fl_clone := Some c\<rparr>) error
        | Inr _ \<Rightarrow> returnS (l\<lparr>fl_clone := Some c, fl_pending := fl_pending l @ [(sid, live s sid, c)]\<rparr>))
        (switched s (ys @ [sid])) (\<lambda>_. untouched sids s) t''"
      by (simp add: failed [where c = c])
  qed
  have cloning: "after (bindS (tryS (sa_create_clone A master sid)) (\<lambda>cloned.
      case cloned of Inl error \<Rightarrow> switch_failed A sid (live s sid) l error
      | Inr c \<Rightarrow> (let l = l\<lparr>fl_clone := Some c\<rparr> in bindS (tryS (sa_switch_mapping A sid c)) (\<lambda>switched.
        case switched of Inl error \<Rightarrow> switch_failed A sid (live s sid) l error
        | Inr _ \<Rightarrow> returnS (l\<lparr>fl_pending := fl_pending l @ [(sid, live s sid, c)]\<rparr>)))))
      (switched s (ys @ [sid])) (\<lambda>_. untouched sids s) t'"
    if "live t' = live t" for t'
    unfolding after_bind [of "tryS (sa_create_clone A master sid)"] after_try
    by (rule after_mono [OF create_clone_frame])
      (use that switching failed in \<open>simp_all add: Let_def\<close>)
  show ?thesis
    unfolding switch_station_def after_bind [of "sa_read_mapping A sid"]
    by (rule after_mono [OF read_mapping]) (use cloning un here in simp_all)
qed

lemma switch_all_after:
  assumes "distinct sids" and "live t = live s"
  shows "after (foldS (switch_station A master)
      \<lparr>fl_results = Map.empty, fl_pending = [], fl_clone = None\<rparr> sids)
    (switched s sids) (\<lambda>_. untouched sids s) t"
proof (rule after_foldS_prefix)
  show "after (switch_station A master l sid) (switched s (ys @ [sid])) (\<lambda>_. untouched sids s) u"
    if "sids = ys @ sid # zs" "switched s ys l u" for ys sid zs l u
    by (rule switch_station_after [OF that(2)]) (use that(1) assms(1) in auto)
  show "switched s [] \<lparr>fl_results = Map.empty, fl_pending = [], fl_clone = None\<rparr> t"
    using assms(2) by (simp add: switched_def)
qed

definition settled :: "'s \<Rightarrow> 's \<Rightarrow> uuid set \<Rightarrow> fake_loop \<Rightarrow> 's \<Rightarrow> bool" where
  "settled s t0 done_ids l t \<longleftrightarrow>
     live t = live t0 \<and> dom (fl_results l) = done_ids
     \<and> (\<forall>sid r. fl_results l sid = Some r \<longrightarrow> tr_station_id r = sid \<and> honest s t r)"

lemma verify_station_after:
  assumes "settled s t0 ids l t" and "live t0 sid = Some c" and "old = live s sid"
  shows "after (verify_station A l (sid, old, c)) (settled s t0 (insert sid ids)) (\<lambda>_ _. False) t"
proof -
  have put: "settled s t0 (insert sid ids) (put_result r l) t'"
    if "live t' = live t" "tr_station_id r = sid" "honest s t' r" for r t'
  proof -
    have "honest s t' q" if "honest s t q" for q using that \<open>live t' = live t\<close> by (simp add: honest_def)
    then show ?thesis using assms(1) that by (auto simp: settled_def)
  qed
  have "live t = live t0" using assms(1) by (simp add: settled_def)
  then show ?thesis
    unfolding verify_station_def prod.case after_bind after_try
    by (intro after_mono [OF verify_mapping])
      (use assms(2,3) in \<open>auto simp: after_simps honest_def intro!: put\<close>)
qed

lemma verify_all_after:
  assumes sw: "switched s sids l t0"
  shows "after (foldS (verify_station A) l (fl_pending l)) (settled s t0 (set sids)) (\<lambda>_ _. False) t0"
proof (rule after_foldS)
  let ?I = "\<lambda>ys. settled s t0 (dom (fl_results l) \<union> fst ` set ys)"
  show "after (verify_station A b x) (?I (ys @ [x])) (\<lambda>_ _. False) u"
    if split: "fl_pending l = ys @ x # zs" and inv: "?I ys b u" for ys x zs b u
  proof -
    obtain sid old c where x: "x = (sid, old, c)" by (cases x)
    have "x \<in> set (fl_pending l)" using split by simp
    then have "live t0 sid = Some c" "old = live s sid" using sw x by (auto simp: switched_def)
    from verify_station_after [OF inv this] show ?thesis by (simp add: x Un_insert_right)
  qed
  show "?I [] l t0" using sw by (simp add: switched_def settled_def)
  show "settled s t0 (set sids) b u" if "?I (fl_pending l) b u" for b u
    using that sw by (simp add: switched_def)
qed

lemma results_total:
  assumes "set sids \<subseteq> dom rs"
  shows "mapR (result_of rs) sids = Inr (map (\<lambda>sid. the (rs sid)) sids)"
  by (rule mapR_total) (use assms in \<open>auto simp: result_of_def split: option.split\<close>)

text \<open>The whole run: one result per station in the order of the selection, each honest about the
  storage that the run leaves behind; the stations not selected keep their mapping, also when an
  exception escapes.\<close>

definition finished :: "publish_job \<Rightarrow> string \<Rightarrow> uuid list \<Rightarrow> 's \<Rightarrow> workflow_result \<Rightarrow> 's \<Rightarrow> bool" where
  "finished job master sids s res t \<longleftrightarrow>
     wf_job res = job\<lparr>pj_status := final_status (wf_targets res)\<rparr>
     \<and> wf_master_mapping res = Some master \<and> map tr_station_id (wf_targets res) = sids
     \<and> (\<forall>r \<in> set (wf_targets res). honest s t r) \<and> untouched sids s t"

lemma settled_finished:
  assumes st: "settled s t1 (set sids) l t" and un: "untouched sids s t1"
    and job: "pj_status job = PUBLISHING"
  shows "after (bindS (liftR (mapR (result_of (fl_results l)) sids)) (\<lambda>results.
      bindS (liftR (transition (job\<lparr>pj_status := VERIFYING\<rparr>) (final_status results))) (\<lambda>current.
      returnS \<lparr>wf_job = current, wf_master_mapping = Some master, wf_targets = results\<rparr>)))
    (finished job master sids s) (\<lambda>_ _. False) t"
proof -
  have all: "\<exists>r. fl_results l sid = Some r \<and> tr_station_id r = sid \<and> honest s t r"
    if "sid \<in> set sids" for sid
  proof -
    have "sid \<in> dom (fl_results l)" using st that by (simp add: settled_def)
    then obtain r where "fl_results l sid = Some r" by blast
    then show ?thesis using st by (simp add: settled_def)
  qed
  have "map tr_station_id (map (\<lambda>sid. the (fl_results l sid)) sids) = sids"
    unfolding map_map by (rule map_idI) (use all in force)
  moreover have "\<forall>r \<in> set (map (\<lambda>sid. the (fl_results l sid)) sids). honest s t r"
    using all by force
  moreover have "untouched sids s t" using st un by (simp add: settled_def untouched_def)
  moreover have "set sids \<subseteq> dom (fl_results l)" using st by (simp add: settled_def)
  ultimately show ?thesis
    using job by (simp add: after_simps results_total transitions_run finished_def del: map_map)
qed

lemma verify_finished:
  assumes sw: "switched s sids l t" and job: "pj_status job = PUBLISHING"
  shows "after (bindS (foldS (verify_station A) l (fl_pending l)) (\<lambda>l.
      bindS (liftR (mapR (result_of (fl_results l)) sids)) (\<lambda>results.
      bindS (liftR (transition (job\<lparr>pj_status := VERIFYING\<rparr>) (final_status results))) (\<lambda>current.
      returnS \<lparr>wf_job = current, wf_master_mapping = Some master, wf_targets = results\<rparr>))))
    (finished job master sids s) (\<lambda>_ _. False) t"
proof -
  have un: "untouched sids s t" using sw by (simp add: switched_def untouched_def)
  show ?thesis
    unfolding after_bind [of "foldS _ _ _"]
    by (rule after_mono [OF verify_all_after [OF sw]]) (simp_all add: settled_finished [OF _ un job])
qed

text \<open>The run as a consequence of what its switching loop establishes.\<close>

lemma run_fake_from_switching:
  assumes job: "pj_status job = PUBLISHING"
    and "after (foldS (switch_station A master)
      \<lparr>fl_results = Map.empty, fl_pending = [], fl_clone = None\<rparr> sids) (switched s sids) E t"
  shows "after (run_fake A job master sids) (finished job master sids s) E t"
  unfolding run_fake_def transitions_run(1) [OF job] after_bind [of "liftR _"] after_lift sum.case
    after_bind [of "foldS _ _ sids"]
  by (rule after_mono [OF assms(2)])
    (simp_all only: after_bind [of "liftR _"] after_lift sum.case transitions_run(2) [OF job]
      after_mono [OF verify_finished [OF _ job]])

lemma run_fake_after:
  assumes "distinct sids" and "pj_status job = PUBLISHING" and "live t = live s"
  shows "after (run_fake A job master sids) (finished job master sids s) (\<lambda>_. untouched sids s) t"
  by (rule run_fake_from_switching [OF assms(2) switch_all_after [OF assms(1,3)]])

lemma simulate_after:
  "after (mapS (simulate_target A jid) sids)
     (\<lambda>rs t. live t = live s \<and> list_all2 (\<lambda>sid r. tr_station_id r = sid \<and> tr_status r = SIMULATED
        \<and> tr_old_mapping r = live s sid) sids rs)
     (\<lambda>_ t. live t = live s) s"
proof (rule after_mapS)
  show "after (simulate_target A jid sid) (\<lambda>r t. live t = live s \<and> tr_station_id r = sid
      \<and> tr_status r = SIMULATED \<and> tr_old_mapping r = live s sid) (\<lambda>_ t. live t = live s) t"
    if "live t = live s" for sid t
    unfolding simulate_target_def after_bind
    by (rule after_mono [OF read_mapping]) (use that in \<open>simp_all add: after_return\<close>)
qed simp

end

lemma enter_fake_Inr:
  "enter_fake job = Inr current \<longleftrightarrow>
     pj_status job \<in> {DRAFT, PUBLISHING} \<and> current = job\<lparr>pj_status := PUBLISHING\<rparr>"
  by (cases "pj_status job") (auto simp: enter_fake_def transition_def)

context storage_port
begin

text \<open>A whole execution: the station mappings it leaves, or the ones it left when it raised.\<close>

lemma fake_execute_after:
  assumes "distinct sids"
  shows "after (fake_execute A job sids confirmed)
    (\<lambda>res t. if pj_dry_run job
       then live t = live s \<and> pj_status (wf_job res) = COMPLETED
         \<and> list_all2 (\<lambda>sid r. tr_station_id r = sid \<and> tr_status r = SIMULATED
             \<and> tr_old_mapping r = live s sid) sids (wf_targets res)
       else \<exists>master. finished (job\<lparr>pj_status := PUBLISHING\<rparr>) master sids s res t)
    (\<lambda>_. untouched sids s) s"
proof -
  have same: "untouched sids s t" if "live t = live s" for t using that by (simp add: untouched_def)
  show ?thesis
  proof (cases "enter_fake job")
    case (Inl e)
    then show ?thesis by (simp add: fake_execute_def after_simps same)
  next
    case (Inr current)
    then have current: "current = job\<lparr>pj_status := PUBLISHING\<rparr>" by (simp add: enter_fake_Inr)
    have complete: "transition current COMPLETED = Inr (job\<lparr>pj_status := COMPLETED\<rparr>)"
      by (simp add: current transition_def)
    have dry: "after (mapS (simulate_target A (pj_id job)) sids) (\<lambda>targets. after
        (bindS (liftR (transition current COMPLETED)) (\<lambda>simulated.
             returnS \<lparr>wf_job = simulated\<lparr>pj_status_reason := Some ''dry_run_simulation''\<rparr>,
               wf_master_mapping = Some (''master:'' @ uuid_str (pj_id job)), wf_targets = targets\<rparr>))
        (\<lambda>res t. live t = live s \<and> pj_status (wf_job res) = COMPLETED
         \<and> list_all2 (\<lambda>sid r. tr_station_id r = sid \<and> tr_status r = SIMULATED
             \<and> tr_old_mapping r = live s sid) sids (wf_targets res)) (\<lambda>_. untouched sids s))
      (\<lambda>_. untouched sids s) s"
      by (rule after_mono [OF simulate_after]) (simp_all add: after_simps complete same)
    have real: "after (sa_create_master A (pj_id job) (pj_label job)) (\<lambda>master. after
        (run_fake A current master sids)
        (\<lambda>res t. \<exists>master. finished (job\<lparr>pj_status := PUBLISHING\<rparr>) master sids s res t)
        (\<lambda>_. untouched sids s)) (\<lambda>_. untouched sids s) s"
    proof (rule after_mono [OF create_master_frame])
      show "after (run_fake A current master sids)
          (\<lambda>res t. \<exists>master. finished (job\<lparr>pj_status := PUBLISHING\<rparr>) master sids s res t)
          (\<lambda>_. untouched sids s) t" if "live t = live s" for master t
        unfolding current
        by (rule after_mono [OF run_fake_after [OF assms _ that]]) (auto simp: current)
    qed (rule same)
    show ?thesis
      using dry real Inr same by (simp add: fake_execute_def after_simps)
  qed
qed

end

end
