(* ===== verification/Fake_Properties.thy ===== *)
theory Fake_Properties
  imports Fake_Run
begin

text \<open>
  The guarantees of the fake publish workflow, for every adapter that keeps the port's contract.
\<close>

section \<open>Adapters that report unknown outcomes only from a switch\<close>

text \<open>\<open>UnknownStorageOutcome\<close> is documented as raised when a switch request may have reached
  storage.  An adapter that keeps to this, and whose reads and master creation succeed, lets no
  exception escape the workflow.\<close>

locale definite_port = storage_port +
  assumes master_total: "after (sa_create_master A jid label) (\<lambda>_ _. True) (\<lambda>_ _. False) s"
    and read_total: "after (sa_read_mapping A sid) (\<lambda>_ _. True) (\<lambda>_ _. False) s"
    and clone_definite:
      "after (sa_create_clone A master sid) (\<lambda>_ _. True) (\<lambda>e _. \<forall>m. e \<noteq> UnknownStorageOutcome m) s"
begin

lemma switch_failed_total:
  assumes "fl_clone l \<noteq> None \<or> (\<forall>m. error \<noteq> UnknownStorageOutcome m)"
  shows "after (switch_failed A sid old l error) (\<lambda>_ _. True) (\<lambda>_ _. False) s"
proof (cases "\<exists>m. error = UnknownStorageOutcome m")
  case True
  with assms have "fl_clone l \<noteq> None" by blast
  then have "\<exists>l'. settle_unknown sid old l v = Inr l'" for v
    by (auto simp: settle_unknown_def)
  then have "after (liftR (settle_unknown sid old l v)) (\<lambda>_ _. True) (\<lambda>_ _. False) t" for v t
    by (metis after_lift sum.case(2))
  then have "after (bindS (sa_read_mapping A sid) (\<lambda>v. liftR (settle_unknown sid old l v)))
      (\<lambda>_ _. True) (\<lambda>_ _. False) s"
    unfolding after_bind by (intro after_mono [OF read_total])
  with True show ?thesis by (auto simp: switch_failed_def)
next
  case False
  then show ?thesis by (cases error) (simp_all add: switch_failed_def after_return)
qed

lemma after_True: "after m (\<lambda>_ _. True) (\<lambda>_ _. True) s"
  by (simp add: after_def split: prod.split sum.split)

lemma switch_station_total:
  "after (switch_station A master l sid) (\<lambda>_ _. True) (\<lambda>_ _. False) s"
proof -
  have switching: "after (bindS (tryS (sa_switch_mapping A sid c)) (\<lambda>switched.
        case switched of Inl error \<Rightarrow> switch_failed A sid old (l\<lparr>fl_clone := Some c\<rparr>) error
        | Inr _ \<Rightarrow> returnS (l\<lparr>fl_clone := Some c, fl_pending := fl_pending l @ [(sid, old, c)]\<rparr>)))
      (\<lambda>_ _. True) (\<lambda>_ _. False) t" for c old t
    unfolding after_bind after_try
    by (rule after_mono [OF after_True]) (simp_all add: after_return switch_failed_total)
  have cloning: "after (bindS (tryS (sa_create_clone A master sid)) (\<lambda>cloned.
      case cloned of Inl error \<Rightarrow> switch_failed A sid old l error
      | Inr c \<Rightarrow> (let l = l\<lparr>fl_clone := Some c\<rparr> in bindS (tryS (sa_switch_mapping A sid c)) (\<lambda>switched.
        case switched of Inl error \<Rightarrow> switch_failed A sid old l error
        | Inr _ \<Rightarrow> returnS (l\<lparr>fl_pending := fl_pending l @ [(sid, old, c)]\<rparr>)))))
      (\<lambda>_ _. True) (\<lambda>_ _. False) t" for old t
    unfolding after_bind [of "tryS (sa_create_clone A master sid)"] after_try
    by (rule after_mono [OF clone_definite]) (use switching in \<open>simp_all add: Let_def switch_failed_total\<close>)
  show ?thesis
    unfolding switch_station_def after_bind [of "sa_read_mapping A sid"]
    by (rule after_mono [OF read_total]) (simp_all only: cloning)
qed

lemma run_fake_total:
  assumes "distinct sids" and "pj_status job = PUBLISHING"
  shows "after (run_fake A job master sids) (\<lambda>_ _. True) (\<lambda>_ _. False) s"
proof -
  have "after (foldS (switch_station A master) b sids) (\<lambda>_ _. True) (\<lambda>_ _. False) s" for b
    by (rule after_foldS [where I = "\<lambda>_ _ _. True"]) (simp_all add: switch_station_total)
  from after_conj [OF switch_all_after [OF assms(1) refl] this]
  have "after (foldS (switch_station A master)
      \<lparr>fl_results = Map.empty, fl_pending = [], fl_clone = None\<rparr> sids) (switched s sids) (\<lambda>_ _. False) s"
    by (rule after_mono) simp_all
  from run_fake_from_switching [OF assms(2) this] show ?thesis by (rule after_mono) simp_all
qed

lemma fake_execute_total:
  assumes "distinct sids" and "sids \<noteq> []" and "pj_status job \<in> {DRAFT, PUBLISHING}"
  shows "\<exists>res t. fake_execute A job sids True s = (Inr res, t)"
proof -
  let ?job = "job\<lparr>pj_status := PUBLISHING\<rparr>"
  have "after (simulate_target A jid sid) (\<lambda>_ _. True) (\<lambda>_ _. False) t" for jid sid t
    unfolding simulate_target_def after_bind
    by (rule after_mono [OF read_total]) (simp_all add: after_return)
  then have dry: "after (mapS (simulate_target A (pj_id job)) sids) (\<lambda>ys t. True \<and> list_all2 (\<lambda>_ _. True) sids ys)
      (\<lambda>_ _. False) s"
    by (intro after_mapS) simp_all
  have "after (mapS (simulate_target A (pj_id job)) sids) (\<lambda>targets. after
      (bindS (liftR (transition ?job COMPLETED)) (\<lambda>simulated.
             returnS \<lparr>wf_job = simulated\<lparr>pj_status_reason := Some ''dry_run_simulation''\<rparr>,
               wf_master_mapping = Some (''master:'' @ uuid_str (pj_id job)), wf_targets = targets\<rparr>))
      (\<lambda>_ _. True) (\<lambda>_ _. False)) (\<lambda>_ _. False) s"
    by (rule after_mono [OF dry]) (simp_all add: after_simps transition_def)
  moreover have "after (sa_create_master A (pj_id job) (pj_label job))
      (\<lambda>master. after (run_fake A ?job master sids) (\<lambda>_ _. True) (\<lambda>_ _. False)) (\<lambda>_ _. False) s"
    by (rule after_mono [OF master_total]) (simp_all add: run_fake_total assms(1))
  moreover have "enter_fake job = Inr ?job" using assms(3) by (simp add: enter_fake_Inr)
  ultimately have "after (fake_execute A job sids True) (\<lambda>_ _. True) (\<lambda>_ _. False) s"
    using assms(2) by (simp add: fake_execute_def after_simps)
  then show ?thesis by (auto dest: after_total)
qed

end

lemma uuid_parse_ValueError: "uuid_parse text = Inl e \<Longrightarrow> \<exists>m. e = ValueError m"
  by (auto simp: uuid_parse_def Let_def split: if_splits option.splits)

interpretation mock_definite: definite_port mock_adapter mock_live
proof
  show "after (sa_create_master mock_adapter jid label) (\<lambda>_ _. True) (\<lambda>_ _. False) s" for jid label s
    by (simp add: after_def mock_defs Let_def split: option.split)
  show "after (sa_read_mapping mock_adapter sid) (\<lambda>_ _. True) (\<lambda>_ _. False) s" for sid s
    by (simp add: after_def mock_defs)
  show "after (sa_create_clone mock_adapter master sid) (\<lambda>_ _. True)
      (\<lambda>e _. \<forall>m. e \<noteq> UnknownStorageOutcome m) s" for master sid s
    by (auto simp: after_def mock_defs Let_def bindR_Inl_iff after_colon_def
        split: option.split sum.split list.splits dest: uuid_parse_ValueError)
qed

section \<open>Properties\<close>

text \<open>C16. A publish run tells the truth about storage.  For every adapter that keeps the port's
  contract and every non-dry run over distinct stations: there is one result per selected station, in
  the order of the selection; each reports the mapping the station had before; one that says
  verified names the mapping the station has after the run; and stations outside the selection keep
  their mapping.\<close>

theorem fake_run_honest:
  assumes "storage_port A live" and "distinct sids" and "\<not> pj_dry_run job"
    and "fake_execute A job sids confirmed s = (Inr res, t)"
  shows "map tr_station_id (wf_targets res) = sids
    \<and> (\<forall>r \<in> set (wf_targets res). tr_old_mapping r = live s (tr_station_id r)
         \<and> (tr_status r = VERIFIED \<longrightarrow>
              tr_new_mapping r \<noteq> None \<and> live t (tr_station_id r) = tr_new_mapping r))
    \<and> (\<forall>sid. sid \<notin> set sids \<longrightarrow> live t sid = live s sid)"
  using after_Inr [OF storage_port.fake_execute_after [OF assms(1,2)] assms(4)] assms(3)
  by (auto simp: storage_port.finished_def [OF assms(1)] storage_port.honest_def [OF assms(1)]
      storage_port.untouched_def [OF assms(1)])

text \<open>The run ends: over distinct stations, with a confirmed job in \<open>draft\<close> or \<open>publishing\<close>,
  an adapter that reports unknown outcomes only from a switch makes the workflow return, whatever
  clones, switches and verifications fail; and the job's final status counts the verified targets,
  completed for all, failed for none, partial failure otherwise.\<close>

lemma fake_run_total:
  assumes "definite_port A live" and "distinct sids" and "sids \<noteq> []"
    and "pj_status job \<in> {DRAFT, PUBLISHING}" and "\<not> pj_dry_run job"
  shows "\<exists>res t. fake_execute A job sids True s = (Inr res, t)
    \<and> pj_status (wf_job res) =
        (if \<forall>r \<in> set (wf_targets res). tr_status r = VERIFIED then COMPLETED
         else if \<exists>r \<in> set (wf_targets res). tr_status r = VERIFIED then PARTIAL_FAILURE
         else FAILED)"
proof -
  obtain res t where run: "fake_execute A job sids True s = (Inr res, t)"
    using definite_port.fake_execute_total [OF assms(1-4)] by blast
  have port: "storage_port A live" using assms(1) by (simp add: definite_port_def)
  from after_Inr [OF storage_port.fake_execute_after [OF port assms(2)] run] assms(5)
  have "pj_status (wf_job res) = final_status (wf_targets res)"
    by (auto simp: storage_port.finished_def [OF port])
  with run show ?thesis by (auto simp: final_status_iff)
qed

text \<open>A dry run writes nothing: whatever its outcome, the in-memory adapter's whole state is
  what it was (no master, no clone, no switch), and a dry run that returns is completed with every
  target merely simulated.\<close>

lemma dry_run_writes_nothing:
  assumes "pj_dry_run job" and "fake_execute mock_adapter job sids confirmed s = (r, t)"
  shows "t = s \<and> (\<forall>res. r = Inr res \<longrightarrow> pj_status (wf_job res) = COMPLETED
    \<and> map tr_station_id (wf_targets res) = sids
    \<and> list_all (\<lambda>x. tr_status x = SIMULATED) (wf_targets res))"
proof -
  let ?sim = "\<lambda>sid. (mk_result sid SIMULATED (Some (mock_mapping s sid)))\<lparr>tr_new_mapping :=
       Some (''clone:'' @ uuid_str (pj_id job) @ '':'' @ uuid_str sid)\<rparr>"
  have "mapS (simulate_target mock_adapter (pj_id job)) sids s = (Inr (map ?sim sids), s)"
    by (induction sids) (simp_all add: sx_simps simulate_target_def mock_read_mapping_def)
  note sim = this
  show ?thesis
  proof (cases "enter_fake job")
    case (Inl e)
    then show ?thesis using assms by (auto simp: fake_execute_def sx_simps split: if_splits)
  next
    case (Inr current)
    then have "transition current COMPLETED = Inr (job\<lparr>pj_status := COMPLETED\<rparr>)"
      by (simp add: enter_fake_Inr transition_def)
    then show ?thesis
      using assms Inr sim
      by (auto simp: fake_execute_def sx_simps list_all_iff comp_def split: if_splits)
  qed
qed

section \<open>Instances\<close>

definition fake_job :: publish_job where
  "fake_job =
     \<lparr>pj_id = 20, pj_idempotency_key = ''key'', pj_correlation_id = 21, pj_label = ''spring'',
      pj_source_dataset = ''tank/golden'', pj_dry_run = False, pj_allow_hot_switch = False,
      pj_status = PUBLISHING, pj_description = None, pj_status_reason = None,
      pj_operator_id = None, pj_client_confirmation = Some True,
      pj_client_confirmation_at = None, pj_created_at = None, pj_started_at = None,
      pj_completed_at = None\<rparr>"

text \<open>Station 3's switch has an unknown outcome, station 4's switch fails.\<close>

definition faulty_storage :: mock_state where
  "faulty_storage = (mock_new Map.empty)\<lparr>mk_unknown_switch_for := {3}, mk_fail_switch_for := {4}\<rparr>"

lemma fake_run_total_witness:
  "\<exists>res t. fake_execute mock_adapter fake_job [2, 3, 4] True faulty_storage = (Inr res, t)"
proof -
  have "distinct [2, 3, 4 :: uuid]" by simp
  from fake_run_total [OF mock_definite.definite_port_axioms this, of fake_job faulty_storage]
  show ?thesis by (auto simp: fake_job_def)
qed

lemma faulty_run:
  obtains res t where "fake_execute mock_adapter fake_job [2, 3, 4] True faulty_storage = (Inr res, t)"
  using mock_definite.fake_execute_total [of "[2, 3, 4]" fake_job faulty_storage]
  by (auto simp: fake_job_def)

theorem fake_run_honest_witness:
  "\<exists>res t. fake_execute mock_adapter fake_job [2, 3, 4] True faulty_storage = (Inr res, t)
     \<and> map tr_station_id (wf_targets res) = [2, 3, 4]"
proof -
  obtain res t where run:
    "fake_execute mock_adapter fake_job [2, 3, 4] True faulty_storage = (Inr res, t)"
    by (rule faulty_run)
  have "distinct [2, 3, 4 :: uuid]" "\<not> pj_dry_run fake_job" by (simp_all add: fake_job_def)
  from fake_run_honest [OF mock.storage_port_axioms this run]
  have "map tr_station_id (wf_targets res) = [2, 3, 4]" by (rule conjunct1)
  with run show ?thesis by (intro exI conjI)
qed

theorem dry_run_writes_nothing_witness:
  "snd (fake_execute mock_adapter (fake_job\<lparr>pj_dry_run := True\<rparr>) [2] True faulty_storage) = faulty_storage"
  using dry_run_writes_nothing [of "fake_job\<lparr>pj_dry_run := True\<rparr>" "[2]" True faulty_storage]
  by (cases "fake_execute mock_adapter (fake_job\<lparr>pj_dry_run := True\<rparr>) [2] True faulty_storage") simp

end
