(* ===== verification/TrueNAS_Port.thy ===== *)
theory TrueNAS_Port
  imports Py_Hoare Py_Values "HOL-Library.AList"
begin

text \<open>
  The TrueNAS ports of \<open>application/ports.py\<close> with the metadata of \<open>application/truenas.py\<close>, what
  the publish workflow relies on as the locale \<open>truenas_port\<close>, and the deterministic client of
  \<open>truenas_adapter/write_fake.py\<close>, on which the locale is interpreted.
\<close>

section \<open>Metadata\<close>

record tn_dataset =
  td_id :: string
  td_name :: string
  td_path :: "string option"
  td_type :: "string option"

record tn_snapshot =
  tn_id :: string
  tn_name :: string
  tn_dataset :: string

record tn_target =
  tt_id :: int
  tt_name :: string
  tt_alias :: "string option"

record tn_extent =
  te_id :: int
  te_name :: string
  te_path :: "string option"
  te_type :: "string option"

record tn_target_extent =
  tx_target_id :: int
  tx_extent_id :: int
  tx_lun_id :: int

section \<open>The port\<close>

text \<open>The read-only and the write client over one storage state.\<close>

record 's truenas_client =
  tc_query_datasets :: "('s, tn_dataset list) sx"
  tc_query_snapshots :: "('s, tn_snapshot list) sx"
  tc_query_targets :: "('s, tn_target list) sx"
  tc_query_extents :: "('s, tn_extent list) sx"
  tc_query_target_extents :: "('s, tn_target_extent list) sx"
  tc_create_snapshot :: "string \<Rightarrow> string \<Rightarrow> ('s, tn_snapshot) sx"
  tc_clone_snapshot :: "string \<Rightarrow> string \<Rightarrow> ('s, unit) sx"
  tc_update_extent_device :: "int \<Rightarrow> string \<Rightarrow> ('s, tn_extent) sx"
  tc_delete_dataset :: "string \<Rightarrow> ('s, unit) sx"
  tc_close_read :: "('s, unit) sx"
  tc_close_write :: "('s, unit) sx"

text \<open>The view a client has of the storage: the device of each extent, the targets and their
  extents.  Of the operations of the publish workflow only an update changes one, its own, either not
  at all or to the device it was given (in the form without \<open>/dev/\<close>): an update that returns need not
  have done so, as the server keeps the file of a file-backed extent.  The queries return the view.\<close>

record nas_view =
  nv_device :: "int \<Rightarrow> string option option"
  nv_targets :: "tn_target list"
  nv_links :: "tn_target_extent list"

definition set_device :: "int \<Rightarrow> string \<Rightarrow> nas_view \<Rightarrow> nas_view" where
  "set_device eid dev v = v\<lparr>nv_device := (nv_device v)(eid \<mapsto> Some dev)\<rparr>"

lemma set_device_sels [simp]:
  "nv_device (set_device eid dev v) = (nv_device v)(eid \<mapsto> Some dev)"
  "nv_targets (set_device eid dev v) = nv_targets v" "nv_links (set_device eid dev v) = nv_links v"
  by (simp_all add: set_device_def)

locale truenas_port =
  fixes C :: "'s truenas_client"
    and view :: "'s \<Rightarrow> nas_view"
    and ok :: "'s \<Rightarrow> bool"
  assumes datasets_frame: "ok s \<Longrightarrow> after (tc_query_datasets C) (\<lambda>_ t. ok t \<and> view t = view s)
      (\<lambda>_ t. ok t \<and> view t = view s) s"
    and snapshots_frame: "ok s \<Longrightarrow> after (tc_query_snapshots C) (\<lambda>_ t. ok t \<and> view t = view s)
      (\<lambda>_ t. ok t \<and> view t = view s) s"
    and targets: "ok s \<Longrightarrow> after (tc_query_targets C)
      (\<lambda>xs t. ok t \<and> view t = view s \<and> xs = nv_targets (view s)) (\<lambda>_ t. ok t \<and> view t = view s) s"
    and target_extents: "ok s \<Longrightarrow> after (tc_query_target_extents C)
      (\<lambda>xs t. ok t \<and> view t = view s \<and> xs = nv_links (view s)) (\<lambda>_ t. ok t \<and> view t = view s) s"
    and extents: "ok s \<Longrightarrow> after (tc_query_extents C)
      (\<lambda>xs t. ok t \<and> view t = view s \<and> distinct (map te_id xs)
         \<and> map_of (map (\<lambda>x. (te_id x, te_path x)) xs) = nv_device (view s))
      (\<lambda>_ t. ok t \<and> view t = view s) s"
    and create_snapshot_frame:
      "ok s \<Longrightarrow> after (tc_create_snapshot C d n) (\<lambda>_ t. ok t \<and> view t = view s)
      (\<lambda>_ t. ok t \<and> view t = view s) s"
    and clone_frame:
      "ok s \<Longrightarrow> after (tc_clone_snapshot C snap dst) (\<lambda>_ t. ok t \<and> view t = view s)
      (\<lambda>_ t. ok t \<and> view t = view s) s"
    and update_device: "ok s \<Longrightarrow> \<not> starts_with ''/dev/'' dev \<Longrightarrow>
      after (tc_update_extent_device C eid dev)
        (\<lambda>_ t. ok t \<and> (view t = view s \<or> view t = set_device eid dev (view s)))
        (\<lambda>_ t. ok t \<and> (view t = view s \<or> view t = set_device eid dev (view s))) s"

section \<open>The deterministic client\<close>

text \<open>Dictionaries keep their insertion order; the log of calls keeps the names only.\<close>

record fake_nas =
  fn_calls :: "string list"
  fn_datasets :: "(string \<times> tn_dataset) list"
  fn_snapshots :: "(string \<times> tn_snapshot) list"
  fn_clones :: "(string \<times> string) set"
  fn_targets :: "(int \<times> tn_target) list"
  fn_target_extents :: "tn_target_extent list"
  fn_extents :: "(int \<times> tn_extent) list"
  fn_extent_devices :: "(int \<times> string) list"

definition nas_new :: fake_nas where
  "nas_new = \<lparr>fn_calls = [], fn_datasets = [], fn_snapshots = [], fn_clones = {}, fn_targets = [],
     fn_target_extents = [], fn_extents = [], fn_extent_devices = []\<rparr>"

definition log_call :: "string \<Rightarrow> fake_nas \<Rightarrow> fake_nas" where
  "log_call name s = s\<lparr>fn_calls := fn_calls s @ [name]\<rparr>"

definition fake_query :: "string \<Rightarrow> (fake_nas \<Rightarrow> 'a) \<Rightarrow> (fake_nas, 'a) sx" where
  "fake_query name view = (\<lambda>s. (Inr (view s), log_call name s))"

text \<open>\<open>dict.setdefault\<close>\<close>

definition set_default :: "'k \<Rightarrow> 'v \<Rightarrow> ('k \<times> 'v) list \<Rightarrow> ('k \<times> 'v) list" where
  "set_default k v d = (if map_of d k = None then d @ [(k, v)] else d)"

definition fake_create_snapshot :: "string \<Rightarrow> string \<Rightarrow> (fake_nas, tn_snapshot) sx" where
  "fake_create_snapshot dataset snapshot_name = (\<lambda>s.
     let full_name = dataset @ ''@'' @ snapshot_name;
         snapshots = set_default full_name
           \<lparr>tn_id = full_name, tn_name = full_name, tn_dataset = dataset\<rparr> (fn_snapshots s);
         datasets = set_default dataset
           \<lparr>td_id = dataset, td_name = dataset, td_path = Some (''/mnt/'' @ dataset),
            td_type = Some ''FILESYSTEM''\<rparr> (fn_datasets s)
     in (Inr (the (map_of snapshots full_name)),
         (log_call ''create_snapshot'' s)\<lparr>fn_snapshots := snapshots, fn_datasets := datasets\<rparr>))"

definition fake_clone_snapshot :: "string \<Rightarrow> string \<Rightarrow> (fake_nas, unit) sx" where
  "fake_clone_snapshot snapshot dataset_dst = (\<lambda>s.
     (Inr (), (log_call ''clone_snapshot'' s)\<lparr>
        fn_clones := insert (snapshot, dataset_dst) (fn_clones s),
        fn_datasets := set_default dataset_dst
          \<lparr>td_id = dataset_dst, td_name = dataset_dst, td_path = Some (''/dev/zvol/'' @ dataset_dst),
           td_type = Some ''VOLUME''\<rparr> (fn_datasets s)\<rparr>))"

definition fake_update_extent_device :: "int \<Rightarrow> string \<Rightarrow> (fake_nas, tn_extent) sx" where
  "fake_update_extent_device extent_id device = (\<lambda>s.
     let current = map_of (fn_extents s) extent_id;
         updated = \<lparr>te_id = extent_id,
           te_name = (case current of Some x \<Rightarrow> te_name x | None \<Rightarrow> ''extent-'' @ str_int extent_id),
           te_path = Some (removeprefix ''/dev/'' device),
           te_type = (case current of Some x \<Rightarrow> te_type x | None \<Rightarrow> Some ''DISK'')\<rparr>
     in (Inr updated, (log_call ''update_extent_device'' s)\<lparr>
           fn_extent_devices := AList.update extent_id device (fn_extent_devices s),
           fn_extents := AList.update extent_id updated (fn_extents s)\<rparr>))"

definition fake_delete_dataset :: "string \<Rightarrow> (fake_nas, unit) sx" where
  "fake_delete_dataset dataset = (\<lambda>s.
     (Inr (), (log_call ''delete_dataset'' s)\<lparr>fn_datasets := AList.delete dataset (fn_datasets s)\<rparr>))"

definition fake_client :: "fake_nas truenas_client" where
  "fake_client =
     \<lparr>tc_query_datasets = fake_query ''query_datasets'' (\<lambda>s. map snd (fn_datasets s)),
      tc_query_snapshots = fake_query ''query_snapshots'' (\<lambda>s. map snd (fn_snapshots s)),
      tc_query_targets = fake_query ''query_targets'' (\<lambda>s. map snd (fn_targets s)),
      tc_query_extents = fake_query ''query_extents'' (\<lambda>s. map snd (fn_extents s)),
      tc_query_target_extents = fake_query ''query_target_extents'' fn_target_extents,
      tc_create_snapshot = fake_create_snapshot, tc_clone_snapshot = fake_clone_snapshot,
      tc_update_extent_device = fake_update_extent_device,
      tc_delete_dataset = fake_delete_dataset,
      tc_close_read = returnS (), tc_close_write = returnS ()\<rparr>"

text \<open>Every extent is stored under its own id, once.\<close>

definition nas_ok :: "fake_nas \<Rightarrow> bool" where
  "nas_ok s \<longleftrightarrow> distinct (map fst (fn_extents s)) \<and> (\<forall>(k, x) \<in> set (fn_extents s). te_id x = k)"

definition nas_device :: "fake_nas \<Rightarrow> int \<Rightarrow> string option option" where
  "nas_device s = map_of (map (\<lambda>(k, x). (k, te_path x)) (fn_extents s))"

definition nas_view :: "fake_nas \<Rightarrow> nas_view" where
  "nas_view s =
     \<lparr>nv_device = nas_device s, nv_targets = map snd (fn_targets s), nv_links = fn_target_extents s\<rparr>"

lemma nas_device_apply: "nas_device s k = map_option te_path (map_of (fn_extents s) k)"
  by (simp add: nas_device_def map_of_map)

lemma nas_device_cong: "fn_extents t = fn_extents s \<Longrightarrow> nas_device t = nas_device s"
  by (simp add: nas_device_def)

lemma nas_ok_cong: "fn_extents t = fn_extents s \<Longrightarrow> nas_ok t = nas_ok s"
  by (simp add: nas_ok_def)

lemma nas_ok_update:
  assumes "nas_ok s" and "te_id x = k" and "fn_extents t = AList.update k x (fn_extents s)"
  shows "nas_ok t" and "nas_device t = (nas_device s)(k \<mapsto> te_path x)"
proof -
  have "set (AList.update k x al) \<subseteq> insert (k, x) (set al)" for al :: "(int \<times> tn_extent) list"
    by (induction al) auto
  then show "nas_ok t"
    using assms by (fastforce simp: nas_ok_def distinct_update)
  show "nas_device t = (nas_device s)(k \<mapsto> te_path x)"
    by (rule ext) (simp add: nas_device_apply assms(3) update_conv')
qed

lemma nas_extents_view:
  assumes "nas_ok s"
  shows "distinct (map te_id (map snd (fn_extents s)))"
    and "map_of (map (\<lambda>x. (te_id x, te_path x)) (map snd (fn_extents s))) = nas_device s"
proof -
  have ids: "te_id (snd e) = fst e" if "e \<in> set (fn_extents s)" for e
    using assms that by (auto simp: nas_ok_def)
  then have "map te_id (map snd (fn_extents s)) = map fst (fn_extents s)" by simp
  then show "distinct (map te_id (map snd (fn_extents s)))" using assms by (metis nas_ok_def)
  show "map_of (map (\<lambda>x. (te_id x, te_path x)) (map snd (fn_extents s))) = nas_device s"
    unfolding nas_device_def map_map using ids by (intro arg_cong [where f = map_of]) auto
qed

lemmas fake_nas_defs =
  fake_query_def fake_create_snapshot_def fake_clone_snapshot_def fake_update_extent_device_def
  fake_delete_dataset_def log_call_def

lemma nas_frame:
  "fn_extents t = fn_extents s \<Longrightarrow> fn_targets t = fn_targets s \<Longrightarrow>
     fn_target_extents t = fn_target_extents s \<Longrightarrow> nas_ok s \<Longrightarrow> nas_ok t \<and> nas_view t = nas_view s"
  by (simp add: nas_ok_def nas_view_def nas_device_def)

interpretation fake_nas: truenas_port fake_client nas_view nas_ok
proof
  fix s assume ok: "nas_ok s"
  show "after (tc_query_datasets fake_client) (\<lambda>_ t. nas_ok t \<and> nas_view t = nas_view s)
      (\<lambda>_ t. nas_ok t \<and> nas_view t = nas_view s) s"
    "after (tc_query_snapshots fake_client) (\<lambda>_ t. nas_ok t \<and> nas_view t = nas_view s)
      (\<lambda>_ t. nas_ok t \<and> nas_view t = nas_view s) s"
    "after (tc_query_targets fake_client)
      (\<lambda>xs t. nas_ok t \<and> nas_view t = nas_view s \<and> xs = nv_targets (nas_view s))
      (\<lambda>_ t. nas_ok t \<and> nas_view t = nas_view s) s"
    "after (tc_query_target_extents fake_client)
      (\<lambda>xs t. nas_ok t \<and> nas_view t = nas_view s \<and> xs = nv_links (nas_view s))
      (\<lambda>_ t. nas_ok t \<and> nas_view t = nas_view s) s"
    "after (tc_create_snapshot fake_client d n) (\<lambda>_ t. nas_ok t \<and> nas_view t = nas_view s)
      (\<lambda>_ t. nas_ok t \<and> nas_view t = nas_view s) s"
    "after (tc_clone_snapshot fake_client snap dst) (\<lambda>_ t. nas_ok t \<and> nas_view t = nas_view s)
      (\<lambda>_ t. nas_ok t \<and> nas_view t = nas_view s) s" for d n snap dst
    using ok
    by (simp_all add: after_def fake_client_def fake_nas_defs Let_def nas_ok_def nas_device_def
        nas_view_def)
  show "after (tc_query_extents fake_client)
      (\<lambda>xs t. nas_ok t \<and> nas_view t = nas_view s \<and> distinct (map te_id xs)
         \<and> map_of (map (\<lambda>x. (te_id x, te_path x)) xs) = nv_device (nas_view s))
      (\<lambda>_ t. nas_ok t \<and> nas_view t = nas_view s) s"
    using ok nas_extents_view [OF ok] nas_frame [of "log_call ''query_extents'' s" s]
    by (simp add: after_def fake_client_def fake_query_def log_call_def nas_view_def)
  show "after (tc_update_extent_device fake_client eid dev)
        (\<lambda>_ t. nas_ok t \<and> (nas_view t = nas_view s \<or> nas_view t = set_device eid dev (nas_view s)))
        (\<lambda>_ t. nas_ok t \<and> (nas_view t = nas_view s \<or> nas_view t = set_device eid dev (nas_view s))) s"
    if plain: "\<not> starts_with ''/dev/'' dev" for eid dev
  proof -
    obtain x t where run: "fake_update_extent_device eid dev s = (Inr x, t)" and x: "te_id x = eid"
      "te_path x = Some dev" and t: "fn_extents t = AList.update eid x (fn_extents s)"
      "fn_targets t = fn_targets s" "fn_target_extents t = fn_target_extents s"
      using plain by (auto simp: fake_update_extent_device_def log_call_def Let_def removeprefix_def)
    from nas_ok_update [OF ok x(1) t(1)] show ?thesis
      using x(2) t(2,3) by (simp add: after_def fake_client_def run nas_view_def set_device_def)
  qed
qed

end
