(* ===== verification/TrueNAS_Workflow.thy ===== *)
theory TrueNAS_Workflow
  imports TrueNAS_Port Fake_Workflow
begin

text \<open>
  \<open>application/truenas_publish.py\<close>: the publish workflow over TrueNAS iSCSI.  A clone of the
  source dataset is made for each station and the device of its existing extent is replaced.
\<close>

section \<open>Plans\<close>

record extent_mapping =
  em_station_id :: uuid
  em_target_id :: int
  em_extent_id :: int
  em_lun_id :: int
  em_old_device :: "string option"

record station_plan =
  sp_station :: station
  sp_mapping :: extent_mapping
  sp_dataset :: string
  sp_device :: string

definition slug_char :: "char \<Rightarrow> bool" where
  "slug_char c = (is_alnum c \<or> c = CHR ''_'' \<or> c = CHR ''-'')"

definition safe_slug :: "string \<Rightarrow> string" where
  "safe_slug value =
     (let slug = strip_with (\<lambda>c. c = CHR ''-'' \<or> c = CHR ''_'') (sub_runs slug_char False value)
      in take 48 (if slug = [] then ''station'' else slug))"

definition build_station_plan :: "publish_job \<Rightarrow> station \<Rightarrow> extent_mapping \<Rightarrow> station_plan" where
  "build_station_plan job st mapping =
     (let suffix = safe_slug (st_display_name st);
          dataset = pj_source_dataset job @ ''-'' @ suffix @ ''-'' @ take 12 (uuid_hex (pj_id job))
      in \<lparr>sp_station = st, sp_mapping = mapping, sp_dataset = dataset,
          sp_device = ''zvol/'' @ dataset\<rparr>)"

definition replace_job_status :: "publish_job \<Rightarrow> job_status \<Rightarrow> string \<Rightarrow> publish_job result" where
  "replace_job_status job status reason =
     bindR (transition job status) (\<lambda>j. Inr (j\<lparr>pj_status_reason := Some reason\<rparr>))"

definition enter_publishing :: "publish_job \<Rightarrow> publish_job result" where
  "enter_publishing job =
     (if pj_status job = DRAFT
      then bindR (transition job PREFLIGHT) (\<lambda>current.
           bindR (transition current AWAITING_CONFIRMATION) (\<lambda>current.
           transition current PUBLISHING))
      else if pj_status job = PUBLISHING then Inr job
      else Inl (PublishPreconditionError ''job must be draft or publishing''))"

definition error_detail :: "exn \<Rightarrow> string" where
  "error_detail error =
     (let detail = take 300 (join_with '' '' (py_split (exn_message error)))
      in if detail = [] then exn_class error else detail)"

section \<open>Resolving the existing mapping\<close>

definition find_source_dataset :: "'s truenas_client \<Rightarrow> string \<Rightarrow> ('s, tn_dataset) sx" where
  "find_source_dataset C source =
     bindS (tc_query_datasets C) (\<lambda>datasets.
     case find (\<lambda>item. td_name item = source \<or> td_id item = source) datasets of
       None \<Rightarrow> raiseS (TrueNASPublishError (''source dataset is not found: '' @ source))
     | Some d \<Rightarrow> returnS d)"

definition station_mapping ::
    "tn_target list \<Rightarrow> tn_target_extent list \<Rightarrow> (int \<rightharpoonup> tn_extent) \<Rightarrow> station \<Rightarrow> extent_mapping result" where
  "station_mapping targets associations extents st =
     (case st_target_name st of
        None \<Rightarrow> Inl (TrueNASPublishError (''station '' @ uuid_str (st_station_id st)
                  @ '' has no TrueNAS target_name mapping''))
      | Some target_name \<Rightarrow>
          if target_name = []
          then Inl (TrueNASPublishError (''station '' @ uuid_str (st_station_id st)
                  @ '' has no TrueNAS target_name mapping''))
          else (case find (\<lambda>item. tt_name item = target_name) targets of
              None \<Rightarrow> Inl (TrueNASPublishError (''TrueNAS target '' @ py_repr target_name
                        @ '' was not found for station '' @ uuid_str (st_station_id st)))
            | Some target \<Rightarrow>
                (case filter (\<lambda>item. tx_target_id item = tt_id target) associations of
                   [association] \<Rightarrow>
                     (case extents (tx_extent_id association) of
                        None \<Rightarrow> Inl (TrueNASPublishError (''extent ''
                                  @ str_int (tx_extent_id association) @ '' for target ''
                                  @ py_repr (tt_name target) @ '' was not found''))
                      | Some extent \<Rightarrow>
                          Inr \<lparr>em_station_id = st_station_id st, em_target_id = tt_id target,
                               em_extent_id = te_id extent, em_lun_id = tx_lun_id association,
                               em_old_device = te_path extent\<rparr>)
                 | _ \<Rightarrow> Inl (TrueNASPublishError (''target '' @ py_repr (tt_name target)
                         @ '' must have exactly one extent association'')))))"

text \<open>\<open>extents\<close> is a dictionary comprehension, where the last extent with an id wins.  The
  mappings are keyed by station; the selection was checked to be unique, so they are returned in
  the order of the stations.\<close>

definition resolve_mappings :: "'s truenas_client \<Rightarrow> station list \<Rightarrow> ('s, extent_mapping list) sx" where
  "resolve_mappings C sts =
     bindS (tc_query_targets C) (\<lambda>targets.
     bindS (tc_query_target_extents C) (\<lambda>associations.
     bindS (tc_query_extents C) (\<lambda>items.
     (let extents = map_of (rev (map (\<lambda>x. (te_id x, x)) items))
      in liftR (mapR (station_mapping targets associations extents) sts)))))"

definition ensure_snapshot :: "'s truenas_client \<Rightarrow> publish_job \<Rightarrow> string \<Rightarrow> ('s, string) sx" where
  "ensure_snapshot C job source =
     (let snapshot_name = ''tnas-controller-'' @ take 16 (uuid_hex (pj_id job));
          full_name = source @ ''@'' @ snapshot_name
      in bindS (tc_query_snapshots C) (\<lambda>snapshots.
         case find (\<lambda>item. tn_name item = full_name \<and> tn_dataset item = source) snapshots of
           Some existing \<Rightarrow> returnS (tn_name existing)
         | None \<Rightarrow>
             bindS (tc_create_snapshot C source snapshot_name) (\<lambda>created.
             if tn_dataset created \<noteq> source \<or> tn_name created \<noteq> full_name
             then raiseS (TrueNASPublishError ''TrueNAS returned an unexpected snapshot identity'')
             else returnS (tn_name created))))"

section \<open>One station\<close>

definition verify_read_back :: "'s truenas_client \<Rightarrow> station_plan \<Rightarrow> ('s, unit) sx" where
  "verify_read_back C plan =
     (let m = sp_mapping plan
      in bindS (tc_query_target_extents C) (\<lambda>associations.
         if length (filter (\<lambda>item. tx_target_id item = em_target_id m
              \<and> tx_extent_id item = em_extent_id m \<and> tx_lun_id item = em_lun_id m) associations) \<noteq> 1
         then raiseS (TrueNASPublishError (''target/extent/LUN association changed for station ''
                @ uuid_str (st_station_id (sp_station plan))))
         else bindS (tc_query_extents C) (\<lambda>extents.
           case find (\<lambda>item. te_id item = em_extent_id m) extents of
             None \<Rightarrow> raiseS (TrueNASPublishError (''extent '' @ str_int (em_extent_id m)
                       @ '' read-back device does not match clone''))
           | Some extent \<Rightarrow>
               if te_path extent \<noteq> Some (sp_device plan)
               then raiseS (TrueNASPublishError (''extent '' @ str_int (em_extent_id m)
                       @ '' read-back device does not match clone''))
               else returnS ())))"

text \<open>The body of the \<open>try\<close>: the exception it raised, if any, with the two flags it had set.\<close>

definition attempt_station ::
    "'s truenas_client \<Rightarrow> string \<Rightarrow> station_plan \<Rightarrow> ('s, exn option \<times> bool \<times> bool) sx" where
  "attempt_station C snapshot_ref plan =
     bindS (tryS (bindS (tc_query_datasets C) (\<lambda>datasets.
       if \<not> list_ex (\<lambda>item. td_name item = sp_dataset plan) datasets
       then tc_clone_snapshot C snapshot_ref (sp_dataset plan) else returnS ())))
     (\<lambda>cloned.
     case cloned of
       Inl error \<Rightarrow> returnS (Some error, False, False)
     | Inr _ \<Rightarrow>
         (let write = em_old_device (sp_mapping plan) \<noteq> Some (sp_device plan)
          in bindS (tryS (bindS
               (if write
                then bindS (tc_update_extent_device C (em_extent_id (sp_mapping plan)) (sp_device plan))
                       (\<lambda>_. returnS ())
                else returnS ())
               (\<lambda>_. verify_read_back C plan)))
             (\<lambda>verified.
             case verified of
               Inl error \<Rightarrow> returnS (Some error, write, True)
             | Inr _ \<Rightarrow> returnS (None, write, True))))"

definition station_result ::
    "station_plan \<Rightarrow> target_status \<Rightarrow> bool \<Rightarrow> target_result" where
  "station_result plan status storage_created =
     (mk_result (st_station_id (sp_station plan)) status (em_old_device (sp_mapping plan)))\<lparr>
        tr_new_mapping := Some (sp_device plan), tr_storage_created := storage_created\<rparr>"

definition apply_station ::
    "'s truenas_client \<Rightarrow> string \<Rightarrow> station_plan \<Rightarrow> ('s, target_result) sx" where
  "apply_station C snapshot_ref plan =
     bindS (attempt_station C snapshot_ref plan) (\<lambda>(failure, write_attempted, storage_created).
     case failure of
       None \<Rightarrow> returnS (station_result plan VERIFIED storage_created)
     | Some error \<Rightarrow>
         if write_attempted
         then bindS (tryS (verify_read_back C plan)) (\<lambda>confirmed.
              case confirmed of
                Inl _ \<Rightarrow> returnS ((station_result plan RECOVERY_REQUIRED storage_created)\<lparr>
                  tr_error_code := Some ''extent_update_unknown'',
                  tr_error_message := Some (''extent update outcome is unknown; read-back did not confirm it; ''
                    @ ''initial operation failed: '' @ error_detail error)\<rparr>)
              | Inr _ \<Rightarrow> returnS (station_result plan VERIFIED storage_created))
         else returnS ((station_result plan TARGET_ERROR storage_created)\<lparr>
                tr_error_code := Some ''target_failed'',
                tr_error_message := Some (exn_message error)\<rparr>))"

section \<open>The workflow\<close>

definition simulated_result :: "station_plan \<Rightarrow> target_result" where
  "simulated_result plan =
     (mk_result (st_station_id (sp_station plan)) SIMULATED (em_old_device (sp_mapping plan)))\<lparr>
        tr_new_mapping := Some (sp_device plan)\<rparr>"

definition run_truenas ::
    "'s truenas_client \<Rightarrow> publish_job \<Rightarrow> string \<Rightarrow> station_plan list \<Rightarrow> ('s, workflow_result) sx" where
  "run_truenas C current source plans =
     bindS (ensure_snapshot C current source) (\<lambda>snapshot_ref.
     bindS (liftR (transition current SWITCHING)) (\<lambda>current.
     bindS (mapS (apply_station C snapshot_ref) plans) (\<lambda>results.
     bindS (liftR (transition current VERIFYING)) (\<lambda>current.
     bindS (liftR (transition current (final_status results))) (\<lambda>current.
     returnS \<lparr>wf_job = current, wf_master_mapping = Some snapshot_ref, wf_targets = results\<rparr>)))))"

definition truenas_execute ::
    "'s truenas_client \<Rightarrow> publish_job \<Rightarrow> station list \<Rightarrow> bool \<Rightarrow> ('s, workflow_result) sx" where
  "truenas_execute C job sts confirmed =
     (if sts = []
      then raiseS (PublishPreconditionError ''at least one station is required'')
      else if \<not> confirmed
      then raiseS (PublishPreconditionError ''explicit confirmation is required'')
      else if \<not> distinct (map st_station_id sts)
      then raiseS (PublishPreconditionError ''station selection must be unique'')
      else
        bindS (liftR (enter_publishing job)) (\<lambda>current.
        bindS (find_source_dataset C (pj_source_dataset job)) (\<lambda>source.
        bindS (resolve_mappings C sts) (\<lambda>mappings.
        (let plans = map2 (build_station_plan job) sts mappings
         in if pj_dry_run job
            then bindS (liftR (replace_job_status current COMPLETED ''dry_run_simulation'')) (\<lambda>j.
                 returnS \<lparr>wf_job = j,
                   wf_master_mapping = Some (''dry-run:'' @ pj_source_dataset job),
                   wf_targets = map simulated_result plans\<rparr>)
            else run_truenas C current (td_name source) plans)))))"

end
