(* ===== verification/TrueNAS_Run.thy ===== *)
theory TrueNAS_Run
  imports TrueNAS_Workflow
begin

text \<open>
  What a run of the TrueNAS workflow does to the extents, proved once against the contract of the
  clients.
\<close>

section \<open>Plans\<close>

lemma starts_zvol: "\<not> starts_with ''/dev/'' (''zvol/'' @ x)"
  by (simp add: starts_with_def)

lemma build_station_plan_sels [simp]:
  "sp_station (build_station_plan job st m) = st" "sp_mapping (build_station_plan job st m) = m"
  "sp_device (build_station_plan job st m) = ''zvol/'' @ sp_dataset (build_station_plan job st m)"
  by (simp_all add: build_station_plan_def Let_def)

abbreviation plan_extent :: "station_plan \<Rightarrow> int" where
  "plan_extent p \<equiv> em_extent_id (sp_mapping p)"

lemma find_device:
  assumes "map_of (map (\<lambda>x. (te_id x, te_path x)) xs) = dev" and "find (\<lambda>x. te_id x = k) xs = Some x"
  shows "dev k = Some (te_path x)"
  unfolding assms(1) [symmetric] using assms(2) by (induction xs) (auto split: if_splits)

lemma list_all2_mono':
  "list_all2 P xs ys \<Longrightarrow> (\<And>x y. x \<in> set xs \<Longrightarrow> P x y \<Longrightarrow> Q x y) \<Longrightarrow> list_all2 Q xs ys"
  by (erule list.rel_mono_strong)

text \<open>What the result of one station says of its extent before (\<open>old\<close>) and after (\<open>new\<close>).\<close>

definition station_outcome ::
    "station_plan \<Rightarrow> target_result \<Rightarrow> string option option \<Rightarrow> string option option \<Rightarrow> bool" where
  "station_outcome p r old new \<longleftrightarrow>
     tr_station_id r = st_station_id (sp_station p) \<and> tr_old_mapping r = em_old_device (sp_mapping p)
     \<and> tr_new_mapping r = Some (sp_device p)
     \<and> tr_status r \<in> {VERIFIED, TARGET_ERROR, RECOVERY_REQUIRED}
     \<and> (tr_status r = VERIFIED \<longrightarrow> new = Some (Some (sp_device p)) \<and> tr_storage_created r)
     \<and> (tr_status r = TARGET_ERROR \<longrightarrow> new = old)
     \<and> (new = old \<or> new = Some (Some (sp_device p)))"

lemma station_result_sels [simp]:
  "tr_station_id (station_result p st c) = st_station_id (sp_station p)"
  "tr_status (station_result p st c) = st"
  "tr_old_mapping (station_result p st c) = em_old_device (sp_mapping p)"
  "tr_new_mapping (station_result p st c) = Some (sp_device p)"
  "tr_storage_created (station_result p st c) = c"
  by (simp_all add: station_result_def mk_result_def)

context truenas_port
begin

definition same :: "'s \<Rightarrow> 's \<Rightarrow> bool" where
  "same s t \<longleftrightarrow> ok t \<and> view t = view s"

lemma sameI: "ok t \<Longrightarrow> view t = view s \<Longrightarrow> same s t"
  by (simp add: same_def)

lemma verify_read_back_after:
  assumes "ok s"
  shows "after (verify_read_back C p)
    (\<lambda>_ t. same s t \<and> nv_device (view s) (plan_extent p) = Some (Some (sp_device p)))
    (\<lambda>_ t. same s t) s"
proof -
  have "after (tc_query_extents C) (\<lambda>xs. after
      (case find (\<lambda>x. te_id x = plan_extent p) xs of
         None \<Rightarrow> raiseS e1
       | Some x \<Rightarrow> if te_path x \<noteq> Some (sp_device p) then raiseS e2 else returnS ())
      (\<lambda>_ t. same s t \<and> nv_device (view s) (plan_extent p) = Some (Some (sp_device p)))
      (\<lambda>_ t. same s t)) (\<lambda>_ t. same s t) u" if u: "ok u \<and> view u = view s" for u e1 e2
    by (rule after_mono [OF extents])
      (use u in \<open>auto simp: same_def after_simps split: option.split dest!: find_device\<close>)
  then show ?thesis
    unfolding verify_read_back_def Let_def after_bind
    by (intro after_mono [OF target_extents [OF assms]]) (auto simp: after_simps sameI)
qed

definition written :: "station_plan \<Rightarrow> 's \<Rightarrow> 's \<Rightarrow> bool" where
  "written p s t \<longleftrightarrow>
     ok t \<and> (view t = view s \<or> view t = set_device (plan_extent p) (sp_device p) (view s))"

text \<open>The \<open>try\<close> block: when it succeeds the device was seen to be the planned one; when it fails
  without having attempted a write nothing changed.\<close>

lemma attempt_station_after:
  assumes "ok s" and plain: "\<not> starts_with ''/dev/'' (sp_device p)"
  shows "after (attempt_station C snap p)
    (\<lambda>(failure, write, created) t. written p s t
       \<and> (failure = None \<longrightarrow> created \<and> nv_device (view t) (plan_extent p) = Some (Some (sp_device p)))
       \<and> (\<not> write \<longrightarrow> view t = view s) \<and> (write \<longrightarrow> created)) (\<lambda>_ _. False) s"
proof -
  let ?moved = "em_old_device (sp_mapping p) \<noteq> Some (sp_device p)"
  have clone: "after (bindS (tc_query_datasets C) (\<lambda>datasets.
       if \<not> list_ex (\<lambda>item. td_name item = sp_dataset p) datasets
       then tc_clone_snapshot C snap (sp_dataset p) else returnS ())) (\<lambda>_. same s) (\<lambda>_. same s) s"
  proof -
    have "after (if \<not> list_ex (\<lambda>item. td_name item = sp_dataset p) datasets
       then tc_clone_snapshot C snap (sp_dataset p) else returnS ()) (\<lambda>_. same s) (\<lambda>_. same s) t"
      if "ok t \<and> view t = view s" for datasets t
      using that after_mono [OF clone_frame, where s = t and Q' = "\<lambda>_. same s" and E' = "\<lambda>_. same s"]
      by (simp add: same_def after_return)
    note cloned = this
    show ?thesis
      unfolding after_bind
      by (rule after_mono [OF datasets_frame [OF assms(1)]]) (rule cloned, assumption, simp add: same_def)
  qed
  have update: "after (if ?moved
        then bindS (tc_update_extent_device C (plan_extent p) (sp_device p)) (\<lambda>_. returnS ())
        else returnS ())
      (\<lambda>_ t. written p s t \<and> (\<not> ?moved \<longrightarrow> view t = view s))
      (\<lambda>_ t. written p s t \<and> (\<not> ?moved \<longrightarrow> view t = view s)) t" if "same s t" for t
  proof (cases ?moved)
    case True
    have "ok t" "view t = view s" using that by (simp_all add: same_def)
    with after_mono [OF update_device [OF _ plain], of t "plan_extent p"] True show ?thesis
      by (auto simp: after_bind after_return written_def)
  qed (use that in \<open>simp add: after_return written_def same_def\<close>)
  have verify: "after (verify_read_back C p)
      (\<lambda>_ t. written p s t \<and> (\<not> ?moved \<longrightarrow> view t = view s)
         \<and> nv_device (view t) (plan_extent p) = Some (Some (sp_device p)))
      (\<lambda>_ t. written p s t \<and> (\<not> ?moved \<longrightarrow> view t = view s)) t"
    if "written p s t \<and> (\<not> ?moved \<longrightarrow> view t = view s)" for t
    by (rule after_mono [OF verify_read_back_after]) (use that in \<open>auto simp: written_def same_def\<close>)
  have update_verify: "after (bindS (if ?moved
        then bindS (tc_update_extent_device C (plan_extent p) (sp_device p)) (\<lambda>_. returnS ())
        else returnS ()) (\<lambda>_. verify_read_back C p))
      (\<lambda>_ t. written p s t \<and> (\<not> ?moved \<longrightarrow> view t = view s)
         \<and> nv_device (view t) (plan_extent p) = Some (Some (sp_device p)))
      (\<lambda>_ t. written p s t \<and> (\<not> ?moved \<longrightarrow> view t = view s)) t" if "same s t" for t
    unfolding after_bind [of _ "\<lambda>_. verify_read_back C p"]
    by (rule after_mono [OF update [OF that]]) (rule verify, assumption, assumption)
  have "after (let write = ?moved in bindS (tryS (bindS (if write
        then bindS (tc_update_extent_device C (plan_extent p) (sp_device p)) (\<lambda>_. returnS ())
        else returnS ()) (\<lambda>_. verify_read_back C p))) (\<lambda>verified.
             case verified of Inl error \<Rightarrow> returnS (Some error, write, True)
             | Inr _ \<Rightarrow> returnS (None, write, True)))
      (\<lambda>(failure, write, created) t. written p s t
       \<and> (failure = None \<longrightarrow> created \<and> nv_device (view t) (plan_extent p) = Some (Some (sp_device p)))
       \<and> (\<not> write \<longrightarrow> view t = view s) \<and> (write \<longrightarrow> created)) (\<lambda>_ _. False) t" if "same s t" for t
    unfolding Let_def after_bind [of "tryS _"] after_try
    by (rule after_mono [OF update_verify [OF that]]) (auto simp: after_return)
  then show ?thesis
    unfolding attempt_station_def after_bind [of "tryS (bindS (tc_query_datasets C) _)"] after_try
    by (intro after_mono [OF clone]) (auto simp: after_return written_def same_def)
qed

lemma apply_station_after:
  assumes "ok s" and plain: "\<not> starts_with ''/dev/'' (sp_device p)"
  shows "after (apply_station C snap p)
    (\<lambda>r t. written p s t
       \<and> station_outcome p r (nv_device (view s) (plan_extent p)) (nv_device (view t) (plan_extent p)))
    (\<lambda>_ _. False) s"
proof -
  let ?Q = "\<lambda>r t. written p s t
     \<and> station_outcome p r (nv_device (view s) (plan_extent p)) (nv_device (view t) (plan_extent p))"
  have again: "after (tryS (verify_read_back C p)) (\<lambda>confirmed. after (case confirmed of
        Inl _ \<Rightarrow> returnS ((station_result p RECOVERY_REQUIRED created)\<lparr>
          tr_error_code := c, tr_error_message := m\<rparr>)
      | Inr _ \<Rightarrow> returnS (station_result p VERIFIED created)) ?Q (\<lambda>_ _. False)) (\<lambda>_ _. False) t"
    if "written p s t" "created" for t created c m
    unfolding after_try
    by (rule after_mono [OF verify_read_back_after])
      (use that in \<open>auto simp: after_return same_def written_def station_outcome_def\<close>)
  have step: "after (case failure of
       None \<Rightarrow> returnS (station_result p VERIFIED created)
     | Some error \<Rightarrow>
         if wrote
         then bindS (tryS (verify_read_back C p)) (\<lambda>confirmed.
              case confirmed of
                Inl _ \<Rightarrow> returnS ((station_result p RECOVERY_REQUIRED created)\<lparr>
                  tr_error_code := Some ''extent_update_unknown'',
                  tr_error_message := Some (''extent update outcome is unknown; read-back did not confirm it; ''
                    @ ''initial operation failed: '' @ error_detail error)\<rparr>)
              | Inr _ \<Rightarrow> returnS (station_result p VERIFIED created))
         else returnS ((station_result p TARGET_ERROR created)\<lparr>
                tr_error_code := Some ''target_failed'',
                tr_error_message := Some (exn_message error)\<rparr>)) ?Q (\<lambda>_ _. False) t"
    if "written p s t
       \<and> (failure = None \<longrightarrow> created \<and> nv_device (view t) (plan_extent p) = Some (Some (sp_device p)))
       \<and> (\<not> wrote \<longrightarrow> view t = view s) \<and> (wrote \<longrightarrow> created)" for failure wrote created t
  proof (cases failure)
    case None
    with that show ?thesis by (auto simp: after_return station_outcome_def)
  next
    case (Some error)
    then show ?thesis
      using that again by (cases wrote) (auto simp: after_return after_bind station_outcome_def)
  qed
  show ?thesis
    unfolding apply_station_def after_bind [of "attempt_station C snap p"]
    by (rule after_mono [OF attempt_station_after [OF assms]]) (use step in auto)
qed

text \<open>Stations with extents of their own do not disturb one another.\<close>

lemma apply_all_after:
  assumes "ok s" and "distinct (map plan_extent ps)"
    and "\<forall>p \<in> set ps. \<not> starts_with ''/dev/'' (sp_device p)"
  shows "after (mapS (apply_station C snap) ps)
    (\<lambda>rs t. ok t \<and> (\<forall>e. e \<notin> plan_extent ` set ps \<longrightarrow> nv_device (view t) e = nv_device (view s) e)
       \<and> list_all2 (\<lambda>p r. station_outcome p r (nv_device (view s) (plan_extent p))
           (nv_device (view t) (plan_extent p))) ps rs)
    (\<lambda>_ _. False) s"
  using assms
proof (induction ps arbitrary: s)
  case Nil
  then show ?case by (simp add: after_return)
next
  case (Cons p ps)
  have plain: "\<not> starts_with ''/dev/'' (sp_device p)" using Cons.prems(3) by simp
  have rest: "after (mapS (apply_station C snap) ps)
      (\<lambda>rs. after (returnS (r # rs))
        (\<lambda>rs t. ok t \<and> (\<forall>e. e \<notin> plan_extent ` set (p # ps) \<longrightarrow> nv_device (view t) e = nv_device (view s) e)
       \<and> list_all2 (\<lambda>p r. station_outcome p r (nv_device (view s) (plan_extent p))
           (nv_device (view t) (plan_extent p))) (p # ps) rs) (\<lambda>_ _. False)) (\<lambda>_ _. False) u"
    if u: "written p s u \<and> station_outcome p r (nv_device (view s) (plan_extent p))
      (nv_device (view u) (plan_extent p))" for r u
  proof (rule after_mono [OF Cons.IH])
    show "ok u" using u by (simp add: written_def)
    show "distinct (map plan_extent ps)" "\<forall>p \<in> set ps. \<not> starts_with ''/dev/'' (sp_device p)"
      using Cons.prems by simp_all
    fix rs t
    assume t: "ok t \<and> (\<forall>e. e \<notin> plan_extent ` set ps \<longrightarrow> nv_device (view t) e = nv_device (view u) e)
       \<and> list_all2 (\<lambda>p r. station_outcome p r (nv_device (view u) (plan_extent p))
           (nv_device (view t) (plan_extent p))) ps rs"
    have before: "nv_device (view u) e = nv_device (view s) e" if "e \<noteq> plan_extent p" for e
      using u that by (auto simp: written_def)
    have "list_all2 (\<lambda>p r. station_outcome p r (nv_device (view s) (plan_extent p))
        (nv_device (view t) (plan_extent p))) ps rs"
    proof (rule list_all2_mono' [OF t [THEN conjunct2, THEN conjunct2]])
      fix q r' assume "q \<in> set ps" and q: "station_outcome q r' (nv_device (view u) (plan_extent q))
        (nv_device (view t) (plan_extent q))"
      then have "plan_extent q \<in> plan_extent ` set ps" by blast
      then have "plan_extent q \<noteq> plan_extent p" using Cons.prems(2) by auto
      with q show "station_outcome q r' (nv_device (view s) (plan_extent q))
          (nv_device (view t) (plan_extent q))" by (simp add: before)
    qed
    moreover have "nv_device (view t) (plan_extent p) = nv_device (view u) (plan_extent p)"
      using t Cons.prems(2) by simp
    moreover have "nv_device (view t) e = nv_device (view s) e" if "e \<notin> plan_extent ` set (p # ps)" for e
      using t that before by simp
    ultimately show "after (returnS (r # rs))
        (\<lambda>rs t. ok t \<and> (\<forall>e. e \<notin> plan_extent ` set (p # ps) \<longrightarrow> nv_device (view t) e = nv_device (view s) e)
       \<and> list_all2 (\<lambda>p r. station_outcome p r (nv_device (view s) (plan_extent p))
           (nv_device (view t) (plan_extent p))) (p # ps) rs) (\<lambda>_ _. False) t"
      using t u by (simp add: after_return)
  qed simp_all
  show ?case
    unfolding mapS.simps after_bind [of "apply_station C snap p"] after_bind [of "mapS _ _"]
    by (rule after_mono [OF apply_station_after [OF Cons.prems(1) plain]]) (use rest in auto)
qed

end

section \<open>Resolving and running\<close>

text \<open>The extent that backs a station: the only one linked to its target.\<close>

definition station_extent :: "nas_view \<Rightarrow> station \<Rightarrow> int option" where
  "station_extent v st =
     (case st_target_name st of
        None \<Rightarrow> None
      | Some name \<Rightarrow>
          (case find (\<lambda>t. tt_name t = name) (nv_targets v) of
             None \<Rightarrow> None
           | Some t \<Rightarrow>
               (case filter (\<lambda>x. tx_target_id x = tt_id t) (nv_links v) of
                  [x] \<Rightarrow> Some (tx_extent_id x)
                | _ \<Rightarrow> None)))"

lemma extents_dict:
  assumes "distinct (map te_id xs)" and "map_of (rev (map (\<lambda>x. (te_id x, x)) xs)) k = Some x"
  shows "te_id x = k" and "map_of (map (\<lambda>x. (te_id x, te_path x)) xs) k = Some (te_path x)"
proof -
  from map_of_SomeD [OF assms(2)] have x: "x \<in> set xs" "te_id x = k" by auto
  then show "te_id x = k" by simp
  show "map_of (map (\<lambda>x. (te_id x, te_path x)) xs) k = Some (te_path x)"
    by (rule map_of_is_SomeI) (use x assms(1) in \<open>auto simp: comp_def\<close>)
qed

lemma station_mapping_Inr:
  assumes "station_mapping (nv_targets v) (nv_links v) (map_of (rev (map (\<lambda>x. (te_id x, x)) xs))) st = Inr m"
    and "distinct (map te_id xs)" and "map_of (map (\<lambda>x. (te_id x, te_path x)) xs) = nv_device v"
  shows "station_extent v st = Some (em_extent_id m) \<and> nv_device v (em_extent_id m) = Some (em_old_device m)"
proof -
  obtain name t y x where name: "st_target_name st = Some name"
    and t: "find (\<lambda>t. tt_name t = name) (nv_targets v) = Some t"
    and y: "filter (\<lambda>x. tx_target_id x = tt_id t) (nv_links v) = [y]"
    and x: "map_of (rev (map (\<lambda>x. (te_id x, x)) xs)) (tx_extent_id y) = Some x"
    and m: "em_extent_id m = te_id x" "em_old_device m = te_path x"
    using assms(1) unfolding station_mapping_def
    by (auto split: option.splits if_splits list.splits)
  from extents_dict [OF assms(2) x] show ?thesis
    using name t y m unfolding station_extent_def assms(3) by simp
qed

context truenas_port
begin

lemma resolve_mappings_after:
  assumes "ok s"
  shows "after (resolve_mappings C sts)
    (\<lambda>ms t. same s t \<and> list_all2 (\<lambda>st m. station_extent (view s) st = Some (em_extent_id m)
       \<and> nv_device (view s) (em_extent_id m) = Some (em_old_device m)) sts ms)
    (\<lambda>_. same s) s"
proof -
  let ?P = "\<lambda>st m. station_extent (view s) st = Some (em_extent_id m)
       \<and> nv_device (view s) (em_extent_id m) = Some (em_old_device m)"
  have items: "after (liftR (mapR (station_mapping (nv_targets (view s)) (nv_links (view s))
        (map_of (rev (map (\<lambda>x. (te_id x, x)) xs)))) sts))
      (\<lambda>ms t. same s t \<and> list_all2 ?P sts ms) (\<lambda>_. same s) t"
    if "ok t \<and> view t = view s \<and> distinct (map te_id xs)
       \<and> map_of (map (\<lambda>x. (te_id x, te_path x)) xs) = nv_device (view s)" for xs t
  proof -
    have "list_all2 ?P sts ms" if "mapR (station_mapping (nv_targets (view s)) (nv_links (view s))
        (map_of (rev (map (\<lambda>x. (te_id x, x)) xs)))) sts = Inr ms" for ms
      using that \<open>ok t \<and> _\<close> unfolding mapR_Inr_iff
      by (auto elim!: list.rel_mono_strong dest: station_mapping_Inr)
    with that show ?thesis by (auto simp: after_lift sameI split: sum.split)
  qed
  have extents': "after (tc_query_extents C) (\<lambda>xs. after (liftR (mapR (station_mapping
        (nv_targets (view s)) (nv_links (view s)) (map_of (rev (map (\<lambda>x. (te_id x, x)) xs)))) sts))
      (\<lambda>ms t. same s t \<and> list_all2 ?P sts ms) (\<lambda>_. same s)) (\<lambda>_. same s) t"
    if t: "ok t" "view t = view s" for t
    by (rule after_mono [OF extents [OF t(1), unfolded t(2)]]) (rule items, assumption, simp add: sameI)
  have links: "after (tc_query_target_extents C) (\<lambda>associations. after (bindS (tc_query_extents C) (\<lambda>items.
      liftR (mapR (station_mapping (nv_targets (view s)) associations
        (map_of (rev (map (\<lambda>x. (te_id x, x)) items)))) sts)))
      (\<lambda>ms t. same s t \<and> list_all2 ?P sts ms) (\<lambda>_. same s)) (\<lambda>_. same s) t"
    if t: "ok t" "view t = view s" for t
    unfolding after_bind
    by (rule after_mono [OF target_extents [OF t(1), unfolded t(2)]]) (use extents' in \<open>auto simp: sameI\<close>)
  show ?thesis
    unfolding resolve_mappings_def Let_def after_bind [of "tc_query_targets C"]
      after_bind [of "tc_query_target_extents C"]
    by (rule after_mono [OF targets [OF assms]]) (use links in \<open>auto simp: sameI\<close>)
qed

lemma find_source_after: "ok s \<Longrightarrow> after (find_source_dataset C d) (\<lambda>_. same s) (\<lambda>_. same s) s"
  unfolding find_source_dataset_def after_bind
  by (rule after_mono [OF datasets_frame]) (auto simp: after_simps sameI split: option.split)

lemma ensure_snapshot_after:
  assumes "ok s" shows "after (ensure_snapshot C job d) (\<lambda>_. same s) (\<lambda>_. same s) s"
proof -
  have create: "after (tc_create_snapshot C d n) (\<lambda>created. after
      (if tn_dataset created \<noteq> d \<or> tn_name created \<noteq> f then raiseS e else returnS (tn_name created))
      (\<lambda>_. same s) (\<lambda>_. same s)) (\<lambda>_. same s) t" if "ok t" "view t = view s" for t n f e
    by (rule after_mono [OF create_snapshot_frame [OF that(1)]])
      (use that in \<open>auto simp: after_simps sameI\<close>)
  show ?thesis
    unfolding ensure_snapshot_def Let_def after_bind [of "tc_query_snapshots C"]
  proof (rule after_mono [OF snapshots_frame [OF assms]], goal_cases)
    case (1 snapshots t)
    then show ?case
      using create [of t] by (auto simp: after_simps sameI split: option.split)
  qed (simp add: sameI)
qed

end

end
