(* ===== verification/TrueNAS_Properties.thy ===== *)
theory TrueNAS_Properties
  imports TrueNAS_Run
begin

text \<open>
  The guarantees of the TrueNAS publish workflow, for every pair of clients that keep the port's
  contract, and what a shared slug does.
\<close>

section \<open>A whole execution\<close>

lemma enter_publishing_Inr:
  "enter_publishing job = Inr current \<longleftrightarrow>
     pj_status job \<in> {DRAFT, PUBLISHING} \<and> current = job\<lparr>pj_status := PUBLISHING\<rparr>"
  by (auto simp: enter_publishing_def transition_def)

text \<open>The device a job plans for a station, and what the run reports of the station in terms of the
  view before and after it.\<close>

definition planned_device :: "publish_job \<Rightarrow> station \<Rightarrow> string" where
  "planned_device job st =
     ''zvol/'' @ pj_source_dataset job @ ''-'' @ safe_slug (st_display_name st) @ ''-''
       @ take 12 (uuid_hex (pj_id job))"

definition extent_outcome ::
    "publish_job \<Rightarrow> nas_view \<Rightarrow> nas_view \<Rightarrow> station \<Rightarrow> target_result \<Rightarrow> bool" where
  "extent_outcome job v v' st r \<longleftrightarrow>
     (\<exists>e. station_extent v st = Some e \<and> tr_station_id r = st_station_id st
        \<and> nv_device v e = Some (tr_old_mapping r) \<and> tr_new_mapping r = Some (planned_device job st)
        \<and> tr_status r \<in> {VERIFIED, TARGET_ERROR, RECOVERY_REQUIRED}
        \<and> (tr_status r = VERIFIED \<longrightarrow> nv_device v' e = Some (tr_new_mapping r) \<and> tr_storage_created r)
        \<and> (tr_status r = TARGET_ERROR \<longrightarrow> nv_device v' e = nv_device v e)
        \<and> nv_device v' e \<in> {nv_device v e, Some (tr_new_mapping r)})"

definition untouched_extents :: "nas_view \<Rightarrow> nas_view \<Rightarrow> station list \<Rightarrow> bool" where
  "untouched_extents v v' sts \<longleftrightarrow>
     (\<forall>e. Some e \<notin> station_extent v ` set sts \<longrightarrow> nv_device v' e = nv_device v e)"

context truenas_port
begin

definition resolved :: "'s \<Rightarrow> station list \<Rightarrow> extent_mapping list \<Rightarrow> bool" where
  "resolved s sts ms \<longleftrightarrow>
     list_all2 (\<lambda>st m. station_extent (view s) st = Some (em_extent_id m)
       \<and> nv_device (view s) (em_extent_id m) = Some (em_old_device m)) sts ms"

lemma resolved_plans:
  assumes "resolved s sts ms"
  shows "map (Some \<circ> plan_extent) (map2 (build_station_plan job) sts ms) = map (station_extent (view s)) sts"
    and "list_all2 (\<lambda>st p. sp_station p = st \<and> sp_device p = planned_device job st \<and> station_extent (view s) st = Some (plan_extent p)
       \<and> nv_device (view s) (plan_extent p) = Some (em_old_device (sp_mapping p)))
      sts (map2 (build_station_plan job) sts ms)"
    and "\<forall>p \<in> set (map2 (build_station_plan job) sts ms). \<not> starts_with ''/dev/'' (sp_device p)"
proof -
  have "list_all2 (\<lambda>st m. station_extent (view s) st = Some (em_extent_id m)
       \<and> nv_device (view s) (em_extent_id m) = Some (em_old_device m)) sts ms"
    using assms by (simp add: resolved_def)
  then show "map (Some \<circ> plan_extent) (map2 (build_station_plan job) sts ms) = map (station_extent (view s)) sts"
    and "list_all2 (\<lambda>st p. sp_station p = st \<and> sp_device p = planned_device job st \<and> station_extent (view s) st = Some (plan_extent p)
       \<and> nv_device (view s) (plan_extent p) = Some (em_old_device (sp_mapping p)))
      sts (map2 (build_station_plan job) sts ms)"
    by (induction rule: list_all2_induct)
      (simp_all add: planned_device_def build_station_plan_def Let_def)
  have "\<not> starts_with ''/dev/'' (sp_device (build_station_plan job st m))" for st m
    by (simp only: build_station_plan_sels starts_zvol not_False_eq_True)
  then show "\<forall>p \<in> set (map2 (build_station_plan job) sts ms). \<not> starts_with ''/dev/'' (sp_device p)"
    by (auto simp del: build_station_plan_sels)
qed

definition outcome :: "publish_job \<Rightarrow> 's \<Rightarrow> station list \<Rightarrow> target_result list \<Rightarrow> 's \<Rightarrow> bool" where
  "outcome job s sts rs t \<longleftrightarrow>
     ok t \<and> (distinct (map (station_extent (view s)) sts) \<longrightarrow>
       list_all2 (extent_outcome job (view s) (view t)) sts rs
       \<and> untouched_extents (view s) (view t) sts)"

lemma apply_all_outcome:
  assumes same: "same s u" and res: "resolved s sts ms"
  shows "after (mapS (apply_station C snap) (map2 (build_station_plan job) sts ms)) (outcome job s sts)
    (\<lambda>_ _. False) u"
proof (cases "distinct (map (station_extent (view s)) sts)")
  case False
  let ?ps = "map2 (build_station_plan job) sts ms"
  have "after (mapS (apply_station C snap) ?ps) (\<lambda>rs t. ok t \<and> list_all2 (\<lambda>_ _. True) ?ps rs)
      (\<lambda>_ _. False) u"
  proof (rule after_mapS)
    show "after (apply_station C snap q) (\<lambda>r t. ok t \<and> True) (\<lambda>_ _. False) w"
      if "q \<in> set ?ps" "ok w" for q w
      using after_mono [OF apply_station_after [OF that(2)]] resolved_plans(3) [OF res, of job] that(1)
      by (auto simp: written_def)
  qed (use same in \<open>simp add: same_def\<close>)
  then show ?thesis by (rule after_mono) (simp_all add: outcome_def False)
next
  case dist: True
  let ?ps = "map2 (build_station_plan job) sts ms"
  note plans = resolved_plans [OF res, of job]
  have "distinct (map (Some \<circ> plan_extent) ?ps)" using dist plans(1) by simp
  then have dist': "distinct (map plan_extent ?ps)" by (simp add: distinct_map comp_def inj_on_def)
  have ids: "Some ` plan_extent ` set ?ps = station_extent (view s) ` set sts"
    using arg_cong [OF plans(1), where f = set] by (simp add: image_comp)
  have vu: "ok u" "view u = view s" using same by (simp_all add: same_def)
  show ?thesis
  proof (rule after_mono [OF apply_all_after [OF vu(1) dist' plans(3)]])
    fix rs w
    assume w: "ok w \<and> (\<forall>e. e \<notin> plan_extent ` set ?ps \<longrightarrow> nv_device (view w) e = nv_device (view u) e)
       \<and> list_all2 (\<lambda>p r. station_outcome p r (nv_device (view u) (plan_extent p))
           (nv_device (view w) (plan_extent p))) ?ps rs"
    have "untouched_extents (view s) (view w) sts"
      unfolding untouched_extents_def ids [symmetric]
    proof (intro allI impI)
      fix e assume "Some e \<notin> Some ` plan_extent ` set ?ps"
      then have "e \<notin> plan_extent ` set ?ps" by blast
      with w vu(2) show "nv_device (view w) e = nv_device (view s) e" by presburger
    qed
    moreover have "list_all2 (extent_outcome job (view s) (view w)) sts rs"
    proof (rule list_all2_trans [OF _ plans(2) w [THEN conjunct2, THEN conjunct2]])
      fix st p r
      assume "sp_station p = st \<and> sp_device p = planned_device job st \<and> station_extent (view s) st = Some (plan_extent p)
          \<and> nv_device (view s) (plan_extent p) = Some (em_old_device (sp_mapping p))"
        and "station_outcome p r (nv_device (view u) (plan_extent p)) (nv_device (view w) (plan_extent p))"
      then show "extent_outcome job (view s) (view w) st r"
        unfolding extent_outcome_def station_outcome_def vu(2)
        by (intro exI [of _ "plan_extent p"]) auto
    qed
    ultimately show "outcome job s sts rs w" using w by (simp add: outcome_def)
  qed
qed

lemma run_truenas_after:
  assumes same: "same s t" and res: "resolved s sts ms" and job: "pj_status current = PUBLISHING"
  shows "after (run_truenas C current d (map2 (build_station_plan job) sts ms))
    (\<lambda>r u. pj_status (wf_job r) = final_status (wf_targets r) \<and> outcome job s sts (wf_targets r) u)
    (\<lambda>_. same s) t"
    (is "after _ ?Q _ t")
proof -
  let ?ps = "map2 (build_station_plan job) sts ms"
  have applied: "after (mapS (apply_station C snap) ?ps) (\<lambda>results.
      after (bindS (liftR (transition (current\<lparr>pj_status := SWITCHING\<rparr>) VERIFYING)) (\<lambda>current.
     bindS (liftR (transition current (final_status results))) (\<lambda>current.
     returnS \<lparr>wf_job = current, wf_master_mapping = Some snap, wf_targets = results\<rparr>)))
    ?Q (\<lambda>_. same s)) (\<lambda>_. same s) u" if "same s u" for snap u
    by (rule after_mono [OF apply_all_outcome [OF that res]])
      (simp_all add: after_simps transitions_run [OF job])
  have t: "ok t" "view t = view s" using same by (simp_all add: same_def)
  show ?thesis
    unfolding run_truenas_def after_bind [of "ensure_snapshot C current d"]
  proof (rule after_mono [OF ensure_snapshot_after [OF t(1)]], goal_cases)
    case (1 snap u)
    then have "same s u" by (simp add: same_def t)
    from applied [OF this, of snap] show ?case
      by (simp add: after_bind after_lift transitions_run(1) [OF job])
  qed (simp add: same_def t)
qed

lemma truenas_execute_after:
  assumes ok: "ok s"
  shows "after (truenas_execute C job sts confirmed)
    (\<lambda>r t. ok t \<and> (if pj_dry_run job
       then view t = view s \<and> pj_status (wf_job r) = COMPLETED
         \<and> list_all2 (\<lambda>st x. tr_station_id x = st_station_id st \<and> tr_status x = SIMULATED) sts (wf_targets r)
       else pj_status (wf_job r) = final_status (wf_targets r)
         \<and> outcome job s sts (wf_targets r) t)) (\<lambda>_. same s) s"
    (is "after _ ?Q _ s")
proof (cases "enter_publishing job")
  case (Inl e)
  then show ?thesis using ok by (auto simp: truenas_execute_def after_simps sameI)
next
  case (Inr current)
  then have job: "pj_status current = PUBLISHING" by (auto simp: enter_publishing_Inr)
  have simulated: "list_all2 (\<lambda>st x. tr_station_id x = st_station_id st \<and> tr_status x = SIMULATED) sts
      (map simulated_result (map2 (build_station_plan job) sts ms))" if "resolved s sts ms" for ms
    using that unfolding resolved_def
    by (induction rule: list_all2_induct) (simp_all add: simulated_result_def)
  have planned: "after (let plans = map2 (build_station_plan job) sts ms
         in if pj_dry_run job
            then bindS (liftR (replace_job_status current COMPLETED ''dry_run_simulation'')) (\<lambda>j.
                 returnS \<lparr>wf_job = j, wf_master_mapping = Some (''dry-run:'' @ pj_source_dataset job),
                   wf_targets = map simulated_result plans\<rparr>)
            else run_truenas C current d plans) ?Q (\<lambda>_. same s) t"
    if t: "same s t" and res: "resolved s sts ms" for ms d t
  proof (cases "pj_dry_run job")
    case True
    then show ?thesis
      using t job simulated [OF res]
      by (simp add: after_simps replace_job_status_def transition_def same_def)
  next
    case False
    with run_truenas_after [OF t res job, of d job] show ?thesis
      by (auto simp: Let_def outcome_def elim!: after_mono)
  qed
  have mapped: "after (bindS (resolve_mappings C sts) (\<lambda>ms. (let plans = map2 (build_station_plan job) sts ms
         in if pj_dry_run job
            then bindS (liftR (replace_job_status current COMPLETED ''dry_run_simulation'')) (\<lambda>j.
                 returnS \<lparr>wf_job = j, wf_master_mapping = Some (''dry-run:'' @ pj_source_dataset job),
                   wf_targets = map simulated_result plans\<rparr>)
            else run_truenas C current d plans))) ?Q (\<lambda>_. same s) t" if "same s t" for t d
  proof -
    have t: "ok t" "view t = view s" using that by (simp_all add: same_def)
    show ?thesis
      unfolding after_bind [of "resolve_mappings C sts"]
    proof (rule after_mono [OF resolve_mappings_after [OF t(1)]], goal_cases)
      case (1 ms u)
      then show ?case by (intro planned) (simp_all add: t same_def resolved_def)
    qed (simp add: same_def t)
  qed
  have "after (bindS (find_source_dataset C (pj_source_dataset job)) (\<lambda>source.
      bindS (resolve_mappings C sts) (\<lambda>ms. (let plans = map2 (build_station_plan job) sts ms
         in if pj_dry_run job
            then bindS (liftR (replace_job_status current COMPLETED ''dry_run_simulation'')) (\<lambda>j.
                 returnS \<lparr>wf_job = j, wf_master_mapping = Some (''dry-run:'' @ pj_source_dataset job),
                   wf_targets = map simulated_result plans\<rparr>)
            else run_truenas C current (td_name source) plans)))) ?Q (\<lambda>_. same s) s"
    unfolding after_bind [of "find_source_dataset C _"]
    by (rule after_mono [OF find_source_after [OF ok]]) (rule mapped, assumption, assumption)
  moreover have "same s s" using ok by (simp add: sameI)
  ultimately show ?thesis
    unfolding truenas_execute_def
    by (simp add: after_if after_raise after_bind [of "liftR _"] after_lift Inr)
qed

end

section \<open>Properties\<close>

text \<open>C14. The TrueNAS run is honest and touches only its own extents.  For clients that keep the
  port's contract and stations backed by distinct extents: there is one result per station, in order,
  reporting the device its extent had before; a verified one names the device its extent has after
  the run and owns a clone; one in plain error left its extent as it was; every extent holds either
  its old or the planned device; and no extent of another station changed.\<close>

theorem truenas_run_honest:
  assumes "truenas_port C view ok" and "ok s" and "\<not> pj_dry_run job"
    and "distinct (map (station_extent (view s)) sts)"
    and "truenas_execute C job sts confirmed s = (Inr r, t)"
  shows "list_all2 (extent_outcome job (view s) (view t)) sts (wf_targets r)
    \<and> untouched_extents (view s) (view t) sts
    \<and> pj_status (wf_job r) =
        (if \<forall>x \<in> set (wf_targets r). tr_status x = VERIFIED then COMPLETED
         else if \<exists>x \<in> set (wf_targets r). tr_status x = VERIFIED then PARTIAL_FAILURE
         else FAILED)"
  using after_Inr [OF truenas_port.truenas_execute_after [OF assms(1,2)] assms(5)] assms(3,4)
  unfolding final_status_iff [symmetric] truenas_port.outcome_def [OF assms(1)] by simp

text \<open>C18. Nothing is switched by a run that raises: when the workflow raises, for a dry run or a
  real one and whatever step failed, every extent, target and association is what it was; and a dry
  run that returns changed none of them either and marks every target simulated.\<close>

theorem truenas_no_write:
  assumes "truenas_port C view ok" and "ok s"
    and "truenas_execute C job sts confirmed s = (x, t)"
  shows "(\<forall>e. x = Inl e \<longrightarrow> view t = view s)
    \<and> (\<forall>r. x = Inr r \<and> pj_dry_run job \<longrightarrow>
        view t = view s \<and> pj_status (wf_job r) = COMPLETED
        \<and> list_all (\<lambda>y. tr_status y = SIMULATED) (wf_targets r))"
proof -
  note run = truenas_port.truenas_execute_after [OF assms(1,2), of job sts confirmed]
  have all: "list_all (\<lambda>y. tr_status y = SIMULATED) ys"
    if "list_all2 (\<lambda>st x. tr_station_id x = st_station_id st \<and> tr_status x = SIMULATED) sts ys"
    for ys :: "target_result list"
    using that by (induction rule: list_all2_induct) simp_all
  show ?thesis
  proof (cases x)
    case (Inl e)
    with after_Inl [OF run] assms(3) show ?thesis
      by (auto simp: truenas_port.same_def [OF assms(1)])
  next
    case (Inr r)
    with after_Inr [OF run] assms(3) all show ?thesis by auto
  qed
qed

text \<open>The part of a clone's name that comes from the operator's display name is safe: never
  empty, at most 48 characters, letters, digits, underscores and dashes only.\<close>

lemma slug_safe:
  "safe_slug name \<noteq> [] \<and> length (safe_slug name) \<le> 48 \<and> list_all slug_char (safe_slug name)"
proof -
  let ?slug = "strip_with (\<lambda>c. c = CHR ''-'' \<or> c = CHR ''_'') (sub_runs slug_char False name)"
  let ?s = "if ?slug = [] then ''station'' else ?slug"
  have "slug_char c" if "c \<in> set ?slug" for c
    using set_strip_with that sub_runs_chars by (fastforce simp: slug_char_def)
  moreover have "list_all slug_char ''station''"
    by (simp add: slug_char_def is_alnum_def is_lower_def is_digit_def is_upper_def code_def)
  ultimately have "list_all slug_char ?s" by (simp add: list_all_iff)
  then have "list_all slug_char (take 48 ?s)" by (auto simp: list_all_iff dest: in_set_takeD)
  moreover have "?s \<noteq> []" by simp
  ultimately show ?thesis unfolding safe_slug_def Let_def by (cases ?s) simp_all
qed

text \<open>C19. Two stations with the same slug end up on one disk.  The clone's name is made of the
  source, the slug of the display name and the job, so when the run verifies two selected stations
  whose slugs agree, their two extents serve the same device.\<close>

theorem shared_slug_shares_disk:
  assumes "truenas_port C view ok" and "ok s" and "\<not> pj_dry_run job"
    and "distinct (map (station_extent (view s)) sts)"
    and "truenas_execute C job sts confirmed s = (Inr r, t)"
    and "(a, x) \<in> set (zip sts (wf_targets r))" and "(b, y) \<in> set (zip sts (wf_targets r))"
    and "a \<noteq> b" and "tr_status x = VERIFIED" and "tr_status y = VERIFIED"
    and "safe_slug (st_display_name a) = safe_slug (st_display_name b)"
  shows "\<exists>e f. station_extent (view s) a = Some e \<and> station_extent (view s) b = Some f \<and> e \<noteq> f
    \<and> nv_device (view t) e = nv_device (view t) f"
proof -
  have "list_all2 (extent_outcome job (view s) (view t)) sts (wf_targets r)"
    using after_Inr [OF truenas_port.truenas_execute_after [OF assms(1,2)] assms(5)] assms(3,4)
    by (simp add: truenas_port.outcome_def [OF assms(1)])
  then have out: "extent_outcome job (view s) (view t) a x" "extent_outcome job (view s) (view t) b y"
    using assms(6,7) by (auto simp: list_all2_iff)
  moreover have "station_extent (view s) a \<noteq> station_extent (view s) b"
    using assms(4,6,7,8) by (auto simp: distinct_map inj_on_def dest!: set_zip_leftD)
  ultimately show ?thesis
    using assms(9-11) by (auto simp: extent_outcome_def planned_device_def)
qed

section \<open>Instances\<close>

definition nas_station :: "uuid \<Rightarrow> string \<Rightarrow> string \<Rightarrow> station" where
  "nas_station sid name target =
     \<lparr>st_id = sid, st_station_id = sid, st_display_name = name, st_hostname = ''pc'', st_role = CLIENT,
      st_status = ONLINE, st_enabled = True, st_deleted_at = None, st_target_name = Some target,
      st_target_iqn = None, st_initiator_iqn = None, st_last_update_at = None\<rparr>"

definition nas_sample :: fake_nas where
  "nas_sample = nas_new\<lparr>
     fn_datasets := [(''tank/golden'', \<lparr>td_id = ''tank/golden'', td_name = ''tank/golden'',
        td_path = None, td_type = Some ''VOLUME''\<rparr>)],
     fn_targets := [(1, \<lparr>tt_id = 1, tt_name = ''pc1'', tt_alias = None\<rparr>),
        (2, \<lparr>tt_id = 2, tt_name = ''pc2'', tt_alias = None\<rparr>)],
     fn_target_extents := [\<lparr>tx_target_id = 1, tx_extent_id = 11, tx_lun_id = 0\<rparr>,
        \<lparr>tx_target_id = 2, tx_extent_id = 12, tx_lun_id = 0\<rparr>],
     fn_extents := [(11, \<lparr>te_id = 11, te_name = ''e1'', te_path = Some ''zvol/tank/old1'',
          te_type = Some ''DISK''\<rparr>),
        (12, \<lparr>te_id = 12, te_name = ''e2'', te_path = Some ''zvol/tank/old2'', te_type = Some ''DISK''\<rparr>)]\<rparr>"

definition nas_job :: publish_job where
  "nas_job =
     \<lparr>pj_id = 20, pj_idempotency_key = ''key'', pj_correlation_id = 21, pj_label = ''spring'',
      pj_source_dataset = ''tank/golden'', pj_dry_run = False, pj_allow_hot_switch = False,
      pj_status = PUBLISHING, pj_description = None, pj_status_reason = None,
      pj_operator_id = None, pj_client_confirmation = Some True,
      pj_client_confirmation_at = None, pj_created_at = None, pj_started_at = None,
      pj_completed_at = None\<rparr>"

abbreviation twin_stations :: "station list" where
  "twin_stations \<equiv> [nas_station 2 ''PC 1'' ''pc1'', nas_station 3 ''PC-1'' ''pc2'']"

text \<open>The run evaluated by the simplifier; the digits of the job's id stay symbolic.\<close>

lemmas nas_run_defs =
  truenas_execute_def run_truenas_def enter_publishing_def find_source_dataset_def
  resolve_mappings_def station_mapping_def build_station_plan_def ensure_snapshot_def
  apply_station_def attempt_station_def verify_read_back_def station_result_def mk_result_def
  fake_client_def fake_nas_defs set_default_def nas_sample_def nas_job_def nas_new_def
  nas_station_def transition_def final_status_def

lemma twin_slugs: "safe_slug ''PC 1'' = ''PC-1''" "safe_slug ''PC-1'' = ''PC-1''"
  by code_simp+

lemma twin_run:
  "case truenas_execute fake_client nas_job twin_stations True nas_sample of
     (Inr r, t) \<Rightarrow> map tr_status (wf_targets r) = [VERIFIED, VERIFIED] | _ \<Rightarrow> False"
  by (simp add: nas_run_defs sx_simps Let_def twin_slugs starts_with_def removeprefix_def)

lemma twin_obtain:
  obtains r t x y where "truenas_execute fake_client nas_job twin_stations True nas_sample = (Inr r, t)"
    and "wf_targets r = [x, y]" and "tr_status x = VERIFIED" and "tr_status y = VERIFIED"
proof -
  obtain r t where run: "truenas_execute fake_client nas_job twin_stations True nas_sample = (Inr r, t)"
    and st: "map tr_status (wf_targets r) = [VERIFIED, VERIFIED]"
    using twin_run by (auto split: prod.splits sum.splits)
  from st obtain x y where "wf_targets r = [x, y]" by (auto simp: map_eq_Cons_conv)
  with that run st show ?thesis by simp
qed

lemma nas_sample_facts:
  "nas_ok nas_sample" "\<not> pj_dry_run nas_job"
  "distinct (map (station_extent (nas_view nas_sample)) twin_stations)"
  by (simp_all add: nas_ok_def nas_sample_def nas_job_def station_extent_def nas_view_def nas_station_def)

theorem truenas_run_honest_witness:
  "\<exists>r t. truenas_execute fake_client nas_job twin_stations True nas_sample = (Inr r, t)
     \<and> list_all2 (extent_outcome nas_job (nas_view nas_sample) (nas_view t)) twin_stations (wf_targets r)"
proof -
  obtain r t where run: "truenas_execute fake_client nas_job twin_stations True nas_sample = (Inr r, t)"
    by (rule twin_obtain)
  from truenas_run_honest [OF fake_nas.truenas_port_axioms nas_sample_facts run]
  have "list_all2 (extent_outcome nas_job (nas_view nas_sample) (nas_view t)) twin_stations (wf_targets r)"
    by (rule conjunct1)
  with run show ?thesis by (intro exI conjI)
qed

lemma dry_twin_run:
  "case truenas_execute fake_client (nas_job\<lparr>pj_dry_run := True\<rparr>) twin_stations True nas_sample of
     (Inr r, t) \<Rightarrow> map tr_status (wf_targets r) = [SIMULATED, SIMULATED] | _ \<Rightarrow> False"
  by (simp add: nas_run_defs replace_job_status_def simulated_result_def sx_simps Let_def twin_slugs starts_with_def removeprefix_def)

theorem truenas_no_write_witness:
  "nas_view (snd (truenas_execute fake_client nas_job [] True nas_sample)) = nas_view nas_sample
   \<and> (\<exists>r t. truenas_execute fake_client (nas_job\<lparr>pj_dry_run := True\<rparr>) twin_stations True nas_sample = (Inr r, t)
        \<and> length (wf_targets r) = 2 \<and> pj_status (wf_job r) = COMPLETED \<and> nas_view t = nas_view nas_sample)"
proof -
  note no_write = truenas_no_write [OF fake_nas.truenas_port_axioms nas_sample_facts(1)]
  obtain e t where run: "truenas_execute fake_client nas_job [] True nas_sample = (Inl e, t)"
    by (auto simp: truenas_execute_def sx_simps)
  obtain r u where dry: "truenas_execute fake_client (nas_job\<lparr>pj_dry_run := True\<rparr>) twin_stations True nas_sample = (Inr r, u)"
    and two: "map tr_status (wf_targets r) = [SIMULATED, SIMULATED]"
    using dry_twin_run by (auto split: prod.splits sum.splits)
  from two have "length (wf_targets r) = 2" by (auto simp: map_eq_Cons_conv)
  with no_write [OF run] no_write [OF dry] run dry show ?thesis by simp
qed

theorem shared_slug_shares_disk_witness:
  "\<exists>r t. truenas_execute fake_client nas_job twin_stations True nas_sample = (Inr r, t)
     \<and> nas_device t 11 = nas_device t 12"
proof -
  obtain r t x y where run: "truenas_execute fake_client nas_job twin_stations True nas_sample = (Inr r, t)"
    and xy: "wf_targets r = [x, y]" "tr_status x = VERIFIED" "tr_status y = VERIFIED"
    by (rule twin_obtain)
  let ?a = "nas_station 2 ''PC 1'' ''pc1''" and ?b = "nas_station 3 ''PC-1'' ''pc2''"
  have zip: "(?a, x) \<in> set (zip twin_stations (wf_targets r))"
    "(?b, y) \<in> set (zip twin_stations (wf_targets r))" by (simp_all add: xy(1))
  have ab: "?a \<noteq> ?b" "safe_slug (st_display_name ?a) = safe_slug (st_display_name ?b)"
    by (simp_all add: nas_station_def twin_slugs)
  have ext: "station_extent (nas_view nas_sample) ?a = Some 11"
    "station_extent (nas_view nas_sample) ?b = Some 12"
    by (simp_all add: nas_sample_def station_extent_def nas_view_def nas_station_def)
  from shared_slug_shares_disk [OF fake_nas.truenas_port_axioms nas_sample_facts run zip ab(1) xy(2,3) ab(2)]
  have "nv_device (nas_view t) 11 = nv_device (nas_view t) 12" by (simp add: ext)
  then have "nas_device t 11 = nas_device t 12" by (simp add: nas_view_def)
  with run show ?thesis by (intro exI conjI)
qed

end
