(* ===== verification/Publish_Executor.thy ===== *)
theory Publish_Executor
  imports Publish_Gate TrueNAS_Workflow
begin

text \<open>
  \<open>application/publish_executor.py\<close> and the task handler of \<open>worker/composition.py\<close>: a delivered
  message reloads its job, runs a workflow outside any transaction and persists the outcome in one.
  The state is the database beside the storage.  \<open>fresh i\<close> is the id drawn for the artifact of the
  \<open>i\<close>-th result.
\<close>

section \<open>Persisting a result\<close>

definition mapping_payload :: "string option \<Rightarrow> json_object option" where
  "mapping_payload mapping = map_option (\<lambda>m. [(''ref'', JStr m)]) mapping"

definition switch_status :: "target_status \<Rightarrow> string" where
  "switch_status status =
     (if status = SIMULATED then ''simulated''
      else if status = VERIFIED then ''switched''
      else target_status_value status)"

definition verify_status :: "target_status \<Rightarrow> string" where
  "verify_status status =
     (if status = SIMULATED then ''simulated''
      else if status = VERIFIED then ''verified''
      else target_status_value status)"

definition build_artifact ::
    "uuid \<Rightarrow> datetime \<Rightarrow> publish_job \<Rightarrow> target_result \<Rightarrow> string option \<Rightarrow> publish_artifact result" where
  "build_artifact artifact_id clock job r snapshot_ref =
     (case tr_new_mapping r of
        None \<Rightarrow> Inl (AssertionError '''')
      | Some mapping_ref \<Rightarrow>
          (let verified = (tr_status r = VERIFIED)
           in Inr \<lparr>pa_id = artifact_id, pa_job_id = pj_id job, pa_station_id = tr_station_id r,
                pa_source_dataset = pj_source_dataset job,
                pa_dataset_name = removeprefix ''zvol/'' (removeprefix ''/dev/'' mapping_ref),
                pa_snapshot_ref = (case snapshot_ref of None \<Rightarrow> ''unknown''
                  | Some s \<Rightarrow> if s = [] then ''unknown'' else s),
                pa_mapping_ref = mapping_ref, pa_created_at = clock,
                pa_status = (if verified then ART_CURRENT else ART_RETIRED),
                pa_is_current = verified, pa_deleted_at = None, pa_last_error = None\<rparr>))"

definition resulting_target :: "publish_target \<Rightarrow> target_result \<Rightarrow> publish_target" where
  "resulting_target t r =
     t\<lparr>tg_old_mapping := mapping_payload (tr_old_mapping r),
       tg_new_mapping := mapping_payload (tr_new_mapping r),
       tg_switch_status := Some (switch_status (tr_status r)),
       tg_verify_status := Some (verify_status (tr_status r)),
       tg_error_code := tr_error_code r, tg_error_message := tr_error_message r,
       tg_progress_percent := 100\<rparr>"

definition target_of :: "publish_target list \<Rightarrow> uuid \<Rightarrow> publish_target result" where
  "target_of ts sid =
     (case map_of (rev (map (\<lambda>t. (tg_station_id t, t)) ts)) sid of
        None \<Rightarrow> Inl (KeyError (''UUID('' @ py_repr (uuid_str sid) @ '')''))
      | Some t \<Rightarrow> Inr t)"

definition persist_artifact ::
    "uuid \<Rightarrow> datetime \<Rightarrow> publish_job \<Rightarrow> string option \<Rightarrow> target_result \<Rightarrow> (uow, unit) sx" where
  "persist_artifact artifact_id clock job snapshot_ref r =
     (if \<not> pj_dry_run job \<and> tr_storage_created r
         \<and> (case tr_new_mapping r of None \<Rightarrow> False | Some m \<Rightarrow> m \<noteq> [])
      then bindS (liftR (build_artifact artifact_id clock job r snapshot_ref)) (\<lambda>artifact.
           bindS (sess (artifacts_retire_station_artifacts (pa_station_id artifact) (pa_id artifact)))
             (\<lambda>_. sess (artifacts_save artifact)))
      else returnS ())"

text \<open>One reading of the clock stands for the several of one result.\<close>

definition persist_target ::
    "(nat \<Rightarrow> uuid) \<Rightarrow> datetime \<Rightarrow> publish_job \<Rightarrow> string option \<Rightarrow> publish_target list
     \<Rightarrow> nat \<times> target_result \<Rightarrow> (uow, unit) sx" where
  "persist_target fresh clock job snapshot_ref current_targets = (\<lambda>(i, r).
     bindS (liftR (target_of current_targets (tr_station_id r))) (\<lambda>current_target.
     bindS (liftR (mk_target (resulting_target current_target r))) (\<lambda>updated.
     bindS (sess (targets_update updated)) (\<lambda>_.
     bindS (if \<not> pj_dry_run job \<and> tr_status r = VERIFIED
            then sess (stations_update_last_update (tr_station_id r) clock) else returnS ()) (\<lambda>_.
     persist_artifact (fresh i) clock job snapshot_ref r)))))"

definition persist_body ::
    "(nat \<Rightarrow> uuid) \<Rightarrow> datetime \<Rightarrow> publish_job \<Rightarrow> publish_target list \<Rightarrow> workflow_result \<Rightarrow> (uow, unit) sx" where
  "persist_body fresh clock original_job original_targets res =
     bindS (sess (jobs_get (pj_id original_job))) (\<lambda>current_job.
     case current_job of
       None \<Rightarrow> raiseS (PublishExecutorStateError ''publish job not found while persisting result'')
     | Some _ \<Rightarrow>
         bindS (sess (targets_list_for_job (pj_id original_job))) (\<lambda>current_targets.
         if set (map tg_station_id current_targets) \<noteq> set (map tg_station_id original_targets)
         then raiseS (PublishExecutorStateError ''publish target set changed while worker was running'')
         else
           bindS (forS (persist_target fresh clock original_job (wf_master_mapping res) current_targets)
             (enumerate 0 (wf_targets res))) (\<lambda>_.
           bindS (sess (jobs_update clock (wf_job res))) (\<lambda>_. commit))))"

definition persist_result ::
    "(nat \<Rightarrow> uuid) \<Rightarrow> datetime \<Rightarrow> publish_job \<Rightarrow> publish_target list \<Rightarrow> workflow_result \<Rightarrow> (db, unit) sx" where
  "persist_result fresh clock original_job original_targets res =
     with_uow (persist_body fresh clock original_job original_targets res)"

section \<open>The executors\<close>

text \<open>The guards both executors share; \<open>run\<close> is the part that differs.\<close>

definition guarded_execute ::
    "publish_job \<Rightarrow> publish_target list \<Rightarrow> uuid \<Rightarrow> (publish_target list \<Rightarrow> ('s, unit) sx) \<Rightarrow> ('s, unit) sx" where
  "guarded_execute job targets correlation_id run =
     (if pj_correlation_id job \<noteq> correlation_id
      then raiseS (PublishExecutorStateError ''executor correlation ID does not match job'')
      else if job_status_value (pj_status job) \<in> {''completed'', ''partial_failure'', ''failed''}
      then returnS ()
      else (let selected_targets = filter tg_selected targets
            in if selected_targets = []
               then raiseS (PublishExecutorStateError ''at least one selected target is required'')
               else run selected_targets))"

definition fake_task_execute ::
    "'s storage_adapter \<Rightarrow> (nat \<Rightarrow> uuid) \<Rightarrow> datetime \<Rightarrow> publish_job \<Rightarrow> publish_target list \<Rightarrow> uuid
     \<Rightarrow> (db \<times> 's, unit) sx" where
  "fake_task_execute A fresh clock job targets correlation_id =
     guarded_execute job targets correlation_id (\<lambda>selected_targets.
       bindS (on_ext (fake_execute A job (map tg_station_id selected_targets)
                (pj_client_confirmation job = Some True))) (\<lambda>res.
       on_db (persist_result fresh clock job targets res)))"

definition load_station :: "uuid \<Rightarrow> (uow, station) sx" where
  "load_station sid =
     bindS (sess (stations_get sid)) (\<lambda>found.
     case found of
       None \<Rightarrow> raiseS (PublishExecutorStateError (''station not found: '' @ uuid_str sid))
     | Some st \<Rightarrow> returnS st)"

definition load_stations :: "publish_target list \<Rightarrow> (db, station list) sx" where
  "load_stations targets = with_uow (mapS (\<lambda>t. load_station (tg_station_id t)) targets)"

definition truenas_task_execute ::
    "'s truenas_client \<Rightarrow> (nat \<Rightarrow> uuid) \<Rightarrow> datetime \<Rightarrow> publish_job \<Rightarrow> publish_target list \<Rightarrow> uuid
     \<Rightarrow> (db \<times> 's, unit) sx" where
  "truenas_task_execute C fresh clock job targets correlation_id =
     guarded_execute job targets correlation_id (\<lambda>selected_targets.
       bindS (on_db (load_stations selected_targets)) (\<lambda>sts.
       bindS (on_ext (finallyS (truenas_execute C job sts (pj_client_confirmation job = Some True))
                (bindS (tc_close_read C) (\<lambda>_. tc_close_write C)))) (\<lambda>res.
       on_db (persist_result fresh clock job targets res))))"

section \<open>The task handler\<close>

record task_payload =
  tp_job_id :: uuid
  tp_correlation_id :: uuid
  tp_idempotency_key :: string

definition validate_payload :: "publish_job \<Rightarrow> task_payload \<Rightarrow> unit result" where
  "validate_payload job payload =
     (if pj_idempotency_key job \<noteq> tp_idempotency_key payload
      then Inl (PublishTaskStateError ''task idempotency key does not match publish job'')
      else if pj_correlation_id job \<noteq> tp_correlation_id payload
      then Inl (PublishTaskStateError ''task correlation ID does not match publish job'')
      else Inr ())"

definition load_task :: "task_payload \<Rightarrow> (db, publish_job \<times> publish_target list) sx" where
  "load_task payload =
     with_uow
       (bindS (sess (jobs_get (tp_job_id payload))) (\<lambda>found.
        case found of
          None \<Rightarrow> raiseS (PublishTaskStateError ''publish job not found'')
        | Some job \<Rightarrow>
            bindS (liftR (validate_payload job payload)) (\<lambda>_.
            bindS (sess (targets_list_for_job (pj_id job))) (\<lambda>targets.
            returnS (job, targets)))))"

definition handle_publish_task ::
    "(publish_job \<Rightarrow> publish_target list \<Rightarrow> uuid \<Rightarrow> (db \<times> 's, unit) sx) \<Rightarrow> task_payload
     \<Rightarrow> (db \<times> 's, unit) sx" where
  "handle_publish_task executor payload =
     bindS (on_db (load_task payload)) (\<lambda>(job, targets).
       executor job targets (tp_correlation_id payload))"

section \<open>Constraints\<close>

lemma persist_keeps [keeps_intros]:
  "keeps integrity (persist_result fresh clock job ts res)"
  "keeps integrity (load_stations ts)" "keeps integrity (load_task payload)"
  unfolding persist_result_def persist_body_def persist_target_def persist_artifact_def
    load_stations_def load_station_def load_task_def split_def
  by (intro keeps_intros)+

end
