(* ===== verification/Artifact_Facts.thy ===== *)
theory Artifact_Facts
  imports Publish_Repo
begin

text \<open>
  Facts about the artifact table that the retention and inventory proofs share.
\<close>

text \<open>An update that keeps the keys of the artifacts keeps every constraint.\<close>

lemma integrity_map_artifacts:
  assumes "integrity d" and "\<And>r. pa_id (g r) = pa_id r" and "\<And>r. pa_job_id (g r) = pa_job_id r"
    and "\<And>r. pa_station_id (g r) = pa_station_id r"
  shows "integrity (d\<lparr>publish_artifacts := map g (publish_artifacts d)\<rparr>)"
proof -
  have "pa_id \<circ> g = pa_id" "(\<lambda>a. (pa_job_id a, pa_station_id a)) \<circ> g = (\<lambda>a. (pa_job_id a, pa_station_id a))"
    using assms(2-4) by (simp_all add: comp_def)
  moreover have "pa_job_id ` g ` A = pa_job_id ` A" "pa_station_id ` g ` A = pa_station_id ` A" for A
    using assms(3,4) by (simp_all add: image_image)
  ultimately show ?thesis using assms(1) by (simp add: integrity_def constraint_defs)
qed

lemma artifact_to_domain_sels [simp]:
  "pa_id (artifact_to_domain r) = pa_id r" "pa_station_id (artifact_to_domain r) = pa_station_id r"
  "pa_dataset_name (artifact_to_domain r) = pa_dataset_name r"
  "pa_is_current (artifact_to_domain r) = pa_is_current r"
  "pa_status (artifact_to_domain r) = pa_status r"
  "pa_mapping_ref (artifact_to_domain r) = pa_mapping_ref r"
  "pa_deleted_at (artifact_to_domain r) = None \<longleftrightarrow> pa_deleted_at r = None"
  "pa_last_error (artifact_to_domain r) = pa_last_error r"
  by (simp_all add: artifact_to_domain_def)

lemma map_artifact_ids: "map pa_id (map artifact_to_domain rs) = map pa_id rs"
  by simp

lemma list_all2_same_map: "list_all2 (\<lambda>x y. f x = f y) xs ys \<Longrightarrow> map f ys = map f xs"
  by (induction rule: list_all2_induct) auto

text \<open>Sorting by a key that an update keeps.\<close>

lemma order_by_map:
  assumes "\<And>x. key (g x) = key x"
  shows "order_by key (map g xs) = map g (order_by key xs)"
proof -
  have "insort_key key (g x) (map g ys) = map g (insort_key key x ys)" for x ys
    by (induction ys) (simp_all add: assms)
  then show ?thesis by (induction xs) (simp_all add: order_by_def)
qed

end
