(* ===== verification/Db_Frames.thy ===== *)
theory Db_Frames
  imports Tables Py_Hoare
begin

text \<open>
  Conditions on the tables that a unit of work keeps, committed or rolled back, because every
  operation of its session keeps them.
\<close>

definition both :: "(db \<Rightarrow> bool) \<Rightarrow> uow \<Rightarrow> bool" where
  "both P u \<longleftrightarrow> P (committed u) \<and> P (session u)"

lemma keeps_both_sess: "keeps P m \<Longrightarrow> keeps (both P) (sess m)"
  unfolding keeps_def both_def sess_def by (auto split: prod.split)

lemma keeps_both_commit: "keeps (both P) commit"
  by (simp add: keeps_def both_def commit_def)

lemma keeps_both_uow: "keeps (both P) body \<Longrightarrow> keeps P (with_uow body)"
  unfolding keeps_def both_def with_uow_def
  by (metis (mono_tags, lifting) case_prod_beta snd_conv uow.select_convs)

lemma keeps_lift_then: "(\<And>x. r = Inr x \<Longrightarrow> keeps P (f x)) \<Longrightarrow> keeps P (bindS (liftR r) f)"
  by (cases r) (simp_all add: keeps_def bindS_def liftR_def)

text \<open>For the bodies of units of work, in the order to try them.\<close>

lemmas keeps_body = keeps_let keeps_if keeps_lift_then keeps_both_uow keeps_bind keeps_both_sess keeps_both_commit
  keeps_option keeps_return keeps_raise keeps_prod

lemma keeps_try: "keeps P m \<Longrightarrow> keeps P (tryS m)"
  by (auto simp: keeps_def tryS_def split: prod.split)

section \<open>Postconditions of transactions\<close>

lemma after_sess [after_simps]:
  "after (sess m) Q E u =
     after m (\<lambda>x d. Q x (u\<lparr>session := d\<rparr>)) (\<lambda>e d. E e (u\<lparr>session := d\<rparr>)) (session u)"
  by (simp add: after_def sess_def split: sum.split prod.split)

lemma sess_Inr_iff: "sess m u = (Inr x, v) \<longleftrightarrow> (\<exists>d. m (session u) = (Inr x, d) \<and> v = u\<lparr>session := d\<rparr>)"
  by (auto simp: sess_def split: prod.splits)

lemma after_commit [after_simps]:
  "after commit Q E u =
     (if integrity (session u) then Q () (u\<lparr>committed := session u\<rparr>)
      else E (IntegrityError ''constraint failed'') u)"
  by (simp add: after_def commit_def)

lemma after_with_uow [after_simps]:
  "after (with_uow body) Q E d =
     after body (\<lambda>x u. Q x (committed u)) (\<lambda>e u. E e (committed u)) \<lparr>committed = d, session = d\<rparr>"
  by (simp add: after_def with_uow_def split: sum.split prod.split)

lemma after_let [after_simps]: "after (let x = v in f x) Q E s = after (f v) Q E s"
  by (simp add: Let_def)

lemma after_always: "after m (\<lambda>_. P) (\<lambda>_. P) s \<Longrightarrow> P (snd (m s))"
  by (simp add: after_def split: prod.splits sum.splits)

end
