(* ===== verification/Executor_Facts.thy ===== *)
theory Executor_Facts
  imports Publish_Executor Artifact_Facts Db_Frames
begin

text \<open>
  What persisting a publish result does to the tables: the invariant of its loop over the results,
  and the row of the job afterwards.
\<close>

lemma after_forS_index:
  assumes "\<And>i x s. i < n + length xs \<Longrightarrow> I i s \<Longrightarrow> after (f (i, x)) (\<lambda>_. I (Suc i)) E s" and "I n s"
  shows "after (forS f (enumerate n xs)) (\<lambda>_. I (n + length xs)) E s"
  using assms
proof (induction xs arbitrary: n s)
  case (Cons x xs)
  have "after (forS f (enumerate (Suc n) xs)) (\<lambda>_. I (n + length (x # xs))) E t" if "I (Suc n) t" for t
    using Cons.IH [OF Cons.prems(1) that] by simp
  moreover have "after (f (n, x)) (\<lambda>_. I (Suc n)) E s" using Cons.prems by simp
  ultimately show ?case
    unfolding enumerate_simps forS.simps after_bind by (auto elim!: after_mono)
qed (simp add: after_simps)

section \<open>Saving the artifact of a station\<close>

lemma save_current_ok:
  assumes "current_ok d" and "\<And>r. r \<in> set (publish_artifacts d) \<Longrightarrow>
      pa_station_id r = pa_station_id a \<Longrightarrow> \<not> pa_is_current r"
    and "pa_status a \<noteq> ART_DELETED" and "distinct (map pa_id (publish_artifacts d))"
  shows "current_ok (snd (artifacts_save a d))"
proof (cases "find (\<lambda>r. pa_job_id r = pa_job_id a \<and> pa_station_id r = pa_station_id a) (publish_artifacts d)")
  case None
  with assms show ?thesis by (auto simp: artifacts_save_def current_ok_def intro!: artifacts_ok_append)
next
  case (Some x)
  from find_SomeD [OF Some] have x: "x \<in> set (publish_artifacts d)" "pa_station_id x = pa_station_id a" by auto
  have "artifacts_ok (update_where (\<lambda>r. pa_id r = pa_id x) (saved_artifact_row a) (publish_artifacts d))"
  proof (rule artifacts_ok_replace [OF assms(1) [unfolded current_ok_def] assms(2)])
    fix r assume "r \<in> set (publish_artifacts d)" "pa_id r = pa_id x"
    with distinct_map_eq_iff [OF assms(4)] x show "pa_station_id r = pa_station_id a" by metis
  qed (use assms(3) in \<open>simp_all add: saved_artifact_row_def\<close>)
  with Some show ?thesis by (simp add: artifacts_save_def current_ok_def)
qed

lemma save_ids:
  "pa_id ` set (publish_artifacts (snd (artifacts_save a d))) \<subseteq>
     insert (pa_id a) (pa_id ` set (publish_artifacts d))
   \<and> (distinct (map pa_id (publish_artifacts d)) \<longrightarrow> pa_id a \<notin> pa_id ` set (publish_artifacts d) \<longrightarrow>
     distinct (map pa_id (publish_artifacts (snd (artifacts_save a d)))))"
proof (cases "find (\<lambda>r. pa_job_id r = pa_job_id a \<and> pa_station_id r = pa_station_id a) (publish_artifacts d)")
  case (Some x)
  have keys: "map pa_id (update_where P (saved_artifact_row a) rows) = map pa_id rows" for P rows
    by (rule map_update_where) (simp add: saved_artifact_row_def)
  then have "pa_id ` set (update_where P (saved_artifact_row a) rows) = pa_id ` set rows" for P rows
    by (metis list.set_map)
  with keys Some show ?thesis by (auto simp: artifacts_save_def)
qed (auto simp: artifacts_save_def)

section \<open>The loop\<close>

text \<open>Before the \<open>i\<close>-th result: the jobs are as they were, stored progress is in range, each station
  has at most one current artifact, and the ids still to be drawn are new.\<close>

definition persisting :: "(nat \<Rightarrow> uuid) \<Rightarrow> nat \<Rightarrow> db \<Rightarrow> nat \<Rightarrow> uow \<Rightarrow> bool" where
  "persisting fresh n d i u \<longleftrightarrow>
     committed u = d \<and> publish_jobs (session u) = publish_jobs d \<and> targets_readable (session u)
     \<and> current_ok (session u) \<and> distinct (map pa_id (publish_artifacts (session u)))
     \<and> (\<forall>j. i \<le> j \<and> j < n \<longrightarrow> fresh j \<notin> pa_id ` set (publish_artifacts (session u)))"

lemma targets_update_after:
  assumes "persisting fresh n d i u" and "0 \<le> tg_progress_percent t" and "tg_progress_percent t \<le> 100"
  shows "after (sess (targets_update t)) (\<lambda>_. persisting fresh n d i) (\<lambda>_ v. committed v = d) u"
  using assms
  by (auto simp: after_def sess_def targets_update_def persisting_def targets_readable_def
      current_ok_def set_update_where split: option.split)

lemma station_update_after:
  assumes "persisting fresh n d i u"
  shows "after (sess (stations_update_last_update sid t)) (\<lambda>_. persisting fresh n d i)
    (\<lambda>_ v. committed v = d) u"
  using assms
  by (auto simp: after_def sess_def stations_update_last_update_def persisting_def
      targets_readable_def current_ok_def set_station_def split: option.split)

lemma persist_artifact_after:
  assumes "persisting fresh n d i u" and "inj_on fresh {..<n}" and "i < n"
  shows "after (persist_artifact (fresh i) clock job ref r) (\<lambda>_. persisting fresh n d (Suc i))
    (\<lambda>_ v. committed v = d) u"
proof -
  have skip: "persisting fresh n d (Suc i) u" "committed u = d" using assms(1) by (auto simp: persisting_def)
  have save: "after (sess (artifacts_retire_station_artifacts (pa_station_id a) (pa_id a)))
      (\<lambda>_. after (sess (artifacts_save a)) (\<lambda>_. persisting fresh n d (Suc i)) (\<lambda>_ v. committed v = d))
      (\<lambda>_ v. committed v = d) u"
    if a: "pa_id a = fresh i" "pa_status a \<noteq> ART_DELETED" for a
  proof -
    define d1 where "d1 = snd (artifacts_retire_station_artifacts (pa_station_id a) (pa_id a) (session u))"
    define d2 where "d2 = snd (artifacts_save a d1)"
    have rows: "map pa_id (publish_artifacts d1) = map pa_id (publish_artifacts (session u))"
      unfolding d1_def artifacts_retire_station_artifacts_def by (simp add: map_update_where)
    then have ids: "pa_id ` set (publish_artifacts d1) = pa_id ` set (publish_artifacts (session u))"
      by (metis list.set_map)
    have frame: "publish_jobs d1 = publish_jobs (session u)" "publish_targets d1 = publish_targets (session u)"
      "publish_jobs d2 = publish_jobs (session u)" "publish_targets d2 = publish_targets (session u)"
      by (simp_all add: d1_def d2_def artifacts_retire_station_artifacts_def artifacts_save_def
          split: option.split)
    from assms(1) have new: "fresh j \<notin> pa_id ` set (publish_artifacts d1)" if "i \<le> j" "j < n" for j
      using that by (simp add: persisting_def ids)
    have dist: "distinct (map pa_id (publish_artifacts d1))" using assms(1) by (simp add: rows persisting_def)
    have ok1: "current_ok d1" using assms(1) retire_current_ok by (simp add: persisting_def d1_def)
    have none: "\<not> pa_is_current x" if "x \<in> set (publish_artifacts d1)" "pa_station_id x = pa_station_id a" for x
      using retired_none_current [OF _ that(1) [unfolded d1_def] that(2)] new [of i] assms(3) ids a(1) by simp
    have "current_ok d2" unfolding d2_def by (rule save_current_ok [OF ok1 none a(2) dist])
    moreover have "distinct (map pa_id (publish_artifacts d2))"
      unfolding d2_def using save_ids [of a d1] dist new [of i] assms(3) a(1) by simp
    moreover have "fresh j \<notin> pa_id ` set (publish_artifacts d2)" if "Suc i \<le> j" "j < n" for j
      using save_ids [of a d1] new [of j] a(1) that inj_onD [OF assms(2), of j i] assms(3) unfolding d2_def by auto
    ultimately have "persisting fresh n d (Suc i) (u\<lparr>session := d2\<rparr>)"
      using assms(1) frame by (auto simp: persisting_def targets_readable_def)
    moreover have "artifacts_retire_station_artifacts (pa_station_id a) (pa_id a) (session u) = (Inr (), d1)"
      "artifacts_save a d1 = (Inr (), d2)"
      by (simp_all add: d1_def d2_def artifacts_retire_station_artifacts_def artifacts_save_def
          split: option.split)
    ultimately show ?thesis by (simp add: after_def sess_def)
  qed
  show ?thesis
  proof (cases "tr_new_mapping r")
    case (Some m)
    have "build_artifact (fresh i) clock job r ref = Inr a \<Longrightarrow> pa_id a = fresh i \<and> pa_status a \<noteq> ART_DELETED" for a
      by (auto simp: build_artifact_def Some Let_def split: if_splits)
    with save skip show ?thesis
      by (auto simp: persist_artifact_def after_bind after_lift after_return split: sum.split)
  qed (use skip in \<open>simp add: persist_artifact_def after_return\<close>)
qed

lemma persist_target_after:
  assumes "persisting fresh n d i u" and "inj_on fresh {..<n}" and "i < n"
  shows "after (persist_target fresh clock job ref cts (i, r)) (\<lambda>_. persisting fresh n d (Suc i))
    (\<lambda>_ v. committed v = d) u"
proof -
  have fail: "committed u = d" using assms(1) by (simp add: persisting_def)
  have art: "after (persist_artifact (fresh i) clock job ref r) (\<lambda>_. persisting fresh n d (Suc i))
      (\<lambda>_ v. committed v = d) v" if "persisting fresh n d i v" for v
    by (rule persist_artifact_after [OF that assms(2,3)])
  have touch: "after (if \<not> pj_dry_run job \<and> tr_status r = VERIFIED
        then sess (stations_update_last_update (tr_station_id r) clock) else returnS ())
      (\<lambda>_. after (persist_artifact (fresh i) clock job ref r) (\<lambda>_. persisting fresh n d (Suc i))
        (\<lambda>_ v. committed v = d)) (\<lambda>_ v. committed v = d) v" if "persisting fresh n d i v" for v
    using art that after_mono [OF station_update_after [OF that]] by (auto simp: after_return)
  have "after (sess (targets_update t)) (\<lambda>_. after (bindS (if \<not> pj_dry_run job \<and> tr_status r = VERIFIED
        then sess (stations_update_last_update (tr_station_id r) clock) else returnS ())
        (\<lambda>_. persist_artifact (fresh i) clock job ref r)) (\<lambda>_. persisting fresh n d (Suc i))
        (\<lambda>_ v. committed v = d)) (\<lambda>_ v. committed v = d) u"
    if "mk_target x = Inr t" for x t
    unfolding after_bind
    by (rule after_mono [OF targets_update_after [OF assms(1)]])
      (use that touch in \<open>auto simp: mk_target_Inr_iff\<close>)
  with fail show ?thesis
    by (auto simp: persist_target_def after_bind [of "liftR _"] after_lift
        after_bind [of "sess (targets_update _)"] split: sum.split)
qed

lemma persist_result_after:
  assumes "current_ok d" and "targets_readable d" and "distinct (map pa_id (publish_artifacts d))"
    and "inj_on fresh {..<length (wf_targets res)}"
    and "\<forall>i < length (wf_targets res). fresh i \<notin> pa_id ` set (publish_artifacts d)"
  shows "after (persist_result fresh clock job ts res) (\<lambda>_ d'. integrity d' \<and> current_ok d')
    (\<lambda>_ d'. d' = d) d"
proof -
  let ?u = "\<lparr>committed = d, session = d\<rparr>"
  let ?n = "length (wf_targets res)"
  have start: "persisting fresh ?n d 0 ?u" using assms by (simp add: persisting_def)
  have loop: "after (forS (persist_target fresh clock job ref cts) (enumerate 0 (wf_targets res)))
      (\<lambda>_. persisting fresh ?n d (0 + ?n)) (\<lambda>_ v. committed v = d) ?u" for ref cts
    by (rule after_forS_index [OF persist_target_after [OF _ assms(4)] start]) simp_all
  have finish: "after (sess (jobs_update clock (wf_job res))) (\<lambda>_. after commit
        (\<lambda>_ u. integrity (committed u) \<and> current_ok (committed u)) (\<lambda>_ u. committed u = d))
      (\<lambda>_ u. committed u = d) v" if "persisting fresh ?n d i v" for i v
    using that by (auto simp: after_def sess_def jobs_update_eq commit_def persisting_def set_job_def
        current_ok_def split: option.split)
  have jobs: "jobs_get i d = (Inr (map_option row_job (job_by d i)), d)" for i by (simp add: jobs_get_apply)
  have targets: "\<exists>r. targets_list_for_job i d = (r, d)" for i by (simp add: targets_list_for_job_def)
  have "after (bindS (forS (persist_target fresh clock job ref cts) (enumerate 0 (wf_targets res))) (\<lambda>_.
        bindS (sess (jobs_update clock (wf_job res))) (\<lambda>_. commit)))
      (\<lambda>_ u. integrity (committed u) \<and> current_ok (committed u)) (\<lambda>_ u. committed u = d) ?u" for ref cts
    unfolding after_bind by (rule after_mono [OF loop]) (use finish in auto)
  then show ?thesis
    using targets [of "pj_id job"]
    by (auto simp: persist_result_def after_with_uow persist_body_def after_bind [of "sess _"] after_sess
        after_def [of "jobs_get _"] after_def [of "targets_list_for_job _"] jobs after_raise
        split: option.split sum.split)
qed

section \<open>The job afterwards\<close>

text \<open>Nothing but the last step writes a job.\<close>

lemma keeps_bind_lift:
  "(\<And>x. r = Inr x \<Longrightarrow> keeps P (f x)) \<Longrightarrow> keeps P (bindS (liftR r) f)"
  by (cases r) (simp_all add: keeps_def bindS_def liftR_def)

lemma keeps_sess_frame: "keeps Q m \<Longrightarrow> keeps (\<lambda>u. committed u = d \<and> Q (session u)) (sess m)"
  by (simp add: keeps_def sess_def split: prod.split) (metis snd_conv)

definition jobs_frame :: "job_row list \<Rightarrow> db \<Rightarrow> bool" where
  "jobs_frame js d \<longleftrightarrow> publish_jobs d = js \<and> targets_readable d"

lemma jobs_frame_writes:
  "0 \<le> tg_progress_percent t \<Longrightarrow> tg_progress_percent t \<le> 100 \<Longrightarrow> keeps (jobs_frame js) (targets_update t)"
  "keeps (jobs_frame js) (stations_update_last_update sid now)"
  "keeps (jobs_frame js) (artifacts_retire_station_artifacts sid aid)"
  "keeps (jobs_frame js) (artifacts_save a)"
  by (auto simp: keeps_def jobs_frame_def targets_readable_def targets_update_def set_update_where
      stations_update_last_update_def set_station_def artifacts_retire_station_artifacts_def
      artifacts_save_def split: option.split)

lemma keeps_persist_target:
  "keeps (\<lambda>u. committed u = d \<and> jobs_frame js (session u)) (persist_target fresh clock job ref cts p)"
proof -
  obtain i r where p: "p = (i, r)" by fastforce
  have art: "keeps (\<lambda>u. committed u = d \<and> jobs_frame js (session u)) (persist_artifact i clock job ref r)" for i
    unfolding persist_artifact_def
    by (intro keeps_if keeps_bind_lift keeps_bind keeps_sess_frame jobs_frame_writes keeps_return)
  show ?thesis
    unfolding persist_target_def p prod.case
    by (intro keeps_bind_lift)
      (auto simp: mk_target_Inr_iff intro!: keeps_bind keeps_sess_frame jobs_frame_writes keeps_return art)
qed

lemma keeps_after: "keeps P m \<Longrightarrow> P s \<Longrightarrow> after m (\<lambda>_. P) (\<lambda>_. P) s"
  using keepsD [of P m s] by (auto simp: after_def split: sum.split prod.split)

lemma job_by_cong: "publish_jobs d' = publish_jobs d \<Longrightarrow> job_by d' i = job_by d i"
  by (simp add: job_by_def)

lemma persist_result_Inr:
  assumes "targets_readable d" and "persist_result fresh clock job ts res d = (Inr (), d')"
  shows "integrity d' \<and> targets_readable d' \<and> publish_jobs d' = publish_jobs (set_job clock (wf_job res) d)
    \<and> job_by d (pj_id (wf_job res)) \<noteq> None"
proof -
  let ?Q = "\<lambda>d'. integrity d' \<and> targets_readable d'
    \<and> publish_jobs d' = publish_jobs (set_job clock (wf_job res) d) \<and> job_by d (pj_id (wf_job res)) \<noteq> None"
  let ?u = "\<lparr>committed = d, session = d\<rparr>" and ?P = "\<lambda>u. committed u = d \<and> jobs_frame (publish_jobs d) (session u)"
  have start: "?P ?u" using assms(1) by (simp add: jobs_frame_def)
  have "keeps ?P (forS (persist_target fresh clock job ref cts) rs)" for ref cts rs
    by (intro keeps_forS keeps_persist_target)
  from keeps_after [OF this start]
  have loop: "after (forS (persist_target fresh clock job ref cts) rs) (\<lambda>_. ?P) (\<lambda>_ _. True) ?u" for ref cts rs
    by (rule after_mono) simp_all
  have finish: "after (sess (jobs_update clock (wf_job res))) (\<lambda>_. after commit (\<lambda>_ u. ?Q (committed u))
      (\<lambda>_ _. True)) (\<lambda>_ _. True) v" if "?P v" for v
    using that job_by_cong [of "session v" d]
    by (auto simp: after_def sess_def jobs_update_eq commit_def jobs_frame_def set_job_def
        targets_readable_def split: option.split)
  have "after (bindS (forS (persist_target fresh clock job ref cts) (enumerate 0 (wf_targets res))) (\<lambda>_.
        bindS (sess (jobs_update clock (wf_job res))) (\<lambda>_. commit))) (\<lambda>_ u. ?Q (committed u)) (\<lambda>_ _. True) ?u"
    for ref cts
    unfolding after_bind by (rule after_mono [OF loop]) (use finish in auto)
  moreover have "\<exists>r. targets_list_for_job (pj_id job) d = (r, d)" by (simp add: targets_list_for_job_def)
  ultimately have "after (persist_result fresh clock job ts res) (\<lambda>_. ?Q) (\<lambda>_ _. True) d"
    by (auto simp: persist_result_def after_with_uow persist_body_def after_bind [of "sess _"] after_sess
        after_def [of "jobs_get _"] after_def [of "targets_list_for_job _"] jobs_get_apply after_raise
        split: option.split sum.split)
  from after_Inr [OF this assms(2)] show ?thesis .
qed

end
