(* ===== verification/Dataset_Cleanup.thy ===== *)
theory Dataset_Cleanup
  imports Publish_Repo TrueNAS_Workflow
begin

text \<open>
  \<open>application/dataset_cleanup.py\<close> with its worker boundary, \<open>DatasetCleanupApplicationHandler\<close> of
  \<open>worker/composition.py\<close>: one retention pass over the database and the write client.
\<close>

section \<open>Configuration\<close>

record cleanup_config =
  cc_retention_days :: int
  cc_batch_size :: int
  cc_apply_enabled :: bool

definition cleanup_use_case :: "int \<Rightarrow> int \<Rightarrow> bool \<Rightarrow> cleanup_config result" where
  "cleanup_use_case retention_days batch_size apply_enabled =
     (if retention_days < 1 then Inl (ValueError ''retention_days must be positive'')
      else if batch_size < 1 then Inl (ValueError ''batch_size must be positive'')
      else Inr \<lparr>cc_retention_days = retention_days, cc_batch_size = batch_size,
                 cc_apply_enabled = apply_enabled\<rparr>)"

record cleanup_result =
  cr_inspected :: nat
  cr_deleted :: nat
  cr_failed :: nat
  cr_dry_run :: bool

section \<open>One pass\<close>

definition selected_candidate :: "publish_artifact \<Rightarrow> bool" where
  "selected_candidate a =
     (\<not> pa_is_current a \<and> pa_deleted_at a = None \<and> pa_status a \<in> {ART_RETIRED, ART_CLEANUP_FAILED})"

definition cleanup_candidates ::
    "cleanup_config \<Rightarrow> uuid list option \<Rightarrow> datetime \<Rightarrow> (db, publish_artifact list) sx" where
  "cleanup_candidates cfg artifact_ids current_time =
     (let cutoff = dt_plus current_time (- days (cc_retention_days cfg))
      in with_uow
        (case artifact_ids of
           None \<Rightarrow> sess (artifacts_list_cleanup_candidates cutoff (cc_batch_size cfg))
         | Some ids \<Rightarrow>
             bindS (sess (artifacts_list_by_ids ids)) (\<lambda>selected.
             returnS (filter selected_candidate selected))))"

definition mark_deleted :: "publish_artifact \<Rightarrow> datetime \<Rightarrow> (db, unit) sx" where
  "mark_deleted artifact deleted_at =
     with_uow (bindS (sess (artifacts_mark_deleted (pa_id artifact) deleted_at)) (\<lambda>_. commit))"

definition mark_failed :: "publish_artifact \<Rightarrow> exn \<Rightarrow> (db, unit) sx" where
  "mark_failed artifact error =
     with_uow (bindS (sess (artifacts_mark_cleanup_failed (pa_id artifact) (error_detail error)))
       (\<lambda>_. commit))"

definition clean_artifact ::
    "(string \<Rightarrow> ('s, unit) sx) \<Rightarrow> datetime \<Rightarrow> nat \<times> nat \<Rightarrow> publish_artifact
     \<Rightarrow> (db \<times> 's, nat \<times> nat) sx" where
  "clean_artifact delete_dataset current_time = (\<lambda>(deleted, failed) artifact.
     bindS (tryS (on_ext (delete_dataset (pa_dataset_name artifact)))) (\<lambda>outcome.
     case outcome of
       Inl error \<Rightarrow>
         bindS (on_db (mark_failed artifact error)) (\<lambda>_. returnS (deleted, failed + 1))
     | Inr _ \<Rightarrow>
         bindS (on_db (mark_deleted artifact current_time)) (\<lambda>_. returnS (deleted + 1, failed))))"

definition cleanup_datasets ::
    "cleanup_config \<Rightarrow> (string \<Rightarrow> ('s, unit) sx) option \<Rightarrow> uuid list option \<Rightarrow> datetime
     \<Rightarrow> (db \<times> 's, cleanup_result) sx" where
  "cleanup_datasets cfg delete_dataset artifact_ids current_time =
     bindS (on_db (cleanup_candidates cfg artifact_ids current_time)) (\<lambda>candidates.
     if \<not> cc_apply_enabled cfg
     then returnS \<lparr>cr_inspected = length candidates, cr_deleted = 0, cr_failed = 0, cr_dry_run = True\<rparr>
     else
       (case delete_dataset of
          None \<Rightarrow> raiseS (ValueError ''write_client is required when dataset cleanup is enabled'')
        | Some delete \<Rightarrow>
            bindS (foldS (clean_artifact delete current_time) (0, 0) candidates) (\<lambda>(deleted, failed).
            returnS \<lparr>cr_inspected = length candidates, cr_deleted = deleted, cr_failed = failed,
                     cr_dry_run = False\<rparr>)))"

section \<open>The worker boundary\<close>

text \<open>The counts go to the log only; \<open>artifact_ids or None\<close> turns the empty tuple into a whole pass.\<close>

definition handle_cleanup ::
    "int \<Rightarrow> int \<Rightarrow> bool \<Rightarrow> ('s, 's truenas_client) sx option \<Rightarrow> datetime \<Rightarrow> uuid list
     \<Rightarrow> (db \<times> 's, unit) sx" where
  "handle_cleanup retention_days batch_size apply_enabled write_factory now artifact_ids =
     bindS (if apply_enabled
            then (case write_factory of
                    None \<Rightarrow> raiseS (ValueError
                      ''TrueNAS write client factory is required for cleanup apply'')
                  | Some connect \<Rightarrow> bindS (on_ext connect) (\<lambda>client. returnS (Some client)))
            else returnS None) (\<lambda>write_client.
     finallyS
       (bindS (liftR (cleanup_use_case retention_days batch_size apply_enabled)) (\<lambda>cfg.
        bindS (cleanup_datasets cfg (map_option tc_delete_dataset write_client)
                 (if artifact_ids = [] then None else Some artifact_ids) now) (\<lambda>_.
        returnS ())))
       (case write_client of None \<Rightarrow> returnS () | Some client \<Rightarrow> on_ext (tc_close_write client)))"

end
