(* ===== verification/Cleanup_Properties.thy ===== *)
theory Cleanup_Properties
  imports Artifact_Facts Dataset_Cleanup Samples
begin

text \<open>
  What a retention pass does to the records and to the storage, for every write client, and what it
  does to a dataset that two records share.
\<close>

section \<open>Writing one outcome\<close>

definition deleted_artifact :: "datetime \<Rightarrow> artifact_row \<Rightarrow> artifact_row" where
  "deleted_artifact t r =
     r\<lparr>pa_status := ART_DELETED, pa_is_current := False, pa_deleted_at := Some t,
       pa_last_error := None\<rparr>"

definition failed_artifact :: "string \<Rightarrow> artifact_row \<Rightarrow> artifact_row" where
  "failed_artifact e r =
     r\<lparr>pa_status := ART_CLEANUP_FAILED, pa_last_error := Some (take 1000 (join_with '' '' (py_split e)))\<rparr>"

definition set_artifact :: "uuid \<Rightarrow> (artifact_row \<Rightarrow> artifact_row) \<Rightarrow> db \<Rightarrow> db" where
  "set_artifact i f d =
     d\<lparr>publish_artifacts := update_where (\<lambda>r. pa_id r = i) f (publish_artifacts d)\<rparr>"

lemma artifact_marks [simp]:
  "pa_id (deleted_artifact t r) = pa_id r" "pa_id (failed_artifact e r) = pa_id r"
  "pa_job_id (deleted_artifact t r) = pa_job_id r" "pa_job_id (failed_artifact e r) = pa_job_id r"
  "pa_station_id (deleted_artifact t r) = pa_station_id r"
  "pa_station_id (failed_artifact e r) = pa_station_id r"
  "pa_status (deleted_artifact t r) = ART_DELETED"
  "pa_status (failed_artifact e r) = ART_CLEANUP_FAILED"
  "pa_is_current (deleted_artifact t r) = False"
  "pa_is_current (failed_artifact e r) = pa_is_current r"
  "pa_dataset_name (deleted_artifact t r) = pa_dataset_name r"
  "pa_dataset_name (failed_artifact e r) = pa_dataset_name r"
  by (simp_all add: deleted_artifact_def failed_artifact_def)

lemma integrity_set_artifact:
  assumes "integrity d" and "\<And>r. pa_id (f r) = pa_id r" and "\<And>r. pa_job_id (f r) = pa_job_id r"
    and "\<And>r. pa_station_id (f r) = pa_station_id r"
  shows "integrity (set_artifact i f d)"
  unfolding set_artifact_def update_where_def
  by (rule integrity_map_artifacts [OF assms(1)]) (use assms(2-4) in auto)

lemma mark_outcome:
  assumes "integrity d" and "pa_id a \<in> pa_id ` set (publish_artifacts d)"
  shows "mark_deleted a t d = (Inr (), set_artifact (pa_id a) (deleted_artifact t) d)"
    and "mark_failed a e d = (Inr (), set_artifact (pa_id a) (failed_artifact (error_detail e)) d)"
proof -
  from assms(2) obtain r where r: "find (\<lambda>r. pa_id r = pa_id a) (publish_artifacts d) = Some r"
    by (cases "find (\<lambda>r. pa_id r = pa_id a) (publish_artifacts d)") (auto simp: find_None_iff)
  have "artifacts_mark_deleted (pa_id a) t d = (Inr (), set_artifact (pa_id a) (deleted_artifact t) d)"
    by (simp add: artifacts_mark_deleted_def r set_artifact_def deleted_artifact_def [abs_def])
  with integrity_set_artifact [OF assms(1), of "deleted_artifact t" "pa_id a"]
  show "mark_deleted a t d = (Inr (), set_artifact (pa_id a) (deleted_artifact t) d)"
    by (simp add: mark_deleted_def sx_simps)
  have "artifacts_mark_cleanup_failed (pa_id a) (error_detail e) d =
      (Inr (), set_artifact (pa_id a) (failed_artifact (error_detail e)) d)"
    by (simp add: artifacts_mark_cleanup_failed_def r set_artifact_def failed_artifact_def [abs_def])
  with integrity_set_artifact [OF assms(1), of "failed_artifact (error_detail e)" "pa_id a"]
  show "mark_failed a e d = (Inr (), set_artifact (pa_id a) (failed_artifact (error_detail e)) d)"
    by (simp add: mark_failed_def sx_simps)
qed

section \<open>The loop\<close>

text \<open>The rows of a pass: those whose id is done carry an outcome, the others are as they were.\<close>

definition outcome_row :: "datetime \<Rightarrow> uuid set \<Rightarrow> artifact_row \<Rightarrow> artifact_row \<Rightarrow> bool" where
  "outcome_row t ids r r' \<longleftrightarrow>
     (if pa_id r \<in> ids then r' = deleted_artifact t r \<or> (\<exists>e. r' = failed_artifact e r) else r' = r)"

definition marked :: "artifact_status \<Rightarrow> uuid set \<Rightarrow> db \<Rightarrow> nat" where
  "marked st ids d = length (filter (\<lambda>r. pa_id r \<in> ids \<and> pa_status r = st) (publish_artifacts d))"

definition passed :: "datetime \<Rightarrow> db \<Rightarrow> publish_artifact list \<Rightarrow> nat \<times> nat \<Rightarrow> db \<Rightarrow> bool" where
  "passed t d done_rows = (\<lambda>(deleted, failed) d'.
     deleted + failed = length done_rows \<and> integrity d'
     \<and> d' = d\<lparr>publish_artifacts := publish_artifacts d'\<rparr>
     \<and> list_all2 (outcome_row t (pa_id ` set done_rows)) (publish_artifacts d) (publish_artifacts d')
     \<and> deleted = marked ART_DELETED (pa_id ` set done_rows) d'
     \<and> failed = marked ART_CLEANUP_FAILED (pa_id ` set done_rows) d')"

lemma marked_step:
  assumes "integrity d" and "a \<in> set (publish_artifacts d)" and "pa_id a \<notin> ids"
    and "\<And>r. pa_id (f r) = pa_id r" and "pa_status (f a) = st'"
  shows "marked st (insert (pa_id a) ids) (set_artifact (pa_id a) f d) =
    (if st = st' then 1 else 0) + marked st ids d"
proof -
  define rows where "rows = publish_artifacts d"
  let ?g = "\<lambda>r. if pa_id r = pa_id a then f r else r"
  have d: "distinct (map pa_id rows)" "a \<in> set rows" using assms(1,2) integrityD(12) by (simp_all add: rows_def)
  have "length (filter (\<lambda>r. pa_id r \<in> insert (pa_id a) ids \<and> pa_status r = st) (map ?g rows)) =
      (if st = st' then 1 else 0) + length (filter (\<lambda>r. pa_id r \<in> ids \<and> pa_status r = st) rows)"
    using d
  proof (induction rows)
    case (Cons x xs)
    show ?case
    proof (cases "x = a")
      case True
      with Cons.prems have "\<And>r. r \<in> set xs \<Longrightarrow> pa_id r \<noteq> pa_id a" by (auto simp: image_iff)
      then have "filter (\<lambda>r. pa_id r \<in> insert (pa_id a) ids \<and> pa_status r = st) (map ?g xs) =
          filter (\<lambda>r. pa_id r \<in> ids \<and> pa_status r = st) xs"
        by (induction xs) auto
      from arg_cong [OF this, where f = length] True assms(3-5) show ?thesis by auto
    next
      case False
      with Cons.prems have "pa_id x \<noteq> pa_id a" by (auto simp: image_iff)
      with Cons False show ?thesis by auto
    qed
  qed simp
  then show ?thesis by (simp add: marked_def set_artifact_def update_where_def rows_def)
qed

lemma outcome_row_id: "outcome_row t ids r r' \<Longrightarrow> pa_id r = pa_id r'"
  by (auto simp: outcome_row_def split: if_splits)

lemma passed_ids:
  assumes "passed t d ys b d'"
  shows "pa_id ` set (publish_artifacts d') = pa_id ` set (publish_artifacts d)"
proof -
  from assms have "list_all2 (outcome_row t (pa_id ` set ys)) (publish_artifacts d) (publish_artifacts d')"
    by (auto simp: passed_def)
  then have "list_all2 (\<lambda>r r'. pa_id r = pa_id r') (publish_artifacts d) (publish_artifacts d')"
    by (rule list_all2_mono) (rule outcome_row_id)
  from list_all2_same_map [OF this] show ?thesis by (metis list.set_map)
qed

lemma passed_step:
  assumes p: "passed t d ys (m, n) d'" and a: "pa_id a \<in> pa_id ` set (publish_artifacts d)"
    and new: "pa_id a \<notin> pa_id ` set ys"
    and f: "\<And>r. pa_id (f r) = pa_id r" "\<And>r. pa_job_id (f r) = pa_job_id r"
      "\<And>r. pa_station_id (f r) = pa_station_id r"
    and out: "f = deleted_artifact t \<and> m' = Suc m \<and> n' = n
      \<or> (\<exists>e. f = failed_artifact e) \<and> m' = m \<and> n' = Suc n"
  shows "passed t d (ys @ [a]) (m', n') (set_artifact (pa_id a) f d')"
proof -
  let ?ids = "pa_id ` set ys" and ?d = "set_artifact (pa_id a) f d'"
  from p have rows: "list_all2 (outcome_row t ?ids) (publish_artifacts d) (publish_artifacts d')"
    and ok: "integrity d'" and frame: "d' = d\<lparr>publish_artifacts := publish_artifacts d'\<rparr>"
    and counts: "m + n = length ys" "m = marked ART_DELETED ?ids d'"
      "n = marked ART_CLEANUP_FAILED ?ids d'" by (simp_all add: passed_def)
  have "pa_id ` set (publish_artifacts d') = pa_id ` set (publish_artifacts d)"
    by (rule passed_ids [OF p])
  with a obtain x where x: "x \<in> set (publish_artifacts d')" "pa_id x = pa_id a" by (metis imageE)
  note step = marked_step [OF ok x(1), of ?ids f, unfolded x(2), OF new f(1) refl]
  have "list_all2 (outcome_row t (insert (pa_id a) ?ids)) (publish_artifacts d) (publish_artifacts ?d)"
  proof -
    have "outcome_row t (insert (pa_id a) ?ids) r (if pa_id r' = pa_id a then f r' else r')"
      if row: "outcome_row t ?ids r r'" for r r'
    proof (cases "pa_id r = pa_id a")
      case True
      with row new have "r' = r" by (simp add: outcome_row_def)
      with True out show ?thesis by (auto simp: outcome_row_def)
    next
      case False
      with row outcome_row_id [OF row] show ?thesis by (simp add: outcome_row_def)
    qed
    note row_step = this
    have "list_all2 (\<lambda>r r'. outcome_row t (insert (pa_id a) ?ids) r (if pa_id r' = pa_id a then f r' else r'))
        (publish_artifacts d) (publish_artifacts d')"
      by (rule list_all2_mono [OF rows row_step])
    then show ?thesis by (simp add: set_artifact_def update_where_def list_all2_map2)
  qed
  moreover have "integrity ?d" using integrity_set_artifact [OF ok f] .
  moreover have "?d = d\<lparr>publish_artifacts := publish_artifacts ?d\<rparr>"
    by (subst frame) (simp add: set_artifact_def)
  ultimately show ?thesis
    using counts out step [of ART_DELETED] step [of ART_CLEANUP_FAILED] by (auto simp: passed_def)
qed

lemma clean_artifact_after:
  assumes "passed t d ys b d'" and "pa_id a \<in> pa_id ` set (publish_artifacts d)"
    and "pa_id a \<notin> pa_id ` set ys"
  shows "after (clean_artifact delete t b a) (\<lambda>b' (d'', _). passed t d (ys @ [a]) b' d'')
    (\<lambda>_ _. False) (d', s)"
proof -
  obtain m n where b: "b = (m, n)" by fastforce
  obtain r s' where del: "delete (pa_dataset_name a) s = (r, s')" by fastforce
  from assms(1) b have ok: "integrity d'" by (simp add: passed_def)
  have "pa_id a \<in> pa_id ` set (publish_artifacts d')"
    unfolding passed_ids [OF assms(1)] by (rule assms(2))
  note mark = mark_outcome [OF ok this]
  show ?thesis
  proof (cases r)
    case (Inl e)
    have "passed t d (ys @ [a]) (m, Suc n)
        (set_artifact (pa_id a) (failed_artifact (error_detail e)) d')"
      by (rule passed_step [OF assms(1) [unfolded b] assms(2,3)]) auto
    then show ?thesis by (simp add: after_def clean_artifact_def b sx_simps del Inl mark)
  next
    case (Inr u)
    have "passed t d (ys @ [a]) (Suc m, n) (set_artifact (pa_id a) (deleted_artifact t) d')"
      by (rule passed_step [OF assms(1) [unfolded b] assms(2,3)]) auto
    then show ?thesis by (simp add: after_def clean_artifact_def b sx_simps del Inr mark)
  qed
qed

text \<open>The loop visits records with distinct ids that the table holds; storage sees their names in
  order.\<close>

definition delete_all :: "(string \<Rightarrow> ('s, unit) sx) \<Rightarrow> publish_artifact list \<Rightarrow> 's \<Rightarrow> 's" where
  "delete_all delete cs s = foldl (\<lambda>s a. snd (delete (pa_dataset_name a) s)) s cs"

lemma clean_artifact_storage:
  "after (clean_artifact delete t b a) (\<lambda>_ (_, s'). s' = snd (delete (pa_dataset_name a) s))
    (\<lambda>_ _. True) (d', s)"
  by (cases b; cases "delete (pa_dataset_name a) s"; cases "fst (delete (pa_dataset_name a) s)")
    (auto simp: after_def clean_artifact_def sx_simps split: sum.split prod.split)

lemma clean_all_after:
  assumes "integrity d" and "distinct (map pa_id cs)"
    and "pa_id ` set cs \<subseteq> pa_id ` set (publish_artifacts d)"
  shows "after (foldS (clean_artifact delete t) (0, 0) cs)
    (\<lambda>b (d', s'). passed t d cs b d' \<and> s' = delete_all delete cs s) (\<lambda>_ _. False) (d, s)"
proof (rule after_foldS_prefix [where I = "\<lambda>ys b (d', s'). passed t d ys b d' \<and> s' = delete_all delete ys s"])
  fix ys x zs b and p :: "db \<times> 'a"
  assume cs: "cs = ys @ x # zs"
    and I: "case p of (d', s') \<Rightarrow> passed t d ys b d' \<and> s' = delete_all delete ys s"
  obtain d' where p: "p = (d', delete_all delete ys s)" "passed t d ys b d'"
    using I by (cases p) auto
  from cs assms(2,3) have x: "pa_id x \<in> pa_id ` set (publish_artifacts d)" "pa_id x \<notin> pa_id ` set ys"
    by auto
  show "after (clean_artifact delete t b x)
      (\<lambda>b (d', s'). passed t d (ys @ [x]) b d' \<and> s' = delete_all delete (ys @ [x]) s) (\<lambda>_ _. False) p"
    unfolding p(1)
    by (rule after_mono [OF after_conj [OF clean_artifact_after [OF p(2) x] clean_artifact_storage]])
      (auto simp: delete_all_def)
next
  show "case (d, s) of (d', s') \<Rightarrow> passed t d [] (0, 0) d' \<and> s' = delete_all delete [] s"
    using assms(1) by (simp add: passed_def marked_def outcome_row_def delete_all_def list.rel_refl)
qed

section \<open>What a pass may touch\<close>

definition eligible :: "cleanup_config \<Rightarrow> uuid list option \<Rightarrow> datetime \<Rightarrow> artifact_row \<Rightarrow> bool" where
  "eligible cfg ids now r \<longleftrightarrow>
     (case ids of
        None \<Rightarrow> cleanup_candidate (instant now - days (cc_retention_days cfg)) r
      | Some selected \<Rightarrow> pa_id r \<in> set selected \<and> selected_candidate r)"

lemma eligible_not_current:
  "eligible cfg ids now r \<Longrightarrow> \<not> pa_is_current r \<and> pa_status r \<in> {ART_RETIRED, ART_CLEANUP_FAILED}"
  by (auto simp: eligible_def cleanup_candidate_def selected_candidate_def split: option.splits)

lemma cleanup_candidates_Inr:
  assumes "integrity d"
  obtains rs where "cleanup_candidates cfg ids now d = (Inr (map artifact_to_domain rs), d)"
    and "set rs \<subseteq> {r \<in> set (publish_artifacts d). eligible cfg ids now r}" and "distinct (map pa_id rs)"
    and "ids = None \<Longrightarrow> length rs \<le> nat (cc_batch_size cfg)"
proof (cases ids)
  case None
  let ?rs = "take (nat (cc_batch_size cfg)) (order_by (\<lambda>r. instant (pa_created_at r))
     (filter (cleanup_candidate (instant now - days (cc_retention_days cfg))) (publish_artifacts d)))"
  have "cleanup_candidates cfg ids now d = (Inr (map artifact_to_domain ?rs), d)"
    by (simp add: cleanup_candidates_def None Let_def sx_simps artifacts_list_cleanup_candidates_def)
  moreover have "set ?rs \<subseteq> {r \<in> set (publish_artifacts d). eligible cfg ids now r}"
    using None by (auto simp: eligible_def dest: in_set_takeD)
  moreover have "distinct (map pa_id ?rs)"
    using integrityD(12) [OF assms] by (simp add: take_map [symmetric] distinct_map_filter)
  ultimately show ?thesis using that [of ?rs] by simp
next
  case (Some selected)
  let ?rs = "if selected = [] then [] else
    filter selected_candidate (filter (\<lambda>r. pa_id r \<in> set selected) (publish_artifacts d))"
  have "selected_candidate (artifact_to_domain r) = selected_candidate r" for r
    by (simp add: selected_candidate_def)
  then have "filter selected_candidate (map artifact_to_domain rows) =
      map artifact_to_domain (filter selected_candidate rows)" for rows
    by (simp add: filter_map comp_def)
  then have "cleanup_candidates cfg ids now d = (Inr (map artifact_to_domain ?rs), d)"
    by (simp add: cleanup_candidates_def Some Let_def sx_simps artifacts_list_by_ids_def)
  moreover have "set ?rs \<subseteq> {r \<in> set (publish_artifacts d). eligible cfg ids now r}"
    using Some by (auto simp: eligible_def)
  moreover have "distinct (map pa_id ?rs)"
    using integrityD(12) [OF assms] by (simp add: distinct_map_filter)
  ultimately show ?thesis using that [of ?rs] Some by simp
qed

text \<open>The result of a pass that applies its deletions.\<close>

lemma cleanup_run:
  assumes "integrity d" and "cc_apply_enabled cfg"
    and "cleanup_candidates cfg ids now d = (Inr (map artifact_to_domain rs), d)"
    and "set rs \<subseteq> set (publish_artifacts d)" and "distinct (map pa_id rs)"
  obtains m n d' where "cleanup_datasets cfg (Some delete) ids now (d, s) =
      (Inr \<lparr>cr_inspected = length rs, cr_deleted = m, cr_failed = n, cr_dry_run = False\<rparr>,
       (d', delete_all delete (map artifact_to_domain rs) s))"
    and "passed now d (map artifact_to_domain rs) (m, n) d'"
proof -
  let ?cs = "map artifact_to_domain rs"
  have "distinct (map pa_id ?cs)" "pa_id ` set ?cs \<subseteq> pa_id ` set (publish_artifacts d)"
    using assms(4,5) by (auto simp: comp_def)
  from after_total [OF clean_all_after [OF assms(1) this]]
  obtain m n d' s' where run: "foldS (clean_artifact delete now) (0, 0) ?cs (d, s) = (Inr (m, n), (d', s'))"
    and "passed now d ?cs (m, n) d'" "s' = delete_all delete ?cs s" by fast
  with assms(2,3) show ?thesis
    using that [of m n d'] by (simp add: cleanup_datasets_def sx_simps)
qed

definition status_count :: "artifact_status \<Rightarrow> db \<Rightarrow> nat" where
  "status_count st d = length (filter (\<lambda>r. pa_status r = st) (publish_artifacts d))"

lemma marked_count:
  assumes "list_all2 (outcome_row t ids) xs ys" and "\<And>x. x \<in> set xs \<Longrightarrow> pa_id x \<in> ids \<Longrightarrow> pa_status x \<noteq> st"
  shows "length (filter (\<lambda>r. pa_status r = st) ys) =
    length (filter (\<lambda>r. pa_status r = st) xs) + length (filter (\<lambda>r. pa_id r \<in> ids \<and> pa_status r = st) ys)"
  using assms
proof (induction rule: list_all2_induct)
  case (Cons x xs y ys)
  then have IH: "length (filter (\<lambda>r. pa_status r = st) ys) =
      length (filter (\<lambda>r. pa_status r = st) xs) + length (filter (\<lambda>r. pa_id r \<in> ids \<and> pa_status r = st) ys)"
    by simp
  have "pa_id y = pa_id x" using Cons.hyps(1) outcome_row_id by metis
  moreover have "pa_id x \<notin> ids \<Longrightarrow> y = x" using Cons.hyps(1) by (simp add: outcome_row_def)
  moreover have "pa_id x \<in> ids \<Longrightarrow> pa_status x \<noteq> st" using Cons.prems by simp
  ultimately show ?case using IH by (cases "pa_id x \<in> ids") auto
qed simp

section \<open>The outcome of a pass, row by row\<close>

text \<open>What storage answers to the deletions, asked for one after the other, and the row of a record whose
  deletion was answered.\<close>

fun delete_outcomes :: "(string \<Rightarrow> ('s, unit) sx) \<Rightarrow> publish_artifact list \<Rightarrow> 's \<Rightarrow> unit result list" where
  "delete_outcomes delete [] s = []"
| "delete_outcomes delete (a # cs) s =
     (case delete (pa_dataset_name a) s of (outcome, s') \<Rightarrow> outcome # delete_outcomes delete cs s')"

definition settled_row :: "datetime \<Rightarrow> (uuid \<times> unit result) list \<Rightarrow> artifact_row \<Rightarrow> artifact_row" where
  "settled_row now outcomes r =
     (case map_of outcomes (pa_id r) of
        None \<Rightarrow> r
      | Some (Inr u) \<Rightarrow> deleted_artifact now r
      | Some (Inl e) \<Rightarrow> failed_artifact (error_detail e) r)"

definition failures :: "unit result list \<Rightarrow> nat" where
  "failures outcomes = length (filter isl outcomes)"

lemma length_delete_outcomes [simp]: "length (delete_outcomes delete cs s) = length cs"
  by (induction cs arbitrary: s) (simp_all split: prod.split)

lemma settled_row_id [simp]: "pa_id (settled_row now outcomes r) = pa_id r"
  by (auto simp: settled_row_def split: option.split sum.split)

lemma settled_row_Nil [simp]: "settled_row now [] r = r"
  by (simp add: settled_row_def)

lemma settled_row_Cons:
  assumes "i \<notin> fst ` set outcomes"
  shows "settled_row now ((i, out) # outcomes) r =
    settled_row now outcomes
      (if pa_id r = i then (case out of Inr u \<Rightarrow> deleted_artifact now r | Inl e \<Rightarrow> failed_artifact (error_detail e) r)
       else r)"
proof -
  have "map_of outcomes i = None" using assms by (simp add: map_of_eq_None_iff)
  then show ?thesis by (auto simp: settled_row_def split: sum.split)
qed

lemma clean_all_run:
  assumes "integrity d" and "distinct (map pa_id cs)" and "pa_id ` set cs \<subseteq> pa_id ` set (publish_artifacts d)"
  shows "foldS (clean_artifact delete now) (m, n) cs (d, s) =
    (let outs = delete_outcomes delete cs s
     in (Inr (m + (length cs - failures outs), n + failures outs),
         (d\<lparr>publish_artifacts := map (settled_row now (zip (map pa_id cs) outs)) (publish_artifacts d)\<rparr>,
          delete_all delete cs s)))"
  using assms
proof (induction cs arbitrary: d s m n)
  case Nil
  then show ?case by (simp add: returnS_def failures_def delete_all_def)
next
  case (Cons a cs)
  obtain r s' where del: "delete (pa_dataset_name a) s = (r, s')" by fastforce
  let ?f = "case r of Inr u \<Rightarrow> deleted_artifact now | Inl e \<Rightarrow> failed_artifact (error_detail e)"
  let ?d = "set_artifact (pa_id a) ?f d"
  let ?outs = "delete_outcomes delete cs s'"
  have a: "pa_id a \<in> pa_id ` set (publish_artifacts d)" using Cons.prems(3) by simp
  note mark = mark_outcome [OF Cons.prems(1) a]
  have step: "clean_artifact delete now (m, n) a (d, s) =
      (Inr (if isl r then (m, Suc n) else (Suc m, n)), (?d, s'))"
    by (cases r) (simp_all add: clean_artifact_def sx_simps del mark)
  have ok: "integrity ?d"
    by (rule integrity_set_artifact [OF Cons.prems(1)]) (cases r; simp)+
  have ids: "pa_id ` set (publish_artifacts ?d) = pa_id ` set (publish_artifacts d)"
  proof -
    have "pa_id (if pa_id x = pa_id a then ?f x else x) = pa_id x" for x by (cases r) simp_all
    then have "map pa_id (publish_artifacts ?d) = map pa_id (publish_artifacts d)"
      by (simp add: set_artifact_def update_where_def comp_def del: if_split)
    then show ?thesis by (metis list.set_map)
  qed
  have new: "pa_id a \<notin> fst ` set (zip (map pa_id cs) ?outs)"
    using Cons.prems(2) by (auto dest: set_zip_leftD)
  have rows: "map (settled_row now (zip (map pa_id cs) ?outs)) (publish_artifacts ?d) =
      map (settled_row now (zip (map pa_id (a # cs)) (r # ?outs))) (publish_artifacts d)"
    using settled_row_Cons [OF new, of now r]
    by (cases r) (simp_all add: set_artifact_def update_where_def)
  have frame: "?d\<lparr>publish_artifacts := xs\<rparr> = d\<lparr>publish_artifacts := xs\<rparr>" for xs by (simp add: set_artifact_def)
  have le: "failures ?outs \<le> length cs"
    unfolding failures_def by (metis length_delete_outcomes length_filter_le)
  have "foldS (clean_artifact delete now) (m', n') cs (?d, s') =
      (Inr (m' + (length cs - failures ?outs), n' + failures ?outs),
       (d\<lparr>publish_artifacts := map (settled_row now (zip (map pa_id (a # cs)) (r # ?outs))) (publish_artifacts d)\<rparr>,
        delete_all delete cs s'))" for m' n'
    using Cons.IH [OF ok, of m' n' s'] Cons.prems(2,3) ids unfolding Let_def rows frame by simp
  then show ?case
    using le unfolding foldS.simps bindS_apply step
    by (cases "isl r") (simp_all add: Let_def del failures_def delete_all_def Suc_diff_le)
qed

text \<open>C30. A retention pass that applies its deletions always ends with a result, whatever the storage
  does, and both its counts are the outcomes the table shows: each inspected record, no other, is marked -
  as deleted now when storage deleted its dataset, as failed with the error when the deletion raised -
  the deleted and failed counts are the numbers of these two outcomes, the number of records in the status
  deleted grows by the one and the inspected records in the status failed are the other; no more than the
  batch size are inspected when none were selected.\<close>

theorem cleanup_accounts:
  assumes "integrity d" and "cc_apply_enabled cfg"
  shows "\<exists>r d' s' cs. cleanup_datasets cfg (Some delete) ids now (d, s) = (Inr r, (d', s'))
    \<and> cleanup_candidates cfg ids now d = (Inr cs, d)
    \<and> publish_artifacts d' =
        map (settled_row now (zip (map pa_id cs) (delete_outcomes delete cs s))) (publish_artifacts d)
    \<and> cr_inspected r = length cs \<and> cr_failed r = failures (delete_outcomes delete cs s)
    \<and> cr_inspected r = cr_deleted r + cr_failed r \<and> \<not> cr_dry_run r
    \<and> (ids = None \<longrightarrow> cr_inspected r \<le> nat (cc_batch_size cfg))
    \<and> status_count ART_DELETED d' = status_count ART_DELETED d + cr_deleted r
    \<and> marked ART_CLEANUP_FAILED (pa_id ` set cs) d' = cr_failed r \<and> integrity d'"
proof -
  obtain rs where c: "cleanup_candidates cfg ids now d = (Inr (map artifact_to_domain rs), d)"
    and sub: "set rs \<subseteq> {r \<in> set (publish_artifacts d). eligible cfg ids now r}"
    and dist: "distinct (map pa_id rs)" and size: "ids = None \<Longrightarrow> length rs \<le> nat (cc_batch_size cfg)"
    using cleanup_candidates_Inr [OF assms(1)] by blast
  let ?cs = "map artifact_to_domain rs"
  let ?outs = "delete_outcomes delete ?cs s"
  from sub have sub': "set rs \<subseteq> set (publish_artifacts d)" by blast
  obtain m n d' where run: "cleanup_datasets cfg (Some delete) ids now (d, s) =
      (Inr \<lparr>cr_inspected = length rs, cr_deleted = m, cr_failed = n, cr_dry_run = False\<rparr>,
       (d', delete_all delete ?cs s))"
    and p: "passed now d ?cs (m, n) d'"
    by (rule cleanup_run [OF assms c sub' dist, where delete = delete and s = s]) (rule that)
  have "distinct (map pa_id ?cs)" "pa_id ` set ?cs \<subseteq> pa_id ` set (publish_artifacts d)"
    using dist sub' by (auto simp: comp_def)
  from clean_all_run [OF assms(1) this, of delete now 0 0 s] run c assms(2)
  have rows: "publish_artifacts d' = map (settled_row now (zip (map pa_id ?cs) ?outs)) (publish_artifacts d)"
    and n: "n = failures ?outs"
    by (auto simp: cleanup_datasets_def sx_simps Let_def)
  let ?ids = "pa_id ` set ?cs"
  have "pa_status x \<noteq> ART_DELETED" if "x \<in> set (publish_artifacts d)" "pa_id x \<in> ?ids" for x
  proof -
    from that(2) obtain r where r: "r \<in> set rs" "pa_id x = pa_id r" by auto
    with sub that(1) distinct_map_eq_iff [OF integrityD(12) [OF assms(1)]] have "x = r" by blast
    with r(1) sub eligible_not_current show ?thesis by fastforce
  qed
  with p marked_count [of now ?ids "publish_artifacts d" "publish_artifacts d'" ART_DELETED]
  have count: "status_count ART_DELETED d' = status_count ART_DELETED d + m"
    by (simp add: passed_def status_count_def marked_def)
  from p have sum: "m + n = length rs" "integrity d'" "n = marked ART_CLEANUP_FAILED ?ids d'"
    by (simp_all add: passed_def)
  show ?thesis by (intro exI conjI, rule run, rule c, rule rows) (use size count sum n in simp_all)
qed

text \<open>C29. A retention pass touches nothing but eligible records: every other record, the current
  ones among them, and every other table stay as they were, and storage is asked to delete only the
  datasets of eligible records, each once.\<close>

theorem cleanup_spares:
  assumes "integrity d" and "cleanup_datasets cfg delete ids now (d, s) = (res, (d', s'))"
  shows "list_all2 (\<lambda>r r'. r' = r \<or> eligible cfg ids now r \<and> \<not> pa_is_current r
        \<and> (r' = deleted_artifact now r \<or> (\<exists>e. r' = failed_artifact e r)))
      (publish_artifacts d) (publish_artifacts d')
    \<and> d' = d\<lparr>publish_artifacts := publish_artifacts d'\<rparr>
    \<and> (\<exists>rs. distinct (map pa_id rs) \<and> set rs \<subseteq> {r \<in> set (publish_artifacts d). eligible cfg ids now r}
        \<and> s' = (case delete of None \<Rightarrow> s | Some f \<Rightarrow> delete_all f (map artifact_to_domain rs) s))"
proof -
  obtain rs where c: "cleanup_candidates cfg ids now d = (Inr (map artifact_to_domain rs), d)"
    and sub: "set rs \<subseteq> {r \<in> set (publish_artifacts d). eligible cfg ids now r}"
    and dist: "distinct (map pa_id rs)"
    using cleanup_candidates_Inr [OF assms(1)] by blast
  show ?thesis
  proof (cases "cc_apply_enabled cfg \<and> delete \<noteq> None")
    case False
    with assms(2) c have "d' = d" "s' = s"
      by (auto simp: cleanup_datasets_def sx_simps split: if_splits option.splits)
    then show ?thesis
      by (intro conjI exI [of _ "[]"]) (auto simp: delete_all_def list.rel_refl split: option.split)
  next
    case True
    then obtain f where f: "delete = Some f" and on: "cc_apply_enabled cfg" by blast
    from sub have sub': "set rs \<subseteq> set (publish_artifacts d)" by blast
    obtain m n d'' where run: "cleanup_datasets cfg (Some f) ids now (d, s) =
        (Inr \<lparr>cr_inspected = length rs, cr_deleted = m, cr_failed = n, cr_dry_run = False\<rparr>,
         (d'', delete_all f (map artifact_to_domain rs) s))"
      and p: "passed now d (map artifact_to_domain rs) (m, n) d''"
      by (rule cleanup_run [OF assms(1) on c sub' dist, where delete = f and s = s]) (rule that)
    with assms(2) f have eq: "d'' = d'" "s' = delete_all f (map artifact_to_domain rs) s" by simp_all
    have rows: "list_all2 (outcome_row now (pa_id ` set rs)) (publish_artifacts d) (publish_artifacts d')"
      and frame: "d' = d\<lparr>publish_artifacts := publish_artifacts d'\<rparr>"
      using p eq by (simp_all add: passed_def image_image)
    have "r' = r \<or> eligible cfg ids now r \<and> \<not> pa_is_current r
        \<and> (r' = deleted_artifact now r \<or> (\<exists>e. r' = failed_artifact e r))"
      if r: "r \<in> set (publish_artifacts d)" and o: "outcome_row now (pa_id ` set rs) r r'" for r r'
    proof (cases "pa_id r \<in> pa_id ` set rs")
      case True
      then obtain x where "x \<in> set rs" "pa_id r = pa_id x" by blast
      with sub r distinct_map_eq_iff [OF integrityD(12) [OF assms(1)]] have "r \<in> set rs" by blast
      with sub o True eligible_not_current show ?thesis unfolding outcome_row_def by fastforce
    qed (use o in \<open>simp add: outcome_row_def\<close>)
    with rows have "list_all2 (\<lambda>r r'. r' = r \<or> eligible cfg ids now r \<and> \<not> pa_is_current r
        \<and> (r' = deleted_artifact now r \<or> (\<exists>e. r' = failed_artifact e r)))
      (publish_artifacts d) (publish_artifacts d')" by (auto elim!: list.rel_mono_strong)
    moreover have "s' = (case delete of None \<Rightarrow> s | Some f \<Rightarrow> delete_all f (map artifact_to_domain rs) s)"
      by (simp add: f eq(2))
    ultimately show ?thesis using frame sub dist by blast
  qed
qed

text \<open>C31. Deleting a retired record deletes its dataset even when another station's current record
  names the same one: on the deterministic client the dataset is gone while the other record stays
  current.\<close>

theorem shared_dataset_deleted:
  assumes "integrity d" and "cc_apply_enabled cfg"
    and "a \<in> set (publish_artifacts d)" and "eligible cfg (Some [pa_id a]) now a"
    and "b \<in> set (publish_artifacts d)" and "pa_is_current b" and "pa_dataset_name b = pa_dataset_name a"
    and "cleanup_datasets cfg (Some fake_delete_dataset) (Some [pa_id a]) now (d, s) = (res, (d', s'))"
  shows "b \<in> set (publish_artifacts d') \<and> pa_is_current b
    \<and> pa_dataset_name b \<notin> fst ` set (fn_datasets s')"
proof -
  have cand: "selected_candidate a" using assms(4) by (simp add: eligible_def)
  have "filter (\<lambda>r. pa_id r = pa_id a) (publish_artifacts d) = [a]"
    by (rule filter_unique [OF integrityD(12) [OF assms(1)] assms(3)])
  with cand have c: "cleanup_candidates cfg (Some [pa_id a]) now d =
      (Inr (map artifact_to_domain [a]), d)"
    by (simp add: cleanup_candidates_def Let_def sx_simps artifacts_list_by_ids_def
        selected_candidate_def)
  obtain m n d'' where run: "cleanup_datasets cfg (Some fake_delete_dataset) (Some [pa_id a]) now (d, s) =
      (Inr \<lparr>cr_inspected = length [a], cr_deleted = m, cr_failed = n, cr_dry_run = False\<rparr>,
       (d'', delete_all fake_delete_dataset (map artifact_to_domain [a]) s))"
    and p: "passed now d (map artifact_to_domain [a]) (m, n) d''"
    by (rule cleanup_run [OF assms(1,2) c, where delete = fake_delete_dataset and s = s])
      (use assms(3) in simp, simp, rule that)
  with assms(8) have s': "s' = snd (fake_delete_dataset (pa_dataset_name a) s)" and "d'' = d'"
    by (simp_all add: delete_all_def)
  have "pa_id b \<noteq> pa_id a"
    using distinct_map_eq_iff [OF integrityD(12) [OF assms(1)] assms(5,3)] cand assms(6)
    by (auto simp: selected_candidate_def)
  moreover have "list_all2 (outcome_row now {pa_id a}) (publish_artifacts d) (publish_artifacts d')"
    using p \<open>d'' = d'\<close> by (simp add: passed_def)
  ultimately have "b \<in> set (publish_artifacts d')"
    using assms(5) by (fastforce simp: list_all2_conv_all_nth in_set_conv_nth outcome_row_def)
  with assms(6,7) show ?thesis
    by (simp add: s' fake_delete_dataset_def log_call_def delete_keys image_iff [symmetric]
        flip: dom_map_of_conv_image_fst) (simp add: delete_conv' dom_def)
qed

section \<open>Two stations on one dataset\<close>

text \<open>The sample station's dataset was retired, a second station still uses it; a third record is
  current.\<close>

definition second_station :: station_row where
  "second_station = sample_station\<lparr>sr_id := 11, sr_station_id := 12, sr_display_name := ''PC-1''\<rparr>"

definition sample_artifact :: artifact_row where
  "sample_artifact =
     \<lparr>pa_id = 30, pa_job_id = 20, pa_station_id = 2, pa_source_dataset = ''tank/golden'',
      pa_dataset_name = ''tank/golden-PC-1'', pa_snapshot_ref = ''tank/golden@s'',
      pa_mapping_ref = ''zvol/tank/golden-PC-1'', pa_created_at = Aware 0 0, pa_status = ART_RETIRED,
      pa_is_current = False, pa_deleted_at = None, pa_last_error = None\<rparr>"

definition shared_artifact :: artifact_row where
  "shared_artifact = sample_artifact\<lparr>pa_id := 31, pa_station_id := 12, pa_status := ART_CURRENT,
     pa_is_current := True\<rparr>"

definition shared_db :: db where
  "shared_db = draft_db\<lparr>stations := [sample_station, second_station],
     publish_artifacts := [sample_artifact, shared_artifact]\<rparr>"

definition sample_cleanup :: cleanup_config where
  "sample_cleanup = \<lparr>cc_retention_days = 1, cc_batch_size = 5, cc_apply_enabled = True\<rparr>"

lemmas shared_defs =
  second_station_def sample_artifact_def shared_artifact_def shared_db_def sample_cleanup_def

lemma integrity_shared_db: "integrity shared_db"
  by (simp add: integrity_def constraint_defs sample_defs draft_defs shared_defs)

text \<open>One deletion of the two fails.\<close>

definition stubborn_delete :: "string \<Rightarrow> (fake_nas, unit) sx" where
  "stubborn_delete dataset =
     (if dataset = pa_dataset_name sample_artifact then raiseS (TimeoutError ''busy'') else fake_delete_dataset dataset)"

theorem cleanup_accounts_witness:
  "\<exists>r d' s'. cleanup_datasets sample_cleanup (Some stubborn_delete) (Some [30]) (Aware 0 0)
      (shared_db, nas_new) = (Inr r, (d', s'))
    \<and> cr_inspected r = 1 \<and> cr_deleted r = 0 \<and> cr_failed r = 1
    \<and> publish_artifacts d' = [failed_artifact ''busy'' sample_artifact, shared_artifact]"
proof -
  obtain r d' s' cs where run: "cleanup_datasets sample_cleanup (Some stubborn_delete) (Some [30]) (Aware 0 0)
      (shared_db, nas_new) = (Inr r, (d', s'))"
    and c: "cleanup_candidates sample_cleanup (Some [30]) (Aware 0 0) shared_db = (Inr cs, shared_db)"
    and rows: "publish_artifacts d' = map (settled_row (Aware 0 0) (zip (map pa_id cs)
        (delete_outcomes stubborn_delete cs nas_new))) (publish_artifacts shared_db)"
    and counts: "cr_inspected r = length cs" "cr_failed r = failures (delete_outcomes stubborn_delete cs nas_new)"
      "cr_inspected r = cr_deleted r + cr_failed r"
    using cleanup_accounts [OF integrity_shared_db, of sample_cleanup stubborn_delete "Some [30]" "Aware 0 0" nas_new]
    by (auto simp: sample_cleanup_def)
  have cs: "cs = [artifact_to_domain sample_artifact]"
    using c by (simp add: cleanup_candidates_def sx_simps artifacts_list_by_ids_def shared_defs selected_candidate_def)
  have outs: "delete_outcomes stubborn_delete cs nas_new = [Inl (TimeoutError ''busy'')]"
    by (simp add: cs stubborn_delete_def raiseS_def)
  have busy: "error_detail (TimeoutError ''busy'') = ''busy''" by code_simp
  have "publish_artifacts d' = [failed_artifact ''busy'' sample_artifact, shared_artifact]"
    unfolding rows [unfolded outs] by (simp add: cs settled_row_def busy) (simp add: shared_defs settled_row_def busy)
  with run counts outs cs show ?thesis by (simp add: failures_def)
qed

text \<open>The pass over the sample tables deletes the retired record and its dataset.\<close>

definition sample_pass :: "cleanup_result result \<times> db \<times> fake_nas" where
  "sample_pass = cleanup_datasets sample_cleanup (Some fake_delete_dataset) (Some [30])
     (Aware 0 0) (shared_db, nas_new)"

lemma sample_artifact_eligible: "eligible sample_cleanup (Some [pa_id sample_artifact]) now sample_artifact"
  by (simp add: eligible_def selected_candidate_def sample_artifact_def)

theorem cleanup_spares_witness:
  "case sample_pass of (res, d', s') \<Rightarrow>
    list_all2 (\<lambda>r r'. r' = r \<or> eligible sample_cleanup (Some [30]) (Aware 0 0) r \<and> \<not> pa_is_current r
        \<and> (r' = deleted_artifact (Aware 0 0) r \<or> (\<exists>e. r' = failed_artifact e r)))
      (publish_artifacts shared_db) (publish_artifacts d')"
  using cleanup_spares [OF integrity_shared_db, of sample_cleanup "Some fake_delete_dataset"
      "Some [30]" "Aware 0 0" nas_new]
  by (auto simp: sample_pass_def split: prod.split)

theorem shared_dataset_deleted_witness:
  "case sample_pass of (res, d', s') \<Rightarrow>
    shared_artifact \<in> set (publish_artifacts d') \<and> pa_is_current shared_artifact
    \<and> pa_dataset_name shared_artifact \<notin> fst ` set (fn_datasets s')"
proof -
  obtain res d' s' where run: "sample_pass = (res, (d', s'))" by (cases sample_pass) auto
  have rows: "sample_artifact \<in> set (publish_artifacts shared_db)"
    "shared_artifact \<in> set (publish_artifacts shared_db)" by (simp_all add: shared_db_def)
  have "shared_artifact \<in> set (publish_artifacts d') \<and> pa_is_current shared_artifact
      \<and> pa_dataset_name shared_artifact \<notin> fst ` set (fn_datasets s')"
    by (rule shared_dataset_deleted [OF integrity_shared_db _ rows(1) sample_artifact_eligible rows(2)])
      (use run in \<open>simp_all add: sample_pass_def shared_defs\<close>)
  then show ?thesis by (simp add: run)
qed

end
