(* ===== verification/Executor_Properties.thy ===== *)
theory Executor_Properties
  imports Executor_Facts TrueNAS_Properties Fake_Properties Cleanup_Properties
begin

text \<open>
  The guarantees of the worker's task: a message handled once is settled, a redelivery changes
  nothing, and persisting keeps one current artifact per station.
\<close>

section \<open>How a workflow ends\<close>

definition settles :: "publish_job \<Rightarrow> workflow_result \<Rightarrow> bool" where
  "settles job res \<longleftrightarrow> pj_id (wf_job res) = pj_id job \<and> terminal (pj_status (wf_job res))"

lemma after_anything: "after m (\<lambda>_ _. True) (\<lambda>_ _. True) s"
  by (simp add: after_def split: sum.split prod.split)

lemma after_bind_any:
  "(\<And>x t. after (f x) Q (\<lambda>_ _. True) t) \<Longrightarrow> after (bindS m f) Q (\<lambda>_ _. True) s"
  unfolding after_bind by (rule after_mono [OF after_anything])

lemma after_bind_lift:
  "(\<And>x. r = Inr x \<Longrightarrow> after (f x) Q (\<lambda>_ _. True) s) \<Longrightarrow> after (bindS (liftR r) f) Q (\<lambda>_ _. True) s"
  by (cases r) (simp_all add: after_bind after_lift)

lemma after_if_any:
  "after m Q E s \<Longrightarrow> after n Q E s \<Longrightarrow> after (if c then m else n) Q E s"
  by simp

lemma terminal_final: "terminal (final_status rs)" "terminal COMPLETED"
  by (simp_all add: final_status_def terminal_def Let_def)

lemma run_fake_settles:
  assumes "pj_id current = pj_id job"
  shows "after (run_fake A current master sids) (\<lambda>res _. settles job res) (\<lambda>_ _. True) s"
  unfolding run_fake_def
  by (intro after_bind_lift after_bind_any)
    (auto simp: after_return settles_def transition_Inr_iff terminal_final assms)

lemma fake_execute_settles:
  "after (fake_execute A job sids confirmed) (\<lambda>res _. settles job res) (\<lambda>_ _. True) s"
  unfolding fake_execute_def
  by (intro after_if_any after_bind_lift after_bind_any)
    (auto simp: after_return after_raise settles_def transition_Inr_iff terminal_final enter_fake_Inr
      intro!: run_fake_settles [unfolded settles_def] after_bind_any)

lemma truenas_execute_settles:
  "after (truenas_execute C job sts confirmed) (\<lambda>res _. settles job res) (\<lambda>_ _. True) s"
  unfolding truenas_execute_def run_truenas_def Let_def
  by (intro after_if_any after_bind_lift after_bind_any)
    (auto simp: after_return after_raise settles_def transition_Inr_iff terminal_final enter_publishing_Inr
      replace_job_status_def bindR_Inr_iff)

section \<open>The executor port\<close>

text \<open>What the task handler relies on: a job that is settled already is left alone, and a run that
  returns leaves the job settled under the identity it had.\<close>

definition settled_as :: "publish_job \<Rightarrow> db \<Rightarrow> bool" where
  "settled_as job d \<longleftrightarrow>
     (\<exists>r. job_by d (pj_id job) = Some r \<and> terminal (jr_status r)
        \<and> jr_idempotency_key r = pj_idempotency_key job \<and> jr_correlation_id r = pj_correlation_id job)"

locale publish_executor =
  fixes run :: "publish_job \<Rightarrow> publish_target list \<Rightarrow> uuid \<Rightarrow> (db \<times> 's, unit) sx"
  assumes mismatch: "pj_correlation_id job \<noteq> c \<Longrightarrow> \<exists>e. run job ts c p = (Inl e, p)"
    and settled: "terminal (pj_status job) \<Longrightarrow> run job ts (pj_correlation_id job) p = (Inr (), p)"
    and settling: "job_by d (pj_id job) = Some r \<Longrightarrow> job = row_job r \<Longrightarrow> targets_readable d \<Longrightarrow>
      \<not> terminal (pj_status job) \<Longrightarrow> run job ts c (d, s) = (Inr (), (d', s')) \<Longrightarrow>
      integrity d' \<and> targets_readable d' \<and> settled_as job d'"
begin

lemma handled_once:
  assumes "integrity d" and "targets_readable d"
    and "handle_publish_task run payload (d, s) = (Inr (), (d', s'))"
  shows "handle_publish_task run payload (d', s') = (Inr (), (d', s'))
    \<and> (\<exists>r. job_by d' (tp_job_id payload) = Some r \<and> terminal (jr_status r)) \<and> integrity d'"
proof -
  obtain r ts where r: "job_by d (tp_job_id payload) = Some r"
    and payload: "validate_payload (row_job r) payload = Inr ()"
    and load: "load_task payload d = (Inr (row_job r, ts), d)"
    and exec: "run (row_job r) ts (tp_correlation_id payload) (d, s) = (Inr (), (d', s'))"
    using assms(2,3) by (auto simp: handle_publish_task_def load_task_def sx_simps targets_list_total
        split: option.splits sum.splits prod.splits)
  from payload have keys: "pj_idempotency_key (row_job r) = tp_idempotency_key payload"
    "pj_correlation_id (row_job r) = tp_correlation_id payload"
    by (auto simp: validate_payload_def split: if_splits)
  have id: "pj_id (row_job r) = tp_job_id payload" using job_by_SomeD [OF r] by simp
  show ?thesis
  proof (cases "terminal (pj_status (row_job r))")
    case True
    from settled [OF this, of ts "(d, s)"] exec keys have "d' = d" "s' = s" by simp_all
    with assms r True show ?thesis by auto
  next
    case False
    from settling [OF _ refl assms(2) False exec] id r
    have d': "integrity d'" "targets_readable d'" "settled_as (row_job r) d'" by simp_all
    then obtain r' where r': "job_by d' (tp_job_id payload) = Some r'" "terminal (jr_status r')"
      "jr_idempotency_key r' = tp_idempotency_key payload" "jr_correlation_id r' = tp_correlation_id payload"
      using id keys by (auto simp: settled_as_def)
    have "\<exists>ts'. load_task payload d' = (Inr (row_job r', ts'), d')"
      using r' d'(2) by (simp add: load_task_def sx_simps validate_payload_def targets_list_total)
    then obtain ts' where "load_task payload d' = (Inr (row_job r', ts'), d')" by blast
    moreover have "run (row_job r') ts' (tp_correlation_id payload) (d', s') = (Inr (), (d', s'))"
      using settled [of "row_job r'" ts' "(d', s')"] r' by simp
    ultimately show ?thesis using r' d'(1) by (auto simp: handle_publish_task_def sx_simps)
  qed
qed

end

lemma load_stations_state: "snd (load_stations ts d) = d"
  unfolding load_stations_def load_station_def
  by (rule with_uow_readonly) (intro keeps_intros keeps_sess_committed)

lemma persist_settles:
  assumes "job_by d (pj_id job) = Some r" and "job = row_job r" and "targets_readable d" and "settles job res"
    and "persist_result fresh clock job ts res d = (Inr (), d')"
  shows "integrity d' \<and> targets_readable d' \<and> settled_as job d'"
proof -
  note p = persist_result_Inr [OF assms(3,5)]
  have "job_by d' (pj_id job) = job_by (set_job clock (wf_job res) d) (pj_id job)"
    using p by (intro job_by_cong) simp
  with assms p show ?thesis
    by (auto simp: settled_as_def job_by_set_job settles_def dest: job_by_SomeD)
qed

lemma guarded_execute_eq:
  "guarded_execute job ts c go =
     (if pj_correlation_id job \<noteq> c
      then raiseS (PublishExecutorStateError ''executor correlation ID does not match job'')
      else if terminal (pj_status job) then returnS ()
      else if filter tg_selected ts = []
      then raiseS (PublishExecutorStateError ''at least one selected target is required'')
      else go (filter tg_selected ts))"
  by (simp only: guarded_execute_def terminal_value_iff Let_def)

lemma guarded_execute_Inr:
  assumes "\<not> terminal (pj_status job)" and "guarded_execute job ts c go p = (Inr (), q)"
  shows "go (filter tg_selected ts) p = (Inr (), q)"
  using assms by (simp add: guarded_execute_eq sx_simps split: if_splits)

interpretation fake_executor: publish_executor "fake_task_execute A fresh clock" for A fresh clock
proof
  fix d job r ts c s d' s'
  assume r: "job_by d (pj_id job) = Some r" "job = row_job r" "targets_readable d"
    and open_job: "\<not> terminal (pj_status job)"
    and run: "fake_task_execute A fresh clock job ts c (d, s) = (Inr (), (d', s'))"
  from guarded_execute_Inr [OF open_job run [unfolded fake_task_execute_def]]
  obtain res where exec: "fake_execute A job (map tg_station_id (filter tg_selected ts))
      (pj_client_confirmation job = Some True) s = (Inr res, s')"
    and persist: "persist_result fresh clock job ts res d = (Inr (), d')"
    by (auto simp: sx_simps split: sum.splits prod.splits)
  show "integrity d' \<and> targets_readable d' \<and> settled_as job d'"
    by (rule persist_settles [OF r after_Inr [OF fake_execute_settles exec] persist])
qed (auto simp: fake_task_execute_def guarded_execute_eq sx_simps)

interpretation truenas_executor: publish_executor "truenas_task_execute C fresh clock" for C fresh clock
proof
  fix d job r ts c s d' s'
  assume r: "job_by d (pj_id job) = Some r" "job = row_job r" "targets_readable d"
    and open_job: "\<not> terminal (pj_status job)"
    and run: "truenas_task_execute C fresh clock job ts c (d, s) = (Inr (), (d', s'))"
  have frame: "load_stations sel e = (Inr sts, e') \<Longrightarrow> e' = e" for sel sts e e'
    using load_stations_state [of sel e] by simp
  from guarded_execute_Inr [OF open_job run [unfolded truenas_task_execute_def]]
  obtain sts res s1 where exec: "truenas_execute C job sts (pj_client_confirmation job = Some True) s = (Inr res, s1)"
    and persist: "persist_result fresh clock job ts res d = (Inr (), d')"
    by (auto simp: sx_simps dest!: frame split: sum.splits prod.splits)
  show "integrity d' \<and> targets_readable d' \<and> settled_as job d'"
    by (rule persist_settles [OF r after_Inr [OF truenas_execute_settles exec] persist])
qed (auto simp: truenas_task_execute_def guarded_execute_eq sx_simps)

section \<open>Properties of a task\<close>

text \<open>C20. A message is handled at most once: when a delivery returned, its job is in a final state,
  and every redelivery of the message returns without touching database or storage, with either
  executor and whatever the storage does.\<close>

theorem task_settles_once:
  assumes "executor = fake_task_execute A fresh clock \<or> executor = truenas_task_execute C fresh clock"
    and "integrity d" and "targets_readable d"
    and "handle_publish_task executor payload (d, s) = (Inr (), (d', s'))"
  shows "handle_publish_task executor payload (d', s') = (Inr (), (d', s'))
    \<and> (\<exists>r. job_by d' (tp_job_id payload) = Some r \<and> terminal (jr_status r)) \<and> integrity d'"
  using assms(1)
proof
  assume "executor = fake_task_execute A fresh clock"
  with fake_executor.handled_once [OF assms(2,3)] assms(4) show ?thesis by simp
next
  assume "executor = truenas_task_execute C fresh clock"
  with truenas_executor.handled_once [OF assms(2,3)] assms(4) show ?thesis by simp
qed

text \<open>C25. Persisting a result is all or nothing, and keeps at most one current artifact per
  station when the drawn artifact ids are new.\<close>

theorem persist_keeps_current:
  assumes "integrity d" and "current_ok d" and "targets_readable d"
    and "inj_on fresh {..<length (wf_targets res)}"
    and "\<forall>i < length (wf_targets res). fresh i \<notin> pa_id ` set (publish_artifacts d)"
  shows "case persist_result fresh clock job ts res d of
      (Inr _, d') \<Rightarrow> integrity d' \<and> current_ok d' | (Inl _, d') \<Rightarrow> d' = d"
  using persist_result_after [OF assms(2,3) integrityD(12) [OF assms(1)] assms(4,5)]
  by (simp add: after_def split: prod.splits sum.splits)

text \<open>The loop inside a persisted result.\<close>

lemma persist_result_loop:
  assumes "persist_result fresh clock job ts res d = (Inr (), d')"
  obtains cts u where "forS (persist_target fresh clock job (wf_master_mapping res) cts)
      (enumerate 0 (wf_targets res)) \<lparr>committed = d, session = d\<rparr> = (Inr (), u)"
    and "publish_artifacts d' = publish_artifacts (session u)"
proof -
  let ?u = "\<lparr>committed = d, session = d\<rparr>"
  obtain v where body: "persist_body fresh clock job ts res ?u = (Inr (), v)" and d': "d' = committed v"
    using assms by (auto simp: persist_result_def with_uow_apply split: prod.splits)
  obtain cts x u where loop: "forS (persist_target fresh clock job (wf_master_mapping res) cts)
        (enumerate 0 (wf_targets res)) ?u = (Inr x, u)"
    and fin: "bindS (sess (jobs_update clock (wf_job res))) (\<lambda>_. commit) u = (Inr (), v)"
    using body unfolding persist_body_def
    by (auto simp: bindS_Inr_iff sess_Inr_iff jobs_get_apply targets_list_for_job_def raiseS_apply
        split: option.splits if_splits)
  from fin have "publish_artifacts (committed v) = publish_artifacts (session u)"
    by (auto simp: bindS_Inr_iff sess_Inr_iff commit_apply jobs_update_eq split: option.splits if_splits)
  with loop d' show ?thesis by (intro that) simp_all
qed

lemma persist_single:
  assumes "persist_result fresh clock job ts res d = (Inr (), d')" and "wf_targets res = [r]"
    and "tr_status r \<noteq> VERIFIED"
  obtains d1 u where "publish_artifacts d1 = publish_artifacts d"
    and "persist_artifact (fresh 0) clock job (wf_master_mapping res) r \<lparr>committed = d, session = d1\<rparr> = (Inr (), u)"
    and "publish_artifacts d' = publish_artifacts (session u)"
proof -
  obtain cts u where loop: "forS (persist_target fresh clock job (wf_master_mapping res) cts)
      (enumerate 0 (wf_targets res)) \<lparr>committed = d, session = d\<rparr> = (Inr (), u)"
    and u: "publish_artifacts d' = publish_artifacts (session u)"
    by (rule persist_result_loop [OF assms(1)])
  obtain t d1 where "targets_update t d = (Inr (), d1)"
    and art: "persist_artifact (fresh 0) clock job (wf_master_mapping res) r \<lparr>committed = d, session = d1\<rparr> = (Inr (), u)"
    using loop assms(2,3) by (auto simp: persist_target_def bindS_Inr_iff sess_Inr_iff liftR_apply returnS_apply)
  then have "publish_artifacts d1 = publish_artifacts d"
    by (auto simp: targets_update_def split: option.splits if_splits)
  from that [OF this art u] show ?thesis .
qed

text \<open>C32. Persisting an unverified result with a new clone leaves the station without a current
  artifact: the record of the dataset it used so far becomes eligible for deletion, although the
  run reported that the switch failed or must be recovered by hand.\<close>

theorem unverified_retires_current:
  assumes "integrity d" and "persist_result fresh clock job ts res d = (Inr (), d')"
    and "wf_targets res = [r]" and "tr_status r \<noteq> VERIFIED" and "\<not> pj_dry_run job"
    and "tr_storage_created r" and "tr_new_mapping r = Some m" and "m \<noteq> []"
    and "fresh 0 \<notin> pa_id ` set (publish_artifacts d)"
    and "a \<in> set (publish_artifacts d)" and "pa_station_id a = tr_station_id r" and "pa_is_current a"
    and "pa_deleted_at a = None" and "pa_job_id a \<noteq> pj_id job"
  shows "\<exists>a' \<in> set (publish_artifacts d'). pa_id a' = pa_id a
    \<and> pa_dataset_name a' = pa_dataset_name a \<and> selected_candidate a'"
proof -
  obtain d1 u where d1: "publish_artifacts d1 = publish_artifacts d"
    and art: "persist_artifact (fresh 0) clock job (wf_master_mapping res) r \<lparr>committed = d, session = d1\<rparr> = (Inr (), u)"
    and u: "publish_artifacts d' = publish_artifacts (session u)"
    by (rule persist_single [OF assms(2-4)])
  obtain b where b: "build_artifact (fresh 0) clock job r (wf_master_mapping res) = Inr b"
    "pa_id b = fresh 0" "pa_station_id b = tr_station_id r" "pa_job_id b = pj_id job"
    by (simp add: build_artifact_def assms(7) Let_def)
  define d2 where "d2 = snd (artifacts_retire_station_artifacts (pa_station_id b) (pa_id b) d1)"
  have "session u = snd (artifacts_save b d2)"
    using art by (auto simp: persist_artifact_def assms(4-8) b d2_def sx_simps
        artifacts_retire_station_artifacts_def split: prod.splits)
  with u have rows: "publish_artifacts d' = publish_artifacts (snd (artifacts_save b d2))" by simp
  let ?a = "a\<lparr>pa_is_current := False, pa_status := ART_RETIRED\<rparr>"
  have "pa_id a \<noteq> fresh 0" using assms(9,10) by (metis imageI)
  with assms(10-12) b have a2: "?a \<in> set (publish_artifacts d2)"
    by (auto simp: d2_def artifacts_retire_station_artifacts_def in_update_where d1 intro!: bexI [of _ a])
  have dist: "distinct (map pa_id (publish_artifacts d2))"
    using integrityD(12) [OF assms(1)]
    by (simp add: d2_def artifacts_retire_station_artifacts_def map_update_where d1)
  have "?a \<in> set (publish_artifacts (snd (artifacts_save b d2)))"
  proof (cases "find (\<lambda>x. pa_job_id x = pa_job_id b \<and> pa_station_id x = pa_station_id b) (publish_artifacts d2)")
    case (Some x)
    from find_SomeD [OF Some] have x: "x \<in> set (publish_artifacts d2)" "pa_job_id x = pj_id job"
      by (simp_all add: b)
    have "pa_id ?a \<noteq> pa_id x"
    proof
      assume "pa_id ?a = pa_id x"
      then have "?a = x" using distinct_map_eq_iff [OF dist a2 x(1)] by blast
      then have "pa_job_id ?a = pj_id job" using x(2) by metis
      with assms(14) show False by simp
    qed
    then have "?a = (if pa_id ?a = pa_id x then saved_artifact_row b ?a else ?a)" by simp
    with a2 have "?a \<in> set (update_where (\<lambda>r. pa_id r = pa_id x) (saved_artifact_row b) (publish_artifacts d2))"
      unfolding in_update_where by (rule bexI [rotated])
    with Some show ?thesis by (simp add: artifacts_save_def)
  qed (use a2 in \<open>simp add: artifacts_save_def\<close>)
  with rows assms(13) show ?thesis by (intro bexI [of _ ?a]) (simp_all add: selected_candidate_def)
qed

lemma persist_result_Inl:
  assumes "persist_result fresh clock job ts res d = (Inl e, d')"
  shows "d' = d"
proof -
  let ?u = "\<lparr>committed = d, session = d\<rparr>" and ?P = "\<lambda>u. committed u = d"
  have "keeps ?P (forS (persist_target fresh clock job ref cts) rs)" for ref cts rs
    unfolding persist_target_def persist_artifact_def split_def
    by (intro keeps_intros keeps_sess_committed)
  from keeps_after [OF this, of ?u]
  have loop: "after (forS (persist_target fresh clock job ref cts) rs) (\<lambda>_. ?P) (\<lambda>_. ?P) ?u" for ref cts rs
    by simp
  have finish: "after (sess (jobs_update clock (wf_job res))) (\<lambda>_. after commit (\<lambda>_ _. True) (\<lambda>_. ?P))
      (\<lambda>_. ?P) v" if "?P v" for v
    using that by (auto simp: after_def sess_def commit_def split: prod.split sum.split)
  have "after (bindS (forS (persist_target fresh clock job ref cts) (enumerate 0 (wf_targets res))) (\<lambda>_.
        bindS (sess (jobs_update clock (wf_job res))) (\<lambda>_. commit))) (\<lambda>_ _. True) (\<lambda>_. ?P) ?u"
    for ref cts
    unfolding after_bind by (rule after_mono [OF loop]) (use finish in auto)
  moreover have "\<exists>r. targets_list_for_job (pj_id job) d = (r, d)" by (simp add: targets_list_for_job_def)
  ultimately have "after (persist_result fresh clock job ts res) (\<lambda>_ _. True) (\<lambda>_ d'. d' = d) d"
    by (auto simp: persist_result_def after_with_uow persist_body_def after_bind [of "sess _"] after_sess
        after_def [of "jobs_get _"] after_def [of "targets_list_for_job _"] jobs_get_apply after_raise
        split: option.split sum.split)
  from after_Inl [OF this assms] show ?thesis .
qed

lemma forS_reaches:
  assumes "forS f xs s = (Inr (), t)" and "x \<in> set xs" and "\<And>y. keeps P (f y)" and "P s"
  obtains s' t' where "P s'" and "f x s' = (Inr (), t')"
  using assms(1,2,4)
proof (induction xs arbitrary: s thesis)
  case (Cons y ys)
  from Cons.prems(2) obtain s1 where y: "f y s = (Inr (), s1)" and rest: "forS f ys s1 = (Inr (), t)"
    by (auto elim: bindS_Inr_E)
  show ?case
  proof (cases "x = y")
    case False
    have "P s1" using keepsD [OF assms(3) Cons.prems(4), of y] y by simp
    with Cons.IH [OF Cons.prems(1) rest] False Cons.prems(3) show ?thesis by auto
  qed (use Cons.prems y in blast)
qed simp

lemma inactive_writes:
  "keeps (\<lambda>d. active_station_by d sid = None) (targets_update t)"
  "keeps (\<lambda>d. active_station_by d sid = None) (stations_update_last_update i now)"
  "keeps (\<lambda>d. active_station_by d sid = None) (artifacts_retire_station_artifacts i aid)"
  "keeps (\<lambda>d. active_station_by d sid = None) (artifacts_save a)"
  by (auto simp: keeps_def active_station_by_def station_by_def targets_update_def find_None_iff
      stations_update_last_update_def set_station_def artifacts_retire_station_artifacts_def
      artifacts_save_def set_update_where split: option.splits if_splits)

text \<open>A station deleted while its publish runs makes the outcome impossible to persist: its
  verified switch is not recorded, nor anything else of the run, and the job stays as it was.\<close>

lemma deleted_station_blocks_persist:
  assumes "r \<in> set (wf_targets res)" and "tr_status r = VERIFIED" and "\<not> pj_dry_run job"
    and "active_station_by d (tr_station_id r) = None"
  shows "\<exists>e. persist_result fresh clock job ts res d = (Inl e, d)"
proof -
  let ?P = "\<lambda>u. committed u = d \<and> active_station_by (session u) (tr_station_id r) = None"
  have "fst (persist_result fresh clock job ts res d) \<noteq> Inr ()"
  proof
    assume "fst (persist_result fresh clock job ts res d) = Inr ()"
    then obtain d' where "persist_result fresh clock job ts res d = (Inr (), d')" by (metis prod.collapse)
    then obtain cts u where loop: "forS (persist_target fresh clock job (wf_master_mapping res) cts)
        (enumerate 0 (wf_targets res)) \<lparr>committed = d, session = d\<rparr> = (Inr (), u)"
      by (rule persist_result_loop)
    have step: "keeps ?P (persist_target fresh clock job (wf_master_mapping res) cts p)" for p
      unfolding persist_target_def persist_artifact_def split_def
      by (intro keeps_bind keeps_lift keeps_if keeps_return keeps_sess_frame inactive_writes)
    from assms(1) obtain i where "i < length (wf_targets res)" "wf_targets res ! i = r"
      by (auto simp: in_set_conv_nth)
    then have i: "(i, r) \<in> set (enumerate 0 (wf_targets res))" by (simp add: in_set_enumerate_eq)
    obtain v t where v: "?P v" and run: "persist_target fresh clock job (wf_master_mapping res) cts (i, r) v = (Inr (), t)"
      by (rule forS_reaches [OF loop i step]) (use assms(4) in auto)
    from run assms(2,3) obtain t' w w' where "targets_update t' (session v) = (Inr (), w)"
      and "stations_update_last_update (tr_station_id r) clock w = (Inr (), w')"
      by (auto simp: persist_target_def bindS_Inr_iff sess_Inr_iff liftR_apply)
    with keepsD [OF inactive_writes(1) conjunct2 [OF v], of t'] show False
      by (simp add: stations_update_last_update_def)
  qed
  then show ?thesis
    using persist_result_Inl [of fresh clock job ts res d]
    by (cases "persist_result fresh clock job ts res d"; cases "fst (persist_result fresh clock job ts res d)")
      auto
qed

section \<open>Concrete tasks\<close>

text \<open>The sample job, confirmed and dispatched, with its one selected target.\<close>

definition running_row :: job_row where
  "running_row = sample_job\<lparr>jr_status := PUBLISHING, jr_client_confirmation := Some True\<rparr>"

definition running_db :: db where
  "running_db = draft_db\<lparr>publish_jobs := [running_row]\<rparr>"

definition running_job :: publish_job where
  "running_job = row_job running_row"

lemma integrity_running_db: "integrity running_db" "targets_readable running_db" "current_ok running_db"
  by (simp_all add: integrity_def constraint_defs targets_readable_def current_ok_def artifacts_ok_def
      sample_defs draft_defs running_db_def running_row_def)

definition sample_payload :: task_payload where
  "sample_payload = \<lparr>tp_job_id = 20, tp_correlation_id = 21, tp_idempotency_key = ''key''\<rparr>"

abbreviation sample_fresh :: "nat \<Rightarrow> uuid" where
  "sample_fresh i \<equiv> 40 + of_nat i"

text \<open>A dry run of the sample job, from the message to the settled job.\<close>

definition dry_row :: job_row where
  "dry_row = running_row\<lparr>jr_dry_run := True\<rparr>"

definition dry_db :: db where
  "dry_db = draft_db\<lparr>publish_jobs := [dry_row]\<rparr>"

lemmas dry_defs = dry_db_def dry_row_def running_row_def

lemma integrity_dry_db: "integrity dry_db" "targets_readable dry_db"
  by (simp_all add: integrity_def constraint_defs targets_readable_def sample_defs draft_defs dry_defs)

lemma dry_load:
  "load_task sample_payload dry_db =
     (Inr (row_job dry_row, [row_target (sample_target, sample_station)]), dry_db)"
  by (simp add: load_task_def sx_simps job_by_def dry_defs sample_defs draft_defs sample_payload_def
      validate_payload_def targets_list_for_job_def target_join_def mk_target_Inr_iff row_target_def
      mk_target_def)

lemma dry_execute:
  obtains res r where "fake_execute mock_adapter (row_job dry_row) [2] True (mock_new Map.empty) =
      (Inr res, mock_new Map.empty)"
    and "wf_targets res = [r]" and "tr_station_id r = 2" and "tr_status r = SIMULATED"
    and "pj_id (wf_job res) = 20"
  by (simp add: fake_execute_def dry_defs sample_job_def enter_fake_def sx_simps simulate_target_def
      transition_def mock_read_mapping_def mock_mapping_def mock_adapter_def mock_new_def)

lemma dry_persist:
  assumes "wf_targets res = [r]" and "tr_station_id r = 2" and "tr_status r = SIMULATED"
    and "pj_id (wf_job res) = 20"
  obtains d' where "persist_result fresh clock (row_job dry_row) [row_target (sample_target, sample_station)]
    res dry_db = (Inr (), d')"
proof -
  let ?t = "resulting_target (row_target (sample_target, sample_station)) r"
  have "integrity (set_job clock (wf_job res) (with_targets [?t] dry_db))"
    by (intro integrity_set_job integrity_with_targets integrity_dry_db)
  moreover have "targets_update ?t dry_db = (Inr (), with_targets [?t] dry_db)"
    by (rule targets_update_ok [where g = sample_target])
      (simp_all add: resulting_target_def dry_defs draft_defs row_target_def)
  moreover have "targets_list_for_job 20 dry_db = (Inr [row_target (sample_target, sample_station)], dry_db)"
    by (simp add: targets_list_for_job_def target_join_def dry_defs sample_defs draft_defs mk_target_def row_target_def)
  moreover have "job_by dry_db 20 = Some dry_row" "jr_id dry_row = 20" "jr_dry_run dry_row"
    by (simp_all add: job_by_def dry_defs sample_job_def)
  moreover have "target_of [row_target (sample_target, sample_station)] 2 = Inr (row_target (sample_target, sample_station))"
    "mk_target ?t = Inr ?t"
    by (simp_all add: target_of_def mk_target_def resulting_target_def row_target_def sample_station_def)
  ultimately show ?thesis
    using assms
    by (intro that [of "set_job clock (wf_job res) (with_targets [?t] dry_db)"])
      (simp add: persist_result_def persist_body_def persist_target_def persist_artifact_def sx_simps
        jobs_update_eq)
qed

theorem task_settles_once_witness:
  "\<exists>d'. handle_publish_task (fake_task_execute mock_adapter sample_fresh (Aware 0 0)) sample_payload
       (dry_db, mock_new Map.empty) = (Inr (), (d', mock_new Map.empty))
     \<and> handle_publish_task (fake_task_execute mock_adapter sample_fresh (Aware 0 0)) sample_payload
       (d', mock_new Map.empty) = (Inr (), (d', mock_new Map.empty))"
proof -
  obtain res r where exec: "fake_execute mock_adapter (row_job dry_row) [2] True (mock_new Map.empty) =
      (Inr res, mock_new Map.empty)"
    and r: "wf_targets res = [r]" "tr_station_id r = 2" "tr_status r = SIMULATED" "pj_id (wf_job res) = 20"
    by (rule dry_execute)
  obtain d' where persist: "persist_result sample_fresh (Aware 0 0) (row_job dry_row)
      [row_target (sample_target, sample_station)] res dry_db = (Inr (), d')"
    by (rule dry_persist [OF r])
  have job: "pj_correlation_id (row_job dry_row) = 21" "\<not> terminal (pj_status (row_job dry_row))"
    "pj_client_confirmation (row_job dry_row) = Some True"
    by (simp_all add: dry_defs sample_job_def terminal_def)
  have target: "tg_selected (row_target (sample_target, sample_station))"
    "tg_station_id (row_target (sample_target, sample_station)) = 2"
    by (simp_all add: sample_target_def sample_station_def)
  have run: "handle_publish_task (fake_task_execute mock_adapter sample_fresh (Aware 0 0)) sample_payload
       (dry_db, mock_new Map.empty) = (Inr (), (d', mock_new Map.empty))"
    using job target exec persist
    by (simp add: handle_publish_task_def fake_task_execute_def guarded_execute_eq sx_simps dry_load
        sample_payload_def [THEN arg_cong [where f = tp_correlation_id]])
  from task_settles_once [OF disjI1 [OF refl] integrity_dry_db run] run show ?thesis by blast
qed

text \<open>A switch that could not be verified: the station still has the current artifact of an older
  job.\<close>

definition older_artifact :: artifact_row where
  "older_artifact =
     \<lparr>pa_id = 33, pa_job_id = 23, pa_station_id = 2, pa_source_dataset = ''tank/golden'',
      pa_dataset_name = ''tank/old1'', pa_snapshot_ref = ''tank/golden@s'',
      pa_mapping_ref = ''zvol/tank/old1'', pa_created_at = Aware 0 0, pa_status = ART_CURRENT,
      pa_is_current = True, pa_deleted_at = None, pa_last_error = None\<rparr>"

definition recovery_db :: db where
  "recovery_db = draft_db\<lparr>publish_jobs := [running_row, sample_job\<lparr>jr_id := 23, jr_idempotency_key := ''key2''\<rparr>],
     publish_artifacts := [older_artifact]\<rparr>"

definition recovery_target :: target_result where
  "recovery_target =
     \<lparr>tr_station_id = 2, tr_status = RECOVERY_REQUIRED, tr_old_mapping = Some ''zvol/tank/old1'',
      tr_new_mapping = Some ''zvol/tank/new1'', tr_error_code = None, tr_error_message = None,
      tr_storage_created = True\<rparr>"

definition recovery_result :: workflow_result where
  "recovery_result = \<lparr>wf_job = (row_job running_row)\<lparr>pj_status := FAILED\<rparr>,
     wf_master_mapping = Some ''tank/golden@s'', wf_targets = [recovery_target]\<rparr>"

definition recovery_run :: "unit result \<times> db" where
  "recovery_run = persist_result sample_fresh (Aware 0 0) (row_job running_row)
     [row_target (sample_target, sample_station)] recovery_result recovery_db"

lemma recovery_db_ok: "integrity recovery_db" "current_ok recovery_db" "targets_readable recovery_db"
  by (simp_all add: integrity_def constraint_defs targets_readable_def current_ok_def artifacts_ok_def
      sample_defs draft_defs running_row_def recovery_db_def older_artifact_def)

lemma recovery_run_result: "fst recovery_run = Inr ()"
  by code_simp

theorem persist_keeps_current_witness:
  "case recovery_run of (Inr _, d') \<Rightarrow> integrity d' \<and> current_ok d' | (Inl _, d') \<Rightarrow> d' = recovery_db"
  using persist_keeps_current [OF recovery_db_ok, where fresh = sample_fresh and res = recovery_result
      and clock = "Aware 0 0" and job = "row_job running_row"
      and ts = "[row_target (sample_target, sample_station)]"]
  by (simp add: recovery_run_def recovery_result_def recovery_db_def older_artifact_def inj_on_def)

theorem unverified_retires_current_witness:
  "\<exists>a' \<in> set (publish_artifacts (snd recovery_run)). pa_id a' = 33 \<and> pa_dataset_name a' = ''tank/old1''
     \<and> selected_candidate a'"
proof -
  obtain d' where run: "recovery_run = (Inr (), d')" using recovery_run_result by (metis prod.collapse)
  from unverified_retires_current [OF recovery_db_ok(1) run [unfolded recovery_run_def], of recovery_target
      "''zvol/tank/new1''" older_artifact]
  show ?thesis
    by (simp add: run recovery_result_def recovery_target_def older_artifact_def recovery_db_def
        running_row_def sample_job_def)
qed

text \<open>The sample station was deleted after its disk had been switched.\<close>

lemma deleted_station_blocks_persist_witness:
  "\<exists>e. persist_result sample_fresh (Aware 0 0) (row_job running_row) [row_target (sample_target, sample_station)]
     (recovery_result\<lparr>wf_targets := [recovery_target\<lparr>tr_status := VERIFIED\<rparr>]\<rparr>)
     (recovery_db\<lparr>stations := [removed_row (Aware 0 0) sample_station]\<rparr>)
     = (Inl e, recovery_db\<lparr>stations := [removed_row (Aware 0 0) sample_station]\<rparr>)"
  by (rule deleted_station_blocks_persist [of "recovery_target\<lparr>tr_status := VERIFIED\<rparr>"])
    (simp_all add: recovery_target_def running_row_def sample_job_def active_station_by_def
      station_by_def removed_row_def sample_station_def)

end
