(* ===== verification/Datasets.thy ===== *)
theory Datasets
  imports Publish_Repo TrueNAS_Workflow
begin

text \<open>
  \<open>application/datasets.py\<close>: the inventory of the datasets the controller created, and the queueing
  of operator-selected ones for deletion.  \<open>connect\<close> is the factory of the read-only TrueNAS client,
  absent where the deployment has none; a live mapping is kept as an association list because the
  loop over it runs in insertion order.
\<close>

section \<open>Canonical names\<close>

definition canonical_mapping :: "string \<Rightarrow> string" where
  "canonical_mapping value =
     (let normalized = strip value;
          normalized = (if starts_with ''disk='' normalized then removeprefix ''disk='' normalized
                        else normalized)
      in removeprefix ''/dev/'' normalized)"

definition canonical_dataset :: "string \<Rightarrow> string" where
  "canonical_dataset value = removeprefix ''zvol/'' (canonical_mapping value)"

definition artifact_matches_mapping :: "publish_artifact \<Rightarrow> string \<Rightarrow> bool" where
  "artifact_matches_mapping artifact live_mapping =
     (live_mapping \<in> {canonical_mapping (pa_mapping_ref artifact),
                       canonical_mapping (''zvol/'' @ pa_dataset_name artifact)})"

definition artifact_exists_in_live :: "publish_artifact \<Rightarrow> string list \<Rightarrow> bool" where
  "artifact_exists_in_live artifact live_dataset_names =
     (canonical_dataset (pa_dataset_name artifact) \<in> set live_dataset_names)"

section \<open>Reading the live state\<close>

definition station_live_mapping ::
    "tn_target list \<Rightarrow> tn_target_extent list \<Rightarrow> tn_extent list \<Rightarrow> station \<Rightarrow> string option" where
  "station_live_mapping targets associations extents st =
     (case st_target_name st of
        None \<Rightarrow> None
      | Some target_name \<Rightarrow>
          if target_name = [] then None
          else
            (case filter (\<lambda>t. tt_name t = target_name) targets of
               [target] \<Rightarrow>
                 (case filter (\<lambda>item. tx_target_id item = tt_id target) associations of
                    [association] \<Rightarrow>
                      (case dict_by te_id extents (tx_extent_id association) of
                         None \<Rightarrow> None
                       | Some extent \<Rightarrow> map_option canonical_mapping (te_path extent))
                  | _ \<Rightarrow> None)
             | _ \<Rightarrow> None))"

type_synonym live = "(uuid \<times> string) list"

definition map_station_mappings ::
    "station list \<Rightarrow> tn_target list \<Rightarrow> tn_target_extent list \<Rightarrow> tn_extent list \<Rightarrow> live" where
  "map_station_mappings sts targets associations extents =
     foldl (\<lambda>live st. case station_live_mapping targets associations extents st of
                        None \<Rightarrow> live | Some m \<Rightarrow> AList.update (st_station_id st) m live) [] sts"

definition read_live_state ::
    "('s, 's truenas_client) sx \<Rightarrow> station list \<Rightarrow> ('s, live \<times> string list) sx" where
  "read_live_state connect sts =
     bindS connect (\<lambda>client.
     bindS (finallyS
        (catchS
          (bindS (tc_query_datasets client) (\<lambda>datasets.
           bindS (tc_query_targets client) (\<lambda>targets.
           bindS (tc_query_target_extents client) (\<lambda>associations.
           bindS (tc_query_extents client) (\<lambda>extents.
           returnS (datasets, targets, associations, extents))))))
          (\<lambda>_. raiseS (DatasetStorageSyncError ''TrueNAS current dataset mapping could not be verified'')))
        (tc_close_read client)) (\<lambda>(datasets, targets, associations, extents).
     returnS (map_station_mappings sts targets associations extents,
              map (\<lambda>dataset. canonical_dataset (td_name dataset)) datasets)))"

section \<open>Reconciling the records\<close>

definition live_matches :: "publish_artifact list \<Rightarrow> uuid \<Rightarrow> string \<Rightarrow> publish_artifact list" where
  "live_matches artifacts sid live_mapping =
     filter (\<lambda>a. pa_station_id a = sid \<and> pa_deleted_at a = None
                 \<and> artifact_matches_mapping a live_mapping) artifacts"

definition current_id :: "publish_artifact list \<Rightarrow> uuid \<Rightarrow> string \<Rightarrow> uuid option" where
  "current_id artifacts sid live_mapping =
     (case live_matches artifacts sid live_mapping of [a] \<Rightarrow> Some (pa_id a) | _ \<Rightarrow> None)"

definition persist_current_state :: "publish_artifact list \<Rightarrow> live \<Rightarrow> (db, unit) sx" where
  "persist_current_state artifacts live =
     (if live = [] then returnS ()
      else with_uow
        (bindS (forS (\<lambda>(sid, m). sess (artifacts_set_current sid (current_id artifacts sid m))) live)
           (\<lambda>_. commit)))"

definition reconcile_artifact :: "(uuid \<rightharpoonup> uuid option) \<Rightarrow> publish_artifact \<Rightarrow> publish_artifact" where
  "reconcile_artifact current_ids artifact =
     (case current_ids (pa_station_id artifact) of
        None \<Rightarrow> artifact
      | Some expected_id \<Rightarrow>
          if pa_deleted_at artifact \<noteq> None then artifact
          else if Some (pa_id artifact) = expected_id
          then artifact\<lparr>pa_status := ART_CURRENT, pa_is_current := True, pa_last_error := None\<rparr>
          else artifact\<lparr>pa_status := (if pa_status artifact = ART_CURRENT then ART_RETIRED
                                       else pa_status artifact),
                        pa_is_current := False\<rparr>)"

definition reconcile_artifacts :: "publish_artifact list \<Rightarrow> live \<Rightarrow> publish_artifact list" where
  "reconcile_artifacts artifacts live =
     (let current_ids = map_of (map (\<lambda>(sid, m). (sid, current_id artifacts sid m)) live)
      in map (reconcile_artifact current_ids) artifacts)"

section \<open>The use cases\<close>

definition list_datasets ::
    "('s, 's truenas_client) sx option \<Rightarrow> bool \<Rightarrow> (db \<times> 's, publish_artifact list) sx" where
  "list_datasets read_factory include_deleted =
     (case read_factory of
        None \<Rightarrow> on_db (with_uow (sess (artifacts_list_all include_deleted)))
      | Some connect \<Rightarrow>
          bindS (on_db (with_uow
            (bindS (sess (artifacts_list_all include_deleted)) (\<lambda>artifacts.
             bindS (sess (stations_list True)) (\<lambda>sts.
             returnS (artifacts, sts)))))) (\<lambda>(artifacts, sts).
          bindS (on_ext (read_live_state connect sts)) (\<lambda>(live, live_dataset_names).
          bindS (on_db (persist_current_state artifacts live)) (\<lambda>_.
          let reconciled = reconcile_artifacts artifacts live
          in returnS (if include_deleted then reconciled
                      else filter (\<lambda>a. artifact_exists_in_live a live_dataset_names) reconciled)))))"

definition stations_of ::
    "publish_artifact list \<Rightarrow> (uow, (uuid \<times> station) list) sx" where
  "stations_of selected =
     foldS (\<lambda>stations_by_id artifact.
       bindS (sess (stations_get (pa_station_id artifact))) (\<lambda>found.
       returnS (case found of
                  None \<Rightarrow> stations_by_id
                | Some st \<Rightarrow> AList.update (st_station_id st) st stations_by_id))) [] selected"

text \<open>What the queueing reads: the selected records, the records to reconcile and their stations.\<close>

definition load_selection ::
    "bool \<Rightarrow> uuid list \<Rightarrow> (db, publish_artifact list \<times> publish_artifact list \<times> station list) sx" where
  "load_selection live ids = with_uow
     (bindS (sess (artifacts_list_by_ids ids)) (\<lambda>selected.
      if \<not> live then returnS (selected, selected, [])
      else bindS (sess (artifacts_list_all True)) (\<lambda>artifacts.
           bindS (stations_of selected) (\<lambda>stations_by_id.
           returnS (selected, artifacts, map snd stations_by_id)))))"

definition check_selection :: "publish_artifact list \<Rightarrow> uuid list \<Rightarrow> unit result" where
  "check_selection selected ids =
     (let selected_by_id = dict_by pa_id selected;
          holds = (\<lambda>P. list_ex (\<lambda>i. case selected_by_id i of None \<Rightarrow> False | Some a \<Rightarrow> P a) ids)
      in if holds pa_is_current
         then Inl (DatasetSelectionError ''the dataset currently used by a station cannot be deleted'')
         else if holds (\<lambda>a. pa_deleted_at a \<noteq> None)
         then Inl (DatasetSelectionError ''one or more selected datasets were already deleted'')
         else Inr ())"

definition queue_dataset_cleanup ::
    "(uuid list \<Rightarrow> ('s, unit) sx) \<Rightarrow> ('s, 's truenas_client) sx option \<Rightarrow> uuid list
     \<Rightarrow> (db \<times> 's, uuid list) sx" where
  "queue_dataset_cleanup enqueue read_factory artifact_ids =
     (let normalized_ids = dict_fromkeys artifact_ids
      in if normalized_ids = []
         then raiseS (DatasetSelectionError ''at least one dataset must be selected'')
         else
           bindS (on_db (load_selection (read_factory \<noteq> None) normalized_ids))
             (\<lambda>(selected, artifacts, sts).
           if \<not> list_all (\<lambda>i. dict_by pa_id selected i \<noteq> None) normalized_ids
           then raiseS (DatasetSelectionError ''one or more selected datasets were not found'')
           else
             bindS (case read_factory of
                 None \<Rightarrow> returnS selected
               | Some connect \<Rightarrow>
                   bindS (on_ext (read_live_state connect sts)) (\<lambda>(live, _).
                   bindS (on_db (persist_current_state artifacts live)) (\<lambda>_.
                   returnS (reconcile_artifacts selected live)))) (\<lambda>selected.
             bindS (liftR (check_selection selected normalized_ids)) (\<lambda>_.
             bindS (on_ext (enqueue normalized_ids)) (\<lambda>_.
             returnS normalized_ids)))))"

end
