(* ===== verification/Dataset_Facts.thy ===== *)
theory Dataset_Facts
  imports Datasets Artifact_Facts
begin

text \<open>
  The inventory's two ways of settling which record is current, in the table and in the returned
  records, compared.
\<close>

section \<open>What the table is told\<close>

definition settled :: "(uuid \<rightharpoonup> uuid option) \<Rightarrow> artifact_row \<Rightarrow> artifact_row" where
  "settled c r = (case c (pa_station_id r) of None \<Rightarrow> r | Some i \<Rightarrow> current_artifact_row i r)"

definition current_map :: "publish_artifact list \<Rightarrow> live \<Rightarrow> uuid \<rightharpoonup> uuid option" where
  "current_map artifacts live = map_of (map (\<lambda>(sid, m). (sid, current_id artifacts sid m)) live)"

definition settle_db :: "(uuid \<rightharpoonup> uuid option) \<Rightarrow> db \<Rightarrow> db" where
  "settle_db c d = d\<lparr>publish_artifacts := map (settled c) (publish_artifacts d)\<rparr>"

lemma settled_keys [simp]:
  "pa_id (settled c r) = pa_id r" "pa_job_id (settled c r) = pa_job_id r"
  "pa_station_id (settled c r) = pa_station_id r"
  "pa_created_at (settled c r) = pa_created_at r"
  "pa_status (settled c r) = ART_DELETED \<longleftrightarrow> pa_status r = ART_DELETED"
  by (auto simp: settled_def current_artifact_row_def split: option.split)

lemma current_map_apply:
  "current_map artifacts live sid = map_option (current_id artifacts sid) (map_of live sid)"
  by (induction live) (auto simp: current_map_def)

lemma set_currents:
  assumes "distinct (map fst live)"
  shows "forS (\<lambda>(sid, m). sess (artifacts_set_current sid (current_id artifacts sid m))) live u =
    (Inr (), u\<lparr>session := settle_db (current_map artifacts live) (session u)\<rparr>)"
  using assms
proof (induction live arbitrary: u)
  case Nil
  have "settled (current_map artifacts []) r = r" for r by (simp add: settled_def current_map_def)
  then show ?case by (simp add: sx_simps settle_db_def map_idI)
next
  case (Cons p live)
  obtain sid m where p: "p = (sid, m)" by fastforce
  let ?c = "current_map artifacts live" and ?i = "current_id artifacts sid m"
  have none: "?c sid = None"
    using Cons.prems p by (auto simp: current_map_apply map_of_eq_None_iff)
  have "settled ?c (if pa_station_id r = sid then current_artifact_row ?i r else r) =
      settled (current_map artifacts (p # live)) r" for r
    using none by (simp add: settled_def p current_map_def current_artifact_row_def)
  then show ?case
    using Cons by (simp add: p sx_simps artifacts_set_current_def settle_db_def update_where_def comp_def)
qed

lemma integrity_settle_db: "integrity d \<Longrightarrow> integrity (settle_db c d)"
  unfolding settle_db_def by (rule integrity_map_artifacts) simp_all

lemma persist_current_eq:
  assumes "integrity d" and "distinct (map fst live)"
  shows "persist_current_state artifacts live d = (Inr (), settle_db (current_map artifacts live) d)"
proof (cases "live = []")
  case True
  have "settled (current_map artifacts []) r = r" for r by (simp add: settled_def current_map_def)
  with True show ?thesis by (simp add: persist_current_state_def sx_simps settle_db_def map_idI)
next
  case False
  then show ?thesis
    using integrity_settle_db [OF assms(1)]
    by (simp add: persist_current_state_def with_uow_apply bindS_apply set_currents [OF assms(2)] commit_apply)
qed

section \<open>The live mappings\<close>

lemma distinct_live: "distinct (map fst (map_station_mappings sts ts ls es))"
proof -
  have "distinct (map fst (foldl (\<lambda>live st. case station_live_mapping ts ls es st of
      None \<Rightarrow> live | Some m \<Rightarrow> AList.update (st_station_id st) m live) live sts))"
    if "distinct (map fst live)" for live :: live
    using that by (induction sts arbitrary: live) (auto simp: distinct_update split: option.split)
  then show ?thesis by (simp add: map_station_mappings_def)
qed

lemma read_live_distinct:
  "read_live_state connect sts s = (Inr (live, names), s') \<Longrightarrow> distinct (map fst live)"
  by (auto simp: read_live_state_def sx_simps split_def distinct_live split: prod.splits sum.splits)

section \<open>The records against the table\<close>

text \<open>A record is deleted exactly when its time of deletion is set, and then not current.\<close>

definition deletions_ok :: "db \<Rightarrow> bool" where
  "deletions_ok d \<longleftrightarrow>
     (\<forall>r \<in> set (publish_artifacts d). (pa_status r = ART_DELETED \<longleftrightarrow> pa_deleted_at r \<noteq> None)
        \<and> (pa_deleted_at r \<noteq> None \<longrightarrow> \<not> pa_is_current r))"

lemma settled_reconciled:
  assumes "pa_status r = ART_DELETED \<longleftrightarrow> pa_deleted_at r \<noteq> None"
    and "pa_deleted_at r \<noteq> None \<longrightarrow> \<not> pa_is_current r"
  shows "artifact_to_domain (settled c r) = reconcile_artifact c (artifact_to_domain r)"
  using assms
  by (cases "pa_deleted_at r")
    (auto simp: settled_def reconcile_artifact_def current_artifact_row_def artifact_to_domain_def
      split: option.split)

end
