(* ===== verification/Dataset_Properties.thy ===== *)
theory Dataset_Properties
  imports Dataset_Facts TrueNAS_Properties Samples
begin

text \<open>
  The guarantees of the dataset inventory: what it returns is what the table says afterwards, and
  the deletion queue never receives a dataset in use.
\<close>

section \<open>The inventory\<close>

lemma list_all_settled:
  assumes "deletions_ok d" and "fst (artifacts_list_all b d) = Inr artifacts"
  shows "fst (artifacts_list_all b (settle_db c d)) = Inr (map (reconcile_artifact c) artifacts)"
proof -
  let ?key = "\<lambda>r. (- instant (pa_created_at r), pa_station_id r)"
  let ?rows = "filter (\<lambda>r. b \<or> pa_status r \<noteq> ART_DELETED) (publish_artifacts d)"
  have "filter (\<lambda>r. b \<or> pa_status r \<noteq> ART_DELETED) (map (settled c) (publish_artifacts d)) =
      map (settled c) ?rows"
    by (simp add: filter_map comp_def)
  moreover have "order_by ?key (map (settled c) ?rows) = map (settled c) (order_by ?key ?rows)"
    by (rule order_by_map) simp
  moreover have "map artifact_to_domain (map (settled c) (order_by ?key ?rows)) =
      map (reconcile_artifact c) (map artifact_to_domain (order_by ?key ?rows))"
    using assms(1) by (auto simp: deletions_ok_def settled_reconciled)
  moreover have "artifacts = map artifact_to_domain (order_by ?key ?rows)"
    using assms(2) by (simp add: artifacts_list_all_def)
  ultimately show ?thesis by (simp add: artifacts_list_all_def settle_db_def)
qed

text \<open>C28. What the inventory returns is what the table says after it: the records are reconciled
  in memory and in the table by different code, and both agree.\<close>

theorem inventory_matches_store:
  assumes "integrity d" and "deletions_ok d"
    and "list_datasets (Some connect) include_deleted (d, s) = (Inr xs, (d', s'))"
  shows "\<exists>sts live names ys. fst (stations_list True d) = Inr sts
    \<and> read_live_state connect sts s = (Inr (live, names), s')
    \<and> fst (artifacts_list_all include_deleted d') = Inr ys
    \<and> xs = (if include_deleted then ys else filter (\<lambda>a. artifact_exists_in_live a names) ys)"
proof -
  obtain artifacts where list: "artifacts_list_all include_deleted d = (Inr artifacts, d)"
    by (simp add: artifacts_list_all_def)
  obtain sts where sts: "stations_list True d = (Inr sts, d)"
    using assms(3) list stations_list_state [of True d]
    by (cases "stations_list True d"; cases "fst (stations_list True d)")
      (auto simp: list_datasets_def sx_simps)
  obtain live names s1 where live: "read_live_state connect sts s = (Inr (live, names), s1)"
    using assms(3) by (cases "read_live_state connect sts s"; cases "fst (read_live_state connect sts s)")
      (auto simp: list_datasets_def sx_simps list sts)
  note persist = persist_current_eq [OF assms(1) read_live_distinct [OF live], of artifacts]
  let ?c = "current_map artifacts live"
  from assms(3) have s': "s1 = s'" and d': "d' = settle_db ?c d"
    and xs: "xs = (if include_deleted then reconcile_artifacts artifacts live
      else filter (\<lambda>a. artifact_exists_in_live a names) (reconcile_artifacts artifacts live))"
    by (simp_all add: list_datasets_def sx_simps list sts live persist Let_def split: if_splits)
  have "reconcile_artifacts artifacts live = map (reconcile_artifact ?c) artifacts"
    by (simp add: reconcile_artifacts_def current_map_def)
  then have "fst (artifacts_list_all include_deleted d') = Inr (reconcile_artifacts artifacts live)"
    using list_all_settled [OF assms(2), of include_deleted artifacts ?c] list by (simp add: d')
  with sts live s' xs show ?thesis by (intro exI conjI) simp_all
qed

section \<open>Queueing\<close>

lemma live_matches_subset:
  assumes "live_matches artifacts sid m = [a]" and "set selected \<subseteq> set artifacts"
    and "a \<in> set selected" and "distinct selected"
  shows "live_matches selected sid m = [a]"
proof -
  have "set (live_matches selected sid m) = {a}"
  proof -
    have "a \<in> set (live_matches artifacts sid m)" by (simp add: assms(1))
    then have "a \<in> set (live_matches selected sid m)" using assms(3) by (simp add: live_matches_def)
    moreover have "set (live_matches selected sid m) \<subseteq> set (live_matches artifacts sid m)"
      using assms(2) by (auto simp: live_matches_def)
    ultimately show ?thesis using assms(1) by auto
  qed
  moreover have "distinct (live_matches selected sid m)"
    using assms(4) by (simp add: live_matches_def)
  ultimately show ?thesis
    by (cases "live_matches selected sid m"; cases "tl (live_matches selected sid m)") auto
qed

text \<open>A record that passes the check in memory is not current in the table either, although the
  check settled the selected records only and the table was settled from all of them.\<close>

lemma settled_checked:
  assumes "integrity d" and r: "r \<in> set (publish_artifacts d)"
    and all: "live \<noteq> [] \<Longrightarrow> set artifacts = artifact_to_domain ` set (publish_artifacts d)"
    and sel: "selected = map artifact_to_domain rs" "set rs \<subseteq> set (publish_artifacts d)"
      "distinct (map pa_id rs)" "r \<in> set rs"
    and check: "a = reconcile_artifact (current_map selected live) (artifact_to_domain r)"
      "\<not> pa_is_current a" "pa_deleted_at a = None"
  shows "\<not> pa_is_current (settled (current_map artifacts live) r)
    \<and> pa_deleted_at (settled (current_map artifacts live) r) = None"
proof (cases "map_of live (pa_station_id r)")
  case None
  then have "settled (current_map artifacts live) r = r" and "a = artifact_to_domain r"
    by (simp_all add: settled_def check(1) reconcile_artifact_def current_map_apply)
  with check(2,3) show ?thesis by simp
next
  case (Some m)
  let ?sid = "pa_station_id r"
  have all: "set artifacts = artifact_to_domain ` set (publish_artifacts d)"
    using all Some by force
  have undeleted: "pa_deleted_at r = None"
    using check(1,3) Some by (auto simp: reconcile_artifact_def current_map_apply split: if_splits)
  have "current_id artifacts ?sid m \<noteq> Some (pa_id r)"
  proof
    assume "current_id artifacts ?sid m = Some (pa_id r)"
    then obtain x where x: "live_matches artifacts ?sid m = [x]" "pa_id x = pa_id r"
      by (auto simp: current_id_def split: list.splits)
    have "x \<in> set (live_matches artifacts ?sid m)" by (simp add: x(1))
    then have "x \<in> set artifacts" by (simp add: live_matches_def)
    with all obtain y where y: "y \<in> set (publish_artifacts d)" "x = artifact_to_domain y" by blast
    with x(2) r have "y = r" using distinct_map_eq_iff [OF integrityD(12) [OF assms(1)]] by simp
    have "distinct (map pa_id selected)" using sel(1,3) by (simp add: comp_def)
    then have "distinct selected" by (simp add: distinct_map)
    with x(1) sel all y \<open>y = r\<close> have "live_matches selected ?sid m = [x]"
      by (intro live_matches_subset [OF x(1)]) auto
    with x(2) have "current_id selected ?sid m = Some (pa_id r)" by (simp add: current_id_def)
    with Some undeleted have "pa_is_current a"
      by (simp add: check(1) reconcile_artifact_def current_map_apply)
    with check(2) show False by simp
  qed
  with Some undeleted show ?thesis
    by (auto simp: settled_def current_artifact_row_def current_map_apply)
qed

lemma with_uow_session:
  assumes "with_uow m d = (Inr x, d')" and "\<And>u. committed (snd (m u)) = committed u"
  shows "d' = d"
  using assms(1) assms(2) [of "\<lparr>committed = d, session = d\<rparr>"]
  by (simp add: with_uow_def split: prod.splits)

lemma stations_of_state: "snd (stations_of selected u) = u"
proof -
  have "snd (foldS (\<lambda>stations_by_id artifact.
       bindS (sess (stations_get (pa_station_id artifact))) (\<lambda>found.
       returnS (case found of None \<Rightarrow> stations_by_id
                | Some st \<Rightarrow> AList.update (st_station_id st) st stations_by_id))) b selected u) = u" for b
  proof (induction selected arbitrary: b)
    case (Cons a selected)
    obtain r where "stations_get (pa_station_id a) (session u) = (r, session u)"
      using stations_get_state [of "pa_station_id a" "session u"]
      by (cases "stations_get (pa_station_id a) (session u)") auto
    with Cons show ?case by (cases r) (simp_all add: sx_simps)
  qed (simp add: sx_simps)
  then show ?thesis by (simp add: stations_of_def)
qed

lemma load_selection_Inr:
  assumes "load_selection live ids d = (Inr (selected, artifacts, sts), d')" and "ids \<noteq> []"
  shows "d' = d \<and> selected = map artifact_to_domain (filter (\<lambda>r. pa_id r \<in> set ids) (publish_artifacts d))
    \<and> (live \<longrightarrow> set artifacts = artifact_to_domain ` set (publish_artifacts d)
         \<and> (\<exists>al u. stations_of selected \<lparr>committed = d, session = d\<rparr> = (Inr al, u) \<and> sts = map snd al))"
proof (cases live)
  case False
  with assms show ?thesis
    by (auto simp: load_selection_def sx_simps artifacts_list_by_ids_def)
next
  case True
  let ?u = "\<lparr>committed = d, session = d\<rparr>"
  let ?sel = "map artifact_to_domain (filter (\<lambda>r. pa_id r \<in> set ids) (publish_artifacts d))"
  have u: "snd (stations_of ?sel ?u) = ?u" by (rule stations_of_state)
  have "fst (load_selection live ids d) = Inr (selected, artifacts, sts)" "snd (load_selection live ids d) = d'"
    using assms(1) by simp_all
  with True assms(2) u show ?thesis
    by (cases "stations_of ?sel ?u"; cases "fst (stations_of ?sel ?u)")
      (auto simp: load_selection_def sx_simps artifacts_list_by_ids_def artifacts_list_all_def)
qed

lemma queue_Inr:
  assumes "integrity d" and "queue_dataset_cleanup enqueue read_factory ids (d, s) = (Inr ids', (d', s'))"
  obtains (queued) selected artifacts sts live s1 where "ids' = dict_fromkeys ids" and "ids' \<noteq> []"
    and "load_selection (read_factory \<noteq> None) ids' d = (Inr (selected, artifacts, sts), d)"
    and "\<forall>i \<in> set ids'. dict_by pa_id selected i \<noteq> None"
    and "case read_factory of None \<Rightarrow> live = [] \<and> s1 = s
         | Some connect \<Rightarrow> \<exists>names. read_live_state connect sts s = (Inr (live, names), s1)"
    and "d' = settle_db (current_map artifacts live) d"
    and "check_selection (map (reconcile_artifact (current_map selected live)) selected) ids' = Inr ()"
    and "enqueue ids' s1 = (Inr (), s')"
proof -
  let ?ids = "dict_fromkeys ids"
  from assms(2) have ne: "?ids \<noteq> []" by (auto simp: queue_dataset_cleanup_def Let_def raiseS_def)
  obtain selected artifacts sts d1
    where load: "load_selection (read_factory \<noteq> None) ?ids d = (Inr (selected, artifacts, sts), d1)"
    using assms(2) ne
    by (cases "load_selection (read_factory \<noteq> None) ?ids d";
        cases "fst (load_selection (read_factory \<noteq> None) ?ids d)")
      (auto simp: queue_dataset_cleanup_def Let_def sx_simps)
  with load_selection_Inr ne have "d1 = d" by blast
  note load = load [unfolded this]
  have known: "list_all (\<lambda>i. dict_by pa_id selected i \<noteq> None) ?ids"
    using assms(2) ne load by (auto simp: queue_dataset_cleanup_def Let_def sx_simps split: if_splits)
  have id: "settle_db (current_map artifacts []) d = d" "map (reconcile_artifact (current_map selected [])) selected = selected"
    by (auto simp: settle_db_def settled_def reconcile_artifact_def current_map_def map_idI)
  have tail: thesis
    if "case read_factory of None \<Rightarrow> live = [] \<and> s1 = s
         | Some connect \<Rightarrow> \<exists>names. read_live_state connect sts s = (Inr (live, names), s1)"
      and "bindS (liftR (check_selection (map (reconcile_artifact (current_map selected live)) selected) ?ids))
         (\<lambda>_. bindS (on_ext (enqueue ?ids)) (\<lambda>_. returnS ?ids)) (settle_db (current_map artifacts live) d, s1)
         = (Inr ids', (d', s'))" for live s1
    using that(2) ne load known
    by (intro queued [of selected artifacts sts live s1, OF _ _ _ _ that(1)])
      (auto simp: sx_simps list_all_iff split: sum.splits prod.splits)
  show ?thesis
  proof (cases read_factory)
    case None
    with assms(2) ne load known id show ?thesis
      by (intro tail [of "[]" s]) (simp_all add: queue_dataset_cleanup_def Let_def sx_simps)
  next
    case (Some connect)
    obtain live names s1 where live: "read_live_state connect sts s = (Inr (live, names), s1)"
      using assms(2) Some ne load known
      by (cases "read_live_state connect sts s"; cases "fst (read_live_state connect sts s)")
        (auto simp: queue_dataset_cleanup_def Let_def sx_simps)
    have "reconcile_artifacts selected live = map (reconcile_artifact (current_map selected live)) selected"
      by (simp add: reconcile_artifacts_def current_map_def)
    with assms(2) Some ne load known live persist_current_eq [OF assms(1) read_live_distinct [OF live]]
    show ?thesis
      by (intro tail [of live s1]) (simp_all add: queue_dataset_cleanup_def Let_def sx_simps)
  qed
qed

lemma check_selection_Inr:
  assumes "check_selection selected ids = Inr ()" and "i \<in> set ids" and "dict_by pa_id selected i = Some a"
  shows "\<not> pa_is_current a \<and> pa_deleted_at a = None"
  using assms by (auto simp: check_selection_def Let_def list_ex_iff split: if_splits)

text \<open>C26. A dataset that reaches the deletion queue is in no use: the queue receives exactly the
  distinct selected ids, and at that moment the table holds each of them as a record that is neither
  current nor deleted.\<close>

theorem queue_spares_current:
  assumes "integrity d" and "queue_dataset_cleanup enqueue read_factory ids (d, s) = (Inr ids', (d', s'))"
  shows "ids' = dict_fromkeys ids \<and> (\<exists>s1. enqueue ids' s1 = (Inr (), s'))
    \<and> (\<forall>i \<in> set ids'. \<exists>r \<in> set (publish_artifacts d').
         pa_id r = i \<and> \<not> pa_is_current r \<and> pa_deleted_at r = None)"
proof (rule queue_Inr [OF assms])
  fix selected artifacts sts live s1
  let ?rs = "filter (\<lambda>r. pa_id r \<in> set ids') (publish_artifacts d)"
  let ?rec = "reconcile_artifact (current_map selected live)"
  assume ids: "ids' = dict_fromkeys ids" "ids' \<noteq> []"
    and load: "load_selection (read_factory \<noteq> None) ids' d = (Inr (selected, artifacts, sts), d)"
    and known: "\<forall>i \<in> set ids'. dict_by pa_id selected i \<noteq> None"
    and live: "case read_factory of None \<Rightarrow> live = [] \<and> s1 = s
         | Some connect \<Rightarrow> \<exists>names. read_live_state connect sts s = (Inr (live, names), s1)"
    and d': "d' = settle_db (current_map artifacts live) d"
    and check: "check_selection (map ?rec selected) ids' = Inr ()"
    and queued: "enqueue ids' s1 = (Inr (), s')"
  from load_selection_Inr [OF load ids(2)] live have sel: "selected = map artifact_to_domain ?rs"
    and all: "live \<noteq> [] \<Longrightarrow> set artifacts = artifact_to_domain ` set (publish_artifacts d)"
    by (auto split: option.splits)
  have dist: "distinct (map pa_id ?rs)" using integrityD(12) [OF assms(1)] by (simp add: distinct_map_filter)
  have "\<exists>r \<in> set (publish_artifacts d'). pa_id r = i \<and> \<not> pa_is_current r \<and> pa_deleted_at r = None"
    if i: "i \<in> set ids'" for i
  proof -
    from known i obtain a where "dict_by pa_id selected i = Some a" by blast
    from dict_by_SomeD [OF this] sel obtain r where r: "r \<in> set ?rs" "pa_id r = i" by auto
    let ?a = "?rec (artifact_to_domain r)"
    have ids_rec: "pa_id (?rec x) = pa_id x" for x
      by (simp add: reconcile_artifact_def split: option.split)
    then have "distinct (map pa_id (map ?rec selected))" using dist sel by (simp add: comp_def)
    moreover have "?a \<in> set (map ?rec selected)" using r(1) sel by auto
    ultimately have "dict_by pa_id (map ?rec selected) (pa_id ?a) = Some ?a" by (rule dict_by_distinct)
    with check_selection_Inr [OF check i, of ?a] r(2) have "\<not> pa_is_current ?a \<and> pa_deleted_at ?a = None"
      by (simp add: ids_rec)
    with settled_checked [OF assms(1) _ all sel _ dist r(1), of live ?a] r(1)
    have "\<not> pa_is_current (settled (current_map artifacts live) r)
      \<and> pa_deleted_at (settled (current_map artifacts live) r) = None" by auto
    with r show ?thesis by (intro bexI [of _ "settled (current_map artifacts live) r"]) (auto simp: d' settle_db_def)
  qed
  with ids(1) queued show ?thesis by blast
qed

section \<open>Queueing and the live disks\<close>

lemma live_lookup:
  assumes "distinct (map st_station_id sts)" and "st \<in> set sts"
  shows "map_of (map_station_mappings sts ts ls es) (st_station_id st) = station_live_mapping ts ls es st"
proof -
  let ?f = "\<lambda>live st. case station_live_mapping ts ls es st of
      None \<Rightarrow> live | Some m \<Rightarrow> AList.update (st_station_id st) m live"
  have other: "sid \<notin> st_station_id ` set sts \<Longrightarrow> map_of (foldl ?f live sts) sid = map_of live sid"
    for sid sts live
    by (induction sts arbitrary: live) (auto simp: update_conv' split: option.split)
  have "map_of (foldl ?f live sts) (st_station_id st) = station_live_mapping ts ls es st"
    if "map_of live (st_station_id st) = None" for live
    using assms that
  proof (induction sts arbitrary: live)
    case (Cons x xs)
    show ?case
    proof (cases "st = x")
      case True
      with Cons.prems have "st_station_id st \<notin> st_station_id ` set xs" by auto
      from other [OF this, of "?f live st"] True Cons.prems(3) show ?thesis
        by (cases "station_live_mapping ts ls es x") (simp_all add: update_conv')
    next
      case False
      with Cons.prems have "st \<in> set xs" by simp
      then have "st_station_id st \<noteq> st_station_id x"
        using Cons.prems(1) by (metis distinct.simps(2) image_eqI list.set_map list.simps(9))
      with \<open>st \<in> set xs\<close> Cons show ?thesis by (auto simp: update_conv' split: option.split)
    qed
  qed simp
  then show ?thesis by (simp add: map_station_mappings_def)
qed

lemma stations_of_Inr:
  assumes "stations_of selected u = (Inr al, u')"
  shows "distinct (map st_station_id (map snd al))
    \<and> (\<forall>a \<in> set selected. \<forall>row. station_by (session u) (pa_station_id a) = Some row
         \<longrightarrow> row_station row \<in> set (map snd al))"
proof -
  let ?f = "\<lambda>stations_by_id artifact.
       bindS (sess (stations_get (pa_station_id artifact))) (\<lambda>found.
       returnS (case found of None \<Rightarrow> stations_by_id
                | Some st \<Rightarrow> AList.update (st_station_id st) st stations_by_id))"
  let ?I = "\<lambda>done_rows al v. v = u \<and> distinct (map fst al)
    \<and> (\<forall>(k, st) \<in> set al. k = st_station_id st
         \<and> (\<exists>row. station_by (session u) k = Some row \<and> st = row_station row))
    \<and> (\<forall>a \<in> set done_rows. \<forall>row. station_by (session u) (pa_station_id a) = Some row
         \<longrightarrow> pa_station_id a \<in> fst ` set al)"
  have step: "after (?f b x) (?I (ys @ [x])) (\<lambda>_ _. True) v" if I: "?I ys b v" for ys :: "publish_artifact list" and b x v
  proof (cases "fst (stations_get (pa_station_id x) (session u))")
    case (Inl e)
    then show ?thesis
      by (cases "stations_get (pa_station_id x) (session u)") (use I in \<open>simp add: after_def sx_simps\<close>)
  next
    case (Inr found)
    then have get: "stations_get (pa_station_id x) (session u) = (Inr found, session u)"
      using stations_get_state [of "pa_station_id x" "session u"] by (metis prod.collapse)
    then have found: "found = map_option row_station (station_by (session u) (pa_station_id x))"
      using stations_get_Inr by blast
    show ?thesis
    proof (cases "station_by (session u) (pa_station_id x)")
      case None
      with I get found show ?thesis by (auto simp: after_def sx_simps)
    next
      case (Some row)
      have key: "st_station_id (row_station row) = pa_station_id x"
        using station_by_SomeD [OF Some] by simp
      let ?b = "AList.update (pa_station_id x) (row_station row) b"
      have run: "?f b x v = (Inr ?b, u)"
        using I get found Some key by (simp add: sx_simps)
      have "set (AList.update k y al) \<subseteq> insert (k, y) (set al)" for k y and al :: "(uuid \<times> station) list"
        by (induction al) auto
      then have sub: "set ?b \<subseteq> insert (pa_station_id x, row_station row) (set b)" .
      have "case p of (k, st) \<Rightarrow> k = st_station_id st
         \<and> (\<exists>row. station_by (session u) k = Some row \<and> st = row_station row)" if p: "p \<in> set ?b" for p
      proof (cases "p \<in> set b")
        case False
        with p sub have "p = (pa_station_id x, row_station row)" by blast
        with key Some I show ?thesis by simp
      next
        case True
        with I show ?thesis by (meson case_prodI2 case_prodD)
      qed
      moreover have "fst ` set ?b = insert (pa_station_id x) (fst ` set b)"
        by (simp add: AList.dom_update)
      moreover have "distinct (map fst ?b)" using I by (simp add: distinct_update)
      ultimately show ?thesis using I unfolding after_def run by (simp add: Ball_def)
    qed
  qed
  have "after (stations_of selected) (?I selected) (\<lambda>_ _. True) u"
    unfolding stations_of_def by (rule after_foldS_prefix) (use step in auto)
  from after_Inr [OF this assms] have I: "distinct (map fst al)"
    "\<forall>(k, st) \<in> set al. k = st_station_id st \<and> (\<exists>row. station_by (session u) k = Some row \<and> st = row_station row)"
    "\<forall>a \<in> set selected. \<forall>row. station_by (session u) (pa_station_id a) = Some row
         \<longrightarrow> pa_station_id a \<in> fst ` set al" by simp_all
  have keys: "map st_station_id (map snd al) = map fst al" using I(2) by (auto simp: split_beta)
  have "row_station row \<in> set (map snd al)"
    if "a \<in> set selected" "station_by (session u) (pa_station_id a) = Some row" for a row
    using I(2,3) that by force
  with I(1) show ?thesis unfolding keys by blast
qed

text \<open>The disk behind a station: its target's only extent and the device of that extent.\<close>

definition station_disk :: "nas_view \<Rightarrow> station \<Rightarrow> string option" where
  "station_disk v st =
     (case st_target_name st of
        None \<Rightarrow> None
      | Some name \<Rightarrow>
          (case filter (\<lambda>t. tt_name t = name) (nv_targets v) of
             [t] \<Rightarrow>
               (case filter (\<lambda>x. tx_target_id x = tt_id t) (nv_links v) of
                  [x] \<Rightarrow> (case nv_device v (tx_extent_id x) of Some dev \<Rightarrow> dev | None \<Rightarrow> None)
                | _ \<Rightarrow> None)
           | _ \<Rightarrow> None))"

lemma station_disk_live:
  assumes "station_disk v st = Some dev" and "st_target_name st \<noteq> Some []"
    and "distinct (map te_id xs)" and "map_of (map (\<lambda>x. (te_id x, te_path x)) xs) = nv_device v"
  shows "station_live_mapping (nv_targets v) (nv_links v) xs st = Some (canonical_mapping dev)"
proof -
  obtain name t y where name: "st_target_name st = Some name" "name \<noteq> []"
    and t: "filter (\<lambda>t. tt_name t = name) (nv_targets v) = [t]"
    and y: "filter (\<lambda>x. tx_target_id x = tt_id t) (nv_links v) = [y]"
    and dev: "nv_device v (tx_extent_id y) = Some (Some dev)"
    using assms(1,2) unfolding station_disk_def
    by (auto split: option.splits list.splits)
  from dev [folded assms(4)] obtain x where x: "x \<in> set xs" "te_id x = tx_extent_id y" "te_path x = Some dev"
    by (auto dest!: map_of_SomeD)
  from dict_by_distinct [OF assms(3) x(1)] x(2) have "dict_by te_id xs (tx_extent_id y) = Some x" by simp
  with name t y x(3) show ?thesis by (simp add: station_live_mapping_def)
qed

context truenas_port
begin

lemma read_live_after:
  assumes "ok s"
  shows "after (read_live_state (returnS C) sts)
    (\<lambda>(live, _) _. \<exists>xs. distinct (map te_id xs)
       \<and> map_of (map (\<lambda>x. (te_id x, te_path x)) xs) = nv_device (view s)
       \<and> live = map_station_mappings sts (nv_targets (view s)) (nv_links (view s)) xs)
    (\<lambda>_ _. True) s"
proof -
  define v where "v = view s"
  let ?body = "bindS (tc_query_datasets C) (\<lambda>datasets.
     bindS (tc_query_targets C) (\<lambda>targets.
     bindS (tc_query_target_extents C) (\<lambda>associations.
     bindS (tc_query_extents C) (\<lambda>extents.
     returnS (datasets, targets, associations, extents)))))"
  let ?Q = "\<lambda>(datasets, targets, associations, extents). targets = nv_targets v
     \<and> associations = nv_links v \<and> distinct (map te_id extents)
     \<and> map_of (map (\<lambda>x. (te_id x, te_path x)) extents) = nv_device v"
  have 4: "after (tc_query_extents C) (\<lambda>xs. after (returnS (ds, nv_targets v, nv_links v, xs))
      (\<lambda>x _. ?Q x) (\<lambda>_ _. True)) (\<lambda>_ _. True) t" if t: "ok t \<and> view t = v" for ds t
    by (rule after_mono [OF extents [of t]]) (use t in \<open>auto simp: after_return\<close>)
  have 3: "after (tc_query_target_extents C) (\<lambda>ls. after (bindS (tc_query_extents C)
      (\<lambda>xs. returnS (ds, nv_targets v, ls, xs))) (\<lambda>x _. ?Q x) (\<lambda>_ _. True)) (\<lambda>_ _. True) t"
    if t: "ok t \<and> view t = v" for ds t
    unfolding after_bind
    by (rule after_mono [OF target_extents [of t]])
      (use t in blast, (elim conjE, hypsubst, unfold conjunct2 [OF t], rule 4, simp), simp)
  have 2: "after (tc_query_targets C) (\<lambda>ts. after (bindS (tc_query_target_extents C)
      (\<lambda>ls. bindS (tc_query_extents C) (\<lambda>xs. returnS (ds, ts, ls, xs)))) (\<lambda>x _. ?Q x) (\<lambda>_ _. True))
      (\<lambda>_ _. True) t" if t: "ok t \<and> view t = v" for ds t
    unfolding after_bind [of "tc_query_target_extents C"]
    by (rule after_mono [OF targets [of t]])
      (use t in blast, (elim conjE, hypsubst, unfold conjunct2 [OF t], rule 3 [unfolded after_bind [of "tc_query_target_extents C"]], simp), simp)
  have body: "after ?body (\<lambda>x _. ?Q x) (\<lambda>_ _. True) s"
    unfolding after_bind [of "tc_query_datasets C"] after_bind [of "tc_query_targets C"]
    by (rule after_mono [OF datasets_frame [OF assms]]) (unfold v_def [symmetric], rule 2, assumption, simp)
  have close: "?Q x \<Longrightarrow> after (tc_close_read C) (\<lambda>_ _. ?Q x) (\<lambda>_ _. True) t" for x t
    by (auto simp: after_def split: sum.split prod.split)
  have "after (finallyS (catchS ?body (\<lambda>_. raiseS e)) (tc_close_read C)) (\<lambda>x _. ?Q x) (\<lambda>_ _. True) s" for e
    unfolding after_finally after_catch
    by (rule after_mono [OF body]) (use close in \<open>auto simp: after_raise raiseS_apply after_def split: sum.split prod.split\<close>)
  then show ?thesis
    unfolding read_live_state_def after_bind after_return
    by (rule after_mono) (auto simp: after_return v_def)
qed

end

text \<open>C27. With a TrueNAS client that keeps its contract, the dataset behind a station is not queued
  for deletion: a queued record can name the disk its station boots from only if another undeleted
  record of the station names it too.\<close>

theorem queue_spares_live_disk:
  assumes "truenas_port C view ok" and "ok s" and "integrity d"
    and "queue_dataset_cleanup enqueue (Some (returnS C)) ids (d, s) = (Inr ids', (d', s'))"
    and "r \<in> set (publish_artifacts d)" and "pa_id r \<in> set ids'"
    and "station_by d (pa_station_id r) = Some row" and "sr_target_name row \<noteq> Some []"
    and "station_disk (view s) (row_station row) = Some dev"
    and "artifact_matches_mapping r (canonical_mapping dev)"
  shows "\<exists>r' \<in> set (publish_artifacts d). pa_id r' \<noteq> pa_id r \<and> pa_station_id r' = pa_station_id r
    \<and> pa_deleted_at r' = None \<and> artifact_matches_mapping r' (canonical_mapping dev)"
proof (rule queue_Inr [OF assms(3,4)])
  fix selected artifacts sts live s1
  let ?rs = "filter (\<lambda>r. pa_id r \<in> set ids') (publish_artifacts d)"
  let ?a = "artifact_to_domain r" and ?m = "canonical_mapping dev" and ?sid = "pa_station_id r"
  let ?rec = "reconcile_artifact (current_map selected live)"
  assume ids: "ids' \<noteq> []"
    and load: "load_selection (Some (returnS C) \<noteq> None) ids' d = (Inr (selected, artifacts, sts), d)"
    and read: "case Some (returnS C) of None \<Rightarrow> live = [] \<and> s1 = s
         | Some connect \<Rightarrow> \<exists>names. read_live_state connect sts s = (Inr (live, names), s1)"
    and check: "check_selection (map ?rec selected) ids' = Inr ()"
  from load_selection_Inr [OF load ids] obtain al u where sel: "selected = map artifact_to_domain ?rs"
    and sts: "stations_of selected \<lparr>committed = d, session = d\<rparr> = (Inr al, u)" "sts = map snd al" by auto
  have r: "r \<in> set ?rs" "?a \<in> set selected" using assms(5,6) sel by auto
  from stations_of_Inr [OF sts(1)] r(2) assms(7)
  have st: "distinct (map st_station_id sts)" "row_station row \<in> set sts"
    unfolding sts(2) by auto
  from after_Inr [OF truenas_port.read_live_after [OF assms(1,2)]] read
  obtain xs where xs: "distinct (map te_id xs)" "map_of (map (\<lambda>x. (te_id x, te_path x)) xs) = nv_device (view s)"
    and live: "live = map_station_mappings sts (nv_targets (view s)) (nv_links (view s)) xs" by fastforce
  have sid: "sr_station_id row = ?sid" using station_by_SomeD [OF assms(7)] by simp
  have "st_target_name (row_station row) \<noteq> Some []" using assms(8) by (simp add: row_station_def)
  from live_lookup [OF st, of "nv_targets (view s)" "nv_links (view s)" xs]
    station_disk_live [OF assms(9) this xs]
  have m: "map_of live ?sid = Some ?m" by (simp add: live sid)
  have ids_rec: "pa_id (?rec x) = pa_id x" for x by (simp add: reconcile_artifact_def split: option.split)
  have "distinct (map pa_id selected)"
    using integrityD(12) [OF assms(3)] sel by (simp add: distinct_map_filter comp_def)
  then have "distinct (map pa_id (map ?rec selected))" by (simp add: ids_rec comp_def)
  moreover have "?rec ?a \<in> set (map ?rec selected)" using r(2) by simp
  ultimately have "dict_by pa_id (map ?rec selected) (pa_id (?rec ?a)) = Some (?rec ?a)" by (rule dict_by_distinct)
  then have "dict_by pa_id (map ?rec selected) (pa_id r) = Some (?rec ?a)" by (simp add: ids_rec)
  from check_selection_Inr [OF check assms(6) this] m
  have undeleted: "pa_deleted_at r = None" and "current_id selected ?sid ?m \<noteq> Some (pa_id r)"
    by (auto simp: reconcile_artifact_def current_map_apply split: if_splits)
  then have "live_matches selected ?sid ?m \<noteq> [?a]" by (auto simp: current_id_def)
  moreover have "artifact_matches_mapping (artifact_to_domain x) ?m = artifact_matches_mapping x ?m" for x
    by (simp add: artifact_matches_mapping_def)
  note dom = this
  moreover have "?a \<in> set (live_matches selected ?sid ?m)"
    using r(2) undeleted assms(10) by (simp add: live_matches_def dom)
  moreover have "distinct (live_matches selected ?sid ?m)"
    using \<open>distinct (map pa_id selected)\<close> by (simp add: live_matches_def distinct_map)
  ultimately obtain b where b: "b \<in> set (live_matches selected ?sid ?m)" "b \<noteq> ?a"
    by (metis distinct_singleton distinct_length_2_or_more list.set_intros(1) list.set_intros(2) neq_Nil_conv empty_iff empty_set set_ConsD)
  then obtain x where "x \<in> set ?rs" "b = artifact_to_domain x" using sel by (auto simp: live_matches_def)
  moreover from this b have "pa_id x \<noteq> pa_id r"
    using distinct_map_eq_iff [OF integrityD(12) [OF assms(3)], of x r] assms(5) by auto
  ultimately show ?thesis using b(1) by (intro bexI [of _ x]) (auto simp: live_matches_def dom)
qed

section \<open>Two records of one disk\<close>

text \<open>The sample station boots from \<open>zvol/tank/old1\<close>, which two retired records name.\<close>

definition old_artifact :: artifact_row where
  "old_artifact =
     \<lparr>pa_id = 30, pa_job_id = 20, pa_station_id = 2, pa_source_dataset = ''tank/golden'',
      pa_dataset_name = ''tank/old1'', pa_snapshot_ref = ''tank/golden@s'',
      pa_mapping_ref = ''zvol/tank/old1'', pa_created_at = Aware 0 0, pa_status = ART_RETIRED,
      pa_is_current = False, pa_deleted_at = None, pa_last_error = None\<rparr>"

definition named_twice_db :: db where
  "named_twice_db = draft_db\<lparr>publish_jobs := [sample_job, sample_job\<lparr>jr_id := 23, jr_idempotency_key := ''key2''\<rparr>],
     publish_artifacts := [old_artifact, old_artifact\<lparr>pa_id := 33, pa_job_id := 23\<rparr>]\<rparr>"

definition sample_queue :: "uuid list result \<times> db \<times> fake_nas" where
  "sample_queue = queue_dataset_cleanup (\<lambda>_. returnS ()) (Some (returnS fake_client)) [30, 33, 30]
     (named_twice_db, nas_sample)"

definition sample_inventory :: "publish_artifact list result \<times> db \<times> fake_nas" where
  "sample_inventory = list_datasets (Some (returnS fake_client)) True (named_twice_db, nas_sample)"

lemma integrity_named_twice_db: "integrity named_twice_db" "deletions_ok named_twice_db"
  by (simp_all add: integrity_def constraint_defs deletions_ok_def sample_defs draft_defs old_artifact_def named_twice_db_def)

text \<open>The pieces of the two runs, evaluated one by one.\<close>

lemma named_twice_rows:
  "publish_artifacts named_twice_db = [old_artifact, old_artifact\<lparr>pa_id := 33, pa_job_id := 23\<rparr>]"
  "artifact_to_domain old_artifact = old_artifact"
  "artifact_to_domain (old_artifact\<lparr>pa_id := 33, pa_job_id := 23\<rparr>) = old_artifact\<lparr>pa_id := 33, pa_job_id := 23\<rparr>"
  "pa_id old_artifact = 30" "pa_station_id old_artifact = 2" "st_station_id (row_station sample_station) = 2"
  by (simp_all add: named_twice_db_def artifact_to_domain_def old_artifact_def sample_station_def)

lemma sample_selected:
  "load_selection True [30, 33] named_twice_db =
     (Inr ([old_artifact, old_artifact\<lparr>pa_id := 33, pa_job_id := 23\<rparr>],
       [old_artifact, old_artifact\<lparr>pa_id := 33, pa_job_id := 23\<rparr>], [row_station sample_station]), named_twice_db)"
proof -
  have get: "stations_get 2 named_twice_db = (Inr (Some (row_station sample_station)), named_twice_db)"
    using stations_get_total [of named_twice_db 2] sample_readable(1)
    by (simp add: readable_def station_by_def named_twice_db_def draft_db_def enrolled_sample_db_def
        sample_db_def sample_station_def)
  show ?thesis
    by (simp add: load_selection_def sx_simps artifacts_list_by_ids_def artifacts_list_all_def named_twice_rows
        order_by_def stations_of_def get)
qed
lemma sample_canonical: "canonical_mapping ''zvol/tank/old1'' = ''zvol/tank/old1''"
  by code_simp

lemma sample_live:
  "\<exists>names s1. read_live_state (returnS fake_client) [row_station sample_station] nas_sample =
     (Inr ([(2, ''zvol/tank/old1'')], names), s1)"
  by (simp add: read_live_state_def fake_client_def fake_nas_defs sx_simps nas_sample_def nas_new_def
     map_station_mappings_def station_live_mapping_def row_station_def sample_station_def dict_by_def sample_canonical)
lemma sample_reconciled:
  "reconcile_artifacts [old_artifact, old_artifact\<lparr>pa_id := 33, pa_job_id := 23\<rparr>] [(2, ''zvol/tank/old1'')] =
     [old_artifact, old_artifact\<lparr>pa_id := 33, pa_job_id := 23\<rparr>]"
  by (simp add: reconcile_artifacts_def reconcile_artifact_def current_id_def live_matches_def
      artifact_matches_mapping_def old_artifact_def sample_canonical)

lemma sample_queue_result: "fst sample_queue = Inr [30, 33]"
proof -
  obtain names s1 where live: "read_live_state (returnS fake_client) [row_station sample_station] nas_sample =
      (Inr ([(2, ''zvol/tank/old1'')], names), s1)" using sample_live by blast
  have "dict_fromkeys [30, 33, 30 :: uuid] = [30, 33]" by (simp add: dict_fromkeys_def)
  then show ?thesis
    by (simp add: sample_queue_def queue_dataset_cleanup_def Let_def sx_simps sample_selected dict_by_def
        live persist_current_eq [OF integrity_named_twice_db(1)] sample_reconciled check_selection_def)
      (simp add: old_artifact_def)
qed

lemma sample_inventory_result: "map_sum (\<lambda>_. ()) (map pa_id) (fst sample_inventory) = Inr [30, 33]"
proof -
  obtain names s1 where live: "read_live_state (returnS fake_client) [row_station sample_station] nas_sample =
      (Inr ([(2, ''zvol/tank/old1'')], names), s1)" using sample_live by blast
  have "readable named_twice_db" using sample_readable(1)
    by (simp add: readable_def named_twice_db_def draft_db_def enrolled_sample_db_def)
  from stations_list_total [OF this, of True]
  have "fst (stations_list True named_twice_db) = Inr [row_station sample_station]"
    by (simp add: named_twice_db_def draft_db_def enrolled_sample_db_def sample_db_def order_by_def
        sample_station_def)
  then have "stations_list True named_twice_db = (Inr [row_station sample_station], named_twice_db)"
    by (simp add: prod_eq_iff)
  then show ?thesis
    by (simp add: sample_inventory_def list_datasets_def artifacts_list_all_def named_twice_rows order_by_def
        Let_def sx_simps live persist_current_eq [OF integrity_named_twice_db(1)] sample_reconciled)
qed

lemma sample_queue_obtain:
  obtains d' s' where "queue_dataset_cleanup (\<lambda>_. returnS ()) (Some (returnS fake_client)) [30, 33, 30]
     (named_twice_db, nas_sample) = (Inr [30, 33], (d', s'))"
  using sample_queue_result by (cases sample_queue) (auto simp: sample_queue_def)

theorem inventory_matches_store_witness:
  "\<exists>xs d' s' ys. sample_inventory = (Inr xs, (d', s')) \<and> fst (artifacts_list_all True d') = Inr ys \<and> xs = ys"
proof -
  obtain xs where "fst sample_inventory = Inr xs"
    using sample_inventory_result by (cases "fst sample_inventory") auto
  then obtain d' s' where run: "sample_inventory = (Inr xs, (d', s'))" by (metis prod.collapse)
  from inventory_matches_store [OF integrity_named_twice_db, of "returnS fake_client" True nas_sample xs d' s'] run
  show ?thesis by (auto simp: sample_inventory_def)
qed

theorem queue_spares_current_witness:
  "\<exists>d' s'. sample_queue = (Inr [30, 33], (d', s'))
     \<and> (\<forall>i \<in> {30, 33}. \<exists>r \<in> set (publish_artifacts d').
          pa_id r = i \<and> \<not> pa_is_current r \<and> pa_deleted_at r = None)"
proof -
  obtain d' s' where run: "queue_dataset_cleanup (\<lambda>_. returnS ()) (Some (returnS fake_client)) [30, 33, 30]
     (named_twice_db, nas_sample) = (Inr [30, 33], (d', s'))" by (rule sample_queue_obtain)
  from queue_spares_current [OF integrity_named_twice_db(1) run]
  have "\<forall>i \<in> set [30, 33]. \<exists>r \<in> set (publish_artifacts d').
          pa_id r = i \<and> \<not> pa_is_current r \<and> pa_deleted_at r = None" by blast
  with run show ?thesis by (auto simp: sample_queue_def)
qed

theorem queue_spares_live_disk_witness:
  "\<exists>r' \<in> set (publish_artifacts named_twice_db). pa_id r' \<noteq> 30 \<and> pa_station_id r' = 2
    \<and> artifact_matches_mapping r' (canonical_mapping ''zvol/tank/old1'')"
proof -
  obtain d' s' where run: "queue_dataset_cleanup (\<lambda>_. returnS ()) (Some (returnS fake_client)) [30, 33, 30]
     (named_twice_db, nas_sample) = (Inr [30, 33], (d', s'))" by (rule sample_queue_obtain)
  have "station_disk (nas_view nas_sample) (row_station sample_station) = Some ''zvol/tank/old1''"
    by (simp add: station_disk_def nas_view_def nas_device_def nas_sample_def row_station_def sample_station_def)
  moreover have "artifact_matches_mapping old_artifact (canonical_mapping ''zvol/tank/old1'')"
    by code_simp
  moreover have "old_artifact \<in> set (publish_artifacts named_twice_db)" "pa_id old_artifact = 30"
    "pa_station_id old_artifact = 2" by (simp_all add: named_twice_db_def old_artifact_def)
  moreover have "station_by named_twice_db 2 = Some sample_station" "sr_target_name sample_station \<noteq> Some []"
    by (simp_all add: station_by_def named_twice_db_def draft_db_def enrolled_sample_db_def
        sample_db_def sample_station_def)
  ultimately show ?thesis
    using queue_spares_live_disk [OF fake_nas.truenas_port_axioms nas_sample_facts(1)
        integrity_named_twice_db(1) run, of old_artifact sample_station "''zvol/tank/old1''"]
    by auto
qed

end
