(* ===== verification/Worker_Relay.thy ===== *)
theory Worker_Relay
  imports Executor_Facts Dataset_Cleanup
begin

text \<open>
  \<open>worker/outbox_relay.py\<close> and \<open>worker/tasks.py\<close>: the relay leases outbox events, hands them to a
  queue outside any transaction and records each outcome in one of its own; the Dramatiq adapters
  and actors carry ids as text.  The broker is a parameter; the state is the database beside it.
\<close>

section \<open>The relay\<close>

record relay_result =
  rl_claimed :: int
  rl_dispatched :: int
  rl_failed :: int

record relay_config =
  rc_worker_id :: string
  rc_batch_size :: int
  rc_max_attempts :: int
  rc_lease_for :: int

definition mk_relay :: "string \<Rightarrow> int \<Rightarrow> int \<Rightarrow> int \<Rightarrow> relay_config result" where
  "mk_relay worker_id batch_size max_attempts lease_seconds =
     (if strip worker_id = [] then Inl (ValueError ''worker_id must not be blank'')
      else if batch_size < 1 \<or> max_attempts < 1 \<or> lease_seconds < 1
      then Inl (ValueError ''batch_size, max_attempts and lease_seconds must be positive'')
      else Inr \<lparr>rc_worker_id = worker_id, rc_batch_size = batch_size,
             rc_max_attempts = max_attempts, rc_lease_for = seconds lease_seconds\<rparr>)"

text \<open>Attempts are counted from 0, so the exponent is never negative.\<close>

definition retry_delay :: "int \<Rightarrow> int" where
  "retry_delay attempts = seconds (2 ^ nat (min (attempts + 1) 8))"

definition payload_text :: "json_object \<Rightarrow> string \<Rightarrow> string option" where
  "payload_text payload key = (case map_of payload key of Some (JStr s) \<Rightarrow> Some s | _ \<Rightarrow> None)"

definition event_message :: "outbox_event \<Rightarrow> (uuid \<times> uuid \<times> string) result" where
  "event_message event =
     (if oe_event_type event \<noteq> ''publish.dispatch''
      then Inl (ValueError ''unsupported outbox event type'')
      else if fst ` set (oe_payload event) \<noteq> {''job_id'', ''correlation_id'', ''idempotency_key''}
      then Inl (ValueError ''invalid publish outbox payload'')
      else case (payload_text (oe_payload event) ''job_id'',
                 payload_text (oe_payload event) ''correlation_id'',
                 payload_text (oe_payload event) ''idempotency_key'') of
          (Some job_text, Some correlation_text, Some idempotency_key) \<Rightarrow>
            bindR (uuid_parse job_text) (\<lambda>job_id.
            bindR (uuid_parse correlation_text) (\<lambda>correlation_id.
            if job_id \<noteq> oe_aggregate_id event \<or> correlation_id \<noteq> oe_correlation_id event
            then Inl (ValueError ''outbox payload identity mismatch'')
            else Inr (job_id, correlation_id, idempotency_key)))
        | _ \<Rightarrow> Inl (ValueError ''invalid publish outbox payload''))"

definition send_event ::
    "(uuid \<Rightarrow> uuid \<Rightarrow> string \<Rightarrow> ('q, unit) sx) \<Rightarrow> outbox_event \<Rightarrow> ('q, unit) sx" where
  "send_event enqueue event =
     bindS (liftR (event_message event)) (\<lambda>(job_id, correlation_id, idempotency_key).
       enqueue job_id correlation_id idempotency_key)"

definition relay_event ::
    "(uuid \<Rightarrow> uuid \<Rightarrow> string \<Rightarrow> ('q, unit) sx) \<Rightarrow> relay_config \<Rightarrow> datetime \<Rightarrow> int \<times> int
     \<Rightarrow> outbox_event \<Rightarrow> (db \<times> 'q, int \<times> int) sx" where
  "relay_event enqueue cfg relay_time = (\<lambda>(dispatched, failed) event.
     bindS (tryS (on_ext (send_event enqueue event))) (\<lambda>outcome.
     case outcome of
       Inl _ \<Rightarrow>
         bindS (on_db (with_uow
           (bindS (sess (outbox_mark_failed (oe_id event) ''outbox delivery failed''
              (dt_plus relay_time (retry_delay (oe_attempts event))) (rc_max_attempts cfg))) (\<lambda>_.
            commit)))) (\<lambda>_. returnS (dispatched, failed + 1))
     | Inr _ \<Rightarrow>
         bindS (on_db (with_uow
           (bindS (sess (outbox_mark_dispatched (oe_id event) relay_time)) (\<lambda>_. commit)))) (\<lambda>_.
         returnS (dispatched + 1, failed))))"

definition relay_claim :: "relay_config \<Rightarrow> datetime \<Rightarrow> (db, outbox_event list) sx" where
  "relay_claim cfg relay_time =
     with_uow (bindS (sess (outbox_claim_pending (rc_batch_size cfg) (rc_worker_id cfg) relay_time
         (rc_lease_for cfg))) (\<lambda>events.
       bindS commit (\<lambda>_. returnS events)))"

definition relay_run_once ::
    "(uuid \<Rightarrow> uuid \<Rightarrow> string \<Rightarrow> ('q, unit) sx) \<Rightarrow> relay_config \<Rightarrow> datetime \<Rightarrow> datetime option
     \<Rightarrow> (db \<times> 'q, relay_result) sx" where
  "relay_run_once enqueue cfg clock now =
     (let relay_time = (case now of None \<Rightarrow> clock | Some t \<Rightarrow> t)
      in bindS (on_db (relay_claim cfg relay_time)) (\<lambda>events.
         bindS (foldS (relay_event enqueue cfg relay_time) (0, 0) events) (\<lambda>(dispatched, failed).
         returnS \<lparr>rl_claimed = int (length events), rl_dispatched = dispatched, rl_failed = failed\<rparr>)))"

section \<open>Task boundaries\<close>

definition task_from_raw :: "string \<Rightarrow> string \<Rightarrow> string \<Rightarrow> task_payload result" where
  "task_from_raw job_id correlation_id idempotency_key =
     (if idempotency_key = [] \<or> length idempotency_key > 200
      then Inl (ValueError ''invalid idempotency key'')
      else bindR (uuid_parse job_id) (\<lambda>job. bindR (uuid_parse correlation_id) (\<lambda>correlation.
        Inr \<lparr>tp_job_id = job, tp_correlation_id = correlation, tp_idempotency_key = idempotency_key\<rparr>)))"

definition publish_task_enqueue ::
    "(string \<times> string \<times> string \<Rightarrow> ('q, unit) sx) \<Rightarrow> uuid \<Rightarrow> uuid \<Rightarrow> string \<Rightarrow> ('q, unit) sx" where
  "publish_task_enqueue send job_id correlation_id idempotency_key =
     send (uuid_str job_id, uuid_str correlation_id, idempotency_key)"

definition cleanup_task_enqueue :: "(string list \<Rightarrow> ('q, unit) sx) \<Rightarrow> uuid list \<Rightarrow> ('q, unit) sx" where
  "cleanup_task_enqueue send artifact_ids = send (map uuid_str artifact_ids)"

definition publish_actor ::
    "(task_payload \<Rightarrow> ('s, unit) sx) \<Rightarrow> string \<times> string \<times> string \<Rightarrow> ('s, unit) sx" where
  "publish_actor handler = (\<lambda>(job_id, correlation_id, idempotency_key).
     bindS (liftR (task_from_raw job_id correlation_id idempotency_key)) handler)"

definition cleanup_actor ::
    "(uuid list \<Rightarrow> ('s, unit) sx) \<Rightarrow> string list option \<Rightarrow> ('s, unit) sx" where
  "cleanup_actor handler artifact_ids =
     bindS (case artifact_ids of None \<Rightarrow> returnS [] | Some ids \<Rightarrow> liftR (mapR uuid_parse ids)) handler"

end
