(* ===== verification/Worker_Facts.thy ===== *)
theory Worker_Facts
  imports Worker_Relay
begin

text \<open>
  What one relay poll does to the outbox table: every leased event is settled by one outcome, and
  no other row changes.
\<close>

section \<open>Settled rows\<close>

definition dispatched_row :: "datetime \<Rightarrow> outbox_row \<Rightarrow> outbox_row" where
  "dispatched_row t r =
     r\<lparr>xr_status := OB_DISPATCHED, xr_dispatched_at := Some t, xr_locked_at := None,
       xr_locked_by := None, xr_lease_expires_at := None\<rparr>"

definition retried_row :: "relay_config \<Rightarrow> datetime \<Rightarrow> outbox_row \<Rightarrow> outbox_row" where
  "retried_row cfg t r =
     failed_event ''outbox delivery failed'' (dt_plus t (retry_delay (xr_attempts r)))
       (rc_max_attempts cfg) r"

definition relayed_row ::
    "relay_config \<Rightarrow> datetime \<Rightarrow> uuid set \<Rightarrow> uuid set \<Rightarrow> outbox_row \<Rightarrow> outbox_row" where
  "relayed_row cfg t handled sent r =
     (if xr_id r \<notin> handled then r
      else if xr_id r \<in> sent then dispatched_row t r else retried_row cfg t r)"

definition relayed_db ::
    "relay_config \<Rightarrow> datetime \<Rightarrow> uuid set \<Rightarrow> uuid set \<Rightarrow> db \<Rightarrow> db" where
  "relayed_db cfg t handled sent d =
     d\<lparr>outbox_events := map (relayed_row cfg t handled sent) (outbox_events d)\<rparr>"

lemma settled_row_sels [simp]:
  "xr_id (failed_event msg at m r) = xr_id r"
  "xr_id (dispatched_row t r) = xr_id r" "xr_id (retried_row cfg t r) = xr_id r"
  "xr_id (relayed_row cfg t handled sent r) = xr_id r"
  "xr_aggregate_id (relayed_row cfg t handled sent r) = xr_aggregate_id r"
  "xr_status (dispatched_row t r) = OB_DISPATCHED"
  "xr_attempts (retried_row cfg t r) = xr_attempts r + 1"
  "xr_status (retried_row cfg t r) =
     (if xr_attempts r + 1 \<ge> rc_max_attempts cfg then OB_FAILED else OB_PENDING)"
  by (simp_all add: dispatched_row_def retried_row_def failed_event_def relayed_row_def)

lemma settled_row_unlocked [simp]:
  "dispatched_row t (locked_event now w l r) = dispatched_row t r"
  "retried_row cfg t (locked_event now w l r) = retried_row cfg t r"
  by (simp_all add: dispatched_row_def retried_row_def failed_event_def locked_event_def)

lemma outbox_relayed_db [simp]:
  "outbox_events (relayed_db cfg t handled sent d) =
     map (relayed_row cfg t handled sent) (outbox_events d)"
  by (simp add: relayed_db_def)

lemma relayed_db_none [simp]: "relayed_db cfg t {} sent d = d"
proof -
  have "relayed_row cfg t {} sent = (\<lambda>r. r)" by (simp add: fun_eq_iff relayed_row_def)
  then show ?thesis by (simp add: relayed_db_def)
qed

lemma integrity_relayed_db: "integrity d \<Longrightarrow> integrity (relayed_db cfg t handled sent d)"
  by (simp add: relayed_db_def integrity_def constraint_defs comp_def image_image)

lemma set_event_relayed:
  assumes "distinct (map xr_id (outbox_events d))" and "r \<in> set (outbox_events d)"
    and "xr_id r \<notin> handled"
  shows "set_event (xr_id r) (\<lambda>x. if ok then dispatched_row t x else
            failed_event ''outbox delivery failed'' (dt_plus t (retry_delay (xr_attempts r)))
              (rc_max_attempts cfg) x) (relayed_db cfg t handled sent d) =
     relayed_db cfg t (insert (xr_id r) handled) (if ok then insert (xr_id r) sent else sent - {xr_id r}) d"
proof -
  have row: "x = r" if "x \<in> set (outbox_events d)" "xr_id x = xr_id r" for x
    using distinct_map_eq_iff [OF assms(1)] that assms(2) by blast
  let ?ins = "if ok then insert (xr_id r) sent else sent - {xr_id r}"
  let ?f = "\<lambda>x. if ok then dispatched_row t x else
      failed_event ''outbox delivery failed'' (dt_plus t (retry_delay (xr_attempts r))) (rc_max_attempts cfg) x"
  have "(if xr_id (relayed_row cfg t handled sent x) = xr_id r then ?f (relayed_row cfg t handled sent x)
         else relayed_row cfg t handled sent x) = relayed_row cfg t (insert (xr_id r) handled) ?ins x"
    if "x \<in> set (outbox_events d)" for x
    using assms(3) row [OF that] by (cases "xr_id x = xr_id r") (auto simp: relayed_row_def retried_row_def)
  then show ?thesis
    by (simp add: set_event_def relayed_db_def update_where_def)
qed

section \<open>One event\<close>

lemma find_relayed:
  assumes "r \<in> set (outbox_events d)"
  shows "\<exists>x. find (\<lambda>y. xr_id y = xr_id r) (outbox_events (relayed_db cfg t handled sent d)) = Some x"
  using assms by (cases "find (\<lambda>y. xr_id y = xr_id r) (outbox_events (relayed_db cfg t handled sent d))")
    (auto simp: find_None_iff)

lemma mark_failed_commit:
  assumes "integrity d" and "\<exists>x. find (\<lambda>r. xr_id r = eid) (outbox_events d) = Some x"
  shows "with_uow (bindS (sess (outbox_mark_failed eid msg at m)) (\<lambda>_. commit)) d =
    (Inr (), set_event eid (failed_event msg at m) d)"
proof -
  have "integrity (set_event eid (failed_event msg at m) d)"
    unfolding set_event_def by (rule update_events_integrity [OF assms(1)]) (simp add: failed_event_def)
  with assms(2) show ?thesis by (auto simp: sx_simps outbox_mark_failed_def)
qed

lemma mark_dispatched_commit:
  assumes "integrity d" and "\<exists>x. find (\<lambda>r. xr_id r = eid) (outbox_events d) = Some x"
  shows "with_uow (bindS (sess (outbox_mark_dispatched eid t)) (\<lambda>_. commit)) d =
    (Inr (), set_event eid (dispatched_row t) d)"
proof -
  have "integrity (set_event eid (dispatched_row t) d)"
    unfolding set_event_def by (rule update_events_integrity [OF assms(1)]) (simp add: dispatched_row_def)
  with assms(2) show ?thesis by (auto simp: sx_simps outbox_mark_dispatched_def dispatched_row_def [abs_def])
qed

lemma relay_event_run:
  assumes "integrity d" and "r \<in> set (outbox_events d)" and "xr_id r \<notin> handled"
    and "oe_id e = xr_id r" and "oe_attempts e = xr_attempts r"
    and "send_event enqueue e q = (out, q')"
  shows "relay_event enqueue cfg t (a, b) e (relayed_db cfg t handled sent d, q) =
    (case out of
       Inl _ \<Rightarrow> (Inr (a, b + 1), (relayed_db cfg t (insert (xr_id r) handled) (sent - {xr_id r}) d, q'))
     | Inr _ \<Rightarrow> (Inr (a + 1, b), (relayed_db cfg t (insert (xr_id r) handled) (insert (xr_id r) sent) d, q')))"
proof -
  note ok = integrity_relayed_db [OF assms(1), of cfg t handled sent]
  note ids = integrityD(13) [OF assms(1)]
  note step = set_event_relayed [OF ids assms(2,3), where t = t and cfg = cfg and sent = sent]
  show ?thesis
    using assms(4-6) step [of True] step [of False]
      mark_failed_commit [OF ok find_relayed [OF assms(2)]]
      mark_dispatched_commit [OF ok find_relayed [OF assms(2)]]
    by (cases out) (simp_all add: relay_event_def bindS_apply tryS_apply on_apply returnS_apply)
qed

section \<open>One poll\<close>

text \<open>The events the queue accepted are among the well-formed ones, and are all of them when the
  queue never raises.\<close>

definition deliverable :: "outbox_row \<Rightarrow> bool" where
  "deliverable r \<longleftrightarrow> (\<exists>m. event_message (row_event r) = Inr m)"

definition never_raises :: "(uuid \<Rightarrow> uuid \<Rightarrow> string \<Rightarrow> ('q, unit) sx) \<Rightarrow> bool" where
  "never_raises enqueue \<longleftrightarrow> (\<forall>j c k q. \<exists>q'. enqueue j c k q = (Inr (), q'))"

definition relay_outcome ::
    "(uuid \<Rightarrow> uuid \<Rightarrow> string \<Rightarrow> ('q, unit) sx) \<Rightarrow> outbox_row list \<Rightarrow> uuid set \<Rightarrow> bool" where
  "relay_outcome enqueue rs sent \<longleftrightarrow>
     sent \<subseteq> xr_id ` {r \<in> set rs. deliverable r}
     \<and> (never_raises enqueue \<longrightarrow> sent = xr_id ` {r \<in> set rs. deliverable r})"

lemma event_message_locked [simp]:
  "event_message (row_event (locked_event now w l r)) = event_message (row_event r)"
  by (simp add: event_message_def row_event_def locked_event_def)

lemma deliverable_locked [simp]: "deliverable (locked_event now w l r) \<longleftrightarrow> deliverable r"
  by (simp add: deliverable_def)

lemma send_event_outcome:
  assumes "send_event enqueue (row_event r) q = (out, q')"
  shows "out = Inr () \<Longrightarrow> deliverable r"
    and "never_raises enqueue \<Longrightarrow> deliverable r \<Longrightarrow> out = Inr ()"
proof -
  show "deliverable r" if "out = Inr ()"
    using assms that by (cases "event_message (row_event r)")
      (auto simp: send_event_def sx_simps deliverable_def)
  assume nr: "never_raises enqueue" and del: "deliverable r"
  then obtain j c k where "event_message (row_event r) = Inr (j, c, k)"
    unfolding deliverable_def by (metis prod_cases3)
  with nr assms show "out = Inr ()"
    unfolding never_raises_def send_event_def
    by (simp add: sx_simps) (metis prod.inject)
qed

definition poll_state ::
    "(uuid \<Rightarrow> uuid \<Rightarrow> string \<Rightarrow> ('q, unit) sx) \<Rightarrow> relay_config \<Rightarrow> datetime \<Rightarrow> db \<Rightarrow> outbox_row list
     \<Rightarrow> int \<times> int \<Rightarrow> db \<times> 'q \<Rightarrow> bool" where
  "poll_state enqueue cfg t d rs = (\<lambda>(a, b) (d', q).
     \<exists>sent. d' = relayed_db cfg t (xr_id ` set rs) sent d \<and> relay_outcome enqueue rs sent
       \<and> a = int (card sent) \<and> b = int (length rs) - a)"

lemma poll_step:
  assumes "integrity d" and "r \<in> set (outbox_events d)" and "xr_id r \<notin> xr_id ` set rs"
    and "poll_state enqueue cfg t d rs c s"
  shows "after (relay_event enqueue cfg t c (row_event r)) (poll_state enqueue cfg t d (rs @ [r]))
    (\<lambda>e s. False) s"
proof -
  obtain a b q where c: "c = (a, b)" and s: "s = (fst s, q)" by (metis prod.collapse)
  obtain sent where st: "fst s = relayed_db cfg t (xr_id ` set rs) sent d" "relay_outcome enqueue rs sent"
    "a = int (card sent)" "b = int (length rs) - a"
    using assms(4) c s by (auto simp: poll_state_def split: prod.splits)
  obtain out q' where out: "send_event enqueue (row_event r) q = (out, q')" by fastforce
  have sub: "sent \<subseteq> xr_id ` set rs" using st(2) by (auto simp: relay_outcome_def)
  then have sent: "xr_id r \<notin> sent" "finite sent"
    using assms(3) finite_subset [OF sub] by auto
  note run = relay_event_run [OF assms(1-3), of "row_event r", OF _ _ out, of cfg t a b sent]
  show ?thesis
  proof (cases out)
    case (Inl e)
    have "relay_outcome enqueue (rs @ [r]) sent"
      using st(2) Inl send_event_outcome(2) [OF out] by (auto simp: relay_outcome_def)
    then show ?thesis
      using run Inl st sent by (subst s) (auto simp: c after_def poll_state_def)
  next
    case (Inr u)
    have "relay_outcome enqueue (rs @ [r]) (insert (xr_id r) sent)"
      using st(2) Inr send_event_outcome(1) [OF out] by (auto simp: relay_outcome_def)
    then show ?thesis
      using run Inr st sent by (subst s) (auto simp: c after_def poll_state_def)
  qed
qed

text \<open>The table under the leases of a poll.\<close>

definition leased_db :: "relay_config \<Rightarrow> datetime \<Rightarrow> outbox_row list \<Rightarrow> db \<Rightarrow> db" where
  "leased_db cfg t rs d =
     d\<lparr>outbox_events := update_where (\<lambda>r. xr_id r \<in> xr_id ` set rs)
        (locked_event t (rc_worker_id cfg) (rc_lease_for cfg)) (outbox_events d)\<rparr>"

lemma integrity_leased_db: "integrity d \<Longrightarrow> integrity (leased_db cfg t rs d)"
  unfolding leased_db_def by (rule update_events_integrity) (simp_all add: locked_event_def)

lemma relayed_leased_db:
  "relayed_db cfg t (xr_id ` set rs) sent (leased_db cfg t rs d) = relayed_db cfg t (xr_id ` set rs) sent d"
  by (auto simp: relayed_db_def leased_db_def update_where_def relayed_row_def intro!: arg_cong [where f = "\<lambda>x. d\<lparr>outbox_events := x\<rparr>"])

lemma relay_claim_run:
  fixes cfg :: relay_config and t :: datetime
  assumes "integrity d"
  defines "rs \<equiv> claimable_events (instant t) (rc_batch_size cfg) d"
  shows "relay_claim cfg t d =
    (Inr (map row_event (map (locked_event t (rc_worker_id cfg) (rc_lease_for cfg)) rs)),
     leased_db cfg t rs d)"
proof -
  have none: "rc_batch_size cfg < 1 \<Longrightarrow> rs = []" by (simp add: rs_def claimable_events_def)
  have idle: "leased_db cfg t [] d = d" by (simp add: leased_db_def update_where_def)
  show ?thesis
    using integrity_leased_db [OF assms(1), of cfg t rs] assms(1) none idle
    by (cases "rc_batch_size cfg < 1")
      (simp_all add: relay_claim_def sx_simps outbox_claim_pending_def Let_def rs_def [symmetric]
        leased_db_def [of cfg t rs, symmetric])
qed

lemma poll_loop:
  assumes "integrity d" and "set rs \<subseteq> set (outbox_events d)" and "distinct (map xr_id rs)"
  shows "after (foldS (relay_event enqueue cfg t) (0, 0) (map row_event rs))
    (poll_state enqueue cfg t d rs) (\<lambda>e s. False) (d, q)"
proof (rule after_foldS [where I = "\<lambda>es. poll_state enqueue cfg t d (take (length es) rs)"])
  fix ys x zs c s
  assume split: "map row_event rs = ys @ x # zs" and st: "poll_state enqueue cfg t d (take (length ys) rs) c s"
  define n where "n = length ys"
  have n: "n < length rs" "x = row_event (rs ! n)"
    using arg_cong [OF split, of length] arg_cong [OF split, of "\<lambda>l. l ! n"] by (simp_all add: n_def)
  have "xr_id (rs ! n) \<notin> xr_id ` set (take n rs)"
    using assms(3) n(1) by (auto simp: in_set_conv_nth distinct_conv_nth)
  moreover have "rs ! n \<in> set (outbox_events d)" using assms(2) n(1) by auto
  ultimately show "after (relay_event enqueue cfg t c x)
      (poll_state enqueue cfg t d (take (length (ys @ [x])) rs)) (\<lambda>e s. False) s"
    using poll_step [OF assms(1), of "rs ! n" "take n rs"] st n
    by (simp add: n_def [symmetric] take_Suc_conv_app_nth)
next
  show "poll_state enqueue cfg t d (take (length []) rs) (0, 0) (d, q)"
    by (simp add: poll_state_def relay_outcome_def)
qed simp

lemma relay_run:
  fixes cfg :: relay_config and clock :: datetime and now :: "datetime option"
  assumes "integrity d"
  defines "t \<equiv> (case now of None \<Rightarrow> clock | Some u \<Rightarrow> u)"
  defines "rs \<equiv> claimable_events (instant t) (rc_batch_size cfg) d"
  shows "\<exists>sent q'. relay_run_once enqueue cfg clock now (d, q) =
      (Inr \<lparr>rl_claimed = int (length rs), rl_dispatched = int (card sent),
            rl_failed = int (length rs) - int (card sent)\<rparr>,
       (relayed_db cfg t (xr_id ` set rs) sent d, q'))
    \<and> relay_outcome enqueue rs sent"
proof -
  let ?lock = "locked_event t (rc_worker_id cfg) (rc_lease_for cfg)"
  have locked: "set (map ?lock rs) \<subseteq> set (outbox_events (leased_db cfg t rs d))"
    using claimable_events_set by (fastforce simp: rs_def leased_db_def set_update_where)
  have ids: "distinct (map xr_id (map ?lock rs))" "xr_id ` set (map ?lock rs) = xr_id ` set rs"
    using distinct_claimable_events [OF assms(1)] by (simp_all add: rs_def comp_def image_image)
  have out: "relay_outcome enqueue (map ?lock rs) sent \<longleftrightarrow> relay_outcome enqueue rs sent" for sent
  proof -
    have "xr_id ` {r \<in> set (map ?lock rs). deliverable r} = xr_id ` {r \<in> set rs. deliverable r}"
      unfolding set_filter [symmetric] filter_map by (simp add: comp_def image_image)
    then show ?thesis by (simp only: relay_outcome_def)
  qed
  note loop = poll_loop [OF integrity_leased_db [OF assms(1)] locked ids(1), of enqueue cfg t q]
  from after_total [OF loop]
  obtain c s where run: "foldS (relay_event enqueue cfg t) (0, 0) (map row_event (map ?lock rs))
      (leased_db cfg t rs d, q) = (Inr c, s)"
    "poll_state enqueue cfg t (leased_db cfg t rs d) (map ?lock rs) c s" by blast
  obtain a b d' q' where cs: "c = (a, b)" "s = (d', q')" by fastforce
  from run(2) obtain sent where
    "d' = relayed_db cfg t (xr_id ` set rs) sent d" "relay_outcome enqueue rs sent"
    "a = int (card sent)" "b = int (length rs) - a"
    unfolding cs poll_state_def prod.case ids(2) relayed_leased_db out length_map by blast
  with run(1) show ?thesis
    unfolding cs
    by (auto simp: relay_run_once_def t_def [symmetric] Let_def bindS_apply on_apply returnS_apply
        relay_claim_run [OF assms(1)] rs_def [symmetric])
qed

end
