(* ===== verification/Worker_Properties.thy ===== *)
theory Worker_Properties
  imports Worker_Facts Publish_Properties
begin

text \<open>
  Properties of the outbox relay and of the task boundaries: a poll always ends and accounts for
  every event, retries are bounded, and the message of a dispatched job is the one its worker loads.
\<close>

section \<open>Polls\<close>

lemma mk_relay_Inr:
  "mk_relay w b m l = Inr cfg \<Longrightarrow> 1 \<le> b \<and> 1 \<le> m \<and> rc_batch_size cfg = b \<and> rc_max_attempts cfg = m"
  by (auto simp: mk_relay_def split: if_splits)

lemma length_claimable_events: "0 \<le> b \<Longrightarrow> int (length (claimable_events t b d)) \<le> b"
  by (simp add: claimable_events_def)

text \<open>C22. A poll of the relay always returns, whatever the queue does; it leases at most a batch of
  due events, its counts add up, each leased event is either dispatched or counted as failed and
  scheduled again (or given up), only well-formed events are dispatched (all of them when the queue
  never raises), and nothing else in the database changes.\<close>

theorem relay_accounts:
  assumes "integrity d" and "mk_relay w batch attempts lease = Inr cfg"
  shows "\<exists>sent d' q'. relay_run_once enqueue cfg t None (d, q) =
      (Inr \<lparr>rl_claimed = int (length (claimable_events (instant t) batch d)),
            rl_dispatched = int (card sent),
            rl_failed = int (length (claimable_events (instant t) batch d)) - int (card sent)\<rparr>, (d', q'))
    \<and> int (length (claimable_events (instant t) batch d)) \<le> batch
    \<and> sent \<subseteq> xr_id ` {r \<in> set (claimable_events (instant t) batch d). deliverable r}
    \<and> (never_raises enqueue \<longrightarrow>
         sent = xr_id ` {r \<in> set (claimable_events (instant t) batch d). deliverable r})
    \<and> d' = d\<lparr>outbox_events := map (\<lambda>r.
         if xr_id r \<notin> xr_id ` set (claimable_events (instant t) batch d) then r
         else if xr_id r \<in> sent then dispatched_row t r
         else failed_event ''outbox delivery failed'' (dt_plus t (retry_delay (xr_attempts r))) attempts r)
       (outbox_events d)\<rparr>
    \<and> integrity d'"
proof -
  let ?rs = "claimable_events (instant t) batch d"
  have cfg: "1 \<le> batch" "rc_batch_size cfg = batch" "rc_max_attempts cfg = attempts"
    using mk_relay_Inr [OF assms(2)] by simp_all
  obtain sent q' where run: "relay_run_once enqueue cfg t None (d, q) =
      (Inr \<lparr>rl_claimed = int (length ?rs), rl_dispatched = int (card sent),
            rl_failed = int (length ?rs) - int (card sent)\<rparr>,
       (relayed_db cfg t (xr_id ` set ?rs) sent d, q'))"
    "relay_outcome enqueue ?rs sent"
    using relay_run [OF assms(1), of enqueue cfg t None q] cfg(2) by auto
  have db: "relayed_db cfg t (xr_id ` set ?rs) sent d = d\<lparr>outbox_events := map (\<lambda>r.
         if xr_id r \<notin> xr_id ` set ?rs then r
         else if xr_id r \<in> sent then dispatched_row t r
         else failed_event ''outbox delivery failed'' (dt_plus t (retry_delay (xr_attempts r))) attempts r)
       (outbox_events d)\<rparr>"
    by (simp add: relayed_db_def relayed_row_def [abs_def] retried_row_def [abs_def] cfg(3))
  have out: "sent \<subseteq> xr_id ` {r \<in> set ?rs. deliverable r}"
    "never_raises enqueue \<longrightarrow> sent = xr_id ` {r \<in> set ?rs. deliverable r}"
    using run(2) unfolding relay_outcome_def by blast+
  have size: "int (length ?rs) \<le> batch" using length_claimable_events cfg(1) by simp
  show ?thesis
    by (rule exI [of _ sent], rule exI [of _ "relayed_db cfg t (xr_id ` set ?rs) sent d"], rule exI [of _ q'])
      (intro conjI run(1) size out db integrity_relayed_db assms(1))
qed

text \<open>How many deliveries a row can still cost.\<close>

definition row_budget :: "int \<Rightarrow> outbox_row \<Rightarrow> int" where
  "row_budget max_attempts r =
     (if xr_status r = OB_PENDING then max 1 (max_attempts - xr_attempts r) else 0)"

definition outbox_budget :: "int \<Rightarrow> db \<Rightarrow> int" where
  "outbox_budget max_attempts d = sum_list (map (row_budget max_attempts) (outbox_events d))"

lemma row_budget_relayed:
  assumes "xr_id r \<in> handled \<Longrightarrow> xr_status r = OB_PENDING"
  shows "row_budget (rc_max_attempts cfg) (relayed_row cfg t handled sent r)
     + (if xr_id r \<in> handled then 1 else 0) \<le> row_budget (rc_max_attempts cfg) r"
  using assms by (auto simp: row_budget_def relayed_row_def)

lemma count_claimed:
  assumes "distinct (map xr_id rows)" and "set rs \<subseteq> set rows" and "distinct (map xr_id rs)"
  shows "sum_list (map (\<lambda>r. if xr_id r \<in> xr_id ` set rs then 1 else 0 :: int) rows) = int (length rs)"
proof -
  have "xr_id r \<in> xr_id ` set rs \<longleftrightarrow> r \<in> set rs" if "r \<in> set rows" for r
    using that assms(2) distinct_map_eq_iff [OF assms(1)] by (auto simp: image_iff subset_iff)
  then have "filter (\<lambda>r. xr_id r \<in> xr_id ` set rs) rows = filter (\<lambda>r. r \<in> set rs) rows"
    by (rule filter_cong [OF refl])
  then have "sum_list (map (\<lambda>r. if xr_id r \<in> xr_id ` set rs then 1 else 0 :: int) rows) =
      int (length (filter (\<lambda>r. r \<in> set rs) rows))"
    by (simp add: sum_list_map_filter' [symmetric] sum_list_triv)
  moreover have "distinct (filter (\<lambda>r. r \<in> set rs) rows)" "set (filter (\<lambda>r. r \<in> set rs) rows) = set rs"
    using assms(1,2) by (auto simp: distinct_map)
  then have "length (filter (\<lambda>r. r \<in> set rs) rows) = card (set rs)" by (metis distinct_card)
  ultimately show ?thesis using assms(3) by (simp add: distinct_card distinct_map)
qed

lemma budget_nonneg: "0 \<le> outbox_budget m d"
  unfolding outbox_budget_def by (rule sum_list_nonneg) (auto simp: row_budget_def)

lemma budget_after_poll:
  assumes "integrity d"
  shows "\<exists>res d' q'. relay_run_once enqueue cfg t None (d, q) = (Inr res, (d', q')) \<and> integrity d'
    \<and> rl_claimed res + outbox_budget (rc_max_attempts cfg) d' \<le> outbox_budget (rc_max_attempts cfg) d"
proof -
  let ?rs = "claimable_events (instant t) (rc_batch_size cfg) d"
  let ?m = "rc_max_attempts cfg" and ?ids = "xr_id ` set ?rs"
  obtain sent q' where run: "relay_run_once enqueue cfg t None (d, q) =
      (Inr \<lparr>rl_claimed = int (length ?rs), rl_dispatched = int (card sent),
            rl_failed = int (length ?rs) - int (card sent)\<rparr>, (relayed_db cfg t ?ids sent d, q'))"
    using relay_run [OF assms, of enqueue cfg t None q] by auto
  have rows: "set ?rs \<subseteq> set (outbox_events d)" by (auto dest: claimable_events_set)
  have due: "xr_status r = OB_PENDING" if "r \<in> set (outbox_events d)" "xr_id r \<in> ?ids" for r
    using that rows distinct_map_eq_iff [OF integrityD(13) [OF assms]]
    by (auto simp: event_due_def subset_iff dest!: claimable_events_set)
  have "sum_list (map (\<lambda>r. row_budget ?m (relayed_row cfg t ?ids sent r)
       + (if xr_id r \<in> ?ids then 1 else 0)) (outbox_events d)) \<le> outbox_budget ?m d"
    unfolding outbox_budget_def by (rule sum_list_mono) (use due row_budget_relayed in blast)
  then have "outbox_budget ?m (relayed_db cfg t ?ids sent d) + int (length ?rs) \<le> outbox_budget ?m d"
    using count_claimed [OF integrityD(13) [OF assms] rows distinct_claimable_events [OF assms]]
    by (simp add: sum_list_addf outbox_budget_def comp_def)
  with run integrity_relayed_db [OF assms] show ?thesis by fastforce
qed

text \<open>C23. Retries are bounded: over any sequence of polls, whenever they run and whatever the queue
  does, every poll returns and the deliveries tried are at most, for each pending event, the attempts
  it has left (one, when it has none left).\<close>

theorem relay_deliveries_bounded:
  assumes "integrity d" and "mk_relay w batch attempts lease = Inr cfg"
  shows "\<exists>rs d' q'. mapS (\<lambda>clock. relay_run_once enqueue cfg clock None) clocks (d, q) = (Inr rs, (d', q'))
    \<and> length rs = length clocks
    \<and> sum_list (map rl_claimed rs) \<le> sum_list (map (\<lambda>r. if xr_status r = OB_PENDING
         then max 1 (attempts - xr_attempts r) else 0) (outbox_events d))"
proof -
  have m: "rc_max_attempts cfg = attempts" using mk_relay_Inr [OF assms(2)] by simp
  have "\<exists>rs d' q'. mapS (\<lambda>clock. relay_run_once enqueue cfg clock None) clocks (d, q) = (Inr rs, (d', q'))
      \<and> length rs = length clocks \<and> sum_list (map rl_claimed rs) \<le> outbox_budget attempts d"
    using assms(1)
  proof (induction clocks arbitrary: d q)
    case Nil
    then show ?case by (simp add: returnS_apply budget_nonneg)
  next
    case (Cons t ts)
    obtain res d1 q1 where run: "relay_run_once enqueue cfg t None (d, q) = (Inr res, (d1, q1))" "integrity d1"
      "rl_claimed res + outbox_budget attempts d1 \<le> outbox_budget attempts d"
      using budget_after_poll [OF Cons.prems, of enqueue cfg t q] m by auto
    from Cons.IH [OF run(2), of q1] obtain rs d2 q2 where
      "mapS (\<lambda>clock. relay_run_once enqueue cfg clock None) ts (d1, q1) = (Inr rs, (d2, q2))"
      "length rs = length ts" "sum_list (map rl_claimed rs) \<le> outbox_budget attempts d1" by blast
    with run show ?case by (simp add: bindS_apply returnS_apply)
  qed
  then show ?thesis unfolding outbox_budget_def row_budget_def .
qed

section \<open>From dispatch to worker\<close>

definition dispatched_event_row :: "uuid \<Rightarrow> datetime \<Rightarrow> publish_job \<Rightarrow> outbox_row" where
  "dispatched_event_row e clock job =
     \<lparr>xr_id = e, xr_aggregate_id = pj_id job, xr_event_type = ''publish.dispatch'',
      xr_payload = oe_payload (dispatch_event e job), xr_correlation_id = pj_correlation_id job,
      xr_status = OB_PENDING, xr_attempts = 0, xr_available_at = clock, xr_locked_at = None,
      xr_locked_by = None, xr_lease_expires_at = None, xr_dispatched_at = None, xr_last_error = None,
      xr_created_at = clock\<rparr>"

lemma outbox_dispatched_db:
  "outbox_events (dispatched_db e clock job d) = outbox_events d @ [dispatched_event_row e clock job]"
  by (simp add: dispatched_db_def outbox_add_def dispatch_event_def dispatched_event_row_def set_job_def)

lemma event_message_dispatch:
  "event_message (row_event (dispatched_event_row e clock job)) =
     Inr (pj_id job, pj_correlation_id job, pj_idempotency_key job)"
  by (simp add: event_message_def row_event_def dispatched_event_row_def dispatch_event_def
      payload_text_def insert_commute)

lemma claimable_dispatched:
  assumes "\<forall>r \<in> set (outbox_events d). \<not> event_due (instant t) r" and "instant clock \<le> instant t" and "1 \<le> b"
  shows "claimable_events (instant t) b (dispatched_db e clock job d) = [dispatched_event_row e clock job]"
proof -
  have "filter (event_due (instant t)) (outbox_events d) = []" using assms(1) by (simp add: filter_empty_conv)
  moreover have "event_due (instant t) (dispatched_event_row e clock job)"
    using assms(2) by (simp add: event_due_def dispatched_event_row_def)
  ultimately show ?thesis
    using assms(3) by (simp add: claimable_events_def outbox_dispatched_db order_by_def)
qed

lemma relay_single:
  assumes "integrity d" and "claimable_events (instant t) (rc_batch_size cfg) d = [r]"
    and "event_message (row_event r) = Inr (j, c, k)" and "enqueue j c k q = (Inr (), q')"
  shows "relay_run_once enqueue cfg t None (d, q) =
    (Inr \<lparr>rl_claimed = 1, rl_dispatched = 1, rl_failed = 0\<rparr>,
     (relayed_db cfg t {xr_id r} {xr_id r} d, q'))"
proof -
  let ?lr = "locked_event t (rc_worker_id cfg) (rc_lease_for cfg) r"
  let ?ld = "leased_db cfg t [r] d"
  have claim: "relay_claim cfg t d = (Inr [row_event ?lr], ?ld)"
    using relay_claim_run [OF assms(1), of cfg t] assms(2) by simp
  have "r \<in> set (outbox_events d)" using claimable_events_set [of r "instant t" "rc_batch_size cfg" d] assms(2) by simp
  then have "?lr \<in> set (outbox_events ?ld)" by (force simp: leased_db_def set_update_where)
  moreover have "send_event enqueue (row_event ?lr) q = (Inr (), q')"
    using assms(3,4) by (simp add: send_event_def sx_simps)
  ultimately have "relay_event enqueue cfg t (0, 0) (row_event ?lr) (relayed_db cfg t {} {} ?ld, q) =
      (Inr (1, 0), (relayed_db cfg t {xr_id r} {xr_id r} ?ld, q'))"
    using relay_event_run [OF integrity_leased_db [OF assms(1)], of ?lr cfg t "[r]" "{}" "row_event ?lr"
        enqueue q "Inr ()" q' cfg t 0 0 "{}"]
    by simp
  moreover have "relayed_db cfg t {xr_id r} {xr_id r} ?ld = relayed_db cfg t {xr_id r} {xr_id r} d"
    using relayed_leased_db [of cfg t "[r]"] by simp
  ultimately show ?thesis
    using claim by (simp add: relay_run_once_def bindS_apply on_apply returnS_apply)
qed

lemma row_job_dispatched:
  assumes "j = (row_job r)\<lparr>pj_status := PUBLISHING, pj_status_reason := None\<rparr>" and "jr_status r \<noteq> PUBLISHING"
  shows "\<exists>started. row_job (updated_job_row clock j r) = j\<lparr>pj_started_at := Some started\<rparr>"
  unfolding assms(1) using assms(2)
  by (cases "jr_started_at r") (simp_all add: row_job_def updated_job_row_def Let_def option.map_comp comp_def)

lemma dispatched_job_loads:
  assumes "dispatch_publish_job e clock jid d = (Inr job, d1)"
    and "publish_jobs d2 = publish_jobs d1" and "publish_targets d2 = publish_targets d1"
    and "stations d2 = stations d1"
  obtains ts started where "pj_id job = jid" and "pj_status job = PUBLISHING" and "\<exists>x. x \<in> set ts \<and> tg_selected x"
    and "load_task \<lparr>tp_job_id = jid, tp_correlation_id = pj_correlation_id job,
      tp_idempotency_key = pj_idempotency_key job\<rparr> d2 = (Inr (job\<lparr>pj_started_at := Some started\<rparr>, ts), d2)"
proof (rule dispatch_Inr [OF assms(1)])
  fix r ts
  assume r: "job_by d jid = Some r" and st: "jr_status r = AWAITING_CONFIRMATION" and ts: "targets_list_for_job jid d = (Inr ts, d)"
    and job: "job = (row_job r)\<lparr>pj_status := PUBLISHING, pj_status_reason := None\<rparr>"
    and d1: "d1 = dispatched_db e clock job d" and sel: "\<exists>t \<in> set ts. tg_selected t"
  have id: "jr_id r = jid" using job_by_SomeD [OF r] by simp
  have "job_by d2 jid = Some (updated_job_row clock job r)"
    using r id assms(2) by (simp add: job_by_cong [OF assms(2)] d1 job_by_set_job job)
  moreover obtain started where
    started: "row_job (updated_job_row clock job r) = job\<lparr>pj_started_at := Some started\<rparr>"
    using row_job_dispatched [OF job, of clock] st by auto
  moreover have "targets_list_for_job jid d2 = (Inr ts, d2)"
    using ts assms(3,4) by (simp add: targets_list_for_job_def target_join_def d1)
  ultimately have "load_task \<lparr>tp_job_id = jid, tp_correlation_id = pj_correlation_id job,
      tp_idempotency_key = pj_idempotency_key job\<rparr> d2 = (Inr (job\<lparr>pj_started_at := Some started\<rparr>, ts), d2)"
    using id by (simp add: load_task_def sx_simps validate_payload_def job)
  moreover have "pj_id job = jid" "pj_status job = PUBLISHING" using id by (simp_all add: job)
  moreover have "\<exists>x. x \<in> set ts \<and> tg_selected x" using sel by blast
  ultimately show ?thesis by (intro that)
qed

text \<open>C21. A dispatched job reaches its worker: when no other event is due, the next poll of a relay
  over a working broker delivers exactly one message, and an actor given that message runs its
  executor on the dispatched job, with its targets, in the database the poll left.\<close>

theorem dispatched_job_reaches_worker:
  assumes "integrity d" and "dispatch_publish_job e clock jid d = (Inr job, d1)"
    and "\<forall>r \<in> set (outbox_events d). \<not> event_due (instant t) r" and "instant clock \<le> instant t"
    and "mk_relay w batch attempts lease = Inr cfg"
    and "pj_idempotency_key job \<noteq> []" and "length (pj_idempotency_key job) \<le> 200"
    and broker: "\<And>m q. \<exists>q'. send m q = (Inr (), q') \<and> inbox q' = inbox q @ [m]"
  shows "\<exists>m ts started d2 q'. relay_run_once (publish_task_enqueue send) cfg t None (d1, q) =
      (Inr \<lparr>rl_claimed = 1, rl_dispatched = 1, rl_failed = 0\<rparr>, (d2, q'))
    \<and> inbox q' = inbox q @ [m]
    \<and> pj_id job = jid \<and> pj_status job = PUBLISHING \<and> (\<exists>x. x \<in> set ts \<and> tg_selected x)
    \<and> publish_actor (handle_publish_task executor) m (d2, s) =
        executor (job\<lparr>pj_started_at := Some started\<rparr>) ts (pj_correlation_id job) (d2, s)"
proof -
  let ?row = "dispatched_event_row e clock job"
  let ?m = "(uuid_str (pj_id job), uuid_str (pj_correlation_id job), pj_idempotency_key job)"
  obtain q' where q': "send ?m q = (Inr (), q')" "inbox q' = inbox q @ [?m]" using broker by blast
  have d1: "d1 = dispatched_db e clock job d" "integrity d1"
    using assms(2) by (rule dispatch_Inr; blast)+
  have "1 \<le> rc_batch_size cfg" using mk_relay_Inr [OF assms(5)] by simp
  from claimable_dispatched [OF assms(3,4) this, of e job]
  have claim: "claimable_events (instant t) (rc_batch_size cfg) d1 = [?row]" unfolding d1(1) .
  define d2 where "d2 = relayed_db cfg t {e} {e} d1"
  have run: "relay_run_once (publish_task_enqueue send) cfg t None (d1, q) =
      (Inr \<lparr>rl_claimed = 1, rl_dispatched = 1, rl_failed = 0\<rparr>, (d2, q'))"
    using relay_single [OF d1(2) claim event_message_dispatch, of "publish_task_enqueue send" q q'] q'(1)
    by (simp add: publish_task_enqueue_def dispatched_event_row_def d2_def)
  have frame: "publish_jobs d2 = publish_jobs d1" "publish_targets d2 = publish_targets d1"
    "stations d2 = stations d1" by (simp_all add: d2_def relayed_db_def)
  obtain ts started where ts: "pj_id job = jid" "pj_status job = PUBLISHING" "\<exists>x. x \<in> set ts \<and> tg_selected x"
    and load: "load_task \<lparr>tp_job_id = jid, tp_correlation_id = pj_correlation_id job,
      tp_idempotency_key = pj_idempotency_key job\<rparr> d2 = (Inr (job\<lparr>pj_started_at := Some started\<rparr>, ts), d2)"
    by (rule dispatched_job_loads [OF assms(2) frame]) (rule that)
  have "publish_actor (handle_publish_task executor) ?m (d2, s) =
      executor (job\<lparr>pj_started_at := Some started\<rparr>) ts (pj_correlation_id job) (d2, s)"
    using load assms(6,7) ts(1)
    by (simp add: publish_actor_def task_from_raw_def handle_publish_task_def bindS_apply liftR_apply on_apply)
  then show ?thesis
    using run q'(2) ts by blast
qed

text \<open>C24. The task messages round-trip: an actor given the text that the queue adapter sends runs its
  handler on the ids that were enqueued, for cleanup passes and for publish tasks.\<close>

theorem task_messages_roundtrip:
  assumes "key \<noteq> []" and "length key \<le> 200"
  shows "cleanup_task_enqueue (\<lambda>m. cleanup_actor cleanup (Some m)) ids s = cleanup ids s
    \<and> publish_task_enqueue (publish_actor publish) job_id correlation_id key s =
        publish \<lparr>tp_job_id = job_id, tp_correlation_id = correlation_id, tp_idempotency_key = key\<rparr> s"
proof
  have "mapR uuid_parse (map uuid_str ids) = Inr ids" by (induction ids) simp_all
  then show "cleanup_task_enqueue (\<lambda>m. cleanup_actor cleanup (Some m)) ids s = cleanup ids s"
    by (simp add: cleanup_task_enqueue_def cleanup_actor_def bindS_apply liftR_apply)
  show "publish_task_enqueue (publish_actor publish) job_id correlation_id key s =
      publish \<lparr>tp_job_id = job_id, tp_correlation_id = correlation_id, tp_idempotency_key = key\<rparr> s"
    using assms by (simp add: publish_task_enqueue_def publish_actor_def task_from_raw_def bindS_apply liftR_apply)
qed

section \<open>Instances\<close>

text \<open>The relay of the worker's defaults over the table a dispatch leaves.\<close>

definition sample_relay :: relay_config where
  "sample_relay = \<lparr>rc_worker_id = ''relay'', rc_batch_size = 10, rc_max_attempts = 5, rc_lease_for = seconds 60\<rparr>"

lemma mk_sample_relay: "mk_relay ''relay'' 10 5 60 = Inr sample_relay"
  by (simp add: mk_relay_def sample_relay_def strip_def strip_with_def py_space_def code_def)

lemma no_events_confirmed: "outbox_events confirmed_db = []"
  by (simp add: confirmed_db_def draft_defs sample_defs)

lemma dispatched_outbox:
  obtains job d' where "dispatch_publish_job 30 (Aware 3000000 0) 20 confirmed_db = (Inr job, d')"
    and "integrity d'" and "outbox_events d' = [dispatched_event_row 30 (Aware 3000000 0) job]"
    and "claimable_events 4000000 10 d' = [dispatched_event_row 30 (Aware 3000000 0) job]"
    and "pj_idempotency_key job = ''key''"
proof (rule dispatched_run)
  fix job d' assume run: "dispatch_publish_job 30 (Aware 3000000 0) 20 confirmed_db = (Inr job, d')"
  have d': "d' = dispatched_db 30 (Aware 3000000 0) job confirmed_db" "integrity d'"
    using run by (rule dispatch_Inr; blast)+
  have "claimable_events (instant (Aware 4000000 0)) 10 (dispatched_db 30 (Aware 3000000 0) job confirmed_db) =
      [dispatched_event_row 30 (Aware 3000000 0) job]"
    by (rule claimable_dispatched) (simp_all add: no_events_confirmed)
  moreover have "pj_idempotency_key job = ''key''"
  proof (rule dispatch_Inr [OF run])
    fix r assume "job_by confirmed_db 20 = Some r" "job = (row_job r)\<lparr>pj_status := PUBLISHING, pj_status_reason := None\<rparr>"
    then show ?thesis
      by (auto simp: job_by_def confirmed_db_def draft_defs sample_defs sample_job_def)
  qed
  ultimately show ?thesis
    using that [OF run d'(2)] by (simp add: d'(1) outbox_dispatched_db no_events_confirmed)
qed

lemma deliverable_dispatched: "deliverable (dispatched_event_row e clock job)"
  by (simp add: deliverable_def event_message_dispatch)

theorem relay_accounts_witness:
  "\<exists>job d' d''. dispatch_publish_job 30 (Aware 3000000 0) 20 confirmed_db = (Inr job, d')
     \<and> relay_run_once (\<lambda>j c k n. (Inr (), Suc n)) sample_relay (Aware 4000000 0) None (d', 0) =
         (Inr \<lparr>rl_claimed = 1, rl_dispatched = 1, rl_failed = 0\<rparr>, d'')"
proof (rule dispatched_outbox)
  fix job d' assume d': "dispatch_publish_job 30 (Aware 3000000 0) 20 confirmed_db = (Inr job, d')"
    "integrity d'" "claimable_events 4000000 10 d' = [dispatched_event_row 30 (Aware 3000000 0) job]"
  let ?up = "\<lambda>(j :: uuid) (c :: uuid) (k :: string) n. (Inr () :: unit result, Suc n)"
  have up: "never_raises ?up" by (simp add: never_raises_def)
  have "xr_id ` {r \<in> set (claimable_events (instant (Aware 4000000 0)) 10 d'). deliverable r} = {30}"
    using deliverable_dispatched [of 30 "Aware 3000000 0" job]
    by (auto simp: d'(3) dispatched_event_row_def [of 30])
  moreover obtain sent d'' q' where run: "relay_run_once ?up sample_relay (Aware 4000000 0) None (d', 0) =
      (Inr \<lparr>rl_claimed = int (length (claimable_events (instant (Aware 4000000 0)) 10 d')),
            rl_dispatched = int (card sent),
            rl_failed = int (length (claimable_events (instant (Aware 4000000 0)) 10 d')) - int (card sent)\<rparr>, (d'', q'))"
    and "never_raises ?up \<longrightarrow>
      sent = xr_id ` {r \<in> set (claimable_events (instant (Aware 4000000 0)) 10 d'). deliverable r}"
    using relay_accounts [OF d'(2) mk_sample_relay, of ?up "Aware 4000000 0" 0]
    by (elim exE conjE) (rule that)
  ultimately have "sent = {30}" using up by simp
  then have "relay_run_once ?up sample_relay (Aware 4000000 0) None (d', 0) =
      (Inr \<lparr>rl_claimed = 1, rl_dispatched = 1, rl_failed = 0\<rparr>, (d'', q'))"
    using run by (simp add: d'(3))
  with d'(1) show ?thesis by blast
qed

theorem relay_deliveries_bounded_witness:
  "\<exists>job d' rs s. dispatch_publish_job 30 (Aware 3000000 0) 20 confirmed_db = (Inr job, d')
     \<and> mapS (\<lambda>clock. relay_run_once (\<lambda>j c k n. (Inl (ValueError ''down''), Suc n)) sample_relay clock None)
         (map (\<lambda>i. Aware (3000000 + seconds 300 * int i) 0) [0..<9]) (d', 0) = (Inr rs, s)
     \<and> sum_list (map rl_claimed rs) \<le> 5"
proof (rule dispatched_outbox)
  fix job d' assume d': "dispatch_publish_job 30 (Aware 3000000 0) 20 confirmed_db = (Inr job, d')"
    "integrity d'" "outbox_events d' = [dispatched_event_row 30 (Aware 3000000 0) job]"
  have "sum_list (map (\<lambda>r. if xr_status r = OB_PENDING then max 1 (5 - xr_attempts r) else 0) (outbox_events d')) = 5"
    by (simp add: d'(3) dispatched_event_row_def)
  with relay_deliveries_bounded [OF d'(2) mk_sample_relay,
      of "\<lambda>j c k n. (Inl (ValueError ''down''), Suc n)" "map (\<lambda>i. Aware (3000000 + seconds 300 * int i) 0) [0..<9]" 0]
  show ?thesis using d'(1) by metis
qed

text \<open>The broker of the instance is the list of the messages it was sent.\<close>

theorem dispatched_job_reaches_worker_witness:
  "\<exists>job d1 m ts started d2 q'. dispatch_publish_job 30 (Aware 3000000 0) 20 confirmed_db = (Inr job, d1)
     \<and> relay_run_once (publish_task_enqueue (\<lambda>m q. (Inr (), q @ [m]))) sample_relay (Aware 4000000 0) None (d1, []) =
         (Inr \<lparr>rl_claimed = 1, rl_dispatched = 1, rl_failed = 0\<rparr>, (d2, q'))
     \<and> q' = [m]
     \<and> publish_actor (handle_publish_task (fake_task_execute mock_adapter (\<lambda>i. 40 + of_nat i) (Aware 0 0))) m (d2, mock_new Map.empty) =
         fake_task_execute mock_adapter (\<lambda>i. 40 + of_nat i) (Aware 0 0) (job\<lparr>pj_started_at := Some started\<rparr>) ts
           (pj_correlation_id job) (d2, mock_new Map.empty)"
proof (rule dispatched_outbox)
  fix job d1 assume run: "dispatch_publish_job 30 (Aware 3000000 0) 20 confirmed_db = (Inr job, d1)"
    and key: "pj_idempotency_key job = ''key''"
  have broker: "\<exists>q'. (\<lambda>m q. (Inr (), q @ [m])) m q = (Inr (), q') \<and> (\<lambda>q. q) q' = (\<lambda>q. q) q @ [m]"
    for m :: "string \<times> string \<times> string" and q by simp
  from dispatched_job_reaches_worker [OF integrity_confirmed_db run, of "Aware 4000000 0",
      OF _ _ mk_sample_relay _ _ broker, of "[]" "fake_task_execute mock_adapter (\<lambda>i. 40 + of_nat i) (Aware 0 0)" "mock_new Map.empty"]
    key no_events_confirmed run
  show ?thesis by fastforce
qed

theorem task_messages_roundtrip_witness:
  "publish_task_enqueue (publish_actor (\<lambda>p l. (Inr (), l @ [p]))) 20 21 ''key'' [] =
     (Inr (), [\<lparr>tp_job_id = 20, tp_correlation_id = 21, tp_idempotency_key = ''key''\<rparr>])"
  using task_messages_roundtrip [of "''key''" "\<lambda>ids. returnS ()" "[]" "[]" "\<lambda>p l. (Inr (), l @ [p])" 20 21]
  by simp

end
