(* ===== verification/TrueNAS_Adapter.thy ===== *)
theory TrueNAS_Adapter
  imports TrueNAS_Port Complex_Main
begin

text \<open>
  \<open>truenas_adapter/registry.py\<close>, \<open>read_only.py\<close> and \<open>write.py\<close>: the TrueNAS clients over a
  JSON-RPC transport.  The transport is a parameter \<open>rpc method params\<close>; \<open>rpc_value\<close> is what
  \<open>json.loads\<close> returns, a dictionary as its items (each key once) and a float as its exact value.
\<close>

section \<open>JSON\<close>

datatype rpc_value = RNull | RBool bool | RInt int | RReal rat | RText string
  | RList "rpc_value list" | RObject "(string \<times> rpc_value) list"

type_synonym rpc_record = "(string \<times> rpc_value) list"

section \<open>The registry of methods\<close>

record rpc_registry =
  rr_version :: string
  rr_methods :: "(string \<times> string) list"
  rr_allow_writes :: bool

definition read_methods :: "(string \<times> string) list" where
  "read_methods =
     [(''authenticate'', ''auth.login_with_api_key''), (''ping'', ''core.ping''),
      (''query_datasets'', ''pool.dataset.query''), (''query_snapshots'', ''pool.snapshot.query''),
      (''query_targets'', ''iscsi.target.query''), (''query_extents'', ''iscsi.extent.query''),
      (''query_target_extents'', ''iscsi.targetextent.query'')]"

definition write_methods :: "(string \<times> string) list" where
  "write_methods =
     [(''create_snapshot'', ''pool.snapshot.create''), (''clone_snapshot'', ''pool.snapshot.clone''),
      (''update_extent_device'', ''iscsi.extent.update''), (''delete_dataset'', ''pool.dataset.delete'')]"

definition mk_registry :: "string \<Rightarrow> bool \<Rightarrow> rpc_registry result" where
  "mk_registry version allow_writes =
     (let normalized = strip version;
          family = join_with ''.'' (take 2 (split_char CHR ''.'' normalized))
      in if family \<noteq> ''25.10''
         then Inl (UnsupportedTrueNASVersion (''unsupported TrueNAS API version: '' @ version))
         else Inr \<lparr>rr_version = normalized,
                rr_methods = read_methods @ (if allow_writes then write_methods else []),
                rr_allow_writes = allow_writes\<rparr>)"

definition resolve_method :: "rpc_registry \<Rightarrow> string \<Rightarrow> string result" where
  "resolve_method R operation =
     (case map_of (rr_methods R) operation of
        None \<Rightarrow> Inl (UnsupportedTrueNASOperation
                  (''unsupported TrueNAS read-only operation: '' @ operation))
      | Some m \<Rightarrow> Inr m)"

section \<open>Fields of a record\<close>

definition required_text :: "rpc_record \<Rightarrow> string \<Rightarrow> string result" where
  "required_text record key =
     (case map_of record key of
        Some (RText s) \<Rightarrow> if s = [] then Inl (TrueNASAdapterError (''TrueNAS field '' @ py_repr key
            @ '' must be a non-empty string'')) else Inr s
      | _ \<Rightarrow> Inl (TrueNASAdapterError (''TrueNAS field '' @ py_repr key
            @ '' must be a non-empty string'')))"

definition optional_text :: "rpc_record \<Rightarrow> string \<Rightarrow> string option result" where
  "optional_text record key =
     (case map_of record key of
        None \<Rightarrow> Inr None
      | Some RNull \<Rightarrow> Inr None
      | Some (RText s) \<Rightarrow> Inr (Some s)
      | _ \<Rightarrow> Inl (TrueNASAdapterError (''TrueNAS field '' @ py_repr key
            @ '' must be a string or null'')))"

text \<open>\<open>a or b\<close> on optional strings: \<open>b\<close> is evaluated when \<open>a\<close> is \<open>None\<close> or empty.\<close>

definition or_text :: "string option result \<Rightarrow> string option result \<Rightarrow> string option result" where
  "or_text a b = bindR a (\<lambda>v. if v = None \<or> v = Some [] then b else Inr v)"

fun required_int_of :: "string list \<Rightarrow> rpc_record \<Rightarrow> string list \<Rightarrow> int result" where
  "required_int_of keys record [] = Inl (TrueNASAdapterError (''TrueNAS field ''
     @ join_with '', '' keys @ '' must be an integer''))"
| "required_int_of keys record (k # ks) =
     (case map_of record k of Some (RInt i) \<Rightarrow> Inr i | _ \<Rightarrow> required_int_of keys record ks)"

definition required_int :: "rpc_record \<Rightarrow> string list \<Rightarrow> int result" where
  "required_int record keys = required_int_of keys record keys"

definition canonical_disk_path :: "string option \<Rightarrow> string option \<Rightarrow> string option" where
  "canonical_disk_path value extent_type =
     (case value of
        None \<Rightarrow> None
      | Some v \<Rightarrow> if extent_type = Some ''FILE'' then Some v
                  else if starts_with ''/dev/'' v then Some (removeprefix ''/dev/'' v) else Some v)"

section \<open>Records to application objects\<close>

definition map_dataset :: "rpc_record \<Rightarrow> tn_dataset result" where
  "map_dataset record =
     bindR (required_text record ''id'') (\<lambda>i. bindR (required_text record ''name'') (\<lambda>name.
     bindR (optional_text record ''path'') (\<lambda>path. bindR (optional_text record ''type'') (\<lambda>kind.
     Inr \<lparr>td_id = i, td_name = name, td_path = path, td_type = kind\<rparr>))))"

definition map_snapshot :: "rpc_record \<Rightarrow> tn_snapshot result" where
  "map_snapshot record =
     bindR (required_text record ''id'') (\<lambda>i. bindR (required_text record ''name'') (\<lambda>name.
     bindR (required_text record ''dataset'') (\<lambda>dataset.
     Inr \<lparr>tn_id = i, tn_name = name, tn_dataset = dataset\<rparr>)))"

definition map_target :: "rpc_record \<Rightarrow> tn_target result" where
  "map_target record =
     bindR (required_int record [''id'']) (\<lambda>i. bindR (required_text record ''name'') (\<lambda>name.
     bindR (optional_text record ''alias'') (\<lambda>alias.
     Inr \<lparr>tt_id = i, tt_name = name, tt_alias = alias\<rparr>)))"

definition map_extent :: "rpc_record \<Rightarrow> tn_extent result" where
  "map_extent record =
     bindR (optional_text record ''type'') (\<lambda>extent_type.
     bindR (if extent_type = Some ''FILE''
            then or_text (optional_text record ''path'') (optional_text record ''disk'')
            else or_text (optional_text record ''disk'') (optional_text record ''path'')) (\<lambda>backing_path.
     bindR (required_int record [''id'']) (\<lambda>i. bindR (required_text record ''name'') (\<lambda>name.
     Inr \<lparr>te_id = i, te_name = name, te_path = canonical_disk_path backing_path extent_type,
          te_type = extent_type\<rparr>))))"

definition map_target_extent :: "rpc_record \<Rightarrow> tn_target_extent result" where
  "map_target_extent record =
     bindR (required_int record [''target'', ''target_id'']) (\<lambda>t.
     bindR (required_int record [''extent'', ''extent_id'']) (\<lambda>x.
     bindR (required_int record [''lunid'', ''lun_id'']) (\<lambda>l.
     Inr \<lparr>tx_target_id = t, tx_extent_id = x, tx_lun_id = l\<rparr>)))"

section \<open>The read-only adapter\<close>

fun as_records :: "string \<Rightarrow> rpc_value list \<Rightarrow> rpc_record list result" where
  "as_records operation [] = Inr []"
| "as_records operation (RObject r # vs) = bindR (as_records operation vs) (\<lambda>rs. Inr (r # rs))"
| "as_records operation (v # vs) = Inl (TrueNASAdapterError (''TrueNAS '' @ operation
     @ '' contains a malformed record''))"

definition query_records ::
    "(string \<Rightarrow> rpc_value \<Rightarrow> ('s, rpc_value) sx) \<Rightarrow> rpc_registry \<Rightarrow> string \<Rightarrow> ('s, rpc_record list) sx" where
  "query_records rpc R operation =
     bindS (liftR (resolve_method R operation)) (\<lambda>method.
     bindS (rpc method (RList [])) (\<lambda>res.
     case res of
       RList vs \<Rightarrow> liftR (as_records operation vs)
     | _ \<Rightarrow> raiseS (TrueNASAdapterError (''TrueNAS '' @ operation @ '' result is not a list''))))"

definition adapter_ping ::
    "(string \<Rightarrow> rpc_value \<Rightarrow> ('s, rpc_value) sx) \<Rightarrow> rpc_registry \<Rightarrow> ('s, unit) sx" where
  "adapter_ping rpc R =
     bindS (liftR (resolve_method R ''ping'')) (\<lambda>method.
     bindS (rpc method (RList [])) (\<lambda>res.
     if res \<noteq> RBool True \<and> res \<noteq> RText ''pong''
     then raiseS (TrueNASAdapterError ''TrueNAS ping returned an unexpected result'')
     else returnS ()))"

definition adapter_query ::
    "(string \<Rightarrow> rpc_value \<Rightarrow> ('s, rpc_value) sx) \<Rightarrow> rpc_registry \<Rightarrow> string \<Rightarrow> (rpc_record \<Rightarrow> 'a result)
     \<Rightarrow> ('s, 'a list) sx" where
  "adapter_query rpc R operation mapper =
     bindS (query_records rpc R operation) (\<lambda>records. liftR (mapR mapper records))"

section \<open>The write adapter\<close>

definition dataset_char :: "char \<Rightarrow> bool" where
  "dataset_char c = (is_alnum c \<or> c \<in> set ''._/-'')"

definition snapshot_char :: "char \<Rightarrow> bool" where
  "snapshot_char c = (is_alnum c \<or> c \<in> set ''._-'')"

definition validate_dataset :: "string \<Rightarrow> unit result" where
  "validate_dataset v =
     (if v = [] \<or> \<not> (is_alnum (hd v) \<and> list_all dataset_char (tl v)) \<or> ''..'' \<in> set (split_char CHR ''/'' v)
      then Inl (ValueError ''dataset must be a safe TrueNAS dataset name'')
      else Inr ())"

definition validate_snapshot_name :: "string \<Rightarrow> unit result" where
  "validate_snapshot_name v =
     (if v = [] \<or> \<not> (is_alnum (hd v) \<and> list_all snapshot_char (tl v))
      then Inl (ValueError ''snapshot name contains unsupported characters'')
      else Inr ())"

text \<open>\<open>value.partition("@")\<close>\<close>

definition validate_snapshot :: "string \<Rightarrow> unit result" where
  "validate_snapshot v =
     (let dataset = takeWhile (\<lambda>c. c \<noteq> CHR ''@'') v;
          rest = drop (length dataset) v
      in if rest = [] then Inl (ValueError ''snapshot must use dataset@snapshot format'')
         else bindR (validate_dataset dataset) (\<lambda>_. validate_snapshot_name (tl rest)))"

definition canonical_disk_device :: "string \<Rightarrow> string" where
  "canonical_disk_device v = (if starts_with ''/dev/zvol/'' v then removeprefix ''/dev/'' v else v)"

definition mapping_result :: "rpc_value \<Rightarrow> string \<Rightarrow> rpc_record result" where
  "mapping_result res operation =
     (case res of
        RObject r \<Rightarrow> Inr r
      | _ \<Rightarrow> Inl (TrueNASAdapterError (''TrueNAS '' @ operation @ '' returned a malformed object'')))"

definition text_or :: "rpc_record \<Rightarrow> string \<Rightarrow> string \<Rightarrow> string result" where
  "text_or record key fallback =
     (case required_text record key of
        Inr s \<Rightarrow> Inr s
      | Inl e \<Rightarrow> (case required_text record fallback of Inr s \<Rightarrow> Inr s | Inl _ \<Rightarrow> Inl e))"

definition adapter_create_snapshot ::
    "(string \<Rightarrow> rpc_value \<Rightarrow> ('s, rpc_value) sx) \<Rightarrow> rpc_registry \<Rightarrow> string \<Rightarrow> string \<Rightarrow> ('s, tn_snapshot) sx" where
  "adapter_create_snapshot rpc R dataset snapshot_name =
     bindS (liftR (validate_dataset dataset)) (\<lambda>_.
     bindS (liftR (validate_snapshot_name snapshot_name)) (\<lambda>_.
     bindS (liftR (resolve_method R ''create_snapshot'')) (\<lambda>method.
     bindS (rpc method (RList [RObject [(''dataset'', RText dataset), (''name'', RText snapshot_name)]]))
       (\<lambda>res.
     bindS (liftR (mapping_result res ''snapshot create'')) (\<lambda>record.
     (let dataset_value = (case required_text record ''dataset'' of Inr d \<Rightarrow> d | Inl _ \<Rightarrow> dataset)
      in bindS (liftR (text_or record ''id'' ''name'')) (\<lambda>i.
         bindS (liftR (text_or record ''name'' ''id'')) (\<lambda>name.
         returnS \<lparr>tn_id = i, tn_name = name, tn_dataset = dataset_value\<rparr>))))))))"

definition adapter_clone_snapshot ::
    "(string \<Rightarrow> rpc_value \<Rightarrow> ('s, rpc_value) sx) \<Rightarrow> rpc_registry \<Rightarrow> string \<Rightarrow> string \<Rightarrow> ('s, unit) sx" where
  "adapter_clone_snapshot rpc R snapshot dataset_dst =
     bindS (liftR (validate_snapshot snapshot)) (\<lambda>_.
     bindS (liftR (validate_dataset dataset_dst)) (\<lambda>_.
     bindS (liftR (resolve_method R ''clone_snapshot'')) (\<lambda>method.
     bindS (rpc method (RList [RObject [(''snapshot'', RText snapshot), (''dataset_dst'', RText dataset_dst)]]))
       (\<lambda>res.
     if res \<noteq> RBool True
     then raiseS (TrueNASAdapterError ''TrueNAS snapshot clone returned an unexpected result'')
     else returnS ()))))"

definition adapter_update_extent_device ::
    "(string \<Rightarrow> rpc_value \<Rightarrow> ('s, rpc_value) sx) \<Rightarrow> rpc_registry \<Rightarrow> int \<Rightarrow> string \<Rightarrow> ('s, tn_extent) sx" where
  "adapter_update_extent_device rpc R extent_id device =
     (if extent_id \<le> 0 then raiseS (ValueError ''extent_id must be positive'')
      else (let device = canonical_disk_device device
            in if \<not> starts_with ''zvol/'' device \<or> ''..'' \<in> set (split_char CHR ''/'' device)
               then raiseS (ValueError ''device must be a zvol/ path without traversal'')
               else
                 bindS (liftR (resolve_method R ''update_extent_device'')) (\<lambda>method.
                 bindS (rpc method (RList [RInt extent_id, RObject [(''disk'', RText device)]])) (\<lambda>res.
                 bindS (liftR (mapping_result res ''extent update'')) (\<lambda>record.
                 liftR (map_extent record))))))"

definition adapter_delete_dataset ::
    "(string \<Rightarrow> rpc_value \<Rightarrow> ('s, rpc_value) sx) \<Rightarrow> rpc_registry \<Rightarrow> string \<Rightarrow> ('s, unit) sx" where
  "adapter_delete_dataset rpc R dataset =
     bindS (liftR (validate_dataset dataset)) (\<lambda>_.
     bindS (liftR (resolve_method R ''delete_dataset'')) (\<lambda>method.
     bindS (rpc method (RList [RText dataset,
         RObject [(''recursive'', RBool False), (''force'', RBool False)]])) (\<lambda>res.
     if res \<noteq> RBool True \<and> res \<noteq> RNull
     then raiseS (TrueNASAdapterError ''TrueNAS dataset delete returned an unexpected result'')
     else returnS ())))"

definition mk_write_adapter :: "rpc_registry \<Rightarrow> rpc_registry result" where
  "mk_write_adapter R =
     (if \<not> rr_allow_writes R then Inl (ValueError ''write adapter requires a write-enabled method registry'')
      else Inr R)"

text \<open>The two adapters as the clients of the workflow: the read-only adapter has the registry \<open>R\<close>
  and the write adapter the registry \<open>W\<close>, each over its transport.\<close>

definition adapter_client ::
    "(string \<Rightarrow> rpc_value \<Rightarrow> ('s, rpc_value) sx) \<Rightarrow> rpc_registry
     \<Rightarrow> (string \<Rightarrow> rpc_value \<Rightarrow> ('s, rpc_value) sx) \<Rightarrow> rpc_registry
     \<Rightarrow> ('s, unit) sx \<Rightarrow> ('s, unit) sx \<Rightarrow> 's truenas_client" where
  "adapter_client read_rpc R write_rpc W close_read close_write =
     \<lparr>tc_query_datasets = adapter_query read_rpc R ''query_datasets'' map_dataset,
      tc_query_snapshots = adapter_query read_rpc R ''query_snapshots'' map_snapshot,
      tc_query_targets = adapter_query read_rpc R ''query_targets'' map_target,
      tc_query_extents = adapter_query read_rpc R ''query_extents'' map_extent,
      tc_query_target_extents = adapter_query read_rpc R ''query_target_extents'' map_target_extent,
      tc_create_snapshot = adapter_create_snapshot write_rpc W,
      tc_clone_snapshot = adapter_clone_snapshot write_rpc W,
      tc_update_extent_device = adapter_update_extent_device write_rpc W,
      tc_delete_dataset = adapter_delete_dataset write_rpc W,
      tc_close_read = close_read, tc_close_write = close_write\<rparr>"

end
