(* ===== verification/TrueNAS_Remote.thy ===== *)
theory TrueNAS_Remote
  imports TrueNAS_Adapter
begin

text \<open>
  What the adapters rely on of a TrueNAS server, as the locale \<open>nas_remote\<close>: the documented
  behaviour of the JSON-RPC methods that the publish workflow calls, on the tables of extents, targets
  and associations.  Any call may fail; a failed update may have been carried out.  Nothing is assumed of
  any other method, the deletion of a dataset included.  On such a server the adapters keep the
  contract of the workflow's port.
\<close>

section \<open>The server\<close>

definition with_disk :: "string \<Rightarrow> rpc_record \<Rightarrow> rpc_record" where
  "with_disk dev r = AList.update ''disk'' (RText dev) r"

text \<open>The device of a record, as the adapter reads it: of a file-backed extent its path, of any other
  its disk, each with the other field as its fallback.\<close>

definition file_extent :: "rpc_record \<Rightarrow> bool" where
  "file_extent r \<longleftrightarrow> map_of r ''type'' = Some (RText ''FILE'')"

definition record_disk :: "rpc_record \<Rightarrow> string option" where
  "record_disk r =
     (let text = (\<lambda>key. case map_of r key of Some (RText s) \<Rightarrow> Some s | _ \<Rightarrow> None);
          pick = (\<lambda>a b. if a = None \<or> a = Some [] then b else a)
      in if file_extent r then pick (text ''path'') (text ''disk'')
         else map_option (removeprefix ''/dev/'') (pick (text ''disk'') (text ''path'')))"

definition extent_table_ok :: "(int \<times> rpc_record) list \<Rightarrow> bool" where
  "extent_table_ok xs \<longleftrightarrow> distinct (map fst xs)
     \<and> (\<forall>(k, r) \<in> set xs. map_of r ''id'' = Some (RInt k))"

text \<open>The methods that log in, read, or create something new.\<close>

definition quiet_methods :: "string set" where
  "quiet_methods = {''auth.login_with_api_key'', ''pool.dataset.query'', ''pool.snapshot.query'',
     ''iscsi.target.query'', ''iscsi.extent.query'', ''iscsi.targetextent.query'',
     ''pool.snapshot.create'', ''pool.snapshot.clone''}"

lemma quiet_methods_simps [simp]:
  "''auth.login_with_api_key'' \<in> quiet_methods" "''pool.dataset.query'' \<in> quiet_methods"
  "''pool.snapshot.query'' \<in> quiet_methods" "''iscsi.target.query'' \<in> quiet_methods"
  "''iscsi.extent.query'' \<in> quiet_methods" "''iscsi.targetextent.query'' \<in> quiet_methods"
  "''pool.snapshot.create'' \<in> quiet_methods" "''pool.snapshot.clone'' \<in> quiet_methods"
  "''iscsi.extent.update'' \<notin> quiet_methods" "''pool.dataset.delete'' \<notin> quiet_methods"
  by (simp_all add: quiet_methods_def)

locale nas_remote =
  fixes rpc :: "string \<Rightarrow> rpc_value \<Rightarrow> ('s, rpc_value) sx"
    and extents :: "'s \<Rightarrow> (int \<times> rpc_record) list"
    and targets :: "'s \<Rightarrow> rpc_record list"
    and links :: "'s \<Rightarrow> rpc_record list"
    and ok :: "'s \<Rightarrow> bool"
  assumes table: "ok s \<Longrightarrow> extent_table_ok (extents s)"
    and frame: "ok s \<Longrightarrow> meth \<in> quiet_methods \<Longrightarrow> after (rpc meth params)
      (\<lambda>_ t. ok t \<and> extents t = extents s \<and> targets t = targets s \<and> links t = links s)
      (\<lambda>_ t. ok t \<and> extents t = extents s \<and> targets t = targets s \<and> links t = links s) s"
    and extent_query: "ok s \<Longrightarrow> after (rpc ''iscsi.extent.query'' (RList []))
      (\<lambda>v _. v = RList (map (RObject \<circ> snd) (extents s))) (\<lambda>_ _. True) s"
    and target_query: "ok s \<Longrightarrow> after (rpc ''iscsi.target.query'' (RList []))
      (\<lambda>v _. v = RList (map RObject (targets s))) (\<lambda>_ _. True) s"
    and link_query: "ok s \<Longrightarrow> after (rpc ''iscsi.targetextent.query'' (RList []))
      (\<lambda>v _. v = RList (map RObject (links s))) (\<lambda>_ _. True) s"
    and extent_update: "ok s \<Longrightarrow>
      after (rpc ''iscsi.extent.update'' (RList [RInt eid, RObject [(''disk'', RText dev)]]))
      (\<lambda>_ t. ok t \<and> targets t = targets s \<and> links t = links s \<and> eid \<in> fst ` set (extents s)
         \<and> extents t = map (\<lambda>(k, r). (k, if k = eid then with_disk dev r else r)) (extents s))
      (\<lambda>_ t. ok t \<and> targets t = targets s \<and> links t = links s \<and> (extents t = extents s
         \<or> extents t = map (\<lambda>(k, r). (k, if k = eid then with_disk dev r else r)) (extents s))) s"
begin

definition view :: "'s \<Rightarrow> nas_view" where
  "view s =
     \<lparr>nv_device = (\<lambda>k. map_option record_disk (map_of (extents s) k)),
      nv_targets = (case mapR map_target (targets s) of Inr xs \<Rightarrow> xs | Inl _ \<Rightarrow> []),
      nv_links = (case mapR map_target_extent (links s) of Inr xs \<Rightarrow> xs | Inl _ \<Rightarrow> [])\<rparr>"

definition same :: "'s \<Rightarrow> 's \<Rightarrow> bool" where
  "same s t \<longleftrightarrow> ok t \<and> extents t = extents s \<and> targets t = targets s \<and> links t = links s"

lemma same_view: "same s t \<Longrightarrow> ok t \<and> view t = view s"
  by (simp add: same_def view_def)

lemma rpc_frame: "ok s \<Longrightarrow> meth \<in> quiet_methods \<Longrightarrow> after (rpc meth params) (\<lambda>_. same s) (\<lambda>_. same s) s"
  using frame by (simp add: same_def [abs_def])

end

section \<open>Facts on records\<close>

lemma map_of_with_disk: "map_of (with_disk dev r) key = (if key = ''disk'' then Some (RText dev) else map_of r key)"
  by (simp add: with_disk_def update_conv')

lemma record_disk_with_disk:
  assumes "dev \<noteq> []" and "\<not> starts_with ''/dev/'' dev"
  shows "\<not> file_extent r \<Longrightarrow> record_disk (with_disk dev r) = Some dev"
    and "record_disk (with_disk dev r) = record_disk r \<or> record_disk (with_disk dev r) = Some dev"
  using assms by (simp_all add: record_disk_def file_extent_def map_of_with_disk removeprefix_def Let_def)

lemma map_of_keyed: "map_of (map (\<lambda>(k, r). (k, f k r)) xs) k = map_option (f k) (map_of xs k)"
  by (induction xs) auto

lemma as_records_objects: "as_records operation (map RObject rs) = Inr rs"
  by (induction rs) simp_all

lemma optional_text_Inr:
  "optional_text r key = Inr v \<Longrightarrow> v = (case map_of r key of Some (RText s) \<Rightarrow> Some s | _ \<Rightarrow> None)"
  by (auto simp: optional_text_def split: option.splits rpc_value.splits)

lemma or_text_Inr:
  assumes "or_text (optional_text r a) (optional_text r b) = Inr v"
  shows "v = (let text = (\<lambda>key. case map_of r key of Some (RText s) \<Rightarrow> Some s | _ \<Rightarrow> None)
    in if text a = None \<or> text a = Some [] then text b else text a)"
proof -
  obtain x where x: "optional_text r a = Inr x"
    and v: "(if x = None \<or> x = Some [] then optional_text r b else Inr x) = Inr v"
    using assms by (auto simp: or_text_def bindR_Inr_iff)
  show ?thesis
    using optional_text_Inr [OF x] optional_text_Inr [of r b v] v
    by (cases "x = None \<or> x = Some []") (auto simp: Let_def)
qed

lemma canonical_disk_path_eq:
  "canonical_disk_path v kind = (if kind = Some ''FILE'' then v else map_option (removeprefix ''/dev/'') v)"
  by (auto simp: canonical_disk_path_def removeprefix_def split: option.split)

lemma map_extent_Inr:
  assumes "map_extent r = Inr x" and "map_of r ''id'' = Some (RInt k)"
  shows "te_id x = k" and "te_path x = record_disk r"
proof -
  show "te_id x = k"
    using assms by (auto simp: map_extent_def bindR_Inr_iff required_int_def)
  obtain kind backing where kind: "optional_text r ''type'' = Inr kind" and
    b: "(if kind = Some ''FILE'' then or_text (optional_text r ''path'') (optional_text r ''disk'')
       else or_text (optional_text r ''disk'') (optional_text r ''path'')) = Inr backing"
    and path: "te_path x = canonical_disk_path backing kind"
    using assms(1) by (auto simp: map_extent_def bindR_Inr_iff)
  have "kind = Some ''FILE'' \<longleftrightarrow> file_extent r"
    using kind by (auto simp: optional_text_def file_extent_def split: option.splits rpc_value.splits)
  with b path show "te_path x = record_disk r"
    using or_text_Inr [of r "''path''" "''disk''" backing] or_text_Inr [of r "''disk''" "''path''" backing]
    unfolding record_disk_def canonical_disk_path_eq Let_def by (cases "file_extent r") simp_all
qed

lemma mapped_extents:
  assumes "extent_table_ok xs" and "mapR map_extent (map snd xs) = Inr es"
  shows "distinct (map te_id es)"
    and "map_of (map (\<lambda>x. (te_id x, te_path x)) es) = (\<lambda>k. map_option record_disk (map_of xs k))"
proof -
  have rel: "list_all2 (\<lambda>kr x. te_id x = fst kr \<and> te_path x = record_disk (snd kr)) xs es"
  proof -
    have "list_all2 (\<lambda>kr x. map_extent (snd kr) = Inr x) xs es"
      using assms(2) by (simp add: mapR_Inr_iff list_all2_map1)
    then show ?thesis
    proof (rule list.rel_mono_strong)
      fix kr x assume "kr \<in> set xs" "map_extent (snd kr) = Inr x"
      with assms(1) have "map_of (snd kr) ''id'' = Some (RInt (fst kr))" by (auto simp: extent_table_ok_def)
      with map_extent_Inr [OF \<open>map_extent (snd kr) = Inr x\<close>]
      show "te_id x = fst kr \<and> te_path x = record_disk (snd kr)" by blast
    qed
  qed
  then have "map te_id es = map fst xs"
    by (induction rule: list_all2_induct) simp_all
  then show "distinct (map te_id es)" using assms(1) by (simp add: extent_table_ok_def)
  have "map (\<lambda>x. (te_id x, te_path x)) es = map (\<lambda>(k, r). (k, record_disk r)) xs"
    using rel by (induction rule: list_all2_induct) auto
  then show "map_of (map (\<lambda>x. (te_id x, te_path x)) es) = (\<lambda>k. map_option record_disk (map_of xs k))"
    by (simp add: map_of_map fun_eq_iff)
qed

section \<open>The adapters keep the contract of the port\<close>

lemma registry_methods:
  assumes "mk_registry version writes = Inr R"
  shows "resolve_method R ''query_datasets'' = Inr ''pool.dataset.query''"
    and "resolve_method R ''query_snapshots'' = Inr ''pool.snapshot.query''"
    and "resolve_method R ''query_targets'' = Inr ''iscsi.target.query''"
    and "resolve_method R ''query_extents'' = Inr ''iscsi.extent.query''"
    and "resolve_method R ''query_target_extents'' = Inr ''iscsi.targetextent.query''"
    and "resolve_method R ''authenticate'' = Inr ''auth.login_with_api_key''"
  using assms
  by (auto simp: mk_registry_def Let_def resolve_method_def read_methods_def split: if_splits)

lemma write_registry_methods:
  assumes "mk_registry version True = Inr R"
  shows "resolve_method R ''create_snapshot'' = Inr ''pool.snapshot.create''"
    and "resolve_method R ''clone_snapshot'' = Inr ''pool.snapshot.clone''"
    and "resolve_method R ''update_extent_device'' = Inr ''iscsi.extent.update''"
    and "resolve_method R ''delete_dataset'' = Inr ''pool.dataset.delete''"
  using assms
  by (auto simp: mk_registry_def Let_def resolve_method_def read_methods_def write_methods_def
      split: if_splits)

lemma after_trivial: "after m (\<lambda>_ _. True) (\<lambda>_ _. True) s"
  by (auto simp: after_def split: sum.split prod.split)

lemma after_liftR_same: "Q \<Longrightarrow> (\<And>x. r = Inr x \<Longrightarrow> P x s) \<Longrightarrow> (\<And>e. r = Inl e \<Longrightarrow> E e s) \<Longrightarrow> after (liftR r) P E s"
  by (simp add: after_lift split: sum.split)

context nas_remote
begin

lemma query_after:
  assumes "ok s" and "resolve_method R op = Inr meth" and "meth \<in> quiet_methods"
    and "after (rpc meth (RList [])) (\<lambda>v _. v = RList (map RObject rows)) (\<lambda>_ _. True) s"
  shows "after (adapter_query rpc R op f) (\<lambda>xs t. same s t \<and> mapR f rows = Inr xs) (\<lambda>_. same s) s"
  unfolding adapter_query_def query_records_def assms(2) after_bind after_lift sum.case
  by (rule after_mono [OF after_conj [OF rpc_frame [OF assms(1,3), of "RList []"] assms(4)]])
    (auto simp: after_simps as_records_objects split: sum.split)

lemma call_frame:
  assumes "ok s" and "meth \<in> quiet_methods"
    and "\<And>v t. same s t \<Longrightarrow> after (g v) (\<lambda>_. same s) (\<lambda>_. same s) t"
  shows "after (bindS (rpc meth params) g) (\<lambda>_. same s) (\<lambda>_. same s) s"
  unfolding after_bind
  by (rule after_mono [OF rpc_frame [OF assms(1,2), of params]]) (use assms(3) in auto)

lemma same_refl: "ok s \<Longrightarrow> same s s"
  by (simp add: same_def)

lemma write_frames:
  assumes "ok s" and "mk_registry w True = Inr W"
  shows "after (adapter_create_snapshot rpc W d n) (\<lambda>_. same s) (\<lambda>_. same s) s"
    and "after (adapter_clone_snapshot rpc W snap d) (\<lambda>_. same s) (\<lambda>_. same s) s"
proof -
  note m = write_registry_methods [OF assms(2)]
  have step: "after (bindS (liftR (v :: unit result)) (\<lambda>_. k)) (\<lambda>_. same s) (\<lambda>_. same s) s"
    if "after k (\<lambda>_. same s) (\<lambda>_. same s) s" for v :: "unit result" and k :: "('s, 'x) sx"
    using that same_refl [OF assms(1)] by (simp add: after_simps split: sum.split)
  show "after (adapter_create_snapshot rpc W d n) (\<lambda>_. same s) (\<lambda>_. same s) s"
    unfolding adapter_create_snapshot_def m
    by (intro step) (auto simp: after_bind [of "liftR _"] after_lift after_return Let_def
        intro!: call_frame [OF assms(1)] split: sum.split)
  show "after (adapter_clone_snapshot rpc W snap d) (\<lambda>_. same s) (\<lambda>_. same s) s"
    unfolding adapter_clone_snapshot_def m
    by (intro step, unfold after_bind [of "liftR _"] after_lift sum.case, rule call_frame [OF assms(1)])
      (auto simp: after_if after_raise after_return)
qed

definition updated :: "int \<Rightarrow> string \<Rightarrow> 's \<Rightarrow> 's \<Rightarrow> bool" where
  "updated eid dev s t \<longleftrightarrow> ok t \<and> targets t = targets s \<and> links t = links s
     \<and> extents t = map (\<lambda>(k, r). (k, if k = eid then with_disk dev r else r)) (extents s)"

lemma updated_view:
  assumes "updated eid dev s t" and "dev \<noteq> []" "\<not> starts_with ''/dev/'' dev"
  shows "map_of (extents s) eid = Some r \<Longrightarrow> \<not> file_extent r \<Longrightarrow> view t = set_device eid dev (view s)"
    and "view t = view s \<or> view t = set_device eid dev (view s)"
proof -
  have dev: "nv_device (view t) k = map_option (\<lambda>r. if k = eid then record_disk (with_disk dev r) else record_disk r)
      (map_of (extents s) k)" for k
    using assms(1) by (simp add: updated_def view_def map_of_keyed option.map_comp comp_def if_distrib [of record_disk])
  have rest: "nv_targets (view t) = nv_targets (view s)" "nv_links (view t) = nv_links (view s)"
    using assms(1) by (simp_all add: updated_def view_def)
  have old: "nv_device (view s) = (\<lambda>k. map_option record_disk (map_of (extents s) k))" by (simp add: view_def)
  have hit: "view t = set_device eid dev (view s)"
    if "map_of (extents s) eid = Some r" "record_disk (with_disk dev r) = Some dev" for r
  proof -
    have "nv_device (view t) = (nv_device (view s))(eid \<mapsto> Some dev)"
      using that by (auto simp: fun_eq_iff dev old)
    then show ?thesis using rest by (intro nas_view.equality) (simp_all add: set_device_def)
  qed
  then show "map_of (extents s) eid = Some r \<Longrightarrow> \<not> file_extent r \<Longrightarrow> view t = set_device eid dev (view s)"
    using record_disk_with_disk(1) [OF assms(2,3)] by blast
  have miss: "view t = view s"
    if "\<And>r. map_of (extents s) eid = Some r \<Longrightarrow> record_disk (with_disk dev r) = record_disk r"
  proof -
    have "nv_device (view t) = nv_device (view s)"
      using that by (auto simp: fun_eq_iff dev old split: option.split intro!: option.map_cong)
    then show ?thesis using rest by (intro nas_view.equality) simp_all
  qed
  show "view t = view s \<or> view t = set_device eid dev (view s)"
    using hit miss record_disk_with_disk(2) [OF assms(2,3)] by (cases "map_of (extents s) eid") auto
qed

text \<open>An update sets the device, or leaves the view as it was; of an extent that is not file-backed it
  has set the device when it returns.\<close>

definition update_done :: "int \<Rightarrow> string \<Rightarrow> 's \<Rightarrow> 's \<Rightarrow> bool" where
  "update_done eid dev s t \<longleftrightarrow> ok t \<and> (view t = view s \<or> view t = set_device eid dev (view s))"

lemma update_after:
  assumes "ok s" and "mk_registry w True = Inr W" and plain: "\<not> starts_with ''/dev/'' dev"
  shows "after (adapter_update_extent_device rpc W eid dev)
      (\<lambda>_ t. update_done eid dev s t
         \<and> (\<forall>r. map_of (extents s) eid = Some r \<and> \<not> file_extent r \<longrightarrow> view t = set_device eid dev (view s)))
      (\<lambda>_. update_done eid dev s) s"
proof -
  have canon: "canonical_disk_device dev = dev"
    using plain starts_with_append [of "''/dev/''"] by (auto simp: canonical_disk_device_def starts_with_iff)
  let ?Q = "\<lambda>_ t. update_done eid dev s t
     \<and> (\<forall>r. map_of (extents s) eid = Some r \<and> \<not> file_extent r \<longrightarrow> view t = set_device eid dev (view s))"
  let ?params = "RList [RInt eid, RObject [(''disk'', RText dev)]]"
  let ?rest = "\<lambda>v. bindS (liftR (mapping_result v ''extent update'')) (\<lambda>record. liftR (map_extent record))"
  have call: "after (bindS (rpc ''iscsi.extent.update'' ?params) ?rest) ?Q (\<lambda>_. update_done eid dev s) s"
    if zvol: "starts_with ''zvol/'' dev"
  proof -
    have dev: "dev \<noteq> []" using zvol by (auto simp: starts_with_def)
    have rest: "after (?rest v) ?Q (\<lambda>_. update_done eid dev s) t" if "?Q v t" for v t
      using that by (simp add: after_bind [of "liftR _"] after_lift split: sum.split)
    show ?thesis
      unfolding after_bind [of "rpc _ _"]
    proof (rule after_mono [OF extent_update [OF assms(1)]])
      fix v t assume "ok t \<and> targets t = targets s \<and> links t = links s \<and> eid \<in> fst ` set (extents s)
         \<and> extents t = map (\<lambda>(k, r). (k, if k = eid then with_disk dev r else r)) (extents s)"
      then have upd: "updated eid dev s t" "ok t" by (simp_all add: updated_def)
      show "after (?rest v) ?Q (\<lambda>_. update_done eid dev s) t"
        by (rule rest) (use upd(2) updated_view [OF upd(1) dev plain] in \<open>auto simp: update_done_def\<close>)
    next
      fix e t assume "ok t \<and> targets t = targets s \<and> links t = links s \<and> (extents t = extents s
         \<or> extents t = map (\<lambda>(k, r). (k, if k = eid then with_disk dev r else r)) (extents s))"
      then have "same s t \<or> updated eid dev s t" "ok t" by (auto simp: updated_def same_def)
      then show "update_done eid dev s t"
        unfolding update_done_def using same_view updated_view(2) [OF _ dev plain] by blast
    qed
  qed
  show ?thesis
    using call assms(1)
    by (simp add: adapter_update_extent_device_def canon Let_def write_registry_methods [OF assms(2)]
        after_if after_raise after_bind [of "liftR _"] after_lift update_done_def)
qed

text \<open>Over one transport for reads and one for writes that end at the same server.\<close>

lemma adapter_port:
  assumes "mk_registry v writes = Inr R" and "mk_registry w True = Inr W"
  shows "truenas_port (adapter_client rpc R rpc W close_read close_write) view ok"
proof
  fix s assume ok: "ok s"
  note m = registry_methods [OF assms(1)]
  let ?C = "adapter_client rpc R rpc W close_read close_write"
  have frame: "after n (\<lambda>_ t. ok t \<and> view t = view s) (\<lambda>_ t. ok t \<and> view t = view s) s"
    if "after n (\<lambda>_. same s) (\<lambda>_. same s) s" for n :: "('s, 'x) sx"
    by (rule after_mono [OF that]) (auto dest: same_view)
  have query: "after (adapter_query rpc R op f) (\<lambda>xs t. ok t \<and> view t = view s \<and> mapR f rows = Inr xs)
      (\<lambda>_ t. ok t \<and> view t = view s) s"
    if "resolve_method R op = Inr meth" "meth \<in> quiet_methods"
      "after (rpc meth (RList [])) (\<lambda>v _. v = RList (map RObject rows)) (\<lambda>_ _. True) s"
    for op meth rows and f :: "rpc_record \<Rightarrow> 'x result"
    by (rule after_mono [OF query_after [OF ok that]]) (auto dest: same_view)
  have quiet: "after (adapter_query rpc R op f) (\<lambda>_ t. ok t \<and> view t = view s) (\<lambda>_ t. ok t \<and> view t = view s) s"
    if "resolve_method R op = Inr meth" "meth \<in> quiet_methods"
    for op meth and f :: "rpc_record \<Rightarrow> 'x result"
  proof (rule frame)
    have lift: "after (case v of RList vs \<Rightarrow> liftR (as_records op vs)
          | _ \<Rightarrow> raiseS e) (\<lambda>rs. after (liftR (mapR f rs)) (\<lambda>_. same s) (\<lambda>_. same s)) (\<lambda>_. same s) t"
      if "same s t" for v e t
      using that by (cases v) (simp_all add: after_lift after_raise split: sum.split)
    show "after (adapter_query rpc R op f) (\<lambda>_. same s) (\<lambda>_. same s) s"
      unfolding adapter_query_def query_records_def that(1) after_bind after_lift sum.case
      by (rule after_mono [OF rpc_frame [OF ok that(2)]]) (simp_all only: lift [unfolded after_lift])
  qed
  show "after (tc_query_datasets ?C) (\<lambda>_ t. ok t \<and> view t = view s) (\<lambda>_ t. ok t \<and> view t = view s) s"
    "after (tc_query_snapshots ?C) (\<lambda>_ t. ok t \<and> view t = view s) (\<lambda>_ t. ok t \<and> view t = view s) s"
    using quiet [OF m(1), of map_dataset] quiet [OF m(2), of map_snapshot] by (simp_all add: adapter_client_def)
  show "after (tc_query_targets ?C) (\<lambda>xs t. ok t \<and> view t = view s \<and> xs = nv_targets (view s))
      (\<lambda>_ t. ok t \<and> view t = view s) s"
    using after_mono [OF query [OF m(3) _ target_query [OF ok], of map_target]]
    by (simp add: adapter_client_def view_def)
  show "after (tc_query_target_extents ?C) (\<lambda>xs t. ok t \<and> view t = view s \<and> xs = nv_links (view s))
      (\<lambda>_ t. ok t \<and> view t = view s) s"
    using after_mono [OF query [OF m(5) _ link_query [OF ok], of map_target_extent]]
    by (simp add: adapter_client_def view_def)
  show "after (tc_query_extents ?C)
      (\<lambda>xs t. ok t \<and> view t = view s \<and> distinct (map te_id xs)
         \<and> map_of (map (\<lambda>x. (te_id x, te_path x)) xs) = nv_device (view s))
      (\<lambda>_ t. ok t \<and> view t = view s) s"
  proof -
    have "map RObject (map snd (extents s)) = map (RObject \<circ> snd) (extents s)" by simp
    note q = query [OF m(4) _ extent_query [OF ok, folded this], of map_extent]
    show ?thesis
      unfolding adapter_client_def truenas_client.select_convs
      by (rule after_mono [OF q]) (use mapped_extents [OF table [OF ok]] in \<open>auto simp: view_def\<close>)
  qed
  show "after (tc_create_snapshot ?C d n) (\<lambda>_ t. ok t \<and> view t = view s) (\<lambda>_ t. ok t \<and> view t = view s) s"
    "after (tc_clone_snapshot ?C snap d) (\<lambda>_ t. ok t \<and> view t = view s) (\<lambda>_ t. ok t \<and> view t = view s) s"
    for d n snap
    using frame [OF write_frames(1) [OF ok assms(2)]] frame [OF write_frames(2) [OF ok assms(2)]]
    by (simp_all add: adapter_client_def)
  show "after (tc_update_extent_device ?C eid dev)
        (\<lambda>_ t. ok t \<and> (view t = view s \<or> view t = set_device eid dev (view s)))
        (\<lambda>_ t. ok t \<and> (view t = view s \<or> view t = set_device eid dev (view s))) s"
    if "\<not> starts_with ''/dev/'' dev" for eid dev
    unfolding adapter_client_def truenas_client.select_convs
    by (rule after_mono [OF update_after [OF ok assms(2) that]]) (simp_all add: update_done_def)
qed

end

end
