(* ===== verification/Py_Retry.thy ===== *)
theory Py_Retry
  imports Py_Hoare
begin

text \<open>
  The retry loop that the JSON-RPC transports and the agent's heartbeat share: a failed attempt whose
  exception is caught is followed by a recovery and a pause, until the attempts are used up.
\<close>

section \<open>The loop\<close>

text \<open>\<open>for attempt in range(left + 1)\<close> from the given attempt on.\<close>

fun retry_loop ::
    "('s, unit) sx \<Rightarrow> (nat \<Rightarrow> ('s, unit) sx) \<Rightarrow> (exn \<Rightarrow> exn) \<Rightarrow> (exn \<Rightarrow> bool) \<Rightarrow> nat \<Rightarrow> nat
     \<Rightarrow> ('s, 'a) sx \<Rightarrow> ('s, 'a) sx" where
  "retry_loop recover wait give_up caught 0 attempt m =
     catchS m (\<lambda>e. if caught e then bindS recover (\<lambda>_. raiseS (give_up e)) else raiseS e)"
| "retry_loop recover wait give_up caught (Suc left) attempt m =
     catchS m (\<lambda>e. if caught e
       then bindS recover (\<lambda>_. bindS (wait attempt) (\<lambda>_.
            retry_loop recover wait give_up caught left (Suc attempt) m))
       else raiseS e)"

text \<open>A condition that every attempt keeps when it fails holds at the next attempt.\<close>

lemma after_retry_loop:
  assumes "J s" and "\<And>t. J t \<Longrightarrow> after m Q (\<lambda>_. J) t"
    and "\<And>t. J t \<Longrightarrow> after recover (\<lambda>_. J) (\<lambda>_. J) t"
    and "\<And>n t. J t \<Longrightarrow> after (wait n) (\<lambda>_. J) (\<lambda>_. J) t"
  shows "after (retry_loop recover wait give_up caught left attempt m) Q (\<lambda>_. J) s"
  using assms(1)
proof (induction left arbitrary: attempt s)
  case 0
  have "after (bindS recover (\<lambda>_. raiseS e)) Q (\<lambda>_. J) t" if "J t" for t e
    unfolding after_bind by (rule after_mono [OF assms(3) [OF that]]) (auto simp: after_raise)
  then show ?case
    unfolding retry_loop.simps after_catch
    by (intro after_mono [OF assms(2) [OF 0]]) (auto simp: after_if after_raise)
next
  case (Suc left)
  have "after (bindS recover (\<lambda>_. bindS (wait attempt)
      (\<lambda>_. retry_loop recover wait give_up caught left (Suc attempt) m))) Q (\<lambda>_. J) t" if "J t" for t
    unfolding after_bind
    by (rule after_mono [OF assms(3) [OF that]], rule after_mono [OF assms(4)]) (auto intro: Suc.IH)
  then show ?case
    unfolding retry_loop.simps after_catch
    by (intro after_mono [OF assms(2) [OF Suc.prems]]) (auto simp: after_if after_raise)
qed

end
