(* ===== verification/TrueNAS_Transport.thy ===== *)
theory TrueNAS_Transport
  imports TrueNAS_Remote Py_Retry
begin

text \<open>
  \<open>truenas_adapter/transport.py\<close> (JSON-RPC over a WebSocket) and \<open>ApiKeyJsonRpcTransport\<close> of
  \<open>truenas_adapter/runtime.py\<close>.  A message is the value its text parses to.  The library calls of
  the WebSocket are parameters over the outer state \<open>'w\<close>; a timeout is the exception they raise,
  and \<open>patience\<close> is the number of messages that can arrive before the deadline of one attempt.
  The delays are rational numbers of seconds.
\<close>

section \<open>Retries\<close>

definition wait_before_retry ::
    "(rat \<Rightarrow> ('s, unit) sx) \<Rightarrow> rat \<Rightarrow> rat \<Rightarrow> nat \<Rightarrow> ('s, unit) sx" where
  "wait_before_retry sleep backoff backoff_max attempt =
     (if backoff = 0 then returnS () else sleep (min (backoff * 2 ^ attempt) backoff_max))"

section \<open>The WebSocket transport\<close>

datatype ws_message = WsJson rpc_value | WsInvalidUtf8 | WsNotText | WsInvalidJson

text \<open>What the transport uses of a WebSocket.  \<open>ws_connect\<close> yields no connection when the deadline
  of the request (\<open>asyncio.wait_for\<close>) passes while it connects.\<close>

record ('w, 'c) web_socket =
  ws_connect :: "('w, 'c option) sx"
  ws_send :: "'c \<Rightarrow> rpc_value \<Rightarrow> ('w, unit) sx"
  ws_recv :: "'c \<Rightarrow> ('w, ws_message) sx"
  ws_close :: "'c \<Rightarrow> ('w, unit) sx"
  ws_sleep :: "rat \<Rightarrow> ('w, unit) sx"

record transport_config =
  tp_retry_attempts :: nat
  tp_backoff :: rat
  tp_backoff_max :: rat
  tp_patience :: nat

record 'c transport =
  tr_connection :: "'c option"
  tr_next_id :: int
  tr_closed :: bool

definition mk_transport_config ::
    "rat \<Rightarrow> int option \<Rightarrow> int option \<Rightarrow> rat \<Rightarrow> rat \<Rightarrow> nat \<Rightarrow> transport_config result" where
  "mk_transport_config timeout_seconds reconnect_attempts retry_attempts backoff backoff_max patience =
     (let attempts = (case retry_attempts of Some n \<Rightarrow> n
          | None \<Rightarrow> (case reconnect_attempts of Some n \<Rightarrow> n | None \<Rightarrow> 2))
      in if timeout_seconds \<le> 0 then Inl (ValueError ''timeout_seconds must be positive'')
         else if reconnect_attempts \<noteq> None \<and> retry_attempts \<noteq> None
         then Inl (ValueError ''configure only one of reconnect_attempts or retry_attempts'')
         else if \<not> (0 \<le> attempts \<and> attempts \<le> 10)
         then Inl (ValueError ''retry_attempts must be an integer from 0 to 10'')
         else if backoff < 0 then Inl (ValueError ''retry_backoff_seconds cannot be negative'')
         else if backoff_max < 0 then Inl (ValueError ''retry_backoff_max_seconds cannot be negative'')
         else if backoff_max < backoff
         then Inl (ValueError ''retry_backoff_max_seconds cannot be less than retry_backoff_seconds'')
         else Inr \<lparr>tp_retry_attempts = nat attempts, tp_backoff = backoff,
                tp_backoff_max = backoff_max, tp_patience = patience\<rparr>)"

definition transport_new :: "'c transport" where
  "transport_new = \<lparr>tr_connection = None, tr_next_id = 1, tr_closed = False\<rparr>"

text \<open>\<open>ConnectionError\<close> and \<open>TimeoutError\<close> are subclasses of \<open>OSError\<close>.\<close>

fun os_error :: "exn \<Rightarrow> bool" where
  "os_error (OSError m) = True"
| "os_error (ConnectionError m) = True"
| "os_error (TimeoutError m) = True"
| "os_error _ = False"

definition transient_error :: "exn \<Rightarrow> bool" where
  "transient_error e =
     (os_error e \<or> (case e of EOFError m \<Rightarrow> True | JSONRPCConnectionError m \<Rightarrow> True | _ \<Rightarrow> False))"

definition is_timeout :: "exn \<Rightarrow> bool" where
  "is_timeout e = (case e of TimeoutError m \<Rightarrow> True | _ \<Rightarrow> False)"

definition decode_message :: "ws_message \<Rightarrow> rpc_record result" where
  "decode_message raw =
     (case raw of
        WsInvalidUtf8 \<Rightarrow> Inl (JSONRPCProtocolError ''TrueNAS returned invalid UTF-8'')
      | WsNotText \<Rightarrow> Inl (JSONRPCProtocolError ''TrueNAS returned a non-text JSON-RPC message'')
      | WsInvalidJson \<Rightarrow> Inl (JSONRPCProtocolError ''TrueNAS returned malformed JSON'')
      | WsJson (RObject r) \<Rightarrow> Inr r
      | WsJson _ \<Rightarrow> Inl (JSONRPCProtocolError ''TrueNAS returned a non-object JSON-RPC message''))"

text \<open>\<open>value == request_id\<close>: in Python \<open>True == 1\<close> and \<open>1.0 == 1\<close>.\<close>

definition equals_int :: "rpc_value option \<Rightarrow> int \<Rightarrow> bool" where
  "equals_int v n =
     (case v of
        Some (RInt i) \<Rightarrow> i = n
      | Some (RBool b) \<Rightarrow> n = (if b then 1 else 0)
      | Some (RReal r) \<Rightarrow> r = of_int n
      | _ \<Rightarrow> False)"

definition remote_error :: "string \<Rightarrow> int option \<Rightarrow> exn" where
  "remote_error method error_code =
     JSONRPCRemoteError (''TrueNAS JSON-RPC method failed: '' @ method @ '' (code=''
       @ (case error_code of None \<Rightarrow> ''unknown'' | Some n \<Rightarrow> str_int n) @ '')'')"

definition read_response :: "string \<Rightarrow> rpc_record \<Rightarrow> rpc_value result" where
  "read_response method message =
     (if map_of message ''jsonrpc'' \<noteq> Some (RText ''2.0'')
      then Inl (JSONRPCProtocolError ''TrueNAS returned a non-JSON-RPC response'')
      else case map_of message ''error'' of
          Some (RObject error) \<Rightarrow>
            Inl (remote_error method (case map_of error ''code'' of Some (RInt n) \<Rightarrow> Some n | _ \<Rightarrow> None))
        | Some _ \<Rightarrow> Inl (JSONRPCProtocolError ''TrueNAS returned an invalid JSON-RPC error'')
        | None \<Rightarrow>
            (case map_of message ''result'' of
               None \<Rightarrow> Inl (JSONRPCProtocolError ''TrueNAS response has neither result nor error'')
             | Some v \<Rightarrow> Inr v))"

fun receive_result :: "('w, ws_message) sx \<Rightarrow> string \<Rightarrow> int \<Rightarrow> nat \<Rightarrow> ('w, rpc_value) sx" where
  "receive_result recv method request_id 0 = raiseS (TimeoutError [])"
| "receive_result recv method request_id (Suc patience) =
     bindS recv (\<lambda>raw.
     bindS (liftR (decode_message raw)) (\<lambda>message.
     if \<not> equals_int (map_of message ''id'') request_id
     then receive_result recv method request_id patience
     else liftR (read_response method message)))"

definition get_connection ::
    "('w, 'c) web_socket \<Rightarrow> ('c transport \<times> 'w, 'c) sx" where
  "get_connection ws =
     bindS (getS (tr_connection \<circ> fst)) (\<lambda>connection.
     case connection of
       Some c \<Rightarrow> returnS c
     | None \<Rightarrow>
         bindS (catchS (on_ext (ws_connect ws)) (\<lambda>e. raiseS
           (if os_error e then JSONRPCConnectionError ''TrueNAS WebSocket connection failed'' else e)))
           (\<lambda>opened. case opened of
              None \<Rightarrow> raiseS (TimeoutError [])
            | Some c \<Rightarrow> bindS (on_db (modifyS (\<lambda>tr. tr\<lparr>tr_connection := Some c\<rparr>))) (\<lambda>_. returnS c)))"

definition reset_connection :: "('w, 'c) web_socket \<Rightarrow> ('c transport \<times> 'w, unit) sx" where
  "reset_connection ws =
     bindS (getS (tr_connection \<circ> fst)) (\<lambda>connection.
     bindS (on_db (modifyS (\<lambda>tr. tr\<lparr>tr_connection := None\<rparr>))) (\<lambda>_.
     case connection of
       None \<Rightarrow> returnS ()
     | Some c \<Rightarrow> catchS (on_ext (ws_close ws c)) (\<lambda>e.
         if os_error e \<or> (case e of EOFError m \<Rightarrow> True | _ \<Rightarrow> False) then returnS () else raiseS e)))"

definition request_message :: "int \<Rightarrow> string \<Rightarrow> rpc_value \<Rightarrow> rpc_value" where
  "request_message request_id method params =
     RObject [(''jsonrpc'', RText ''2.0''), (''id'', RInt request_id), (''method'', RText method),
       (''params'', params)]"

definition request_once ::
    "('w, 'c) web_socket \<Rightarrow> nat \<Rightarrow> rpc_value \<Rightarrow> int \<Rightarrow> string \<Rightarrow> ('c transport \<times> 'w, rpc_value) sx" where
  "request_once ws patience payload request_id method =
     bindS (get_connection ws) (\<lambda>c.
     bindS (on_ext (ws_send ws c payload)) (\<lambda>_.
     on_ext (receive_result (ws_recv ws c) method request_id patience)))"

definition transport_give_up :: "string \<Rightarrow> exn \<Rightarrow> exn" where
  "transport_give_up method e =
     (if is_timeout e then JSONRPCTimeoutError (''TrueNAS JSON-RPC request timed out: '' @ method)
      else JSONRPCConnectionError (''TrueNAS JSON-RPC connection failed: '' @ method))"

definition transport_request ::
    "('w, 'c) web_socket \<Rightarrow> transport_config \<Rightarrow> string \<Rightarrow> rpc_value \<Rightarrow> ('c transport \<times> 'w, rpc_value) sx" where
  "transport_request ws cfg method params =
     bindS (getS fst) (\<lambda>tr.
     if tr_closed tr then raiseS (JSONRPCConnectionError ''JSON-RPC transport is closed'')
     else
       (let request_id = tr_next_id tr
        in bindS (on_db (modifyS (\<lambda>tr. tr\<lparr>tr_next_id := request_id + 1\<rparr>))) (\<lambda>_.
           retry_loop (reset_connection ws)
             (\<lambda>attempt. on_ext (wait_before_retry (ws_sleep ws) (tp_backoff cfg) (tp_backoff_max cfg) attempt))
             (transport_give_up method) transient_error (tp_retry_attempts cfg) 0
             (request_once ws (tp_patience cfg) (request_message request_id method params)
                request_id method))))"

definition transport_close :: "('w, 'c) web_socket \<Rightarrow> ('c transport \<times> 'w, unit) sx" where
  "transport_close ws =
     bindS (on_db (modifyS (\<lambda>tr. tr\<lparr>tr_closed := True\<rparr>))) (\<lambda>_. reset_connection ws)"

section \<open>The API-key transport\<close>

definition lost_request :: "exn \<Rightarrow> bool" where
  "lost_request e =
     (case e of JSONRPCConnectionError m \<Rightarrow> True | JSONRPCTimeoutError m \<Rightarrow> True | _ \<Rightarrow> False)"

definition authenticated_request ::
    "(string \<Rightarrow> rpc_value \<Rightarrow> ('s, rpc_value) sx) \<Rightarrow> string \<Rightarrow> string \<Rightarrow> string \<Rightarrow> rpc_value
     \<Rightarrow> ('s, rpc_value) sx" where
  "authenticated_request rpc api_key authentication_method method params =
     (if method = authentication_method then rpc method params
      else bindS (rpc authentication_method (RList [RText api_key])) (\<lambda>authenticated.
           if authenticated \<noteq> RBool True
           then raiseS (TrueNASAuthenticationError ''TrueNAS API key authentication failed'')
           else rpc method params))"

definition api_key_request ::
    "(rat \<Rightarrow> ('s, unit) sx) \<Rightarrow> nat \<Rightarrow> rat \<Rightarrow> rat \<Rightarrow> (string \<Rightarrow> rpc_value \<Rightarrow> ('s, rpc_value) sx)
     \<Rightarrow> string \<Rightarrow> string \<Rightarrow> string \<Rightarrow> rpc_value \<Rightarrow> ('s, rpc_value) sx" where
  "api_key_request sleep retry_attempts backoff backoff_max rpc api_key authentication_method method params =
     retry_loop (returnS ()) (wait_before_retry sleep backoff backoff_max) (\<lambda>e. e) lost_request retry_attempts 0
       (authenticated_request rpc api_key authentication_method method params)"

section \<open>Retries keep the contract of the server\<close>

lemma with_disk_idem [simp]: "with_disk dev (with_disk dev r) = with_disk dev r"
proof -
  have "AList.update k v (AList.update k v al) = AList.update k v al" for k v and al :: rpc_record
    by (induction al) auto
  then show ?thesis by (simp add: with_disk_def)
qed

lemma after_update_again:
  assumes "x = a \<or> x = b"
    and "after m (\<lambda>_ t. P t \<and> f t = b) (\<lambda>_ t. R t \<and> (f t = x \<or> f t = b)) s"
  shows "after m (\<lambda>_ t. P t \<and> f t = b) (\<lambda>_ t. R t \<and> (f t = a \<or> f t = b)) s"
  by (rule after_mono [OF assms(2)]) (use assms(1) in auto)

context nas_remote
begin

lemma api_key_remote:
  assumes sleep: "\<And>x s. ok s \<Longrightarrow> after (sleep x) (\<lambda>_. same s) (\<lambda>_. same s) s"
    and auth: "authentication_method \<in> quiet_methods"
  shows "nas_remote (api_key_request sleep retries backoff backoff_max rpc api_key authentication_method)
    extents targets links ok"
proof
  fix s assume ok: "ok s"
  let ?rpc = "api_key_request sleep retries backoff backoff_max rpc api_key authentication_method"
  have trans: "same s t \<Longrightarrow> same t u \<Longrightarrow> same s u" for s t u by (simp add: same_def)
  have call: "after (authenticated_request rpc api_key authentication_method meth params) Q (\<lambda>_. J) t"
    if t: "J t" "ok t" and direct: "\<And>u. same t u \<Longrightarrow> after (rpc meth params) Q (\<lambda>_. J) u"
      and keep: "\<And>u. same t u \<Longrightarrow> J u" for meth params Q J t
  proof (cases "meth = authentication_method")
    case True
    then show ?thesis using direct [OF same_refl [OF t(2)]] by (simp add: authenticated_request_def)
  next
    case False
    show ?thesis
      unfolding authenticated_request_def after_if after_bind if_not_P [OF False]
      by (rule after_mono [OF rpc_frame [OF t(2) auth]]) (use direct keep in \<open>auto simp: after_raise\<close>)
  qed
  have loop: "after (?rpc meth params) Q (\<lambda>_. J) s"
    if J: "J s" "\<And>t. J t \<Longrightarrow> ok t" and direct: "\<And>t. J t \<Longrightarrow> after (rpc meth params) Q (\<lambda>_. J) t"
      and keep: "\<And>t u. J t \<Longrightarrow> same t u \<Longrightarrow> J u" for meth params Q J
    unfolding api_key_request_def
  proof (rule after_retry_loop [where J = J, OF J(1)])
    show "after (authenticated_request rpc api_key authentication_method meth params) Q (\<lambda>_. J) t" if "J t" for t
      using that J(2) direct keep by (intro call) auto
    show "after (returnS ()) (\<lambda>_. J) (\<lambda>_. J) t" if "J t" for t using that by (simp add: after_return)
    show "after (wait_before_retry sleep backoff backoff_max n) (\<lambda>_. J) (\<lambda>_. J) t" if t: "J t" for n t
      using t keep [OF t] after_mono [OF sleep [OF J(2) [OF t]]]
      by (simp add: wait_before_retry_def after_if after_return)
  qed
  show "extent_table_ok (extents s)" by (rule table [OF ok])
  show "after (?rpc meth params)
      (\<lambda>_ t. ok t \<and> extents t = extents s \<and> targets t = targets s \<and> links t = links s)
      (\<lambda>_ t. ok t \<and> extents t = extents s \<and> targets t = targets s \<and> links t = links s) s"
    if "meth \<in> quiet_methods" for meth params
  proof -
    have "after (?rpc meth params) (\<lambda>_. same s) (\<lambda>_. same s) s"
    proof (rule loop)
      fix t assume "same s t"
      then show "after (rpc meth params) (\<lambda>_. same s) (\<lambda>_. same s) t"
        using after_mono [OF rpc_frame [OF _ that, of t params]] trans by (simp add: same_def)
    qed (use ok trans in \<open>auto simp: same_def\<close>)
    then show ?thesis by (simp add: same_def [abs_def])
  qed
  have query: "after (?rpc meth (RList [])) (\<lambda>v _. v = x) (\<lambda>_ _. True) s"
    if "\<And>t. same s t \<Longrightarrow> after (rpc meth (RList [])) (\<lambda>v _. v = x) (\<lambda>_ _. True) t"
      and m: "meth \<in> quiet_methods" for meth x
  proof -
    have "after (?rpc meth (RList [])) (\<lambda>v _. v = x) (\<lambda>_. same s) s"
    proof (rule loop)
      fix t assume t: "same s t"
      then have "ok t" by (simp add: same_def)
      show "after (rpc meth (RList [])) (\<lambda>v _. v = x) (\<lambda>_. same s) t"
        by (rule after_mono [OF after_conj [OF that(1) [OF t] rpc_frame [OF \<open>ok t\<close> m]]])
          (use t trans in auto)
    qed (use ok trans in \<open>auto simp: same_def\<close>)
    then show ?thesis by (rule after_mono) auto
  qed
  show "after (?rpc ''iscsi.extent.query'' (RList []))
      (\<lambda>v _. v = RList (map (RObject \<circ> snd) (extents s))) (\<lambda>_ _. True) s"
  proof (rule query)
    show "after (rpc ''iscsi.extent.query'' (RList []))
      (\<lambda>v _. v = RList (map (RObject \<circ> snd) (extents s))) (\<lambda>_ _. True) t" if "same s t" for t
      using that extent_query [of t] by (simp add: same_def)
  qed simp
  show "after (?rpc ''iscsi.target.query'' (RList []))
      (\<lambda>v _. v = RList (map RObject (targets s))) (\<lambda>_ _. True) s"
  proof (rule query)
    show "after (rpc ''iscsi.target.query'' (RList []))
      (\<lambda>v _. v = RList (map RObject (targets s))) (\<lambda>_ _. True) t" if "same s t" for t
      using that target_query [of t] by (simp add: same_def)
  qed simp
  show "after (?rpc ''iscsi.targetextent.query'' (RList []))
      (\<lambda>v _. v = RList (map RObject (links s))) (\<lambda>_ _. True) s"
  proof (rule query)
    show "after (rpc ''iscsi.targetextent.query'' (RList []))
      (\<lambda>v _. v = RList (map RObject (links s))) (\<lambda>_ _. True) t" if "same s t" for t
      using that link_query [of t] by (simp add: same_def)
  qed simp
  let ?done = "\<lambda>eid dev. map (\<lambda>(k, r). (k, if k = eid then with_disk dev r else r)) (extents s)"
  show "after (?rpc ''iscsi.extent.update'' (RList [RInt eid, RObject [(''disk'', RText dev)]]))
      (\<lambda>_ t. ok t \<and> targets t = targets s \<and> links t = links s \<and> eid \<in> fst ` set (extents s) \<and> extents t = ?done eid dev)
      (\<lambda>_ t. ok t \<and> targets t = targets s \<and> links t = links s \<and> (extents t = extents s \<or> extents t = ?done eid dev)) s"
    for eid dev
  proof (rule loop)
    have ids: "fst ` set (?done eid dev) = fst ` set (extents s)" by force
    have twice: "map (\<lambda>(k, r). (k, if k = eid then with_disk dev r else r)) (?done eid dev) = ?done eid dev" by auto
    fix t assume t: "ok t \<and> targets t = targets s \<and> links t = links s \<and> (extents t = extents s \<or> extents t = ?done eid dev)"
    then have okt: "ok t" and tl: "targets t = targets s" "links t = links s"
      and e: "extents t = extents s \<or> extents t = ?done eid dev" by blast+
    have mem: "fst ` set (extents t) = fst ` set (extents s)"
      using e ids by (elim disjE) (simp_all only:)
    have upd: "map (\<lambda>(k, r). (k, if k = eid then with_disk dev r else r)) (extents t) = ?done eid dev"
      using e twice by (elim disjE) (simp_all only:)
    show "after (rpc ''iscsi.extent.update'' (RList [RInt eid, RObject [(''disk'', RText dev)]]))
      (\<lambda>_ t. ok t \<and> targets t = targets s \<and> links t = links s \<and> eid \<in> fst ` set (extents s) \<and> extents t = ?done eid dev)
      (\<lambda>_ t. ok t \<and> targets t = targets s \<and> links t = links s \<and> (extents t = extents s \<or> extents t = ?done eid dev)) t"
      using after_update_again [where f = extents, OF e, where m = "rpc ''iscsi.extent.update''
          (RList [RInt eid, RObject [(''disk'', RText dev)]])" and s = t
        and P = "\<lambda>t. ok t \<and> targets t = targets s \<and> links t = links s \<and> eid \<in> fst ` set (extents s)"
        and R = "\<lambda>t. ok t \<and> targets t = targets s \<and> links t = links s"]
        extent_update [OF okt, of eid dev]
      unfolding mem upd tl conj_assoc by blast
  qed (use ok in \<open>auto simp: same_def\<close>)
qed

end

end
