(* ===== verification/TrueNAS_Server.thy ===== *)
theory TrueNAS_Server
  imports TrueNAS_Transport
begin

text \<open>
  A server that keeps the contract \<open>nas_remote\<close>, with outages: during one a call is carried out but
  its answer is lost.  The adapters over the retrying API-key transport are the workflow's port on it.
\<close>

section \<open>The server\<close>

record nas_server =
  sv_extents :: "(int \<times> rpc_record) list"
  sv_targets :: "rpc_record list"
  sv_links :: "rpc_record list"
  sv_datasets :: "rpc_record list"
  sv_snapshots :: "rpc_record list"
  sv_outages :: nat

definition named_record :: "string \<Rightarrow> rpc_record" where
  "named_record name = [(''id'', RText name), (''name'', RText name)]"

fun update_args :: "rpc_value \<Rightarrow> (int \<times> string) option" where
  "update_args (RList [RInt eid, RObject [(key, RText dev)]]) = (if key = ''disk'' then Some (eid, dev) else None)"
| "update_args _ = None"

fun text_arg :: "string \<Rightarrow> rpc_value \<Rightarrow> string option" where
  "text_arg key (RList [RObject kvs]) = (case map_of kvs key of Some (RText v) \<Rightarrow> Some v | _ \<Rightarrow> None)"
| "text_arg key _ = None"

definition serve_update :: "rpc_value \<Rightarrow> (nas_server, rpc_value) sx" where
  "serve_update params = (\<lambda>s.
     case update_args params of
       None \<Rightarrow> (Inl (remote_error ''iscsi.extent.update'' (Some 22)), s)
     | Some (eid, dev) \<Rightarrow>
         (case map_of (sv_extents s) eid of
            None \<Rightarrow> (Inl (remote_error ''iscsi.extent.update'' (Some 22)), s)
          | Some r \<Rightarrow> (Inr (RObject (with_disk dev r)),
              s\<lparr>sv_extents := map (\<lambda>(k, r). (k, if k = eid then with_disk dev r else r)) (sv_extents s)\<rparr>)))"

definition serve_clone :: "rpc_value \<Rightarrow> (nas_server, rpc_value) sx" where
  "serve_clone params = (\<lambda>s.
     case text_arg ''dataset_dst'' params of
       None \<Rightarrow> (Inl (remote_error ''pool.snapshot.clone'' (Some 22)), s)
     | Some dst \<Rightarrow> (Inr (RBool True), s\<lparr>sv_datasets := sv_datasets s @ [named_record dst]\<rparr>))"

definition serve_snapshot :: "rpc_value \<Rightarrow> (nas_server, rpc_value) sx" where
  "serve_snapshot params = (\<lambda>s.
     case (text_arg ''dataset'' params, text_arg ''name'' params) of
       (Some dataset, Some name) \<Rightarrow>
         (let r = (''dataset'', RText dataset) # named_record (dataset @ ''@'' @ name)
          in (Inr (RObject r), s\<lparr>sv_snapshots := sv_snapshots s @ [r]\<rparr>))
     | _ \<Rightarrow> (Inl (remote_error ''pool.snapshot.create'' (Some 22)), s))"

text \<open>Deleting a dataset takes the extents on its device with it.\<close>

definition serve_delete :: "rpc_value \<Rightarrow> (nas_server, rpc_value) sx" where
  "serve_delete params = (\<lambda>s.
     case params of
       RList (RText name # _) \<Rightarrow>
         (Inr (RBool True),
          s\<lparr>sv_datasets := filter (\<lambda>r. map_of r ''id'' \<noteq> Some (RText name)) (sv_datasets s),
            sv_extents := filter (\<lambda>(k, r). record_disk r \<noteq> Some (''zvol/'' @ name)) (sv_extents s)\<rparr>)
     | _ \<Rightarrow> (Inl (remote_error ''pool.dataset.delete'' (Some 22)), s))"

definition serve :: "string \<Rightarrow> rpc_value \<Rightarrow> (nas_server, rpc_value) sx" where
  "serve meth params =
     (if meth = ''auth.login_with_api_key'' then returnS (RBool True)
      else if meth = ''core.ping'' then returnS (RText ''pong'')
      else if meth = ''pool.dataset.query'' then getS (\<lambda>s. RList (map RObject (sv_datasets s)))
      else if meth = ''pool.snapshot.query'' then getS (\<lambda>s. RList (map RObject (sv_snapshots s)))
      else if meth = ''iscsi.target.query'' then getS (\<lambda>s. RList (map RObject (sv_targets s)))
      else if meth = ''iscsi.extent.query'' then getS (\<lambda>s. RList (map (RObject \<circ> snd) (sv_extents s)))
      else if meth = ''iscsi.targetextent.query'' then getS (\<lambda>s. RList (map RObject (sv_links s)))
      else if meth = ''iscsi.extent.update'' then serve_update params
      else if meth = ''pool.snapshot.clone'' then serve_clone params
      else if meth = ''pool.snapshot.create'' then serve_snapshot params
      else if meth = ''pool.dataset.delete'' then serve_delete params
      else raiseS (remote_error meth (Some (- 32601))))"

definition faulty_serve :: "string \<Rightarrow> rpc_value \<Rightarrow> (nas_server, rpc_value) sx" where
  "faulty_serve meth params =
     bindS (getS sv_outages) (\<lambda>n.
     if n = 0 then serve meth params
     else bindS (tryS (serve meth params)) (\<lambda>_.
          bindS (modifyS (\<lambda>s. s\<lparr>sv_outages := n - 1\<rparr>)) (\<lambda>_.
          raiseS (JSONRPCTimeoutError (''TrueNAS JSON-RPC request timed out: '' @ meth)))))"

abbreviation server_ok :: "nas_server \<Rightarrow> bool" where
  "server_ok s \<equiv> extent_table_ok (sv_extents s)"

lemma extent_table_ok_update:
  assumes "extent_table_ok xs"
  shows "extent_table_ok (map (\<lambda>(k, r). (k, if k = eid then with_disk dev r else r)) xs)"
proof -
  have keys: "map fst (map (\<lambda>(k, r). (k, if k = eid then with_disk dev r else r)) xs) = map fst xs"
    by (induction xs) auto
  show ?thesis
    using assms unfolding extent_table_ok_def keys
    by (auto simp: map_of_with_disk split: if_splits)
qed

text \<open>What one call does to the tables, answered or not; a deletion is left open.\<close>

definition served :: "string \<Rightarrow> rpc_value \<Rightarrow> nas_server \<Rightarrow> nas_server \<Rightarrow> bool" where
  "served meth params s t \<longleftrightarrow> meth = ''pool.dataset.delete''
     \<or> sv_targets t = sv_targets s \<and> sv_links t = sv_links s
       \<and> (sv_extents t = sv_extents s
          \<or> meth = ''iscsi.extent.update'' \<and> (\<exists>eid dev. update_args params = Some (eid, dev)
               \<and> sv_extents t = map (\<lambda>(k, r). (k, if k = eid then with_disk dev r else r)) (sv_extents s)))"

lemma served_refl: "served meth params s s"
  by (simp add: served_def)

lemma serve_update_served:
  "after (serve_update params) (\<lambda>_. served ''iscsi.extent.update'' params s)
     (\<lambda>_. served ''iscsi.extent.update'' params s) s"
  by (auto simp: after_def serve_update_def served_def split: option.split)

lemma serve_update_hit:
  "after (serve_update (RList [RInt eid, RObject [(''disk'', RText dev)]])) (\<lambda>_ t. eid \<in> fst ` set (sv_extents s)
     \<and> sv_extents t = map (\<lambda>(k, r). (k, if k = eid then with_disk dev r else r)) (sv_extents s)) (\<lambda>_ _. True) s"
proof (cases "map_of (sv_extents s) eid")
  case (Some r)
  then have "eid \<in> fst ` set (sv_extents s)" by (force dest: map_of_SomeD)
  with Some show ?thesis by (simp add: serve_update_def after_def)
qed (simp add: serve_update_def after_def)

lemma serve_create_served:
  "after (serve_clone params) (\<lambda>_. served meth params' s) (\<lambda>_. served meth params' s) s"
  "after (serve_snapshot params) (\<lambda>_. served meth params' s) (\<lambda>_. served meth params' s) s"
  by (auto simp: after_def serve_clone_def serve_snapshot_def served_def Let_def split: option.split)

lemma after_modify [after_simps]: "after (modifyS f) Q E s = Q () (f s)"
  by (simp add: modifyS_def after_def)

lemma serve_delete_served:
  "after (serve_delete params) (\<lambda>_. served ''pool.dataset.delete'' params' s) (\<lambda>_. served ''pool.dataset.delete'' params' s) s"
  by (auto simp: after_def served_def split: sum.split prod.split)

lemma serve_served: "after (serve meth params) (\<lambda>_. served meth params s) (\<lambda>_. served meth params s) s"
  unfolding serve_def after_if
  by (simp only: after_simps served_refl serve_update_served serve_create_served serve_delete_served if_cancel cong: if_cong)

lemma faulty_serve_served:
  "after (faulty_serve meth params) (\<lambda>_. served meth params s) (\<lambda>_. served meth params s) s"
proof (cases "sv_outages s = 0")
  case True
  then show ?thesis using serve_served [of meth params s]
    by (simp add: faulty_serve_def after_bind [of "getS _"] after_get)
next
  case False
  show ?thesis
    unfolding faulty_serve_def after_bind [of "getS _"] after_get if_not_P [OF False] after_bind [of "tryS _"] after_try
    by (rule after_mono [OF serve_served]) (simp_all only: after_simps, simp_all add: served_def)
qed


section \<open>The server keeps the contract\<close>

interpretation nas: nas_remote faulty_serve sv_extents sv_targets sv_links server_ok
proof
  fix s assume ok: "server_ok s"
  show "server_ok s" by (rule ok)
  show "after (faulty_serve meth params)
      (\<lambda>_ t. server_ok t \<and> sv_extents t = sv_extents s \<and> sv_targets t = sv_targets s \<and> sv_links t = sv_links s)
      (\<lambda>_ t. server_ok t \<and> sv_extents t = sv_extents s \<and> sv_targets t = sv_targets s \<and> sv_links t = sv_links s) s"
    if "meth \<in> quiet_methods" for meth params
    by (rule after_mono [OF faulty_serve_served]) (use ok that in \<open>auto simp: served_def quiet_methods_def\<close>)
  show "after (faulty_serve ''iscsi.extent.query'' (RList []))
      (\<lambda>v _. v = RList (map (RObject \<circ> snd) (sv_extents s))) (\<lambda>_ _. True) s"
    "after (faulty_serve ''iscsi.target.query'' (RList []))
      (\<lambda>v _. v = RList (map RObject (sv_targets s))) (\<lambda>_ _. True) s"
    "after (faulty_serve ''iscsi.targetextent.query'' (RList []))
      (\<lambda>v _. v = RList (map RObject (sv_links s))) (\<lambda>_ _. True) s"
    by (simp_all add: faulty_serve_def serve_def after_simps)
  show "after (faulty_serve ''iscsi.extent.update'' (RList [RInt eid, RObject [(''disk'', RText dev)]]))
      (\<lambda>_ t. server_ok t \<and> sv_targets t = sv_targets s \<and> sv_links t = sv_links s \<and> eid \<in> fst ` set (sv_extents s)
         \<and> sv_extents t = map (\<lambda>(k, r). (k, if k = eid then with_disk dev r else r)) (sv_extents s))
      (\<lambda>_ t. server_ok t \<and> sv_targets t = sv_targets s \<and> sv_links t = sv_links s \<and> (sv_extents t = sv_extents s
         \<or> sv_extents t = map (\<lambda>(k, r). (k, if k = eid then with_disk dev r else r)) (sv_extents s))) s"
    for eid dev
  proof -
    let ?m = "faulty_serve ''iscsi.extent.update'' (RList [RInt eid, RObject [(''disk'', RText dev)]])"
    have hit: "after ?m (\<lambda>_ t. eid \<in> fst ` set (sv_extents s)
         \<and> sv_extents t = map (\<lambda>(k, r). (k, if k = eid then with_disk dev r else r)) (sv_extents s)) (\<lambda>_ _. True) s"
    proof (cases "sv_outages s = 0")
      case True
      then show ?thesis by (simp add: faulty_serve_def serve_def after_simps serve_update_hit)
    next
      case False
      show ?thesis
        unfolding faulty_serve_def after_bind [of "getS _"] after_get if_not_P [OF False]
          after_bind [of "tryS _"] after_try
        by (rule after_mono [OF after_trivial]) (simp_all only: after_simps)
    qed
    have upd: "after ?m (\<lambda>_. served ''iscsi.extent.update'' (RList [RInt eid, RObject [(''disk'', RText dev)]]) s)
        (\<lambda>_. served ''iscsi.extent.update'' (RList [RInt eid, RObject [(''disk'', RText dev)]]) s) s"
      by (rule faulty_serve_served)
    show ?thesis
      by (rule after_mono [OF after_conj [OF hit upd]])
        (use ok extent_table_ok_update [OF ok] in \<open>auto simp: served_def\<close>)
  qed
qed

end
