(* ===== verification/Adapter_Properties.thy ===== *)
theory Adapter_Properties
  imports TrueNAS_Server
begin

text \<open>
  The construction of the two TrueNAS clients of \<open>truenas_adapter/runtime.py\<close> (TLS, the URL and the
  environment left out: \<open>rpc\<close> is the raw WebSocket transport, which does not retry by itself), and the
  property that they implement the port of the publish workflow.
\<close>

section \<open>The clients of the runtime\<close>

record truenas_runtime_config =
  tc_api_key :: string
  tc_api_version :: string
  tc_reconnect_attempts :: int
  tc_backoff :: rat
  tc_backoff_max :: rat
  tc_apply_enabled :: bool

definition mk_api_key_transport ::
    "(rat \<Rightarrow> ('s, unit) sx) \<Rightarrow> (string \<Rightarrow> rpc_value \<Rightarrow> ('s, rpc_value) sx) \<Rightarrow> string \<Rightarrow> string \<Rightarrow> int \<Rightarrow> rat \<Rightarrow> rat
     \<Rightarrow> (string \<Rightarrow> rpc_value \<Rightarrow> ('s, rpc_value) sx) result" where
  "mk_api_key_transport sleep rpc api_key authentication_method retry_attempts backoff backoff_max =
     (if api_key = [] then Inl (ValueError ''api_key cannot be empty'')
      else if \<not> (0 \<le> retry_attempts \<and> retry_attempts \<le> 10)
      then Inl (ValueError ''retry_attempts must be an integer from 0 to 10'')
      else if backoff < 0 then Inl (ValueError ''retry_backoff_seconds cannot be negative'')
      else if backoff_max < 0 then Inl (ValueError ''retry_backoff_max_seconds cannot be negative'')
      else if backoff_max < backoff
      then Inl (ValueError ''retry_backoff_max_seconds cannot be less than retry_backoff_seconds'')
      else Inr (api_key_request sleep (nat retry_attempts) backoff backoff_max rpc api_key authentication_method))"

definition build_transport ::
    "(rat \<Rightarrow> ('s, unit) sx) \<Rightarrow> (string \<Rightarrow> rpc_value \<Rightarrow> ('s, rpc_value) sx) \<Rightarrow> truenas_runtime_config \<Rightarrow> bool
     \<Rightarrow> ((string \<Rightarrow> rpc_value \<Rightarrow> ('s, rpc_value) sx) \<times> rpc_registry) result" where
  "build_transport sleep rpc cfg allow_writes =
     bindR (mk_registry (tc_api_version cfg) allow_writes) (\<lambda>R.
     bindR (resolve_method R ''authenticate'') (\<lambda>method.
     bindR (mk_api_key_transport sleep rpc (tc_api_key cfg) method (tc_reconnect_attempts cfg)
       (tc_backoff cfg) (tc_backoff_max cfg)) (\<lambda>transport.
     Inr (transport, R))))"

definition build_read_only_client ::
    "(rat \<Rightarrow> ('s, unit) sx) \<Rightarrow> (string \<Rightarrow> rpc_value \<Rightarrow> ('s, rpc_value) sx) \<Rightarrow> truenas_runtime_config
     \<Rightarrow> ((string \<Rightarrow> rpc_value \<Rightarrow> ('s, rpc_value) sx) \<times> rpc_registry) result" where
  "build_read_only_client sleep rpc cfg = build_transport sleep rpc cfg False"

definition build_write_client ::
    "(rat \<Rightarrow> ('s, unit) sx) \<Rightarrow> (string \<Rightarrow> rpc_value \<Rightarrow> ('s, rpc_value) sx) \<Rightarrow> truenas_runtime_config
     \<Rightarrow> ((string \<Rightarrow> rpc_value \<Rightarrow> ('s, rpc_value) sx) \<times> rpc_registry) result" where
  "build_write_client sleep rpc cfg =
     (if \<not> tc_apply_enabled cfg
      then Inl (TrueNASRuntimeConfigError (''TrueNAS write adapter is disabled; ''
             @ ''set TRUENAS_APPLY_ENABLED=true explicitly''))
      else bindR (build_transport sleep rpc cfg True) (\<lambda>(transport, R).
           bindR (mk_write_adapter R) (\<lambda>W. Inr (transport, W))))"

lemma build_transport_Inr:
  assumes "build_transport sleep rpc cfg w = Inr (req, R)"
  shows "mk_registry (tc_api_version cfg) w = Inr R"
    and "req = api_key_request sleep (nat (tc_reconnect_attempts cfg)) (tc_backoff cfg) (tc_backoff_max cfg)
      rpc (tc_api_key cfg) ''auth.login_with_api_key''"
  using assms registry_methods(6)
  by (auto simp: build_transport_def bindR_Inr_iff mk_api_key_transport_def split: if_splits)

lemma build_write_client_Inr:
  assumes "build_write_client sleep rpc cfg = Inr (req, W)"
  shows "tc_apply_enabled cfg" and "build_transport sleep rpc cfg True = Inr (req, W)"
  using assms by (auto simp: build_write_client_def bindR_Inr_iff mk_write_adapter_def split: if_splits)

section \<open>The clients are the port of the workflow\<close>

text \<open>C15. On a TrueNAS server that keeps the documented contract of the methods the publish workflow calls
  (logging in, queries, the creation of a snapshot and of a clone leave extents, targets and links alone; an
  extent update changes at most the disk field of its own extent; any call may fail, and a failed update may
  have been carried out; nothing is assumed of other methods), the pair of clients that the runtime builds -
  API-key authentication on every operation, retries with backoff after a lost connection or a timeout,
  method registry, record mapping and path validation included - implements the port the publish workflow is
  verified against: the queries report the devices, targets and links of the server, file-backed extents
  included, and an extent update has set exactly the device asked for or changed nothing; when it returns,
  it has set the device (named without /dev/, as the workflow names it) unless the extent is file-backed.\<close>

theorem clients_refine_port:
  assumes "nas_remote rpc extents targets links ok"
    and "\<And>x s. ok s \<Longrightarrow> after (sleep x)
      (\<lambda>_ t. ok t \<and> extents t = extents s \<and> targets t = targets s \<and> links t = links s)
      (\<lambda>_ t. ok t \<and> extents t = extents s \<and> targets t = targets s \<and> links t = links s) s"
    and "build_read_only_client sleep rpc cfg = Inr (read_rpc, R)"
    and "build_write_client sleep rpc cfg = Inr (write_rpc, W)"
  shows "truenas_port (adapter_client read_rpc R write_rpc W close_read close_write)
      (nas_remote.view extents targets links) ok
    \<and> (\<forall>s eid dev r. ok s \<and> map_of (extents s) eid = Some r \<and> \<not> file_extent r \<and> \<not> starts_with ''/dev/'' dev \<longrightarrow>
        after (tc_update_extent_device (adapter_client read_rpc R write_rpc W close_read close_write) eid dev)
          (\<lambda>_ t. nas_remote.view extents targets links t =
             set_device eid dev (nas_remote.view extents targets links s)) (\<lambda>_ _. True) s)"
proof -
  note r = build_transport_Inr [OF assms(3) [unfolded build_read_only_client_def]]
  note w = build_transport_Inr [OF build_write_client_Inr(2) [OF assms(4)]]
  have remote: "nas_remote read_rpc extents targets links ok"
    unfolding r(2) by (rule nas_remote.api_key_remote [OF assms(1)])
      (use assms(2) in \<open>simp_all add: nas_remote.same_def [OF assms(1), abs_def]\<close>)
  then have "truenas_port (adapter_client read_rpc R read_rpc W close_read close_write)
      (nas_remote.view extents targets links) ok"
    by (rule nas_remote.adapter_port [OF _ r(1) w(1)])
  moreover have "after (tc_update_extent_device (adapter_client read_rpc R read_rpc W close_read close_write) eid dev)
      (\<lambda>_ t. nas_remote.view extents targets links t =
         set_device eid dev (nas_remote.view extents targets links s)) (\<lambda>_ _. True) s"
    if "ok s" "map_of (extents s) eid = Some rec" "\<not> file_extent rec" "\<not> starts_with ''/dev/'' dev" for s eid dev rec
    unfolding adapter_client_def truenas_client.select_convs
    by (rule after_mono [OF nas_remote.update_after [OF remote that(1) w(1) that(4)]]) (use that in auto)
  ultimately show ?thesis using r(2) w(2) by auto
qed

definition sample_runtime_config :: truenas_runtime_config where
  "sample_runtime_config = \<lparr>tc_api_key = ''key'', tc_api_version = ''25.10.1'', tc_reconnect_attempts = 2,
     tc_backoff = 1 / 4, tc_backoff_max = 2, tc_apply_enabled = True\<rparr>"

text \<open>The server with outages, and a clock that only passes time.\<close>

theorem clients_refine_port_witness:
  "\<exists>read_rpc R write_rpc W.
     build_read_only_client (\<lambda>_. returnS ()) faulty_serve sample_runtime_config = Inr (read_rpc, R)
     \<and> build_write_client (\<lambda>_. returnS ()) faulty_serve sample_runtime_config = Inr (write_rpc, W)
     \<and> truenas_port (adapter_client read_rpc R write_rpc W (returnS ()) (returnS ()))
         (nas_remote.view sv_extents sv_targets sv_links) server_ok"
proof -
  have norm: "strip ''25.10.1'' = ''25.10.1''"
    "join_with ''.'' (take 2 (split_char CHR ''.'' ''25.10.1'')) = ''25.10''" by code_simp+
  have reg: "mk_registry ''25.10.1'' w = Inr \<lparr>rr_version = ''25.10.1'',
      rr_methods = read_methods @ (if w then write_methods else []), rr_allow_writes = w\<rparr>" for w
    unfolding mk_registry_def Let_def norm by simp
  obtain rr R where built: "build_transport (\<lambda>_. returnS ()) faulty_serve sample_runtime_config False = Inr (rr, R)"
    by (simp add: build_transport_def sample_runtime_config_def reg mk_api_key_transport_def
        resolve_method_def read_methods_def)
  obtain wr W where built': "build_transport (\<lambda>_. returnS ()) faulty_serve sample_runtime_config True = Inr (wr, W)"
    and writes: "rr_allow_writes W"
    by (simp add: build_transport_def sample_runtime_config_def reg mk_api_key_transport_def
        resolve_method_def read_methods_def)
  have r: "build_read_only_client (\<lambda>_. returnS ()) faulty_serve sample_runtime_config = Inr (rr, R)"
    by (simp add: build_read_only_client_def built)
  have w: "build_write_client (\<lambda>_. returnS ()) faulty_serve sample_runtime_config = Inr (wr, W)"
    using writes by (simp add: build_write_client_def built' mk_write_adapter_def)
      (simp add: sample_runtime_config_def)
  have "truenas_port (adapter_client rr R wr W (returnS ()) (returnS ()))
      (nas_remote.view sv_extents sv_targets sv_links) server_ok"
    by (rule clients_refine_port [OF nas.nas_remote_axioms _ r w, THEN conjunct1]) (simp add: after_return)
  then show ?thesis using r w by blast
qed

end
