(* ===== verification/Py_Calendar.thy ===== *)
theory Py_Calendar
  imports Py_Values
begin

text \<open>
  The calendar of \<open>datetime\<close>: day numbers of the proleptic Gregorian calendar (day 1 is
  0001-01-01) and the ISO text of a UTC time.  Instants are counted in microseconds from
  1970-01-01.
\<close>

section \<open>Day numbers\<close>

text \<open>\<open>_days_before_year\<close>, \<open>_days_before_month\<close>, \<open>_ymd2ord\<close> and \<open>_ord2ymd\<close> of the standard library.\<close>

definition days_before_year :: "int \<Rightarrow> int" where
  "days_before_year year = (let y = year - 1 in y * 365 + y div 4 - y div 100 + y div 400)"

definition is_leap :: "int \<Rightarrow> bool" where
  "is_leap year = (year mod 4 = 0 \<and> (year mod 100 \<noteq> 0 \<or> year mod 400 = 0))"

definition days_before_month :: "int \<Rightarrow> bool \<Rightarrow> int" where
  "days_before_month month leap =
     (if month \<le> 1 then 0 else if month = 2 then 31 else if month = 3 then 59
      else if month = 4 then 90 else if month = 5 then 120 else if month = 6 then 151
      else if month = 7 then 181 else if month = 8 then 212 else if month = 9 then 243
      else if month = 10 then 273 else if month = 11 then 304 else 334)
     + (if month > 2 \<and> leap then 1 else 0)"

definition ymd2ord :: "int \<times> int \<times> int \<Rightarrow> int" where
  "ymd2ord = (\<lambda>(year, month, day).
     days_before_year year + days_before_month month (is_leap year) + day)"

text \<open>Month and day of the \<open>n\<close>-th day of a year, from 0.\<close>

definition month_day :: "bool \<Rightarrow> int \<Rightarrow> int \<times> int" where
  "month_day leap n =
     (let month = (n + 50) div 32
      in if days_before_month month leap > n
         then (month - 1, n - days_before_month (month - 1) leap + 1)
         else (month, n - days_before_month month leap + 1))"

definition ord2ymd :: "int \<Rightarrow> int \<times> int \<times> int" where
  "ord2ymd ordinal =
     (let n = ordinal - 1;
          n400 = n div 146097; n = n mod 146097;
          n100 = n div 36524; n = n mod 36524;
          n4 = n div 1461; n = n mod 1461;
          n1 = n div 365; n = n mod 365;
          year = n400 * 400 + 1 + n100 * 100 + n4 * 4 + n1
      in if n1 = 4 \<or> n100 = 4 then (year - 1, 12, 31)
         else (case month_day (n1 = 3 \<and> (n4 \<noteq> 24 \<or> n100 = 3)) n of (m, d) \<Rightarrow> (year, m, d)))"

section \<open>ISO text\<close>

definition pad :: "nat \<Rightarrow> int \<Rightarrow> string" where
  "pad width n = (let s = str_nat (nat n) in replicate (width - length s) CHR ''0'' @ s)"

definition iso_date :: "int \<times> int \<times> int \<Rightarrow> string" where
  "iso_date = (\<lambda>(year, month, day). pad 4 year @ ''-'' @ pad 2 month @ ''-'' @ pad 2 day)"

text \<open>Seconds of the day.\<close>

definition iso_time :: "int \<Rightarrow> string" where
  "iso_time s = pad 2 (s div 3600) @ '':'' @ pad 2 (s div 60 mod 60) @ '':'' @ pad 2 (s mod 60)"

definition epoch_day :: int where
  "epoch_day = 719163"

definition iso_seconds :: "int \<Rightarrow> string" where
  "iso_seconds t =
     iso_date (ord2ymd (t div 86400000000 + epoch_day)) @ ''T'' @ iso_time (t mod 86400000000 div 1000000)"

text \<open>\<open>isoformat(timespec="microseconds")\<close> and \<open>isoformat()\<close> of a time in UTC.\<close>

definition iso_micro :: "datetime \<Rightarrow> string" where
  "iso_micro d = iso_seconds (instant d) @ ''.'' @ pad 6 (instant d mod 1000000) @ ''+00:00''"

definition iso_auto :: "datetime \<Rightarrow> string" where
  "iso_auto d =
     iso_seconds (instant d)
     @ (if instant d mod 1000000 = 0 then [] else ''.'' @ pad 6 (instant d mod 1000000)) @ ''+00:00''"

text \<open>The years 1 to 9999.\<close>

definition in_calendar :: "datetime \<Rightarrow> bool" where
  "in_calendar d =
     (1 \<le> instant d div 86400000000 + epoch_day \<and> instant d div 86400000000 + epoch_day \<le> 3652059)"

section \<open>Days round-trip\<close>

definition day_ok :: "bool \<Rightarrow> int \<Rightarrow> bool" where
  "day_ok leap k =
     (case month_day leap k of (m, d) \<Rightarrow>
        days_before_month m leap + d = k + 1 \<and> 1 \<le> m \<and> m \<le> 12 \<and> 1 \<le> d \<and> d \<le> 31)"

lemma days_before_months:
  "days_before_month 0 b = 0" "days_before_month 1 b = 0" "days_before_month 2 b = 31"
  "days_before_month 3 b = 59 + of_bool b" "days_before_month 4 b = 90 + of_bool b"
  "days_before_month 5 b = 120 + of_bool b" "days_before_month 6 b = 151 + of_bool b"
  "days_before_month 7 b = 181 + of_bool b" "days_before_month 8 b = 212 + of_bool b"
  "days_before_month 9 b = 243 + of_bool b" "days_before_month 10 b = 273 + of_bool b"
  "days_before_month 11 b = 304 + of_bool b" "days_before_month 12 b = 334 + of_bool b"
  "days_before_month 13 b = 334 + of_bool b"
  by (simp_all add: days_before_month_def)

lemma day_ok_month:
  fixes k :: int
  assumes "0 \<le> k" "k < (if leap then 366 else 365)"
  shows "day_ok leap k"
proof -
  define m where "m = (k + 50) div 32"
  have "k < 366" using assms by (simp split: if_splits)
  with assms(1) have "1 \<le> m" "m \<le> 13" unfolding m_def by presburger+
  then have "m = 1 \<or> m = 2 \<or> m = 3 \<or> m = 4 \<or> m = 5 \<or> m = 6 \<or> m = 7 \<or> m = 8
      \<or> m = 9 \<or> m = 10 \<or> m = 11 \<or> m = 12 \<or> m = 13"
    by presburger
  moreover have "32 * m \<le> k + 50" "k + 50 < 32 * m + 32" unfolding m_def by presburger+
  moreover have "day_ok leap k \<longleftrightarrow> (case if days_before_month m leap > k
      then (m - 1, k - days_before_month (m - 1) leap + 1)
      else (m, k - days_before_month m leap + 1) of (m, d) \<Rightarrow>
        days_before_month m leap + d = k + 1 \<and> 1 \<le> m \<and> m \<le> 12 \<and> 1 \<le> d \<and> d \<le> 31)"
    by (simp only: day_ok_def month_day_def Let_def m_def)
  ultimately show ?thesis
    using assms
    by (cases leap; elim disjE) (simp_all add: days_before_months)
qed

text \<open>The year \<open>y + 1\<close>, with \<open>y\<close> split into centuries, leap cycles and years.\<close>

lemma year_parts:
  fixes a b c e :: int
  assumes "0 \<le> b" "b \<le> 3" "0 \<le> c" "c \<le> 24" "0 \<le> e" "e \<le> 3"
  defines "y \<equiv> 400 * a + 100 * b + 4 * c + e"
  shows "days_before_year (y + 1) = 146097 * a + 36524 * b + 1461 * c + 365 * e"
    and "is_leap (y + 1) \<longleftrightarrow> e = 3 \<and> (c \<noteq> 24 \<or> b = 3)"
proof -
  have "y div 4 = 100 * a + 25 * b + c"
    by (rule int_div_pos_eq [where r = e]) (use assms in auto)
  moreover have "y div 100 = 4 * a + b"
    by (rule int_div_pos_eq [where r = "4 * c + e"]) (use assms in auto)
  moreover have "y div 400 = a"
    by (rule int_div_pos_eq [where r = "100 * b + 4 * c + e"]) (use assms in auto)
  ultimately show "days_before_year (y + 1) = 146097 * a + 36524 * b + 1461 * c + 365 * e"
    by (simp add: days_before_year_def y_def)
  have "(y + 1) mod 4 = (e + 1) mod 4"
    unfolding y_def using mod_mult_self4 [of 4 "100 * a + 25 * b + c" "e + 1"] by (simp add: algebra_simps)
  moreover have "e = 0 \<or> e = 1 \<or> e = 2 \<or> e = 3" using assms(5,6) by linarith
  ultimately have "(y + 1) mod 4 = 0 \<longleftrightarrow> e = 3" by auto
  moreover have "(y + 1) mod 100 = (if c = 24 then 0 else 4 * (c + 1))" if "e = 3"
    by (rule int_mod_pos_eq [where q = "4 * a + b + (if c = 24 then 1 else 0)"])
      (use assms that in auto)
  then have "e = 3 \<Longrightarrow> (y + 1) mod 100 = 0 \<longleftrightarrow> c = 24" using assms(3) by auto
  moreover have "(y + 1) mod 400 = (if b = 3 then 0 else 100 * (b + 1))" if "e = 3" "c = 24"
    by (rule int_mod_pos_eq [where q = "a + (if b = 3 then 1 else 0)"])
      (use assms that in auto)
  then have "e = 3 \<Longrightarrow> c = 24 \<Longrightarrow> (y + 1) mod 400 = 0 \<longleftrightarrow> b = 3" using assms(1) by auto
  ultimately show "is_leap (y + 1) \<longleftrightarrow> e = 3 \<and> (c \<noteq> 24 \<or> b = 3)"
    unfolding is_leap_def by (cases "e = 3"; cases "c = 24") simp_all
qed

text \<open>Counting the days of the date of a day number gives the number back.\<close>

lemma ymd2ord_ord2ymd:
  shows "ymd2ord (ord2ymd n) = n"
    and "ord2ymd n = (y, m, d) \<Longrightarrow> 1 \<le> m \<and> m \<le> 12 \<and> 1 \<le> d \<and> d \<le> 31"
    and "ord2ymd n = (y, m, d) \<Longrightarrow> 1 \<le> n \<Longrightarrow> n \<le> 3652059 \<Longrightarrow> 1 \<le> y \<and> y \<le> 9999"
proof -
  define k where "k = n - 1"
  define n400 where "n400 = k div 146097"
  define r400 where "r400 = k mod 146097"
  define n100 where "n100 = r400 div 36524"
  define r100 where "r100 = r400 mod 36524"
  define n4 where "n4 = r100 div 1461"
  define r4 where "r4 = r100 mod 1461"
  define n1 where "n1 = r4 div 365"
  define r1 where "r1 = r4 mod 365"
  note defs = k_def n400_def r400_def n100_def r100_def n4_def r4_def n1_def r1_def
  have k: "k = 146097 * n400 + r400" "0 \<le> r400" "r400 < 146097" unfolding defs by simp_all
  have r400: "r400 = 36524 * n100 + r100" "0 \<le> r100" "r100 < 36524" "0 \<le> n100" "n100 \<le> 4"
    unfolding defs by simp_all
  have r100: "r100 = 1461 * n4 + r4" "0 \<le> r4" "r4 < 1461" "0 \<le> n4" "n4 \<le> 24"
    unfolding defs by simp_all
  have r4: "r4 = 365 * n1 + r1" "0 \<le> r1" "r1 < 365" "0 \<le> n1" "n1 \<le> 4"
    unfolding defs by simp_all
  define year where "year = n400 * 400 + 1 + n100 * 100 + n4 * 4 + n1"
  have ymd: "ord2ymd n = (if n1 = 4 \<or> n100 = 4 then (year - 1, 12, 31)
       else (case month_day (n1 = 3 \<and> (n4 \<noteq> 24 \<or> n100 = 3)) r1 of (m, d) \<Rightarrow> (year, m, d)))"
    unfolding ord2ymd_def Let_def year_def defs by simp
  have "ymd2ord (ord2ymd n) = n
    \<and> (ord2ymd n = (y, m, d) \<longrightarrow> 1 \<le> m \<and> m \<le> 12 \<and> 1 \<le> d \<and> d \<le> 31)"
  proof (cases "n1 = 4 \<or> n100 = 4")
    case True
    then consider "n100 = 4" "n4 = 0" "n1 = 0" "r1 = 0" | "n100 \<le> 3" "n1 = 4" "r1 = 0" "n4 \<le> 23"
      using k r400 r100 r4 by linarith
    then show ?thesis
    proof cases
      case 1
      then have "year - 1 = 400 * n400 + 100 * 3 + 4 * 24 + 3 + 1" by (simp add: year_def)
      then show ?thesis
        using True ymd 1 k r400 r100 r4 year_parts [of 3 24 3 n400]
        by (simp add: ymd2ord_def days_before_month_def k_def)
    next
      case 2
      then have "year - 1 = 400 * n400 + 100 * n100 + 4 * n4 + 3 + 1" by (simp add: year_def)
      then show ?thesis
        using True ymd 2 k r400 r100 r4 year_parts [of n100 n4 3 n400]
        by (simp add: ymd2ord_def days_before_month_def k_def)
    qed
  next
    case False
    let ?leap = "n1 = 3 \<and> (n4 \<noteq> 24 \<or> n100 = 3)"
    have le: "n1 \<le> 3" "n100 \<le> 3" using False r400(5) r4(5) by linarith+
    obtain m' d' where md: "month_day ?leap r1 = (m', d')" by fastforce
    have year: "year = 400 * n400 + 100 * n100 + 4 * n4 + n1 + 1" by (simp add: year_def)
    have "day_ok ?leap r1" by (rule day_ok_month) (use r4 in auto)
    then show ?thesis
      using False ymd md k r400 r100 r4 le year_parts [of n100 n4 n1 n400]
      by (simp add: ymd2ord_def day_ok_def year k_def)
  qed
  then show "ymd2ord (ord2ymd n) = n"
    and "ord2ymd n = (y, m, d) \<Longrightarrow> 1 \<le> m \<and> m \<le> 12 \<and> 1 \<le> d \<and> d \<le> 31" by simp_all
  assume date: "ord2ymd n = (y, m, d)" and n: "1 \<le> n" "n \<le> 3652059"
  have low: "0 \<le> n400" using n k by (simp add: k_def n400_def)
  have y: "y = (if n1 = 4 \<or> n100 = 4 then year - 1 else year)"
    using date unfolding ymd by (auto split: if_splits prod.splits)
  have sum: "146097 * n400 + 36524 * n100 + 1461 * n4 + 365 * n1 \<le> 3652058"
    using k r400 r100 r4 n unfolding k_def by linarith
  then consider "n400 \<le> 23" | "n400 = 24" "n100 \<le> 2" | "n400 = 24" "n100 = 3" "n4 \<le> 23"
    | "n400 = 24" "n100 = 3" "n4 = 24" "n1 \<le> 2"
    using low r400 r100 r4 by linarith
  then show "1 \<le> y \<and> y \<le> 9999"
    unfolding y year_def using low r400 r100 r4 by cases auto
qed

section \<open>Texts of fixed length\<close>

fun dec_read :: "nat \<Rightarrow> string \<Rightarrow> nat" where
  "dec_read acc [] = acc"
| "dec_read acc (c # cs) = dec_read (10 * acc + (code c - 48)) cs"

lemma dec_read_append: "dec_read acc (s @ t) = dec_read (dec_read acc s) t"
  by (induction acc s rule: dec_read.induct) simp_all

lemma dec_read_str_nat: "dec_read 0 (str_nat n) = n"
  by (induction n rule: str_nat.induct)
    (subst str_nat.simps, auto simp: dec_read_append code_digit_char)

lemma dec_read_zeros: "dec_read 0 (replicate k CHR ''0'' @ s) = dec_read 0 s"
  by (induction k) (simp_all add: code_def)

lemma length_str_nat: "n < 10 ^ Suc w \<Longrightarrow> length (str_nat n) \<le> Suc w"
proof (induction w arbitrary: n)
  case (Suc w)
  then have "n div 10 < 10 ^ Suc w" by (simp add: less_mult_imp_div_less)
  with Suc.IH [of "n div 10"] show ?case by (subst str_nat.simps) simp
qed (subst str_nat.simps, simp)

lemma length_pad: "n < 10 ^ w \<Longrightarrow> 0 < w \<Longrightarrow> length (pad w n) = w"
  using length_str_nat [of "nat n" "w - 1"]
  by (simp add: pad_def Let_def nat_less_iff)

lemma pad_inject: "0 \<le> a \<Longrightarrow> 0 \<le> b \<Longrightarrow> pad w a = pad w b \<longleftrightarrow> a = b"
  by (metis dec_read_str_nat dec_read_zeros nat_0_le pad_def)

lemma iso_micro_parts:
  assumes "in_calendar d"
  obtains y m k where "ord2ymd (instant d div 86400000000 + epoch_day) = (y, m, k)"
    and "1 \<le> y" "y \<le> 9999" "1 \<le> m" "m \<le> 12" "1 \<le> k" "k \<le> 31"
proof -
  obtain y m k where date: "ord2ymd (instant d div 86400000000 + epoch_day) = (y, m, k)"
    using prod_cases3 by blast
  with ymd2ord_ord2ymd(2,3) [OF date] assms that show ?thesis by (auto simp: in_calendar_def)
qed

lemma length_iso_micro: "in_calendar d \<Longrightarrow> length (iso_micro d) = 32"
  by (rule iso_micro_parts [of d])
    (auto simp: iso_micro_def iso_seconds_def iso_date_def iso_time_def length_pad)

lemma clock_parts:
  fixes u :: int
  shows "u = 3600 * (u div 3600) + 60 * (u div 60 mod 60) + u mod 60"
proof -
  have "u div 60 div 60 = u div 3600" by (simp add: zdiv_zmult2_eq [symmetric])
  then show ?thesis using div_mult_mod_eq [of u 60] div_mult_mod_eq [of "u div 60" 60] by linarith
qed

lemma day_parts:
  fixes t :: int
  shows "t div 1000000 = 86400 * (t div 86400000000) + t mod 86400000000 div 1000000"
proof -
  have "t = t mod 86400000000 + (86400 * (t div 86400000000)) * 1000000" by simp
  then have "t div 1000000 = (t mod 86400000000 + (86400 * (t div 86400000000)) * 1000000) div 1000000"
    by (rule arg_cong)
  then show ?thesis by (simp only: div_mult_self1)
qed

lemma iso_date_inject:
  assumes "0 \<le> y" "y \<le> 9999" "0 \<le> m" "m < 100" "0 \<le> k" "k < 100"
    and "0 \<le> y'" "y' \<le> 9999" "0 \<le> m'" "m' < 100" "0 \<le> k'" "k' < 100"
    and "iso_date (y, m, k) = iso_date (y', m', k')"
  shows "(y, m, k) = (y', m', k')"
proof -
  have l: "length (pad 4 y) = 4" "length (pad 4 y') = 4" "length (pad 2 m) = 2" "length (pad 2 m') = 2"
    using assms by (simp_all add: length_pad)
  have "pad 4 y = pad 4 y'" "pad 2 m = pad 2 m'" "pad 2 k = pad 2 k'"
    using assms(13) by (simp_all add: iso_date_def l)
  then show ?thesis using assms pad_inject by simp
qed

lemma iso_time_inject:
  assumes "0 \<le> u" "u < 86400" "0 \<le> v" "v < 86400" and "iso_time u = iso_time v"
  shows "u = v"
proof -
  have r: "0 \<le> x div 3600" "x div 3600 < 100" "0 \<le> x div 60 mod 60" "x div 60 mod 60 < 100"
    "0 \<le> x mod 60" if "0 \<le> x" "x < 86400" for x :: int using that by auto
  have l: "length (pad 2 (x div 3600)) = 2" "length (pad 2 (x div 60 mod 60)) = 2"
    if "0 \<le> x" "x < 86400" for x
    using r [OF that] by (simp_all add: length_pad)
  have "pad 2 (u div 3600) = pad 2 (v div 3600)" "pad 2 (u div 60 mod 60) = pad 2 (v div 60 mod 60)"
      "pad 2 (u mod 60) = pad 2 (v mod 60)"
    using assms(5) by (simp_all add: iso_time_def l [OF assms(1,2)] l [OF assms(3,4)])
  then have eq: "u div 3600 = v div 3600" "u div 60 mod 60 = v div 60 mod 60" "u mod 60 = v mod 60"
    using pad_inject r [OF assms(1,2)] r [OF assms(3,4)] by blast+
  have "u = 3600 * (u div 3600) + 60 * (u div 60 mod 60) + u mod 60" by (rule clock_parts)
  also have "\<dots> = v" by (simp only: eq clock_parts [symmetric])
  finally show ?thesis .
qed

lemma length_iso_date: "0 \<le> y \<Longrightarrow> y \<le> 9999 \<Longrightarrow> 0 \<le> m \<Longrightarrow> m < 100 \<Longrightarrow> 0 \<le> k \<Longrightarrow> k < 100 \<Longrightarrow>
  length (iso_date (y, m, k)) = 10"
  by (simp add: iso_date_def length_pad)

lemma iso_seconds_inject:
  assumes "in_calendar d" "in_calendar e" and "iso_seconds (instant d) = iso_seconds (instant e)"
  shows "instant d div 1000000 = instant e div 1000000"
proof (rule iso_micro_parts [OF assms(1)], rule iso_micro_parts [OF assms(2)])
  fix y m k y' m' k'
  let ?u = "instant d mod 86400000000 div 1000000" and ?v = "instant e mod 86400000000 div 1000000"
  assume date: "ord2ymd (instant d div 86400000000 + epoch_day) = (y, m, k)"
      "ord2ymd (instant e div 86400000000 + epoch_day) = (y', m', k')"
    and b: "1 \<le> y" "y \<le> 9999" "1 \<le> m" "m \<le> 12" "1 \<le> k" "k \<le> 31"
      "1 \<le> y'" "y' \<le> 9999" "1 \<le> m'" "m' \<le> 12" "1 \<le> k'" "k' \<le> 31"
  have l: "length (iso_date (y, m, k)) = 10" "length (iso_date (y', m', k')) = 10"
    using b by (simp_all add: length_iso_date)
  have "iso_date (y, m, k) = iso_date (y', m', k')" and time: "iso_time ?u = iso_time ?v"
    using assms(3) by (simp_all add: iso_seconds_def date l)
  then have eq: "y = y'" "m = m'" "k = k'" using iso_date_inject [of y m k y' m' k'] b by auto
  have "?u = ?v" by (rule iso_time_inject [OF _ _ _ _ time]) simp_all
  moreover have "instant d div 86400000000 = instant e div 86400000000"
    using ymd2ord_ord2ymd(1) [of "instant d div 86400000000 + epoch_day"]
      ymd2ord_ord2ymd(1) [of "instant e div 86400000000 + epoch_day"] eq date by simp
  ultimately show ?thesis
    unfolding day_parts [of "instant d"] day_parts [of "instant e"] by simp
qed

lemma length_iso_seconds: "in_calendar d \<Longrightarrow> length (iso_seconds (instant d)) = 19"
  by (rule iso_micro_parts [of d])
    (auto simp: iso_seconds_def iso_date_def iso_time_def length_pad)

text \<open>The text of a UTC time determines it.\<close>

lemma iso_micro_inject:
  assumes "in_calendar d" "in_calendar e" and "iso_micro d = iso_micro e"
  shows "instant d = instant e"
proof -
  define u v where uv: "u = instant d mod 1000000" "v = instant e mod 1000000"
  have l: "length (pad 6 u) = 6" "length (pad 6 v) = 6" by (simp_all add: uv length_pad)
  note l' = length_iso_seconds [OF assms(1)] length_iso_seconds [OF assms(2)]
  have "iso_seconds (instant d) @ ''.'' @ pad 6 u @ ''+00:00'' = iso_seconds (instant e) @ ''.'' @ pad 6 v @ ''+00:00''"
    using assms(3) by (simp only: iso_micro_def uv)
  then have "iso_seconds (instant d) = iso_seconds (instant e)" and micro: "pad 6 u = pad 6 v"
    by (simp_all add: l l' append_eq_append_conv)
  with iso_seconds_inject [OF assms(1,2)] have "instant d div 1000000 = instant e div 1000000" by blast
  moreover have "instant d mod 1000000 = instant e mod 1000000"
    using micro pad_inject [of u v 6] by (simp add: uv)
  ultimately show ?thesis by (metis div_mult_mod_eq)
qed

end
