(* ===== verification/Agent_Signing.thy ===== *)
theory Agent_Signing
  imports Py_Calendar
begin

text \<open>
  The signed command envelope: \<open>canonical_command_payload\<close> of \<open>domain/agent_command.py\<close> and
  \<open>agent/command_signing.py\<close>.  A byte is a \<^typ>\<open>char\<close> and \<open>bytes\<close> a \<^typ>\<open>string\<close>; the Ed25519
  primitives are parameters.  \<open>json.dumps\<close> on a dictionary of strings and \<open>base64\<close> are the standard
  library's.
\<close>

section \<open>JSON text of a dictionary of strings\<close>

text \<open>\<open>ensure_ascii\<close>: every character outside the printable ASCII range is escaped.\<close>

definition json_char :: "char \<Rightarrow> string" where
  "json_char c =
     (if c = CHR 0x22 \<or> c = CHR 0x5C then [CHR 0x5C, c]
      else if code c = 8 then [CHR 0x5C, CHR ''b'']
      else if code c = 9 then [CHR 0x5C, CHR ''t'']
      else if code c = 10 then [CHR 0x5C, CHR ''n'']
      else if code c = 12 then [CHR 0x5C, CHR ''f'']
      else if code c = 13 then [CHR 0x5C, CHR ''r'']
      else if 32 \<le> code c \<and> code c \<le> 126 then [c]
      else [CHR 0x5C, CHR ''u'', CHR ''0'', CHR ''0'', digit_char (code c div 16), digit_char (code c mod 16)])"

definition json_string :: "string \<Rightarrow> string" where
  "json_string s = [CHR 0x22] @ concat (map json_char s) @ [CHR 0x22]"

definition json_members :: "(string \<times> string) list \<Rightarrow> string" where
  "json_members kvs = ''{'' @ join_with '','' (map (\<lambda>(k, v). json_string k @ '':'' @ json_string v) kvs) @ ''}''"

definition COMMAND_PROTOCOL_VERSION :: string where
  "COMMAND_PROTOCOL_VERSION = ''1''"

definition canonical_command_payload :: "uuid \<Rightarrow> string \<Rightarrow> datetime \<Rightarrow> string" where
  "canonical_command_payload command_id name expires_at =
     json_members
       [(''command_id'', uuid_str command_id), (''expires_at'', iso_micro expires_at),
        (''name'', name), (''protocol_version'', COMMAND_PROTOCOL_VERSION)]"

section \<open>Base64\<close>

definition b64_char :: "nat \<Rightarrow> char" where
  "b64_char v =
     (if v < 26 then chr_of (65 + v) else if v < 52 then chr_of (71 + v)
      else if v < 62 then chr_of (v - 4) else if v = 62 then CHR ''-'' else CHR ''_'')"

text \<open>\<open>urlsafe_b64decode\<close> translates \<open>-_\<close> to \<open>+/\<close> and leaves \<open>+/\<close> as they are.\<close>

definition b64_value :: "char \<Rightarrow> nat option" where
  "b64_value c =
     (if is_upper c then Some (code c - 65) else if is_lower c then Some (code c - 71)
      else if is_digit c then Some (code c + 4)
      else if c = CHR ''+'' \<or> c = CHR ''-'' then Some 62
      else if c = CHR ''/'' \<or> c = CHR ''_'' then Some 63 else None)"

fun b64_encode :: "string \<Rightarrow> string" where
  "b64_encode [] = []"
| "b64_encode [a] = [b64_char (code a div 4), b64_char (code a mod 4 * 16), CHR ''='', CHR ''='']"
| "b64_encode [a, b] =
     [b64_char (code a div 4), b64_char (code a mod 4 * 16 + code b div 16),
      b64_char (code b mod 16 * 4), CHR ''='']"
| "b64_encode (a # b # c # s) =
     [b64_char (code a div 4), b64_char (code a mod 4 * 16 + code b div 16),
      b64_char (code b mod 16 * 4 + code c div 64), b64_char (code c mod 64)] @ b64_encode s"

text \<open>\<open>binascii.a2b_base64\<close> without strict mode: the position in the group of four, the bits left over
  and the number of pads seen.  Characters outside the alphabet are skipped.\<close>

fun a2b_base64 :: "nat \<Rightarrow> nat \<Rightarrow> nat \<Rightarrow> string \<Rightarrow> string option" where
  "a2b_base64 pos left pads [] = (if pos = 0 then Some [] else None)"
| "a2b_base64 pos left pads (c # s) =
     (if c = CHR ''=''
      then (if 2 \<le> pos \<and> 4 \<le> pos + pads + 1 then Some []
            else a2b_base64 pos left (if 2 \<le> pos then pads + 1 else pads) s)
      else case b64_value c of
        None \<Rightarrow> a2b_base64 pos left pads s
      | Some v \<Rightarrow>
          if pos = 0 then a2b_base64 1 v 0 s
          else if pos = 1
          then map_option ((#) (chr_of (left * 4 + v div 16))) (a2b_base64 2 (v mod 16) 0 s)
          else if pos = 2
          then map_option ((#) (chr_of (left * 16 + v div 4))) (a2b_base64 3 (v mod 4) 0 s)
          else map_option ((#) (chr_of (left * 64 + v))) (a2b_base64 0 0 0 s))"

definition urlsafe_b64decode :: "string \<Rightarrow> string option" where
  "urlsafe_b64decode s = (if \<exists>c \<in> set s. 128 \<le> code c then None else a2b_base64 0 0 0 s)"

definition padded :: "string \<Rightarrow> string" where
  "padded s = s @ replicate (nat (- int (length s) mod 4)) CHR ''=''"

section \<open>Signing and verifying\<close>

definition encode_signature :: "string \<Rightarrow> string" where
  "encode_signature v = rev (dropWhile (\<lambda>c. c = CHR ''='') (rev (b64_encode v)))"

definition decode_signature :: "string \<Rightarrow> string result" where
  "decode_signature v =
     (if v = [] \<or> 128 < length v then Inl (CommandSigningError ''command signature has an invalid length'')
      else case urlsafe_b64decode (padded v) of
        None \<Rightarrow> Inl (CommandSigningError ''command signature is not valid base64'')
      | Some raw \<Rightarrow> Inr raw)"

definition sign_command :: "(string \<Rightarrow> string) \<Rightarrow> uuid \<Rightarrow> string \<Rightarrow> datetime \<Rightarrow> string" where
  "sign_command private_sign command_id name expires_at =
     encode_signature (private_sign (canonical_command_payload command_id name expires_at))"

text \<open>\<open>public_bytes\<close> is \<open>Ed25519PublicKey.from_public_bytes\<close>, which fails on malformed keys.\<close>

definition verifier_from_base64 :: "(string \<Rightarrow> 'k option) \<Rightarrow> string \<Rightarrow> 'k result" where
  "verifier_from_base64 public_bytes encoded_key =
     (if encoded_key = [] then Inl (CommandSigningError ''command public key is missing'')
      else case urlsafe_b64decode (padded encoded_key) of
        None \<Rightarrow> Inl (CommandSigningError ''command public key is invalid'')
      | Some raw \<Rightarrow> (case public_bytes raw of
            None \<Rightarrow> Inl (CommandSigningError ''command public key is invalid'')
          | Some key \<Rightarrow> Inr key))"

record server_command =
  sc_id :: uuid
  sc_name :: string
  sc_expires_at :: datetime
  sc_signature :: string

text \<open>\<open>verify signature payload\<close>: the key accepts the signature.\<close>

definition verify_command :: "(string \<Rightarrow> string \<Rightarrow> bool) \<Rightarrow> server_command \<Rightarrow> bool" where
  "verify_command verify command =
     (case decode_signature (sc_signature command) of
        Inl _ \<Rightarrow> False
      | Inr signature \<Rightarrow>
          verify signature
            (canonical_command_payload (sc_id command) (sc_name command) (sc_expires_at command)))"

section \<open>The payload determines the command\<close>

text \<open>A reader of one escaped character.\<close>

fun json_unescape :: "string \<Rightarrow> (char \<times> string) option" where
  "json_unescape [] = None"
| "json_unescape (c # s) =
     (if c = CHR 0x22 then None
      else if c = CHR 0x5C then
        (case s of
           [] \<Rightarrow> None
         | d # s \<Rightarrow>
             if d = CHR ''u'' then
               (case (digit_value (s ! 2), digit_value (s ! 3)) of
                  (Some h, Some l) \<Rightarrow> Some (chr_of (16 * h + l), drop 4 s)
                | _ \<Rightarrow> None)
             else if d = CHR ''b'' then Some (chr_of 8, s)
             else if d = CHR ''t'' then Some (chr_of 9, s)
             else if d = CHR ''n'' then Some (chr_of 10, s)
             else if d = CHR ''f'' then Some (chr_of 12, s)
             else if d = CHR ''r'' then Some (chr_of 13, s)
             else Some (d, s))
      else Some (c, s))"

lemma chr_of_code [simp]: "chr_of (code c) = c"
  by (simp add: chr_of_def code_def)

lemma code_bound [simp]: "code c < 256"
  by (simp add: code_def)

lemma json_unescape_escape:
  "d \<noteq> CHR ''u'' \<Longrightarrow> json_unescape (CHR 0x5C # d # s) =
     Some (if d = CHR ''b'' then chr_of 8 else if d = CHR ''t'' then chr_of 9 else if d = CHR ''n'' then chr_of 10
       else if d = CHR ''f'' then chr_of 12 else if d = CHR ''r'' then chr_of 13 else d, s)"
  "json_unescape (CHR 0x5C # CHR ''u'' # x # y # h # l # s) =
     (case (digit_value h, digit_value l) of (Some h, Some l) \<Rightarrow> Some (chr_of (16 * h + l), s) | _ \<Rightarrow> None)"
  "c \<noteq> CHR 0x22 \<Longrightarrow> c \<noteq> CHR 0x5C \<Longrightarrow> json_unescape (c # s) = Some (c, s)"
  by (auto simp: numeral_eq_Suc split: option.split)

lemma code_quotes: "code (CHR 0x22) = 34" "code (CHR 0x5C) = 92"
  by (simp_all add: code_def)

lemma json_unescape_char: "json_unescape (json_char c @ s) = Some (c, s)"
proof (cases "c = CHR 0x22 \<or> c = CHR 0x5C")
  case True
  then show ?thesis by (auto simp: json_char_def json_unescape_escape)
next
  case plain: False
  show ?thesis
  proof (cases "code c \<in> {8, 9, 10, 12, 13}")
    case True
    then obtain n where n: "n \<in> {8, 9, 10, 12, 13}" and c: "code c = n" by blast
    then have "c = chr_of n" by (metis chr_of_code)
    with plain c n show ?thesis
      by (auto simp: json_char_def json_unescape_escape simp del: json_unescape.simps)
  next
    case False
    show ?thesis
    proof (cases "32 \<le> code c \<and> code c \<le> 126")
      case True
      with False plain show ?thesis by (simp add: json_char_def json_unescape_escape del: json_unescape.simps)
    next
      case other: False
      have "code c div 16 < 16" using code_bound [of c] by linarith
      then have "json_unescape ([CHR 0x5C, CHR ''u'', CHR ''0'', CHR ''0'', digit_char (code c div 16),
          digit_char (code c mod 16)] @ s) = Some (c, s)"
        by (simp add: json_unescape_escape(2) del: json_unescape.simps)
      moreover have "json_char c = [CHR 0x5C, CHR ''u'', CHR ''0'', CHR ''0'', digit_char (code c div 16),
          digit_char (code c mod 16)]"
        using False other plain by (auto simp: json_char_def)
      ultimately show ?thesis by (simp only:)
    qed
  qed
qed

lemma json_unescape_quote: "json_unescape (CHR 0x22 # s) = None"
  by simp

lemma json_char_not_quote: "json_char c @ s \<noteq> CHR 0x22 # t"
proof
  assume eq: "json_char c @ s = CHR 0x22 # t"
  have "json_unescape (json_char c @ s) = None" unfolding eq by (rule json_unescape_quote)
  then show False by (simp only: json_unescape_char option.distinct)
qed

lemma json_char_inject: "json_char c @ s = json_char d @ t \<Longrightarrow> c = d \<and> s = t"
  by (metis json_unescape_char option.inject prod.inject)

lemma json_body_inject:
  "concat (map json_char a) @ CHR 0x22 # s = concat (map json_char b) @ CHR 0x22 # t \<Longrightarrow> a = b \<and> s = t"
proof (induction a arbitrary: b)
  case Nil
  show ?case
  proof (cases b)
    case (Cons d b')
    with Nil have "json_char d @ concat (map json_char b') @ CHR 0x22 # t = CHR 0x22 # s" by simp
    then show ?thesis using json_char_not_quote by blast
  qed (use Nil in simp)
next
  case (Cons c a)
  show ?case
  proof (cases b)
    case Nil
    with Cons.prems have "json_char c @ concat (map json_char a) @ CHR 0x22 # s = CHR 0x22 # t" by simp
    then show ?thesis using json_char_not_quote by blast
  next
    case (Cons d b')
    with Cons.prems have "json_char c @ concat (map json_char a) @ CHR 0x22 # s
      = json_char d @ concat (map json_char b') @ CHR 0x22 # t" by simp
    from json_char_inject [OF this] Cons.IH Cons show ?thesis by blast
  qed
qed

lemma json_string_inject: "json_string a @ s = json_string b @ t \<longleftrightarrow> a = b \<and> s = t"
proof
  assume "json_string a @ s = json_string b @ t"
  then have "concat (map json_char a) @ CHR 0x22 # s = concat (map json_char b) @ CHR 0x22 # t"
    by (simp add: json_string_def)
  then show "a = b \<and> s = t" by (rule json_body_inject)
qed simp

lemma json_string_eq: "json_string a = json_string b \<longleftrightarrow> a = b"
  using json_string_inject [of a "[]" b "[]"] by simp

lemma canonical_payload_eq:
  "canonical_command_payload i n d =
     ''{'' @ json_string ''command_id'' @ '':'' @ json_string (uuid_str i) @ '','' @ json_string ''expires_at'' @ '':''
     @ json_string (iso_micro d) @ '','' @ json_string ''name'' @ '':'' @ json_string n @ '',''
     @ json_string ''protocol_version'' @ '':'' @ json_string COMMAND_PROTOCOL_VERSION @ ''}''"
  by (simp add: canonical_command_payload_def json_members_def)

lemma canonical_same: "instant d = instant e \<Longrightarrow> canonical_command_payload i n d = canonical_command_payload i n e"
  by (simp add: canonical_payload_eq iso_micro_def)

lemma canonical_inject:
  assumes "in_calendar d" and "in_calendar e"
    and "canonical_command_payload i n d = canonical_command_payload j m e"
  shows "i = j" and "n = m" and "instant d = instant e"
proof -
  have "uuid_str i = uuid_str j \<and> iso_micro d = iso_micro e \<and> n = m"
    using assms(3) by (simp add: canonical_payload_eq json_string_inject json_string_eq)
  then show "i = j" "n = m" "instant d = instant e" using iso_micro_inject [OF assms(1,2)] by auto
qed

section \<open>Signatures survive their encoding\<close>

text \<open>The encoding without its pads.\<close>

fun b64_body :: "string \<Rightarrow> string" where
  "b64_body [] = []"
| "b64_body [a] = [b64_char (code a div 4), b64_char (code a mod 4 * 16)]"
| "b64_body [a, b] =
     [b64_char (code a div 4), b64_char (code a mod 4 * 16 + code b div 16), b64_char (code b mod 16 * 4)]"
| "b64_body (a # b # c # s) =
     [b64_char (code a div 4), b64_char (code a mod 4 * 16 + code b div 16),
      b64_char (code b mod 16 * 4 + code c div 64), b64_char (code c mod 64)] @ b64_body s"

lemma code_b64_char:
  "v < 64 \<Longrightarrow> code (b64_char v) = (if v < 26 then 65 + v else if v < 52 then 71 + v
     else if v < 62 then v - 4 else if v = 62 then 45 else 95)"
  by (auto simp: b64_char_def code_chr_of) (simp_all add: code_def)

lemma b64_char_chars: "v < 64 \<Longrightarrow> b64_char v \<noteq> CHR ''='' \<and> code (b64_char v) < 128"
  using code_b64_char [of v] by (auto simp: code_def split: if_splits)

lemma b64_value_char:
  assumes "v < 64"
  shows "b64_value (b64_char v) = Some v"
proof -
  have "code (CHR ''+'') = 43" "code (CHR ''-'') = 45" "code (CHR ''/'') = 47" "code (CHR ''_'') = 95"
    by (simp_all add: code_def)
  then have eqs: "c = CHR ''+'' \<longleftrightarrow> code c = 43" "c = CHR ''-'' \<longleftrightarrow> code c = 45"
    "c = CHR ''/'' \<longleftrightarrow> code c = 47" "c = CHR ''_'' \<longleftrightarrow> code c = 95" for c
    by (metis code_inject)+
  show ?thesis
    unfolding b64_value_def is_upper_def is_lower_def is_digit_def eqs code_b64_char [OF assms]
    using assms by auto
qed

lemma sextets:
  "code a div 4 < 64" "code a mod 4 * 16 < 64" "code a mod 4 * 16 + code b div 16 < 64"
  "code b mod 16 * 4 < 64" "code b mod 16 * 4 + code c div 64 < 64" "code c mod 64 < 64"
  using code_bound [of a] code_bound [of b] code_bound [of c] by linarith+

lemma b64_body_chars: "c \<in> set (b64_body s) \<Longrightarrow> c \<noteq> CHR ''='' \<and> code c < 128"
  by (induction s rule: b64_body.induct) (auto simp: b64_char_chars sextets)

lemma b64_encode_body: "b64_encode s = padded (b64_body s)"
proof -
  have "b64_encode s = b64_body s @ replicate (nat (- int (length (b64_body s)) mod 4)) CHR ''=''"
  proof (induction s rule: b64_body.induct)
    case (4 a b c s)
    have "(- 4 - int (length (b64_body s))) mod 4 = (- int (length (b64_body s))) mod 4" by presburger
    with 4 show ?case by simp
  qed (simp_all add: numeral_2_eq_2)
  then show ?thesis by (simp add: padded_def)
qed

lemma encode_signature_body: "encode_signature s = b64_body s"
proof -
  have "dropWhile (\<lambda>c. c = CHR ''='') (rev (b64_body s)) = rev (b64_body s)"
    using b64_body_chars by (intro dropWhile_none) auto
  then show ?thesis
    by (simp add: encode_signature_def b64_encode_body padded_def dropWhile_append)
qed

lemma octets:
  "code b div 16 div 16 = 0" "code b div 16 mod 16 = code b div 16"
  "code c div 64 div 4 = 0" "code c div 64 mod 4 = code c div 64"
proof -
  have "code b div 16 < 16" "code c div 64 < 4"
    using code_bound [of b] code_bound [of c] by linarith+
  then show "code b div 16 div 16 = 0" "code b div 16 mod 16 = code b div 16"
    "code c div 64 div 4 = 0" "code c div 64 mod 4 = code c div 64"
    by (simp_all only: div_less mod_less)
qed

lemma a2b_b64_char:
  assumes "v < 64"
  shows "a2b_base64 0 left pads (b64_char v # s) = a2b_base64 1 v 0 s"
    "a2b_base64 (Suc 0) left pads (b64_char v # s) = map_option ((#) (chr_of (left * 4 + v div 16))) (a2b_base64 2 (v mod 16) 0 s)"
    "a2b_base64 2 left pads (b64_char v # s) = map_option ((#) (chr_of (left * 16 + v div 4))) (a2b_base64 3 (v mod 4) 0 s)"
    "a2b_base64 3 left pads (b64_char v # s) = map_option ((#) (chr_of (left * 64 + v))) (a2b_base64 0 0 0 s)"
  using b64_char_chars [OF assms] by (simp_all add: b64_value_char [OF assms])

lemma a2b_pads: "a2b_base64 2 left 0 ''=='' = Some []" "a2b_base64 3 left 0 ''='' = Some []"
  by simp_all

lemma a2b_encode: "a2b_base64 0 0 0 (b64_encode s) = Some s"
  by (induction s rule: b64_encode.induct)
    (simp_all add: a2b_b64_char sextets octets a2b_pads del: a2b_base64.simps(2))

lemma decode_encode_signature:
  assumes "s \<noteq> []" and "length (b64_body s) \<le> 128"
  shows "decode_signature (encode_signature s) = Inr s"
proof -
  have "b64_body s \<noteq> []" using assms(1) by (cases s rule: b64_body.cases) simp_all
  moreover have "code c < 128" if "c \<in> set (b64_encode s)" for c
    using that b64_body_chars by (auto simp: b64_encode_body padded_def code_def)
  then have "urlsafe_b64decode (b64_encode s) = Some s"
    by (auto simp: urlsafe_b64decode_def a2b_encode not_le)
  ultimately show ?thesis
    using assms(2) by (simp add: decode_signature_def encode_signature_body b64_encode_body)
qed

lemma length_b64_body: "3 * length (b64_body s) \<le> 4 * length s + 2"
  by (induction s rule: b64_body.induct) simp_all

lemma b64_body_Nil: "b64_body s = [] \<longleftrightarrow> s = []"
  by (cases s rule: b64_body.cases) simp_all

lemma signature_length:
  assumes "length s = 64"
  shows "1 \<le> length (encode_signature s)" "length (encode_signature s) \<le> 128"
proof -
  have "s \<noteq> []" using assms by auto
  then have "b64_body s \<noteq> []" by (simp add: b64_body_Nil)
  then show "1 \<le> length (encode_signature s)" by (simp add: encode_signature_body Suc_le_eq)
  show "length (encode_signature s) \<le> 128"
    using length_b64_body [of s] assms by (simp add: encode_signature_body)
qed

end
