(* ===== verification/Agent_Protocol.thy ===== *)
theory Agent_Protocol
  imports Domain_Preflight Agent_Signing Py_Hoare Complex_Main
    "HOL-Library.Char_ord" "HOL-Library.List_Lexorder" "HOL-Library.Product_Lexorder"
begin

text \<open>
  \<open>agent/protocol.py\<close> (payloads, command validation), \<open>agent/backoff.py\<close>, and the collectors
  \<open>agent/process_monitor.py\<close>, \<open>agent/drive_monitor.py\<close>, \<open>agent/snapshot.py\<close>.  \<open>psutil\<close> and the
  disk usage of the operating system are parameters over a world \<open>'w\<close>.  Floating-point delays are
  exact rationals.
\<close>

section \<open>Commands\<close>

definition ALLOWED_COMMAND :: string where
  "ALLOWED_COMMAND = ''refresh_process_snapshot''"

definition validate_command :: "(server_command \<Rightarrow> bool) \<Rightarrow> server_command \<Rightarrow> datetime \<Rightarrow> server_command result" where
  "validate_command signature_verifier command now =
     (if sc_name command \<noteq> ALLOWED_COMMAND then Inl (InvalidAgentCommand ''unsupported agent command'')
      else if sc_signature command = []
      then Inl (InvalidAgentCommand ''agent command signature is missing'')
      else if instant (sc_expires_at command) \<le> instant now
      then Inl (InvalidAgentCommand ''agent command is expired'')
      else if \<not> signature_verifier command
      then Inl (InvalidAgentCommand ''agent command signature is invalid'')
      else Inr command)"

section \<open>Payloads\<close>

record agent_identity =
  ai_station_id :: uuid
  ai_hostname :: string
  ai_agent_version :: string
  ai_ip_addresses :: "string list"
  ai_mac_addresses :: "string list"

text \<open>The dictionary of a heartbeat, a field per key.\<close>

record heartbeat_payload =
  hp_protocol_version :: string
  hp_station_id :: string
  hp_hostname :: string
  hp_ip_addresses :: "string list"
  hp_mac_addresses :: "string list"
  hp_agent_version :: string
  hp_captured_at :: string
  hp_processes :: "process_info list"
  hp_drives :: "drive_info list"

definition AGENT_PROTOCOL_VERSION :: string where
  "AGENT_PROTOCOL_VERSION = ''1''"

definition build_payload :: "agent_identity \<Rightarrow> process_snapshot \<Rightarrow> heartbeat_payload result" where
  "build_payload identity snapshot =
     (if ps_station_id snapshot \<noteq> ai_station_id identity
      then Inl (ValueError ''snapshot station does not match agent identity'')
      else Inr \<lparr>hp_protocol_version = AGENT_PROTOCOL_VERSION,
             hp_station_id = uuid_str (ps_station_id snapshot), hp_hostname = ai_hostname identity,
             hp_ip_addresses = ai_ip_addresses identity, hp_mac_addresses = ai_mac_addresses identity,
             hp_agent_version = ps_agent_version snapshot,
             hp_captured_at = iso_auto (ps_captured_at snapshot),
             hp_processes = ps_processes snapshot, hp_drives = ps_drives snapshot\<rparr>)"

section \<open>Backoff\<close>

record backoff_policy =
  bp_base :: rat
  bp_max :: rat
  bp_jitter :: rat
  bp_attempts :: int

definition mk_backoff :: "rat \<Rightarrow> rat \<Rightarrow> rat \<Rightarrow> int \<Rightarrow> backoff_policy result" where
  "mk_backoff base max_delay jitter attempts =
     (if base \<le> 0 then Inl (ValueError ''base_delay_seconds must be positive'')
      else if max_delay < base then Inl (ValueError ''max_delay_seconds must not be below base delay'')
      else if \<not> (0 \<le> jitter \<and> jitter \<le> 1)
      then Inl (ValueError ''jitter_ratio must be between zero and one'')
      else if attempts < 1 then Inl (ValueError ''max_attempts must be positive'')
      else Inr \<lparr>bp_base = base, bp_max = max_delay, bp_jitter = jitter, bp_attempts = attempts\<rparr>)"

definition default_backoff :: backoff_policy where
  "default_backoff = \<lparr>bp_base = 1, bp_max = 30, bp_jitter = 1 / 5, bp_attempts = 3\<rparr>"

definition backoff_delay :: "backoff_policy \<Rightarrow> int \<Rightarrow> rat \<Rightarrow> rat result" where
  "backoff_delay policy attempt random_value =
     (if attempt < 0 then Inl (ValueError ''attempt cannot be negative'')
      else if \<not> (0 \<le> random_value \<and> random_value \<le> 1)
      then Inl (ValueError ''random_value must be between zero and one'')
      else
        (let exponential = min (bp_max policy) (bp_base policy * 2 ^ nat attempt);
             jitter = (random_value * 2 - 1) * bp_jitter policy
         in Inr (min (bp_max policy) (max 0 (exponential * (1 + jitter))))))"

definition policy_ok :: "backoff_policy \<Rightarrow> bool" where
  "policy_ok p \<longleftrightarrow> mk_backoff (bp_base p) (bp_max p) (bp_jitter p) (bp_attempts p) = Inr p"

lemma policy_ok_iff: "policy_ok p \<longleftrightarrow> 0 < bp_base p \<and> bp_base p \<le> bp_max p \<and> 0 \<le> bp_jitter p
    \<and> bp_jitter p \<le> 1 \<and> 1 \<le> bp_attempts p"
  by (auto simp: policy_ok_def mk_backoff_def)

lemma backoff_delay_bounds:
  assumes "policy_ok p" and "backoff_delay p n r = Inr d"
  shows "0 \<le> d" and "d \<le> bp_max p"
  using assms by (auto simp: policy_ok_iff backoff_delay_def Let_def split: if_splits)

lemma backoff_delay_total: "0 \<le> n \<Longrightarrow> 0 \<le> r \<Longrightarrow> r \<le> 1 \<Longrightarrow> \<exists>d. backoff_delay p n r = Inr d"
  by (auto simp: backoff_delay_def Let_def)

section \<open>Collectors\<close>

text \<open>A value of the \<open>info\<close> dictionary of \<open>psutil\<close>, and what an iterated process gives: its \<open>info\<close>,
  something that is no dictionary, or one of the exceptions that are skipped.\<close>

datatype py_object = OText string | OInt int | OBool bool | OOther

datatype process_item = ProcessFields "string \<rightharpoonup> py_object" | ProcessOther | ProcessDenied

definition text_or_none :: "py_object option \<Rightarrow> string option" where
  "text_or_none value =
     (case value of
        Some (OText s) \<Rightarrow> (if strip s = [] then None else Some (strip s))
      | _ \<Rightarrow> None)"

definition pid_or_none :: "py_object option \<Rightarrow> int option" where
  "pid_or_none value = (case value of Some (OInt i) \<Rightarrow> if 0 \<le> i then Some i else None | _ \<Rightarrow> None)"

definition process_of :: "process_item \<Rightarrow> process_info option" where
  "process_of item =
     (case item of
        ProcessFields info \<Rightarrow>
          (case text_or_none (info ''name'') of
             None \<Rightarrow> None
           | Some name \<Rightarrow> Some \<lparr>pi_name = name, pi_pid = pid_or_none (info ''pid''),
               pi_path = text_or_none (info ''exe'')\<rparr>)
      | _ \<Rightarrow> None)"

text \<open>\<open>item.pid or -1\<close> is \<open>-1\<close> for the pid 0 too.\<close>

definition process_key :: "process_info \<Rightarrow> string \<times> int" where
  "process_key i =
     (casefold (pi_name i), case pi_pid i of None \<Rightarrow> - 1 | Some p \<Rightarrow> if p = 0 then - 1 else p)"

text \<open>The processes the iteration gave, and whether it ended with an exception of \<open>psutil\<close>.\<close>

definition collect_processes :: "process_item list \<Rightarrow> bool \<Rightarrow> process_info list" where
  "collect_processes items failed =
     (if failed then [] else sort_key process_key (List.map_filter process_of items))"

definition normalize_drive_letter :: "string \<Rightarrow> string result" where
  "normalize_drive_letter v =
     (let normalized = py_upper (strip v)
      in case normalized of
           [c, d] \<Rightarrow> if is_upper c \<and> d = CHR '':'' then Inr normalized
                     else Inl (ValueError ''drive letter must have the form C:'')
         | _ \<Rightarrow> Inl (ValueError ''drive letter must have the form C:''))"

definition drive_root :: "string \<Rightarrow> string" where
  "drive_root drive_letter = drive_letter @ [CHR 0x5C]"

text \<open>\<open>disk_usage root\<close> gives the free bytes, or None for an \<open>OSError\<close>.\<close>

definition collect_drive :: "(string \<Rightarrow> ('w, int option) sx) \<Rightarrow> string \<Rightarrow> ('w, drive_info) sx" where
  "collect_drive disk_usage drive_letter =
     bindS (disk_usage (drive_root drive_letter)) (\<lambda>usage.
     returnS (case usage of
         None \<Rightarrow> \<lparr>di_letter = drive_letter, di_present = False, di_free_bytes = None\<rparr>
       | Some free \<Rightarrow> \<lparr>di_letter = drive_letter, di_present = True,
           di_free_bytes = (if 0 \<le> free then Some free else None)\<rparr>))"

record 'w collectors =
  co_now :: "('w, datetime) sx"
  co_process_iter :: "('w, process_item list \<times> bool) sx"
  co_disk_usage :: "string \<Rightarrow> ('w, int option) sx"

definition collect_snapshot :: "'w collectors \<Rightarrow> uuid \<Rightarrow> string \<Rightarrow> string \<Rightarrow> ('w, process_snapshot) sx" where
  "collect_snapshot co station_id agent_version drive_letter =
     bindS (co_now co) (\<lambda>captured_at.
     bindS (co_process_iter co) (\<lambda>(items, failed).
     bindS (collect_drive (co_disk_usage co) drive_letter) (\<lambda>drive.
     returnS \<lparr>ps_station_id = station_id, ps_captured_at = captured_at,
       ps_agent_version = agent_version, ps_processes = collect_processes items failed,
       ps_drives = [drive], ps_received_at = None\<rparr>)))"

end
