(* ===== verification/Agent_Heartbeat.thy ===== *)
theory Agent_Heartbeat
  imports Agent_Protocol Py_Retry
begin

text \<open>
  \<open>agent/heartbeat.py\<close>, \<open>agent/commands.py\<close> and the composition of \<open>agent/runtime.py\<close>: one
  heartbeat with its commands, retries, and the loop of the agent.  The transport, the clock, the
  random numbers and the pauses are parameters over a world \<open>'w\<close>; the state of the loop is the set of
  handled command ids and the world.
\<close>

section \<open>The agent and its world\<close>

record 'w agent_env =
  ae_collect :: "('w, process_snapshot) sx"
  ae_send :: "heartbeat_payload \<Rightarrow> string \<Rightarrow> ('w, server_command list) sx"
  ae_acknowledge :: "uuid \<Rightarrow> string \<Rightarrow> ('w, unit) sx"
  ae_sleep :: "rat \<Rightarrow> ('w, unit) sx"
  ae_random :: "('w, rat) sx"
  ae_now :: "('w, datetime) sx"
  ae_stopped :: "('w, bool) sx"

record heartbeat_agent =
  ha_identity :: agent_identity
  ha_credential :: string
  ha_interval :: rat
  ha_backoff :: backoff_policy
  ha_verifier :: "(server_command \<Rightarrow> bool) option"
  ha_process_commands :: bool

type_synonym 'w agent_state = "uuid set \<times> 'w"

definition mk_heartbeat_agent ::
    "agent_identity \<Rightarrow> string \<Rightarrow> rat \<Rightarrow> backoff_policy \<Rightarrow> (server_command \<Rightarrow> bool) option \<Rightarrow> bool
     \<Rightarrow> heartbeat_agent result" where
  "mk_heartbeat_agent identity credential interval backoff verifier process_commands =
     (if credential = [] then Inl (ValueError ''agent credential cannot be empty'')
      else if interval \<le> 0 then Inl (ValueError ''interval_seconds must be positive'')
      else Inr \<lparr>ha_identity = identity, ha_credential = credential, ha_interval = interval,
             ha_backoff = backoff, ha_verifier = verifier, ha_process_commands = process_commands\<rparr>)"

section \<open>One heartbeat\<close>

definition heartbeat_lost :: "exn \<Rightarrow> bool" where
  "heartbeat_lost e = (case e of HeartbeatTransportError m \<Rightarrow> True | _ \<Rightarrow> False)"

text \<open>\<open>receiver\<close> is the attached command receiver.\<close>

definition send_once ::
    "'w agent_env \<Rightarrow> heartbeat_agent \<Rightarrow> (server_command \<Rightarrow> datetime \<Rightarrow> ('w agent_state, unit) sx) option
     \<Rightarrow> process_snapshot \<Rightarrow> bool \<Rightarrow> ('w agent_state, unit) sx" where
  "send_once env ag receiver snapshot process_commands =
     bindS (liftR (build_payload (ha_identity ag) snapshot)) (\<lambda>payload.
     bindS (on_ext (ae_send env payload (ha_credential ag))) (\<lambda>commands.
     if \<not> process_commands \<or> commands = [] then returnS ()
     else case receiver of
         None \<Rightarrow> raiseS (HeartbeatTransportError ''agent command receiver is not configured'')
       | Some handle \<Rightarrow>
           forS (\<lambda>command.
             bindS (on_ext (ae_now env)) (\<lambda>now.
             bindS (handle command now) (\<lambda>_.
             on_ext (ae_acknowledge env (sc_id command) (ha_credential ag))))) commands))"

definition pause_before_retry :: "'w agent_env \<Rightarrow> heartbeat_agent \<Rightarrow> nat \<Rightarrow> ('w agent_state, unit) sx" where
  "pause_before_retry env ag attempt =
     bindS (on_ext (ae_random env)) (\<lambda>random_value.
     bindS (liftR (backoff_delay (ha_backoff ag) (int attempt) random_value)) (\<lambda>delay.
     on_ext (ae_sleep env delay)))"

definition send_with_retry ::
    "'w agent_env \<Rightarrow> heartbeat_agent \<Rightarrow> (server_command \<Rightarrow> datetime \<Rightarrow> ('w agent_state, unit) sx) option
     \<Rightarrow> process_snapshot \<Rightarrow> bool \<Rightarrow> ('w agent_state, unit) sx" where
  "send_with_retry env ag receiver snapshot process_commands =
     retry_loop (returnS ()) (pause_before_retry env ag) (\<lambda>e. e) heartbeat_lost
       (nat (bp_attempts (ha_backoff ag)) - 1) 0
       (send_once env ag receiver snapshot process_commands)"

definition run_once ::
    "'w agent_env \<Rightarrow> heartbeat_agent \<Rightarrow> (server_command \<Rightarrow> datetime \<Rightarrow> ('w agent_state, unit) sx) option
     \<Rightarrow> bool \<Rightarrow> ('w agent_state, unit) sx" where
  "run_once env ag receiver process_commands =
     bindS (on_ext (ae_collect env)) (\<lambda>snapshot.
     send_with_retry env ag receiver snapshot process_commands)"

section \<open>Commands\<close>

text \<open>The refresh is one heartbeat that does not process commands.\<close>

definition refresh_snapshot :: "'w agent_env \<Rightarrow> heartbeat_agent \<Rightarrow> ('w agent_state, unit) sx" where
  "refresh_snapshot env ag = run_once env ag None False"

definition handle_command ::
    "'w agent_env \<Rightarrow> heartbeat_agent \<Rightarrow> (server_command \<Rightarrow> bool) \<Rightarrow> server_command \<Rightarrow> datetime
     \<Rightarrow> ('w agent_state, unit) sx" where
  "handle_command env ag signature_verifier command now =
     bindS (liftR (validate_command signature_verifier command now)) (\<lambda>_.
     bindS (getS fst) (\<lambda>handled.
     if sc_id command \<in> handled then returnS ()
     else bindS (refresh_snapshot env ag) (\<lambda>_.
          on_db (modifyS (insert (sc_id command))))))"

section \<open>The loop\<close>

definition agent_cycle :: "'w agent_env \<Rightarrow> heartbeat_agent \<Rightarrow> ('w agent_state, unit) sx" where
  "agent_cycle env ag =
     run_once env ag (map_option (handle_command env ag) (ha_verifier ag)) (ha_process_commands ag)"

definition suppressed_cycle :: "'w agent_env \<Rightarrow> heartbeat_agent \<Rightarrow> ('w agent_state, unit) sx" where
  "suppressed_cycle env ag =
     catchS (agent_cycle env ag) (\<lambda>e. if heartbeat_lost e then returnS () else raiseS e)"

text \<open>\<open>run_forever\<close> for at most \<open>n\<close> rounds: True when the stop event ended it, False when the rounds
  were used up.\<close>

fun run_forever :: "nat \<Rightarrow> 'w agent_env \<Rightarrow> heartbeat_agent \<Rightarrow> ('w agent_state, bool) sx" where
  "run_forever 0 env ag = returnS False"
| "run_forever (Suc n) env ag =
     bindS (on_ext (ae_stopped env)) (\<lambda>stopped.
     if stopped then returnS True
     else bindS (suppressed_cycle env ag) (\<lambda>_.
          bindS (on_ext (ae_sleep env (ha_interval ag))) (\<lambda>_.
          run_forever n env ag)))"

section \<open>Composition\<close>

record agent_config =
  gc_station_id :: uuid
  gc_agent_version :: string
  gc_hostname :: string
  gc_command_verify_key :: "string option"
  gc_heartbeat_interval :: rat
  gc_drive_letter :: string

text \<open>\<open>verify\<close> and \<open>public_bytes\<close> are the Ed25519 library's; an empty key is no key.\<close>

definition build_agent_service ::
    "('k \<Rightarrow> string \<Rightarrow> string \<Rightarrow> bool) \<Rightarrow> (string \<Rightarrow> 'k option) \<Rightarrow> agent_config \<Rightarrow> string \<Rightarrow> heartbeat_agent result" where
  "build_agent_service verify public_bytes config credential =
     bindR (case gc_command_verify_key config of
         None \<Rightarrow> Inr None
       | Some encoded_key \<Rightarrow>
           if encoded_key = [] then Inr None
           else bindR (verifier_from_base64 public_bytes encoded_key) (\<lambda>key.
                Inr (Some (verify_command (verify key))))) (\<lambda>verifier.
     bindR (normalize_drive_letter (gc_drive_letter config)) (\<lambda>_.
     mk_heartbeat_agent
       \<lparr>ai_station_id = gc_station_id config, ai_hostname = gc_hostname config,
          ai_agent_version = gc_agent_version config, ai_ip_addresses = [], ai_mac_addresses = []\<rparr>
       credential (gc_heartbeat_interval config) default_backoff verifier (verifier \<noteq> None)))"

end
