(* ===== verification/Agent_Controller.thy ===== *)
theory Agent_Controller
  imports Agent_Heartbeat Lifecycle_Properties Registry_Cases Db_Frames
begin

text \<open>
  The agent's HTTP client (\<open>agent/http_client.py\<close>) on the controller's routes for heartbeats and
  acknowledgements (\<open>presentation/http.py\<close> with the schemas of \<open>presentation/lifecycle_schemas.py\<close>):
  what a request does to the database and what the agent gets back.  The network itself is perfect
  here; \<open>parse_time\<close> is the parser of JSON datetimes of the schema library.
\<close>

section \<open>The heartbeat route\<close>

definition process_payload_ok :: "process_info \<Rightarrow> bool" where
  "process_payload_ok p =
     (1 \<le> length (pi_name p) \<and> length (pi_name p) \<le> 255
      \<and> (case pi_pid p of None \<Rightarrow> True | Some pid \<Rightarrow> 0 \<le> pid)
      \<and> (case pi_path p of None \<Rightarrow> True | Some path \<Rightarrow> length path \<le> 1024))"

definition drive_payload_ok :: "drive_info \<Rightarrow> bool" where
  "drive_payload_ok v =
     (1 \<le> length (di_letter v) \<and> length (di_letter v) \<le> 3
      \<and> (case di_free_bytes v of None \<Rightarrow> True | Some free \<Rightarrow> 0 \<le> free))"

definition heartbeat_request_ok :: "heartbeat_payload \<Rightarrow> bool" where
  "heartbeat_request_ok p =
     (hp_protocol_version p = ''1''
      \<and> 1 \<le> length (hp_hostname p) \<and> length (hp_hostname p) \<le> 255
      \<and> length (hp_ip_addresses p) \<le> 16 \<and> length (hp_mac_addresses p) \<le> 16
      \<and> 1 \<le> length (hp_agent_version p) \<and> length (hp_agent_version p) \<le> 64
      \<and> length (hp_processes p) \<le> 512 \<and> list_all process_payload_ok (hp_processes p)
      \<and> length (hp_drives p) \<le> 32 \<and> list_all drive_payload_ok (hp_drives p))"

definition heartbeat_status :: "exn \<Rightarrow> nat" where
  "heartbeat_status e =
     (case e of AgentUnauthorizedError m \<Rightarrow> 401 | HeartbeatRejectedError m \<Rightarrow> 422 | _ \<Rightarrow> 500)"

text \<open>\<open>AgentCommandResponse\<close> limits the lengths of what it carries.\<close>

definition command_response_ok :: "agent_command \<Rightarrow> bool" where
  "command_response_ok c =
     (1 \<le> length (command_name_value (ac_name c)) \<and> length (command_name_value (ac_name c)) \<le> 64
      \<and> 1 \<le> length (ac_signature c) \<and> length (ac_signature c) \<le> 128)"

text \<open>The value is the status of a rejected request, or the response of an accepted one.\<close>

definition heartbeat_route ::
    "(string \<Rightarrow> string) \<Rightarrow> (string \<Rightarrow> datetime option) \<Rightarrow> datetime \<Rightarrow> heartbeat_payload \<Rightarrow> string
     \<Rightarrow> (db, nat + heartbeat_result) sx" where
  "heartbeat_route H parse_time now payload credential =
     (case (uuid_parse (hp_station_id payload), parse_time (hp_captured_at payload)) of
        (Inr station_id, Some captured_at) \<Rightarrow>
          if \<not> heartbeat_request_ok payload then returnS (Inl 422)
          else
            bindS (tryS (receive_heartbeat H now credential
               \<lparr>ps_station_id = station_id, ps_captured_at = captured_at,
                  ps_agent_version = hp_agent_version payload, ps_processes = hp_processes payload,
                  ps_drives = hp_drives payload, ps_received_at = None\<rparr>
               (Some (hp_hostname payload)) (Some (hp_ip_addresses payload))
               (Some (hp_mac_addresses payload)))) (\<lambda>outcome.
            case outcome of
              Inl e \<Rightarrow> returnS (Inl (heartbeat_status e))
            | Inr res \<Rightarrow>
                if list_all command_response_ok (hb_commands res) \<and> length (hb_commands res) \<le> 16
                then returnS (Inr res) else returnS (Inl 500))
      | _ \<Rightarrow> returnS (Inl 422))"

section \<open>The client of the agent\<close>

definition wire_command :: "agent_command \<Rightarrow> server_command" where
  "wire_command c =
     \<lparr>sc_id = ac_id c, sc_name = command_name_value (ac_name c), sc_expires_at = ac_expires_at c,
        sc_signature = ac_signature c\<rparr>"

definition heartbeat_send ::
    "(string \<Rightarrow> string) \<Rightarrow> (string \<Rightarrow> datetime option) \<Rightarrow> datetime \<Rightarrow> heartbeat_payload \<Rightarrow> string
     \<Rightarrow> (db, server_command list) sx" where
  "heartbeat_send H parse_time now payload credential =
     (if credential = [] then raiseS (HeartbeatTransportError ''agent credential is missing'')
      else
        bindS (heartbeat_route H parse_time now payload credential) (\<lambda>response.
        case response of
          Inl status \<Rightarrow> raiseS (HeartbeatTransportError
              (''heartbeat endpoint rejected request with status '' @ str_nat status))
        | Inr res \<Rightarrow>
            if 16 < length (hb_commands res)
            then raiseS (HeartbeatTransportError ''heartbeat response commands are malformed'')
            else returnS (map wire_command (hb_commands res))))"

definition acknowledge_status :: "exn \<Rightarrow> nat" where
  "acknowledge_status e =
     (case e of AgentCommandUnauthorizedError m \<Rightarrow> 401
      | AgentCommandAcknowledgementRejectedError m \<Rightarrow> 409 | _ \<Rightarrow> 500)"

definition acknowledge_route ::
    "(string \<Rightarrow> string) \<Rightarrow> datetime \<Rightarrow> uuid \<Rightarrow> string \<Rightarrow> (db, nat + unit) sx" where
  "acknowledge_route H now command_id credential =
     bindS (tryS (acknowledge_agent_command H now credential command_id)) (\<lambda>outcome.
     case outcome of
       Inl e \<Rightarrow> returnS (Inl (acknowledge_status e))
     | Inr _ \<Rightarrow> returnS (Inr ()))"

definition acknowledge_send ::
    "(string \<Rightarrow> string) \<Rightarrow> datetime \<Rightarrow> uuid \<Rightarrow> string \<Rightarrow> (db, unit) sx" where
  "acknowledge_send H now command_id credential =
     (if credential = [] then raiseS (HeartbeatTransportError ''agent credential is missing'')
      else
        bindS (acknowledge_route H now command_id credential) (\<lambda>response.
        case response of
          Inl status \<Rightarrow> raiseS (HeartbeatTransportError
              (''agent command acknowledgement rejected with status '' @ str_nat status))
        | Inr _ \<Rightarrow> returnS ()))"

lemma heartbeat_send_Inr:
  assumes "heartbeat_send H parse_time now p credential d = (Inr cs, d')"
  obtains sid t r where "uuid_parse (hp_station_id p) = Inr sid" and "parse_time (hp_captured_at p) = Some t"
    and "heartbeat_request_ok p"
    and "receive_heartbeat H now credential
       \<lparr>ps_station_id = sid, ps_captured_at = t, ps_agent_version = hp_agent_version p,
          ps_processes = hp_processes p, ps_drives = hp_drives p, ps_received_at = None\<rparr>
       (Some (hp_hostname p)) (Some (hp_ip_addresses p)) (Some (hp_mac_addresses p)) d = (Inr r, d')"
    and "cs = map wire_command (hb_commands r)"
  using assms that
  by (auto simp: heartbeat_send_def heartbeat_route_def sx_simps tryS_apply split: if_splits sum.splits option.splits prod.splits)

section \<open>Databases with signed commands\<close>

text \<open>The command table of a controller that starts without commands and issues, delivers and
  acknowledges them, each operation with any outcome; other operations at most remove commands, as the
  deletion of a station does with the commands of its agent.\<close>

inductive command_reach :: "(string \<Rightarrow> string) \<Rightarrow> db \<Rightarrow> bool" for private_sign :: "string \<Rightarrow> string" where
  start: "agent_commands d = [] \<Longrightarrow> command_reach private_sign d"
| issue: "command_reach private_sign d \<Longrightarrow>
    issue_agent_command (\<lambda>i n t. Inr (sign_command private_sign i n t)) command_id now clock agent_uuid name ttl d
      = (r, d') \<Longrightarrow> command_reach private_sign d'"
| heartbeat: "command_reach private_sign d \<Longrightarrow> heartbeat_send H parse_time now payload credential d = (r', d') \<Longrightarrow>
    command_reach private_sign d'"
| acknowledge: "command_reach private_sign d \<Longrightarrow> acknowledge_send H now command_id credential d = (r'', d') \<Longrightarrow>
    command_reach private_sign d'"
| other: "command_reach private_sign d \<Longrightarrow> set (agent_commands d') \<subseteq> set (agent_commands d) \<Longrightarrow>
    command_reach private_sign d'"

definition command_signed :: "(string \<Rightarrow> string) \<Rightarrow> command_row \<Rightarrow> bool" where
  "command_signed private_sign q \<longleftrightarrow>
     cm_signature q = sign_command private_sign (cm_id q) (cm_name q) (cm_expires_at q)
     \<and> cm_name q = ''refresh_process_snapshot''"

definition commands_signed :: "(string \<Rightarrow> string) \<Rightarrow> db \<Rightarrow> bool" where
  "commands_signed private_sign d \<longleftrightarrow> (\<forall>q \<in> set (agent_commands d). command_signed private_sign q)"

lemma commands_signed_writes:
  "keeps (commands_signed S) (commands_claim_for_agent aid now lease_for limit)"
  "keeps (commands_signed S) (commands_acknowledge aid cid now)"
  "keeps (commands_signed S) (agents_record_heartbeat aid snap now hostname ips macs)"
  "keeps (commands_signed S) (agents_get_by_credential_hash h)"
  "keeps (commands_signed S) (agents_get_by_agent_uuid u)"
  by (auto simp: keeps_def commands_signed_def commands_claim_for_agent_def commands_acknowledge_def
      set_command_def set_update_where command_signed_def leased_command_def Let_def agents_record_heartbeat_def
      set_station_def agents_get_by_credential_hash_def agents_get_by_agent_uuid_def split: option.split sum.split)

lemma commands_signed_add:
  assumes "ac_signature c = sign_command S (ac_id c) (command_name_value (ac_name c)) (ac_expires_at c)"
  shows "keeps (commands_signed S) (commands_add clock c)"
  using assms by (auto simp: keeps_def commands_signed_def commands_add_def command_signed_def command_name_value_def)

lemma commands_signed_issue:
  "keeps (commands_signed S) (issue_agent_command (\<lambda>i n t. Inr (sign_command S i n t)) cid now clock u name ttl)"
  unfolding issue_agent_command_def Let_def
  by (intro keeps_body commands_signed_writes commands_signed_add) auto

lemma commands_signed_requests:
  "keeps (commands_signed S) (heartbeat_send H parse_time now payload credential)"
  "keeps (commands_signed S) (acknowledge_send H now cid credential)"
  unfolding heartbeat_send_def heartbeat_route_def receive_heartbeat_def acknowledge_send_def
    acknowledge_route_def acknowledge_agent_command_def
  by (intro keeps_body keeps_try keeps_sum commands_signed_writes)+

lemma command_reach_signed: "command_reach S d \<Longrightarrow> commands_signed S d"
proof (induction rule: command_reach.induct)
  case (issue d cid now clock u name ttl r d')
  show ?case using keepsD [OF commands_signed_issue issue.IH] issue.hyps by (metis snd_conv)
next
  case (heartbeat d H parse_time now payload credential r' d')
  show ?case using keepsD [OF commands_signed_requests(1) heartbeat.IH] heartbeat.hyps by (metis snd_conv)
next
  case (acknowledge d H now cid credential r'' d')
  show ?case using keepsD [OF commands_signed_requests(2) acknowledge.IH] acknowledge.hyps by (metis snd_conv)
qed (auto simp: commands_signed_def)

text \<open>An accepted heartbeat claims commands from an unchanged command table.\<close>

lemma received_commands:
  assumes "receive_heartbeat H now credential snapshot hostname ips macs d = (Inr r, d')"
  obtains aid d0 where "commands_claim_for_agent aid (ensure_utc now) AGENT_COMMAND_LEASE
      AGENT_COMMAND_BATCH_SIZE d0 = (Inr (hb_commands r), d')" and "agent_commands d0 = agent_commands d"
proof -
  have frame: "agent_commands d0 = agent_commands d"
    if "agents_record_heartbeat aid snap accepted hn ns ms d = (Inr (), d0)" for aid snap accepted hn ns ms d0
    using that by (auto simp: agents_record_heartbeat_def set_station_def Let_def split: sum.splits option.splits)
  have get: "d0 = d" if "agents_get_by_credential_hash h d = (v, d0)" for h v d0
    using that agents_get_state(1) [of h d] by simp
  from assms obtain aid d0 d1 v snap accepted hn ns ms where
    "agents_get_by_credential_hash (H credential) d = (v, d0)"
    and "agents_record_heartbeat aid snap accepted hn ns ms d0 = (Inr (), d1)"
    and claim: "commands_claim_for_agent aid (ensure_utc now) AGENT_COMMAND_LEASE
      AGENT_COMMAND_BATCH_SIZE d1 = (Inr (hb_commands r), d')"
    by (auto simp: receive_heartbeat_def Let_def sx_simps split: sum.splits option.splits prod.splits if_splits)
  then have "agent_commands d1 = agent_commands d" using frame get by blast
  with claim that show ?thesis by blast
qed

end
