(* ===== verification/Agent_Properties.thy ===== *)
theory Agent_Properties
  imports Agent_Controller
begin

text \<open>
  What the agent does with the controller's commands, and how its loop ends: deliveries are accepted,
  only signed commands are executed, transport failures are survived, a late command is not.
\<close>

section \<open>Delivered commands\<close>

lemma claimed_row:
  assumes "commands_claim_for_agent aid now lease_for limit d = (Inr cs, d')" and "c \<in> set cs"
  obtains q where "q \<in> set (agent_commands d)" and "command_due (instant now) q" and "ac_id c = cm_id q"
    and "command_name_value (ac_name c) = cm_name q" and "instant (ac_expires_at c) = instant (cm_expires_at q)"
    and "ac_signature c = cm_signature q"
proof -
  have "mapR command_to_domain (map (leased_command (dt_plus now lease_for))
      (claimable_commands aid (instant now) limit d)) = Inr cs"
    using assms(1) by (auto simp: commands_claim_for_agent_def Let_def split: if_splits)
  from mapR_element [OF this assms(2)] obtain q where
    q: "q \<in> set (claimable_commands aid (instant now) limit d)"
    "command_to_domain (leased_command (dt_plus now lease_for) q) = Inr c" by auto
  from claimable_commands_set [OF q(1)] q(2) that [of q] show ?thesis
    by (auto simp: command_to_domain_def command_status_of_def leased_command_def command_name_of_def
        command_name_value_def split: sum.splits if_splits)
qed

lemma signed_command_verified:
  assumes "\<And>m. verify (S m) m" and "\<And>m. length (S m) = 64"
    and "sc_signature c = sign_command S (sc_id c) (sc_name c) t" and "instant (sc_expires_at c) = instant t"
  shows "verify_command verify c"
proof -
  let ?m = "canonical_command_payload (sc_id c) (sc_name c) t"
  have "S ?m \<noteq> []" using assms(2) [of ?m] by auto
  moreover have "length (b64_body (S ?m)) \<le> 128" using length_b64_body [of "S ?m"] assms(2) [of ?m] by simp
  ultimately have "decode_signature (sc_signature c) = Inr (S ?m)"
    by (simp add: assms(3) sign_command_def decode_encode_signature)
  then show ?thesis
    using assms(1) canonical_same [OF assms(4)] by (simp add: verify_command_def)
qed

text \<open>C35. Every command that a heartbeat brings back was issued and signed by the controller and has
  not expired on its clock, and the agent accepts it as long as its own clock is before the expiry -
  whatever the controller did before: issued, delivered, redelivered, acknowledged or let commands
  expire.  The signature survives its base64 text, the database and the wire.\<close>

theorem delivered_commands_accepted:
  assumes "\<And>m. verify (S m) m" and "\<And>m. length (S m) = 64"
    and "command_reach S d"
    and "heartbeat_send H parse_time now payload credential d = (Inr cs, d')" and "c \<in> set cs"
  shows "instant now < instant (sc_expires_at c)
    \<and> validate_command (verify_command verify) c agent_now =
        (if instant agent_now < instant (sc_expires_at c) then Inr c
         else Inl (InvalidAgentCommand ''agent command is expired''))"
proof -
  obtain sid t r where recv: "receive_heartbeat H now credential
       \<lparr>ps_station_id = sid, ps_captured_at = t, ps_agent_version = hp_agent_version payload,
          ps_processes = hp_processes payload, ps_drives = hp_drives payload, ps_received_at = None\<rparr>
       (Some (hp_hostname payload)) (Some (hp_ip_addresses payload)) (Some (hp_mac_addresses payload)) d = (Inr r, d')"
    and cs: "cs = map wire_command (hb_commands r)"
    by (rule heartbeat_send_Inr [OF assms(4)])
  obtain aid d0 where claim: "commands_claim_for_agent aid (ensure_utc now) AGENT_COMMAND_LEASE
      AGENT_COMMAND_BATCH_SIZE d0 = (Inr (hb_commands r), d')" and same: "agent_commands d0 = agent_commands d"
    using received_commands [OF recv] .
  obtain k where k: "k \<in> set (hb_commands r)" "c = wire_command k" using assms(5) cs by auto
  obtain q where q: "q \<in> set (agent_commands d0)" "command_due (instant (ensure_utc now)) q" "ac_id k = cm_id q"
    "command_name_value (ac_name k) = cm_name q" "instant (ac_expires_at k) = instant (cm_expires_at q)"
    "ac_signature k = cm_signature q"
    by (rule claimed_row [OF claim k(1)])
  have signed: "command_signed S q"
    using command_reach_signed [OF assms(3)] q(1) same by (simp add: commands_signed_def)
  have "verify_command verify c"
    by (rule signed_command_verified [where S = S and t = "cm_expires_at q"])
      (use assms(1,2) signed q k in \<open>simp_all add: command_signed_def wire_command_def\<close>)
  moreover have "sc_signature c \<noteq> []" using calculation by (auto simp: verify_command_def decode_signature_def)
  moreover have "sc_name c = ALLOWED_COMMAND"
    by (simp add: k wire_command_def command_name_value_def ALLOWED_COMMAND_def)
  ultimately show ?thesis
    using q(2,5) k by (auto simp: validate_command_def command_due_def wire_command_def)
qed

section \<open>Only signed commands are executed\<close>

lemma keeps_ext: "keeps (\<lambda>s. J (fst s)) (on_ext m)"
  by (simp add: keeps_def on_ext_def split: prod.split)

lemma keeps_retry:
  assumes "keeps P recover" and "\<And>n. keeps P (wait n)" and "keeps P m"
  shows "keeps P (retry_loop recover wait give_up caught left attempt m)"
proof (induction left arbitrary: attempt)
  case 0
  show ?case unfolding retry_loop.simps by (intro keeps_catch keeps_if keeps_bind keeps_raise assms)
next
  case (Suc left)
  show ?case unfolding retry_loop.simps by (intro keeps_catch keeps_if keeps_bind keeps_raise assms Suc.IH)
qed

text \<open>A condition on the handled commands that every receiver keeps is kept by the loop.\<close>

lemma keeps_send_once:
  assumes "\<And>handle c now. receiver = Some handle \<Longrightarrow> keeps (\<lambda>s. J (fst s)) (handle c now)"
  shows "keeps (\<lambda>s. J (fst s)) (send_once env ag receiver snapshot process)"
proof (cases receiver)
  case None
  show ?thesis unfolding send_once_def None option.case
    by (intro keeps_bind keeps_ext keeps_lift keeps_return keeps_if keeps_raise)
next
  case (Some handle)
  show ?thesis unfolding send_once_def Some option.case
    by (intro keeps_bind keeps_ext keeps_lift keeps_return keeps_if keeps_forS assms [OF Some])
qed

lemma keeps_run_once:
  assumes "\<And>handle c now. receiver = Some handle \<Longrightarrow> keeps (\<lambda>s. J (fst s)) (handle c now)"
  shows "keeps (\<lambda>s. J (fst s)) (run_once env ag receiver process)"
  unfolding run_once_def send_with_retry_def pause_before_retry_def
  by (intro keeps_bind keeps_ext keeps_retry keeps_lift keeps_return keeps_send_once assms)

lemma keeps_run_forever:
  assumes "keeps (\<lambda>s. J (fst s)) (agent_cycle env ag)"
  shows "keeps (\<lambda>s. J (fst s)) (run_forever n env ag)"
  by (induction n)
    (simp_all add: suppressed_cycle_def keeps_bind keeps_ext keeps_if keeps_return keeps_catch keeps_raise assms)

lemma keeps_handle_command:
  assumes "\<And>c now h. validate_command v c now = Inr c \<Longrightarrow> J h \<Longrightarrow> J (insert (sc_id c) h)"
  shows "keeps (\<lambda>s. J (fst s)) (handle_command env ag v c now)"
  unfolding handle_command_def refresh_snapshot_def
proof (intro keeps_lift_then keeps_bind keeps_get keeps_if keeps_return keeps_run_once)
  fix x assume "validate_command v c now = Inr x"
  then have "validate_command v c now = Inr c" by (auto simp: validate_command_def split: if_splits)
  then show "keeps (\<lambda>s. J (fst s)) (on_db (modifyS (insert (sc_id c))))"
    using assms by (simp add: keeps_def on_db_def modifyS_def split: prod.split)
qed simp

lemma keeps_agent_loop:
  assumes "\<And>v c now h. ha_verifier ag = Some v \<Longrightarrow> validate_command v c now = Inr c \<Longrightarrow> J h \<Longrightarrow> J (insert (sc_id c) h)"
  shows "keeps (\<lambda>s. J (fst s)) (run_forever n env ag)"
proof (rule keeps_run_forever)
  show "keeps (\<lambda>s. J (fst s)) (agent_cycle env ag)"
    unfolding agent_cycle_def
    by (rule keeps_run_once) (auto intro!: keeps_handle_command assms)
qed

lemma canonical_names:
  assumes "canonical_command_payload i n t = canonical_command_payload j m u"
  shows "i = j" and "n = m"
proof -
  have "uuid_str i = uuid_str j \<and> n = m"
    using assms by (simp add: canonical_payload_eq json_string_inject json_string_eq)
  then show "i = j" "n = m" by simp_all
qed

lemma authorized_command:
  assumes "\<And>signature m. verify signature m \<Longrightarrow> \<exists>(j, name, t) \<in> set issued. m = canonical_command_payload j name t"
    and "validate_command (verify_command verify) c now = Inr c'"
  shows "\<exists>t. (sc_id c, ''refresh_process_snapshot'', t) \<in> set issued"
proof -
  from assms(2) have "verify_command verify c" and name: "sc_name c = ''refresh_process_snapshot''"
    by (auto simp: validate_command_def ALLOWED_COMMAND_def split: if_splits)
  then obtain signature where
    "verify signature (canonical_command_payload (sc_id c) (sc_name c) (sc_expires_at c))"
    by (auto simp: verify_command_def split: sum.splits)
  then obtain j m t where "(j, m, t) \<in> set issued"
    "canonical_command_payload (sc_id c) (sc_name c) (sc_expires_at c) = canonical_command_payload j m t"
    using assms(1) by blast
  then show ?thesis using canonical_names name by metis
qed

lemma handle_command_outcomes:
  "validate_command v c now = Inl e \<Longrightarrow> handle_command env ag v c now s = (Inl e, s)"
  "sc_id c \<in> fst s \<Longrightarrow> snd (handle_command env ag v c now s) = s"
  by (cases s; simp add: handle_command_def sx_simps split: sum.split)+

text \<open>C36. Whatever the network brings: the handler of the agent turns a command away before it touches
  anything - no refresh is sent, nothing is remembered - unless the command is a refresh that has not
  expired on the agent's clock and whose id the controller signed as a refresh; a command it has already
  handled changes nothing; and the ids that the loop has handled were all signed as refreshes.  The
  hypothesis is what Ed25519 promises: a signature is accepted for signed payloads only; the payload
  determines the id and the name of the command, so no signature can be moved to another command.  The
  payload does not name an agent: the controller may have signed the command for another one.\<close>

theorem agent_obeys_controller:
  assumes "\<And>signature m. verify signature m \<Longrightarrow> \<exists>(j, name, t) \<in> set issued. m = canonical_command_payload j name t"
    and "ha_verifier ag = Some (verify_command verify)"
  shows "(sc_name c = ''refresh_process_snapshot'' \<and> instant now < instant (sc_expires_at c)
      \<and> (\<exists>t. (sc_id c, ''refresh_process_snapshot'', t) \<in> set issued)
      \<or> (\<exists>e. handle_command env ag (verify_command verify) c now s = (Inl e, s)))
    \<and> (sc_id c \<in> fst s \<longrightarrow> snd (handle_command env ag (verify_command verify) c now s) = s)
    \<and> (run_forever n env ag ({}, w) = (r, (handled, w')) \<and> i \<in> handled \<longrightarrow>
        (\<exists>t. (i, ''refresh_process_snapshot'', t) \<in> set issued))"
proof -
  let ?J = "\<lambda>h. \<forall>i \<in> h. \<exists>t. (i, ''refresh_process_snapshot'', t) \<in> set issued"
  have "keeps (\<lambda>s. ?J (fst s)) (run_forever n env ag)"
    by (rule keeps_agent_loop) (use authorized_command [OF assms(1)] assms(2) in auto)
  from keepsD [OF this, of "({}, w)"]
  have "run_forever n env ag ({}, w) = (r, (handled, w')) \<and> i \<in> handled \<longrightarrow>
      (\<exists>t. (i, ''refresh_process_snapshot'', t) \<in> set issued)" by auto
  moreover have "sc_name c = ''refresh_process_snapshot'' \<and> instant now < instant (sc_expires_at c)
      \<and> (\<exists>t. (sc_id c, ''refresh_process_snapshot'', t) \<in> set issued)
      \<or> (\<exists>e. handle_command env ag (verify_command verify) c now s = (Inl e, s))"
  proof (cases "validate_command (verify_command verify) c now")
    case (Inl e)
    then show ?thesis using handle_command_outcomes(1) by blast
  next
    case (Inr c')
    from authorized_command [OF assms(1) this] Inr show ?thesis
      by (auto simp: validate_command_def ALLOWED_COMMAND_def split: if_splits)
  qed
  ultimately show ?thesis using handle_command_outcomes(2) by blast
qed

section \<open>How the loop ends\<close>

text \<open>C37. A command that is late on the agent's clock ends the agent: the heartbeat that brought it
  back was accepted, but the validator's error is not among the errors the loop suppresses, so the loop
  raises it and no further heartbeat is sent - although its comment promises that failed cycles become
  the next retry opportunity.\<close>

theorem late_command_stops_agent:
  assumes "ae_stopped env w = (Inr False, w1)" and "ae_collect env w1 = (Inr snapshot, w2)"
    and "build_payload (ha_identity ag) snapshot = Inr payload"
    and "ae_send env payload (ha_credential ag) w2 = (Inr (c # cs), w3)" and "ae_now env w3 = (Inr now, w4)"
    and "ha_process_commands ag" and "ha_verifier ag = Some v"
    and "sc_name c = ALLOWED_COMMAND" and "sc_signature c \<noteq> []"
    and "instant (sc_expires_at c) \<le> instant now"
  shows "run_forever (Suc n) env ag (handled, w) =
    (Inl (InvalidAgentCommand ''agent command is expired''), (handled, w4))"
proof -
  have late: "validate_command v c now = Inl (InvalidAgentCommand ''agent command is expired'')"
    using assms(8-10) by (simp add: validate_command_def)
  have send: "send_once env ag (Some (handle_command env ag v)) snapshot True (handled, w2) =
      (Inl (InvalidAgentCommand ''agent command is expired''), (handled, w4))"
    by (simp add: send_once_def sx_simps on_apply assms(3-5) handle_command_def late)
  have retry: "retry_loop (returnS ()) wait (\<lambda>e. e) heartbeat_lost left attempt m s = (Inl e, t)"
    if "m s = (Inl e, t)" "\<not> heartbeat_lost e" for wait left attempt m s e t
    using that by (cases left) (simp_all add: sx_simps)
  have "agent_cycle env ag (handled, w1) =
      (Inl (InvalidAgentCommand ''agent command is expired''), (handled, w4))"
    using retry [of "send_once env ag (Some (handle_command env ag v)) snapshot True"
        "(handled, w2)", OF send] by (simp add: agent_cycle_def run_once_def send_with_retry_def sx_simps on_apply
        assms(2,6,7) heartbeat_lost_def)
  then show ?thesis
    by (simp add: suppressed_cycle_def sx_simps on_apply assms(1) heartbeat_lost_def)
qed

text \<open>What the world around the loop may do: any call of the transport may fail as the transport fails,
  everything else works, and every command brought back is acceptable at any time the clock shows.\<close>

definition patient_env :: "'w agent_env \<Rightarrow> heartbeat_agent \<Rightarrow> bool" where
  "patient_env env ag \<longleftrightarrow>
     (\<forall>w. after (ae_stopped env) (\<lambda>_ _. True) (\<lambda>_ _. False) w)
     \<and> (\<forall>w. after (ae_collect env) (\<lambda>x _. ps_station_id x = ai_station_id (ha_identity ag)) (\<lambda>_ _. False) w)
     \<and> (\<forall>p k w. after (ae_send env p k)
          (\<lambda>cs _. \<forall>c \<in> set cs. \<forall>v. ha_verifier ag = Some v \<longrightarrow>
             (\<forall>u now u'. ae_now env u = (Inr now, u') \<longrightarrow> validate_command v c now = Inr c))
          (\<lambda>e _. heartbeat_lost e) w)
     \<and> (\<forall>i k w. after (ae_acknowledge env i k) (\<lambda>_ _. True) (\<lambda>e _. heartbeat_lost e) w)
     \<and> (\<forall>x w. after (ae_sleep env x) (\<lambda>_ _. True) (\<lambda>_ _. False) w)
     \<and> (\<forall>w. after (ae_random env) (\<lambda>x _. 0 \<le> x \<and> x \<le> 1) (\<lambda>_ _. False) w)
     \<and> (\<forall>w. after (ae_now env) (\<lambda>_ _. True) (\<lambda>_ _. False) w)"

text \<open>\<open>mild m\<close>: whatever the state, \<open>m\<close> raises at most a transport error.\<close>

definition mild :: "('s, 'a) sx \<Rightarrow> bool" where
  "mild m \<longleftrightarrow> (\<forall>s. after m (\<lambda>_ _. True) (\<lambda>e _. heartbeat_lost e) s)"

lemma mild_bind_after:
  assumes "\<And>s. after m (\<lambda>x _. Q x) (\<lambda>e _. heartbeat_lost e) s" and "\<And>x. Q x \<Longrightarrow> mild (f x)"
  shows "mild (bindS m f)"
  unfolding mild_def after_bind
  by (intro allI, rule after_mono [OF assms(1)]) (use assms(2) in \<open>auto simp: mild_def\<close>)

lemma mild_bind: "mild m \<Longrightarrow> (\<And>x. mild (f x)) \<Longrightarrow> mild (bindS m f)"
  by (rule mild_bind_after [where Q = "\<lambda>_. True"]) (auto simp: mild_def)

lemma mild_basic: "mild (returnS x)" "mild (getS f)" "mild (liftR (Inr y))" "mild (on_db (modifyS g))"
  "heartbeat_lost e \<Longrightarrow> mild (raiseS e)"
  by (simp_all add: mild_def after_simps) (simp add: after_def on_db_def modifyS_def split: prod.split)

lemma mild_if: "(c \<Longrightarrow> mild m) \<Longrightarrow> (\<not> c \<Longrightarrow> mild n) \<Longrightarrow> mild (if c then m else n)"
  by simp

lemma after_ext: "after (on_ext m) (\<lambda>x _. Q x) (\<lambda>e _. E e) s \<longleftrightarrow> after m (\<lambda>x _. Q x) (\<lambda>e _. E e) (snd s)"
  by (cases s) (simp add: after_on)

lemma mild_ext: "(\<And>w. after m (\<lambda>_ _. True) (\<lambda>e _. heartbeat_lost e) w) \<Longrightarrow> mild (on_ext m)"
  by (simp add: mild_def after_ext)

lemma mild_forS: "(\<And>x. x \<in> set xs \<Longrightarrow> mild (f x)) \<Longrightarrow> mild (forS f xs)"
  by (induction xs) (simp_all add: mild_basic mild_bind)

lemma mild_retry:
  assumes "mild m" and "\<And>n. mild (wait n)"
  shows "mild (retry_loop (returnS ()) wait (\<lambda>e. e) heartbeat_lost left attempt m)"
proof (induction left arbitrary: attempt)
  case 0
  show ?case using assms(1) unfolding mild_def retry_loop.simps after_catch
    by (auto simp: after_simps intro: after_mono)
next
  case (Suc left)
  have "mild (bindS (returnS ()) (\<lambda>_. bindS (wait attempt)
      (\<lambda>_. retry_loop (returnS ()) wait (\<lambda>e. e) heartbeat_lost left (Suc attempt) m)))"
    by (intro mild_bind mild_basic assms(2) Suc.IH)
  then show ?case using assms(1) unfolding mild_def retry_loop.simps after_catch
    by (auto simp: after_if after_raise intro: after_mono)
qed

lemma patientD:
  assumes "patient_env env ag"
  shows "after (ae_stopped env) (\<lambda>_ _. True) (\<lambda>_ _. False) w"
    "after (ae_collect env) (\<lambda>x _. ps_station_id x = ai_station_id (ha_identity ag)) (\<lambda>_ _. False) w"
    "after (ae_acknowledge env i k) (\<lambda>_ _. True) (\<lambda>e _. heartbeat_lost e) w"
    "after (ae_sleep env x) (\<lambda>_ _. True) (\<lambda>_ _. False) w"
    "after (ae_random env) (\<lambda>x _. 0 \<le> x \<and> x \<le> 1) (\<lambda>_ _. False) w"
    "after (ae_now env) (\<lambda>_ _. True) (\<lambda>_ _. False) w"
  using assms by (simp_all add: patient_env_def)

lemma after_weaken: "after m (\<lambda>x _. Q x) (\<lambda>_ _. False) s \<Longrightarrow> after m (\<lambda>x _. Q x) (\<lambda>e _. E e) s"
  by (erule after_mono) auto

lemma patient_facts:
  assumes "patient_env env ag"
  shows "mild (on_ext (ae_acknowledge env i k))" "mild (on_ext (ae_sleep env x))" "mild (on_ext (ae_now env))"
  by (rule mild_ext, rule patientD [OF assms] after_weaken [OF patientD(4) [OF assms]]
      after_weaken [OF patientD(6) [OF assms]])+

lemma mild_pause:
  assumes "patient_env env ag" and "policy_ok (ha_backoff ag)"
  shows "mild (pause_before_retry env ag n)"
  unfolding pause_before_retry_def
proof (rule mild_bind_after [where Q = "\<lambda>x. 0 \<le> x \<and> x \<le> 1"])
  show "after (on_ext (ae_random env)) (\<lambda>x _. 0 \<le> x \<and> x \<le> 1) (\<lambda>e _. heartbeat_lost e) s" for s
    unfolding after_ext by (rule after_weaken [OF patientD(5) [OF assms(1)]])
  fix x :: rat assume "0 \<le> x \<and> x \<le> 1"
  then obtain delay where d: "backoff_delay (ha_backoff ag) (int n) x = Inr delay"
    using backoff_delay_total [of "int n" x] by auto
  show "mild (bindS (liftR (backoff_delay (ha_backoff ag) (int n) x)) (\<lambda>delay. on_ext (ae_sleep env delay)))"
    unfolding d by (intro mild_bind mild_basic patient_facts [OF assms(1)])
qed

lemma mild_run_once:
  assumes "patient_env env ag" and "policy_ok (ha_backoff ag)"
    and "\<And>handle v c now. receiver = Some handle \<Longrightarrow>
      (\<And>v. ha_verifier ag = Some v \<Longrightarrow> validate_command v c now = Inr c) \<Longrightarrow> mild (handle c now)"
  shows "mild (run_once env ag receiver process)"
  unfolding run_once_def
proof (rule mild_bind_after [where Q = "\<lambda>x. ps_station_id x = ai_station_id (ha_identity ag)"])
  show "after (on_ext (ae_collect env)) (\<lambda>x _. ps_station_id x = ai_station_id (ha_identity ag))
      (\<lambda>e _. heartbeat_lost e) s" for s
    unfolding after_ext by (rule after_weaken [OF patientD(2) [OF assms(1)]])
  fix snapshot :: process_snapshot
  assume "ps_station_id snapshot = ai_station_id (ha_identity ag)"
  then obtain payload where payload: "build_payload (ha_identity ag) snapshot = Inr payload"
    by (simp add: build_payload_def)
  let ?fine = "\<lambda>cs. \<forall>c \<in> set cs. \<forall>v. ha_verifier ag = Some v \<longrightarrow>
    (\<forall>u now u'. ae_now env u = (Inr now, u') \<longrightarrow> validate_command v c now = Inr c)"
  have handle: "mild (forS (\<lambda>c. bindS (on_ext (ae_now env)) (\<lambda>now. bindS (handle c now) (\<lambda>_.
      on_ext (ae_acknowledge env (sc_id c) (ha_credential ag))))) cs)"
    if "?fine cs" "receiver = Some handle" for cs handle
  proof (rule mild_forS)
    fix c assume c: "c \<in> set cs"
    show "mild (bindS (on_ext (ae_now env)) (\<lambda>now. bindS (handle c now) (\<lambda>_.
      on_ext (ae_acknowledge env (sc_id c) (ha_credential ag)))))"
    proof (rule mild_bind_after [where Q = "\<lambda>now. \<exists>u u'. ae_now env u = (Inr now, u')"])
      show "after (on_ext (ae_now env)) (\<lambda>now _. \<exists>u u'. ae_now env u = (Inr now, u')) (\<lambda>e _. heartbeat_lost e) s" for s
        unfolding after_ext using patientD(6) [OF assms(1), of "snd s"]
        by (cases "ae_now env (snd s)"; cases "fst (ae_now env (snd s))") (auto simp: after_def)
      fix now assume "\<exists>u u'. ae_now env u = (Inr now, u')"
      then show "mild (bindS (handle c now) (\<lambda>_. on_ext (ae_acknowledge env (sc_id c) (ha_credential ag))))"
        using that c by (intro mild_bind patient_facts [OF assms(1)] assms(3)) blast+
    qed
  qed
  have "mild (send_once env ag receiver snapshot process)"
    unfolding send_once_def payload
  proof (rule mild_bind [OF mild_basic(3)])
    show "mild (bindS (on_ext (ae_send env payload' (ha_credential ag))) (\<lambda>commands.
       if \<not> process \<or> commands = [] then returnS ()
       else case receiver of None \<Rightarrow> raiseS (HeartbeatTransportError ''agent command receiver is not configured'')
         | Some handle \<Rightarrow> forS (\<lambda>c. bindS (on_ext (ae_now env)) (\<lambda>now. bindS (handle c now) (\<lambda>_.
             on_ext (ae_acknowledge env (sc_id c) (ha_credential ag))))) commands))" for payload'
    proof (rule mild_bind_after [where Q = ?fine])
      show "after (on_ext (ae_send env payload' (ha_credential ag))) (\<lambda>cs _. ?fine cs) (\<lambda>e _. heartbeat_lost e) s" for s
        unfolding after_ext using assms(1) by (simp only: patient_env_def)
      fix cs assume fine: "?fine cs"
      show "mild (if \<not> process \<or> cs = [] then returnS ()
         else case receiver of None \<Rightarrow> raiseS (HeartbeatTransportError ''agent command receiver is not configured'')
         | Some handle \<Rightarrow> forS (\<lambda>c. bindS (on_ext (ae_now env)) (\<lambda>now. bindS (handle c now) (\<lambda>_.
             on_ext (ae_acknowledge env (sc_id c) (ha_credential ag))))) cs)"
      proof (cases receiver)
        case None
        have "heartbeat_lost (HeartbeatTransportError ''agent command receiver is not configured'')"
          by (simp add: heartbeat_lost_def)
        then show ?thesis unfolding None option.case by (intro mild_if mild_basic)
      next
        case (Some handle)
        show ?thesis unfolding Some option.case by (intro mild_if mild_basic handle [OF fine Some])
      qed
    qed
  qed
  then show "mild (send_with_retry env ag receiver snapshot process)"
    unfolding send_with_retry_def by (intro mild_retry mild_pause [OF assms(1,2)])
qed

lemma mild_cycle:
  assumes "patient_env env ag" and "policy_ok (ha_backoff ag)"
  shows "mild (agent_cycle env ag)"
  unfolding agent_cycle_def
proof (rule mild_run_once [OF assms])
  fix handle c now
  assume "map_option (handle_command env ag) (ha_verifier ag) = Some handle"
    and fine: "\<And>v. ha_verifier ag = Some v \<Longrightarrow> validate_command v c now = Inr c"
  then obtain v where v: "ha_verifier ag = Some v" "handle = handle_command env ag v" by auto
  have "mild (refresh_snapshot env ag)"
    unfolding refresh_snapshot_def by (rule mild_run_once [OF assms]) simp
  then show "mild (handle c now)"
    unfolding v(2) handle_command_def fine [OF v(1)]
    by (intro mild_bind mild_basic mild_if)
qed

text \<open>C38. Outages never end the agent: in a world where only the transport fails, however often and
  wherever in a cycle, and the commands it brings are valid, the loop runs as many rounds as wanted
  without raising and ends only when it is told to stop.\<close>

theorem loop_survives_outages:
  assumes "patient_env env ag" and "policy_ok (ha_backoff ag)"
  shows "\<exists>stopped s'. run_forever n env ag s = (Inr stopped, s')"
proof -
  have "after (run_forever n env ag) (\<lambda>_ _. True) (\<lambda>_ _. False) s"
  proof (induction n arbitrary: s)
    case (Suc n)
    have stop: "after (on_ext (ae_stopped env)) (\<lambda>_ _. True) (\<lambda>_ _. False) t" for t :: "'a agent_state"
      unfolding after_ext by (rule patientD(1) [OF assms(1)])
    have sleep: "after (on_ext (ae_sleep env x)) (\<lambda>_ _. True) (\<lambda>_ _. False) t" for x and t :: "'a agent_state"
      unfolding after_ext by (rule patientD(4) [OF assms(1)])
    have cycle: "after (suppressed_cycle env ag) (\<lambda>_ _. True) (\<lambda>_ _. False) t" for t
      unfolding suppressed_cycle_def after_catch
      by (rule after_mono [OF spec [OF mild_cycle [OF assms, unfolded mild_def]]])
        (auto simp: after_if after_return after_raise)
    show ?case
      unfolding run_forever.simps after_bind
      by (rule after_mono [OF stop]) (auto simp: after_if after_return after_bind
          intro!: after_mono [OF cycle] after_mono [OF sleep] Suc.IH)
  qed (simp add: after_return)
  then show ?thesis by (auto simp: after_def split: prod.splits sum.splits)
qed

section \<open>What a heartbeat reports\<close>

text \<open>The agent that the runtime builds reports empty address lists with every heartbeat, and the
  controller takes an empty list for the current addresses: after the first heartbeat the addresses
  that the enrollment recorded are gone.\<close>

lemma heartbeat_erases_addresses:
  assumes "integrity d" and "build_agent_service verify public_bytes config credential = Inr ag"
    and "build_payload (ha_identity ag) snapshot = Inr payload"
    and "heartbeat_send H parse_time now payload (ha_credential ag) d = (Inr cs, d')"
  shows "\<exists>a. a \<in> set (agents d') \<and> ar_credential_hash a = Some (H credential)
    \<and> ar_last_ip_addresses a = [] \<and> ar_last_mac_addresses a = []"
proof -
  have cred: "ha_credential ag = credential" and "hp_ip_addresses payload = []" "hp_mac_addresses payload = []"
    using assms(2,3) by (auto simp: build_agent_service_def mk_heartbeat_agent_def bindR_Inr_iff build_payload_def
        split: if_splits)
  obtain sid t r where recv: "receive_heartbeat H now credential
       \<lparr>ps_station_id = sid, ps_captured_at = t, ps_agent_version = hp_agent_version payload,
          ps_processes = hp_processes payload, ps_drives = hp_drives payload, ps_received_at = None\<rparr>
       (Some (hp_hostname payload)) (Some []) (Some []) d = (Inr r, d')"
    using heartbeat_send_Inr [OF assms(4)] cred \<open>hp_ip_addresses payload = []\<close> \<open>hp_mac_addresses payload = []\<close>
    by metis
  obtain a s hn ns ms snap where norm: "normalize_ip_addresses (Some []) = Inr ns"
      "normalize_mac_addresses (Some []) = Inr ms"
    and found: "filter (\<lambda>(a, s). ar_credential_hash a = Some (H credential)) (agent_join d) = [(a, s)]"
    and mem: "a \<in> set (agents d)"
    and claim: "commands_claim_for_agent (ar_id a) (ensure_utc now) AGENT_COMMAND_LEASE
       AGENT_COMMAND_BATCH_SIZE (heartbeat_db a s snap (ensure_utc now) hn ns ms d) = (Inr (hb_commands r), d')"
    by (rule heartbeat_Inr [OF assms(1) recv])
  have hash: "ar_credential_hash a = Some (H credential)"
    using arg_cong [OF found, of set] by auto
  have "normalize_ip_addresses (Some []) = Inr (Some [])" "normalize_mac_addresses (Some []) = Inr (Some [])"
    by (simp_all add: normalize_ip_addresses_def normalize_mac_addresses_def normalize_list_def)
  then have empty: "ns = Some []" "ms = Some []" using norm by simp_all
  have "agents d' = update_where (\<lambda>x. ar_id x = ar_id a) (seen_row snap (ensure_utc now) ns ms) (agents d)"
    using claim by (auto simp: commands_claim_for_agent_def Let_def split: if_splits)
  then have "seen_row snap (ensure_utc now) ns ms a \<in> set (agents d')"
    using mem by (auto simp: set_update_where)
  then show ?thesis
    using hash empty by (intro exI [of _ "seen_row snap (ensure_utc now) ns ms a"]) (simp add: seen_row_def)
qed

section \<open>An agent and its controller\<close>

lemma heartbeat_send_ok:
  assumes "uuid_parse (hp_station_id p) = Inr sid" "parse_time (hp_captured_at p) = Some t" "heartbeat_request_ok p"
    and "receive_heartbeat H now credential
       \<lparr>ps_station_id = sid, ps_captured_at = t, ps_agent_version = hp_agent_version p,
          ps_processes = hp_processes p, ps_drives = hp_drives p, ps_received_at = None\<rparr>
       (Some (hp_hostname p)) (Some (hp_ip_addresses p)) (Some (hp_mac_addresses p)) d = (Inr r, d')"
    and "list_all command_response_ok (hb_commands r)" "length (hb_commands r) \<le> 16" "credential \<noteq> []"
  shows "heartbeat_send H parse_time now p credential d = (Inr (map wire_command (hb_commands r)), d')"
  using assms by (simp add: heartbeat_send_def heartbeat_route_def sx_simps tryS_apply)

text \<open>The station of the samples with recorded addresses, a command issued for it, and its agent.\<close>

definition toy_sign :: "string \<Rightarrow> string" where
  "toy_sign m = take 64 (rev m @ replicate 64 CHR ''.'')"

definition addressed_db :: db where
  "addressed_db = sample_db\<lparr>agents := [sample_agent\<lparr>ar_last_ip_addresses := [''10.0.0.7'']\<rparr>]\<rparr>"

definition sample_issue :: "agent_command result \<times> db" where
  "sample_issue = issue_agent_command (\<lambda>i n t. Inr (sign_command toy_sign i n t)) 7 (Aware 0 0) (Aware 0 0) 6
     ''refresh_process_snapshot'' 300000000 addressed_db"

definition issued_row :: command_row where
  "issued_row = sample_command\<lparr>cm_signature :=
     sign_command toy_sign 7 ''refresh_process_snapshot'' (Aware 300000000 0)\<rparr>"

definition sample_config :: agent_config where
  "sample_config = \<lparr>gc_station_id = 2, gc_agent_version = ''1.1'', gc_hostname = '' pc-1 '',
     gc_command_verify_key = None, gc_heartbeat_interval = 10, gc_drive_letter = ''D:''\<rparr>"

lemma length_toy_sign: "length (toy_sign m) = 64"
  by (simp add: toy_sign_def)

lemma integrity_addressed: "integrity addressed_db" "integrity (addressed_db\<lparr>agent_commands := [issued_row]\<rparr>)"
  by (simp_all add: integrity_def constraint_defs sample_defs addressed_db_def issued_row_def)

lemma sample_issue_eq: "snd sample_issue = addressed_db\<lparr>agent_commands := [issued_row]\<rparr>"
proof -
  let ?b = "binding_of (sample_agent\<lparr>ar_last_ip_addresses := [''10.0.0.7'']\<rparr>, sample_station)"
  have get: "agents_get_by_agent_uuid 6 addressed_db = (Inr (Some ?b), addressed_db)"
    by (simp add: agents_get_by_agent_uuid_def agents_get_where_def agent_join_def addressed_db_def sample_defs)
  have live: "can_accept_heartbeat ?b" "ar_id sample_agent = 5"
    by (simp_all add: can_accept_binding sample_defs)
  have add: "commands_add (Aware 0 0) \<lparr>ac_id = 7, ac_agent_id = 5, ac_name = REFRESH_PROCESS_SNAPSHOT,
      ac_expires_at = Aware 300000000 0,
      ac_signature = sign_command toy_sign 7 ''refresh_process_snapshot'' (Aware 300000000 0),
      ac_status = CMD_PENDING, ac_lease_until = None, ac_attempts = 0\<rparr> addressed_db
    = (Inr (), addressed_db\<lparr>agent_commands := [issued_row]\<rparr>)"
    by (simp add: commands_add_def issued_row_def addressed_db_def sample_defs command_name_value_def
        command_status_value_def)
  show ?thesis
    by (simp add: sample_issue_def issue_agent_command_def Let_def sx_simps command_name_value_def MAX_COMMAND_TTL_def
        minutes_def seconds_def get live add integrity_addressed(2))
qed

definition sample_built :: "heartbeat_agent result" where
  "sample_built = build_agent_service (\<lambda>k m s. False) (\<lambda>raw. Some ()) sample_config ''secret''"

definition sample_payload :: heartbeat_payload where
  "sample_payload =
     \<lparr>hp_protocol_version = ''1'', hp_station_id = uuid_str 2, hp_hostname = '' pc-1 '', hp_ip_addresses = [],
        hp_mac_addresses = [], hp_agent_version = ''1.1'', hp_captured_at = iso_auto (Naive 1000000),
        hp_processes = [], hp_drives = ps_drives sample_snapshot\<rparr>"

lemma sample_agent_built:
  obtains ag where "sample_built = Inr ag" and "ha_credential ag = ''secret''"
    and "build_payload (ha_identity ag) sample_snapshot = Inr sample_payload"
proof -
  have letter: "normalize_drive_letter ''D:'' = Inr ''D:''" by code_simp
  have "sample_built = Inr \<lparr>ha_identity = \<lparr>ai_station_id = 2, ai_hostname = '' pc-1 '', ai_agent_version = ''1.1'',
        ai_ip_addresses = [], ai_mac_addresses = []\<rparr>,
      ha_credential = ''secret'', ha_interval = 10, ha_backoff = default_backoff, ha_verifier = None,
      ha_process_commands = False\<rparr>"
    by (simp add: sample_built_def build_agent_service_def sample_config_def letter mk_heartbeat_agent_def)
  then show ?thesis
    by (rule that) (simp_all add: build_payload_def sample_payload_def AGENT_PROTOCOL_VERSION_def sample_defs)
qed

text \<open>The heartbeat of the sample agent brings the command issued for it.\<close>

lemma sample_delivery:
  obtains c d' where "heartbeat_send (\<lambda>x. x) (\<lambda>t. Some (Aware 1000000 0)) (Aware 2000000 0) sample_payload ''secret''
     (snd sample_issue) = (Inr [c], d')" and "sc_id c = 7" and "instant (sc_expires_at c) = 300000000"
proof -
  let ?d = "addressed_db\<lparr>agent_commands := [issued_row]\<rparr>"
  let ?snap = "\<lparr>ps_station_id = 2, ps_captured_at = Aware 1000000 0, ps_agent_version = ''1.1'',
     ps_processes = [], ps_drives = ps_drives sample_snapshot, ps_received_at = None\<rparr> :: process_snapshot"
  have found: "filter (\<lambda>(a, s). ar_credential_hash a = Some ''secret'') (agent_join ?d) =
      [(sample_agent\<lparr>ar_last_ip_addresses := [''10.0.0.7'']\<rparr>, sample_station)]"
    by (simp add: agent_join_def addressed_db_def sample_defs)
  have readable: "commands_readable ?d"
    by (simp add: commands_readable_def issued_row_def sample_defs command_to_domain_def leased_command_def
        command_name_of_def command_status_of_def)
  obtain cs d' where claim: "commands_claim_for_agent 5 (Aware 2000000 0) AGENT_COMMAND_LEASE
       AGENT_COMMAND_BATCH_SIZE (heartbeat_db (sample_agent\<lparr>ar_last_ip_addresses := [''10.0.0.7'']\<rparr>) sample_station
         ?snap (Aware 2000000 0) (Some ''pc-1'') (Some []) (Some []) ?d) = (Inr cs, d')"
    and recv: "receive_heartbeat (\<lambda>x. x) (Aware 2000000 0) ''secret'' ?snap (Some '' pc-1 '') (Some []) (Some []) ?d =
      (Inr \<lparr>hb_station_id = 2, hb_received_at = Aware 2000000 0, hb_commands = cs\<rparr>, d')"
  proof (rule heartbeat_ok [where H = "\<lambda>x. x" and credential = "''secret''" and snapshot = ?snap
        and now = "Aware 2000000 0", OF integrity_addressed(2) readable sample_addresses(1) _ _ _ found])
    show "normalize_ip_addresses (Some []) = Inr (Some [])" "normalize_mac_addresses (Some []) = Inr (Some [])"
      by (simp_all add: normalize_ip_addresses_def normalize_mac_addresses_def normalize_list_def)
  qed (use that in \<open>simp_all add: HEARTBEAT_CLOCK_SKEW_def minutes_def seconds_def sample_defs\<close>)
  obtain c where c: "cs = [c]" "ac_id c = 7" "ac_signature c = cm_signature issued_row"
    "instant (ac_expires_at c) = 300000000" "command_name_value (ac_name c) = ''refresh_process_snapshot''"
    using claim
    by (auto simp: commands_claim_for_agent_def Let_def claimable_commands_def order_by_def AGENT_COMMAND_LEASE_def
        AGENT_COMMAND_BATCH_SIZE_def command_due_def issued_row_def sample_defs seconds_def leased_command_def
        command_to_domain_def command_name_of_def command_status_of_def command_name_value_def bindR_Inr_iff)
  have sig: "1 \<le> length (cm_signature issued_row)" "length (cm_signature issued_row) \<le> 128"
    by (simp_all add: issued_row_def sign_command_def signature_length [OF length_toy_sign, simplified])
  have "heartbeat_request_ok sample_payload"
    by (simp add: heartbeat_request_ok_def sample_payload_def sample_defs drive_payload_ok_def)
  then have "heartbeat_send (\<lambda>x. x) (\<lambda>t. Some (Aware 1000000 0)) (Aware 2000000 0) sample_payload ''secret'' ?d
      = (Inr [wire_command c], d')"
    using heartbeat_send_ok [where p = sample_payload and sid = 2 and t = "Aware 1000000 0"
        and H = "\<lambda>x. x" and now = "Aware 2000000 0" and credential = "''secret''" and d = ?d
        and parse_time = "\<lambda>t. Some (Aware 1000000 0)"
        and r = "\<lparr>hb_station_id = 2, hb_received_at = Aware 2000000 0, hb_commands = cs\<rparr>"] recv sig c
    by (simp add: sample_payload_def command_response_ok_def)
  with that [of "wire_command c" d'] c show ?thesis by (simp add: sample_issue_eq wire_command_def)
qed

theorem delivered_commands_accepted_witness:
  "\<exists>c d'. heartbeat_send (\<lambda>x. x) (\<lambda>t. Some (Aware 1000000 0)) (Aware 2000000 0) sample_payload ''secret''
       (snd sample_issue) = (Inr [c], d')
     \<and> validate_command (verify_command (\<lambda>signature m. signature = toy_sign m)) c (Aware 2000000 0) = Inr c
     \<and> validate_command (verify_command (\<lambda>signature m. signature = toy_sign m)) c (Aware 300000000 0)
         = Inl (InvalidAgentCommand ''agent command is expired'')"
proof -
  obtain c d' where c: "heartbeat_send (\<lambda>x. x) (\<lambda>t. Some (Aware 1000000 0)) (Aware 2000000 0) sample_payload ''secret''
      (snd sample_issue) = (Inr [c], d')" "instant (sc_expires_at c) = 300000000"
    by (rule sample_delivery)
  have "command_reach toy_sign addressed_db"
    by (rule command_reach.start) (simp add: addressed_db_def sample_defs)
  moreover have "issue_agent_command (\<lambda>i n t. Inr (sign_command toy_sign i n t)) 7 (Aware 0 0) (Aware 0 0) 6
     ''refresh_process_snapshot'' 300000000 addressed_db = (fst sample_issue, snd sample_issue)"
    by (simp add: sample_issue_def)
  ultimately have "command_reach toy_sign (snd sample_issue)"
    by (rule command_reach.issue)
  from delivered_commands_accepted [where verify = "\<lambda>signature m. signature = toy_sign m", OF refl length_toy_sign
      this c(1), of c] c
  show ?thesis by (auto simp del: instant.simps) (simp_all del: split_paired_Ex)
qed

text \<open>The built agent, with a key, in worlds that bring it the command again and again.\<close>

definition sample_signed :: server_command where
  "sample_signed = \<lparr>sc_id = 7, sc_name = ''refresh_process_snapshot'', sc_expires_at = Aware 300000000 0,
     sc_signature = sign_command toy_sign 7 ''refresh_process_snapshot'' (Aware 300000000 0)\<rparr>"

definition toy_verify :: "string \<Rightarrow> string \<Rightarrow> bool" where
  "toy_verify signature m = (signature = toy_sign m
     \<and> m = canonical_command_payload 7 ''refresh_process_snapshot'' (Aware 300000000 0))"

definition sample_loop_agent :: heartbeat_agent where
  "sample_loop_agent =
     \<lparr>ha_identity = \<lparr>ai_station_id = 2, ai_hostname = ''pc-1'', ai_agent_version = ''1.1'',
        ai_ip_addresses = [], ai_mac_addresses = []\<rparr>,
      ha_credential = ''secret'', ha_interval = 10, ha_backoff = default_backoff,
      ha_verifier = Some (verify_command toy_verify), ha_process_commands = True\<rparr>"

definition sample_world :: "(unit, server_command list) sx \<Rightarrow> datetime \<Rightarrow> unit agent_env" where
  "sample_world answer now =
     \<lparr>ae_collect = returnS sample_snapshot, ae_send = (\<lambda>p k. answer), ae_acknowledge = (\<lambda>i k. returnS ()),
      ae_sleep = (\<lambda>x. returnS ()), ae_random = returnS (1 / 2), ae_now = returnS now, ae_stopped = returnS False\<rparr>"

lemma sample_signed_valid: "verify_command toy_verify sample_signed"
proof -
  let ?s = "toy_sign (canonical_command_payload 7 ''refresh_process_snapshot'' (Aware 300000000 0))"
  have "?s \<noteq> []" using length_toy_sign [of "canonical_command_payload 7 ''refresh_process_snapshot'' (Aware 300000000 0)"] by auto
  moreover have "length (b64_body ?s) \<le> 128"
    using signature_length(2) [OF length_toy_sign] by (simp add: encode_signature_body)
  ultimately have "decode_signature (sc_signature sample_signed) = Inr ?s"
    by (simp add: sample_signed_def sign_command_def decode_encode_signature)
  then show ?thesis by (simp add: verify_command_def toy_verify_def) (simp add: sample_signed_def)
qed

lemma sample_loop_payload:
  obtains payload where "build_payload (ha_identity sample_loop_agent) sample_snapshot = Inr payload"
  by (simp add: build_payload_def sample_loop_agent_def sample_defs)

lemma sample_signed_sels [simp]:
  "sc_id sample_signed = 7" "sc_name sample_signed = ''refresh_process_snapshot''"
  "sc_expires_at sample_signed = Aware 300000000 0"
  by (simp_all add: sample_signed_def)

lemma sample_signature: "sc_signature sample_signed \<noteq> []"
  using sample_signed_valid by (auto simp: verify_command_def decode_signature_def)

lemma sample_valid:
  "instant now < 300000000 \<Longrightarrow> validate_command (verify_command toy_verify) sample_signed now = Inr sample_signed"
  using sample_signed_valid sample_signature by (simp add: validate_command_def ALLOWED_COMMAND_def)

lemma retry_once: "m s = (Inr x, t) \<Longrightarrow> retry_loop recover wait give_up caught left attempt m s = (Inr x, t)"
  by (cases left) (simp_all add: sx_simps)

lemma sample_run:
  assumes "instant now < 300000000"
  shows "run_forever 1 (sample_world (returnS [sample_signed]) now) sample_loop_agent ({}, ()) = (Inr False, ({7}, ()))"
proof -
  let ?env = "sample_world (returnS [sample_signed]) now" and ?v = "verify_command toy_verify"
  obtain payload where p: "build_payload (ha_identity sample_loop_agent) sample_snapshot = Inr payload"
    by (rule sample_loop_payload)
  have env: "ae_collect ?env w = (Inr sample_snapshot, w)" "ae_send ?env y k w = (Inr [sample_signed], w)"
    "ae_now ?env w = (Inr now, w)" "ae_acknowledge ?env i k w = (Inr (), w)" "ae_sleep ?env x w = (Inr (), w)"
    "ae_stopped ?env w = (Inr False, w)" for w y k i x
    by (simp_all add: sample_world_def sx_simps)
  have quiet: "send_once ?env sample_loop_agent None sample_snapshot False (h, ()) = (Inr (), (h, ()))" for h
    by (simp add: send_once_def sx_simps p env)
  have refresh: "refresh_snapshot ?env sample_loop_agent (h, ()) = (Inr (), (h, ()))" for h
    using retry_once [where m = "send_once ?env sample_loop_agent None sample_snapshot False", OF quiet] by (simp add: refresh_snapshot_def run_once_def send_with_retry_def sx_simps env)
  have handled: "handle_command ?env sample_loop_agent ?v sample_signed now ({}, ()) = (Inr (), ({7}, ()))"
    by (simp add: handle_command_def sx_simps refresh sample_valid [OF assms])
  have loud: "send_once ?env sample_loop_agent (Some (handle_command ?env sample_loop_agent ?v)) sample_snapshot True
      ({}, ()) = (Inr (), ({7}, ()))"
    by (simp add: send_once_def sx_simps p env handled)
  have "agent_cycle ?env sample_loop_agent ({}, ()) = (Inr (), ({7}, ()))"
    using retry_once [where m = "send_once ?env sample_loop_agent (Some (handle_command ?env sample_loop_agent ?v))
        sample_snapshot True", OF loud]
    by (simp add: agent_cycle_def run_once_def send_with_retry_def sx_simps env) (simp add: sample_loop_agent_def)
  then show ?thesis by (simp add: suppressed_cycle_def sx_simps env)
qed

text \<open>The signed command is handled by a round of the loop; the same signature on a command with
  another id is turned away.\<close>

theorem agent_obeys_controller_witness:
  "(\<exists>r handled w'. run_forever 1 (sample_world (returnS [sample_signed]) (Aware 0 0)) sample_loop_agent ({}, ())
       = (r, (handled, w')) \<and> 7 \<in> handled)
   \<and> (\<exists>t. (7 :: uuid, ''refresh_process_snapshot'', t) \<in> set [(7, ''refresh_process_snapshot'', Aware 300000000 0)])
   \<and> (\<exists>e. handle_command (sample_world (returnS []) (Aware 0 0)) sample_loop_agent (verify_command toy_verify)
        (sample_signed\<lparr>sc_id := 8\<rparr>) (Aware 0 0) ({}, ()) = (Inl e, ({}, ())))"
proof -
  let ?issued = "[(7 :: uuid, ''refresh_process_snapshot'', Aware 300000000 0)]"
  have run: "run_forever 1 (sample_world (returnS [sample_signed]) (Aware 0 0)) sample_loop_agent ({}, ()) = (Inr False, ({7}, ()))"
    by (rule sample_run) simp
  let ?c = "sample_signed\<lparr>sc_id := 8\<rparr>" and ?env = "sample_world (returnS [sample_signed]) (Aware 0 0)"
  have obeys: "(sc_name ?c = ''refresh_process_snapshot'' \<and> instant (Aware 0 0) < instant (sc_expires_at ?c)
      \<and> (\<exists>t. (sc_id ?c, ''refresh_process_snapshot'', t) \<in> set ?issued)
      \<or> (\<exists>e. handle_command env sample_loop_agent (verify_command toy_verify) ?c (Aware 0 0) ({}, ()) =
          (Inl e, ({}, ()))))
    \<and> (sc_id ?c \<in> fst ({}, ()) \<longrightarrow>
        snd (handle_command env sample_loop_agent (verify_command toy_verify) ?c (Aware 0 0) ({}, ())) = ({}, ()))
    \<and> (run_forever 1 env sample_loop_agent ({}, ()) = (Inr False, ({7}, ())) \<and> 7 \<in> {7 :: uuid} \<longrightarrow>
        (\<exists>t. (7, ''refresh_process_snapshot'', t) \<in> set ?issued))" for env :: "unit agent_env"
    by (rule agent_obeys_controller [where verify = toy_verify and issued = ?issued])
      (auto simp: toy_verify_def sample_loop_agent_def)
  have "\<exists>t. (7, ''refresh_process_snapshot'', t) \<in> set ?issued"
    using obeys [of ?env] run by blast
  moreover have "\<exists>e. handle_command (sample_world (returnS []) (Aware 0 0)) sample_loop_agent
      (verify_command toy_verify) ?c (Aware 0 0) ({}, ()) = (Inl e, ({}, ()))"
    using obeys [of "sample_world (returnS []) (Aware 0 0)", THEN conjunct1] by simp
  ultimately show ?thesis using run by blast
qed

theorem late_command_stops_agent_witness:
  "run_forever 5 (sample_world (returnS [sample_signed]) (Aware 300000000 0)) sample_loop_agent ({}, ()) =
     (Inl (InvalidAgentCommand ''agent command is expired''), ({}, ()))"
proof -
  obtain payload where p: "build_payload (ha_identity sample_loop_agent) sample_snapshot = Inr payload"
    by (rule sample_loop_payload)
  show ?thesis
    using late_command_stops_agent [where env = "sample_world (returnS [sample_signed]) (Aware 300000000 0)"
        and ag = sample_loop_agent and w = "()" and payload = payload and n = 4 and handled = "{}"
        and c = sample_signed and cs = "[]" and snapshot = sample_snapshot and now = "Aware 300000000 0"
        and v = "verify_command toy_verify"] p sample_signature
    by (simp add: sample_world_def sx_simps ALLOWED_COMMAND_def) (simp add: sample_loop_agent_def)
qed

theorem loop_survives_outages_witness:
  "\<exists>stopped s'. run_forever 5 (sample_world (raiseS (HeartbeatTransportError ''heartbeat request failed'')) (Aware 0 0))
     sample_loop_agent ({}, ()) = (Inr stopped, s')"
proof (rule loop_survives_outages)
  show "patient_env (sample_world (raiseS (HeartbeatTransportError ''heartbeat request failed'')) (Aware 0 0)) sample_loop_agent"
    by (simp add: patient_env_def sample_world_def after_return after_raise heartbeat_lost_def sample_loop_agent_def
        sample_defs)
  show "policy_ok (ha_backoff sample_loop_agent)"
    by (simp add: sample_loop_agent_def policy_ok_iff default_backoff_def)
qed

lemma heartbeat_erases_addresses_witness:
  "\<exists>ag payload cs d' a. sample_built = Inr ag \<and> build_payload (ha_identity ag) sample_snapshot = Inr payload
     \<and> heartbeat_send (\<lambda>x. x) (\<lambda>t. Some (Aware 1000000 0)) (Aware 2000000 0) payload (ha_credential ag)
         (snd sample_issue) = (Inr cs, d')
     \<and> map ar_last_ip_addresses (agents (snd sample_issue)) = [[''10.0.0.7'']]
     \<and> a \<in> set (agents d') \<and> ar_credential_hash a = Some ''secret'' \<and> ar_last_ip_addresses a = []"
proof -
  obtain ag where ag: "sample_built = Inr ag" "ha_credential ag = ''secret''"
    "build_payload (ha_identity ag) sample_snapshot = Inr sample_payload" by (rule sample_agent_built)
  obtain c d' where send: "heartbeat_send (\<lambda>x. x) (\<lambda>t. Some (Aware 1000000 0)) (Aware 2000000 0) sample_payload
      (ha_credential ag) (snd sample_issue) = (Inr [c], d')"
    using sample_delivery ag(2) by metis
  have "integrity (snd sample_issue)" by (simp add: sample_issue_eq integrity_addressed(2))
  from heartbeat_erases_addresses [OF this ag(1) [unfolded sample_built_def] ag(3) send]
  obtain a where "a \<in> set (agents d')" "ar_credential_hash a = Some ''secret''" "ar_last_ip_addresses a = []" by blast
  moreover have "map ar_last_ip_addresses (agents (snd sample_issue)) = [[''10.0.0.7'']]"
    by (simp add: sample_issue_eq addressed_db_def)
  ultimately show ?thesis using ag send
    by (intro exI [of _ ag] exI [of _ sample_payload] exI [of _ "[c]"] exI [of _ d'] exI [of _ a]) simp
qed

end
