(* ===== verification/Station_Frames.thy ===== *)
theory Station_Frames
  imports Db_Frames Registry_Cases Publish_Executor
begin

text \<open>
  The registry as a state machine: the use cases that write stations, the states reachable with
  them, and the preservation of the entity invariant by each.  A repository call may leave the
  session in a bad state and raise (\<open>update_details\<close> writes the row before it builds the
  entity); then nothing was committed, which is what \<open>safe\<close> and \<open>safe_uow\<close> say.
\<close>

section \<open>Conditions kept by what returns\<close>

definition safe :: "(db \<Rightarrow> bool) \<Rightarrow> (db, 'a) sx \<Rightarrow> bool" where
  "safe P m \<longleftrightarrow> (\<forall>d. P d \<longrightarrow> after m (\<lambda>_. P) (\<lambda>_ _. True) d)"

definition safe_uow :: "(db \<Rightarrow> bool) \<Rightarrow> (uow, 'a) sx \<Rightarrow> bool" where
  "safe_uow P m \<longleftrightarrow> (\<forall>u. both P u \<longrightarrow> after m (\<lambda>_. both P) (\<lambda>_ u. P (committed u)) u)"

lemma safe_keeps: "keeps P m \<Longrightarrow> safe P m"
  by (simp add: safe_def keeps_def after_def split: prod.split sum.split)
    (metis snd_conv)

lemma safe_sess: "safe P m \<Longrightarrow> safe_uow P (sess m)"
  by (auto simp: safe_uow_def safe_def both_def after_def sess_def split: prod.splits sum.splits)

lemma safe_commit: "safe_uow P commit"
  by (simp add: safe_uow_def both_def after_def commit_def)

lemma safe_return: "safe_uow P (returnS x)"
  by (simp add: safe_uow_def after_simps)

lemma safe_raise: "safe_uow P (raiseS e)"
  by (simp add: safe_uow_def after_simps both_def)

lemma safe_bind:
  assumes "safe_uow P m" and "\<And>x. safe_uow P (f x)"
  shows "safe_uow P (bindS m f)"
  unfolding safe_uow_def after_bind
proof (intro allI impI)
  fix u assume "both P u"
  with assms(1) have "after m (\<lambda>_. both P) (\<lambda>_ u. P (committed u)) u"
    by (simp add: safe_uow_def)
  then show "after m (\<lambda>x. after (f x) (\<lambda>_. both P) (\<lambda>_ u. P (committed u))) (\<lambda>_ u. P (committed u)) u"
    by (rule after_mono) (use assms(2) in \<open>simp_all add: safe_uow_def\<close>)
qed

lemma safe_lift_then: "(\<And>x. r = Inr x \<Longrightarrow> safe_uow P (f x)) \<Longrightarrow> safe_uow P (bindS (liftR r) f)"
  by (cases r) (simp_all add: safe_uow_def after_simps both_def)

lemma safe_if: "(c \<Longrightarrow> safe_uow P m) \<Longrightarrow> (\<not> c \<Longrightarrow> safe_uow P n) \<Longrightarrow> safe_uow P (if c then m else n)"
  by simp

lemma safe_let: "(\<And>x. x = v \<Longrightarrow> safe_uow P (f x)) \<Longrightarrow> safe_uow P (let x = v in f x)"
  by simp

lemma safe_option:
  "safe_uow P m \<Longrightarrow> (\<And>x. safe_uow P (f x)) \<Longrightarrow> safe_uow P (case v of None \<Rightarrow> m | Some x \<Rightarrow> f x)"
  by (simp split: option.split)

lemma safe_prod: "(\<And>x y. safe_uow P (f x y)) \<Longrightarrow> safe_uow P (case v of (x, y) \<Rightarrow> f x y)"
  by (simp split: prod.split)

lemma safe_forS: "(\<And>x. safe_uow P (f x)) \<Longrightarrow> safe_uow P (forS f xs)"
  by (induction xs) (auto intro: safe_return safe_bind)

lemma safe_with_uow:
  assumes "safe_uow P body"
  shows "keeps P (with_uow body)"
  unfolding keeps_def
proof (intro allI impI)
  fix d assume "P d"
  then have "after body (\<lambda>_. both P) (\<lambda>_ u. P (committed u)) \<lparr>committed = d, session = d\<rparr>"
    using assms by (simp add: safe_uow_def both_def)
  then show "P (snd (with_uow body d))"
    by (auto simp: with_uow_def after_def both_def split: prod.splits sum.splits)
qed

lemmas safe_body = safe_let safe_if safe_lift_then safe_bind safe_option safe_prod safe_forS safe_sess safe_commit
  safe_return safe_raise

section \<open>Repository calls that keep the stations readable\<close>

text \<open>The invariant of a stored station with its host name left open: enrollment and bootstrap
  store the host name of the request unchecked.  \<open>acceptable blanks\<close> allows a blank host name only
  when \<open>blanks\<close> holds; without blanks it is the invariant of the entity.\<close>

definition acceptable :: "bool \<Rightarrow> station \<Rightarrow> bool" where
  "acceptable blanks s \<longleftrightarrow>
     \<not> blank (st_display_name s) \<and> (blank (st_hostname s) \<longrightarrow> blanks)
     \<and> \<not> blank_opt (st_target_name s) \<and> \<not> blank_opt (st_target_iqn s)
     \<and> \<not> blank_opt (st_initiator_iqn s)
     \<and> (st_deleted_at s \<noteq> None \<longrightarrow> \<not> st_enabled s)
     \<and> (st_enabled s \<longleftrightarrow> st_status s \<noteq> DISABLED)"

definition acceptable_rows :: "bool \<Rightarrow> db \<Rightarrow> bool" where
  "acceptable_rows blanks d \<longleftrightarrow> (\<forall>r \<in> set (stations d). acceptable blanks (row_station r))"

lemma acceptable_False: "acceptable False s = station_wf s"
  unfolding acceptable_def station_wf_def by blast

lemma acceptable_rows_False: "acceptable_rows False = readable"
  by (simp add: fun_eq_iff acceptable_rows_def readable_def acceptable_False)

lemma acceptable_wf: "station_wf s \<Longrightarrow> acceptable b s"
  unfolding acceptable_def station_wf_def by blast

lemma acceptable_set_station:
  "acceptable_rows b d \<Longrightarrow> (\<And>r. sr_id r = rid \<Longrightarrow> r \<in> set (stations d) \<Longrightarrow> acceptable b (row_station r) \<Longrightarrow>
     acceptable b (row_station (f r))) \<Longrightarrow> acceptable_rows b (set_station rid f d)"
  by (auto simp: acceptable_rows_def set_update_where)

lemma acceptable_frame: "stations d' = stations d \<Longrightarrow> acceptable_rows b d' = acceptable_rows b d"
  by (simp add: acceptable_rows_def)

text \<open>Reading an acceptable row raises only for its host name.\<close>

lemma acceptable_to_domain:
  "acceptable b (row_station r) \<Longrightarrow> station_to_domain r =
     (if blank (sr_hostname r) then Inl (ValueError ''hostname must not be blank'') else Inr (row_station r))"
  unfolding station_to_domain_def mk_station_def acceptable_def by simp blast

text \<open>Calls that do not touch the stations.\<close>

lemma acceptable_other [simp]:
  "acceptable_rows b (d\<lparr>agents := as\<rparr>) = acceptable_rows b d"
  "acceptable_rows b (d\<lparr>enrollment_tokens := es\<rparr>) = acceptable_rows b d"
  "acceptable_rows b (d\<lparr>provisioning_tokens := vs\<rparr>) = acceptable_rows b d"
  "acceptable_rows b (d\<lparr>agent_commands := cs\<rparr>) = acceptable_rows b d"
  "acceptable_rows b (d\<lparr>process_snapshots := ns\<rparr>) = acceptable_rows b d"
  "acceptable_rows b (d\<lparr>publish_jobs := js\<rparr>) = acceptable_rows b d"
  "acceptable_rows b (d\<lparr>publish_targets := ts\<rparr>) = acceptable_rows b d"
  "acceptable_rows b (d\<lparr>publish_artifacts := ps\<rparr>) = acceptable_rows b d"
  by (simp_all add: acceptable_rows_def)

lemma acceptable_reads:
  "safe (acceptable_rows b) (stations_get sid)" "safe (acceptable_rows b) (agents_get_where Q)"
  "safe (acceptable_rows b) (jobs_get jid)" "safe (acceptable_rows b) (targets_list_for_job jid)"
  by (rule safe_keeps; simp add: keeps_def agents_get_where_def jobs_get_def targets_list_for_job_def)+

lemma acceptable_writes:
  "safe (acceptable_rows b) (enrollment_add t)" "safe (acceptable_rows b) (enrollment_consume h now)"
  "safe (acceptable_rows b) (provisioning_consume h now)" "safe (acceptable_rows b) (agents_add a)"
  "safe (acceptable_rows b) (commands_claim_for_agent aid now lease_for limit)"
  "safe (acceptable_rows b) (targets_update t')" "safe (acceptable_rows b) (jobs_update now j)"
  "safe (acceptable_rows b) (artifacts_retire_station_artifacts sid pid)"
  "safe (acceptable_rows b) (artifacts_save p)"
  by (rule safe_keeps; simp add: keeps_def enrollment_add_def enrollment_consume_def
      provisioning_consume_def agents_add_def commands_claim_for_agent_def targets_update_def
      jobs_update_def artifacts_retire_station_artifacts_def artifacts_save_def Let_def
      split: option.split sum.split prod.split)+

text \<open>Calls that do.\<close>

lemma acceptable_add: "station_wf s \<Longrightarrow> safe (acceptable_rows b) (stations_add s)"
  by (rule safe_keeps) (auto simp: keeps_def stations_add_def acceptable_rows_def intro: acceptable_wf)

lemma acceptable_restore: "station_wf s \<Longrightarrow> safe (acceptable_rows b) (stations_restore s)"
  by (rule safe_keeps)
    (auto simp: keeps_def stations_restore_def split: option.split
      intro!: acceptable_set_station acceptable_wf station_wf_restored)

lemma acceptable_hostname: "(blank h \<longrightarrow> b) \<Longrightarrow> safe (acceptable_rows b) (stations_update_hostname sid h)"
  by (rule safe_keeps)
    (auto simp: keeps_def stations_update_hostname_def acceptable_def split: option.split
      intro!: acceptable_set_station)

lemma acceptable_delete: "safe (acceptable_rows b) (stations_delete sid now)"
  by (rule safe_keeps)
    (auto simp: keeps_def stations_delete_def Let_def acceptable_def removed_row_def split: option.split
      intro!: acceptable_set_station)

lemma acceptable_last_update: "safe (acceptable_rows b) (stations_update_last_update sid now)"
  by (rule safe_keeps)
    (auto simp: keeps_def stations_update_last_update_def acceptable_def split: option.split
      intro!: acceptable_set_station)

lemma acceptable_mapping: "safe (acceptable_rows b) (stations_update_storage_mapping sid tn ti ii)"
  by (auto simp: safe_def after_def stations_update_storage_mapping_def Let_def bindR_Inr_iff
      station_to_domain_Inr_iff station_wf_def acceptable_def mapped_row_def split: option.split sum.split
      intro!: acceptable_set_station)

lemma acceptable_heartbeat:
  assumes "\<And>h. hostname = Some h \<Longrightarrow> \<not> blank h"
  shows "safe (acceptable_rows b) (agents_record_heartbeat aid snap now hostname ips macs)"
proof (rule safe_keeps)
  have "acceptable b (row_station (online_row hostname r))" if "acceptable b (row_station r)" for r
    using that assms by (auto simp: acceptable_def online_row_def split: option.split)
  then show "keeps (acceptable_rows b) (agents_record_heartbeat aid snap now hostname ips macs)"
    by (auto simp: keeps_def agents_record_heartbeat_def Let_def split: option.split sum.split
        intro!: acceptable_set_station)
qed

lemmas acceptable_calls = acceptable_reads acceptable_writes acceptable_add acceptable_restore
  acceptable_hostname acceptable_delete acceptable_last_update acceptable_mapping acceptable_heartbeat

text \<open>Without blank host names: every row builds its entity.\<close>

lemmas readable_calls = acceptable_calls [where b = False, unfolded acceptable_rows_False]

end
