(* ===== verification/Station_Properties.thy ===== *)
theory Station_Properties
  imports Station_Frames Samples
begin

text \<open>
  What holds of the stored stations in every state the use cases can reach, and the one request
  that leaves it.
\<close>

section \<open>The use cases\<close>

lemma create_station_acceptable: "keeps (acceptable_rows b) (create_station H token_id raw now draft)"
proof -
  have "keeps (acceptable_rows b) (with_uow
      (bindS (sess (stations_get (st_station_id station))) (\<lambda>existing.
       bindS (case existing of
           None \<Rightarrow> bindS (sess (stations_add station)) (\<lambda>_. returnS station)
         | Some old \<Rightarrow>
             if st_deleted_at old = None
             then raiseS (StationRegistrationConflictError
                    ''station with this stable UUID is already registered'')
             else bindS (liftR (mk_station (station\<lparr>st_id := st_id old\<rparr>))) (\<lambda>station.
                  bindS (sess (stations_restore station)) (\<lambda>_. returnS station)))
        (\<lambda>station. bindS (sess (enrollment_add token)) (\<lambda>_. bindS commit (\<lambda>_. returnS (g station)))))))"
    if "station_wf station" for station token and g :: "station \<Rightarrow> station_registration"
    using that by (intro safe_with_uow safe_body acceptable_calls) (auto simp: mk_station_Inr_iff)
  then show ?thesis
    unfolding create_station_def Let_def
    by (intro keeps_lift_then) (auto simp: mk_station_Inr_iff)
qed

lemma enroll_agent_acceptable:
  "(blank hostname \<longrightarrow> b) \<Longrightarrow>
    keeps (acceptable_rows b) (enroll_agent H raw aid now token u hostname v ips macs)"
  unfolding enroll_agent_def Let_def
  by (intro safe_with_uow safe_body acceptable_calls)

lemma bootstrap_agent_acceptable:
  assumes "blank hostname \<longrightarrow> b"
  shows "keeps (acceptable_rows b)
    (bootstrap_agent H raw pk aid now token sid display_name hostname role u v ips macs)"
proof -
  have "safe_uow (acceptable_rows b) (bootstrap_station pk sid display_name hostname role existing)"
    for existing
    unfolding bootstrap_station_def agents_get_by_station_id_def
    by (intro safe_body acceptable_calls assms) (auto simp: mk_station_Inr_iff)
  then show ?thesis
    unfolding bootstrap_agent_def Let_def agents_get_by_agent_uuid_def
    by (intro keeps_if keeps_raise safe_with_uow safe_body acceptable_calls)
qed

lemma delete_station_acceptable: "keeps (acceptable_rows b) (delete_station sid now)"
  unfolding delete_station_def by (intro safe_with_uow safe_body acceptable_calls)

lemma normalized_not_blank: "normalize_hostname v = Inr (Some h) \<Longrightarrow> \<not> blank h"
  using normalize_hostname_Some [of v h] by (simp add: blank_def)

lemma receive_heartbeat_acceptable:
  "keeps (acceptable_rows b) (receive_heartbeat H now credential snapshot hostname ips macs)"
  unfolding receive_heartbeat_def Let_def agents_get_by_credential_hash_def
  by (intro keeps_lift_then keeps_if keeps_raise safe_with_uow safe_body acceptable_calls)
    (simp add: normalized_not_blank)

lemma update_mapping_acceptable:
  "keeps (acceptable_rows b) (update_station_storage_mapping sid tn ti ii)"
  unfolding update_station_storage_mapping_def by (intro safe_with_uow safe_body acceptable_calls)

lemma persist_result_acceptable:
  "keeps (acceptable_rows b) (persist_result fresh clock job ts res)"
  unfolding persist_result_def persist_body_def persist_target_def persist_artifact_def
  by (intro safe_with_uow safe_body acceptable_calls)

lemma update_details_acceptable:
  assumes "integrity d" and "acceptable_rows b d"
  shows "after (stations_update_details sid dn hn role enabled) (\<lambda>_. acceptable_rows b) (\<lambda>_ _. True) d"
proof (cases "active_station_by d sid")
  case None
  with assms(2) show ?thesis by (simp add: after_def stations_update_details_def)
next
  case (Some r)
  then have r: "r \<in> set (stations d)" by (auto dest: active_station_by_SomeD)
  have "x = r" if "x \<in> set (stations d)" "sr_id x = sr_id r" for x
    using distinct_map_eq_iff [OF integrityD(1) [OF assms(1)] that(1) r] that(2) by simp
  then have "acceptable_rows b (set_station (sr_id r) (detailed_row dn hn role enabled) d)"
    if "station_wf (row_station (detailed_row dn hn role enabled r))"
    using that by (intro acceptable_set_station [OF assms(2)] acceptable_wf) auto
  with Some show ?thesis
    by (auto simp: after_def stations_update_details_def Let_def bindR_Inr_iff station_to_domain_Inr_iff
        split: sum.split)
qed

text \<open>The end of \<open>UpdateStationUseCase\<close>: the write, and the commit when it returned.\<close>

lemma update_tail_acceptable:
  assumes "integrity d" and "acceptable_rows b d"
  shows "after (bindS (sess (stations_update_details sid dn hn role enabled)) (\<lambda>result.
           case result of
             None \<Rightarrow> raiseS (StationNotFoundError ''station not found'')
           | Some s \<Rightarrow> bindS commit (\<lambda>_. returnS s)))
         (\<lambda>_ u. acceptable_rows b (committed u)) (\<lambda>_ u. acceptable_rows b (committed u))
         \<lparr>committed = d, session = d\<rparr>"
  unfolding after_bind after_sess uow.select_convs uow.update_convs
  by (rule after_mono [OF update_details_acceptable [OF assms]])
    (simp_all add: after_simps assms(2) split: option.split)

lemma after_stations_get:
  "(\<And>v. Q v d) \<Longrightarrow> (\<And>e. E e d) \<Longrightarrow> after (stations_get sid) Q E d"
  by (simp add: after_def stations_get_def split: prod.split sum.split option.split)

lemma update_station_acceptable:
  assumes "integrity d" and "acceptable_rows b d"
  shows "acceptable_rows b (snd (update_station sid dn hn role enabled d))"
proof -
  have "after (update_station sid dn hn role enabled)
      (\<lambda>_. acceptable_rows b) (\<lambda>_. acceptable_rows b) d"
    unfolding update_station_def after_with_uow after_bind [of "sess (stations_get sid)"] after_sess
      uow.select_convs uow.update_convs
    by (rule after_stations_get)
      (simp_all add: Let_def after_lift after_raise after_if after_bind [of "liftR r" for r]
        update_tail_acceptable [OF assms] assms(2) split: option.split sum.split)
  then show ?thesis by (rule after_always)
qed

text \<open>The same without blank host names: the rows stay readable.\<close>

lemmas create_station_readable =
  create_station_acceptable [where b = False, unfolded acceptable_rows_False]
lemmas delete_station_readable =
  delete_station_acceptable [where b = False, unfolded acceptable_rows_False]
lemmas update_mapping_readable =
  update_mapping_acceptable [where b = False, unfolded acceptable_rows_False]
lemmas update_station_readable =
  update_station_acceptable [where b = False, unfolded acceptable_rows_False]

section \<open>Reachable registries\<close>

text \<open>One use case on the stored tables, whether it returned or raised, with the host names it was
  given to store unchecked.  Every use case that writes stations is listed; \<open>other\<close> is any change
  of the other tables.\<close>

inductive registry_step :: "(string \<Rightarrow> string) \<Rightarrow> string list \<Rightarrow> db \<Rightarrow> db \<Rightarrow> bool" for H where
  create: "registry_step H [] d (snd (create_station H token_id raw now draft d))"
| enroll: "registry_step H [hostname] d
    (snd (enroll_agent H raw aid now token u hostname v ips macs d))"
| bootstrap: "registry_step H [hostname] d
    (snd (bootstrap_agent H raw pk aid now token sid display_name hostname role u v ips macs d))"
| delete: "registry_step H [] d (snd (delete_station sid now d))"
| heartbeat: "registry_step H [] d (snd (receive_heartbeat H now credential snapshot host hips hmacs d))"
| update: "registry_step H [] d (snd (update_station sid display_name hostname role enabled d))"
| mapping: "registry_step H [] d (snd (update_station_storage_mapping sid tn ti ii d))"
| publish: "registry_step H [] d (snd (persist_result fresh clock job ts res d))"
| other: "stations d' = stations d \<Longrightarrow> integrity d' \<Longrightarrow> registry_step H [] d d'"

inductive registry_run :: "(string \<Rightarrow> string) \<Rightarrow> string list \<Rightarrow> db \<Rightarrow> bool" for H where
  start: "registry_run H [] empty_db"
| more: "registry_run H names d \<Longrightarrow> registry_step H given d d' \<Longrightarrow> registry_run H (names @ given) d'"

lemma registry_step_preserves:
  assumes "registry_step H given d d'" and "integrity d" and "acceptable_rows b d"
    and blanks: "list_ex blank given \<longrightarrow> b"
  shows "integrity d' \<and> acceptable_rows b d'"
  using assms(1)
proof (cases rule: registry_step.cases)
  case (create token_id raw now draft)
  show ?thesis unfolding create(2)
    by (intro conjI keepsD [OF lifecycle_keeps(1)] keepsD [OF create_station_acceptable] assms)
next
  case (enroll hostname raw aid now token u v ips macs)
  with blanks have "blank hostname \<longrightarrow> b" by simp
  then show ?thesis unfolding enroll(2)
    by (intro conjI keepsD [OF lifecycle_keeps(4)] keepsD [OF enroll_agent_acceptable] assms)
next
  case (bootstrap hostname raw pk aid now token sid display_name role u v ips macs)
  with blanks have "blank hostname \<longrightarrow> b" by simp
  then show ?thesis unfolding bootstrap(2)
    by (intro conjI keepsD [OF lifecycle_keeps(5)] keepsD [OF bootstrap_agent_acceptable] assms)
next
  case (delete sid now)
  show ?thesis unfolding delete(2)
    by (intro conjI keepsD [OF lifecycle_keeps(3)] keepsD [OF delete_station_acceptable] assms)
next
  case (heartbeat now credential snapshot host hips hmacs)
  show ?thesis unfolding heartbeat(2)
    by (intro conjI keepsD [OF lifecycle_keeps(6)] keepsD [OF receive_heartbeat_acceptable] assms)
next
  case (update sid display_name hostname role enabled)
  then show ?thesis
    using keepsD [OF registry_keeps(2) assms(2)] update_station_acceptable [OF assms(2,3)] by simp
next
  case (mapping sid tn ti ii)
  show ?thesis unfolding mapping(2)
    by (intro conjI keepsD [OF registry_keeps(3)] keepsD [OF update_mapping_acceptable] assms)
next
  case (publish fresh clock job ts res)
  show ?thesis unfolding publish(2)
    by (intro conjI keepsD [OF persist_keeps(1)] keepsD [OF persist_result_acceptable] assms)
next
  case other
  with assms(3) show ?thesis using acceptable_frame [OF other(2)] by simp
qed

lemma registry_run_acceptable:
  "registry_run H names d \<Longrightarrow> list_ex blank names \<longrightarrow> b \<Longrightarrow> integrity d \<and> acceptable_rows b d"
proof (induction rule: registry_run.induct)
  case start
  have "acceptable_rows b empty_db" by (simp add: acceptable_rows_def empty_db_def)
  with integrity_empty show ?case by blast
next
  case (more names d given d')
  from more.prems have "list_ex blank names \<longrightarrow> b" "list_ex blank given \<longrightarrow> b" by simp_all
  with more show ?case using registry_step_preserves by blast
qed

lemma mapR_Inl_same:
  "x \<in> set xs \<Longrightarrow> f x = Inl e \<Longrightarrow> (\<And>y. y \<in> set xs \<Longrightarrow> f y = Inl e \<or> (\<exists>v. f y = Inr v)) \<Longrightarrow>
    mapR f xs = Inl e"
proof (induction xs)
  case (Cons a xs)
  show ?case
  proof (cases "f a")
    case (Inl e')
    with Cons.prems(3) [of a] show ?thesis by simp
  next
    case (Inr v)
    with Cons.prems have "x \<in> set xs" by auto
    with Cons have "mapR f xs = Inl e" by simp
    with Inr show ?thesis by simp
  qed
qed simp

text \<open>Reading in a database whose rows are acceptable: a blank host name is the only error.\<close>

abbreviation hostname_error :: "exn" where
  "hostname_error \<equiv> ValueError ''hostname must not be blank''"

lemma acceptable_get:
  assumes "acceptable_rows b d"
  shows "stations_get sid d =
    (case station_by d sid of None \<Rightarrow> Inr None
     | Some r \<Rightarrow> if blank (sr_hostname r) then Inl hostname_error else Inr (Some (row_station r)), d)"
proof (cases "station_by d sid")
  case (Some r)
  then have "acceptable b (row_station r)"
    using assms by (auto simp: acceptable_rows_def dest: station_by_SomeD)
  with Some show ?thesis
    by (simp add: stations_get_def acceptable_to_domain bindR_def)
qed (simp add: stations_get_def)

lemma acceptable_list:
  fixes d :: db and disabled :: bool
  defines "listed \<equiv> {r \<in> set (stations d). sr_deleted_at r = None \<and> (disabled \<or> sr_enabled r)}"
  assumes "acceptable_rows b d"
  shows "if \<exists>r \<in> listed. blank (sr_hostname r)
    then list_stations disabled d = (Inl hostname_error, d)
    else \<exists>ss. list_stations disabled d = (Inr ss, d) \<and> list_all station_wf ss \<and>
      set ss = row_station ` listed"
proof -
  let ?rs = "order_by (\<lambda>r. (sr_display_name r, sr_station_id r))
    (filter (\<lambda>r. sr_deleted_at r = None \<and> (disabled \<or> sr_enabled r)) (stations d))"
  have rows: "set ?rs = listed" by (simp add: listed_def)
  have list: "list_stations disabled d = (mapR station_to_domain ?rs, d)"
    by (simp add: list_stations_def sx_simps stations_list_def split: sum.split)
  have each: "station_to_domain r =
      (if blank (sr_hostname r) then Inl hostname_error else Inr (row_station r))" if "r \<in> set ?rs" for r
    by (rule acceptable_to_domain [of b]) (use assms(2) that in \<open>simp add: acceptable_rows_def\<close>)
  show ?thesis
  proof (cases "\<exists>r \<in> listed. blank (sr_hostname r)")
    case True
    then obtain r where r: "r \<in> set ?rs" "blank (sr_hostname r)" unfolding rows by blast
    have "mapR station_to_domain ?rs = Inl hostname_error"
      by (rule mapR_Inl_same [OF r(1)]) (use each r in auto)
    with True list show ?thesis by simp
  next
    case False
    then have fine: "station_to_domain r = Inr (row_station r)" if "r \<in> set ?rs" for r
      using each [OF that] that unfolding rows by auto
    then have "mapR station_to_domain ?rs = Inr (map row_station ?rs)" by (rule mapR_total)
    moreover have "list_all station_wf (map row_station ?rs)"
      using fine by (auto simp: list_all_iff station_to_domain_Inr_iff)
    moreover have "set (map row_station ?rs) = row_station ` listed"
      using rows by simp
    ultimately show ?thesis using False list by auto
  qed
qed

text \<open>C39.  In every database reachable from the empty one by the use cases, with any host names
  in the requests, a stored row can fail to build its entity only for a blank host name: reading
  one station raises exactly when the host name of its row is blank, listing the stations raises
  exactly when a listed row has one, and otherwise both return the well-formed stations of the
  rows, the listing every station that is not deleted (and, unless asked otherwise, enabled).
  Neither changes anything.  A row has a blank host name only if the request of some enrollment or
  bootstrap on the way gave one.\<close>

theorem stations_stay_readable:
  assumes "registry_run H names d"
  shows "stations_get sid d =
      (case station_by d sid of None \<Rightarrow> Inr None
       | Some r \<Rightarrow> if blank (sr_hostname r) then Inl (ValueError ''hostname must not be blank'')
           else Inr (Some (row_station r)), d)
    \<and> (let listed = {r \<in> set (stations d). sr_deleted_at r = None \<and> (disabled \<or> sr_enabled r)}
       in if \<exists>r \<in> listed. blank (sr_hostname r)
          then list_stations disabled d = (Inl (ValueError ''hostname must not be blank''), d)
          else \<exists>ss. list_stations disabled d = (Inr ss, d) \<and> list_all station_wf ss \<and>
            set ss = row_station ` listed)
    \<and> ((\<exists>r \<in> set (stations d). blank (sr_hostname r)) \<longrightarrow> list_ex blank names)"
proof -
  have rows: "acceptable_rows (list_ex blank names) d"
    using registry_run_acceptable [OF assms] by blast
  then have "(\<exists>r \<in> set (stations d). blank (sr_hostname r)) \<longrightarrow> list_ex blank names"
    by (auto simp: acceptable_rows_def acceptable_def)
  with acceptable_get [OF rows, of sid] acceptable_list [OF rows, of disabled] show ?thesis
    unfolding Let_def by blast
qed

text \<open>The first registration of an empty controller, and its agent enrolling with a blank host
  name.\<close>

definition first_registry :: db where
  "first_registry = snd (create_station (\<lambda>x. x) 3 ''raw'' (Aware 0 0)
     (new_station 1 2 ''PC 1'' ''pc-1'' CLIENT None None None) empty_db)"

definition nameless_registry :: db where
  "nameless_registry =
     snd (enroll_agent (\<lambda>x. x) ''secret'' 5 (Aware 0 0) ''raw'' 6 '' '' ''1.0'' [] [] first_registry)"

abbreviation first_record :: station_row where
  "first_record \<equiv> station_record (new_station 1 2 ''PC 1'' ''pc-1'' CLIENT None None None)"

abbreviation first_token :: enrollment_row where
  "first_token \<equiv> \<lparr>er_id = 3, er_station_id = 1, er_token_hash = ''raw'',
     er_expires_at = dt_plus (Aware 0 0) ENROLLMENT_TOKEN_TTL, er_used_at = None, er_revoked_at = None\<rparr>"

lemma first_registry_eq:
  "first_registry = empty_db\<lparr>stations := [first_record], enrollment_tokens := [first_token]\<rparr>"
  by (simp add: first_registry_def create_station_def sx_simps mk_station_def new_station_def blank_def
      strip_def strip_with_def py_space_def code_def blank_opt_def stations_get_def station_by_def empty_db_def
      stations_add_def enrollment_add_def new_enrollment_token_def station_record_def integrity_def
      constraint_defs Let_def)

lemma nameless_registry_eq:
  "nameless_registry = enrolled_db first_token first_record '' ''
     (new_binding 5 2 6 ''1.0'' ''secret'' (Aware 0 0) [] []) (Aware 0 0) first_registry"
proof -
  have ok: "integrity first_registry"
    using keepsD [OF lifecycle_keeps(1) integrity_empty] unfolding first_registry_def .
  have "integrity (enrolled_db first_token first_record '' ''
      (new_binding 5 2 6 ''1.0'' ''secret'' (Aware 0 0) [] []) (Aware 0 0) first_registry)"
    by (simp add: integrity_def constraint_defs enrolled_db_def first_registry_eq set_station_def
        update_where_def agent_record_def new_binding_def empty_db_def station_record_def new_station_def)
  moreover have "enrollment_by first_registry ''raw'' = Some first_token"
    by (simp add: enrollment_by_def first_registry_eq)
  moreover have "instant (Aware 0 0) < instant (dt_plus (Aware 0 0) ENROLLMENT_TOKEN_TTL)"
    by (simp add: ENROLLMENT_TOKEN_TTL_def minutes_def seconds_def)
  ultimately show ?thesis
    unfolding nameless_registry_def
    by (subst enroll_agent_claimed [OF ok, where t = first_token and s = first_record])
      (simp_all add: first_registry_eq station_record_def new_station_def)
qed

lemma registry_runs:
  "registry_run (\<lambda>x. x) [] first_registry" "registry_run (\<lambda>x. x) ['' ''] nameless_registry"
proof -
  show first: "registry_run (\<lambda>x. x) [] first_registry"
    using registry_run.more [OF registry_run.start registry_step.create] unfolding first_registry_def by simp
  show "registry_run (\<lambda>x. x) ['' ''] nameless_registry"
    using registry_run.more [OF first registry_step.enroll] unfolding nameless_registry_def by simp
qed

lemma sample_blank: "blank '' ''" "\<not> blank ''pc-1''"
  by (simp_all add: blank_def strip_def strip_with_def py_space_def code_def)

theorem stations_stay_readable_witness:
  "(\<exists>ss. list_stations True first_registry = (Inr ss, first_registry) \<and> list_all station_wf ss
      \<and> set ss = {row_station first_record})
   \<and> list_stations True nameless_registry =
      (Inl (ValueError ''hostname must not be blank''), nameless_registry)"
proof -
  note reads = stations_stay_readable [OF registry_runs(1), of 2 True, THEN conjunct2, THEN conjunct1]
  note raises = stations_stay_readable [OF registry_runs(2), of 2 True, THEN conjunct2, THEN conjunct1]
  have "{r \<in> set (stations first_registry). sr_deleted_at r = None \<and> (True \<or> sr_enabled r)} =
      {first_record}"
    by (auto simp: first_registry_eq station_record_def new_station_def)
  from reads [unfolded this Let_def] have "\<exists>ss. list_stations True first_registry = (Inr ss, first_registry)
      \<and> list_all station_wf ss \<and> set ss = {row_station first_record}"
    by (simp add: station_record_def new_station_def sample_blank)
  moreover have "{r \<in> set (stations nameless_registry). sr_deleted_at r = None \<and> (True \<or> sr_enabled r)} =
      {first_record\<lparr>sr_hostname := '' ''\<rparr>}"
    by (auto simp: nameless_registry_eq first_registry_eq update_where_def station_record_def new_station_def)
  from raises [unfolded this Let_def] have "list_stations True nameless_registry =
      (Inl (ValueError ''hostname must not be blank''), nameless_registry)"
    by (simp add: sample_blank)
  ultimately show ?thesis by blast
qed

section \<open>A blank host name\<close>

lemma blank_row_fails:
  assumes "station_wf (row_station s)" and "blank hostname"
  shows "station_to_domain (s\<lparr>sr_hostname := hostname\<rparr>) = Inl (ValueError ''hostname must not be blank'')"
  using assms by (simp add: station_to_domain_def mk_station_def station_wf_def)

text \<open>C40.  Enrollment stores the host name of the request unchecked.  A request of an agent whose
  host name is only white space is answered with a credential, and from then on every listing of
  the stations raises, for all stations; the station's own record cannot be read, and the
  operator's update, which reads it first, cannot repair it.\<close>

theorem blank_hostname_breaks_list:
  assumes ok: "integrity d" "readable d"
    and run: "enroll_agent H raw aid now token u hostname v ips macs d = (Inr r, d')"
    and blank: "blank hostname"
    and live: "station_by d (en_station_id r) = Some s" "sr_deleted_at s = None" "sr_enabled s"
  shows "list_stations b d' = (Inl (ValueError ''hostname must not be blank''), d')
    \<and> update_station (en_station_id r) dn hn role enabled d' =
        (Inl (ValueError ''hostname must not be blank''), d')"
proof -
  let ?e = "ValueError ''hostname must not be blank''" and ?f = "\<lambda>r. r\<lparr>sr_hostname := hostname\<rparr>"
  obtain t s' where s': "s' \<in> set (stations d)" and sid: "en_station_id r = sr_station_id s'"
    and d': "d' = enrolled_db t s' hostname
      (new_binding aid (sr_station_id s') u v (H raw) (ensure_utc now) ips macs) (ensure_utc now) d"
    and ok': "integrity d'"
    using enroll_agent_Inr [OF ok(1) run] by (metis enrollment_result.select_convs(1))
  have same: "s' = s" using station_by_unique [OF ok(1) s'] live(1) sid by simp
  have rows: "stations d' = update_where (\<lambda>r. sr_id r = sr_id s) ?f (stations d)"
    using d' same by simp
  have wf: "station_wf (row_station x)" if "x \<in> set (stations d)" for x
    using ok(2) that by (simp add: readable_def)
  have fails: "station_to_domain (?f s) = Inl ?e"
    by (rule blank_row_fails [OF wf blank]) (use s' same in simp)
  have stored: "?f s \<in> set (stations d')"
    using s' same unfolding rows by (auto simp: set_update_where)
  have each: "station_to_domain x = Inl ?e \<or> (\<exists>y. station_to_domain x = Inr y)"
    if "x \<in> set (stations d')" for x
  proof -
    from that obtain y where y: "y \<in> set (stations d)" "x = y \<or> x = ?f y"
      unfolding rows by (auto simp: set_update_where)
    have "station_to_domain y = Inr (row_station y)"
      using wf [OF y(1)] by (simp add: station_to_domain_Inr_iff)
    with y blank_row_fails [OF wf [OF y(1)] blank] show ?thesis by auto
  qed
  have "mapR station_to_domain (order_by (\<lambda>r. (sr_display_name r, sr_station_id r))
      (filter (\<lambda>r. sr_deleted_at r = None \<and> (b \<or> sr_enabled r)) (stations d'))) = Inl ?e"
    by (rule mapR_Inl_same [where x = "?f s"]) (use stored live fails each in simp_all)
  then have "list_stations b d' = (Inl ?e, d')"
    by (simp add: list_stations_def sx_simps stations_list_def)
  moreover have "station_by d' (en_station_id r) = Some (?f s)"
    using station_by_unique [OF ok' stored] sid same by simp
  then have "update_station (en_station_id r) dn hn role enabled d' = (Inl ?e, d')"
    by (simp add: update_station_def sx_simps stations_get_def fails bindR_def)
  ultimately show ?thesis by blast
qed

definition blank_enrollment :: "enrollment_result result \<times> db" where
  "blank_enrollment =
     enroll_agent (\<lambda>x. x) ''secret'' 5 (Aware 0 0) ''token'' 6 '' '' ''1.0'' [] [] sample_db"

lemma blank_enrollment_eq:
  "blank_enrollment =
     (Inr \<lparr>en_station_id = 2, en_credential = ''secret'', en_server_time = Aware 0 0\<rparr>,
      enrolled_db sample_token sample_station '' ''
        (new_binding 5 2 6 ''1.0'' ''secret'' (Aware 0 0) [] []) (Aware 0 0) sample_db)"
proof -
  have "integrity (enrolled_db sample_token sample_station '' ''
      (new_binding 5 2 6 ''1.0'' ''secret'' (Aware 0 0) [] []) (Aware 0 0) sample_db)"
    by (simp add: integrity_def constraint_defs enrolled_db_def sample_defs set_station_def
        update_where_def agent_record_def new_binding_def)
  moreover have "enrollment_by sample_db ''token'' = Some sample_token"
    by (simp add: enrollment_by_def sample_defs)
  ultimately show ?thesis
    unfolding blank_enrollment_def
    by (subst enroll_agent_claimed [OF integrity_sample_db, where t = sample_token and s = sample_station])
      (simp_all add: sample_defs)
qed

theorem blank_hostname_breaks_list_witness:
  "\<not> isl (fst blank_enrollment) \<and> list_stations False (snd blank_enrollment) =
     (Inl (ValueError ''hostname must not be blank''), snd blank_enrollment)"
proof -
  obtain d' where eq: "enroll_agent (\<lambda>x. x) ''secret'' 5 (Aware 0 0) ''token'' 6 '' '' ''1.0'' [] [] sample_db =
      (Inr \<lparr>en_station_id = 2, en_credential = ''secret'', en_server_time = Aware 0 0\<rparr>, d')"
    using blank_enrollment_eq unfolding blank_enrollment_def by blast
  from blank_hostname_breaks_list [OF integrity_sample_db sample_readable(1) eq sample_blank(1), of sample_station False]
  have "list_stations False d' = (Inl (ValueError ''hostname must not be blank''), d')"
    by (simp add: sample_bounds)
  with eq show ?thesis unfolding blank_enrollment_def by simp
qed

end
