(* ===== verification/Http_Schemas.thy ===== *)
theory Http_Schemas
  imports Publish_Cases Datasets Py_Calendar
begin

text \<open>
  The schemas of \<open>presentation/\<close>: what a request body must satisfy before its route runs (a body
  that does not is answered 422 by the framework), and the response each domain value is turned
  into.  Ids, roles and times are taken as parsed; a time in a response is its ISO text.
\<close>

section \<open>Requests\<close>

definition text_within :: "nat \<Rightarrow> string \<Rightarrow> bool" where
  "text_within m s = (1 \<le> length s \<and> length s \<le> m)"

definition opt_within :: "nat \<Rightarrow> string option \<Rightarrow> bool" where
  "opt_within m v = (case v of None \<Rightarrow> True | Some s \<Rightarrow> text_within m s)"

record station_create_request =
  scr_station_id :: "uuid option"
  scr_display_name :: string
  scr_hostname :: string
  scr_role :: station_role
  scr_target_name :: "string option"
  scr_target_iqn :: "string option"
  scr_initiator_iqn :: "string option"

definition station_create_ok :: "station_create_request \<Rightarrow> bool" where
  "station_create_ok q =
     (text_within 120 (scr_display_name q) \<and> text_within 255 (scr_hostname q)
      \<and> opt_within 255 (scr_target_name q) \<and> opt_within 255 (scr_target_iqn q)
      \<and> opt_within 255 (scr_initiator_iqn q))"

record storage_mapping_request =
  smr_target_name :: "string option"
  smr_target_iqn :: "string option"
  smr_initiator_iqn :: "string option"

definition storage_mapping_ok :: "storage_mapping_request \<Rightarrow> bool" where
  "storage_mapping_ok q =
     (opt_within 255 (smr_target_name q) \<and> opt_within 255 (smr_target_iqn q)
      \<and> opt_within 255 (smr_initiator_iqn q))"

record station_update_request =
  sur_display_name :: string
  sur_hostname :: string
  sur_role :: station_role
  sur_enabled :: bool

definition station_update_ok :: "station_update_request \<Rightarrow> bool" where
  "station_update_ok q = (text_within 120 (sur_display_name q) \<and> text_within 255 (sur_hostname q))"

record agent_enroll_request =
  aer_enrollment_token :: string
  aer_agent_uuid :: uuid
  aer_hostname :: string
  aer_agent_version :: string
  aer_ip_addresses :: "string list"
  aer_mac_addresses :: "string list"

definition agent_enroll_ok :: "agent_enroll_request \<Rightarrow> bool" where
  "agent_enroll_ok q =
     (text_within 256 (aer_enrollment_token q) \<and> text_within 255 (aer_hostname q)
      \<and> text_within 64 (aer_agent_version q)
      \<and> length (aer_ip_addresses q) \<le> 16 \<and> length (aer_mac_addresses q) \<le> 16)"

record agent_bootstrap_request =
  abr_provisioning_token :: string
  abr_station_id :: uuid
  abr_display_name :: string
  abr_hostname :: string
  abr_role :: station_role
  abr_agent_uuid :: uuid
  abr_agent_version :: string
  abr_ip_addresses :: "string list"
  abr_mac_addresses :: "string list"

definition agent_bootstrap_ok :: "agent_bootstrap_request \<Rightarrow> bool" where
  "agent_bootstrap_ok q =
     (text_within 256 (abr_provisioning_token q) \<and> text_within 120 (abr_display_name q)
      \<and> text_within 255 (abr_hostname q) \<and> text_within 64 (abr_agent_version q)
      \<and> length (abr_ip_addresses q) \<le> 16 \<and> length (abr_mac_addresses q) \<le> 16)"

text \<open>\<open>AgentCommandIssueRequest\<close>: the name is a literal.\<close>

definition command_issue_ok :: "string \<Rightarrow> int \<Rightarrow> bool" where
  "command_issue_ok name ttl_seconds =
     (name = ''refresh_process_snapshot'' \<and> 1 \<le> ttl_seconds \<and> ttl_seconds \<le> 900)"

record preflight_request =
  pfr_station_id :: uuid
  pfr_max_snapshot_age_seconds :: int
  pfr_required_drive_letter :: string
  pfr_min_free_bytes :: int

definition preflight_request_ok :: "preflight_request \<Rightarrow> bool" where
  "preflight_request_ok q =
     (1 \<le> pfr_max_snapshot_age_seconds q \<and> pfr_max_snapshot_age_seconds q \<le> 3600
      \<and> text_within 3 (pfr_required_drive_letter q) \<and> 0 \<le> pfr_min_free_bytes q)"

record rule_create_request =
  rcr_name :: string
  rcr_role :: "station_role option"
  rcr_required_closed :: bool
  rcr_severity :: rule_severity
  rcr_enabled :: bool
  rcr_persistent_policy :: bool

definition rule_create_ok :: "rule_create_request \<Rightarrow> bool" where
  "rule_create_ok q = text_within 255 (rcr_name q)"

definition dataset_delete_ok :: "uuid list \<Rightarrow> bool" where
  "dataset_delete_ok ids = (1 \<le> length ids \<and> length ids \<le> 100)"

record job_create_request =
  jcr_label :: string
  jcr_source_dataset :: string
  jcr_description :: "string option"
  jcr_station_ids :: "uuid list"
  jcr_idempotency_key :: string
  jcr_correlation_id :: "uuid option"
  jcr_dry_run :: bool
  jcr_allow_hot_switch :: bool

definition job_create_ok :: "job_create_request \<Rightarrow> bool" where
  "job_create_ok q =
     (text_within 255 (jcr_label q) \<and> text_within 255 (jcr_source_dataset q)
      \<and> (case jcr_description q of None \<Rightarrow> True | Some s \<Rightarrow> length s \<le> 1000)
      \<and> jcr_station_ids q \<noteq> [] \<and> text_within 200 (jcr_idempotency_key q))"

section \<open>Responses\<close>

definition iso_opt :: "datetime option \<Rightarrow> string option" where
  "iso_opt v = map_option iso_auto v"

record station_response =
  sv_id :: uuid
  sv_station_id :: uuid
  sv_display_name :: string
  sv_hostname :: string
  sv_role :: station_role
  sv_status :: station_status
  sv_enabled :: bool
  sv_deleted_at :: "string option"
  sv_target_name :: "string option"
  sv_target_iqn :: "string option"
  sv_initiator_iqn :: "string option"
  sv_last_update_at :: "string option"

definition station_response_of :: "station \<Rightarrow> station_response" where
  "station_response_of s =
     \<lparr>sv_id = st_id s, sv_station_id = st_station_id s, sv_display_name = st_display_name s,
      sv_hostname = st_hostname s, sv_role = st_role s, sv_status = st_status s,
      sv_enabled = st_enabled s, sv_deleted_at = iso_opt (st_deleted_at s),
      sv_target_name = st_target_name s, sv_target_iqn = st_target_iqn s,
      sv_initiator_iqn = st_initiator_iqn s, sv_last_update_at = iso_opt (st_last_update_at s)\<rparr>"

text \<open>\<open>ProcessRuleResponse.from_domain\<close> raises for a rule without an id; the value is the rule
  with its id.\<close>

definition rule_response_of :: "process_rule \<Rightarrow> (uuid \<times> process_rule) result" where
  "rule_response_of rule =
     (case pr_id rule of
        None \<Rightarrow> Inl (ValueError ''process rule has no persistent id'')
      | Some i \<Rightarrow> Inr (i, rule))"

record preflight_response =
  fr_station_id :: uuid
  fr_status :: string
  fr_can_publish :: bool
  fr_evaluated_at :: datetime
  fr_checks :: "check_result list"

definition preflight_response_of :: "preflight_report \<Rightarrow> preflight_response" where
  "preflight_response_of r =
     \<lparr>fr_station_id = rep_station_id r, fr_status = check_status_value (rep_status r),
      fr_can_publish = can_publish r, fr_evaluated_at = rep_evaluated_at r, fr_checks = rep_checks r\<rparr>"

record job_draft_response =
  dr_id :: uuid
  dr_idempotency_key :: string
  dr_correlation_id :: uuid
  dr_label :: string
  dr_source_dataset :: string
  dr_status :: job_status
  dr_dry_run :: bool
  dr_allow_hot_switch :: bool
  dr_station_ids :: "uuid list"

definition job_draft_response_of :: "publish_job \<times> publish_target list \<Rightarrow> job_draft_response" where
  "job_draft_response_of = (\<lambda>(job, targets).
     \<lparr>dr_id = pj_id job, dr_idempotency_key = pj_idempotency_key job,
      dr_correlation_id = pj_correlation_id job, dr_label = pj_label job,
      dr_source_dataset = pj_source_dataset job, dr_status = pj_status job,
      dr_dry_run = pj_dry_run job, dr_allow_hot_switch = pj_allow_hot_switch job,
      dr_station_ids = map tg_station_id targets\<rparr>)"

record prepare_response =
  prr_job_id :: uuid
  prr_status :: job_status
  prr_client_confirmation :: "bool option"
  prr_gate_status :: wizard_gate_status
  prr_can_advance :: bool
  prr_selected_station_ids :: "uuid list"
  prr_reasons :: "string list"
  prr_admin_report :: "preflight_response option"
  prr_client_reports :: "preflight_response list"

text \<open>The reports are the values of a dict built over the selection, so they come in its order,
  each station once.\<close>

definition prepare_response_of :: "prepare_result \<Rightarrow> prepare_response" where
  "prepare_response_of r =
     \<lparr>prr_job_id = pj_id (pp_job r), prr_status = pj_status (pp_job r),
      prr_client_confirmation = pj_client_confirmation (pp_job r),
      prr_gate_status = wr_status (pp_gate r), prr_can_advance = can_advance (pp_gate r),
      prr_selected_station_ids = wr_selected_station_ids (pp_gate r),
      prr_reasons = wr_reasons (pp_gate r),
      prr_admin_report = map_option preflight_response_of (pp_admin_report r),
      prr_client_reports =
        map preflight_response_of
          (List.map_filter (pp_client_reports r) (dict_fromkeys (wr_selected_station_ids (pp_gate r))))\<rparr>"

text \<open>\<open>_safe_mapping\<close>: of a stored mapping only its reference leaves the API.\<close>

definition safe_mapping :: "json_object option \<Rightarrow> string option" where
  "safe_mapping mapping =
     (case mapping of
        None \<Rightarrow> None
      | Some m \<Rightarrow> (case map_of m ''ref'' of Some (JStr reference) \<Rightarrow> Some reference | _ \<Rightarrow> None))"

record target_response =
  tv_station_id :: uuid
  tv_selected :: bool
  tv_preflight_status :: "string option"
  tv_switch_status :: "string option"
  tv_verify_status :: "string option"
  tv_error_code :: "string option"
  tv_error_message :: "string option"
  tv_progress_percent :: int
  tv_preflight_result :: "preflight_report option"
  tv_old_mapping :: "string option"
  tv_new_mapping :: "string option"

definition target_response_of :: "publish_target \<Rightarrow> target_response" where
  "target_response_of t =
     \<lparr>tv_station_id = tg_station_id t, tv_selected = tg_selected t,
      tv_preflight_status = tg_preflight_status t, tv_switch_status = tg_switch_status t,
      tv_verify_status = tg_verify_status t, tv_error_code = tg_error_code t,
      tv_error_message = tg_error_message t, tv_progress_percent = tg_progress_percent t,
      tv_preflight_result = tg_preflight_result t, tv_old_mapping = safe_mapping (tg_old_mapping t),
      tv_new_mapping = safe_mapping (tg_new_mapping t)\<rparr>"

definition artifact_status_value :: "artifact_status \<Rightarrow> string" where
  "artifact_status_value s =
     (case s of ART_CURRENT \<Rightarrow> ''current'' | ART_RETIRED \<Rightarrow> ''retired'' | ART_DELETED \<Rightarrow> ''deleted''
      | ART_CLEANUP_FAILED \<Rightarrow> ''cleanup_failed'')"

record artifact_response =
  ap_id :: uuid
  ap_station_id :: uuid
  ap_dataset_name :: string
  ap_snapshot_ref :: string
  ap_mapping_ref :: string
  ap_status :: string
  ap_is_current :: bool
  ap_created_at :: string
  ap_deleted_at :: "string option"
  ap_last_error :: "string option"

definition artifact_response_of :: "publish_artifact \<Rightarrow> artifact_response" where
  "artifact_response_of a =
     \<lparr>ap_id = pa_id a, ap_station_id = pa_station_id a, ap_dataset_name = pa_dataset_name a,
      ap_snapshot_ref = pa_snapshot_ref a, ap_mapping_ref = pa_mapping_ref a,
      ap_status = artifact_status_value (pa_status a), ap_is_current = pa_is_current a,
      ap_created_at = iso_auto (pa_created_at a), ap_deleted_at = iso_opt (pa_deleted_at a),
      ap_last_error = pa_last_error a\<rparr>"

record job_response =
  jp_id :: uuid
  jp_idempotency_key :: string
  jp_correlation_id :: uuid
  jp_label :: string
  jp_source_dataset :: string
  jp_description :: "string option"
  jp_status :: job_status
  jp_dry_run :: bool
  jp_allow_hot_switch :: bool
  jp_status_reason :: "string option"
  jp_created_at :: "string option"
  jp_started_at :: "string option"
  jp_completed_at :: "string option"
  jp_targets :: "target_response list"
  jp_artifacts :: "artifact_response list"

definition job_response_of :: "publish_job_view \<Rightarrow> job_response" where
  "job_response_of v =
     \<lparr>jp_id = pj_id (pv_job v), jp_idempotency_key = pj_idempotency_key (pv_job v),
      jp_correlation_id = pj_correlation_id (pv_job v), jp_label = pj_label (pv_job v),
      jp_source_dataset = pj_source_dataset (pv_job v), jp_description = pj_description (pv_job v),
      jp_status = pj_status (pv_job v), jp_dry_run = pj_dry_run (pv_job v),
      jp_allow_hot_switch = pj_allow_hot_switch (pv_job v),
      jp_status_reason = pj_status_reason (pv_job v),
      jp_created_at = iso_opt (pj_created_at (pv_job v)),
      jp_started_at = iso_opt (pj_started_at (pv_job v)),
      jp_completed_at = iso_opt (pj_completed_at (pv_job v)),
      jp_targets = map target_response_of (pv_targets v),
      jp_artifacts = map artifact_response_of (pv_artifacts v)\<rparr>"

record history_response =
  hv_id :: uuid
  hv_label :: string
  hv_source_dataset :: string
  hv_status :: job_status
  hv_status_reason :: "string option"
  hv_dry_run :: bool
  hv_created_at :: "string option"
  hv_completed_at :: "string option"

definition history_response_of :: "publish_job_history \<Rightarrow> history_response" where
  "history_response_of j =
     \<lparr>hv_id = jh_id j, hv_label = jh_label j, hv_source_dataset = jh_source_dataset j,
      hv_status = jh_status j, hv_status_reason = jh_status_reason j, hv_dry_run = jh_dry_run j,
      hv_created_at = Some (iso_auto (jh_created_at j)), hv_completed_at = iso_opt (jh_completed_at j)\<rparr>"

record dataset_response =
  dp_id :: uuid
  dp_job_id :: uuid
  dp_station_id :: uuid
  dp_source_dataset :: string
  dp_dataset_name :: string
  dp_snapshot_ref :: string
  dp_mapping_ref :: string
  dp_status :: string
  dp_is_current :: bool
  dp_created_at :: datetime
  dp_deleted_at :: "datetime option"
  dp_last_error :: "string option"

definition dataset_response_of :: "publish_artifact \<Rightarrow> dataset_response" where
  "dataset_response_of a =
     \<lparr>dp_id = pa_id a, dp_job_id = pa_job_id a, dp_station_id = pa_station_id a,
      dp_source_dataset = pa_source_dataset a, dp_dataset_name = pa_dataset_name a,
      dp_snapshot_ref = pa_snapshot_ref a, dp_mapping_ref = pa_mapping_ref a,
      dp_status = artifact_status_value (pa_status a), dp_is_current = pa_is_current a,
      dp_created_at = pa_created_at a, dp_deleted_at = pa_deleted_at a, dp_last_error = pa_last_error a\<rparr>"

end
