(* ===== verification/Http_Api.thy ===== *)
theory Http_Api
  imports Http_Schemas Agent_Controller
begin

text \<open>
  \<open>presentation/auth.py\<close> and \<open>presentation/http.py\<close>: the routes of the controller.  A route
  authenticates, checks its body, runs one use case and turns the outcome into a reply:
  \<open>Inl status\<close> is an error reply, \<open>Inr body\<close> the reply of success.  The framework checks the
  dependencies of a route (its authentication) before its body, answers 422 for a body that its
  schema refuses, and 500 for an exception no handler catches.
\<close>

section \<open>Authentication\<close>

text \<open>\<open>secrets.compare_digest\<close> of two strings.\<close>

definition compare_digest :: "string \<Rightarrow> string \<Rightarrow> bool result" where
  "compare_digest a b =
     (if ascii a \<and> ascii b then Inr (a = b)
      else Inl (TypeError ''comparing strings with non-ASCII characters is not supported''))"

definition ADMIN_USERNAME :: string where
  "ADMIN_USERNAME = ''admin''"

text \<open>\<open>expected\<close> is \<open>BASIC_AUTH_PASSWORD\<close>; the value is the status of a refusal or the user.\<close>

definition require_basic_auth :: "string option \<Rightarrow> (string \<times> string) option \<Rightarrow> nat + string" where
  "require_basic_auth expected credentials =
     (case (credentials, expected) of
        (Some (username, password), Some expected_password) \<Rightarrow>
          (case (compare_digest username ADMIN_USERNAME, compare_digest password expected_password) of
             (Inr username_matches, Inr password_matches) \<Rightarrow>
               if \<not> username_matches \<or> \<not> password_matches then Inl 401 else Inr username
           | _ \<Rightarrow> Inl 500)
      | _ \<Rightarrow> Inl 401)"

text \<open>The credentials of an agent are the scheme and the token of its header.\<close>

definition require_agent_credential :: "(string \<times> string) option \<Rightarrow> nat + string" where
  "require_agent_credential credentials =
     (case credentials of
        None \<Rightarrow> Inl 401
      | Some (scheme, token) \<Rightarrow> if lower scheme \<noteq> ''bearer'' then Inl 401 else Inr token)"

section \<open>Replies\<close>

text \<open>Run a use case; \<open>status\<close> maps what it raises, \<open>respond\<close> builds the body.\<close>

definition answer ::
    "(exn \<Rightarrow> nat) \<Rightarrow> ('a \<Rightarrow> 'b result) \<Rightarrow> ('s, 'a) sx \<Rightarrow> ('s, nat + 'b) sx" where
  "answer status respond m =
     bindS (tryS m) (\<lambda>outcome. returnS
       (case outcome of
          Inl e \<Rightarrow> Inl (status e)
        | Inr x \<Rightarrow> (case respond x of Inl e \<Rightarrow> Inl 500 | Inr y \<Rightarrow> Inr y)))"

definition uncaught :: "exn \<Rightarrow> nat" where
  "uncaught e = 500"

text \<open>The guard of every operator route.  The body arrives parsed: a body that is not JSON is answered
  with 422 by the framework before the credentials are looked at.\<close>

definition operator_only ::
    "string option \<Rightarrow> (string \<times> string) option \<Rightarrow> bool \<Rightarrow> ('s, nat + 'b) sx \<Rightarrow> ('s, nat + 'b) sx" where
  "operator_only expected credentials body_ok route =
     (case require_basic_auth expected credentials of
        Inl status \<Rightarrow> returnS (Inl status)
      | Inr user \<Rightarrow> if \<not> body_ok then returnS (Inl 422) else route)"

section \<open>What a process provides\<close>

text \<open>What the routes draw or read from their process: the password, the digest, the time, fresh
  ids and secrets, the signer (none when no key is configured), the policy of the preflight query,
  the connection to storage and the cleanup queue (none when no broker is configured).\<close>

record 'q api_env =
  ae_password :: "string option"
  ae_hash :: "string \<Rightarrow> string"
  ae_parse_time :: "string \<Rightarrow> datetime option"
  ae_now :: datetime
  ae_uuid :: "nat \<Rightarrow> uuid"
  ae_secret :: string
  ae_sign :: "(uuid \<Rightarrow> string \<Rightarrow> datetime \<Rightarrow> string result) option"
  ae_storage :: "('q, 'q truenas_client) sx option"
  ae_cleanup_queue :: "(uuid list \<Rightarrow> ('q, unit) sx) option"

section \<open>Stations\<close>

definition list_stations_route ::
    "'q api_env \<Rightarrow> (string \<times> string) option \<Rightarrow> bool \<Rightarrow> (db, nat + station_response list) sx" where
  "list_stations_route env credentials include_disabled =
     operator_only (ae_password env) credentials True
       (answer uncaught (\<lambda>ss. Inr (map station_response_of ss)) (list_stations include_disabled))"

definition create_station_status :: "exn \<Rightarrow> nat" where
  "create_station_status e = (case e of StationRegistrationConflictError m \<Rightarrow> 409 | _ \<Rightarrow> 500)"

definition station_draft :: "'q api_env \<Rightarrow> station_create_request \<Rightarrow> station" where
  "station_draft env q =
     new_station (ae_uuid env 0)
       (case scr_station_id q of None \<Rightarrow> ae_uuid env 1 | Some sid \<Rightarrow> sid)
       (scr_display_name q) (scr_hostname q) (scr_role q)
       (scr_target_name q) (scr_target_iqn q) (scr_initiator_iqn q)"

definition create_station_route ::
    "'q api_env \<Rightarrow> (string \<times> string) option \<Rightarrow> station_create_request
     \<Rightarrow> (db, nat + station_response \<times> string \<times> datetime) sx" where
  "create_station_route env credentials q =
     operator_only (ae_password env) credentials (station_create_ok q)
       (answer create_station_status
         (\<lambda>r. Inr (station_response_of (sg_station r), sg_enrollment_token r, sg_enrollment_expires_at r))
         (create_station (ae_hash env) (ae_uuid env 2) (ae_secret env) (ae_now env) (station_draft env q)))"

definition provisioning_token_route ::
    "'q api_env \<Rightarrow> (string \<times> string) option \<Rightarrow> (db, nat + string \<times> datetime) sx" where
  "provisioning_token_route env credentials =
     operator_only (ae_password env) credentials True
       (answer uncaught (\<lambda>r. Inr (pg_token r, pg_expires_at r))
         (create_provisioning_token (ae_hash env) (ae_uuid env 0) (ae_secret env) (ae_now env)))"

definition station_update_status :: "exn \<Rightarrow> nat" where
  "station_update_status e = (case e of StationNotFoundError m \<Rightarrow> 404 | _ \<Rightarrow> 500)"

definition update_station_route ::
    "'q api_env \<Rightarrow> (string \<times> string) option \<Rightarrow> uuid \<Rightarrow> station_update_request
     \<Rightarrow> (db, nat + station_response) sx" where
  "update_station_route env credentials sid q =
     operator_only (ae_password env) credentials (station_update_ok q)
       (answer station_update_status (\<lambda>s. Inr (station_response_of s))
         (update_station sid (sur_display_name q) (sur_hostname q) (sur_role q) (sur_enabled q)))"

definition update_storage_mapping_route ::
    "'q api_env \<Rightarrow> (string \<times> string) option \<Rightarrow> uuid \<Rightarrow> storage_mapping_request
     \<Rightarrow> (db, nat + station_response) sx" where
  "update_storage_mapping_route env credentials sid q =
     operator_only (ae_password env) credentials (storage_mapping_ok q)
       (answer station_update_status (\<lambda>s. Inr (station_response_of s))
         (update_station_storage_mapping sid (smr_target_name q) (smr_target_iqn q) (smr_initiator_iqn q)))"

definition delete_station_route ::
    "'q api_env \<Rightarrow> (string \<times> string) option \<Rightarrow> uuid \<Rightarrow> (db, nat + unit) sx" where
  "delete_station_route env credentials sid =
     operator_only (ae_password env) credentials True
       (bindS (tryS (delete_station sid (ae_now env))) (\<lambda>outcome. returnS
         (case outcome of
            Inl e \<Rightarrow> Inl 500
          | Inr deleted \<Rightarrow> if \<not> deleted then Inl 404 else Inr ())))"

section \<open>Agents\<close>

definition enroll_status :: "exn \<Rightarrow> nat" where
  "enroll_status e = (case e of EnrollmentRejectedError m \<Rightarrow> 409 | _ \<Rightarrow> 500)"

definition enroll_route :: "'q api_env \<Rightarrow> agent_enroll_request \<Rightarrow> (db, nat + enrollment_result) sx" where
  "enroll_route env q =
     (if \<not> agent_enroll_ok q then returnS (Inl 422)
      else answer enroll_status Inr
        (enroll_agent (ae_hash env) (ae_secret env) (ae_uuid env 0) (ae_now env)
          (aer_enrollment_token q) (aer_agent_uuid q) (aer_hostname q) (aer_agent_version q)
          (aer_ip_addresses q) (aer_mac_addresses q)))"

definition bootstrap_status :: "exn \<Rightarrow> nat" where
  "bootstrap_status e =
     (case e of ProvisioningConflictError m \<Rightarrow> 409 | ProvisioningRejectedError m \<Rightarrow> 409 | _ \<Rightarrow> 500)"

definition bootstrap_route ::
    "'q api_env \<Rightarrow> agent_bootstrap_request \<Rightarrow> (db, nat + enrollment_result) sx" where
  "bootstrap_route env q =
     (if \<not> agent_bootstrap_ok q then returnS (Inl 422)
      else answer bootstrap_status Inr
        (bootstrap_agent (ae_hash env) (ae_secret env) (ae_uuid env 0) (ae_uuid env 1) (ae_now env)
          (abr_provisioning_token q) (abr_station_id q) (abr_display_name q) (abr_hostname q)
          (abr_role q) (abr_agent_uuid q) (abr_agent_version q)
          (abr_ip_addresses q) (abr_mac_addresses q)))"

definition command_issue_status :: "exn \<Rightarrow> nat" where
  "command_issue_status e =
     (case e of AgentCommandAgentNotFoundError m \<Rightarrow> 404 | AgentCommandIssueError m \<Rightarrow> 422 | _ \<Rightarrow> 500)"

definition issue_command_route ::
    "'q api_env \<Rightarrow> (string \<times> string) option \<Rightarrow> uuid \<Rightarrow> string \<Rightarrow> int
     \<Rightarrow> (db, nat + uuid \<times> string \<times> datetime \<times> string) sx" where
  "issue_command_route env credentials agent_uuid name ttl_seconds =
     (case ae_sign env of
        None \<Rightarrow> returnS (Inl 404)
      | Some sign \<Rightarrow>
          operator_only (ae_password env) credentials (command_issue_ok name ttl_seconds)
            (answer command_issue_status
              (\<lambda>c. Inr (ac_id c, command_name_value (ac_name c), ac_expires_at c,
                        command_status_value (ac_status c)))
              (issue_agent_command sign (ae_uuid env 0) (ae_now env) (ae_now env) agent_uuid name
                (seconds ttl_seconds))))"

text \<open>The routes of an enrolled agent take its bearer credential.\<close>

definition agent_heartbeat_route ::
    "'q api_env \<Rightarrow> (string \<times> string) option \<Rightarrow> heartbeat_payload \<Rightarrow> (db, nat + heartbeat_result) sx" where
  "agent_heartbeat_route env credentials payload =
     (case require_agent_credential credentials of
        Inl status \<Rightarrow> returnS (Inl status)
      | Inr credential \<Rightarrow> heartbeat_route (ae_hash env) (ae_parse_time env) (ae_now env) payload credential)"

definition agent_acknowledge_route ::
    "'q api_env \<Rightarrow> (string \<times> string) option \<Rightarrow> uuid \<Rightarrow> (db, nat + unit) sx" where
  "agent_acknowledge_route env credentials command_id =
     (case require_agent_credential credentials of
        Inl status \<Rightarrow> returnS (Inl status)
      | Inr credential \<Rightarrow> acknowledge_route (ae_hash env) (ae_now env) command_id credential)"

section \<open>Preflight and process rules\<close>

definition preflight_status :: "exn \<Rightarrow> nat" where
  "preflight_status e = (case e of StationNotFoundError m \<Rightarrow> 404 | _ \<Rightarrow> 500)"

definition request_policy :: "preflight_request \<Rightarrow> preflight_policy" where
  "request_policy q =
     \<lparr>pp_max_snapshot_age = seconds (pfr_max_snapshot_age_seconds q),
      pp_required_drive_letter = pfr_required_drive_letter q, pp_min_free_bytes = pfr_min_free_bytes q\<rparr>"

definition preflight_route ::
    "'q api_env \<Rightarrow> (string \<times> string) option \<Rightarrow> preflight_request \<Rightarrow> (db, nat + preflight_response) sx" where
  "preflight_route env credentials q =
     operator_only (ae_password env) credentials (preflight_request_ok q)
       (answer preflight_status (\<lambda>r. Inr (preflight_response_of r))
         (evaluate_station_preflight (request_policy q) (ae_now env) (pfr_station_id q)))"

definition list_rules_route ::
    "'q api_env \<Rightarrow> (string \<times> string) option \<Rightarrow> (db, nat + (uuid \<times> process_rule) list) sx" where
  "list_rules_route env credentials =
     operator_only (ae_password env) credentials True
       (answer uncaught (mapR rule_response_of) list_process_rules)"

definition create_rule_route ::
    "'q api_env \<Rightarrow> (string \<times> string) option \<Rightarrow> rule_create_request \<Rightarrow> (db, nat + uuid \<times> process_rule) sx" where
  "create_rule_route env credentials q =
     operator_only (ae_password env) credentials (rule_create_ok q)
       (answer uncaught rule_response_of
         (create_process_rule (ae_uuid env 0) (rcr_name q) (rcr_role q) (rcr_required_closed q)
           (rcr_severity q) (rcr_enabled q) (rcr_persistent_policy q)))"

definition delete_rule_route ::
    "'q api_env \<Rightarrow> (string \<times> string) option \<Rightarrow> uuid \<Rightarrow> (db, nat + unit) sx" where
  "delete_rule_route env credentials rule_id =
     operator_only (ae_password env) credentials True
       (bindS (tryS (delete_process_rule rule_id)) (\<lambda>outcome. returnS
         (case outcome of
            Inl e \<Rightarrow> Inl 500
          | Inr deleted \<Rightarrow> if \<not> deleted then Inl 404 else Inr ())))"

section \<open>Datasets\<close>

definition dataset_sync_status :: "exn \<Rightarrow> nat" where
  "dataset_sync_status e = (case e of DatasetStorageSyncError m \<Rightarrow> 503 | _ \<Rightarrow> 500)"

definition list_datasets_route ::
    "'q api_env \<Rightarrow> (string \<times> string) option \<Rightarrow> bool \<Rightarrow> (db \<times> 'q, nat + dataset_response list) sx" where
  "list_datasets_route env credentials include_deleted =
     operator_only (ae_password env) credentials True
       (answer dataset_sync_status (\<lambda>as. Inr (map dataset_response_of as))
         (list_datasets (ae_storage env) include_deleted))"

definition dataset_delete_status :: "exn \<Rightarrow> nat" where
  "dataset_delete_status e =
     (case e of DatasetSelectionError m \<Rightarrow> 422 | DatasetStorageSyncError m \<Rightarrow> 503 | _ \<Rightarrow> 500)"

definition delete_datasets_route ::
    "'q api_env \<Rightarrow> (string \<times> string) option \<Rightarrow> uuid list \<Rightarrow> (db \<times> 'q, nat + uuid list) sx" where
  "delete_datasets_route env credentials ids =
     (case ae_cleanup_queue env of
        None \<Rightarrow> returnS (Inl 404)
      | Some enqueue \<Rightarrow>
          operator_only (ae_password env) credentials (dataset_delete_ok ids)
            (answer dataset_delete_status Inr (queue_dataset_cleanup enqueue (ae_storage env) ids)))"

section \<open>Publish jobs\<close>

definition job_create_status :: "exn \<Rightarrow> nat" where
  "job_create_status e =
     (case e of PublishIdempotencyConflictError m \<Rightarrow> 409 | PublishDraftValidationError m \<Rightarrow> 422
      | _ \<Rightarrow> 500)"

text \<open>\<open>correlation_id=payload.correlation_id or uuid4()\<close>: a request without one gets a fresh id.\<close>

definition job_request :: "'q api_env \<Rightarrow> job_create_request \<Rightarrow> publish_request" where
  "job_request env q =
     \<lparr>rq_label = jcr_label q, rq_source_dataset = jcr_source_dataset q,
      rq_station_ids = jcr_station_ids q, rq_idempotency_key = jcr_idempotency_key q,
      rq_correlation_id = (case jcr_correlation_id q of None \<Rightarrow> ae_uuid env 0 | Some c \<Rightarrow> c),
      rq_description = jcr_description q, rq_dry_run = jcr_dry_run q,
      rq_allow_hot_switch = jcr_allow_hot_switch q, rq_operator_id = None\<rparr>"

definition create_job_route ::
    "'q api_env \<Rightarrow> (string \<times> string) option \<Rightarrow> job_create_request \<Rightarrow> (db, nat + job_draft_response) sx" where
  "create_job_route env credentials q =
     operator_only (ae_password env) credentials (job_create_ok q)
       (answer job_create_status (\<lambda>r. Inr (job_draft_response_of r))
         (create_publish_job (ae_uuid env 1) (\<lambda>i. ae_uuid env (i + 2)) (ae_now env) (job_request env q)))"

definition job_lookup_status :: "exn \<Rightarrow> nat" where
  "job_lookup_status e = (case e of PublishJobNotFoundError m \<Rightarrow> 404 | _ \<Rightarrow> 500)"

definition get_job_route ::
    "'q api_env \<Rightarrow> (string \<times> string) option \<Rightarrow> uuid \<Rightarrow> (db, nat + job_response) sx" where
  "get_job_route env credentials job_id =
     operator_only (ae_password env) credentials True
       (answer job_lookup_status (\<lambda>v. Inr (job_response_of v)) (get_publish_job job_id))"

definition list_jobs_route ::
    "'q api_env \<Rightarrow> (string \<times> string) option \<Rightarrow> int \<Rightarrow> (db, nat + history_response list) sx" where
  "list_jobs_route env credentials limit =
     operator_only (ae_password env) credentials (1 \<le> limit \<and> limit \<le> 100)
       (answer uncaught (\<lambda>js. Inr (map history_response_of js)) (list_publish_jobs limit))"

definition prepare_status :: "exn \<Rightarrow> nat" where
  "prepare_status e =
     (case e of PublishJobNotFoundError m \<Rightarrow> 404 | PublishConfirmationStateError m \<Rightarrow> 409 | _ \<Rightarrow> 500)"

text \<open>The preflight query of the process runs with the default policy.\<close>

definition default_policy :: preflight_policy where
  "default_policy =
     \<lparr>pp_max_snapshot_age = seconds 30, pp_required_drive_letter = ''D:'', pp_min_free_bytes = 0\<rparr>"

definition prepare_job_route ::
    "'q api_env \<Rightarrow> (string \<times> string) option \<Rightarrow> uuid \<Rightarrow> uuid option \<Rightarrow> bool option
     \<Rightarrow> (db, nat + prepare_response) sx" where
  "prepare_job_route env credentials job_id admin_station_id confirmation =
     operator_only (ae_password env) credentials True
       (answer prepare_status (\<lambda>r. Inr (prepare_response_of r))
         (prepare_publish_job (evaluate_station_preflight default_policy (ae_now env)) (ae_now env)
           job_id admin_station_id confirmation))"

definition dispatch_status :: "exn \<Rightarrow> nat" where
  "dispatch_status e =
     (case e of PublishJobNotFoundError m \<Rightarrow> 404 | PublishDispatchStateError m \<Rightarrow> 409 | _ \<Rightarrow> 500)"

definition dispatch_job_route ::
    "'q api_env \<Rightarrow> (string \<times> string) option \<Rightarrow> uuid \<Rightarrow> (db, nat + uuid \<times> job_status) sx" where
  "dispatch_job_route env credentials job_id =
     operator_only (ae_password env) credentials True
       (answer dispatch_status (\<lambda>j. Inr (pj_id j, pj_status j))
         (dispatch_publish_job (ae_uuid env 0) (ae_now env) job_id))"

section \<open>The operator's API as one function\<close>

text \<open>Every route behind the operator's password, with the status of its reply.\<close>

datatype operator_request =
    OpHealth
  | OpListStations bool
  | OpCreateStation station_create_request
  | OpProvisioningToken
  | OpUpdateStation uuid station_update_request
  | OpStorageMapping uuid storage_mapping_request
  | OpDeleteStation uuid
  | OpIssueCommand uuid string int
  | OpPreflight preflight_request
  | OpListRules
  | OpCreateRule rule_create_request
  | OpDeleteRule uuid
  | OpListDatasets bool
  | OpDeleteDatasets "uuid list"
  | OpCreateJob job_create_request
  | OpGetJob uuid
  | OpListJobs int
  | OpPrepareJob uuid "uuid option" "bool option"
  | OpDispatchJob uuid

definition replied :: "nat \<Rightarrow> ('s, nat + 'b) sx \<Rightarrow> ('s, nat) sx" where
  "replied success route =
     bindS route (\<lambda>r. returnS (case r of Inl status \<Rightarrow> status | Inr body \<Rightarrow> success))"

definition health_route :: "'q api_env \<Rightarrow> (string \<times> string) option \<Rightarrow> (db, nat + unit) sx" where
  "health_route env credentials = operator_only (ae_password env) credentials True (returnS (Inr ()))"

fun operator_api ::
    "'q api_env \<Rightarrow> (string \<times> string) option \<Rightarrow> operator_request \<Rightarrow> (db \<times> 'q, nat) sx" where
  "operator_api env cr OpHealth = replied 200 (on_db (health_route env cr))"
| "operator_api env cr (OpListStations b) = replied 200 (on_db (list_stations_route env cr b))"
| "operator_api env cr (OpCreateStation q) = replied 201 (on_db (create_station_route env cr q))"
| "operator_api env cr OpProvisioningToken = replied 201 (on_db (provisioning_token_route env cr))"
| "operator_api env cr (OpUpdateStation sid q) = replied 200 (on_db (update_station_route env cr sid q))"
| "operator_api env cr (OpStorageMapping sid q) =
     replied 200 (on_db (update_storage_mapping_route env cr sid q))"
| "operator_api env cr (OpDeleteStation sid) = replied 204 (on_db (delete_station_route env cr sid))"
| "operator_api env cr (OpIssueCommand u name ttl) =
     replied 201 (on_db (issue_command_route env cr u name ttl))"
| "operator_api env cr (OpPreflight q) = replied 200 (on_db (preflight_route env cr q))"
| "operator_api env cr OpListRules = replied 200 (on_db (list_rules_route env cr))"
| "operator_api env cr (OpCreateRule q) = replied 201 (on_db (create_rule_route env cr q))"
| "operator_api env cr (OpDeleteRule rid) = replied 204 (on_db (delete_rule_route env cr rid))"
| "operator_api env cr (OpListDatasets b) = replied 200 (list_datasets_route env cr b)"
| "operator_api env cr (OpDeleteDatasets ids) = replied 202 (delete_datasets_route env cr ids)"
| "operator_api env cr (OpCreateJob q) = replied 201 (on_db (create_job_route env cr q))"
| "operator_api env cr (OpGetJob jid) = replied 200 (on_db (get_job_route env cr jid))"
| "operator_api env cr (OpListJobs limit) = replied 200 (on_db (list_jobs_route env cr limit))"
| "operator_api env cr (OpPrepareJob jid admin c) =
     replied 200 (on_db (prepare_job_route env cr jid admin c))"
| "operator_api env cr (OpDispatchJob jid) = replied 200 (on_db (dispatch_job_route env cr jid))"

end
