(* ===== verification/Api_Properties.thy ===== *)
theory Api_Properties
  imports Http_Api Publish_Creation
begin

text \<open>
  What holds of the controller's HTTP API: who gets past its guard, and how the routes answer
  repeated and refused requests.
\<close>

section \<open>Routes as computations\<close>

lemma answer_run:
  "answer status respond m s =
     (case m s of
        (Inl e, t) \<Rightarrow> (Inr (Inl (status e)), t)
      | (Inr x, t) \<Rightarrow> (Inr (case respond x of Inl e \<Rightarrow> Inl 500 | Inr y \<Rightarrow> Inr y), t))"
  by (simp add: answer_def bindS_def tryS_def returnS_def split: prod.split sum.split)

lemma operator_only_denied:
  "require_basic_auth expected cr = Inl status \<Longrightarrow> operator_only expected cr ok route s = (Inr (Inl status), s)"
  by (simp add: operator_only_def returnS_def)

lemma operator_only_granted:
  "require_basic_auth expected cr = Inr user \<Longrightarrow> ok \<Longrightarrow> operator_only expected cr ok route = route"
  by (simp add: operator_only_def)

lemma replied_run: "route s = (Inr r, t) \<Longrightarrow>
    replied success route s = (Inr (case r of Inl status \<Rightarrow> status | Inr body \<Rightarrow> success), t)"
  by (simp add: replied_def bindS_def returnS_def)

lemma on_db_run: "route d = (r, d') \<Longrightarrow> on_db route (d, x) = (r, (d', x))"
  by (simp add: on_db_def)

section \<open>The guard\<close>

lemma require_basic_auth_Inr_iff:
  "require_basic_auth expected cr = Inr user \<longleftrightarrow>
     user = ''admin'' \<and> (\<exists>pw. expected = Some pw \<and> cr = Some (''admin'', pw) \<and> ascii pw)"
  by (auto simp: require_basic_auth_def compare_digest_def ADMIN_USERNAME_def ascii_def code_def
      split: option.splits prod.splits if_splits)

lemma ascii_admin: "ascii ''admin''"
  by (simp add: ascii_def code_def)

lemma require_basic_auth_status:
  "require_basic_auth expected cr = Inl status \<Longrightarrow> status = 401 \<or>
     (status = 500 \<and> (\<exists>pw user given. expected = Some pw \<and> cr = Some (user, given)
        \<and> \<not> (ascii pw \<and> ascii user \<and> ascii given)))"
  using ascii_admin
  by (auto simp: require_basic_auth_def compare_digest_def ADMIN_USERNAME_def
      split: option.splits prod.splits if_splits sum.splits)

text \<open>Two routes exist only when their process is configured for them.\<close>

definition route_absent :: "'q api_env \<Rightarrow> operator_request \<Rightarrow> bool" where
  "route_absent env req =
     (case req of
        OpIssueCommand u name ttl \<Rightarrow> ae_sign env = None
      | OpDeleteDatasets ids \<Rightarrow> ae_cleanup_queue env = None
      | _ \<Rightarrow> False)"

lemma operator_api_denied:
  assumes "require_basic_auth (ae_password env) cr = Inl status"
  shows "operator_api env cr req (d, x) = (Inr (if route_absent env req then 404 else status), (d, x))"
proof -
  note denied = operator_only_denied [OF assms]
  show ?thesis
    by (cases req)
      (simp_all add: replied_def on_db_def bindS_def returnS_def denied route_absent_def health_route_def
        list_stations_route_def create_station_route_def provisioning_token_route_def
        update_station_route_def update_storage_mapping_route_def delete_station_route_def
        issue_command_route_def preflight_route_def list_rules_route_def create_rule_route_def
        delete_rule_route_def list_datasets_route_def delete_datasets_route_def create_job_route_def
        get_job_route_def list_jobs_route_def prepare_job_route_def dispatch_job_route_def
        split: option.split)
qed

text \<open>C9. Nothing of the operator's API works without the password: unless the process has a
  password configured and the request carries the user \<open>admin\<close> with exactly that password, every
  one of the nineteen routes leaves the database and the storage as they were and answers 401 (500
  only when one of the compared texts is not ASCII, 404 only for a route the process was not
  configured for).\<close>

theorem operator_api_locked:
  assumes "\<not> (\<exists>pw. ae_password env = Some pw \<and> cr = Some (''admin'', pw))"
  shows "\<exists>status. operator_api env cr req (d, x) = (Inr status, (d, x))
    \<and> (status = 401 \<or> (status = 404 \<and> route_absent env req)
       \<or> (status = 500 \<and> (\<exists>pw user given. ae_password env = Some pw \<and> cr = Some (user, given)
            \<and> \<not> (ascii pw \<and> ascii user \<and> ascii given))))"
proof -
  obtain status where denied: "require_basic_auth (ae_password env) cr = Inl status"
    using assms require_basic_auth_Inr_iff [of "ae_password env" cr]
    by (cases "require_basic_auth (ae_password env) cr") auto
  from operator_api_denied [OF denied] require_basic_auth_status [OF denied]
  show ?thesis by auto
qed

section \<open>Repeated drafts\<close>

text \<open>The answer of the draft route to an authenticated, well-formed request.\<close>

lemma create_job_route_run:
  assumes "require_basic_auth (ae_password env) cr = Inr user" and "job_create_ok q"
  shows "create_job_route env cr q =
    answer job_create_status (\<lambda>r. Inr (job_draft_response_of r))
      (create_publish_job (ae_uuid env 1) (\<lambda>i. ae_uuid env (i + 2)) (ae_now env) (job_request env q))"
  unfolding create_job_route_def by (rule operator_only_granted [OF assms])

lemma create_job_route_Inr:
  assumes "create_job_route env cr q d = (Inr (Inr r), d')"
  obtains user job ts where "require_basic_auth (ae_password env) cr = Inr user" and "job_create_ok q"
    and "create_publish_job (ae_uuid env 1) (\<lambda>i. ae_uuid env (i + 2)) (ae_now env) (job_request env q) d
      = (Inr (job, ts), d')"
    and "r = job_draft_response_of (job, ts)"
  using assms
  by (auto simp: create_job_route_def operator_only_def answer_run returnS_def
      split: sum.splits if_splits prod.splits)

text \<open>C11. The idempotency key does not protect a client that leaves the correlation id to the
  server.  When such a request created its draft and is sent again, the route draws another
  correlation id for it, finds the draft under the key, and answers 409 as to a different request.
  Only the client that repeats the id of the first answer gets its draft again.  The database does
  not change in either case.\<close>

theorem draft_retry_conflicts:
  assumes "integrity d" and "ae_now env = Aware now 0"
    and run: "create_job_route env cr q d = (Inr (Inr r), d')"
    and anonymous: "jcr_correlation_id q = None"
    and password: "ae_password env' = ae_password env"
    and drawn: "ae_uuid env' 0 \<noteq> ae_uuid env 0"
  shows "create_job_route env' cr q d' = (Inr (Inl 409), d')
    \<and> (\<exists>r'. create_job_route env' cr (q\<lparr>jcr_correlation_id := Some (dr_correlation_id r)\<rparr>) d'
          = (Inr (Inr r'), d') \<and> dr_id r' = dr_id r)"
proof -
  obtain user job ts where auth: "require_basic_auth (ae_password env) cr = Inr user"
    and ok: "job_create_ok q" and r: "r = job_draft_response_of (job, ts)"
    and created: "create_publish_job (ae_uuid env 1) (\<lambda>i. ae_uuid env (i + 2)) (Aware now 0)
      (job_request env q) d = (Inr (job, ts), d')"
    using create_job_route_Inr [OF run] assms(2) by metis
  obtain row ts' where row: "job_by_key d' (rq_idempotency_key (job_request env q)) = Some row"
    "row_job row = job" "targets_list_for_job (jr_id row) d' = (Inr ts', d')"
    and same: "same_request job ts' (job_request env q)"
    by (rule created_state [OF assms(1) created])
  have corr: "pj_correlation_id job = ae_uuid env 0"
    using same anonymous by (simp add: same_request_def job_request_def)
  let ?again = "q\<lparr>jcr_correlation_id := Some (dr_correlation_id r)\<rparr>"
  have key: "rq_idempotency_key (job_request env' p) = rq_idempotency_key (job_request env q)"
    if "p = q \<or> p = ?again" for p
    using that by (auto simp: job_request_def)
  have valid: "validate_request (job_request env' p) = Inr ()" if "p = q \<or> p = ?again" for p
    using create_valid [OF created] that
    by (auto simp: job_request_def validate_request_def split: if_splits)
  have step: "create_publish_job j f c (job_request env' p) d' =
      (if same_request job ts' (job_request env' p) then Inr (job, ts')
       else Inl (PublishIdempotencyConflictError
              ''idempotency key is already used by another publish request''), d')"
    if "p = q \<or> p = ?again" for p j f c
    using create_again [OF _ valid [OF that] row(3), of j f c] key [OF that] row(1,2) by simp
  have "\<not> same_request job ts' (job_request env' q)"
    using corr drawn anonymous by (simp add: same_request_def job_request_def)
  then have "create_job_route env' cr q d' = (Inr (Inl 409), d')"
    using step [of q] create_job_route_run [of env' cr user q] auth ok password
    by (simp add: answer_run job_create_status_def)
  moreover have "same_request job ts' (job_request env' ?again)"
    using same corr r anonymous by (simp add: same_request_def job_request_def job_draft_response_of_def)
  then have "create_job_route env' cr ?again d' = (Inr (Inr (job_draft_response_of (job, ts'))), d')"
    using step [of ?again] create_job_route_run [of env' cr user ?again] auth ok password
    by (simp add: answer_run job_create_ok_def)
  ultimately show ?thesis using r by (auto simp: job_draft_response_of_def)
qed

section \<open>Valid requests that end in an internal error\<close>

text \<open>Three requests of an authenticated operator that satisfy their schema are answered with an
  internal error (500), nothing stored: a station or a process rule whose name is only white space
  (the use case refuses it with an exception no handler of the route expects), and a preparation
  that names an administrator station the registry does not have (the route handles a missing job
  only).\<close>

lemma valid_requests_crash:
  assumes auth: "require_basic_auth (ae_password env) cr = Inr user"
    and station: "station_create_ok q" "blank (scr_display_name q)"
    and rule: "rule_create_ok p" "blank (rcr_name p)"
    and job: "with_uow (load_job_targets jid) d = (Inr (job, ts), d)" "validate_prepare_status job = Inr ()"
    and admin: "station_by d sid = None"
  shows "create_station_route env cr q d = (Inr (Inl 500), d)
    \<and> create_rule_route env cr p d = (Inr (Inl 500), d)
    \<and> prepare_job_route env cr jid (Some sid) confirmation d = (Inr (Inl 500), d)"
proof (intro conjI)
  have "mk_station (station_draft env q) = Inl (ValueError ''display_name must not be blank'')"
    using station(2) by (simp add: mk_station_def station_draft_def new_station_def)
  then show "create_station_route env cr q d = (Inr (Inl 500), d)"
    unfolding create_station_route_def operator_only_granted [OF auth station(1)]
    by (simp add: answer_run create_station_def Let_def bindS_def liftR_def create_station_status_def)
  show "create_rule_route env cr p d = (Inr (Inl 500), d)"
    unfolding create_rule_route_def operator_only_granted [OF auth rule(1)]
    using rule(2) by (simp add: answer_run create_process_rule_def Let_def raiseS_def uncaught_def blank_def)
  have "evaluate_station_preflight default_policy (ae_now env) sid d =
      (Inl (StationNotFoundError ''station not found''), d)"
    using admin by (simp add: evaluate_station_preflight_def sx_simps stations_get_def)
  then show "prepare_job_route env cr jid (Some sid) confirmation d = (Inr (Inl 500), d)"
    unfolding prepare_job_route_def operator_only_granted [OF auth TrueI]
    using job by (simp add: answer_run prepare_publish_job_def bindS_def liftR_def Let_def prepare_status_def)
qed

section \<open>Instances\<close>

text \<open>A process with a password, a digest that is the identity, and no signer, storage or queue;
  its ids count from \<open>base\<close>.\<close>

definition sample_api :: "uuid \<Rightarrow> unit api_env" where
  "sample_api base =
     \<lparr>ae_password = Some ''secret'', ae_hash = (\<lambda>s. s), ae_parse_time = (\<lambda>s. None), ae_now = Aware 0 0,
      ae_uuid = (\<lambda>i. base + of_nat i), ae_secret = ''token'', ae_sign = None, ae_storage = None,
      ae_cleanup_queue = None\<rparr>"

definition sample_admin :: "(string \<times> string) option" where
  "sample_admin = Some (''admin'', ''secret'')"

lemma sample_admin_granted: "require_basic_auth (ae_password (sample_api base)) sample_admin = Inr ''admin''"
  by (simp add: require_basic_auth_Inr_iff sample_api_def sample_admin_def ascii_def code_def)

theorem operator_api_locked_witness:
  "operator_api (sample_api 20) (Some (''admin'', ''guess'')) (OpDeleteStation 2) (sample_db, ())
     = (Inr 401, (sample_db, ()))"
proof -
  have "\<not> (\<exists>pw. ae_password (sample_api 20) = Some pw \<and> Some (''admin'', ''guess'') = Some (''admin'', pw))"
    by (simp add: sample_api_def)
  from operator_api_locked [OF this, of "OpDeleteStation 2" sample_db "()"] show ?thesis
    by (auto simp: route_absent_def sample_api_def ascii_def code_def)
qed

definition sample_draft :: job_create_request where
  "sample_draft =
     \<lparr>jcr_label = ''spring'', jcr_source_dataset = ''tank/golden'', jcr_description = None,
      jcr_station_ids = [2], jcr_idempotency_key = ''key'', jcr_correlation_id = None,
      jcr_dry_run = False, jcr_allow_hot_switch = False\<rparr>"

theorem draft_retry_conflicts_witness:
  "\<exists>r d'. create_job_route (sample_api 20) sample_admin sample_draft enrolled_sample_db = (Inr (Inr r), d')
     \<and> create_job_route (sample_api 40) sample_admin sample_draft d' = (Inr (Inl 409), d')"
proof -
  have "case create_job_route (sample_api 20) sample_admin sample_draft enrolled_sample_db of
      (Inr (Inr r), d') \<Rightarrow> True | _ \<Rightarrow> False"
    by code_simp
  then obtain r d' where run: "create_job_route (sample_api 20) sample_admin sample_draft enrolled_sample_db
      = (Inr (Inr r), d')"
    by (auto split: prod.splits sum.splits)
  from draft_retry_conflicts [OF integrity_enrolled_sample_db _ run, of 0 "sample_api 40"] run
  show ?thesis by (auto simp: sample_api_def sample_draft_def)
qed

definition blank_station :: station_create_request where
  "blank_station =
     \<lparr>scr_station_id = None, scr_display_name = '' '', scr_hostname = ''pc-2'', scr_role = CLIENT,
      scr_target_name = None, scr_target_iqn = None, scr_initiator_iqn = None\<rparr>"

definition blank_rule :: rule_create_request where
  "blank_rule =
     \<lparr>rcr_name = '' '', rcr_role = None, rcr_required_closed = True, rcr_severity = SEV_BLOCKING,
      rcr_enabled = True, rcr_persistent_policy = False\<rparr>"

lemma valid_requests_crash_witness:
  "create_station_route (sample_api 20) sample_admin blank_station draft_db = (Inr (Inl 500), draft_db)
   \<and> prepare_job_route (sample_api 20) sample_admin (jr_id sample_job) (Some 99) None draft_db
       = (Inr (Inl 500), draft_db)"
proof -
  have "case with_uow (load_job_targets (jr_id sample_job)) draft_db of
      (Inr (job, ts), d') \<Rightarrow> validate_prepare_status job = Inr () | _ \<Rightarrow> False"
    by code_simp
  moreover have "snd (with_uow (load_job_targets (jr_id sample_job)) draft_db) = draft_db"
    by (rule with_uow_readonly) (simp add: load_job_targets_def split_def keeps_intros keeps_sess_committed)
  ultimately obtain job ts where job: "with_uow (load_job_targets (jr_id sample_job)) draft_db
      = (Inr (job, ts), draft_db)" "validate_prepare_status job = Inr ()"
    by (auto split: prod.splits sum.splits)
  have "station_create_ok blank_station" "blank (scr_display_name blank_station)"
    "rule_create_ok blank_rule" "blank (rcr_name blank_rule)" "station_by draft_db 99 = None"
    by code_simp+
  from valid_requests_crash [OF sample_admin_granted this(1-4) job this(5)] show ?thesis by blast
qed

end
