(* ===== verification/Api_Invariant.thy ===== *)
theory Api_Invariant
  imports Api_Properties Station_Properties
begin

text \<open>
  Every request of the operator keeps the constraints of the database and the readability of its
  stations, so the listing answers after any sequence of them.
\<close>

section \<open>Computations on database and storage\<close>

definition sound_state :: "db \<times> 'q \<Rightarrow> bool" where
  "sound_state s \<longleftrightarrow> integrity (fst s) \<and> readable (fst s)"

lemma keeps_conj: "keeps P m \<Longrightarrow> keeps Q m \<Longrightarrow> keeps (\<lambda>s. P s \<and> Q s) m"
  by (simp add: keeps_def)

lemma on_db_state: "snd (on_db m s) = (snd (m (fst s)), snd s)"
  by (cases s) (simp add: on_db_def split: prod.split)

lemma sound_on_db:
  "keeps integrity m \<Longrightarrow> (\<And>d. integrity d \<Longrightarrow> readable d \<Longrightarrow> readable (snd (m d))) \<Longrightarrow>
    keeps sound_state (on_db m)"
  by (simp add: keeps_def sound_state_def on_db_state)

lemma sound_on_db': "keeps integrity m \<Longrightarrow> keeps readable m \<Longrightarrow> keeps sound_state (on_db m)"
  by (rule sound_on_db) (auto simp: keeps_def)

lemma sound_on_ext: "keeps sound_state (on_ext m)"
  by (auto simp: keeps_def sound_state_def on_ext_def split: prod.splits)

lemma keeps_answer: "keeps P m \<Longrightarrow> keeps P (answer status respond m)"
  unfolding answer_def by (intro keeps_bind keeps_try keeps_return)

lemma keeps_operator_only: "keeps P route \<Longrightarrow> keeps P (operator_only expected cr ok route)"
  unfolding operator_only_def by (intro keeps_sum keeps_if keeps_return)

lemma keeps_replied: "keeps P route \<Longrightarrow> keeps P (replied success route)"
  unfolding replied_def by (intro keeps_bind keeps_return)

lemma answer_state: "snd (answer status respond m s) = snd (m s)"
  by (simp add: answer_run split: prod.split sum.split)

section \<open>The other calls of the repositories\<close>

lemma readable_tables [simp]:
  "readable (d\<lparr>process_rules := rs\<rparr>) = readable d" "readable (d\<lparr>outbox_events := es\<rparr>) = readable d"
  "readable (d\<lparr>provisioning_tokens := vs\<rparr>) = readable d" "readable (d\<lparr>agent_commands := cs\<rparr>) = readable d"
  "readable (d\<lparr>publish_jobs := js\<rparr>) = readable d" "readable (d\<lparr>publish_targets := ts\<rparr>) = readable d"
  "readable (d\<lparr>publish_artifacts := ps\<rparr>) = readable d"
  by (simp_all add: readable_def)

lemma readable_other_calls:
  "safe readable (stations_list b)" "safe readable rules_list_all" "safe readable (rules_list_for_role r)"
  "safe readable (rules_add i rule)" "safe readable (rules_delete i)"
  "safe readable (jobs_get_by_idempotency_key key)" "safe readable (jobs_list_recent limit)"
  "safe readable (jobs_add now j)" "safe readable (commands_add now c)" "safe readable (outbox_add now e)"
  "safe readable (provisioning_add t)" "safe readable (snapshots_latest sid)"
  "safe readable (artifacts_list_for_job jid)" "safe readable (artifacts_list_all deleted)"
  "safe readable (artifacts_list_by_ids ids)" "safe readable (artifacts_set_current sid aid)"
  by (rule safe_keeps; simp add: keeps_def rules_list_all_def rules_list_for_role_def rules_add_def
      rules_delete_def jobs_get_by_idempotency_key_def jobs_list_recent_def jobs_add_def commands_add_def
      outbox_add_def provisioning_add_def artifacts_list_for_job_def artifacts_list_all_def
      artifacts_list_by_ids_def artifacts_set_current_def)+

lemma readable_targets_add_many: "safe readable (targets_add_many now ts)"
proof (rule safe_keeps)
  have "keeps readable (targets_add now t)" for t
    by (simp add: keeps_def targets_add_def split: option.split)
  then show "keeps readable (targets_add_many now ts)"
    unfolding targets_add_many_def by (rule keeps_forS)
qed

lemmas every_call = readable_calls readable_other_calls readable_targets_add_many

section \<open>The use cases behind the routes\<close>

lemma registry_readable:
  "keeps readable (list_stations b)"
  "keeps readable (create_provisioning_token H i raw now)"
  "keeps readable (issue_agent_command sign i now clock u name ttl)"
  "keeps readable list_process_rules"
  "keeps readable (create_process_rule i rname role must_close severity enabled policy)"
  "keeps readable (delete_process_rule i)"
  unfolding list_stations_def create_provisioning_token_def issue_agent_command_def Let_def
    list_process_rules_def create_process_rule_def delete_process_rule_def agents_get_by_agent_uuid_def
  by (intro keeps_if keeps_raise safe_with_uow safe_body every_call)+

lemma preflight_keeps: "keeps P (evaluate_station_preflight policy now sid)"
  by (simp add: keeps_def)

lemma safe_load_job_targets: "safe_uow readable (load_job_targets jid)"
  unfolding load_job_targets_def by (intro safe_body every_call)

lemma safe_check_station: "safe_uow readable (check_station sid)"
  unfolding check_station_def by (intro safe_body every_call)

lemma jobs_readable:
  "keeps readable (create_publish_job jid fresh now q)"
  "keeps readable (get_publish_job jid)" "keeps readable (list_publish_jobs limit)"
  "keeps readable (dispatch_publish_job i now jid)"
  unfolding create_publish_job_def get_publish_job_def list_publish_jobs_def dispatch_publish_job_def Let_def
  by (intro keeps_lift_then safe_with_uow safe_body every_call safe_load_job_targets safe_check_station)+

lemma prepare_readable:
  "keeps readable (prepare_publish_job (evaluate_station_preflight policy now) clock jid admin confirmation)"
  unfolding prepare_publish_job_def persist_prepared_def Let_def
  by (intro keeps_bind keeps_prod keeps_lift_then keeps_option keeps_mapS preflight_keeps keeps_return
      safe_with_uow safe_body every_call safe_load_job_targets)

lemma prepare_integrity:
  "keeps integrity (prepare_publish_job (evaluate_station_preflight policy now) clock jid admin confirmation)"
  by (rule publish_cases_keep(2)) (rule preflight_keeps)

section \<open>Datasets\<close>

lemma persist_current_keeps:
  "keeps integrity (persist_current_state artifacts live)"
  "keeps readable (persist_current_state artifacts live)"
proof -
  show "keeps integrity (persist_current_state artifacts live)"
    unfolding persist_current_state_def by (intro keeps_intros)
  have "safe_uow readable (case x of (sid, m) \<Rightarrow> sess (artifacts_set_current sid (current_id artifacts sid m)))"
    for x by (intro safe_body every_call)
  then show "keeps readable (persist_current_state artifacts live)"
    unfolding persist_current_state_def
    by (intro keeps_if keeps_return safe_with_uow safe_bind safe_forS safe_commit)
qed

lemma safe_stations_of: "safe_uow readable (stations_of selected)"
proof -
  have "safe_uow readable (foldS (\<lambda>stations_by_id artifact.
       bindS (sess (stations_get (pa_station_id artifact))) (\<lambda>found.
       returnS (case found of
                  None \<Rightarrow> stations_by_id
                | Some st \<Rightarrow> AList.update (st_station_id st) st stations_by_id))) b selected)" for b
    by (induction selected arbitrary: b)
      (auto intro!: safe_return safe_bind safe_sess every_call)
  then show ?thesis by (simp add: stations_of_def)
qed

lemma load_selection_keeps: "keeps integrity (load_selection live ids)" "keeps readable (load_selection live ids)"
proof -
  have "keeps sound_uow (stations_of selected)" for selected
  proof -
    have "keeps sound_uow (foldS (\<lambda>stations_by_id artifact.
         bindS (sess (stations_get (pa_station_id artifact))) (\<lambda>found.
         returnS (case found of
                    None \<Rightarrow> stations_by_id
                  | Some st \<Rightarrow> AList.update (st_station_id st) st stations_by_id))) b selected)" for b
      by (induction selected arbitrary: b) (auto intro!: keeps_intros)
    then show ?thesis by (simp add: stations_of_def)
  qed
  then show "keeps integrity (load_selection live ids)"
    unfolding load_selection_def by (intro keeps_intros)
  show "keeps readable (load_selection live ids)"
    unfolding load_selection_def by (intro safe_with_uow safe_body every_call safe_stations_of)
qed

lemma sound_list_datasets: "keeps sound_state (list_datasets storage include_deleted)"
proof (cases storage)
  case None
  then show ?thesis
    unfolding list_datasets_def
    by (simp, intro sound_on_db' keeps_intros safe_with_uow safe_body every_call)
next
  case (Some connect)
  then show ?thesis
    unfolding list_datasets_def Let_def
    by (simp, intro keeps_bind keeps_prod keeps_return sound_on_db' sound_on_ext persist_current_keeps
        keeps_with_uow keeps_sess safe_with_uow safe_body every_call)
qed

lemma sound_queue_cleanup: "keeps sound_state (queue_dataset_cleanup enqueue storage ids)"
  unfolding queue_dataset_cleanup_def Let_def
  by (intro keeps_if keeps_raise keeps_bind keeps_prod keeps_option keeps_return keeps_lift sound_on_db'
      sound_on_ext load_selection_keeps persist_current_keeps)

section \<open>Every request\<close>

lemmas sound_route = keeps_replied keeps_answer keeps_operator_only keeps_bind keeps_return keeps_try

lemma sound_station_update:
  "keeps sound_state (on_db (update_station sid dn hn role enabled))"
  by (rule sound_on_db) (use registry_keeps(2) update_station_readable in auto)

lemma on_db_answer: "keeps (sound_state :: db \<times> 'q \<Rightarrow> bool) (on_db m) \<Longrightarrow> keeps (sound_state :: db \<times> 'q \<Rightarrow> bool) (on_db (answer status respond m))"
  by (simp add: keeps_def on_db_state answer_state)

lemma on_db_operator_only:
  "keeps (sound_state :: db \<times> 'q \<Rightarrow> bool) (on_db route) \<Longrightarrow> keeps (sound_state :: db \<times> 'q \<Rightarrow> bool) (on_db (operator_only expected cr ok route))"
  by (simp add: keeps_def on_db_state operator_only_def returnS_def split: sum.split)

lemma on_db_answered:
  "keeps (sound_state :: db \<times> 'q \<Rightarrow> bool) (on_db m) \<Longrightarrow>
    keeps (sound_state :: db \<times> 'q \<Rightarrow> bool) (on_db (operator_only expected cr ok (answer status respond m)))"
  by (intro on_db_operator_only on_db_answer)

lemma tried_state: "snd (bindS (tryS m) (\<lambda>v. returnS (f v)) s) = snd (m s)"
  by (simp add: bindS_def tryS_def returnS_def split: prod.split)

lemma on_db_tried:
  "keeps (sound_state :: db \<times> 'q \<Rightarrow> bool) (on_db m) \<Longrightarrow>
    keeps (sound_state :: db \<times> 'q \<Rightarrow> bool) (on_db (operator_only expected cr ok (bindS (tryS m) (\<lambda>v. returnS (f v)))))"
  by (rule on_db_operator_only) (simp add: keeps_def on_db_state tried_state)

lemma operator_api_sound: "keeps sound_state (operator_api env cr req)"
proof (cases req)
  case OpHealth
  show ?thesis unfolding OpHealth operator_api.simps health_route_def
    by (intro keeps_replied on_db_operator_only sound_on_db' keeps_return)
next
  case (OpListStations b)
  show ?thesis unfolding OpListStations operator_api.simps list_stations_route_def
    by (intro keeps_replied on_db_answered sound_on_db' registry_keeps registry_readable)
next
  case (OpCreateStation q)
  show ?thesis unfolding OpCreateStation operator_api.simps create_station_route_def
    by (intro keeps_replied on_db_answered sound_on_db' lifecycle_keeps create_station_readable)
next
  case OpProvisioningToken
  show ?thesis unfolding OpProvisioningToken operator_api.simps provisioning_token_route_def
    by (intro keeps_replied on_db_answered sound_on_db' lifecycle_keeps registry_readable)
next
  case (OpUpdateStation sid q)
  show ?thesis unfolding OpUpdateStation operator_api.simps update_station_route_def
    by (intro keeps_replied on_db_answered sound_station_update)
next
  case (OpStorageMapping sid q)
  show ?thesis unfolding OpStorageMapping operator_api.simps update_storage_mapping_route_def
    by (intro keeps_replied on_db_answered sound_on_db' registry_keeps update_mapping_readable)
next
  case (OpDeleteStation sid)
  show ?thesis unfolding OpDeleteStation operator_api.simps delete_station_route_def
    by (intro keeps_replied on_db_tried sound_on_db' lifecycle_keeps delete_station_readable)
next
  case (OpIssueCommand u name ttl)
  show ?thesis
  proof (cases "ae_sign env")
    case None
    then show ?thesis unfolding OpIssueCommand operator_api.simps issue_command_route_def
      by (simp, intro keeps_replied sound_on_db' keeps_return)
  next
    case (Some sign)
    then show ?thesis unfolding OpIssueCommand operator_api.simps issue_command_route_def
      by (simp, intro keeps_replied on_db_answered sound_on_db' registry_keeps registry_readable)
  qed
next
  case (OpPreflight q)
  show ?thesis unfolding OpPreflight operator_api.simps preflight_route_def
    by (intro keeps_replied on_db_answered sound_on_db' preflight_keeps)
next
  case OpListRules
  show ?thesis unfolding OpListRules operator_api.simps list_rules_route_def
    by (intro keeps_replied on_db_answered sound_on_db' registry_keeps registry_readable)
next
  case (OpCreateRule q)
  show ?thesis unfolding OpCreateRule operator_api.simps create_rule_route_def
    by (intro keeps_replied on_db_answered sound_on_db' registry_keeps registry_readable)
next
  case (OpDeleteRule rid)
  show ?thesis unfolding OpDeleteRule operator_api.simps delete_rule_route_def
    by (intro keeps_replied on_db_tried sound_on_db' registry_keeps registry_readable)
next
  case (OpListDatasets b)
  show ?thesis unfolding OpListDatasets operator_api.simps list_datasets_route_def
    by (intro sound_route sound_list_datasets)
next
  case (OpDeleteDatasets ids)
  show ?thesis unfolding OpDeleteDatasets operator_api.simps delete_datasets_route_def
    by (intro sound_route keeps_option sound_queue_cleanup)
next
  case (OpCreateJob q)
  show ?thesis unfolding OpCreateJob operator_api.simps create_job_route_def
    by (intro keeps_replied on_db_answered sound_on_db' publish_cases_keep jobs_readable)
next
  case (OpGetJob jid)
  show ?thesis unfolding OpGetJob operator_api.simps get_job_route_def
    by (intro keeps_replied on_db_answered sound_on_db' publish_cases_keep jobs_readable)
next
  case (OpListJobs limit)
  show ?thesis unfolding OpListJobs operator_api.simps list_jobs_route_def
    by (intro keeps_replied on_db_answered sound_on_db' publish_cases_keep jobs_readable)
next
  case (OpPrepareJob jid admin c)
  show ?thesis unfolding OpPrepareJob operator_api.simps prepare_job_route_def
    by (intro keeps_replied on_db_answered sound_on_db' prepare_integrity prepare_readable)
next
  case (OpDispatchJob jid)
  show ?thesis unfolding OpDispatchJob operator_api.simps dispatch_job_route_def
    by (intro keeps_replied on_db_answered sound_on_db' publish_cases_keep jobs_readable)
qed

section \<open>Every request is answered\<close>

definition answers :: "('s, 'a) sx \<Rightarrow> bool" where
  "answers m \<longleftrightarrow> (\<forall>s. \<exists>x. fst (m s) = Inr x)"

lemma answers_return: "answers (returnS x)"
  by (simp add: answers_def returnS_def)

lemma answers_answer: "answers (answer status respond m)"
  by (simp add: answers_def answer_run split: prod.split sum.split)

lemma answers_tried: "answers (bindS (tryS m) (\<lambda>v. returnS (f v)))"
  by (simp add: answers_def bindS_def tryS_def returnS_def split: prod.split)

lemma answers_operator_only: "answers route \<Longrightarrow> answers (operator_only expected cr ok route)"
  by (simp add: answers_def operator_only_def returnS_def split: sum.split)

lemma answers_on_db: "answers m \<Longrightarrow> answers (on_db m)"
  by (simp add: answers_def on_db_def split: prod.split) (metis fst_conv)

lemma answers_replied:
  assumes "answers route" shows "answers (replied success route)"
  unfolding answers_def
proof
  fix s
  obtain x t where "route s = (Inr x, t)"
    using assms unfolding answers_def by (metis prod.collapse)
  then show "\<exists>y. fst (replied success route s) = Inr y"
    by (simp add: replied_run)
qed

lemma answers_option:
  "answers m \<Longrightarrow> (\<And>x. answers (f x)) \<Longrightarrow> answers (case v of None \<Rightarrow> m | Some x \<Rightarrow> f x)"
  by (simp split: option.split)

lemma operator_api_answers: "answers (operator_api env cr req)"
  by (cases req; simp only: operator_api.simps health_route_def list_stations_route_def
      create_station_route_def provisioning_token_route_def update_station_route_def
      update_storage_mapping_route_def delete_station_route_def issue_command_route_def preflight_route_def
      list_rules_route_def create_rule_route_def delete_rule_route_def list_datasets_route_def
      delete_datasets_route_def create_job_route_def get_job_route_def list_jobs_route_def
      prepare_job_route_def dispatch_job_route_def;
    intro answers_replied answers_on_db answers_option answers_operator_only answers_answer answers_tried
      answers_return)

lemma answers_mapS:
  assumes "\<And>x. answers (f x)" shows "\<exists>ys. fst (mapS f xs s) = Inr ys \<and> length ys = length xs"
proof (induction xs arbitrary: s)
  case (Cons x xs)
  obtain y t where "f x s = (Inr y, t)"
    using assms unfolding answers_def by (metis prod.collapse)
  moreover obtain ys t' where "mapS f xs t = (Inr ys, t')" "length ys = length xs"
    using Cons.IH [of t] by (metis prod.collapse)
  ultimately show ?case by (simp add: bindS_def returnS_def)
qed (simp add: returnS_def)

text \<open>C10. The operator cannot damage the registry: whatever sequence of requests is sent to the API,
  in whatever processes (other passwords, clocks, ids, storages, queues), with or without the
  password, each is answered, the constraints of the database hold afterwards and every stored
  station can still be read, so that the listing of the stations answers with all stations that are
  not deleted.\<close>

theorem operator_requests_keep_registry:
  fixes calls :: "('q api_env \<times> (string \<times> string) option \<times> operator_request) list"
  assumes "integrity d" and "readable d"
    and run: "mapS (\<lambda>(env, cr, req). operator_api env cr req) calls (d, x) = (r, (d', x'))"
    and auth: "require_basic_auth (ae_password env) cr = Inr user"
  shows "integrity d' \<and> (\<exists>statuses. r = Inr statuses \<and> length statuses = length calls)
    \<and> (\<exists>ss. list_stations_route env cr True d' = (Inr (Inr ss), d')
        \<and> set ss = (station_response_of \<circ> row_station) ` {s \<in> set (stations d'). sr_deleted_at s = None})"
proof -
  have "keeps sound_state (mapS (\<lambda>(env, cr, req). operator_api env cr req) calls)"
    by (intro keeps_mapS keeps_prod operator_api_sound)
  from keepsD [OF this, of "(d, x)"] have ok: "integrity d'" "readable d'"
    using assms(1,2) run by (simp_all add: sound_state_def)
  have "\<exists>statuses. r = Inr statuses \<and> length statuses = length calls"
    using answers_mapS [of "\<lambda>(env, cr, req). operator_api env cr req" calls "(d, x)"] run
    by (auto simp: operator_api_answers)
  moreover have "stations_list True d' = (Inr (map row_station (order_by (\<lambda>r. (sr_display_name r, sr_station_id r))
      (filter (\<lambda>r. sr_deleted_at r = None) (stations d')))), d')"
    using stations_list_total [OF ok(2), of True] by (intro prod_eqI) simp_all
  then have "list_stations_route env cr True d' = (Inr (Inr (map (station_response_of \<circ> row_station)
      (order_by (\<lambda>r. (sr_display_name r, sr_station_id r)) (filter (\<lambda>r. sr_deleted_at r = None) (stations d'))))), d')"
    unfolding list_stations_route_def operator_only_granted [OF auth TrueI]
    by (simp add: answer_run list_stations_def sx_simps)
  ultimately show ?thesis using ok(1) by auto
qed

theorem operator_requests_keep_registry_witness:
  "\<exists>r d' ss. mapS (\<lambda>(env, cr, req). operator_api env cr req)
       [(sample_api 20, sample_admin, OpDeleteStation 2), (sample_api 40, None, OpListRules)] (sample_db, ())
       = (r, (d', ()))
     \<and> integrity d' \<and> list_stations_route (sample_api 60) sample_admin True d' = (Inr (Inr ss), d')"
proof -
  obtain r d' x where run: "mapS (\<lambda>(env, cr, req). operator_api env cr req)
      [(sample_api 20, sample_admin, OpDeleteStation 2), (sample_api 40, None, OpListRules)] (sample_db, ())
      = (r, (d', x))"
    by (rule prod_cases3)
  have x: "x = ()" by simp
  note kept = operator_requests_keep_registry [OF integrity_sample_db sample_readable(1) run
      sample_admin_granted [of 60]]
  then obtain ss where "list_stations_route (sample_api 60) sample_admin True d' = (Inr (Inr ss), d')" by blast
  with kept run [unfolded x] show ?thesis by blast
qed

end
