(* ===== verification/Py_Env.thy ===== *)
theory Py_Env
  imports Complex_Main Addresses
begin

text \<open>
  What the runtime configurations read from the environment: a lookup with a fallback, Python's
  \<open>int\<close> and \<open>float\<close> of a text, and the scheme and network location of \<open>urllib.parse.urlparse\<close>.
  Characters range over the code points 0 to 255, as in the other theories.
\<close>

section \<open>The environment\<close>

type_synonym env = "string \<rightharpoonup> string"

definition env_get :: "env \<Rightarrow> string \<Rightarrow> string \<Rightarrow> string" where
  "env_get env name fallback = (case env name of None \<Rightarrow> fallback | Some v \<Rightarrow> v)"

text \<open>\<open>source.get(name, "").strip()\<close>\<close>

definition env_text :: "env \<Rightarrow> string \<Rightarrow> string" where
  "env_text env name = strip (env_get env name [])"

section \<open>Characters of a number\<close>

text \<open>A text of ASCII only is trimmed by the rules of C, any other by those of \<open>str.strip\<close>.\<close>

definition c_space :: "char \<Rightarrow> bool" where
  "c_space c = (code c \<in> {9, 10, 11, 12, 13, 32})"

definition number_text :: "string \<Rightarrow> string" where
  "number_text s = strip_with (if ascii s then c_space else py_space) s"

text \<open>An underscore stands between two digits.\<close>

fun underscores_ok :: "bool \<Rightarrow> string \<Rightarrow> bool" where
  "underscores_ok after_digit [] = True"
| "underscores_ok after_digit (c # s) =
     (if c = CHR ''_'' then after_digit \<and> s \<noteq> [] \<and> is_digit (hd s) \<and> underscores_ok False s
      else underscores_ok (is_digit c) s)"

definition without_underscores :: "string \<Rightarrow> string" where
  "without_underscores s = filter (\<lambda>c. c \<noteq> CHR ''_'') s"

definition digits_value :: "string \<Rightarrow> int" where
  "digits_value s = foldl (\<lambda>n c. 10 * n + (int (code c) - 48)) 0 s"

text \<open>The sign of a number and the text after it.\<close>

definition split_sign :: "string \<Rightarrow> bool \<times> string" where
  "split_sign s =
     (case s of
        [] \<Rightarrow> (False, [])
      | c # t \<Rightarrow> if c = CHR ''-'' then (True, t) else if c = CHR ''+'' then (False, t) else (False, s))"

section \<open>int\<close>

text \<open>More than 4300 digits are refused as well.\<close>

definition parse_int :: "string \<Rightarrow> int result" where
  "parse_int s =
     (let (negative, body) = split_sign (number_text s); digits = without_underscores body
      in if digits = [] \<or> \<not> list_all is_digit digits \<or> \<not> underscores_ok False body
            \<or> 4300 < length digits
         then Inl (ValueError ''invalid literal for int() with base 10'')
         else Inr (if negative then - digits_value digits else digits_value digits))"

section \<open>float\<close>

datatype pyfloat = Finite rat | Infinite bool | NotANumber

text \<open>The double nearest to a positive rational, ties to even: 53 significant bits, no bit below
  \<open>2\<^sup>-\<^sup>1\<^sup>0\<^sup>7\<^sup>4\<close>, infinite from \<open>2\<^sup>1\<^sup>0\<^sup>2\<^sup>4\<close> on.\<close>

fun bit_count :: "nat \<Rightarrow> nat" where
  "bit_count n = (if n = 0 then 0 else Suc (bit_count (n div 2)))"

declare bit_count.simps [simp del]

definition two_to :: "int \<Rightarrow> rat" where
  "two_to e = (if 0 \<le> e then of_int (2 ^ nat e) else 1 / of_int (2 ^ nat (- e)))"

definition floor_log2 :: "rat \<Rightarrow> int" where
  "floor_log2 x =
     (let (p, q) = quotient_of x; e = int (bit_count (nat p)) - int (bit_count (nat q))
      in if two_to e \<le> x then e else e - 1)"

definition round_half_even :: "rat \<Rightarrow> int" where
  "round_half_even x =
     (let f = \<lfloor>x\<rfloor>; d = x - of_int f
      in if d < 1 / 2 then f else if 1 / 2 < d then f + 1 else if even f then f else f + 1)"

definition round_double :: "bool \<Rightarrow> rat \<Rightarrow> pyfloat" where
  "round_double negative x =
     (if x = 0 then Finite 0
      else let q = two_to (max (floor_log2 x - 52) (- 1074));
               v = of_int (round_half_even (x / q)) * q
           in if two_to 1024 \<le> v then Infinite negative
              else Finite (if negative then - v else v))"

text \<open>A decimal: digits with an optional point, at least one digit, and an optional exponent.\<close>

definition parse_exponent :: "string \<Rightarrow> int option" where
  "parse_exponent s =
     (case s of
        [] \<Rightarrow> Some 0
      | e # t \<Rightarrow>
          (let (negative, digits) = split_sign t
           in if lower_char e \<noteq> CHR ''e'' \<or> digits = [] \<or> \<not> list_all is_digit digits then None
              else Some (if negative then - digits_value digits else digits_value digits)))"

definition parse_decimal :: "string \<Rightarrow> rat option" where
  "parse_decimal s =
     (let whole = takeWhile is_digit s; rest = dropWhile is_digit s;
          (part, rest) = (case rest of
             c # t \<Rightarrow> if c = CHR ''.'' then (takeWhile is_digit t, dropWhile is_digit t) else ([], rest)
           | [] \<Rightarrow> ([], []))
      in if whole = [] \<and> part = [] then None
         else (case parse_exponent rest of
             None \<Rightarrow> None
           | Some e \<Rightarrow>
               (let shift = e - int (length part); m = of_int (digits_value (whole @ part)) :: rat
                in Some (if 0 \<le> shift then m * 10 ^ nat shift else m / 10 ^ nat (- shift)))))"

definition parse_float :: "string \<Rightarrow> pyfloat result" where
  "parse_float s =
     (let text = number_text s; (negative, body) = split_sign text; word = lower body
      in if word = ''inf'' \<or> word = ''infinity'' then Inr (Infinite negative)
         else if word = ''nan'' then Inr NotANumber
         else if \<not> underscores_ok False text then Inl (ValueError ''could not convert string to float'')
         else (case parse_decimal (without_underscores body) of
             None \<Rightarrow> Inl (ValueError ''could not convert string to float'')
           | Some x \<Rightarrow> Inr (round_double negative x)))"

text \<open>\<open>value <= 0\<close>, which is false for a value that is not a number, and \<open>math.isfinite\<close>.\<close>

fun float_not_positive :: "pyfloat \<Rightarrow> bool" where
  "float_not_positive (Finite x) = (x \<le> 0)"
| "float_not_positive (Infinite negative) = negative"
| "float_not_positive NotANumber = False"

fun finite_float :: "pyfloat \<Rightarrow> rat option" where
  "finite_float (Finite x) = Some x"
| "finite_float (Infinite negative) = None"
| "finite_float NotANumber = None"

section \<open>urlparse\<close>

definition scheme_char :: "char \<Rightarrow> bool" where
  "scheme_char c = (is_alnum c \<or> c \<in> {CHR ''+'', CHR ''-'', CHR ''.''})"

definition split_scheme :: "string \<Rightarrow> string \<times> string" where
  "split_scheme url =
     (let name = takeWhile (\<lambda>c. c \<noteq> CHR '':'') url
      in if CHR '':'' \<in> set url \<and> name \<noteq> [] \<and> (is_upper (hd name) \<or> is_lower (hd name))
            \<and> list_all scheme_char name
         then (lower name, drop (Suc (length name)) url) else ([], url))"

definition any_hex :: "char \<Rightarrow> bool" where
  "any_hex c = (is_upper_hex c \<or> (97 \<le> code c \<and> code c \<le> 102))"

text \<open>What stands in brackets is an IPv6 address or an address of a later version.\<close>

definition bracketed_host_ok :: "string \<Rightarrow> bool" where
  "bracketed_host_ok host =
     (if starts_with ''v'' host
      then (let digits = takeWhile any_hex (tl host); rest = dropWhile any_hex (tl host)
            in digits \<noteq> [] \<and> 2 \<le> length rest \<and> hd rest = CHR ''.'')
      else ipv6_ok host)"

text \<open>Control characters and blanks are dropped in front, tabs and newlines everywhere.\<close>

definition urlparse :: "string \<Rightarrow> (string \<times> string) result" where
  "urlparse text =
     (let url = filter (\<lambda>c. code c \<notin> {9, 10, 13}) (dropWhile (\<lambda>c. code c \<le> 32) text);
          (scheme, rest) = split_scheme url
      in if \<not> starts_with ''//'' rest then Inr (scheme, [])
         else (let netloc = takeWhile (\<lambda>c. c \<notin> {CHR ''/'', CHR ''?'', CHR ''#''}) (drop 2 rest);
                   opens = CHR ''['' \<in> set netloc; closes = CHR '']'' \<in> set netloc
               in if opens \<noteq> closes then Inl (ValueError ''Invalid IPv6 URL'')
                  else if opens \<and> \<not> bracketed_host_ok
                    (takeWhile (\<lambda>c. c \<noteq> CHR '']'') (tl (dropWhile (\<lambda>c. c \<noteq> CHR ''['') netloc)))
                  then Inl (ValueError ''invalid bracketed host'')
                  else Inr (scheme, netloc)))"

end
