(* ===== verification/TrueNAS_Config.thy ===== *)
theory TrueNAS_Config
  imports Py_Env Adapter_Properties
begin

text \<open>
  The configuration of \<open>truenas_adapter/runtime.py\<close>: \<open>TrueNASRuntimeConfig.from_env\<close> with its
  checks, the TLS choice, and the two client builders from a configuration on.  Loading a CA file and
  the WebSocket library are parameters.
\<close>

section \<open>Reading the environment\<close>

definition refuse :: "string \<Rightarrow> string \<Rightarrow> 'a result" where
  "refuse name reason = Inl (TrueNASRuntimeConfigError (name @ reason))"

definition truenas_positive_float :: "string \<Rightarrow> string \<Rightarrow> rat result" where
  "truenas_positive_float raw name =
     (case parse_float raw of
        Inl e \<Rightarrow> refuse name '' must be a positive number''
      | Inr value \<Rightarrow>
          (case finite_float value of
             None \<Rightarrow> refuse name '' must be a positive number''
           | Some x \<Rightarrow> if x \<le> 0 then refuse name '' must be a positive number'' else Inr x))"

definition truenas_non_negative_float :: "string \<Rightarrow> string \<Rightarrow> rat result" where
  "truenas_non_negative_float raw name =
     (case parse_float raw of
        Inl e \<Rightarrow> refuse name '' must be a non-negative number''
      | Inr value \<Rightarrow>
          (case finite_float value of
             None \<Rightarrow> refuse name '' must be a non-negative number''
           | Some x \<Rightarrow> if x < 0 then refuse name '' must be a non-negative number'' else Inr x))"

definition truenas_retry_attempts :: "string \<Rightarrow> string \<Rightarrow> int result" where
  "truenas_retry_attempts raw name =
     (case parse_int raw of
        Inl e \<Rightarrow> refuse name '' must be an integer from 0 to 10''
      | Inr value \<Rightarrow>
          if \<not> (0 \<le> value \<and> value \<le> 10) then refuse name '' must be an integer from 0 to 10''
          else Inr value)"

definition truenas_flag :: "env \<Rightarrow> string \<Rightarrow> string \<Rightarrow> bool result" where
  "truenas_flag env name fallback =
     (let value = lower (strip (env_get env name fallback))
      in if value \<noteq> ''true'' \<and> value \<noteq> ''false'' then refuse name '' must be true or false''
         else Inr (value = ''true''))"

definition validate_websocket_url :: "string \<Rightarrow> unit result" where
  "validate_websocket_url url =
     bindR (urlparse url) (\<lambda>(scheme, netloc).
     if scheme \<noteq> ''wss'' \<or> netloc = []
     then refuse ''TRUENAS_WS_URL'' '' must be a full wss:// URL; API-key authentication requires TLS''
     else Inr ())"

section \<open>The configuration\<close>

text \<open>The fields the clients read are those of \<open>truenas_runtime_config\<close>.\<close>

record truenas_settings = truenas_runtime_config +
  ts_websocket_url :: string
  ts_timeout :: rat
  ts_open_timeout :: rat
  ts_tls_verify :: bool
  ts_tls_ca_file :: "string option"

definition truenas_from_env :: "env \<Rightarrow> truenas_settings result" where
  "truenas_from_env env =
     (let websocket_url = env_text env ''TRUENAS_WS_URL'';
          api_key = env_text env ''TRUENAS_API_KEY'';
          api_version = strip (env_get env ''TRUENAS_VERSION'' ''25.10'');
          ca_file = env_text env ''TRUENAS_TLS_CA_FILE''
      in bindR (validate_websocket_url websocket_url) (\<lambda>_.
      if api_key = [] then refuse ''TRUENAS_API_KEY'' '' is required''
      else
        bindR (truenas_flag env ''TRUENAS_APPLY_ENABLED'' ''false'') (\<lambda>apply_enabled.
        bindR (truenas_flag env ''TRUENAS_TLS_VERIFY'' ''true'') (\<lambda>tls_verify.
        bindR (truenas_positive_float (env_get env ''TRUENAS_TIMEOUT_SECONDS'' ''10'')
                 ''TRUENAS_TIMEOUT_SECONDS'') (\<lambda>timeout.
        bindR (truenas_retry_attempts (env_get env ''TRUENAS_RETRY_ATTEMPTS'' ''2'')
                 ''TRUENAS_RETRY_ATTEMPTS'') (\<lambda>attempts.
        bindR (truenas_non_negative_float (env_get env ''TRUENAS_RETRY_BACKOFF_SECONDS'' ''0.25'')
                 ''TRUENAS_RETRY_BACKOFF_SECONDS'') (\<lambda>backoff.
        bindR (truenas_non_negative_float (env_get env ''TRUENAS_RETRY_BACKOFF_MAX_SECONDS'' ''2'')
                 ''TRUENAS_RETRY_BACKOFF_MAX_SECONDS'') (\<lambda>backoff_max.
        if backoff_max < backoff
        then refuse ''TRUENAS_RETRY_BACKOFF_MAX_SECONDS''
               '' cannot be less than TRUENAS_RETRY_BACKOFF_SECONDS''
        else
          bindR (truenas_positive_float (env_get env ''TRUENAS_OPEN_TIMEOUT_SECONDS'' ''10'')
                   ''TRUENAS_OPEN_TIMEOUT_SECONDS'') (\<lambda>open_timeout.
          Inr \<lparr>tc_api_key = api_key, tc_api_version = api_version, tc_reconnect_attempts = attempts,
               tc_backoff = backoff, tc_backoff_max = backoff_max, tc_apply_enabled = apply_enabled,
               ts_websocket_url = websocket_url, ts_timeout = timeout, ts_open_timeout = open_timeout,
               ts_tls_verify = tls_verify,
               ts_tls_ca_file = (if ca_file = [] then None else Some ca_file)\<rparr>)))))))))"

section \<open>The clients\<close>

text \<open>What a process has to connect with: the loader of the certificates to verify the peer with
  (\<open>ssl.create_default_context\<close>, which reads the CA file of the configuration when it names one and
  raises when it cannot), the pause, the polls of a wait for an answer, and the WebSocket transport of a configuration (True for the write client's own).\<close>

record 's dialer =
  di_load_tls :: "string option \<Rightarrow> unit result"
  di_sleep :: "rat \<Rightarrow> ('s, unit) sx"
  di_patience :: nat
  di_rpc :: "bool \<Rightarrow> transport_config \<Rightarrow> string \<Rightarrow> rpc_value \<Rightarrow> ('s, rpc_value) sx"
  di_close :: "bool \<Rightarrow> ('s, unit) sx"

definition build_ssl_context :: "'s dialer \<Rightarrow> truenas_settings \<Rightarrow> unit result" where
  "build_ssl_context D s = (if ts_tls_verify s then di_load_tls D (ts_tls_ca_file s) else Inr ())"

definition raw_transport :: "'s dialer \<Rightarrow> truenas_settings \<Rightarrow> transport_config result" where
  "raw_transport D s =
     bindR (build_ssl_context D s) (\<lambda>_.
     mk_transport_config (ts_timeout s) None (Some 0) (tc_backoff s) (tc_backoff_max s) (di_patience D))"

definition dial_read_client ::
    "'s dialer \<Rightarrow> truenas_settings \<Rightarrow> ((string \<Rightarrow> rpc_value \<Rightarrow> ('s, rpc_value) sx) \<times> rpc_registry) result" where
  "dial_read_client D s =
     bindR (mk_registry (tc_api_version s) False) (\<lambda>_.
     bindR (raw_transport D s) (\<lambda>cfg.
     build_read_only_client (di_sleep D) (di_rpc D False cfg) (truenas_runtime_config.truncate s)))"

definition dial_write_client ::
    "'s dialer \<Rightarrow> truenas_settings \<Rightarrow> ((string \<Rightarrow> rpc_value \<Rightarrow> ('s, rpc_value) sx) \<times> rpc_registry) result" where
  "dial_write_client D s =
     (if \<not> tc_apply_enabled s
      then Inl (TrueNASRuntimeConfigError (''TrueNAS write adapter is disabled; ''
             @ ''set TRUENAS_APPLY_ENABLED=true explicitly''))
      else
        bindR (mk_registry (tc_api_version s) True) (\<lambda>_.
        bindR (raw_transport D s) (\<lambda>cfg.
        build_write_client (di_sleep D) (di_rpc D True cfg) (truenas_runtime_config.truncate s))))"

section \<open>What an accepted configuration guarantees\<close>

definition supported_version :: "string \<Rightarrow> bool" where
  "supported_version v \<longleftrightarrow> join_with ''.'' (take 2 (split_char CHR ''.'' (strip v))) = ''25.10''"

definition settings_ok :: "truenas_settings \<Rightarrow> bool" where
  "settings_ok s \<longleftrightarrow>
     tc_api_key s \<noteq> [] \<and> 0 < ts_timeout s \<and> 0 < ts_open_timeout s
     \<and> 0 \<le> tc_reconnect_attempts s \<and> tc_reconnect_attempts s \<le> 10
     \<and> 0 \<le> tc_backoff s \<and> tc_backoff s \<le> tc_backoff_max s
     \<and> validate_websocket_url (ts_websocket_url s) = Inr ()"

lemma refuse_Inl [simp]: "refuse name reason \<noteq> Inr x"
  by (simp add: refuse_def)

lemma truenas_numbers:
  "truenas_positive_float raw name = Inr x \<Longrightarrow> 0 < x"
  "truenas_non_negative_float raw name = Inr x \<Longrightarrow> 0 \<le> x"
  "truenas_retry_attempts raw name = Inr n \<Longrightarrow> 0 \<le> n \<and> n \<le> 10"
  by (auto simp: truenas_positive_float_def truenas_non_negative_float_def truenas_retry_attempts_def
      split: sum.splits option.splits if_splits)

lemma truenas_from_env_ok: "truenas_from_env env = Inr s \<Longrightarrow> settings_ok s"
  by (auto simp: truenas_from_env_def Let_def bindR_Inr_iff settings_ok_def not_less
      dest!: truenas_numbers split: if_splits)

lemma mk_registry_cases:
  "mk_registry v w = (if supported_version v
     then Inr \<lparr>rr_version = strip v, rr_methods = read_methods @ (if w then write_methods else []),
               rr_allow_writes = w\<rparr>
     else Inl (UnsupportedTrueNASVersion (''unsupported TrueNAS API version: '' @ v)))"
  by (simp add: mk_registry_def supported_version_def Let_def)

lemma raw_transport_ok:
  "settings_ok s \<Longrightarrow> (\<exists>cfg. raw_transport D s = Inr cfg) \<longleftrightarrow> build_ssl_context D s = Inr ()"
  by (auto simp: raw_transport_def mk_transport_config_def settings_ok_def Let_def bindR_Inr_iff)

lemma authenticate_resolved [simp]:
  "resolve_method \<lparr>rr_version = v, rr_methods = read_methods @ ms, rr_allow_writes = w\<rparr> ''authenticate'' =
     Inr ''auth.login_with_api_key''"
  "resolve_method \<lparr>rr_version = v, rr_methods = read_methods, rr_allow_writes = w\<rparr> ''authenticate'' =
     Inr ''auth.login_with_api_key''"
  by (simp_all add: resolve_method_def read_methods_def)

lemma dial_read_client_ok:
  assumes "settings_ok s"
  shows "(\<exists>c. dial_read_client D s = Inr c) \<longleftrightarrow>
    supported_version (tc_api_version s) \<and> build_ssl_context D s = Inr ()"
  unfolding raw_transport_ok [OF assms, symmetric]
  using assms
  by (auto simp: dial_read_client_def mk_registry_cases build_read_only_client_def build_transport_def
      truenas_runtime_config.truncate_def mk_api_key_transport_def settings_ok_def bindR_Inr_iff)

lemma dial_write_client_ok:
  assumes "settings_ok s"
  shows "(\<exists>c. dial_write_client D s = Inr c) \<longleftrightarrow>
    tc_apply_enabled s \<and> supported_version (tc_api_version s) \<and> build_ssl_context D s = Inr ()"
  unfolding raw_transport_ok [OF assms, symmetric]
  using assms
  by (auto simp: dial_write_client_def mk_registry_cases build_write_client_def build_transport_def
      truenas_runtime_config.truncate_def mk_api_key_transport_def settings_ok_def mk_write_adapter_def
      bindR_Inr_iff)

end
