(* ===== verification/Worker_Runtime.thy ===== *)
theory Worker_Runtime
  imports TrueNAS_Config Worker_Relay
begin

text \<open>
  \<open>worker/runtime.py\<close>: the configuration of a worker process, the handlers its actors build for each
  delivered message, and the loop that polls the outbox and schedules retention passes.  The broker,
  the clocks, the signals and the WebSocket library are parameters; the log lines are left out.
\<close>

section \<open>Configuration\<close>

record worker_config =
  wc_database_url :: string
  wc_redis_url :: string
  wc_worker_id :: string
  wc_poll_interval :: pyfloat
  wc_worker_threads :: int
  wc_executor_mode :: string
  wc_cleanup_enabled :: bool
  wc_cleanup_interval :: int
  wc_cleanup_retention_days :: int
  wc_cleanup_batch_size :: int
  wc_cleanup_apply_enabled :: bool

definition worker_refuse :: "string \<Rightarrow> 'a result" where
  "worker_refuse reason = Inl (WorkerRuntimeConfigError reason)"

text \<open>Unlike its namesake in \<open>truenas_adapter/runtime.py\<close>, without a check that the number is finite.\<close>

definition worker_positive_float :: "string \<Rightarrow> string \<Rightarrow> pyfloat result" where
  "worker_positive_float raw name =
     (case parse_float raw of
        Inl e \<Rightarrow> worker_refuse (name @ '' must be a positive number'')
      | Inr value \<Rightarrow> if float_not_positive value then worker_refuse (name @ '' must be a positive number'')
                     else Inr value)"

definition worker_positive_int :: "string \<Rightarrow> string \<Rightarrow> int result" where
  "worker_positive_int raw name =
     (case parse_int raw of
        Inl e \<Rightarrow> worker_refuse (name @ '' must be a positive integer'')
      | Inr value \<Rightarrow> if value < 1 then worker_refuse (name @ '' must be a positive integer'')
                     else Inr value)"

definition worker_boolean :: "string \<Rightarrow> string \<Rightarrow> bool result" where
  "worker_boolean raw name =
     (let normalized = lower (strip raw)
      in if normalized \<noteq> ''true'' \<and> normalized \<noteq> ''false''
         then worker_refuse (name @ '' must be true or false'') else Inr (normalized = ''true''))"

definition check_truenas :: "env \<Rightarrow> string \<Rightarrow> bool \<Rightarrow> unit result" where
  "check_truenas env executor_mode cleanup_apply =
     (if executor_mode = ''truenas'' \<or> cleanup_apply
      then (case truenas_from_env env of
              Inl (TrueNASRuntimeConfigError m) \<Rightarrow> worker_refuse (''invalid TrueNAS worker config: '' @ m)
            | Inl e \<Rightarrow> Inl e
            | Inr s \<Rightarrow>
                if executor_mode = ''truenas'' \<and> \<not> tc_apply_enabled s
                then worker_refuse
                  ''TRUENAS_APPLY_ENABLED=true is required for PUBLISH_EXECUTOR_MODE=truenas''
                else Inr ())
      else Inr ())"

text \<open>\<open>host\<close> is \<open>socket.gethostname()\<close>.\<close>

definition worker_from_env :: "string \<Rightarrow> env \<Rightarrow> worker_config result" where
  "worker_from_env host env =
     (let database_url = env_text env ''DATABASE_URL''; redis_url = env_text env ''REDIS_URL'';
          worker_id = strip (env_get env ''WORKER_ID'' host);
          executor_mode = lower (strip (env_get env ''PUBLISH_EXECUTOR_MODE'' ''fake''))
      in if database_url = [] then worker_refuse ''DATABASE_URL is required for the worker''
         else if redis_url = [] then worker_refuse ''REDIS_URL is required for the worker''
         else if worker_id = [] then worker_refuse ''WORKER_ID must not be blank''
         else
           bindR (worker_positive_float (env_get env ''WORKER_POLL_INTERVAL_SECONDS'' ''1'')
                    ''WORKER_POLL_INTERVAL_SECONDS'') (\<lambda>poll_interval.
           bindR (worker_positive_int (env_get env ''DRAMATIQ_WORKER_THREADS'' ''2'')
                    ''DRAMATIQ_WORKER_THREADS'') (\<lambda>threads.
           if executor_mode \<noteq> ''fake'' \<and> executor_mode \<noteq> ''truenas''
           then worker_refuse ''PUBLISH_EXECUTOR_MODE must be fake or truenas''
           else
             bindR (worker_boolean (env_get env ''DATASET_CLEANUP_ENABLED'' ''false'')
                      ''DATASET_CLEANUP_ENABLED'') (\<lambda>cleanup_enabled.
             bindR (worker_boolean (env_get env ''TRUENAS_CLEANUP_APPLY_ENABLED'' ''false'')
                      ''TRUENAS_CLEANUP_APPLY_ENABLED'') (\<lambda>cleanup_apply.
             bindR (check_truenas env executor_mode cleanup_apply) (\<lambda>_.
             bindR (worker_positive_int (env_get env ''DATASET_CLEANUP_INTERVAL_SECONDS'' ''604800'')
                      ''DATASET_CLEANUP_INTERVAL_SECONDS'') (\<lambda>interval.
             bindR (worker_positive_int (env_get env ''DATASET_CLEANUP_RETENTION_DAYS'' ''30'')
                      ''DATASET_CLEANUP_RETENTION_DAYS'') (\<lambda>retention.
             bindR (worker_positive_int (env_get env ''DATASET_CLEANUP_BATCH_SIZE'' ''10'')
                      ''DATASET_CLEANUP_BATCH_SIZE'') (\<lambda>batch.
             Inr \<lparr>wc_database_url = database_url, wc_redis_url = redis_url, wc_worker_id = worker_id,
                  wc_poll_interval = poll_interval, wc_worker_threads = threads,
                  wc_executor_mode = executor_mode, wc_cleanup_enabled = cleanup_enabled,
                  wc_cleanup_interval = interval, wc_cleanup_retention_days = retention,
                  wc_cleanup_batch_size = batch, wc_cleanup_apply_enabled = cleanup_apply\<rparr>)))))))))"

text \<open>The TrueNAS settings a process loads when it is built.\<close>

definition worker_settings :: "env \<Rightarrow> worker_config \<Rightarrow> truenas_settings option result" where
  "worker_settings env c =
     (if wc_executor_mode c = ''truenas'' \<or> wc_cleanup_apply_enabled c
      then bindR (truenas_from_env env) (\<lambda>s. Inr (Some s)) else Inr None)"

section \<open>Handlers\<close>

text \<open>Every fake executor has an in-memory store of its own, which is dropped with it.\<close>

definition with_fresh_store :: "'f \<Rightarrow> (db \<times> 'f, 'a) sx \<Rightarrow> (db \<times> 'q, 'a) sx" where
  "with_fresh_store initial m = (\<lambda>(d, q). case m (d, initial) of (r, (d', _)) \<Rightarrow> (r, (d', q)))"

definition dial_clients :: "'q dialer \<Rightarrow> truenas_settings \<Rightarrow> 'q truenas_client result" where
  "dial_clients D s =
     bindR (dial_read_client D s) (\<lambda>(read_rpc, R).
     bindR (dial_write_client D s) (\<lambda>(write_rpc, W).
     Inr (adapter_client read_rpc R write_rpc W (di_close D False) (di_close D True))))"

text \<open>\<open>TrueNASPublishTaskExecutor.execute\<close> with the client factories of the runtime.\<close>

definition dialed_task_execute ::
    "'q dialer \<Rightarrow> truenas_settings \<Rightarrow> (nat \<Rightarrow> uuid) \<Rightarrow> datetime \<Rightarrow> publish_job \<Rightarrow> publish_target list
     \<Rightarrow> uuid \<Rightarrow> (db \<times> 'q, unit) sx" where
  "dialed_task_execute D s fresh clock job targets correlation_id =
     guarded_execute job targets correlation_id (\<lambda>selected_targets.
       bindS (on_db (load_stations selected_targets)) (\<lambda>sts.
       bindS (liftR (dial_clients D s)) (\<lambda>C.
       bindS (on_ext (finallyS (truenas_execute C job sts (pj_client_confirmation job = Some True))
                (bindS (tc_close_read C) (\<lambda>_. tc_close_write C)))) (\<lambda>res.
       on_db (persist_result fresh clock job targets res)))))"

definition worker_publish_handler ::
    "worker_config \<Rightarrow> truenas_settings option \<Rightarrow> 'q dialer \<Rightarrow> (nat \<Rightarrow> uuid) \<Rightarrow> datetime \<Rightarrow> task_payload
     \<Rightarrow> (db \<times> 'q, unit) sx" where
  "worker_publish_handler c settings D fresh clock payload =
     (if wc_executor_mode c = ''fake''
      then handle_publish_task (\<lambda>job targets correlation_id.
             with_fresh_store (mock_new Map.empty)
               (fake_task_execute mock_adapter fresh clock job targets correlation_id)) payload
      else (case settings of
          None \<Rightarrow> raiseS (WorkerRuntimeConfigError ''TrueNAS runtime config is not initialized'')
        | Some s \<Rightarrow> handle_publish_task (dialed_task_execute D s fresh clock) payload))"

text \<open>The write client of a retention pass; its gate is opened by the flag of the retention.\<close>

definition dial_cleanup_client :: "'q dialer \<Rightarrow> truenas_settings \<Rightarrow> 'q truenas_client result" where
  "dial_cleanup_client D s =
     bindR (dial_write_client D (s\<lparr>tc_apply_enabled := True\<rparr>)) (\<lambda>(rpc, W).
     Inr (adapter_client rpc W rpc W (di_close D True) (di_close D True)))"

definition worker_cleanup_handler ::
    "worker_config \<Rightarrow> truenas_settings option \<Rightarrow> 'q dialer \<Rightarrow> datetime \<Rightarrow> uuid list
     \<Rightarrow> (db \<times> 'q, unit) sx" where
  "worker_cleanup_handler c settings D now artifact_ids =
     (if wc_cleanup_apply_enabled c
      then (case settings of
          None \<Rightarrow> raiseS (WorkerRuntimeConfigError ''TrueNAS cleanup config is not initialized'')
        | Some s \<Rightarrow>
            handle_cleanup (wc_cleanup_retention_days c) (wc_cleanup_batch_size c) True
              (Some (liftR (dial_cleanup_client D s))) now artifact_ids)
      else handle_cleanup (wc_cleanup_retention_days c) (wc_cleanup_batch_size c) False None now artifact_ids)"

section \<open>The loop\<close>

text \<open>What the loop calls: the stop event, the monotonic clock, the time of a poll, the wait between
  polls, \<open>send\<close> of the two actors, and the shutdown of the consumer threads.\<close>

record 'q worker_env =
  we_stopped :: "('q, bool) sx"
  we_monotonic :: "('q, rat) sx"
  we_clock :: "('q, datetime) sx"
  we_wait :: "pyfloat \<Rightarrow> ('q, unit) sx"
  we_send_publish :: "string \<times> string \<times> string \<Rightarrow> ('q, unit) sx"
  we_send_cleanup :: "('q, unit) sx"
  we_stop_consumers :: "('q, unit) sx"

definition schedule_cleanup :: "'q worker_env \<Rightarrow> worker_config \<Rightarrow> ('q, rat option) sx" where
  "schedule_cleanup env c =
     bindS (we_monotonic env) (\<lambda>t. returnS (Some (t + of_int (wc_cleanup_interval c))))"

text \<open>The retention message when it is due, and the next due time.\<close>

definition cleanup_tick :: "'q worker_env \<Rightarrow> worker_config \<Rightarrow> rat option \<Rightarrow> ('q, rat option) sx" where
  "cleanup_tick env c next_cleanup =
     (case next_cleanup of
        None \<Rightarrow> returnS None
      | Some due \<Rightarrow>
          bindS (we_monotonic env) (\<lambda>t.
          if due \<le> t then bindS (we_send_cleanup env) (\<lambda>_. schedule_cleanup env c)
          else returnS (Some due)))"

definition relay_poll :: "'q worker_env \<Rightarrow> relay_config \<Rightarrow> (db \<times> 'q, relay_result) sx" where
  "relay_poll env relay =
     bindS (on_ext (we_clock env)) (\<lambda>now.
     relay_run_once (publish_task_enqueue (we_send_publish env)) relay now None)"

text \<open>At most \<open>n\<close> rounds: True when the stop event ended the loop.  A poll that raises is logged, the
  retention message is outside of that \<open>try\<close>.\<close>

fun worker_loop ::
    "nat \<Rightarrow> 'q worker_env \<Rightarrow> worker_config \<Rightarrow> relay_config \<Rightarrow> rat option \<Rightarrow> (db \<times> 'q, bool) sx" where
  "worker_loop 0 env c relay next_cleanup = returnS False"
| "worker_loop (Suc n) env c relay next_cleanup =
     bindS (on_ext (we_stopped env)) (\<lambda>stopped.
     if stopped then returnS True
     else
       bindS (on_ext (cleanup_tick env c next_cleanup)) (\<lambda>later.
       bindS (tryS (relay_poll env relay)) (\<lambda>_.
       bindS (on_ext (we_wait env (wc_poll_interval c))) (\<lambda>_.
       worker_loop n env c relay later))))"

definition worker_run :: "nat \<Rightarrow> 'q worker_env \<Rightarrow> worker_config \<Rightarrow> (db \<times> 'q, bool) sx" where
  "worker_run n env c =
     bindS (liftR (mk_relay (wc_worker_id c) 10 5 60)) (\<lambda>relay.
     bindS (if wc_cleanup_enabled c then on_ext (schedule_cleanup env c) else returnS None) (\<lambda>first.
     finallyS (worker_loop n env c relay first) (on_ext (we_stop_consumers env))))"

end
