(* ===== verification/Runtime_Properties.thy ===== *)
theory Runtime_Properties
  imports Worker_Runtime Worker_Properties Executor_Properties
begin

text \<open>
  Properties of the worker process: what an accepted configuration guarantees, the write gate, the
  liveness of the loop and what ends it.
\<close>

section \<open>Configurations\<close>

lemma worker_refuse_Inl [simp]: "worker_refuse reason \<noteq> Inr x"
  by (simp add: worker_refuse_def)

lemma worker_numbers:
  "worker_positive_float raw name = Inr v \<Longrightarrow> \<not> float_not_positive v"
  "worker_positive_int raw name = Inr n \<Longrightarrow> 1 \<le> n"
  by (auto simp: worker_positive_float_def worker_positive_int_def split: sum.splits if_splits)

lemma worker_boolean_Inr: "worker_boolean raw name = Inr b \<Longrightarrow> b = (lower (strip raw) = ''true'')"
  by (auto simp: worker_boolean_def Let_def split: if_splits)

lemma check_truenas_Inr:
  assumes "check_truenas env mode apply = Inr u" and "mode = ''truenas'' \<or> apply"
  shows "\<exists>s. truenas_from_env env = Inr s \<and> (mode = ''truenas'' \<longrightarrow> tc_apply_enabled s)"
  using assms by (auto simp: check_truenas_def split: sum.splits exn.splits if_splits)

text \<open>The checks of \<open>from_env\<close>, read off an accepted configuration.\<close>

lemma worker_from_env_Inr:
  assumes "worker_from_env host env = Inr c"
  shows "wc_worker_id c \<noteq> []" "wc_worker_id c = strip (env_get env ''WORKER_ID'' host)"
    "\<not> float_not_positive (wc_poll_interval c)" "1 \<le> wc_worker_threads c"
    "1 \<le> wc_cleanup_interval c" "1 \<le> wc_cleanup_retention_days c" "1 \<le> wc_cleanup_batch_size c"
    "wc_executor_mode c = ''fake'' \<or> wc_executor_mode c = ''truenas''"
    "wc_cleanup_apply_enabled c =
       (lower (strip (env_get env ''TRUENAS_CLEANUP_APPLY_ENABLED'' ''false'')) = ''true'')"
    "check_truenas env (wc_executor_mode c) (wc_cleanup_apply_enabled c) = Inr ()"
  using assms
  by (auto simp: worker_from_env_def Let_def bindR_Inr_iff dest: worker_numbers worker_boolean_Inr
      split: if_splits)

lemma worker_settings_Inr:
  assumes "worker_from_env host env = Inr c"
  shows "worker_settings env c =
      (if wc_executor_mode c = ''truenas'' \<or> wc_cleanup_apply_enabled c
       then bindR (truenas_from_env env) (\<lambda>s. Inr (Some s)) else Inr None)"
    and "wc_executor_mode c = ''truenas'' \<or> wc_cleanup_apply_enabled c \<Longrightarrow>
      \<exists>s. truenas_from_env env = Inr s \<and> settings_ok s
        \<and> (wc_executor_mode c = ''truenas'' \<longrightarrow> tc_apply_enabled s)"
  using check_truenas_Inr [OF worker_from_env_Inr(10) [OF assms]]
  by (auto simp: worker_settings_def dest: truenas_from_env_ok)




section \<open>The write gate\<close>

definition storage_untouched :: "(db \<times> 'q, 'a) sx \<Rightarrow> bool" where
  "storage_untouched m \<longleftrightarrow> (\<forall>d q. snd (snd (m (d, q))) = q)"

lemma untouched_on_db: "storage_untouched (on_db m)"
  by (simp add: storage_untouched_def on_db_def split: prod.split)

lemma untouched_fresh: "storage_untouched (with_fresh_store initial m)"
  by (simp add: storage_untouched_def with_fresh_store_def split: prod.split)

lemma untouched_return: "storage_untouched (returnS x)" "storage_untouched (raiseS e)"
  "storage_untouched (liftR r)"
  by (simp_all add: storage_untouched_def sx_simps)

lemma untouched_bind:
  assumes "storage_untouched m" and "\<And>x. storage_untouched (f x)"
  shows "storage_untouched (bindS m f)"
  unfolding storage_untouched_def
proof (intro allI)
  fix d q
  obtain r d' q' where m: "m (d, q) = (r, (d', q'))" by (metis prod.collapse)
  with assms(1) have "q' = q" unfolding storage_untouched_def by (metis snd_conv)
  with m assms(2) show "snd (snd (bindS m f (d, q))) = q"
    by (cases r) (auto simp: bindS_apply storage_untouched_def)
qed

lemma untouched_try: "storage_untouched m \<Longrightarrow> storage_untouched (tryS m)"
  by (simp add: storage_untouched_def tryS_def split: prod.split) (metis snd_conv)

lemma untouched_finally:
  "storage_untouched m \<Longrightarrow> storage_untouched n \<Longrightarrow> storage_untouched (finallyS m n)"
  unfolding finallyS_def by (intro untouched_bind untouched_try untouched_return)

lemmas untouched_intros =
  untouched_on_db untouched_fresh untouched_return untouched_bind untouched_try untouched_finally

lemma untouched_fake_handler:
  "wc_executor_mode c = ''fake'' \<Longrightarrow> storage_untouched (worker_publish_handler c settings D fresh clock payload)"
  by (auto simp: worker_publish_handler_def handle_publish_task_def split_def intro!: untouched_intros)

lemma untouched_dry_pass:
  "\<not> cc_apply_enabled cfg \<Longrightarrow> storage_untouched (cleanup_datasets cfg None ids now)"
  unfolding cleanup_datasets_def by (auto intro!: untouched_intros)

lemma untouched_lift_bind:
  "(\<And>x. r = Inr x \<Longrightarrow> storage_untouched (f x)) \<Longrightarrow> storage_untouched (bindS (liftR r) f)"
  by (cases r) (simp_all add: storage_untouched_def sx_simps)

lemma untouched_dry_cleanup:
  assumes "\<not> wc_cleanup_apply_enabled c"
  shows "storage_untouched (worker_cleanup_handler c settings D now ids)"
proof -
  have plain: "\<not> cc_apply_enabled cfg"
    if "cleanup_use_case (wc_cleanup_retention_days c) (wc_cleanup_batch_size c) False = Inr cfg" for cfg
    using that by (auto simp: cleanup_use_case_def split: if_splits)
  have start: "bindS (returnS None) f = f None" for f :: "'b option \<Rightarrow> (db \<times> 'a, unit) sx"
    by (simp add: fun_eq_iff sx_simps)
  show ?thesis
    using assms unfolding worker_cleanup_handler_def handle_cleanup_def
    by (auto simp: start intro!: untouched_bind untouched_finally untouched_return untouched_lift_bind
        untouched_dry_pass dest: plain)
qed

lemma truenas_apply_flag:
  "truenas_from_env env = Inr s \<Longrightarrow>
     tc_apply_enabled s = (lower (strip (env_get env ''TRUENAS_APPLY_ENABLED'' ''false'')) = ''true'')"
  by (auto simp: truenas_from_env_def truenas_flag_def Let_def bindR_Inr_iff split: if_splits)

text \<open>C5. Nothing is written to TrueNAS unless it was switched on: in a process whose environment does
  not set \<open>TRUENAS_APPLY_ENABLED\<close> to true no publish message touches storage, and in one that does not
  set \<open>TRUENAS_CLEANUP_APPLY_ENABLED\<close> to true no retention message does.\<close>

theorem storage_gated:
  assumes "worker_from_env host env = Inr c" and "worker_settings env c = Inr settings"
  shows "(lower (strip (env_get env ''TRUENAS_APPLY_ENABLED'' ''false'')) \<noteq> ''true'' \<longrightarrow>
      snd (snd (worker_publish_handler c settings D fresh clock payload (d, q))) = q)
    \<and> (lower (strip (env_get env ''TRUENAS_CLEANUP_APPLY_ENABLED'' ''false'')) \<noteq> ''true'' \<longrightarrow>
      snd (snd (worker_cleanup_handler c settings D now ids (d, q))) = q)"
proof (intro conjI impI)
  note checks = worker_from_env_Inr [OF assms(1)]
  assume off: "lower (strip (env_get env ''TRUENAS_APPLY_ENABLED'' ''false'')) \<noteq> ''true''"
  have "\<not> tc_apply_enabled s" if "truenas_from_env env = Inr s" for s
    using truenas_apply_flag [OF that] off by simp
  then have "wc_executor_mode c = ''fake''"
    using worker_settings_Inr(2) [OF assms(1)] checks(8) by blast
  then show "snd (snd (worker_publish_handler c settings D fresh clock payload (d, q))) = q"
    using untouched_fake_handler by (metis storage_untouched_def)
next
  assume "lower (strip (env_get env ''TRUENAS_CLEANUP_APPLY_ENABLED'' ''false'')) \<noteq> ''true''"
  then have "\<not> wc_cleanup_apply_enabled c" using worker_from_env_Inr(9) [OF assms(1)] by simp
  then show "snd (snd (worker_cleanup_handler c settings D now ids (d, q))) = q"
    using untouched_dry_cleanup by (metis storage_untouched_def)
qed

section \<open>An unsupported version\<close>

text \<open>C8. A worker that publishes to a TrueNAS of an unsupported version starts all the same and then
  loses every job: whatever message it is given, either its job is already final or the handler raises
  with nothing changed, so the job stays publishing, and its message is not delivered again.\<close>

theorem unsupported_version_strands_jobs:
  assumes "worker_from_env host env = Inr c" and "wc_executor_mode c = ''truenas''"
    and "worker_settings env c = Inr (Some s)" and "\<not> supported_version (tc_api_version s)"
  shows "(\<exists>job ts d'. load_task payload d = (Inr (job, ts), d')
        \<and> job_status_value (pj_status job) \<in> {''completed'', ''partial_failure'', ''failed''})
    \<or> (\<exists>e. worker_publish_handler c (Some s) D fresh clock payload (d, q) = (Inl e, (d, q)))"
proof -
  have load: "snd (load_task payload d) = d"
    unfolding load_task_def split_def
    by (rule with_uow_readonly) (intro keeps_intros keeps_sess_committed)
  note sts = load_stations_state
  have "\<nexists>C. dial_clients D s = Inr C"
    using assms(4) by (auto simp: dial_clients_def dial_read_client_def bindR_Inr_iff mk_registry_cases)
  then obtain e where dial: "dial_clients D s = Inl e" by (cases "dial_clients D s") auto
  show ?thesis
  proof (cases "load_task payload d")
    case (Pair r d')
    with load have d: "d' = d" by simp
    show ?thesis
    proof (cases r)
      case (Inl e)
      then show ?thesis using Pair d assms(2)
        by (auto simp: worker_publish_handler_def handle_publish_task_def sx_simps)
    next
      case (Inr x)
      obtain job ts where x: "x = (job, ts)" by (cases x)
      obtain r' where st: "load_stations (filter tg_selected ts) d = (r', d)"
        using sts by (metis prod.collapse)
      show ?thesis
        using Pair d Inr x assms(2) st dial
        by (cases r') (auto simp: worker_publish_handler_def handle_publish_task_def sx_simps
            dialed_task_execute_def guarded_execute_def Let_def)
    qed
  qed
qed

section \<open>The loop\<close>

text \<open>A call that never raises and returns a value of the given kind.\<close>

definition calm :: "('q, 'a) sx \<Rightarrow> ('a \<Rightarrow> bool) \<Rightarrow> bool" where
  "calm m Q \<longleftrightarrow> (\<forall>q. \<exists>x q'. m q = (Inr x, q') \<and> Q x)"

lemma after_calm:
  assumes "calm m C" and "\<And>x t. C x \<Longrightarrow> Q x t"
  shows "after m Q E s"
proof -
  obtain x t where "m s = (Inr x, t)" "C x" using assms(1) unfolding calm_def by blast
  with assms(2) show ?thesis by (simp add: after_def)
qed

lemma calm_tick:
  assumes "calm (we_monotonic env) (\<lambda>_. True)" and "next_cleanup = None \<or> calm (we_send_cleanup env) (\<lambda>_. True)"
  shows "calm (cleanup_tick env c next_cleanup) (\<lambda>later. next_cleanup = None \<longrightarrow> later = None)"
proof -
  have "\<exists>x q'. cleanup_tick env c next_cleanup q = (Inr x, q') \<and> (next_cleanup = None \<longrightarrow> x = None)" for q
  proof (cases next_cleanup)
    case None
    then show ?thesis by (simp add: cleanup_tick_def sx_simps)
  next
    case (Some due)
    from assms(1) obtain t q1 where t: "we_monotonic env q = (Inr t, q1)" unfolding calm_def by blast
    from assms(2) Some obtain u q2 where u: "we_send_cleanup env q1 = (Inr u, q2)" unfolding calm_def by blast
    from assms(1) obtain t' q3 where "we_monotonic env q2 = (Inr t', q3)" unfolding calm_def by blast
    with Some t u show ?thesis by (simp add: cleanup_tick_def schedule_cleanup_def sx_simps)
  qed
  then show ?thesis unfolding calm_def by blast
qed

definition event_sent :: "uuid \<Rightarrow> db \<Rightarrow> bool" where
  "event_sent eid d \<longleftrightarrow> (\<exists>r \<in> set (outbox_events d). xr_id r = eid \<and> xr_status r = OB_DISPATCHED)"

lemma event_due_later: "event_due T r \<Longrightarrow> T \<le> t \<Longrightarrow> event_due t r"
  by (auto simp: event_due_def split: option.splits)

lemma due_claimed_or_full:
  assumes "r \<in> set (outbox_events d)" and "event_due t r" and "0 \<le> b"
  shows "r \<in> set (claimable_events t b d) \<or> int (length (claimable_events t b d)) = b"
proof (cases "length (claimable_events t b d) = nat b")
  case True
  then show ?thesis using assms(3) by simp
next
  case False
  let ?all = "order_by (\<lambda>r. (instant (xr_created_at r), xr_id r)) (filter (event_due t) (outbox_events d))"
  from False have "take (nat b) ?all = ?all" by (simp add: claimable_events_def)
  then show ?thesis using assms(1,2) by (simp add: claimable_events_def set_order_by)
qed

lemma sent_stays:
  assumes "integrity d" and "event_sent eid d"
  shows "event_sent eid (relayed_db cfg t (xr_id ` set (claimable_events now b d)) sent d)"
proof -
  from assms(2) obtain r where r: "r \<in> set (outbox_events d)" "xr_id r = eid" "xr_status r = OB_DISPATCHED"
    unfolding event_sent_def by blast
  have "xr_id r \<notin> xr_id ` set (claimable_events now b d)"
    using r distinct_map_eq_iff [OF integrityD(13) [OF assms(1)]]
    by (auto simp: event_due_def dest!: claimable_events_set)
  then have "relayed_row cfg t (xr_id ` set (claimable_events now b d)) sent r = r"
    by (simp add: relayed_row_def)
  with r show ?thesis unfolding event_sent_def by (force simp: image_iff)
qed

text \<open>One poll sends a due event or spends a whole batch of the deliveries that are left.\<close>

lemma poll_progress:
  assumes "integrity d" and "never_raises enqueue" and "0 \<le> rc_batch_size cfg"
    and "r \<in> set (outbox_events d)" and "event_due (instant t) r" and "deliverable r"
  shows "\<exists>res d' q'. relay_run_once enqueue cfg t None (d, q) = (Inr res, (d', q')) \<and> integrity d'
    \<and> (event_sent (xr_id r) d'
       \<or> r \<in> set (outbox_events d')
         \<and> outbox_budget (rc_max_attempts cfg) d' + rc_batch_size cfg \<le> outbox_budget (rc_max_attempts cfg) d)"
proof -
  let ?rs = "claimable_events (instant t) (rc_batch_size cfg) d"
  obtain sent q' where run: "relay_run_once enqueue cfg t None (d, q) =
      (Inr \<lparr>rl_claimed = int (length ?rs), rl_dispatched = int (card sent),
            rl_failed = int (length ?rs) - int (card sent)\<rparr>, (relayed_db cfg t (xr_id ` set ?rs) sent d, q'))"
    "relay_outcome enqueue ?rs sent"
    using relay_run [OF assms(1), of enqueue cfg t None q] by auto
  let ?d = "relayed_db cfg t (xr_id ` set ?rs) sent d"
  from budget_after_poll [OF assms(1), of enqueue cfg t q] run(1)
  have budget: "int (length ?rs) + outbox_budget (rc_max_attempts cfg) ?d \<le> outbox_budget (rc_max_attempts cfg) d"
    by auto
  have row: "relayed_row cfg t (xr_id ` set ?rs) sent r \<in> set (outbox_events ?d)"
    using assms(4) by simp
  have "event_sent (xr_id r) ?d" if "r \<in> set ?rs"
  proof -
    have "xr_id r \<in> sent" using run(2) assms(2,6) that unfolding relay_outcome_def by auto
    then have "relayed_row cfg t (xr_id ` set ?rs) sent r = dispatched_row t r"
      using that by (simp add: relayed_row_def)
    with row show ?thesis unfolding event_sent_def by (metis settled_row_sels(2,6))
  qed
  moreover have "r \<in> set (outbox_events ?d)" if "r \<notin> set ?rs"
  proof -
    have "xr_id r \<notin> xr_id ` set ?rs"
    proof
      assume "xr_id r \<in> xr_id ` set ?rs"
      then obtain y where "y \<in> set ?rs" "xr_id y = xr_id r" by auto
      with that assms(4) distinct_map_eq_iff [OF integrityD(13) [OF assms(1)]] show False
        by (metis claimable_events_set)
    qed
    then have "relayed_row cfg t (xr_id ` set ?rs) sent r = r" by (simp add: relayed_row_def)
    with row show ?thesis by simp
  qed
  ultimately show ?thesis
    using run(1) budget due_claimed_or_full [OF assms(4,5,3)] integrity_relayed_db [OF assms(1)] by force
qed

text \<open>The event is sent, or \<open>n\<close> more polls are more than the deliveries that are left.\<close>

definition on_course :: "relay_config \<Rightarrow> int \<Rightarrow> outbox_row \<Rightarrow> nat \<Rightarrow> db \<Rightarrow> bool" where
  "on_course cfg T r n d \<longleftrightarrow> integrity d
     \<and> (event_sent (xr_id r) d
        \<or> r \<in> set (outbox_events d) \<and> event_due T r \<and> deliverable r
          \<and> outbox_budget (rc_max_attempts cfg) d < rc_batch_size cfg * int n)"

lemma on_course_poll:
  assumes "on_course cfg T r (Suc n) d" and "never_raises enqueue" and "0 \<le> rc_batch_size cfg" and "T \<le> instant t"
  shows "after (relay_run_once enqueue cfg t None) (\<lambda>_ s. on_course cfg T r n (fst s)) (\<lambda>_ _. False) (d, q)"
proof (cases "event_sent (xr_id r) d")
  case True
  have ok: "integrity d" using assms(1) by (simp add: on_course_def)
  with True relay_run [OF ok, of enqueue cfg t None q] sent_stays [OF ok True] integrity_relayed_db [OF ok]
  show ?thesis by (auto simp: after_def on_course_def)
next
  case False
  with assms(1) have r: "integrity d" "r \<in> set (outbox_events d)" "event_due T r" "deliverable r"
    "outbox_budget (rc_max_attempts cfg) d < rc_batch_size cfg * int (Suc n)"
    by (simp_all add: on_course_def)
  obtain res d' q' where run: "relay_run_once enqueue cfg t None (d, q) = (Inr res, (d', q'))" "integrity d'"
    "event_sent (xr_id r) d' \<or> r \<in> set (outbox_events d')
       \<and> outbox_budget (rc_max_attempts cfg) d' + rc_batch_size cfg \<le> outbox_budget (rc_max_attempts cfg) d"
    using poll_progress [OF r(1) assms(2,3) r(2) event_due_later [OF r(3) assms(4)] r(4)] by blast
  then have "on_course cfg T r n d'"
    using r(3,4,5) unfolding on_course_def by (auto simp: algebra_simps)
  with run(1) show ?thesis by (simp add: after_def)
qed

lemma worker_loop_sends:
  assumes "calm (we_stopped env) (\<lambda>_. True)" and "calm (we_monotonic env) (\<lambda>_. True)"
    and "calm (we_clock env) (\<lambda>t. T \<le> instant t)" and "\<And>x. calm (we_wait env x) (\<lambda>_. True)"
    and "never_raises (publish_task_enqueue (we_send_publish env))" and "0 \<le> rc_batch_size cfg"
    and "next_cleanup = None \<or> calm (we_send_cleanup env) (\<lambda>_. True)" and "on_course cfg T r n d"
  shows "after (worker_loop n env c cfg next_cleanup) (\<lambda>stopped s. stopped \<or> event_sent (xr_id r) (fst s))
    (\<lambda>_ _. False) (d, q)"
  using assms(7,8)
proof (induction n arbitrary: d q next_cleanup)
  case 0
  then show ?case
    using budget_nonneg [of "rc_max_attempts cfg" d] by (auto simp: after_return on_course_def)
next
  case (Suc n)
  have poll: "after (relay_poll env cfg) (\<lambda>_ s. on_course cfg T r n (fst s)) (\<lambda>_ _. False) (d, q')" for q'
    unfolding relay_poll_def after_bind after_on
    by (rule after_calm [OF assms(3)]) (rule on_course_poll [OF Suc.prems(2) assms(5,6)])
  have later: "after (bindS (tryS (relay_poll env cfg)) (\<lambda>_. bindS (on_ext (we_wait env (wc_poll_interval c)))
      (\<lambda>_. worker_loop n env c cfg nxt))) (\<lambda>stopped s. stopped \<or> event_sent (xr_id r) (fst s))
      (\<lambda>_ _. False) (d, q')" if "next_cleanup = None \<longrightarrow> nxt = None" for nxt q'
  proof -
    have nxt: "nxt = None \<or> calm (we_send_cleanup env) (\<lambda>_. True)" using that Suc.prems(1) by blast
    have "after (bindS (on_ext (we_wait env (wc_poll_interval c))) (\<lambda>_. worker_loop n env c cfg nxt))
        (\<lambda>stopped s. stopped \<or> event_sent (xr_id r) (fst s)) (\<lambda>_ _. False) s" if "on_course cfg T r n (fst s)" for s
      using that nxt by (cases s) (auto simp: after_bind after_on intro!: after_calm [OF assms(4)] Suc.IH)
    then show ?thesis
      unfolding after_bind [of "tryS _"] after_try by (rule after_mono [OF poll]) auto
  qed
  show ?case
    unfolding worker_loop.simps after_bind [of "on_ext _"] after_on
    by (rule after_calm [OF assms(1)])
      (auto simp: after_return after_bind [of "on_ext (cleanup_tick env c next_cleanup)"] after_on
        intro!: after_calm [OF calm_tick [OF assms(2) Suc.prems(1)]] later)
qed

text \<open>C4. The worker drains the outbox: as long as the queue accepts messages and its process is not
  stopped, every deliverable event that is due is sent within a bounded number of rounds, whatever
  other events (malformed ones that are retried included) stand before it - one round for each ten
  deliveries the pending events have left, and one more.\<close>

theorem worker_drains_outbox:
  assumes "worker_from_env host vars = Inr c" and "integrity d"
    and "calm (we_stopped env) (\<lambda>_. True)" and "calm (we_monotonic env) (\<lambda>_. True)"
    and "calm (we_clock env) (\<lambda>t. T \<le> instant t)" and "\<And>x. calm (we_wait env x) (\<lambda>_. True)"
    and "calm (we_stop_consumers env) (\<lambda>_. True)" and "\<And>m. calm (we_send_publish env m) (\<lambda>_. True)"
    and "wc_cleanup_enabled c \<Longrightarrow> calm (we_send_cleanup env) (\<lambda>_. True)"
    and "r \<in> set (outbox_events d)" and "event_due T r" and "deliverable r"
    and "sum_list (map (\<lambda>r. if xr_status r = OB_PENDING then max 1 (5 - xr_attempts r) else 0)
           (outbox_events d)) < 10 * int n"
  shows "\<exists>stopped d' q'. worker_run n env c (d, q) = (Inr stopped, (d', q'))
    \<and> (stopped \<or> (\<exists>r' \<in> set (outbox_events d'). xr_id r' = xr_id r \<and> xr_status r' = OB_DISPATCHED))"
proof -
  have "\<exists>cfg. mk_relay (wc_worker_id c) 10 5 60 = Inr cfg"
    using worker_from_env_Inr(1,2) [OF assms(1)] strip_idem [of "env_get vars ''WORKER_ID'' host"]
    by (simp add: mk_relay_def)
  then obtain cfg where cfg: "mk_relay (wc_worker_id c) 10 5 60 = Inr cfg" ..
  note batch = mk_relay_Inr [OF cfg]
  have course: "on_course cfg T r n d"
    using assms(2,10-13) batch by (simp add: on_course_def outbox_budget_def row_budget_def [abs_def])
  have send: "never_raises (publish_task_enqueue (we_send_publish env))"
    using assms(8) unfolding never_raises_def publish_task_enqueue_def calm_def by (metis (full_types) unit.exhaust)
  have loop: "after (finallyS (worker_loop n env c cfg first) (on_ext (we_stop_consumers env)))
      (\<lambda>stopped s. stopped \<or> event_sent (xr_id r) (fst s)) (\<lambda>_ _. False) (d, q')"
    if "first = None \<or> calm (we_send_cleanup env) (\<lambda>_. True)" for first q'
  proof -
    have finish: "after (on_ext (we_stop_consumers env)) (\<lambda>_ t. P t) (\<lambda>_ _. False) s"
      if "P s" "\<And>x y y'. P (x, y) \<Longrightarrow> P (x, y')" for s :: "db \<times> 'a" and P
      using that by (cases s) (auto simp: after_on intro: after_calm [OF assms(7)])
    show ?thesis
      unfolding after_finally
      by (rule after_mono [OF worker_loop_sends [OF assms(3-6) send _ that course]])
        (use batch in \<open>auto intro: finish\<close>)
  qed
  have "after (worker_run n env c) (\<lambda>stopped s. stopped \<or> event_sent (xr_id r) (fst s)) (\<lambda>_ _. False) (d, q)"
    unfolding worker_run_def after_bind after_lift cfg sum.case after_if after_on after_return schedule_cleanup_def
    using assms(9) by (auto intro!: loop after_calm [OF assms(4)])
  from after_total [OF this] show ?thesis by (auto simp: event_sent_def)
qed

section \<open>What ends the worker\<close>

text \<open>C7. The retention schedule is the one thing that ends a worker: a poll that raises is survived,
  whatever the queue and the database do, so an exception out of the loop is one the queue raised for
  a retention message; and when that message is due and the queue is down, the loop ends there, with
  the outbox unread.\<close>

theorem cleanup_outage_stops_worker:
  assumes "calm (we_stopped env) (\<lambda>_. True)" and "calm (we_monotonic env) (\<lambda>_. True)"
    and "\<And>x. calm (we_wait env x) (\<lambda>_. True)"
  shows "(worker_loop n env c cfg next_cleanup s = (Inl e, s') \<longrightarrow> (\<exists>q q'. we_send_cleanup env q = (Inl e, q')))
    \<and> (\<forall>d q q1 q2 q3 t due. we_stopped env q = (Inr False, q1) \<and> we_monotonic env q1 = (Inr t, q2) \<and> due \<le> t
         \<and> we_send_cleanup env q2 = (Inl e, q3) \<longrightarrow>
         worker_loop (Suc n) env c cfg (Some due) (d, q) = (Inl e, (d, q3)))"
proof (intro conjI impI allI)
  let ?sent = "\<lambda>e. \<exists>q q'. we_send_cleanup env q = (Inl e, q')"
  have tick: "after (cleanup_tick env c later) (\<lambda>_ _. True) (\<lambda>e _. ?sent e) q" for later q
  proof -
    have send: "after (we_send_cleanup env) (\<lambda>_ _. True) (\<lambda>e _. ?sent e) q" for q
      by (auto simp: after_def split: sum.split prod.split)
    have "after (we_monotonic env) (\<lambda>_ _. True) (\<lambda>e _. ?sent e) q" for q
      by (rule after_calm [OF assms(2)]) simp
    then show ?thesis
      unfolding cleanup_tick_def schedule_cleanup_def
      by (auto simp: after_simps split: option.split intro!: after_calm [OF assms(2)] after_mono [OF send])
  qed
  have any: "after m (\<lambda>_ _. True) (\<lambda>_ _. True) s" for m :: "('x, 'y) sx" and s
    by (rule after_anything)
  have loop: "after (worker_loop n env c cfg later) (\<lambda>_ _. True) (\<lambda>e _. ?sent e) s" for later s
  proof (induction n arbitrary: later s)
    case 0
    then show ?case by (simp add: after_return)
  next
    case (Suc n later st)
    obtain d q where s: "st = (d, q)" by (cases st)
    have rest: "after (bindS (tryS (relay_poll env cfg)) (\<lambda>_. bindS (on_ext (we_wait env (wc_poll_interval c)))
        (\<lambda>_. worker_loop n env c cfg later))) (\<lambda>_ _. True) (\<lambda>e _. ?sent e) t" for later t
      unfolding after_bind after_try
      by (rule after_mono [OF after_anything])
        (case_tac t, auto simp: after_on intro!: after_calm [OF assms(3)] Suc.IH)+
    show ?case
      unfolding worker_loop.simps s after_bind after_on
      by (rule after_calm [OF assms(1)])
        (auto simp: after_return after_on after_bind [of "on_ext (cleanup_tick env c later)"]
          intro!: after_mono [OF tick] rest)
  qed
  show "?sent e" if "worker_loop n env c cfg next_cleanup s = (Inl e, s')"
    using after_Inl [OF loop that] .
next
  fix d q q1 q2 q3 t due
  assume "we_stopped env q = (Inr False, q1) \<and> we_monotonic env q1 = (Inr t, q2) \<and> due \<le> t
    \<and> we_send_cleanup env q2 = (Inl e, q3)"
  then show "worker_loop (Suc n) env c cfg (Some due) (d, q) = (Inl e, (d, q3))"
    by (simp add: sx_simps cleanup_tick_def)
qed

section \<open>Samples\<close>

definition fake_vars :: env where
  "fake_vars = map_of [(''DATABASE_URL'', ''postgresql://db''), (''REDIS_URL'', '' redis://queue ''),
     (''WORKER_ID'', ''worker-1'')]"

definition fake_worker :: worker_config where
  "fake_worker = \<lparr>wc_database_url = ''postgresql://db'', wc_redis_url = ''redis://queue'',
     wc_worker_id = ''worker-1'', wc_poll_interval = Finite 1, wc_worker_threads = 2,
     wc_executor_mode = ''fake'', wc_cleanup_enabled = False, wc_cleanup_interval = 604800,
     wc_cleanup_retention_days = 30, wc_cleanup_batch_size = 10, wc_cleanup_apply_enabled = False\<rparr>"

lemma fake_worker_read: "worker_from_env ''host'' fake_vars = Inr fake_worker"
  by code_simp

definition nas_vars :: env where
  "nas_vars = fake_vars(''PUBLISH_EXECUTOR_MODE'' \<mapsto> ''TrueNAS'', ''TRUENAS_APPLY_ENABLED'' \<mapsto> ''true'',
     ''TRUENAS_WS_URL'' \<mapsto> ''wss://nas/api/current'', ''TRUENAS_API_KEY'' \<mapsto> ''key'',
     ''TRUENAS_VERSION'' \<mapsto> ''26.04'')"

definition nas_settings :: truenas_settings where
  "nas_settings = \<lparr>tc_api_key = ''key'', tc_api_version = ''26.04'', tc_reconnect_attempts = 2,
     tc_backoff = 1 / 4, tc_backoff_max = 2, tc_apply_enabled = True,
     ts_websocket_url = ''wss://nas/api/current'', ts_timeout = 10, ts_open_timeout = 10,
     ts_tls_verify = True, ts_tls_ca_file = None\<rparr>"

definition nas_worker :: worker_config where
  "nas_worker = fake_worker\<lparr>wc_executor_mode := ''truenas''\<rparr>"

lemma nas_worker_read:
  "worker_from_env ''host'' nas_vars = Inr nas_worker"
  "worker_settings nas_vars nas_worker = Inr (Some nas_settings)"
  by code_simp+

lemma unsupported_sample: "\<not> supported_version (tc_api_version nas_settings)"
  by code_simp

definition dead_dialer :: "nat dialer" where
  "dead_dialer = \<lparr>di_load_tls = (\<lambda>_. Inr ()), di_sleep = (\<lambda>_. returnS ()), di_patience = 1,
     di_rpc = (\<lambda>_ _ _ _. raiseS (ConnectionError ''unreachable'')), di_close = (\<lambda>_. returnS ())\<rparr>"






theorem storage_gated_witness:
  "snd (snd (worker_publish_handler fake_worker None dead_dialer sample_fresh (Aware 0 0) sample_payload (dry_db, 7))) = 7
   \<and> snd (snd (worker_cleanup_handler fake_worker None dead_dialer (Aware 0 0) [] (dry_db, 7))) = 7"
proof -
  have "worker_settings fake_vars fake_worker = Inr None"
    by (simp add: worker_settings_def fake_worker_def)
  note gated = storage_gated [OF fake_worker_read this, of dead_dialer sample_fresh "Aware 0 0"
      sample_payload dry_db 7 "Aware 0 0" "[]"]
  have "fake_vars ''TRUENAS_APPLY_ENABLED'' = None" "fake_vars ''TRUENAS_CLEANUP_APPLY_ENABLED'' = None"
    by (simp_all add: fake_vars_def)
  moreover have "lower (strip ''false'') = ''false''" by code_simp
  ultimately show ?thesis using gated by (simp add: env_get_def)
qed

theorem unsupported_version_strands_jobs_witness:
  "\<exists>e. worker_publish_handler nas_worker (Some nas_settings) dead_dialer sample_fresh (Aware 0 0) sample_payload
      (dry_db, 7) = (Inl e, (dry_db, 7))"
proof -
  have "wc_executor_mode nas_worker = ''truenas''" by (simp add: nas_worker_def)
  moreover have "job_status_value (pj_status (row_job dry_row)) \<notin> {''completed'', ''partial_failure'', ''failed''}"
    by (simp add: dry_defs sample_job_def)
  ultimately show ?thesis
    using unsupported_version_strands_jobs [OF nas_worker_read(1) _ nas_worker_read(2) unsupported_sample,
        of sample_payload dry_db dead_dialer sample_fresh "Aware 0 0" 7]
    by (auto simp: dry_load)
qed

text \<open>A process whose queue is a list of messages.\<close>

definition list_env :: "(string \<times> string \<times> string) list worker_env" where
  "list_env = \<lparr>we_stopped = returnS False, we_monotonic = returnS 0, we_clock = returnS (Aware 4000000 0),
     we_wait = (\<lambda>_. returnS ()), we_send_publish = (\<lambda>m q. (Inr (), q @ [m])),
     we_send_cleanup = raiseS (ConnectionError ''redis''), we_stop_consumers = returnS ()\<rparr>"

lemma calm_list_env:
  "calm (we_stopped list_env) (\<lambda>_. True)" "calm (we_monotonic list_env) (\<lambda>_. True)"
  "calm (we_clock list_env) (\<lambda>t. 4000000 \<le> instant t)" "calm (we_wait list_env x) (\<lambda>_. True)"
  "calm (we_stop_consumers list_env) (\<lambda>_. True)" "calm (we_send_publish list_env m) (\<lambda>_. True)"
  by (auto simp: calm_def list_env_def returnS_def)

theorem worker_drains_outbox_witness:
  "\<exists>job d stopped d' q'. dispatch_publish_job 30 (Aware 3000000 0) 20 confirmed_db = (Inr job, d)
     \<and> worker_run 1 list_env fake_worker (d, []) = (Inr stopped, (d', q'))
     \<and> (stopped \<or> (\<exists>r' \<in> set (outbox_events d'). xr_id r' = 30 \<and> xr_status r' = OB_DISPATCHED))"
proof (rule dispatched_outbox)
  fix job d assume d: "dispatch_publish_job 30 (Aware 3000000 0) 20 confirmed_db = (Inr job, d)" "integrity d"
    "outbox_events d = [dispatched_event_row 30 (Aware 3000000 0) job]"
  let ?row = "dispatched_event_row 30 (Aware 3000000 0) job"
  have "event_due 4000000 ?row" "?row \<in> set (outbox_events d)"
    by (simp_all add: d(3) event_due_def dispatched_event_row_def)
  moreover have "sum_list (map (\<lambda>r. if xr_status r = OB_PENDING then max 1 (5 - xr_attempts r) else 0)
      (outbox_events d)) < 10 * int 1"
    by (simp add: d(3) dispatched_event_row_def)
  moreover have "\<not> wc_cleanup_enabled fake_worker" by (simp add: fake_worker_def)
  ultimately have "\<exists>stopped d' q'. worker_run 1 list_env fake_worker (d, []) = (Inr stopped, (d', q'))
      \<and> (stopped \<or> (\<exists>r' \<in> set (outbox_events d'). xr_id r' = xr_id ?row \<and> xr_status r' = OB_DISPATCHED))"
    by (intro worker_drains_outbox [OF fake_worker_read d(2) calm_list_env]
        deliverable_dispatched) simp_all
  moreover have "xr_id ?row = 30" by (simp add: dispatched_event_row_def)
  ultimately show ?thesis using d(1) by (simp only: simp_thms) blast
qed

theorem cleanup_outage_stops_worker_witness:
  "worker_loop 1 list_env fake_worker sample_relay (Some 0) (confirmed_db, []) =
     (Inl (ConnectionError ''redis''), (confirmed_db, []))"
  using cleanup_outage_stops_worker [OF calm_list_env(1,2,4), of 0 fake_worker sample_relay]
  by (simp add: list_env_def returnS_def raiseS_def)

end
