(* ===== verification/Agent_Store.thy ===== *)
theory Agent_Store
  imports Py_Env Agent_Heartbeat
begin

text \<open>
  \<open>agent/credentials.py\<close>: the three credential stores behind one interface.  A disk maps a directory
  and a file name to bytes (characters with the codes 0 to 255); \<open>fault\<close> says which of its steps
  fails, and how.  DPAPI is a parameter, as are the random parts of temporary names.
\<close>

section \<open>Credentials\<close>

definition validate_credential :: "string \<Rightarrow> unit result" where
  "validate_credential credential =
     (if credential = [] \<or> CHR 0x0A \<in> set credential \<or> CHR 0x0D \<in> set credential
      then Inl (ValueError ''credential must be a non-empty single-line value'') else Inr ())"

text \<open>UTF-8 of the code points 0 to 255.\<close>

definition utf8_char :: "char \<Rightarrow> string" where
  "utf8_char c =
     (if code c < 128 then [c] else [chr_of (192 + code c div 64), chr_of (128 + code c mod 64)])"

definition utf8_encode :: "string \<Rightarrow> string" where
  "utf8_encode s = concat (map utf8_char s)"

fun utf8_decode :: "string \<Rightarrow> string option" where
  "utf8_decode [] = Some []"
| "utf8_decode (a # s) =
     (if code a < 128 then map_option ((#) a) (utf8_decode s)
      else case s of
        [] \<Rightarrow> None
      | b # t \<Rightarrow>
          if (code a = 194 \<or> code a = 195) \<and> 128 \<le> code b \<and> code b < 192
          then map_option ((#) (chr_of ((code a - 192) * 64 + (code b - 128)))) (utf8_decode t)
          else None)"

section \<open>The disk\<close>

type_synonym path = "string \<times> string"

type_synonym disk = "path \<rightharpoonup> string"

datatype disk_step =
  MakeParent | MakeTemp | RestrictTemp | WriteTemp | SecureTemp | ReplaceTarget | RemoveTemp
  | ReadTarget | RemoveTarget

type_synonym faults = "disk_step \<Rightarrow> exn option"

definition disk_do :: "faults \<Rightarrow> disk_step \<Rightarrow> (disk \<Rightarrow> disk) \<Rightarrow> (disk, unit) sx" where
  "disk_do fault step change = (case fault step of None \<Rightarrow> modifyS change | Some e \<Rightarrow> raiseS e)"

definition disk_read :: "faults \<Rightarrow> path \<Rightarrow> (disk, string option) sx" where
  "disk_read fault path =
     (case fault ReadTarget of None \<Rightarrow> getS (\<lambda>disk. disk path) | Some e \<Rightarrow> raiseS e)"

definition can_read :: "faults \<Rightarrow> bool" where
  "can_read fault \<longleftrightarrow> fault ReadTarget = None"

text \<open>\<open>mkstemp\<close> with the prefix \<open>.name.\<close> in the directory of the file.\<close>

definition temp_path :: "string \<Rightarrow> path \<Rightarrow> path" where
  "temp_path random path = (fst path, ''.'' @ snd path @ ''.'' @ random)"

text \<open>The bytes reach their place by one replacement; a failure before it removes the temporary file.\<close>

definition write_bytes_atomically :: "faults \<Rightarrow> string \<Rightarrow> path \<Rightarrow> string \<Rightarrow> bool \<Rightarrow> (disk, unit) sx" where
  "write_bytes_atomically fault random path value secure =
     (let temp = temp_path random path
      in bindS (disk_do fault MakeParent (\<lambda>d. d)) (\<lambda>_.
         bindS (disk_do fault MakeTemp (\<lambda>d. d(temp \<mapsto> []))) (\<lambda>_.
         catchS
           (bindS (disk_do fault RestrictTemp (\<lambda>d. d)) (\<lambda>_.
            bindS (disk_do fault WriteTemp (\<lambda>d. d(temp \<mapsto> value))) (\<lambda>_.
            bindS (if secure then disk_do fault SecureTemp (\<lambda>d. d) else returnS ()) (\<lambda>_.
            disk_do fault ReplaceTarget (\<lambda>d. d(path := d temp, temp := None))))))
           (\<lambda>e. bindS (disk_do fault RemoveTemp (\<lambda>d. d(temp := None))) (\<lambda>_. raiseS e)))))"

section \<open>The stores\<close>

text \<open>The plain file of development machines.\<close>

definition file_load :: "faults \<Rightarrow> path \<Rightarrow> (disk, string option) sx" where
  "file_load fault path =
     bindS (disk_read fault path) (\<lambda>found.
     case found of
       None \<Rightarrow> returnS None
     | Some bytes \<Rightarrow>
         (case utf8_decode bytes of
            None \<Rightarrow> raiseS (ValueError ''invalid utf-8'')
          | Some text \<Rightarrow> returnS (if strip text = [] then None else Some (strip text))))"

definition file_save :: "faults \<Rightarrow> string \<Rightarrow> path \<Rightarrow> string \<Rightarrow> (disk, unit) sx" where
  "file_save fault random path credential =
     bindS (liftR (validate_credential credential)) (\<lambda>_.
     write_bytes_atomically fault random path (utf8_encode credential) False)"

definition file_clear :: "faults \<Rightarrow> path \<Rightarrow> (disk, unit) sx" where
  "file_clear fault path = disk_do fault RemoveTarget (\<lambda>d. d(path := None))"

text \<open>The protected file of the Windows agent.\<close>

record protector =
  cp_protect :: "string \<Rightarrow> string result"
  cp_unprotect :: "string \<Rightarrow> string result"

definition recover_credential :: "protector \<Rightarrow> string \<Rightarrow> string result" where
  "recover_credential P encrypted =
     bindR (cp_unprotect P encrypted) (\<lambda>plaintext.
     case utf8_decode plaintext of
       None \<Rightarrow> Inl (ValueError ''invalid utf-8'')
     | Some credential \<Rightarrow> bindR (validate_credential credential) (\<lambda>_. Inr credential))"

definition protected_load :: "protector \<Rightarrow> faults \<Rightarrow> path \<Rightarrow> (disk, string option) sx" where
  "protected_load P fault path =
     bindS (disk_read fault path) (\<lambda>found.
     case found of
       None \<Rightarrow> returnS None
     | Some encrypted \<Rightarrow>
         if encrypted = [] then raiseS (CredentialStoreError ''stored credential is empty'')
         else (case recover_credential P encrypted of
             Inl e \<Rightarrow> raiseS (CredentialStoreError ''stored credential cannot be recovered'')
           | Inr credential \<Rightarrow> returnS (Some credential)))"

definition protected_save :: "protector \<Rightarrow> faults \<Rightarrow> string \<Rightarrow> path \<Rightarrow> string \<Rightarrow> (disk, unit) sx" where
  "protected_save P fault random path credential =
     bindS (liftR (validate_credential credential)) (\<lambda>_.
     case cp_protect P (utf8_encode credential) of
       Inl e \<Rightarrow> raiseS (CredentialStoreError ''credential protection failed'')
     | Inr encrypted \<Rightarrow>
         if encrypted = [] then raiseS (CredentialStoreError ''credential protection returned an invalid blob'')
         else write_bytes_atomically fault random path encrypted True)"

definition protected_clear :: "faults \<Rightarrow> path \<Rightarrow> (disk, unit) sx" where
  "protected_clear fault path = disk_do fault RemoveTarget (\<lambda>d. d(path := None))"

text \<open>The memory of the tests.\<close>

definition memory_load :: "(string option, string option) sx" where
  "memory_load = getS (\<lambda>s. s)"

definition memory_save :: "string \<Rightarrow> (string option, unit) sx" where
  "memory_save credential =
     bindS (liftR (validate_credential credential)) (\<lambda>_. modifyS (\<lambda>_. Some credential))"

definition memory_clear :: "(string option, unit) sx" where
  "memory_clear = modifyS (\<lambda>_. None)"

section \<open>The interface\<close>

text \<open>What the agent relies on: reading changes nothing, a credential that was saved is the one that
  is read, a save that raised has left what was stored, and nothing is read after clearing.\<close>

locale credential_store =
  fixes load :: "('s, string option) sx" and save :: "string \<Rightarrow> ('s, unit) sx"
    and clear :: "('s, unit) sx" and readable_store :: "'s \<Rightarrow> bool" and keepable :: "string \<Rightarrow> bool"
  assumes load_pure: "snd (load s) = s"
    and save_loads: "readable_store s \<Longrightarrow> save c s = (Inr (), t) \<Longrightarrow> keepable c \<Longrightarrow>
      readable_store t \<and> load t = (Inr (Some c), t)"
    and save_failed: "readable_store s \<Longrightarrow> save c s = (Inl e, t) \<Longrightarrow> readable_store t \<and> fst (load t) = fst (load s)"
    and clear_loads: "readable_store s \<Longrightarrow> clear s = (Inr (), t) \<Longrightarrow> readable_store t \<and> load t = (Inr None, t)"
begin

lemma load_again: "load s = (r, t) \<Longrightarrow> t = s \<and> load t = (r, t)"
  using load_pure [of s] by simp

lemma save_replaces:
  "readable_store s \<Longrightarrow> save a s = (Inr (), t) \<Longrightarrow> save b t = (Inr (), u) \<Longrightarrow> keepable a \<Longrightarrow> keepable b \<Longrightarrow>
     load u = (Inr (Some b), u)"
  using save_loads by blast

end

section \<open>The stores provide it\<close>

lemma byte_quarter: "n < (256 :: nat) \<Longrightarrow> n div 64 < 4"
  by (simp add: less_mult_imp_div_less)

lemma utf8_high:
  assumes "128 \<le> n" and "n < (256 :: nat)"
  shows "192 + n div 64 = 194 \<or> 192 + n div 64 = 195"
  using div_le_mono [OF assms(1), of 64] byte_quarter [OF assms(2)] by auto

lemma utf8_decode_char: "utf8_decode (utf8_char c @ s) = map_option ((#) c) (utf8_decode s)"
proof (cases "code c < 128")
  case True
  then show ?thesis by (simp add: utf8_char_def)
next
  case False
  have bound: "code c < 256" by (rule code_bound)
  have "192 + n div 64 < 256" if "n < 256" for n :: nat using byte_quarter [OF that] by simp
  from code_chr_of [OF this [OF bound]]
  have a: "code (chr_of (192 + code c div 64)) = 192 + code c div 64"
    "code (chr_of (128 + code c mod 64)) = 128 + code c mod 64"
    by (simp_all add: code_chr_of)
  have "chr_of (code c) = c" by (simp add: chr_of_code)
  moreover have "(192 + code c div 64 - 192) * 64 + (128 + code c mod 64 - 128) = code c" by simp
  ultimately show ?thesis
    using False utf8_high [of "code c"] bound by (auto simp: utf8_char_def a)
qed

lemma utf8_roundtrip [simp]: "utf8_decode (utf8_encode s) = Some s"
  by (induction s) (simp_all add: utf8_encode_def utf8_decode_char)

lemma temp_path_neq [simp]: "temp_path random path \<noteq> path" "path \<noteq> temp_path random path"
proof -
  have "length (snd (temp_path random path)) \<noteq> length (snd path)" by (simp add: temp_path_def)
  then show "temp_path random path \<noteq> path" "path \<noteq> temp_path random path" by metis+
qed

text \<open>After an atomic write the file is the new one, after a failed one the old one.\<close>

lemma write_bytes_outcome:
  assumes "write_bytes_atomically fault random path value secure disk = (r, disk')"
  shows "r = Inr () \<Longrightarrow> disk' path = Some value" and "r = Inl e \<Longrightarrow> disk' path = disk path"
    and "other \<noteq> path \<Longrightarrow> other \<noteq> temp_path random path \<Longrightarrow> disk' other = disk other"
    and "r = Inr () \<Longrightarrow> disk' (temp_path random path) = None"
  using assms
  by (auto simp: write_bytes_atomically_def disk_do_def sx_simps Let_def
      split: option.splits if_splits sum.splits prod.splits)

lemma disk_read_same: "disk' path = disk path \<Longrightarrow> fst (disk_read fault path disk') = fst (disk_read fault path disk)"
  by (simp add: disk_read_def sx_simps split: option.split)

definition keepable_text :: "string \<Rightarrow> bool" where
  "keepable_text c \<longleftrightarrow> validate_credential c = Inr () \<and> strip c = c"

interpretation memory_store: credential_store memory_load memory_save memory_clear "\<lambda>_. True" "\<lambda>_. True"
  by unfold_locales
    (auto simp: memory_load_def memory_save_def memory_clear_def sx_simps split: sum.splits)

interpretation file_store: credential_store "file_load fault path" "file_save fault random path"
    "file_clear fault path" "\<lambda>_. can_read fault" keepable_text
proof
  fix s :: disk
  show "snd (file_load fault path s) = s"
    by (auto simp: file_load_def disk_read_def can_read_def sx_simps split: option.splits)
next
  fix s c t
  assume ok: "can_read fault" and run: "file_save fault random path c s = (Inr (), t)" and c: "keepable_text c"
  from run have "write_bytes_atomically fault random path (utf8_encode c) False s = (Inr (), t)"
    by (auto simp: file_save_def sx_simps split: sum.splits)
  from write_bytes_outcome(1) [OF this] have "t path = Some (utf8_encode c)" by simp
  then show "can_read fault \<and> file_load fault path t = (Inr (Some c), t)"
    using ok c by (auto simp: file_load_def disk_read_def can_read_def sx_simps keepable_text_def validate_credential_def)
next
  fix s c e t
  assume ok: "can_read fault" and run: "file_save fault random path c s = (Inl e, t)"
  have "t path = s path"
    using run write_bytes_outcome(2) by (auto simp: file_save_def sx_simps split: sum.splits)
  then show "can_read fault \<and> fst (file_load fault path t) = fst (file_load fault path s)"
    using ok by (simp add: file_load_def disk_read_def can_read_def sx_simps split: option.split)
next
  fix s t
  assume "can_read fault" and "file_clear fault path s = (Inr (), t)"
  then show "can_read fault \<and> file_load fault path t = (Inr None, t)"
    by (auto simp: file_clear_def file_load_def disk_do_def disk_read_def can_read_def sx_simps split: option.splits)
qed

text \<open>DPAPI recovers what it protected, and never as an empty blob.\<close>

definition faithful_protector :: "protector \<Rightarrow> bool" where
  "faithful_protector P \<longleftrightarrow> (\<forall>b x. cp_protect P b = Inr x \<longrightarrow> x \<noteq> [] \<and> cp_unprotect P x = Inr b)"

lemma protected_store:
  assumes "faithful_protector P"
  shows "credential_store (protected_load P fault path) (protected_save P fault random path)
    (protected_clear fault path) (\<lambda>_. can_read fault) (\<lambda>_. True)"
proof
  fix s :: disk
  show "snd (protected_load P fault path s) = s"
    by (auto simp: protected_load_def disk_read_def can_read_def sx_simps split: option.splits sum.splits)
next
  fix s c t
  assume ok: "can_read fault" and run: "protected_save P fault random path c s = (Inr (), t)"
  from run obtain x where x: "validate_credential c = Inr ()" "cp_protect P (utf8_encode c) = Inr x" "x \<noteq> []"
    and wrote: "write_bytes_atomically fault random path x True s = (Inr (), t)"
    by (auto simp: protected_save_def sx_simps split: sum.splits if_splits)
  from write_bytes_outcome(1) [OF wrote] have "t path = Some x" by simp
  moreover have "recover_credential P x = Inr c"
    using assms x by (simp add: faithful_protector_def recover_credential_def)
  ultimately show "can_read fault \<and> protected_load P fault path t = (Inr (Some c), t)"
    using ok x(3) by (simp add: protected_load_def disk_read_def can_read_def sx_simps)
next
  fix s c e t
  assume ok: "can_read fault" and run: "protected_save P fault random path c s = (Inl e, t)"
  have "t path = s path"
    using run write_bytes_outcome(2)
    by (auto simp: protected_save_def sx_simps split: sum.splits if_splits)
  then show "can_read fault \<and> fst (protected_load P fault path t) = fst (protected_load P fault path s)"
    using ok by (simp add: protected_load_def disk_read_def can_read_def sx_simps split: option.split sum.split)
next
  fix s t
  assume "can_read fault" and "protected_clear fault path s = (Inr (), t)"
  then show "can_read fault \<and> protected_load P fault path t = (Inr None, t)"
    by (auto simp: protected_clear_def protected_load_def disk_do_def disk_read_def can_read_def sx_simps split: option.splits)
qed

end
