(* ===== verification/Agent_Enrollment.thy ===== *)
theory Agent_Enrollment
  imports Agent_Store Http_Api TrueNAS_Adapter
begin

text \<open>
  \<open>agent/config.py\<close>, \<open>agent/enrollment.py\<close> and the commands of \<open>agent/entrypoint.py\<close>: reading the
  agent's settings, exchanging a one-shot token for a credential, and starting the service from the
  stored credential.  The state is the store beside the world the HTTP client talks to.
\<close>

section \<open>Settings\<close>

text \<open>The fields the running service reads are those of \<open>agent_config\<close>.\<close>

record agent_settings = agent_config +
  gs_api_base_url :: string
  gs_credential_path :: string
  gs_allow_insecure_http :: bool
  gs_agent_uuid :: "uuid option"

definition agent_refuse :: "string \<Rightarrow> 'a result" where
  "agent_refuse reason = Inl (AgentConfigError reason)"

definition validate_api_url :: "string \<Rightarrow> bool \<Rightarrow> unit result" where
  "validate_api_url url allow_insecure_http =
     bindR (urlparse url) (\<lambda>(scheme, netloc).
     if \<not> (scheme = ''https'' \<or> (allow_insecure_http \<and> scheme = ''http'')) \<or> netloc = []
     then agent_refuse (''AGENT_API_BASE_URL must be a full HTTPS URL, ''
            @ ''or HTTP with AGENT_ALLOW_INSECURE_HTTP=1'')
     else Inr ())"

definition rstrip_slash :: "string \<Rightarrow> string" where
  "rstrip_slash s = rev (dropWhile (\<lambda>c. c = CHR ''/'') (rev s))"

definition agent_from_env :: "env \<Rightarrow> agent_settings result" where
  "agent_from_env env =
     (let api_base_url = rstrip_slash (env_text env ''AGENT_API_BASE_URL'');
          station_id_text = env_text env ''AGENT_STATION_ID'';
          agent_version = env_text env ''AGENT_VERSION''; hostname = env_text env ''AGENT_HOSTNAME'';
          credential_path = env_text env ''AGENT_CREDENTIAL_PATH'';
          agent_uuid_text = env_text env ''AGENT_UUID'';
          verify_key = env_text env ''AGENT_COMMAND_VERIFY_KEY'';
          allow_insecure = (env ''AGENT_ALLOW_INSECURE_HTTP'' = Some ''1'')
      in if api_base_url = [] \<or> station_id_text = [] \<or> agent_version = [] \<or> hostname = []
         then agent_refuse ''agent URL, station ID, version and hostname are required''
         else if credential_path = [] then agent_refuse ''AGENT_CREDENTIAL_PATH is required''
         else
           (case uuid_parse station_id_text of
              Inl e \<Rightarrow> agent_refuse ''AGENT_STATION_ID must be a UUID''
            | Inr station_id \<Rightarrow>
                (case (if agent_uuid_text = [] then Inr None
                       else bindR (uuid_parse agent_uuid_text) (\<lambda>u. Inr (Some u))) of
                   Inl e \<Rightarrow> agent_refuse ''AGENT_UUID must be a UUID''
                 | Inr agent_uuid \<Rightarrow>
                     bindR (validate_api_url api_base_url allow_insecure) (\<lambda>_.
                     Inr \<lparr>gc_station_id = station_id, gc_agent_version = agent_version,
                          gc_hostname = hostname,
                          gc_command_verify_key = (if verify_key = [] then None else Some verify_key),
                          gc_heartbeat_interval = 10, gc_drive_letter = ''D:'',
                          gs_api_base_url = api_base_url, gs_credential_path = credential_path,
                          gs_allow_insecure_http = allow_insecure, gs_agent_uuid = agent_uuid\<rparr>))))"

definition enrollment_url :: "agent_settings \<Rightarrow> string" where
  "enrollment_url s = gs_api_base_url s @ ''/api/v1/agents/enroll''"

section \<open>The enrollment request over HTTP\<close>

text \<open>A reply is a status and the JSON value of its body (none when it is no JSON).\<close>

type_synonym http_reply = "nat \<times> rpc_value option"

definition validate_url :: "string \<Rightarrow> bool \<Rightarrow> unit result" where
  "validate_url url allow_insecure_http =
     bindR (urlparse url) (\<lambda>(scheme, netloc).
     if \<not> (scheme = ''https'' \<or> (allow_insecure_http \<and> scheme = ''http'')) \<or> netloc = []
     then Inl (ValueError ''heartbeat URL must be a full HTTPS URL, or HTTP with allow_insecure_http=True'')
     else Inr ())"

text \<open>\<open>UUID(value)\<close> of a JSON value and \<open>data[key]\<close>.\<close>

definition json_uuid :: "rpc_value \<Rightarrow> uuid result" where
  "json_uuid v =
     (case v of
        RText s \<Rightarrow> uuid_parse s
      | RNull \<Rightarrow> Inl (TypeError ''one of the hex, bytes, bytes_le, fields, or int arguments must be given'')
      | _ \<Rightarrow> Inl (AttributeError ''replace''))"

definition json_item :: "rpc_value \<Rightarrow> string \<Rightarrow> rpc_value result" where
  "json_item v key =
     (case v of
        RObject members \<Rightarrow> (case map_of members key of None \<Rightarrow> Inl (KeyError key) | Some x \<Rightarrow> Inr x)
      | _ \<Rightarrow> Inl (TypeError ''object is not subscriptable''))"

definition malformed_reply :: "exn \<Rightarrow> exn" where
  "malformed_reply e =
     (case e of
        KeyError m \<Rightarrow> EnrollmentError ''agent enrollment response is malformed''
      | TypeError m \<Rightarrow> EnrollmentError ''agent enrollment response is malformed''
      | ValueError m \<Rightarrow> EnrollmentError ''agent enrollment response is malformed''
      | _ \<Rightarrow> e)"

definition enrollment_reply :: "http_reply \<Rightarrow> (uuid \<times> string) result" where
  "enrollment_reply = (\<lambda>(status, body).
     if status = 409
     then Inl (EnrollmentError (''agent enrollment rejected with HTTP 409: enrollment token is ''
            @ ''invalid, expired, or already used; create a new station and token''))
     else if status < 200 \<or> 300 \<le> status
     then Inl (EnrollmentError (''agent enrollment rejected with status '' @ str_nat status))
     else (case (case body of
                   None \<Rightarrow> Inl (ValueError ''invalid json'')
                 | Some data \<Rightarrow>
                     bindR (bindR (json_item data ''station_id'') json_uuid) (\<lambda>station_id.
                     bindR (json_item data ''credential'') (\<lambda>credential.
                     Inr (station_id, credential)))) of
             Inl e \<Rightarrow> Inl (malformed_reply e)
           | Inr (station_id, credential) \<Rightarrow>
               (case credential of
                  RText c \<Rightarrow> if c = [] then Inl (EnrollmentError ''agent enrollment response has no credential'')
                             else Inr (station_id, c)
                | _ \<Rightarrow> Inl (EnrollmentError ''agent enrollment response has no credential''))))"

definition http_enroll ::
    "(agent_enroll_request \<Rightarrow> ('w, http_reply) sx) \<Rightarrow> agent_enroll_request \<Rightarrow> ('w, uuid \<times> string) sx" where
  "http_enroll post request =
     catchS
       (bindS (post request) (\<lambda>reply. liftR (enrollment_reply reply)))
       (\<lambda>e. case e of
          HTTPError m \<Rightarrow> raiseS (EnrollmentError (''agent enrollment request failed; check Controller URL, ''
                @ ''port, HTTP/HTTPS and firewall''))
        | _ \<Rightarrow> raiseS e)"

text \<open>A client connected to the controller: its route, and the JSON of \<open>AgentEnrollResponse\<close>.\<close>

definition controller_post :: "'q api_env \<Rightarrow> agent_enroll_request \<Rightarrow> (db, http_reply) sx" where
  "controller_post env request =
     bindS (enroll_route env request) (\<lambda>reply. returnS
       (case reply of
          Inl status \<Rightarrow> (status, Some (RObject [(''detail'', RText [])]))
        | Inr res \<Rightarrow> (200, Some (RObject
            [(''station_id'', RText (uuid_str (en_station_id res))), (''credential'', RText (en_credential res)),
             (''server_time'', RText (iso_auto (en_server_time res)))]))))"

section \<open>Enrollment\<close>

definition ensure_credential ::
    "('s, string option) sx \<Rightarrow> (string \<Rightarrow> ('s, unit) sx) \<Rightarrow> (agent_enroll_request \<Rightarrow> ('w, uuid \<times> string) sx)
     \<Rightarrow> agent_enroll_request \<Rightarrow> ('s \<times> 'w, string) sx" where
  "ensure_credential load save enroll request =
     bindS (on_db load) (\<lambda>existing.
     case existing of
       Some (c # cs) \<Rightarrow> returnS (c # cs)
     | _ \<Rightarrow>
         bindS (on_ext (enroll request)) (\<lambda>(station_id, credential).
         if credential = [] then raiseS (EnrollmentError ''controller returned an empty agent credential'')
         else bindS (on_db (save credential)) (\<lambda>_. returnS credential)))"

text \<open>The request carries no addresses.\<close>

definition enrollment_request :: "agent_settings \<Rightarrow> string \<Rightarrow> uuid \<Rightarrow> agent_enroll_request" where
  "enrollment_request s token agent_uuid =
     \<lparr>aer_enrollment_token = token, aer_agent_uuid = agent_uuid, aer_hostname = gc_hostname s,
      aer_agent_version = gc_agent_version s, aer_ip_addresses = [], aer_mac_addresses = []\<rparr>"

definition enroll_from_environment ::
    "(string \<Rightarrow> ('s, string option) sx) \<Rightarrow> (string \<Rightarrow> string \<Rightarrow> ('s, unit) sx)
     \<Rightarrow> (agent_enroll_request \<Rightarrow> ('w, http_reply) sx) \<Rightarrow> env \<Rightarrow> ('s \<times> 'w, unit) sx" where
  "enroll_from_environment load_at save_at post env =
     bindS (liftR (agent_from_env env)) (\<lambda>s.
     let token = env_text env ''AGENT_ENROLLMENT_TOKEN''; path = gs_credential_path s
     in case gs_agent_uuid s of
          None \<Rightarrow> raiseS (AgentConfigError ''AGENT_UUID is required for enrollment'')
        | Some agent_uuid \<Rightarrow>
            if token = [] then raiseS (AgentConfigError ''AGENT_ENROLLMENT_TOKEN is required for enrollment'')
            else
              bindS (liftR (validate_url (enrollment_url s) (gs_allow_insecure_http s))) (\<lambda>_.
              bindS (ensure_credential (load_at path) (save_at path) (http_enroll post)
                (enrollment_request s token agent_uuid)) (\<lambda>_.
              returnS ())))"

section \<open>The service\<close>

definition build_enrolled_service ::
    "('k \<Rightarrow> string \<Rightarrow> string \<Rightarrow> bool) \<Rightarrow> (string \<Rightarrow> 'k option) \<Rightarrow> (string \<Rightarrow> ('s, string option) sx)
     \<Rightarrow> agent_settings \<Rightarrow> ('s, heartbeat_agent) sx" where
  "build_enrolled_service verify public_bytes load_at s =
     bindS (load_at (gs_credential_path s)) (\<lambda>credential.
     case credential of
       Some (c # cs) \<Rightarrow> liftR (build_agent_service verify public_bytes (agent_config.truncate s) (c # cs))
     | _ \<Rightarrow> raiseS (AgentConfigError ''agent credential is missing; enrollment is required''))"

definition service_from_environment ::
    "('k \<Rightarrow> string \<Rightarrow> string \<Rightarrow> bool) \<Rightarrow> (string \<Rightarrow> 'k option) \<Rightarrow> (string \<Rightarrow> ('s, string option) sx)
     \<Rightarrow> env \<Rightarrow> ('s, heartbeat_agent) sx" where
  "service_from_environment verify public_bytes load_at env =
     bindS (liftR (agent_from_env env)) (\<lambda>s. build_enrolled_service verify public_bytes load_at s)"

section \<open>Maintenance commands\<close>

text \<open>The round trip of a probe file beside the credential.\<close>

definition CREDENTIAL_STORE_PROBE :: string where
  "CREDENTIAL_STORE_PROBE = ''credential-store-preflight''"

definition check_credential_store ::
    "(path \<Rightarrow> (disk, string option) sx) \<Rightarrow> (path \<Rightarrow> string \<Rightarrow> (disk, unit) sx) \<Rightarrow> (path \<Rightarrow> (disk, unit) sx)
     \<Rightarrow> faults \<Rightarrow> string \<Rightarrow> path \<Rightarrow> (disk, unit) sx" where
  "check_credential_store load_at save_at clear_at fault random path =
     (let probe = temp_path (''check.'' @ random) path
      in bindS (disk_do fault MakeParent (\<lambda>d. d)) (\<lambda>_.
         bindS (disk_do fault MakeTemp (\<lambda>d. d(probe := None))) (\<lambda>_.
         finallyS
           (bindS (save_at probe CREDENTIAL_STORE_PROBE) (\<lambda>_.
            bindS (load_at probe) (\<lambda>found.
            if found \<noteq> Some CREDENTIAL_STORE_PROBE
            then raiseS (AgentConfigError ''credential store preflight did not round-trip'')
            else returnS ())))
           (clear_at probe))))"

text \<open>The move from the user's DPAPI scope to the machine's: both stores are on the same file.\<close>

definition migrate_credential_store ::
    "(disk, string option) sx \<Rightarrow> (string \<Rightarrow> (disk, unit) sx) \<Rightarrow> (disk, string option) sx \<Rightarrow> path
     \<Rightarrow> (disk, unit) sx" where
  "migrate_credential_store target_load target_save legacy_load path =
     bindS (getS (\<lambda>d. d path)) (\<lambda>present.
     if present = None then returnS ()
     else
       bindS (catchS
           (bindS target_load (\<lambda>credential.
            case credential of
              Some (c # cs) \<Rightarrow> bindS (target_save (c # cs)) (\<lambda>_. returnS True)
            | _ \<Rightarrow> returnS False))
           (\<lambda>e. case e of CredentialStoreError m \<Rightarrow> returnS False | _ \<Rightarrow> raiseS e)) (\<lambda>migrated.
       if migrated then returnS ()
       else
         bindS legacy_load (\<lambda>credential.
         case credential of
           Some (c # cs) \<Rightarrow> target_save (c # cs)
         | _ \<Rightarrow> raiseS (CredentialStoreError ''existing credential could not be migrated''))))"

end
