(* ===== verification/Enrollment_Properties.thy ===== *)
theory Enrollment_Properties
  imports Agent_Enrollment Api_Properties Lifecycle_Properties Agent_Properties
begin

text \<open>
  Properties of the agent's credential: it is never lost on disk, enrollment ends in a service whose
  heartbeats the controller accepts exactly when its settings name the station of the token, and an
  enrollment whose save fails cannot be repeated.
\<close>

section \<open>The coordinator over any store\<close>

context credential_store
begin

text \<open>A stored credential is used without asking the controller.\<close>

lemma ensure_stored:
  assumes "load s = (Inr (Some c), s)" and "c \<noteq> []"
  shows "ensure_credential load save enroll request (s, w) = (Inr c, (s, w))"
  using assms by (cases c) (simp_all add: ensure_credential_def sx_simps)

text \<open>A credential that was ensured is the one stored, and ensuring it again changes nothing.\<close>

lemma ensure_again:
  assumes "readable_store s" and "ensure_credential load save enroll request (s, w) = (Inr c, (t, w'))"
    and "keepable c"
  shows "c \<noteq> [] \<and> load t = (Inr (Some c), t)
    \<and> ensure_credential load save enroll' request' (t, v) = (Inr c, (t, v))"
proof -
  obtain r s' where l: "load s = (r, s')" by (cases "load s")
  then have s': "s' = s" using load_pure [of s] by simp
  have "c \<noteq> [] \<and> load t = (Inr (Some c), t)"
  proof (cases "\<exists>x xs. r = Inr (Some (x # xs))")
    case True
    with assms(2) l s' show ?thesis by (auto simp: ensure_credential_def sx_simps)
  next
    case False
    have "c \<noteq> [] \<and> (\<exists>u. save c s = (Inr u, t))"
      using assms(2) l s' False
      by (auto simp: ensure_credential_def sx_simps split: sum.splits prod.splits option.splits list.splits if_splits)
    then show ?thesis using save_loads [OF assms(1) _ assms(3)] by auto
  qed
  with ensure_stored [of t c enroll' request' v] show ?thesis by blast
qed

end

section \<open>The credential on disk\<close>

lemma protected_save_outcome:
  assumes "protected_save P fault random path c disk = (r, disk')"
  shows "r = Inl e \<Longrightarrow> disk' path = disk path"
    and "faithful_protector P \<Longrightarrow> can_read fault \<Longrightarrow> r = Inr () \<Longrightarrow>
      protected_load P fault path disk' = (Inr (Some c), disk')"
proof -
  show "disk' path = disk path" if "r = Inl e"
    using assms that write_bytes_outcome(2)
    by (auto simp: protected_save_def sx_simps split: sum.splits if_splits)
  show "protected_load P fault path disk' = (Inr (Some c), disk')"
    if "faithful_protector P" "can_read fault" "r = Inr ()"
    using credential_store.save_loads [OF protected_store [OF that(1)] that(2)] assms that(3) by blast
qed

lemma protected_load_same:
  "snd (protected_load P fault path d) = d"
  "d path = d' path \<Longrightarrow> fst (protected_load P fault path d) = fst (protected_load P fault path d')"
  by (auto simp: protected_load_def disk_read_def sx_simps split: option.split sum.split)

lemma protected_save_other:
  assumes "protected_save P fault random path c disk = (r, disk')"
    and "other \<noteq> path" and "other \<noteq> temp_path random path"
  shows "disk' other = disk other"
  using assms write_bytes_outcome(3)
  by (auto simp: protected_save_def sx_simps split: sum.splits if_splits)

lemma after_protected_load:
  assumes "\<And>x. fst (protected_load P fault path s) = Inr x \<Longrightarrow> Q x s"
    and "\<And>e. fst (protected_load P fault path s) = Inl e \<Longrightarrow> E e s"
  shows "after (protected_load P fault path) Q E s"
  using assms protected_load_same(1) [of P fault path s]
  by (cases "protected_load P fault path s") (auto simp: after_def split: sum.split)

lemma after_protected_save:
  assumes "faithful_protector P" and "can_read fault"
    and "\<And>t. fst (protected_load P fault path t) = Inr (Some c) \<Longrightarrow> Q () t"
    and "\<And>e t. t path = s path \<Longrightarrow> E e t"
  shows "after (protected_save P fault random path c) Q E s"
proof (cases "protected_save P fault random path c s")
  case (Pair r t)
  then show ?thesis
    using protected_save_outcome [OF Pair] assms
    by (cases r) (auto simp: after_def)
qed

lemma after_migrate:
  assumes "faithful_protector M" and "can_read fault"
  shows "after (migrate_credential_store (protected_load M fault path) (protected_save M fault random path)
      (protected_load U fault path) path)
    (\<lambda>_ t. t path = None \<and> s path = None
       \<or> (\<exists>c. fst (protected_load M fault path t) = Inr (Some c)
            \<and> (fst (protected_load M fault path s) = Inr (Some c)
               \<or> fst (protected_load U fault path s) = Inr (Some c))))
    (\<lambda>_ t. t path = s path) s"
proof -
  let ?Q = "\<lambda>_ t. t path = None \<and> s path = None
       \<or> (\<exists>c. fst (protected_load M fault path t) = Inr (Some c)
            \<and> (fst (protected_load M fault path s) = Inr (Some c)
               \<or> fst (protected_load U fault path s) = Inr (Some c)))"
  let ?E = "\<lambda>_ t. t path = s path"
  have legacy: "after (bindS (protected_load U fault path) (\<lambda>credential.
        case credential of
          Some (c # cs) \<Rightarrow> protected_save M fault random path (c # cs)
        | _ \<Rightarrow> raiseS (CredentialStoreError ''existing credential could not be migrated''))) ?Q ?E t"
    if "t path = s path" for t
  proof -
    have same: "fst (protected_load U fault path t) = fst (protected_load U fault path s)"
      by (rule protected_load_same(2)) (rule that)
    show ?thesis
      unfolding after_bind
      by (rule after_protected_load)
        (use that same in \<open>auto simp: after_raise split: option.split list.split intro!: after_protected_save [OF assms]\<close>)
  qed
  show ?thesis
    unfolding migrate_credential_store_def after_bind after_get after_if after_catch after_return
    by (auto simp: after_bind after_return after_raise split: option.split list.split exn.split
        intro!: after_protected_load after_protected_save [OF assms] legacy [unfolded after_bind])
      (metis protected_load_same(2))+
qed

lemma check_store_untouched:
  "snd (check_credential_store (protected_load M fault) (protected_save M fault random)
     (protected_clear fault) fault random path disk) path = disk path"
proof -
  let ?probe = "temp_path (''check.'' @ random) path"
  have neq: "path \<noteq> ?probe" "path \<noteq> temp_path random ?probe"
  proof -
    show "path \<noteq> ?probe" by simp
    have "length (snd path) < length (snd (temp_path random ?probe))" by (simp add: temp_path_def)
    then show "path \<noteq> temp_path random ?probe" by auto
  qed
  let ?J = "\<lambda>_ t. t path = disk path"
  have save: "after (protected_save M fault random ?probe c) ?J ?J t" if "t path = disk path" for c t
    using that protected_save_other [of M fault random ?probe c t _ _ path] neq
    by (cases "protected_save M fault random ?probe c t") (auto simp: after_def split: sum.split)
  have clear: "after (protected_clear fault ?probe) ?J ?J t" if "t path = disk path" for t
    using that neq by (auto simp: protected_clear_def disk_do_def after_def sx_simps split: option.split)
  have step: "after (disk_do fault st (\<lambda>d. d)) ?J ?J t" if "t path = disk path" for st t
    using that by (auto simp: disk_do_def after_def sx_simps split: option.split)
  have temp: "after (disk_do fault MakeTemp (\<lambda>d. d(?probe := None))) ?J ?J t" if "t path = disk path" for t
    using that neq by (auto simp: disk_do_def after_def sx_simps split: option.split)
  have body: "after (bindS (protected_save M fault random ?probe CREDENTIAL_STORE_PROBE) (\<lambda>_.
      bindS (protected_load M fault ?probe) (\<lambda>found.
      if found \<noteq> Some CREDENTIAL_STORE_PROBE
      then raiseS (AgentConfigError ''credential store preflight did not round-trip'')
      else returnS ()))) ?J ?J t" if "t path = disk path" for t
    unfolding after_bind
    by (rule after_mono, rule save, rule that)
      (auto simp: after_raise after_return intro!: after_protected_load)
  have "after (check_credential_store (protected_load M fault) (protected_save M fault random)
     (protected_clear fault) fault random path) ?J ?J disk"
    unfolding check_credential_store_def Let_def after_bind [of "disk_do _ _ _"] after_finally
    by (intro after_mono [OF step] after_mono [OF temp] after_mono [OF body] after_mono [OF clear]) auto
  then show ?thesis by (auto simp: after_def split: sum.splits prod.splits)
qed

text \<open>C2. The agent's credential is never lost on disk, whichever step of whichever operation fails: a
  save that raises leaves the stored credential readable and one that returns makes the new one
  readable; the preflight of the store does not touch it; and the move from the user's to the
  machine's protection either ends with a credential readable by the machine, the one that was
  readable before, or raises and leaves the file as it was.\<close>

theorem credential_never_lost:
  assumes "faithful_protector M" and "can_read fault"
  shows "(\<forall>c e disk'. protected_save M fault random path c disk = (Inl e, disk') \<longrightarrow>
        fst (protected_load M fault path disk') = fst (protected_load M fault path disk))
    \<and> (\<forall>c disk'. protected_save M fault random path c disk = (Inr (), disk') \<longrightarrow>
        fst (protected_load M fault path disk') = Inr (Some c))
    \<and> snd (check_credential_store (protected_load M fault) (protected_save M fault random)
          (protected_clear fault) fault random path disk) path = disk path
    \<and> (\<forall>disk'. migrate_credential_store (protected_load M fault path) (protected_save M fault random path)
          (protected_load U fault path) path disk = (Inr (), disk') \<longrightarrow>
        disk' path = None \<and> disk path = None
        \<or> (\<exists>c. fst (protected_load M fault path disk') = Inr (Some c)
             \<and> (fst (protected_load M fault path disk) = Inr (Some c)
                \<or> fst (protected_load U fault path disk) = Inr (Some c))))
    \<and> (\<forall>e disk'. migrate_credential_store (protected_load M fault path) (protected_save M fault random path)
          (protected_load U fault path) path disk = (Inl e, disk') \<longrightarrow> disk' path = disk path)"
proof (intro conjI allI impI)
  fix c e disk'
  assume "protected_save M fault random path c disk = (Inl e, disk')"
  then show "fst (protected_load M fault path disk') = fst (protected_load M fault path disk)"
    using protected_save_outcome(1) protected_load_same(2) by blast
next
  fix c disk'
  assume "protected_save M fault random path c disk = (Inr (), disk')"
  from protected_save_outcome(2) [OF this assms refl]
  show "fst (protected_load M fault path disk') = Inr (Some c)" by simp
next
  fix disk'
  assume "migrate_credential_store (protected_load M fault path) (protected_save M fault random path)
    (protected_load U fault path) path disk = (Inr (), disk')"
  from after_Inr [OF after_migrate [OF assms] this]
  show "disk' path = None \<and> disk path = None
    \<or> (\<exists>c. fst (protected_load M fault path disk') = Inr (Some c)
         \<and> (fst (protected_load M fault path disk) = Inr (Some c)
            \<or> fst (protected_load U fault path disk) = Inr (Some c)))" .
next
  fix e disk'
  assume "migrate_credential_store (protected_load M fault path) (protected_save M fault random path)
    (protected_load U fault path) path disk = (Inl e, disk')"
  from after_Inl [OF after_migrate [OF assms] this] show "disk' path = disk path" .
qed (rule check_store_untouched)

section \<open>Enrollment at the controller\<close>

definition enroll_at :: "'q api_env \<Rightarrow> agent_enroll_request \<Rightarrow> (db, enrollment_result) sx" where
  "enroll_at env q =
     enroll_agent (ae_hash env) (ae_secret env) (ae_uuid env 0) (ae_now env)
       (aer_enrollment_token q) (aer_agent_uuid q) (aer_hostname q) (aer_agent_version q)
       (aer_ip_addresses q) (aer_mac_addresses q)"

lemma enroll_at_credential:
  assumes "integrity d" and "enroll_at env q d = (Inr r, d')"
  shows "en_credential r = ae_secret env"
  using assms(2) unfolding enroll_at_def by (rule enroll_agent_Inr [OF assms(1)]) simp

lemma http_enroll_ok:
  assumes "agent_enroll_ok q" and "enroll_at env q d = (Inr r, d')" and "en_credential r \<noteq> []"
  shows "http_enroll (controller_post env) q d = (Inr (en_station_id r, en_credential r), d')"
  using assms
  by (simp add: http_enroll_def controller_post_def enroll_route_def sx_simps answer_run enroll_at_def [symmetric]
      enrollment_reply_def json_item_def json_uuid_def)

lemma http_enroll_Inr:
  assumes "http_enroll (controller_post env) q d = (Inr x, d')"
  obtains r where "agent_enroll_ok q" and "enroll_at env q d = (Inr r, d')"
    and "x = (en_station_id r, en_credential r)"
proof (cases "agent_enroll_ok q")
  case False
  with assms show thesis
    by (simp add: http_enroll_def controller_post_def enroll_route_def sx_simps enrollment_reply_def)
next
  case True
  obtain out d1 where run: "enroll_at env q d = (out, d1)" by (cases "enroll_at env q d")
  show thesis
  proof (cases out)
    case (Inl e)
    have "enroll_status e = 409 \<or> enroll_status e = 500" by (cases e) (simp_all add: enroll_status_def)
    with assms True run Inl show thesis
      by (auto simp: http_enroll_def controller_post_def enroll_route_def sx_simps answer_run
          enroll_at_def [symmetric] enrollment_reply_def)
  next
    case (Inr r)
    show thesis
    proof (rule that [OF True, of r])
      show "enroll_at env q d = (Inr r, d')" "x = (en_station_id r, en_credential r)"
        using assms True run Inr
        by (auto simp: http_enroll_def controller_post_def enroll_route_def sx_simps answer_run
            enroll_at_def [symmetric] enrollment_reply_def json_item_def json_uuid_def split: if_splits)
    qed
  qed
qed

lemma http_enroll_rejected:
  assumes "enroll_at env q d = (Inl (EnrollmentRejectedError m), d)"
  shows "\<exists>e. http_enroll (controller_post env) q d = (Inl e, d)"
  using assms
  by (cases "agent_enroll_ok q")
    (auto simp: http_enroll_def controller_post_def enroll_route_def sx_simps answer_run
      enroll_at_def [symmetric] enrollment_reply_def enroll_status_def)

lemma enrolled_token_used:
  assumes "integrity d" and "enroll_at env q d = (Inr r, d')" and "aer_enrollment_token q' = aer_enrollment_token q"
    and "ae_hash env' = ae_hash env"
  shows "\<exists>m. enroll_at env' q' d' = (Inl (EnrollmentRejectedError m), d')"
  using used_token_rejected [OF assms(1) assms(2) [unfolded enroll_at_def]] assms(3,4)
  by (auto simp: enroll_at_def)

text \<open>A heartbeat of the enrolled agent that names another station is refused.\<close>

lemma foreign_heartbeat_rejected:
  assumes "integrity d" and "enroll_agent H raw aid now token u hostname v ips macs d = (Inr r, d')"
    and "\<forall>a \<in> set (agents d). ar_credential_hash a \<noteq> Some (H raw)"
    and "ps_station_id snapshot \<noteq> en_station_id r"
  shows "\<exists>e d''. receive_heartbeat H now' raw snapshot hostname' ips' macs' d' = (Inl e, d'')"
proof (rule enroll_agent_Inr [OF assms(1,2)])
  fix t s
  assume s: "s \<in> set (stations d)" "sr_id s = er_station_id t"
    and r: "r = \<lparr>en_station_id = sr_station_id s, en_credential = raw, en_server_time = ensure_utc now\<rparr>"
    and d': "d' = enrolled_db t s hostname
      (new_binding aid (sr_station_id s) u v (H raw) (ensure_utc now) ips macs) (ensure_utc now) d"
    and ok: "integrity d'"
  let ?b = "new_binding aid (sr_station_id s) u v (H raw) (ensure_utc now) ips macs"
  have found: "filter (\<lambda>(a, s). ar_credential_hash a = Some (H raw)) (agent_join d') =
      [(agent_record ?b (sr_id s), s\<lparr>sr_hostname := hostname\<rparr>)]"
    unfolding d' by (rule enrolled_agent_found)
      (use ok [unfolded d'] s assms(3) in \<open>simp_all add: agent_record_def new_binding_def\<close>)
  show ?thesis
  proof (cases "receive_heartbeat H now' raw snapshot hostname' ips' macs' d'")
    case (Pair out d'')
    show ?thesis
    proof (cases out)
      case (Inr x)
      with Pair have run: "receive_heartbeat H now' raw snapshot hostname' ips' macs' d' = (Inr x, d'')" by simp
      show ?thesis
        by (rule heartbeat_Inr [OF ok run]) (use found assms(4) r in auto)
    qed (use Pair in auto)
  qed
qed

section \<open>From the environment to the first heartbeat\<close>

text \<open>The agent's store on its disk; \<open>locate\<close> is \<open>pathlib\<close>.\<close>

abbreviation load_at :: "protector \<Rightarrow> faults \<Rightarrow> (string \<Rightarrow> path) \<Rightarrow> string \<Rightarrow> (disk, string option) sx" where
  "load_at P fault locate \<equiv> \<lambda>p. protected_load P fault (locate p)"

abbreviation save_at :: "protector \<Rightarrow> faults \<Rightarrow> string \<Rightarrow> (string \<Rightarrow> path) \<Rightarrow> string \<Rightarrow> string \<Rightarrow> (disk, unit) sx" where
  "save_at P fault random locate \<equiv> \<lambda>p. protected_save P fault random (locate p)"

lemma enroll_from_environment_Inr:
  assumes "agent_from_env vars = Inr s"
    and "fst (protected_load P fault (locate (gs_credential_path s)) disk) = Inr None"
    and "enroll_from_environment (load_at P fault locate) (save_at P fault random locate) post vars (disk, w) =
      (Inr (), (disk', w'))"
  obtains u sid c where "gs_agent_uuid s = Some u"
    and "http_enroll post (enrollment_request s (env_text vars ''AGENT_ENROLLMENT_TOKEN'') u) w = (Inr (sid, c), w')"
    and "protected_save P fault random (locate (gs_credential_path s)) c disk = (Inr (), disk')"
    and "env_text vars ''AGENT_ENROLLMENT_TOKEN'' \<noteq> []"
    and "validate_url (enrollment_url s) (gs_allow_insecure_http s) = Inr ()"
proof -
  have load: "protected_load P fault (locate (gs_credential_path s)) disk = (Inr None, disk)"
    using assms(2) protected_load_same(1) by (metis prod.collapse)
  from assms(1,3) load show thesis
    by (auto simp: enroll_from_environment_def ensure_credential_def sx_simps Let_def
        split: option.splits if_splits sum.splits prod.splits intro: that)
qed

lemma agent_from_env_Inr:
  assumes "agent_from_env vars = Inr s"
  shows "gc_heartbeat_interval s = 10" "gc_drive_letter s = ''D:''"
    "gc_hostname s = env_text vars ''AGENT_HOSTNAME''" "gc_hostname s \<noteq> []"
    "gc_command_verify_key s = (if env_text vars ''AGENT_COMMAND_VERIFY_KEY'' = [] then None
       else Some (env_text vars ''AGENT_COMMAND_VERIFY_KEY''))"
  using assms
  by (auto simp: agent_from_env_def agent_refuse_def Let_def bindR_Inr_iff split: if_splits sum.splits)

lemma sample_drive: "normalize_drive_letter ''D:'' = Inr ''D:''"
  by code_simp

lemma no_addresses: "normalize_ip_addresses (Some []) = Inr (Some [])" "normalize_mac_addresses (Some []) = Inr (Some [])"
  by code_simp+

text \<open>What the enrollment leaves behind.\<close>

lemma enrollment_stored:
  assumes "integrity d" and "faithful_protector P" and "can_read fault" and "agent_from_env vars = Inr s"
    and "fst (protected_load P fault (locate (gs_credential_path s)) disk) = Inr None"
    and "enroll_from_environment (load_at P fault locate) (save_at P fault random locate)
      (controller_post env) vars (disk, d) = (Inr (), (disk', d'))"
  obtains u r where "gs_agent_uuid s = Some u"
    and "agent_enroll_ok (enrollment_request s (env_text vars ''AGENT_ENROLLMENT_TOKEN'') u)"
    and "enroll_at env (enrollment_request s (env_text vars ''AGENT_ENROLLMENT_TOKEN'') u) d = (Inr r, d')"
    and "en_credential r = ae_secret env" and "ae_secret env \<noteq> []"
    and "protected_load P fault (locate (gs_credential_path s)) disk' = (Inr (Some (ae_secret env)), disk')"
    and "env_text vars ''AGENT_ENROLLMENT_TOKEN'' \<noteq> []"
    and "validate_url (enrollment_url s) (gs_allow_insecure_http s) = Inr ()"
proof -
  let ?path = "locate (gs_credential_path s)"
  obtain u sid c where u: "gs_agent_uuid s = Some u"
    and http: "http_enroll (controller_post env) (enrollment_request s (env_text vars ''AGENT_ENROLLMENT_TOKEN'') u) d =
      (Inr (sid, c), d')"
    and save: "protected_save P fault random ?path c disk = (Inr (), disk')"
    and checks: "env_text vars ''AGENT_ENROLLMENT_TOKEN'' \<noteq> []"
      "validate_url (enrollment_url s) (gs_allow_insecure_http s) = Inr ()"
    by (rule enroll_from_environment_Inr [OF assms(4-6)])
  obtain r where q: "agent_enroll_ok (enrollment_request s (env_text vars ''AGENT_ENROLLMENT_TOKEN'') u)"
    and run: "enroll_at env (enrollment_request s (env_text vars ''AGENT_ENROLLMENT_TOKEN'') u) d = (Inr r, d')"
    and r: "c = en_credential r"
    by (rule http_enroll_Inr [OF http]) simp
  have c: "en_credential r = ae_secret env" by (rule enroll_at_credential [OF assms(1) run])
  have "protected_load P fault ?path disk' = (Inr (Some c), disk')"
    by (rule protected_save_outcome(2) [OF save assms(2,3) refl])
  moreover have "c \<noteq> []" using save by (auto simp: protected_save_def validate_credential_def sx_simps)
  ultimately show thesis using that [OF u q run c] r c checks by simp
qed

text \<open>The service that starts from a stored credential: it starts unless the configured key for
  verifying commands cannot be read.\<close>

definition configured_verifier ::
    "('k \<Rightarrow> string \<Rightarrow> string \<Rightarrow> bool) \<Rightarrow> (string \<Rightarrow> 'k option) \<Rightarrow> env \<Rightarrow> (server_command \<Rightarrow> bool) option result" where
  "configured_verifier verify public_bytes vars =
     (if env_text vars ''AGENT_COMMAND_VERIFY_KEY'' = [] then Inr None
      else bindR (verifier_from_base64 public_bytes (env_text vars ''AGENT_COMMAND_VERIFY_KEY'')) (\<lambda>key.
           Inr (Some (verify_command (verify key)))))"

definition service_agent ::
    "agent_settings \<Rightarrow> string \<Rightarrow> (server_command \<Rightarrow> bool) option \<Rightarrow> heartbeat_agent" where
  "service_agent s c v =
     \<lparr>ha_identity = \<lparr>ai_station_id = gc_station_id s, ai_hostname = gc_hostname s,
        ai_agent_version = gc_agent_version s, ai_ip_addresses = [], ai_mac_addresses = []\<rparr>,
      ha_credential = c, ha_interval = 10, ha_backoff = default_backoff, ha_verifier = v,
      ha_process_commands = (v \<noteq> None)\<rparr>"

lemma service_starts:
  assumes "agent_from_env vars = Inr s" and "c \<noteq> []"
    and "protected_load P fault (locate (gs_credential_path s)) disk = (Inr (Some c), disk)"
  shows "service_from_environment verify public_bytes (load_at P fault locate) vars disk =
    (bindR (configured_verifier verify public_bytes vars) (\<lambda>v. Inr (service_agent s c v)), disk)"
proof -
  obtain x xs where "c = x # xs" using assms(2) by (cases c) auto
  then show ?thesis
    using assms agent_from_env_Inr [OF assms(1)] sample_drive
    by (simp add: service_from_environment_def build_enrolled_service_def build_agent_service_def sx_simps
        agent_config.truncate_def mk_heartbeat_agent_def service_agent_def configured_verifier_def
        bindR_def split: sum.split)
qed

lemma enrolled_hostname:
  assumes "agent_from_env vars = Inr s" and "agent_enroll_ok (enrollment_request s token u)"
  shows "normalize_hostname (Some (gc_hostname s)) = Inr (Some (gc_hostname s))"
proof -
  have "length (gc_hostname s) \<le> 255"
    using assms(2) by (simp add: agent_enroll_ok_def enrollment_request_def text_within_def)
  then show ?thesis
    using agent_from_env_Inr(3,4) [OF assms(1)] by (simp add: normalize_hostname_def env_text_def)
qed

text \<open>C1. Enrollment works from the agent's environment to the controller.  After a successful
  enrollment of an agent that had no credential, the token named a station of the controller, the disk
  holds the credential the controller issued, and a further enrollment returns without asking the
  controller.  The service that starts from the same environment starts exactly when
  AGENT\_COMMAND\_VERIFY\_KEY is not set or can be read as a key; a malformed key raises only now, the
  token spent.  A started service has the issued credential and the configured verifier, and its
  heartbeats are accepted if its settings name the station of the token (while that station is enabled
  and the clocks agree) and refused if they name another one: the enrollment itself never compares the
  two.  The tables satisfy their constraints and the stored commands can be read; the drawn credential
  is new to the controller; the credential file can be read and the protector gives back what it was
  given.\<close>

theorem enrolled_service_heartbeats:
  assumes "integrity d" and "commands_readable d" and "faithful_protector P" and "can_read fault"
    and "agent_from_env vars = Inr s"
    and "fst (protected_load P fault (locate (gs_credential_path s)) disk) = Inr None"
    and "enroll_from_environment (load_at P fault locate) (save_at P fault random locate)
      (controller_post env) vars (disk, d) = (Inr (), (disk', d'))"
    and "\<forall>a \<in> set (agents d). ar_credential_hash a \<noteq> Some (ae_hash env (ae_secret env))"
  shows "\<exists>sid. (\<exists>t st. enrollment_by d (ae_hash env (env_text vars ''AGENT_ENROLLMENT_TOKEN'')) = Some t
         \<and> st \<in> set (stations d) \<and> sr_id st = er_station_id t \<and> sr_station_id st = sid)
    \<and> fst (protected_load P fault (locate (gs_credential_path s)) disk') = Inr (Some (ae_secret env))
    \<and> (\<forall>post (w :: 'w). enroll_from_environment (load_at P fault locate) (save_at P fault random locate)
          post vars (disk', w) = (Inr (), (disk', w)))
    \<and> (case configured_verifier verify public_bytes vars of
         Inl e \<Rightarrow> service_from_environment verify public_bytes (load_at P fault locate) vars disk' = (Inl e, disk')
       | Inr v \<Rightarrow> \<exists>ag. service_from_environment verify public_bytes (load_at P fault locate) vars disk' = (Inr ag, disk')
           \<and> ha_verifier ag = v \<and> ha_credential ag = ae_secret env
           \<and> ai_station_id (ha_identity ag) = gc_station_id s)
    \<and> (\<forall>snapshot now' st. ps_station_id snapshot = gc_station_id s \<and> gc_station_id s = sid
         \<and> station_by d sid = Some st \<and> sr_enabled st \<and> sr_deleted_at st = None
         \<and> \<bar>instant now' - instant (ps_captured_at snapshot)\<bar> \<le> HEARTBEAT_CLOCK_SKEW \<longrightarrow>
           (\<exists>cs d''. receive_heartbeat (ae_hash env) now' (ae_secret env) snapshot (Some (gc_hostname s))
              (Some []) (Some []) d' =
              (Inr \<lparr>hb_station_id = sid, hb_received_at = ensure_utc now', hb_commands = cs\<rparr>, d'')))
    \<and> (\<forall>snapshot now' ips macs. ps_station_id snapshot = gc_station_id s \<and> gc_station_id s \<noteq> sid \<longrightarrow>
           (\<exists>e d''. receive_heartbeat (ae_hash env) now' (ae_secret env) snapshot (Some (gc_hostname s))
              ips macs d' = (Inl e, d'')))"
proof -
  obtain u r where u: "gs_agent_uuid s = Some u"
    and q: "agent_enroll_ok (enrollment_request s (env_text vars ''AGENT_ENROLLMENT_TOKEN'') u)"
    and run: "enroll_at env (enrollment_request s (env_text vars ''AGENT_ENROLLMENT_TOKEN'') u) d = (Inr r, d')"
    and c: "en_credential r = ae_secret env" "ae_secret env \<noteq> []"
    and load: "protected_load P fault (locate (gs_credential_path s)) disk' = (Inr (Some (ae_secret env)), disk')"
    and checks: "env_text vars ''AGENT_ENROLLMENT_TOKEN'' \<noteq> []"
      "validate_url (enrollment_url s) (gs_allow_insecure_http s) = Inr ()"
    by (rule enrollment_stored [OF assms(1,3-7)])
  have again: "enroll_from_environment (load_at P fault locate) (save_at P fault random locate) post vars (disk', w) =
      (Inr (), (disk', w))" for post and w :: 'w
    using assms(5) u checks
    by (simp add: enroll_from_environment_def sx_simps Let_def
        credential_store.ensure_stored [OF protected_store [OF assms(3)] load c(2)])
  note enrolled = run [unfolded enroll_at_def]
  have token: "\<exists>t st. enrollment_by d (ae_hash env (env_text vars ''AGENT_ENROLLMENT_TOKEN'')) = Some t
      \<and> st \<in> set (stations d) \<and> sr_id st = er_station_id t \<and> sr_station_id st = en_station_id r"
    using enrolled by (rule enroll_agent_Inr [OF assms(1)]) (auto simp: enrollment_request_def)
  have accept: "\<exists>cs d''. receive_heartbeat (ae_hash env) now' (ae_secret env) snapshot (Some (gc_hostname s))
        (Some []) (Some []) d' =
        (Inr \<lparr>hb_station_id = en_station_id r, hb_received_at = ensure_utc now', hb_commands = cs\<rparr>, d'')"
    if "ps_station_id snapshot = gc_station_id s" "gc_station_id s = en_station_id r"
      "station_by d (en_station_id r) = Some st" "sr_enabled st" "sr_deleted_at st = None"
      "\<bar>instant now' - instant (ps_captured_at snapshot)\<bar> \<le> HEARTBEAT_CLOCK_SKEW" for snapshot now' st
    using enrolled_agent_accepted [OF assms(1) enrolled assms(8) _ that(4,5) assms(2)
        enrolled_hostname [OF assms(5) q] no_addresses that(6)] that(1-3) c(1) by simp
  have refuse: "\<exists>e d''. receive_heartbeat (ae_hash env) now' (ae_secret env) snapshot (Some (gc_hostname s)) ips macs d' = (Inl e, d'')"
    if "ps_station_id snapshot = gc_station_id s" "gc_station_id s \<noteq> en_station_id r" for snapshot now' ips macs
    using foreign_heartbeat_rejected [OF assms(1) enrolled assms(8)] that c(1) by simp
  show ?thesis
    by (rule exI [of _ "en_station_id r"])
      (use service_starts [where P = P and fault = fault and locate = locate, OF assms(5) c(2) load, of verify public_bytes]
         accept refuse token again load
       in \<open>auto simp: service_agent_def split: sum.split\<close>)
qed

text \<open>C3. Enrollment is not atomic: when the credential cannot be stored after the controller has issued
  it, the token is spent, the agent has no credential, and every further attempt with the same
  environment - whatever its disk and whatever the controller draws - is refused with nothing changed.\<close>

theorem failed_save_strands_agent:
  assumes "integrity d" and "agent_from_env vars = Inr s" and "gs_agent_uuid s = Some u"
    and "env_text vars ''AGENT_ENROLLMENT_TOKEN'' = token" and "token \<noteq> []"
    and "validate_url (enrollment_url s) (gs_allow_insecure_http s) = Inr ()"
    and "agent_enroll_ok (enrollment_request s token u)"
    and "fst (protected_load P fault (locate (gs_credential_path s)) disk) = Inr None"
    and "enroll_at env (enrollment_request s token u) d = (Inr r, d1)" and "ae_secret env \<noteq> []"
    and "protected_save P fault random (locate (gs_credential_path s)) (ae_secret env) disk = (Inl e, disk1)"
    and "ae_hash env' = ae_hash env"
  shows "enroll_from_environment (load_at P fault locate) (save_at P fault random locate)
      (controller_post env) vars (disk, d) = (Inl e, (disk1, d1))
    \<and> fst (protected_load P fault (locate (gs_credential_path s)) disk1) = Inr None
    \<and> (\<exists>e'. enroll_from_environment (load_at P fault locate) (save_at P fault' random' locate)
          (controller_post env') vars (disk1, d1) = (Inl e', (disk1, d1)))"
proof -
  let ?path = "locate (gs_credential_path s)" and ?q = "enrollment_request s token u"
  have c: "en_credential r = ae_secret env" by (rule enroll_at_credential [OF assms(1,9)])
  have http: "http_enroll (controller_post env) ?q d = (Inr (en_station_id r, ae_secret env), d1)"
    using http_enroll_ok [OF assms(7,9)] c assms(10) by simp
  have load: "protected_load P fault ?path disk = (Inr None, disk)"
    using assms(8) protected_load_same(1) by (metis prod.collapse)
  have first: "enroll_from_environment (load_at P fault locate) (save_at P fault random locate)
      (controller_post env) vars (disk, d) = (Inl e, (disk1, d1))"
    using assms(2-6,10,11) load http
    by (simp add: enroll_from_environment_def ensure_credential_def sx_simps Let_def)
  have none: "fst (protected_load P fault ?path disk1) = Inr None"
    using protected_load_same(2) [of disk1 ?path disk, OF protected_save_outcome(1) [OF assms(11) refl]] assms(8) by simp
  then have load1: "protected_load P fault ?path disk1 = (Inr None, disk1)"
    using protected_load_same(1) by (metis prod.collapse)
  from enrolled_token_used [OF assms(1,9) refl assms(12)] obtain m where
    "enroll_at env' ?q d1 = (Inl (EnrollmentRejectedError m), d1)" by blast
  from http_enroll_rejected [OF this] obtain e' where
    "http_enroll (controller_post env') ?q d1 = (Inl e', d1)" by blast
  then have "enroll_from_environment (load_at P fault locate) (save_at P fault' random' locate)
      (controller_post env') vars (disk1, d1) = (Inl e', (disk1, d1))"
    using assms(2-6) load1
    by (simp add: enroll_from_environment_def ensure_credential_def sx_simps Let_def)
  with first none show ?thesis by blast
qed

section \<open>Samples\<close>

definition sample_protector :: protector where
  "sample_protector = \<lparr>cp_protect = (\<lambda>b. Inr (CHR ''x'' # b)), cp_unprotect = (\<lambda>x. Inr (tl x))\<rparr>"

lemma sample_protector_faithful: "faithful_protector sample_protector"
  by (simp add: faithful_protector_def sample_protector_def)

definition sound_disk :: faults where
  "sound_disk step = None"

definition busy_disk :: faults where
  "busy_disk step = (if step = ReplaceTarget then Some (OSError ''busy'') else None)"

lemma sample_disks_read: "can_read sound_disk" "can_read busy_disk"
  by (simp_all add: can_read_def sound_disk_def busy_disk_def)

definition agent_vars :: env where
  "agent_vars = map_of [(''AGENT_API_BASE_URL'', ''https://controller/''), (''AGENT_STATION_ID'', uuid_str 2),
     (''AGENT_VERSION'', ''1.0''), (''AGENT_HOSTNAME'', ''pc-1''), (''AGENT_CREDENTIAL_PATH'', ''credential''),
     (''AGENT_UUID'', uuid_str 6), (''AGENT_ENROLLMENT_TOKEN'', ''token'')]"

definition sample_settings :: agent_settings where
  "sample_settings = \<lparr>gc_station_id = 2, gc_agent_version = ''1.0'', gc_hostname = ''pc-1'',
     gc_command_verify_key = None, gc_heartbeat_interval = 10, gc_drive_letter = ''D:'',
     gs_api_base_url = ''https://controller'', gs_credential_path = ''credential'',
     gs_allow_insecure_http = False, gs_agent_uuid = Some 6\<rparr>"

lemma sample_settings_read: "agent_from_env agent_vars = Inr sample_settings"
  by code_simp

definition agent_api :: "unit api_env" where
  "agent_api = (sample_api 5)\<lparr>ae_secret := ''secret''\<rparr>"

lemma sample_enroll_at:
  "enroll_at agent_api (enrollment_request sample_settings ''token'' 6) sample_db =
     (Inr \<lparr>en_station_id = 2, en_credential = ''secret'', en_server_time = Aware 0 0\<rparr>, snd sample_enrollment)"
proof -
  have "enroll_at agent_api (enrollment_request sample_settings ''token'' 6) sample_db = sample_enrollment"
    by (simp add: enroll_at_def agent_api_def sample_api_def enrollment_request_def sample_settings_def sample_enrollment_def)
  then show ?thesis by (simp add: sample_enrollment_eq)
qed

lemma sample_request_ok: "agent_enroll_ok (enrollment_request sample_settings ''token'' 6)"
  by (simp add: agent_enroll_ok_def text_within_def enrollment_request_def sample_settings_def)

lemma sample_request_checks:
  "env_text agent_vars ''AGENT_ENROLLMENT_TOKEN'' = ''token''"
  "env_text agent_vars ''AGENT_COMMAND_VERIFY_KEY'' = []"
  "validate_url (enrollment_url sample_settings) (gs_allow_insecure_http sample_settings) = Inr ()"
  "validate_credential ''secret'' = Inr ()"
  by code_simp+

lemma empty_disk_load: "fst (protected_load P fault path Map.empty) = Inr None" if "can_read fault"
  using that by (simp add: protected_load_def disk_read_def can_read_def sx_simps)

lemma sample_saves:
  "\<exists>disk. protected_save sample_protector sound_disk ''r'' path ''secret'' Map.empty = (Inr (), disk)"
  "\<exists>disk. protected_save sample_protector busy_disk ''r'' path ''secret'' Map.empty = (Inl (OSError ''busy''), disk)"
  by (simp_all add: protected_save_def sample_request_checks(4) sample_protector_def write_bytes_atomically_def
      disk_do_def sound_disk_def busy_disk_def sx_simps Let_def)

lemma busy_save_raises:
  "\<exists>disk'. protected_save sample_protector busy_disk ''r'' path ''secret'' disk = (Inl (OSError ''busy''), disk')"
  by (simp add: protected_save_def sample_request_checks(4) sample_protector_def write_bytes_atomically_def
      disk_do_def busy_disk_def sx_simps Let_def)

theorem credential_never_lost_witness:
  "\<exists>disk disk'. protected_save sample_protector sound_disk ''r'' ([], ''credential'') ''secret'' Map.empty = (Inr (), disk)
     \<and> protected_save sample_protector busy_disk ''r'' ([], ''credential'') ''secret'' disk = (Inl (OSError ''busy''), disk')
     \<and> fst (protected_load sample_protector busy_disk ([], ''credential'') disk') = Inr (Some ''secret'')"
proof -
  let ?load = "\<lambda>fault disk. fst (protected_load sample_protector fault ([], ''credential'') disk)"
  obtain disk where save: "protected_save sample_protector sound_disk ''r'' ([], ''credential'') ''secret'' Map.empty = (Inr (), disk)"
    using sample_saves(1) by blast
  then have "?load sound_disk disk = Inr (Some ''secret'')"
    using credential_never_lost [OF sample_protector_faithful sample_disks_read(1), of "''r''" "([], ''credential'')"
        Map.empty sample_protector] by blast
  then have stored: "?load busy_disk disk = Inr (Some ''secret'')"
    by (simp add: protected_load_def disk_read_def sound_disk_def busy_disk_def)
  obtain disk' where raised: "protected_save sample_protector busy_disk ''r'' ([], ''credential'') ''secret'' disk =
      (Inl (OSError ''busy''), disk')" using busy_save_raises by blast
  then have "?load busy_disk disk' = ?load busy_disk disk"
    using credential_never_lost [OF sample_protector_faithful sample_disks_read(2), of "''r''" "([], ''credential'')"
        disk sample_protector] by blast
  with save raised stored show ?thesis by auto
qed

text \<open>The sample agent enrolls on an empty disk, with any key for its commands.\<close>

definition keyed_vars :: env where
  "keyed_vars = agent_vars(''AGENT_COMMAND_VERIFY_KEY'' \<mapsto> ''not a key'')"

lemma keyed_vars_read:
  "agent_from_env agent_vars = Inr (sample_settings\<lparr>gc_command_verify_key := None\<rparr>)"
  "agent_from_env keyed_vars = Inr (sample_settings\<lparr>gc_command_verify_key := Some ''not a key''\<rparr>)"
  "env_text keyed_vars ''AGENT_ENROLLMENT_TOKEN'' = ''token''"
  by code_simp+

lemma sample_verifiers:
  "configured_verifier verify public_bytes agent_vars = Inr None"
  "configured_verifier verify (\<lambda>raw. None) keyed_vars = Inl (CommandSigningError ''command public key is invalid'')"
proof -
  have "env_text keyed_vars ''AGENT_COMMAND_VERIFY_KEY'' = ''not a key''" by code_simp
  then show "configured_verifier verify (\<lambda>raw. None) keyed_vars =
      Inl (CommandSigningError ''command public key is invalid'')"
    by (simp add: configured_verifier_def verifier_from_base64_def split: option.split)
qed (simp add: configured_verifier_def sample_request_checks)

lemma sample_enrolls:
  assumes "agent_from_env vars = Inr (sample_settings\<lparr>gc_command_verify_key := k\<rparr>)"
    and "env_text vars ''AGENT_ENROLLMENT_TOKEN'' = ''token''"
  shows "\<exists>disk. enroll_from_environment (load_at sample_protector sound_disk (Pair []))
      (save_at sample_protector sound_disk ''r'' (Pair [])) (controller_post agent_api) vars (Map.empty, sample_db) =
    (Inr (), (disk, snd sample_enrollment))"
proof -
  obtain disk where save: "protected_save sample_protector sound_disk ''r'' ([], ''credential'') ''secret'' Map.empty = (Inr (), disk)"
    using sample_saves(1) by blast
  have load: "protected_load sample_protector sound_disk ([], ''credential'') Map.empty = (Inr None, Map.empty)"
    using empty_disk_load [OF sample_disks_read(1)] protected_load_same(1) by (metis prod.collapse)
  have http: "http_enroll (controller_post agent_api) (enrollment_request sample_settings ''token'' 6) sample_db =
      (Inr (2, ''secret''), snd sample_enrollment)"
    using http_enroll_ok [OF sample_request_ok sample_enroll_at] by simp
  have url: "validate_url (enrollment_url (sample_settings\<lparr>gc_command_verify_key := k\<rparr>)) False = Inr ()"
    using sample_request_checks(3) by (simp add: enrollment_url_def sample_settings_def)
  have "enrollment_request (sample_settings\<lparr>gc_command_verify_key := k\<rparr>) t u = enrollment_request sample_settings t u" for t u
    by (simp add: enrollment_request_def)
  then show ?thesis
    using save load http url
    by (simp add: enroll_from_environment_def assms ensure_credential_def sx_simps Let_def)
      (simp add: sample_settings_def ensure_credential_def sx_simps)
qed

theorem enrolled_service_heartbeats_witness:
  "(\<exists>ag disk d cs d'.
     enroll_from_environment (load_at sample_protector sound_disk (Pair [])) (save_at sample_protector sound_disk ''r'' (Pair []))
       (controller_post agent_api) agent_vars (Map.empty, sample_db) = (Inr (), (disk, d))
     \<and> service_from_environment (\<lambda>k m v. True) (\<lambda>raw. None :: unit option)
         (load_at sample_protector sound_disk (Pair [])) agent_vars disk = (Inr ag, disk)
     \<and> receive_heartbeat (\<lambda>x. x) (Aware 2000000 0) (ha_credential ag) sample_snapshot (Some ''pc-1'') (Some []) (Some []) d =
       (Inr \<lparr>hb_station_id = 2, hb_received_at = Aware 2000000 0, hb_commands = cs\<rparr>, d'))
   \<and> (\<exists>e disk d.
     enroll_from_environment (load_at sample_protector sound_disk (Pair [])) (save_at sample_protector sound_disk ''r'' (Pair []))
       (controller_post agent_api) keyed_vars (Map.empty, sample_db) = (Inr (), (disk, d))
     \<and> service_from_environment (\<lambda>k m v. True) (\<lambda>raw. None :: unit option)
         (load_at sample_protector sound_disk (Pair [])) keyed_vars disk = (Inl e, disk))"
proof -
  let ?load = "load_at sample_protector sound_disk (Pair [])"
  let ?service = "service_from_environment (\<lambda>k m v. True) (\<lambda>raw. None :: unit option) ?load"
  let ?enroll = "\<lambda>vars. enroll_from_environment ?load (save_at sample_protector sound_disk ''r'' (Pair []))
    (controller_post agent_api) vars (Map.empty, sample_db)"
  have st: "station_by sample_db 2 = Some sample_station" "sr_enabled sample_station" "sr_deleted_at sample_station = None"
    "\<forall>a \<in> set (agents sample_db). ar_credential_hash a \<noteq> Some (ae_hash agent_api (ae_secret agent_api))"
    "commands_readable sample_db" "ae_hash agent_api = (\<lambda>x. x)" "ae_secret agent_api = ''secret''"
    by (simp_all add: station_by_def sample_defs commands_readable_def agent_api_def sample_api_def)
  have none: "fst (protected_load sample_protector sound_disk path Map.empty) = Inr None" for path
    by (rule empty_disk_load [OF sample_disks_read(1)])
  note enrolled = enrolled_service_heartbeats [OF integrity_sample_db st(5) sample_protector_faithful
      sample_disks_read(1) _ none _ st(4), where verify = "\<lambda>k m v. True" and public_bytes = "\<lambda>raw. None :: unit option"]
  obtain disk where run: "?enroll agent_vars = (Inr (), (disk, snd sample_enrollment))"
    using sample_enrolls [OF keyed_vars_read(1) sample_request_checks(1)] by blast
  obtain sid t s where t: "enrollment_by sample_db ''token'' = Some t" "s \<in> set (stations sample_db)"
      "sr_id s = er_station_id t" "sr_station_id s = sid"
    and ag: "\<exists>ag. ?service agent_vars disk = (Inr ag, disk) \<and> ha_credential ag = ''secret''"
    and beat: "\<forall>snapshot now' st. ps_station_id snapshot = 2 \<and> 2 = sid
         \<and> station_by sample_db sid = Some st \<and> sr_enabled st \<and> sr_deleted_at st = None
         \<and> \<bar>instant now' - instant (ps_captured_at snapshot)\<bar> \<le> HEARTBEAT_CLOCK_SKEW \<longrightarrow>
           (\<exists>cs d''. receive_heartbeat (\<lambda>x. x) now' ''secret'' snapshot (Some ''pc-1'')
              (Some []) (Some []) (snd sample_enrollment) =
              (Inr \<lparr>hb_station_id = sid, hb_received_at = ensure_utc now', hb_commands = cs\<rparr>, d''))"
    using enrolled [OF sample_settings_read run] unfolding sample_request_checks(1) sample_verifiers(1) st(6,7) sum.case
    by (simp add: sample_settings_def) blast
  have "sid = 2" using t by (auto simp: enrollment_by_def sample_defs)
  with beat st have "\<exists>cs d''. receive_heartbeat (\<lambda>x. x) (Aware 2000000 0) ''secret'' sample_snapshot (Some ''pc-1'')
      (Some []) (Some []) (snd sample_enrollment) =
      (Inr \<lparr>hb_station_id = 2, hb_received_at = ensure_utc (Aware 2000000 0), hb_commands = cs\<rparr>, d'')"
    by (intro beat [rule_format, where st = sample_station, unfolded \<open>sid = 2\<close>])
      (simp_all add: sample_defs HEARTBEAT_CLOCK_SKEW_def minutes_def seconds_def)
  then obtain cs d'' where "receive_heartbeat (\<lambda>x. x) (Aware 2000000 0) ''secret'' sample_snapshot (Some ''pc-1'')
      (Some []) (Some []) (snd sample_enrollment) =
      (Inr \<lparr>hb_station_id = 2, hb_received_at = Aware 2000000 0, hb_commands = cs\<rparr>, d'')" by auto
  moreover obtain ag where "?service agent_vars disk = (Inr ag, disk)" "ha_credential ag = ''secret''" using ag by blast
  moreover obtain disk' where run': "?enroll keyed_vars = (Inr (), (disk', snd sample_enrollment))"
    using sample_enrolls [OF keyed_vars_read(2,3)] by blast
  moreover obtain e where "?service keyed_vars disk' = (Inl e, disk')"
    using enrolled [OF keyed_vars_read(2) run'] unfolding sample_verifiers(2) sum.case by blast
  ultimately show ?thesis using run by (intro conjI exI) auto
qed

theorem failed_save_strands_agent_witness:
  "\<exists>disk d e'. enroll_from_environment (load_at sample_protector busy_disk (Pair [])) (save_at sample_protector busy_disk ''r'' (Pair []))
      (controller_post agent_api) agent_vars (Map.empty, sample_db) = (Inl (OSError ''busy''), (disk, d))
    \<and> enroll_from_environment (load_at sample_protector busy_disk (Pair [])) (save_at sample_protector sound_disk ''r'' (Pair []))
      (controller_post agent_api) agent_vars (disk, d) = (Inl e', (disk, d))"
proof -
  obtain disk where save: "protected_save sample_protector busy_disk ''r'' ([], ''credential'') ''secret'' Map.empty =
      (Inl (OSError ''busy''), disk)" using sample_saves(2) by blast
  have sels: "gs_credential_path sample_settings = ''credential''" "gs_agent_uuid sample_settings = Some 6"
    "ae_secret agent_api = ''secret''"
    by (simp_all add: sample_settings_def agent_api_def)
  from failed_save_strands_agent [OF integrity_sample_db sample_settings_read sels(2) sample_request_checks(1) _
      sample_request_checks(3) sample_request_ok _ sample_enroll_at _ _ refl, of sample_protector busy_disk "Pair []"
      Map.empty "''r''" "OSError ''busy''" disk sound_disk "''r''"]
  show ?thesis
    using save empty_disk_load [OF sample_disks_read(2)] unfolding sels by auto
qed

end
