(* ===== verification/Spec2Isabelle.thy ===== *)
theory Spec2Isabelle
  imports Lifecycle_Properties Publish_Properties Publish_Creation Fake_Properties
    TrueNAS_Properties Executor_Properties Dataset_Properties Cleanup_Properties Worker_Properties Adapter_Properties
    Agent_Properties Station_Properties Api_Properties Api_Invariant Runtime_Properties Enrollment_Properties
begin

text \<open>
  A verification library for the Game Update Controller: a FastAPI controller, a worker process and
  a Windows agent that switch the iSCSI game disks of client stations to clones of a source dataset.
  Paths are relative to \<open>src/\<close>.

  \<^bold>\<open>The program.\<close>  An operator registers stations over HTTP and hands each a one-shot enrollment token
  (\<open>presentation/\<close>, \<open>application/lifecycle.py\<close>).  The agent on the station exchanges the token for a
  credential, keeps it in a protected file and sends heartbeats with what runs on the station; the
  reply may carry signed commands (\<open>agent/\<close>).  A publish job goes from a draft through a preparation,
  which asks the stored snapshots of the stations whether they may be switched, to a dispatch, which
  leaves an event in an outbox (\<open>application/publish_*.py\<close>, \<open>domain/publish.py\<close>).  The worker relays
  the outbox to a queue, runs the job against the storage and persists what happened to each station
  (\<open>worker/\<close>, \<open>application/publish_executor.py\<close>, \<open>truenas_adapter/\<close>).  A dataset that no station
  boots from any more is deleted by a retention pass (\<open>application/datasets.py\<close>,
  \<open>application/dataset_cleanup.py\<close>).  All share one database through units of work (\<open>repository/\<close>).

  \<^bold>\<open>How it is modelled.\<close>  An entity is a record, an enumeration a datatype, an exception a value of
  \<open>exn\<close>.  A computation that may raise returns \<open>exn + 'a\<close>; one with an effect is
  \<open>'s \<Rightarrow> (exn + 'a) \<times> 's\<close>, so that what an exception leaves behind is part of the result.  Times,
  ids and secrets the code draws are arguments, in the order it draws them.  The database is a record
  of row lists; a unit of work is a committed database beside a session, and a commit checks the
  constraints.  Library calls are functions given as arguments, their documented behaviour the
  assumptions of a locale or named hypotheses.  The model ranges over texts of code points 0 to 255.

  \<^bold>\<open>The theories.\<close>
  \<^item> \<open>Py_Prelude\<close>, \<open>Py_Hoare\<close>, \<open>Py_Retry\<close>: exceptions, results, computations, loops, postconditions
    \<open>after\<close>, and the retry loop the transports share.  \<open>Py_Text\<close>, \<open>Py_Values\<close>, \<open>Py_Calendar\<close>,
    \<open>Py_Env\<close>: what the sources use of \<open>str\<close>, \<open>datetime\<close>, \<open>UUID\<close>, \<open>int\<close>, \<open>float\<close>, \<open>urlparse\<close>.
  \<^item> \<open>Domain_Station\<close>, \<open>Domain_Preflight\<close>, \<open>Domain_Publish\<close>: \<open>domain/\<close>; the job statuses also as a
    step relation with reachability and the rank that bounds every run.
  \<^item> \<open>Tables\<close>, \<open>Station_Repo\<close>, \<open>Agent_Repo\<close>, \<open>Token_Repo\<close>, \<open>Lease_Repo\<close>, \<open>Publish_Repo\<close>,
    \<open>Db_Frames\<close>: \<open>repository/\<close>.  Token stores and leased queues are the locales \<open>token_store\<close> and
    \<open>lease_queue\<close>, interpreted on the repositories.
  \<^item> \<open>Addresses\<close>, \<open>Lifecycle\<close>, \<open>Registry_Cases\<close>, \<open>Publish_Cases\<close>, \<open>Publish_Gate\<close>, \<open>Publish_Creation\<close>:
    the use cases of \<open>application/\<close> on stations, policies and jobs; the properties are in
    \<open>Lifecycle_Properties\<close>, \<open>Publish_Properties\<close>, and, over the step relation of all use cases that
    write stations, in \<open>Station_Frames\<close> and \<open>Station_Properties\<close>.
  \<^item> \<open>Storage_Port\<close>, \<open>Fake_Workflow\<close>, \<open>Fake_Run\<close>, \<open>Fake_Properties\<close>: \<open>application/publish.py\<close> over
    the locales \<open>storage_port\<close> and \<open>definite_port\<close>, interpreted on \<open>truenas_adapter/mock_client.py\<close>.
  \<^item> \<open>TrueNAS_Port\<close>, \<open>TrueNAS_Workflow\<close>, \<open>TrueNAS_Run\<close>, \<open>TrueNAS_Properties\<close>:
    \<open>application/truenas_publish.py\<close> over the locale \<open>truenas_port\<close>, interpreted on
    \<open>truenas_adapter/write_fake.py\<close>.
  \<^item> \<open>TrueNAS_Adapter\<close>, \<open>TrueNAS_Transport\<close>, \<open>TrueNAS_Config\<close>, \<open>TrueNAS_Remote\<close>,
    \<open>TrueNAS_Server\<close>, \<open>Adapter_Properties\<close>: the JSON-RPC clients of \<open>truenas_adapter/\<close>.  The locale
    \<open>nas_remote\<close> states the documented contract of the methods that the workflow calls and nothing
    of other methods; a server with outages, which also deletes datasets and their extents, is its
    interpretation; the clients refine the port of the workflow on every such server.
  \<^item> \<open>Publish_Executor\<close>, \<open>Executor_Facts\<close>, \<open>Executor_Properties\<close>: \<open>application/publish_executor.py\<close>
    and the handlers of \<open>worker/composition.py\<close>; the locale \<open>publish_executor\<close> covers both executors.
  \<^item> \<open>Datasets\<close>, \<open>Dataset_Cleanup\<close>, \<open>Artifact_Facts\<close>, \<open>Dataset_Facts\<close>, \<open>Dataset_Properties\<close>,
    \<open>Cleanup_Properties\<close>: inventory, deletion queue and retention.
  \<^item> \<open>Worker_Relay\<close>, \<open>Worker_Runtime\<close>, \<open>Worker_Facts\<close>, \<open>Worker_Properties\<close>, \<open>Runtime_Properties\<close>:
    \<open>worker/\<close>: the outbox relay, the task messages, the configuration and the loop of the process.
  \<^item> \<open>Http_Schemas\<close>, \<open>Http_Api\<close>, \<open>Api_Properties\<close>, \<open>Api_Invariant\<close>: the routes of
    \<open>presentation/\<close> with authentication, request checks, status codes and responses.
  \<^item> \<open>Agent_Protocol\<close>, \<open>Agent_Signing\<close>, \<open>Agent_Heartbeat\<close>, \<open>Agent_Controller\<close>,
    \<open>Agent_Properties\<close>: the agent's heartbeats, its signed commands, and the agent against the routes
    of the controller.  \<open>Agent_Store\<close>, \<open>Agent_Enrollment\<close>, \<open>Enrollment_Properties\<close>: the credential
    stores (locale \<open>credential_store\<close>) on a disk whose steps may fail, enrollment and the commands of
    the entrypoint.
  \<^item> \<open>Samples\<close>: concrete tables for the witnesses.

  \<^bold>\<open>What is shown.\<close>
  \<^item> Registry: tokens are granted once; a heartbeat is accepted from the live agent of its station only;
    every request of an operator keeps the constraints and the station list readable; in every reachable
    database a blank host name, which only enrollment and bootstrap store, is all that can keep a station
    from being read, and what it breaks is exhibited; without the password the API does nothing.
  \<^item> Jobs: creation is idempotent in its key; a dispatch needs a confirmed job whose selected targets
    passed and adds one outbox event; a preparation that says a job can advance is not refused.
  \<^item> Delivery: a poll settles each leased event once and changes nothing else; the deliveries tried are
    bounded; a due event is sent within a bounded number of rounds; a message carries its ids
    unchanged; a dispatched job reaches the executor; a delivered message settles its job once.
  \<^item> Storage: both workflows report what storage holds and touch selected stations only; a run that
    raises before its first write, or a dry run, writes nothing; the adapters keep the port's contract
    although answers may be lost; persistence keeps at most one current artifact per station.
  \<^item> Retention: only records neither current nor deleted are queued, a pass deletes what is eligible
    only, both its counts are the outcomes the table shows row by row, and the inventory agrees with the
    table.
  \<^item> Agent: signed commands are accepted until they expire and any other command is turned away before
    it has an effect; transport failures never end the loop; the stored credential survives every
    failing step of a save; an enrollment ends in a service, unless the key for verifying commands is
    malformed, whose heartbeats are accepted when its settings name the station of the token.
  \<^item> Where the code does not do what it means to, the theorem states what it does: a shared slug or a
    shared dataset, an unverified switch that retires a dataset in use, a late command that ends the
    agent, a retry of a draft that conflicts, a queue outage that ends the worker, an unsupported
    version that strands jobs, a CA file that is missed only when the clients are built, a failed save
    that strands an agent.

  \<^bold>\<open>Bounds and fuel.\<close>  Loops over lists are structural.  The receive loop of the JSON-RPC transport takes
  \<open>patience\<close>, the number of messages that can arrive before the deadline of one attempt; every
  statement quantifies over it.  Retry loops recurse over the configured number of attempts, as the
  code does.  The loop of the agent and the loop of the worker may run for ever; they take the number
  of rounds, and each statement holds for every number, or names the number that is enough: the
  worker has sent every due event after \<open>budget div 10 + 1\<close> rounds, \<open>budget\<close> being the deliveries the
  pending events have left and 10 its batch.

  \<^bold>\<open>Not modelled.\<close>  FastAPI, Pydantic, SQLAlchemy, Dramatiq, the WebSocket and HTTP libraries, \<open>psutil\<close>,
  Ed25519, SHA-256 and DPAPI are not part of the repository: parameters, or left out where the code only
  configures them (engine, pool and broker construction, \<open>main.py\<close>).  The Windows service host
  (\<open>agent/service.py\<close>, \<open>agent/windows_*.py\<close>) is calls of pywin32 and ctypes.  Migrations
  (\<open>repository/migrations/\<close>) repeat the tables of \<open>repository/models.py\<close>.  The operator scripts
  (\<open>scripts/\<close>) are packaging.  The TypeScript front end is another program.  Log lines, display
  messages of checks, the parsing of the JSON of a heartbeat reply, columns that no statement reads and
  lengths of \<open>VARCHAR\<close> columns are left out; two units of work never overlap, a relay and its use cases
  interleave between units of work only.
\<close>

end
